(* ===== verification/Prelude.thy ===== *)
theory Prelude
  imports Complex_Main "HOL-Library.AList" "HOL-Library.Char_ord" "HOL-Library.List_Lexorder"
    "HOL-Library.Product_Lexorder"
begin

text \<open>
  Shared vocabulary of the development: JSON values, insertion-ordered dictionaries, results that
  are either an exception or a value, the Python string helpers the sources use, and the generic
  lemmas on lists and dictionaries that the component theories rely on.

  A Python \<open>dict\<close> is an association list with distinct keys. \<^const>\<open>AList.update\<close>
  overwrites a key in place and appends a new one at the end, exactly as \<open>d[k] = v\<close> does, and
  \<^const>\<open>AList.delete\<close> is \<open>d.pop(k, None)\<close>. A raised exception is \<open>Inl\<close>, a
  returned value is \<open>Inr\<close>.
\<close>

named_theorems accept_simps \<open>when a sequence of fallible steps succeeds\<close>

section \<open>Dictionaries and JSON\<close>

type_synonym ('k, 'v) dict = "('k \<times> 'v) list"

type_synonym uuid = nat

datatype json =
    JNull
  | JBool bool
  | JInt int
  | JFloat rat
  | JStr string
  | JArr "json list"
  | JObj "(string \<times> json) list"

type_synonym jobject = "(string, json) dict"

text \<open>The keys of a dictionary, in order, and the dictionary invariant.\<close>

abbreviation dkeys :: "('k, 'v) dict \<Rightarrow> 'k list" where
  "dkeys d \<equiv> map fst d"

definition dict_ok :: "('k, 'v) dict \<Rightarrow> bool" where
  "dict_ok d \<longleftrightarrow> distinct (dkeys d)"

text \<open>\<open>d.get(k, default)\<close>\<close>

definition dget_or :: "'v \<Rightarrow> ('k, 'v) dict \<Rightarrow> 'k \<Rightarrow> 'v" where
  "dget_or v d k = (case map_of d k of None \<Rightarrow> v | Some w \<Rightarrow> w)"

text \<open>In-place mutation of the value stored under a key, \<open>d[k].attr = ...\<close>.\<close>

fun dmodify :: "'k \<Rightarrow> ('v \<Rightarrow> 'v) \<Rightarrow> ('k, 'v) dict \<Rightarrow> ('k, 'v) dict" where
  "dmodify k f [] = []"
| "dmodify k f ((a, v) # d) = (if a = k then (a, f v) # d else (a, v) # dmodify k f d)"

text \<open>Mutation of every value of a dictionary.\<close>

definition dmap :: "('k \<Rightarrow> 'v \<Rightarrow> 'v) \<Rightarrow> ('k, 'v) dict \<Rightarrow> ('k, 'v) dict" where
  "dmap f d = map (\<lambda>(k, v). (k, f k v)) d"

text \<open>Python truthiness of a JSON value and of optional strings.\<close>

fun truthy :: "json \<Rightarrow> bool" where
  "truthy JNull = False"
| "truthy (JBool b) = b"
| "truthy (JInt n) = (n \<noteq> 0)"
| "truthy (JFloat r) = (r \<noteq> 0)"
| "truthy (JStr s) = (s \<noteq> [])"
| "truthy (JArr xs) = (xs \<noteq> [])"
| "truthy (JObj d) = (d \<noteq> [])"

fun opt_truthy :: "string option \<Rightarrow> bool" where
  "opt_truthy None = False"
| "opt_truthy (Some s) = (s \<noteq> [])"

text \<open>The integer a JSON value is for \<open>isinstance(value, int)\<close>: booleans are integers in Python.\<close>

fun json_int :: "json \<Rightarrow> int option" where
  "json_int (JInt n) = Some n"
| "json_int (JBool b) = Some (if b then 1 else 0)"
| "json_int _ = None"

text \<open>\<open>a or b\<close> on strings\<close>

definition str_or :: "string \<Rightarrow> string \<Rightarrow> string" where
  "str_or a b = (if a = [] then b else a)"

section \<open>Strings\<close>

text \<open>
  Strings are lists of bytes (UTF-8). \<open>strip\<close> removes the ASCII white space of
  \<open>str.strip()\<close> at both ends; the white space outside ASCII that Python also strips is not
  recognised by the model.
\<close>

definition is_space :: "char \<Rightarrow> bool" where
  "is_space c \<longleftrightarrow> of_char c \<in> {9, 10, 11, 12, 13, 28, 29, 30, 31, 32 :: nat}"

definition strip :: "string \<Rightarrow> string" where
  "strip s = rev (dropWhile is_space (rev (dropWhile is_space s)))"

text \<open>\<open>str.lower()\<close> on ASCII letters.\<close>

definition lower_char :: "char \<Rightarrow> char" where
  "lower_char c = (let n = of_char c :: nat in if 65 \<le> n \<and> n \<le> 90 then char_of (n + 32) else c)"

definition lower :: "string \<Rightarrow> string" where
  "lower s = map lower_char s"

text \<open>\<open>str(n)\<close> and \<open>sep.join(parts)\<close>\<close>

fun nat_str :: "nat \<Rightarrow> string" where
  "nat_str n = (if n < 10 then [char_of (48 + n)] else nat_str (n div 10) @ [char_of (48 + n mod 10)])"

declare nat_str.simps [simp del]

definition int_str :: "int \<Rightarrow> string" where
  "int_str n = (if n < 0 then CHR ''-'' # nat_str (nat (- n)) else nat_str (nat n))"

fun join :: "string \<Rightarrow> string list \<Rightarrow> string" where
  "join sep [] = []"
| "join sep [x] = x"
| "join sep (x # y # xs) = x @ sep @ join sep (y # xs)"

text \<open>\<open>part in s\<close>\<close>

definition contains :: "string \<Rightarrow> string \<Rightarrow> bool" where
  "contains part s = list_ex (\<lambda>i. take (length part) (drop i s) = part) [0..<Suc (length s)]"

section \<open>Results\<close>

definition bindE :: "'e + 'a \<Rightarrow> ('a \<Rightarrow> 'e + 'b) \<Rightarrow> 'e + 'b" where
  "bindE r f = (case r of Inl e \<Rightarrow> Inl e | Inr x \<Rightarrow> f x)"

definition guardE :: "'e \<Rightarrow> bool \<Rightarrow> 'e + unit" where
  "guardE e b = (if b then Inr () else Inl e)"

text \<open>A loop whose body may raise: the first exception ends it.\<close>

fun foldE :: "('s \<Rightarrow> 'x \<Rightarrow> 'e + 's) \<Rightarrow> 's \<Rightarrow> 'x list \<Rightarrow> 'e + 's" where
  "foldE f s [] = Inr s"
| "foldE f s (x # xs) = (case f s x of Inl e \<Rightarrow> Inl e | Inr s' \<Rightarrow> foldE f s' xs)"

section \<open>Generic lemmas\<close>

lemma bindE_simps [simp]:
  "bindE (Inl e) f = Inl e"
  "bindE (Inr x) f = f x"
  by (simp_all add: bindE_def)

lemma bindE_Inr_iff [accept_simps]: "bindE r f = Inr y \<longleftrightarrow> (\<exists>x. r = Inr x \<and> f x = Inr y)"
  by (cases r) auto

lemma bindE_Inr_E:
  assumes "bindE r f = Inr y"
  obtains x where "r = Inr x" and "f x = Inr y"
  using assms by (auto simp: bindE_Inr_iff)

lemma guardE_Inr_iff [simp]: "guardE e b = Inr u \<longleftrightarrow> b"
  by (simp add: guardE_def)

lemma guardE_Inl_iff [simp]: "guardE e b = Inl e' \<longleftrightarrow> \<not> b \<and> e' = e"
  by (auto simp: guardE_def)

lemma projr_eq: "\<not> isl x \<Longrightarrow> x = Inr (projr x)"
  by simp

text \<open>An invariant of the loop body is an invariant of the loop.\<close>

lemma foldE_invariant:
  assumes "foldE f s xs = Inr t" and "P s"
    and "\<And>s x s'. x \<in> set xs \<Longrightarrow> P s \<Longrightarrow> f s x = Inr s' \<Longrightarrow> P s'"
  shows "P t"
  using assms
proof (induction xs arbitrary: s)
  case Nil
  then show ?case by simp
next
  case (Cons x xs)
  from Cons.prems(1) obtain s' where s': "f s x = Inr s'" and rest: "foldE f s' xs = Inr t"
    by (auto split: sum.splits)
  have "P s'" using Cons.prems(2,3) s' by auto
  with rest Cons.prems(3) show ?case by (auto intro: Cons.IH)
qed

lemma foldE_append:
  "foldE f s (xs @ ys) = bindE (foldE f s xs) (\<lambda>s'. foldE f s' ys)"
  by (induction xs arbitrary: s) (auto split: sum.splits)

lemma dkeys_dmodify [simp]: "dkeys (dmodify k f d) = dkeys d"
  by (induction k f d rule: dmodify.induct) auto

lemma dkeys_dmap [simp]: "dkeys (dmap f d) = dkeys d"
  by (induction d) (auto simp: dmap_def)

lemma map_of_dmap [simp]: "map_of (dmap f d) k = map_option (f k) (map_of d k)"
  by (induction d) (auto simp: dmap_def)

lemma map_of_dmodify [simp]:
  "map_of (dmodify k f d) a = (if a = k then map_option f (map_of d k) else map_of d a)"
  by (induction k f d rule: dmodify.induct) auto

lemma dict_ok_dmodify [simp]: "dict_ok (dmodify k f d) = dict_ok d"
  by (simp add: dict_ok_def)

lemma dict_ok_dmap [simp]: "dict_ok (dmap f d) = dict_ok d"
  by (simp add: dict_ok_def)

lemma dict_ok_update [simp]: "dict_ok d \<Longrightarrow> dict_ok (AList.update k v d)"
  by (simp add: dict_ok_def distinct_update)

lemma dict_ok_delete [simp]: "dict_ok d \<Longrightarrow> dict_ok (AList.delete k d)"
  by (simp add: dict_ok_def distinct_delete)

lemma dict_ok_Nil [simp]: "dict_ok []"
  by (simp add: dict_ok_def)

lemma dget_or_update [simp]: "dget_or v (AList.update k w d) a = (if a = k then w else dget_or v d a)"
  by (simp add: dget_or_def update_conv')

lemma map_of_filter_keys:
  "map_of (filter (\<lambda>(k, v). P k) d) a = (if P a then map_of d a else None)"
  by (induction d) auto

lemma map_of_map_key_value:
  "map_of (map (\<lambda>k. (k, f k)) ks) a = (if a \<in> set ks then Some (f a) else None)"
  by (induction ks) auto

lemma find_SomeD:
  assumes "find P xs = Some x"
  shows "x \<in> set xs" and "P x"
  using assms by (auto simp: find_Some_iff)

lemma strip_Nil [simp]: "strip [] = []"
  by (simp add: strip_def)

lemma find_snoc: "find P (xs @ [x]) = (case find P xs of Some y \<Rightarrow> Some y | None \<Rightarrow> if P x then Some x else None)"
  by (induction xs) auto

end
