(* ===== verification/Contracts.thy ===== *)
theory Contracts
  imports Prelude
begin

text \<open>
  The contracts of the planner/orchestrator boundary
  (\<open>apps/api/src/app/runtime/orchestrator_contracts.py\<close>): the status enumerations, the task,
  need, patch and result models with their validators, and the technical failure types. A pydantic
  model is a record, its \<open>model_validator\<close> a function that either raises or accepts, and a
  \<open>Literal\<close> or \<open>Enum\<close> a datatype with the source's members. \<open>Optional[Any]\<close> values are
  \<^typ>\<open>json\<close>, with \<^const>\<open>JNull\<close> for \<open>None\<close>.
\<close>

section \<open>Exceptions of the runtime\<close>

datatype plan_problem =
    DuplicateDependencies string
  | SelfDependency string
  | UnknownDependencies string
  | GraphCycle
  | ReplaceActive string
  | RemoveActive
  | NotRunning string
  | UnresolvedNeeds string
  | MissingOutputs string
  | NotResumable string
  | NotWaitingForPlanner
  | PersistenceConstraint

datatype patch_problem =
    DuplicateTaskIds
  | PatchDuplicateDependencies string
  | PatchSelfDependency string
  | CreateAndRemove
  | CreateAfterZero
  | AskWithoutQuestion
  | FailWithoutReason
  | CompleteWithMutation
  | FieldConstraint

datatype runtime_error =
    KeyError
  | PlanConflictError int int
  | PlanValidationError plan_problem
  | TaskNotFoundError string
  | PatchInvalid patch_problem
  | ResultInvalid
  | AttributeError
  | IntegrityError
  | BudgetError string
  | PyTypeError
  | ValidationError
  | NoActiveIteration

section \<open>Enumerations\<close>

datatype PlanStatus =
  PlanDraft | PlanActive | PlanWaitingInput | PlanCompleted | PlanFailed | PlanCancelled

datatype TaskStatus =
    TaskPending | TaskReady | TaskRunning | TaskWaitingDependency | TaskWaitingUser
  | TaskWaitingRetry | TaskCompleted | TaskUnfulfillable | TaskFailed | TaskCancelled

datatype RequirementStatus = ReqPending | ReqResolved | ReqWaitingUser | ReqUnresolvable

datatype AttemptStatus =
  AttRunning | AttSucceeded | AttFailed | AttTimedOut | AttCancelled

datatype TaskOutcome = OutCompleted | OutNeedsDependency | OutUnfulfillable

datatype TaskSuccessAction = OnContinue | OnReplan

datatype PlannerDecisionKind =
  CreatePlan | RevisePlan | AskUser | CompletePlan | FailPlan

datatype NeedKind = NeedData | NeedArtifact | NeedDecision

section \<open>Models\<close>

record NeedSpec =
  ns_ref :: string
  ns_key :: string
  ns_kind :: NeedKind
  ns_description :: string
  ns_schema :: jobject
  ns_required :: bool
  ns_context :: jobject
  ns_resolved_value :: json
  ns_resolved_by :: "string option"
  ns_resolved_at_iteration :: "int option"

record TaskOutputSpec =
  os_key :: string
  os_description :: string
  os_schema :: jobject
  os_required :: bool

record PlannedTask =
  pt_task_id :: string
  pt_executor :: string
  pt_intent :: string
  pt_instructions :: string
  pt_inputs :: jobject
  pt_expected_outputs :: "TaskOutputSpec list"
  pt_depends_on :: "string list"
  pt_needs :: "NeedSpec list"
  pt_on_success :: TaskSuccessAction

record PlanPatch =
  pp_expected_revision :: int
  pp_decision :: PlannerDecisionKind
  pp_goal :: "string option"
  pp_tasks :: "PlannedTask list"
  pp_remove_task_ids :: "string list"
  pp_question :: "string option"
  pp_answer_brief :: "string option"
  pp_failure_reason :: "string option"
  pp_rationale :: string
  pp_trigger :: "string option"

record TaskRequest =
  rq_task_id :: string
  rq_executor :: string
  rq_intent :: string
  rq_instructions :: string
  rq_inputs :: jobject
  rq_needs :: "NeedSpec list"
  rq_checkpoint :: jobject
  rq_dependency_outputs :: "(string, string \<times> jobject \<times> jobject) dict"
  rq_memory_context :: "json list"
  rq_expected_outputs :: "TaskOutputSpec list"

record AgentTaskResult =
  ar_outcome :: TaskOutcome
  ar_summary :: string
  ar_outputs :: jobject
  ar_checkpoint :: jobject
  ar_needs :: "NeedSpec list"
  ar_reason_code :: "string option"
  ar_evidence :: jobject

record TaskAttemptFailure =
  tf_code :: string
  tf_message :: string
  tf_retryable :: bool
  tf_timed_out :: bool
  tf_details :: jobject

section \<open>Validators\<close>

text \<open>Field constraints (\<open>min_length=1\<close>, \<open>ge=0\<close>) of the models.\<close>

definition NeedSpec_ok :: "NeedSpec \<Rightarrow> bool" where
  "NeedSpec_ok n \<longleftrightarrow> ns_key n \<noteq> [] \<and> ns_description n \<noteq> []"

definition TaskOutputSpec_ok :: "TaskOutputSpec \<Rightarrow> bool" where
  "TaskOutputSpec_ok s \<longleftrightarrow> os_key s \<noteq> [] \<and> os_description s \<noteq> []"

definition PlannedTask_ok :: "PlannedTask \<Rightarrow> bool" where
  "PlannedTask_ok t \<longleftrightarrow>
     pt_task_id t \<noteq> [] \<and> pt_executor t \<noteq> [] \<and> pt_intent t \<noteq> [] \<and> pt_instructions t \<noteq> []
     \<and> list_all TaskOutputSpec_ok (pt_expected_outputs t) \<and> list_all NeedSpec_ok (pt_needs t)"

text \<open>The dependency checks of one task of a patch.\<close>

definition patch_task_check :: "unit \<Rightarrow> PlannedTask \<Rightarrow> runtime_error + unit" where
  "patch_task_check _ t =
     (if length (pt_depends_on t) \<noteq> card (set (pt_depends_on t))
      then Inl (PatchInvalid (PatchDuplicateDependencies (pt_task_id t)))
      else if pt_task_id t \<in> set (pt_depends_on t)
      then Inl (PatchInvalid (PatchSelfDependency (pt_task_id t)))
      else Inr ())"

definition validate_patch :: "PlanPatch \<Rightarrow> runtime_error + PlanPatch" where
  "validate_patch p =
     (let task_ids = map pt_task_id (pp_tasks p) in
      bindE (guardE (PatchInvalid FieldConstraint)
               (0 \<le> pp_expected_revision p \<and> pp_goal p \<noteq> Some []
                \<and> list_all PlannedTask_ok (pp_tasks p))) (\<lambda>_.
      if length task_ids \<noteq> card (set task_ids) then Inl (PatchInvalid DuplicateTaskIds)
      else bindE (foldE patch_task_check () (pp_tasks p)) (\<lambda>_.
      if set (pp_remove_task_ids p) \<inter> set task_ids \<noteq> {} then Inl (PatchInvalid CreateAndRemove)
      else if pp_decision p = CreatePlan \<and> pp_expected_revision p \<noteq> 0
      then Inl (PatchInvalid CreateAfterZero)
      else if pp_decision p = AskUser \<and> \<not> opt_truthy (pp_question p)
      then Inl (PatchInvalid AskWithoutQuestion)
      else if pp_decision p = FailPlan \<and> \<not> opt_truthy (pp_failure_reason p)
      then Inl (PatchInvalid FailWithoutReason)
      else if pp_decision p = CompletePlan \<and> (pp_tasks p \<noteq> [] \<or> pp_remove_task_ids p \<noteq> [])
      then Inl (PatchInvalid CompleteWithMutation)
      else Inr p)))"

definition validate_outcome :: "AgentTaskResult \<Rightarrow> runtime_error + AgentTaskResult" where
  "validate_outcome r =
     (if ar_outcome r = OutCompleted \<and> ar_needs r \<noteq> [] then Inl ResultInvalid
      else if ar_outcome r = OutNeedsDependency \<and> ar_needs r = [] then Inl ResultInvalid
      else Inr r)"

section \<open>What an accepted patch guarantees\<close>

lemma length_card_set: "length xs = card (set xs) \<longleftrightarrow> distinct xs"
  by (metis card_distinct distinct_card)

lemma patch_task_check_Inr:
  "patch_task_check u t = Inr v \<longleftrightarrow>
     distinct (pt_depends_on t) \<and> pt_task_id t \<notin> set (pt_depends_on t)"
  by (auto simp: patch_task_check_def length_card_set)

lemma foldE_patch_task_check:
  "foldE patch_task_check () ts = Inr v \<longleftrightarrow>
     (\<forall>t\<in>set ts. distinct (pt_depends_on t) \<and> pt_task_id t \<notin> set (pt_depends_on t))"
proof (induction ts)
  case Nil
  then show ?case by simp
next
  case (Cons t ts)
  show ?case
    by (cases "patch_task_check () t")
       (use Cons.IH in \<open>auto simp: patch_task_check_Inr [of "()" t "()", symmetric] patch_task_check_def
          length_card_set split: if_splits\<close>)
qed

definition patch_ok :: "PlanPatch \<Rightarrow> bool" where
  "patch_ok p \<longleftrightarrow>
     0 \<le> pp_expected_revision p \<and> pp_goal p \<noteq> Some [] \<and> list_all PlannedTask_ok (pp_tasks p)
     \<and> distinct (map pt_task_id (pp_tasks p))
     \<and> (\<forall>t\<in>set (pp_tasks p). distinct (pt_depends_on t) \<and> pt_task_id t \<notin> set (pt_depends_on t))
     \<and> set (pp_remove_task_ids p) \<inter> pt_task_id ` set (pp_tasks p) = {}
     \<and> (pp_decision p = CreatePlan \<longrightarrow> pp_expected_revision p = 0)
     \<and> (pp_decision p = AskUser \<longrightarrow> opt_truthy (pp_question p))
     \<and> (pp_decision p = FailPlan \<longrightarrow> opt_truthy (pp_failure_reason p))
     \<and> (pp_decision p = CompletePlan \<longrightarrow> pp_tasks p = [] \<and> pp_remove_task_ids p = [])"

lemma validate_patch_accepts_iff: "validate_patch p = Inr q \<longleftrightarrow> q = p \<and> patch_ok p"
proof -
  have f: "(\<exists>u. foldE patch_task_check () (pp_tasks p) = Inr u) \<longleftrightarrow>
      (\<forall>t\<in>set (pp_tasks p). distinct (pt_depends_on t) \<and> pt_task_id t \<notin> set (pt_depends_on t))"
    by (simp add: foldE_patch_task_check)
  show ?thesis
    by (auto simp: validate_patch_def patch_ok_def accept_simps Let_def length_card_set
        foldE_patch_task_check split: if_splits)
qed

lemma validate_outcome_accepts_iff:
  "validate_outcome r = Inr q \<longleftrightarrow>
     q = r \<and> (ar_outcome r = OutCompleted \<longrightarrow> ar_needs r = [])
           \<and> (ar_outcome r = OutNeedsDependency \<longrightarrow> ar_needs r \<noteq> [])"
  by (auto simp: validate_outcome_def)

end
