(* ===== verification/Task_Graph.thy ===== *)
theory Task_Graph
  imports Contracts
begin

text \<open>
  The graph checks of \<open>apps/api/src/app/runtime/plan_store.py\<close> that both plan stores share:
  \<open>validate_task_graph\<close>, \<open>task_is_ready\<close> and \<open>_missing_contract_outputs\<close>.

  The depth-first search keeps its two sets as lists. \<open>visiting\<close> holds the tasks on the current
  recursion path: the source adds a task before its dependencies are visited and removes it
  afterwards, so on entry to a call it is exactly the path, which the model passes as an argument.
  \<open>visited\<close> is threaded through the calls. The dependencies of a task are iterated in list order
  where the source iterates a set; the theorem at the end shows that the order does not matter.
\<close>

section \<open>Operations\<close>

type_synonym graph = "(string, string list) dict"

definition graph_of :: "PlannedTask list \<Rightarrow> graph" where
  "graph_of ts = fold (\<lambda>t g. AList.update (pt_task_id t) (pt_depends_on t) g) ts []"

text \<open>The relation \<open>t\<close> depends on \<open>d\<close>.\<close>

definition depends :: "graph \<Rightarrow> (string \<times> string) set" where
  "depends g = {(t, d). \<exists>ds. map_of g t = Some ds \<and> d \<in> set ds}"

function (sequential) visit ::
    "graph \<Rightarrow> string list \<Rightarrow> string \<Rightarrow> string list \<Rightarrow> runtime_error + string list"
  and visit_all ::
    "graph \<Rightarrow> string list \<Rightarrow> string list \<Rightarrow> string list \<Rightarrow> runtime_error + string list"
where
  "visit g visiting t visited =
     (if t \<in> set visiting then Inl (PlanValidationError GraphCycle)
      else if t \<in> set visited then Inr visited
      else case map_of g t of
             None \<Rightarrow> Inl KeyError
           | Some ds \<Rightarrow>
               (case visit_all g (t # visiting) ds visited of
                  Inl e \<Rightarrow> Inl e
                | Inr visited' \<Rightarrow> Inr (t # visited')))"
| "visit_all g visiting [] visited = Inr visited"
| "visit_all g visiting (d # ds) visited =
     (case visit g visiting d visited of
        Inl e \<Rightarrow> Inl e
      | Inr visited' \<Rightarrow> visit_all g visiting ds visited')"
  by pat_completeness auto

text \<open>Each nested visit puts one more key of the graph on the path.\<close>

definition visit_measure ::
    "(graph \<times> string list \<times> string \<times> string list) + (graph \<times> string list \<times> string list \<times> string list)
     \<Rightarrow> nat \<times> nat" where
  "visit_measure x =
     (case x of
        Inl (g, visiting, t, visited) \<Rightarrow> (card (set (dkeys g) - set visiting), 0)
      | Inr (g, visiting, ds, visited) \<Rightarrow> (card (set (dkeys g) - set visiting), Suc (length ds)))"

lemma visit_measure_step:
  assumes "t \<notin> set visiting" and "map_of g t = Some ds"
  shows "card (set (dkeys g) - set (t # visiting)) < card (set (dkeys g) - set visiting)"
proof -
  have "t \<in> set (dkeys g)"
    using assms(2) by (metis domI dom_map_of_conv_image_fst list.set_map)
  then have "set (dkeys g) - set (t # visiting) \<subset> set (dkeys g) - set visiting"
    using assms(1) by auto
  then show ?thesis by (rule psubset_card_mono [rotated]) simp
qed

termination visit
proof (relation "inv_image (less_than <*lex*> less_than) visit_measure", goal_cases)
  case 1
  show ?case by (intro wf_inv_image wf_lex_prod wf_less_than)
next
  case (2 g visiting t visited ds)
  have "card (set (dkeys g) - set (t # visiting)) < card (set (dkeys g) - set visiting)"
    using 2(1,3) by (rule visit_measure_step)
  then show ?case unfolding in_inv_image visit_measure_def by simp
next
  case 3
  show ?case unfolding in_inv_image visit_measure_def by simp
next
  case 4
  show ?case unfolding in_inv_image visit_measure_def by simp
qed

declare visit.simps [simp del] visit_all.simps [simp del]

definition check_item :: "unit \<Rightarrow> PlannedTask \<Rightarrow> runtime_error + unit" where
  "check_item _ item =
     (if length (pt_depends_on item) \<noteq> card (set (pt_depends_on item))
      then Inl (PlanValidationError (DuplicateDependencies (pt_task_id item)))
      else if pt_task_id item \<in> set (pt_depends_on item)
      then Inl (PlanValidationError (SelfDependency (pt_task_id item)))
      else Inr ())"

definition check_known :: "string set \<Rightarrow> unit \<Rightarrow> string \<times> string list \<Rightarrow> runtime_error + unit" where
  "check_known ids _ entry =
     (if set (snd entry) - ids \<noteq> {} then Inl (PlanValidationError (UnknownDependencies (fst entry)))
      else Inr ())"

definition validate_task_graph :: "PlannedTask list \<Rightarrow> runtime_error + unit" where
  "validate_task_graph tasks =
     (let ids = pt_task_id ` set tasks; g = graph_of tasks in
      bindE (foldE check_item () tasks) (\<lambda>_.
      bindE (foldE (check_known ids) () g) (\<lambda>_.
      bindE (visit_all g [] (dkeys g) []) (\<lambda>_. Inr ()))))"

text \<open>
  \<open>task_is_ready\<close> reads the task's status, the statuses of its dependencies (a missing task has
  no status) and, for each need, whether it is required and its requirement status (absent when
  nothing was recorded for it).
\<close>

definition task_is_ready ::
    "TaskStatus option \<Rightarrow> string list \<Rightarrow> (bool \<times> RequirementStatus option) list
     \<Rightarrow> (string \<Rightarrow> TaskStatus option) \<Rightarrow> bool" where
  "task_is_ready status depends_on needs all_tasks =
     (if status \<notin> {Some TaskPending, Some TaskReady} then False
      else list_all (\<lambda>dep. all_tasks dep = Some TaskCompleted) depends_on
           \<and> list_all (\<lambda>(required, st). \<not> required \<or> st = Some ReqResolved) needs)"

definition missing_contract_outputs :: "TaskOutputSpec list \<Rightarrow> AgentTaskResult \<Rightarrow> string list" where
  "missing_contract_outputs expected_outputs result =
     [os_key spec. spec \<leftarrow> expected_outputs,
        os_required spec \<and> os_key spec \<notin> set (dkeys (ar_outputs result))]"

text \<open>A task, a patch and a result for the concrete instances of the theorems.\<close>

definition demo_task :: "string \<Rightarrow> string list \<Rightarrow> PlannedTask" where
  "demo_task tid ds = \<lparr>pt_task_id = tid, pt_executor = ''agent'', pt_intent = ''do'',
     pt_instructions = ''run'', pt_inputs = [], pt_expected_outputs = [], pt_depends_on = ds,
     pt_needs = [], pt_on_success = OnContinue\<rparr>"

definition demo_patch :: "int \<Rightarrow> PlanPatch" where
  "demo_patch n = \<lparr>pp_expected_revision = n, pp_decision = CreatePlan, pp_goal = None,
     pp_tasks = [demo_task ''a'' [], demo_task ''b'' [''a'']], pp_remove_task_ids = [],
     pp_question = None, pp_answer_brief = None, pp_failure_reason = None, pp_rationale = [],
     pp_trigger = None\<rparr>"

definition demo_result :: AgentTaskResult where
  "demo_result = \<lparr>ar_outcome = OutCompleted, ar_summary = ''done'', ar_outputs = [(''x'', JInt 1)],
     ar_checkpoint = [], ar_needs = [], ar_reason_code = None, ar_evidence = []\<rparr>"

lemma demo_patch_valid: "validate_patch (demo_patch 0) = Inr (demo_patch 0)"
  unfolding validate_patch_accepts_iff patch_ok_def demo_patch_def demo_task_def PlannedTask_ok_def
  by simp

section \<open>The graph dictionary\<close>

lemma graph_of_snoc:
  "graph_of (ts @ [t]) = AList.update (pt_task_id t) (pt_depends_on t) (graph_of ts)"
  by (simp add: graph_of_def)

lemma graph_of_Nil [simp]: "graph_of [] = []"
  by (simp add: graph_of_def)

lemma set_dkeys_graph_of: "fst ` set (graph_of ts) = pt_task_id ` set ts"
  by (induction ts rule: rev_induct) (auto simp: graph_of_snoc dom_update)

lemma dict_ok_graph_of [simp]: "dict_ok (graph_of ts)"
  by (induction ts rule: rev_induct) (auto simp: graph_of_snoc)

lemma map_of_graph_of:
  "distinct (map pt_task_id ts) \<Longrightarrow> t \<in> set ts \<Longrightarrow>
     map_of (graph_of ts) (pt_task_id t) = Some (pt_depends_on t)"
  by (induction ts rule: rev_induct) (auto simp: graph_of_snoc update_conv' image_iff)

lemma map_of_graph_of_iff:
  "distinct (map pt_task_id ts) \<Longrightarrow>
     map_of (graph_of ts) k = Some ds \<longleftrightarrow> (\<exists>t\<in>set ts. pt_task_id t = k \<and> pt_depends_on t = ds)"
  by (induction ts rule: rev_induct) (auto simp: graph_of_snoc update_conv' image_iff)

lemma depends_iff: "(t, d) \<in> depends g \<longleftrightarrow> (\<exists>ds. map_of g t = Some ds \<and> d \<in> set ds)"
  by (simp add: depends_def)

lemma depends_source: "(t, d) \<in> depends g \<Longrightarrow> t \<in> set (dkeys g)"
  by (auto simp: depends_iff dest: map_of_SomeD intro: rev_image_eqI)

section \<open>Merging a patch into a dictionary of tasks\<close>

lemma map_of_fold_update_items:
  assumes "distinct (map pt_task_id items)"
  shows "map_of (fold (\<lambda>item d. AList.update (pt_task_id item) item d) items base) t =
         (case find (\<lambda>item. pt_task_id item = t) items of Some item \<Rightarrow> Some item | None \<Rightarrow> map_of base t)"
  using assms
proof (induction items arbitrary: base)
  case Nil
  then show ?case by simp
next
  case (Cons x xs)
  have "find (\<lambda>item. pt_task_id item = pt_task_id x) xs = None"
    using Cons.prems by (auto simp: find_None_iff image_iff)
  then show ?case using Cons by (auto simp: update_conv' split: option.splits)
qed

lemma set_fold_update_items:
  "set (fold (\<lambda>item d. AList.update (pt_task_id item) item d) items base)
   \<subseteq> set base \<union> (\<lambda>item :: PlannedTask. (pt_task_id item, item)) ` set items"
proof (induction items arbitrary: base)
  case Nil
  then show ?case by simp
next
  case (Cons x xs)
  have upd: "set (AList.update k v d) \<subseteq> insert (k, v) (set d)" for k v and d :: "(string \<times> PlannedTask) list"
    by (induction d) auto
  show ?case
    using Cons.IH [of "AList.update (pt_task_id x) x base"] upd [of "pt_task_id x" x base]
    unfolding fold_simps list.set image_insert by blast
qed

lemma graph_of_keyed:
  assumes ok: "dict_ok c" and keyed: "\<And>k t. (k, t) \<in> set c \<Longrightarrow> k = pt_task_id t"
  shows "map_of (graph_of (map snd c)) t = map_option pt_depends_on (map_of c t)"
proof -
  have ids: "map pt_task_id (map snd c) = dkeys c"
    using keyed by (auto simp: comp_def intro!: map_cong)
  then have dist: "distinct (map pt_task_id (map snd c))"
    using ok unfolding ids dict_ok_def by blast
  show ?thesis
  proof (cases "map_of c t")
    case None
    then have "t \<notin> fst ` set (graph_of (map snd c))"
      using ids by (auto simp: set_dkeys_graph_of map_of_eq_None_iff dest: keyed intro: rev_image_eqI)
    then have "map_of (graph_of (map snd c)) t = None" by (simp add: map_of_eq_None_iff)
    then show ?thesis unfolding None by simp
  next
    case (Some x)
    then have mem: "(t, x) \<in> set c" by (rule map_of_SomeD)
    then have "x \<in> set (map snd c)" and "pt_task_id x = t"
      using keyed by force+
    then show ?thesis using map_of_graph_of [OF dist] Some by auto
  qed
qed

section \<open>The search accepts exactly the acyclic graphs\<close>

text \<open>A set of finished tasks: closed under dependencies and free of cycles.\<close>

definition settled :: "graph \<Rightarrow> string set \<Rightarrow> bool" where
  "settled g V \<longleftrightarrow> depends g `` V \<subseteq> V \<and> (\<forall>x\<in>V. (x, x) \<notin> (depends g)\<^sup>+)"

lemma settled_insert:
  assumes "settled g V" and "t \<notin> V" and "map_of g t = Some ds" and "set ds \<subseteq> V"
  shows "settled g (insert t V)"
proof -
  let ?E = "depends g"
  have step: "?E `` {t} \<subseteq> V"
    using assms(3,4) by (auto simp: depends_iff)
  have closed: "?E\<^sup>* `` V = V"
    using assms(1) by (simp add: settled_def Image_closed_trancl)
  have "(t, t) \<notin> ?E\<^sup>+"
  proof
    assume "(t, t) \<in> ?E\<^sup>+"
    then obtain d where "(t, d) \<in> ?E" and "(d, t) \<in> ?E\<^sup>*"
      by (meson tranclD)
    with step closed have "t \<in> V" by blast
    with assms(2) show False by simp
  qed
  with assms(1) step show ?thesis by (auto simp: settled_def)
qed

lemma visit_sound:
  "visit g visiting t visited = Inr visited' \<Longrightarrow> settled g (set visited) \<Longrightarrow>
     set visited \<subseteq> set visited' \<and> t \<in> set visited' \<and> settled g (set visited')"
  "visit_all g visiting ts visited = Inr visited' \<Longrightarrow> settled g (set visited) \<Longrightarrow>
     set visited \<subseteq> set visited' \<and> set ts \<subseteq> set visited' \<and> settled g (set visited')"
proof (induction g visiting t visited and g visiting ts visited arbitrary: visited' and visited'
    rule: visit_visit_all.induct)
  case (1 g visiting t visited)
  show ?case
  proof (cases "t \<in> set visited")
    case True
    with 1 show ?thesis by (auto simp: visit.simps split: if_splits)
  next
    case False
    with 1(2) obtain ds w where nv: "t \<notin> set visiting" and ds: "map_of g t = Some ds"
      and w: "visit_all g (t # visiting) ds visited = Inr w" and v': "visited' = t # w"
      by (auto simp: visit.simps split: if_splits option.splits sum.splits)
    have IH: "set visited \<subseteq> set w \<and> set ds \<subseteq> set w \<and> settled g (set w)"
      using 1(1) [OF nv False ds w 1(3)] .
    show ?thesis
    proof (cases "t \<in> set w")
      case True
      then have "set (t # w) = set w" by auto
      with IH v' True show ?thesis by auto
    next
      case False
      with IH ds have "settled g (insert t (set w))"
        by (auto intro: settled_insert)
      with IH v' show ?thesis by auto
    qed
  qed
next
  case (2 g visiting visited)
  then show ?case by (simp add: visit_all.simps)
next
  case (3 g visiting d ds visited)
  then obtain w where w: "visit g visiting d visited = Inr w"
    and rest: "visit_all g visiting ds w = Inr visited'"
    by (auto simp: visit_all.simps split: sum.splits)
  have a: "set visited \<subseteq> set w \<and> d \<in> set w \<and> settled g (set w)"
    using 3(1) [OF w 3(4)] .
  have "set w \<subseteq> set visited' \<and> set ds \<subseteq> set visited' \<and> settled g (set visited')"
    using 3(2) [OF w rest] a by simp
  with a show ?case by auto
qed

lemma visit_complete:
  "acyclic (depends g) \<Longrightarrow> \<forall>(k, ds)\<in>set g. set ds \<subseteq> set (dkeys g) \<Longrightarrow> t \<in> set (dkeys g) \<Longrightarrow>
     \<forall>p\<in>set visiting. (p, t) \<in> (depends g)\<^sup>+ \<Longrightarrow> \<exists>v. visit g visiting t visited = Inr v"
  "acyclic (depends g) \<Longrightarrow> \<forall>(k, ds)\<in>set g. set ds \<subseteq> set (dkeys g) \<Longrightarrow> set ts \<subseteq> set (dkeys g) \<Longrightarrow>
     \<forall>p\<in>set visiting. \<forall>d\<in>set ts. (p, d) \<in> (depends g)\<^sup>+ \<Longrightarrow>
     \<exists>v. visit_all g visiting ts visited = Inr v"
proof (induction g visiting t visited and g visiting ts visited rule: visit_visit_all.induct)
  case (1 g visiting t visited)
  have nv: "t \<notin> set visiting"
    using 1(2,5) by (auto simp: acyclic_def)
  show ?case
  proof (cases "t \<in> set visited")
    case True
    with nv show ?thesis by (simp add: visit.simps)
  next
    case False
    obtain ds where ds: "map_of g t = Some ds"
      using 1(4) by (metis image_set map_of_eq_None_iff option.exhaust)
    have sub: "set ds \<subseteq> set (dkeys g)"
      using 1(3) map_of_SomeD [OF ds] by fastforce
    have edge: "\<forall>d\<in>set ds. (t, d) \<in> depends g"
      using ds by (auto simp: depends_iff)
    have "\<forall>p\<in>set (t # visiting). \<forall>d\<in>set ds. (p, d) \<in> (depends g)\<^sup>+"
      using edge 1(5) by (auto intro: trancl_into_trancl r_into_trancl)
    then obtain w where "visit_all g (t # visiting) ds visited = Inr w"
      using 1(1) [OF nv False ds 1(2,3) sub] by blast
    with nv False ds show ?thesis by (simp add: visit.simps)
  qed
next
  case (2 g visiting visited)
  then show ?case by (simp add: visit_all.simps)
next
  case (3 g visiting d ds visited)
  obtain w where w: "visit g visiting d visited = Inr w"
    using 3(1,3,4,5,6) by auto
  obtain v where "visit_all g visiting ds w = Inr v"
    using 3(2) [OF w] 3(3-6) by auto
  with w show ?case by (auto simp: visit_all.simps)
qed

lemma visit_all_acyclic_iff:
  assumes "\<forall>(k, ds)\<in>set g. set ds \<subseteq> set (dkeys g)"
  shows "(\<exists>v. visit_all g [] (dkeys g) [] = Inr v) \<longleftrightarrow> acyclic (depends g)"
proof
  assume "\<exists>v. visit_all g [] (dkeys g) [] = Inr v"
  then obtain v where v: "visit_all g [] (dkeys g) [] = Inr v" ..
  have "settled g (set [])" by (simp add: settled_def)
  from visit_sound(2) [OF v this] have keys: "set (dkeys g) \<subseteq> set v" and s: "settled g (set v)"
    by auto
  show "acyclic (depends g)"
  proof (rule acyclicI, rule allI)
    fix x
    show "(x, x) \<notin> (depends g)\<^sup>+"
    proof
      assume c: "(x, x) \<in> (depends g)\<^sup>+"
      then obtain d where "(x, d) \<in> depends g" by (meson tranclD)
      then have "x \<in> set v" using keys depends_source by blast
      with s c show False by (simp add: settled_def)
    qed
  qed
next
  assume "acyclic (depends g)"
  then show "\<exists>v. visit_all g [] (dkeys g) [] = Inr v"
    using assms by (rule visit_complete(2)) simp_all
qed

lemma foldE_check_item:
  "foldE check_item () ts = Inr v \<longleftrightarrow>
     (\<forall>t\<in>set ts. distinct (pt_depends_on t) \<and> pt_task_id t \<notin> set (pt_depends_on t))"
  by (induction ts) (auto simp: check_item_def length_card_set)

lemma foldE_check_known:
  "foldE (check_known ids) () g = Inr v \<longleftrightarrow> (\<forall>(k, ds)\<in>set g. set ds \<subseteq> ids)"
  by (induction g) (auto simp: check_known_def)

lemma validate_task_graph_accepts:
  "validate_task_graph ts = Inr () \<longleftrightarrow>
     (\<forall>t\<in>set ts. distinct (pt_depends_on t) \<and> pt_task_id t \<notin> set (pt_depends_on t))
     \<and> (\<forall>(k, ds)\<in>set (graph_of ts). set ds \<subseteq> pt_task_id ` set ts)
     \<and> acyclic (depends (graph_of ts))"
proof -
  let ?g = "graph_of ts"
  let ?items = "\<forall>t\<in>set ts. distinct (pt_depends_on t) \<and> pt_task_id t \<notin> set (pt_depends_on t)"
  let ?known = "\<forall>(k, ds)\<in>set ?g. set ds \<subseteq> pt_task_id ` set ts"
  have "validate_task_graph ts = Inr () \<longleftrightarrow>
      ?items \<and> ?known \<and> (\<exists>v. visit_all ?g [] (dkeys ?g) [] = Inr v)"
    by (simp add: validate_task_graph_def accept_simps foldE_check_item foldE_check_known Let_def)
  also have "\<dots> \<longleftrightarrow> ?items \<and> ?known \<and> acyclic (depends ?g)"
    using visit_all_acyclic_iff [of ?g] by (auto simp: set_dkeys_graph_of)
  finally show ?thesis .
qed

lemma task_is_ready_iff:
  "task_is_ready status depends_on needs all_tasks \<longleftrightarrow>
     (status = Some TaskPending \<or> status = Some TaskReady)
     \<and> (\<forall>dep\<in>set depends_on. all_tasks dep = Some TaskCompleted)
     \<and> (\<forall>(required, st)\<in>set needs. required \<longrightarrow> st = Some ReqResolved)"
  by (auto simp: task_is_ready_def list_all_iff)

lemma missing_contract_outputs_Nil_iff:
  "missing_contract_outputs specs r = [] \<longleftrightarrow>
     (\<forall>spec\<in>set specs. os_required spec \<longrightarrow> os_key spec \<in> set (dkeys (ar_outputs r)))"
  by (auto simp: missing_contract_outputs_def)

text \<open>
  C4. For tasks with distinct ids, \<open>validate_task_graph\<close> accepts exactly when no task lists a
  dependency twice, every dependency is a task of the list, and the dependency relation of the list
  has no cycle (a dependency on itself being one). It always returns: the depth-first search is total.
\<close>

theorem validate_task_graph_iff:
  assumes "distinct (map pt_task_id ts)"
  shows "validate_task_graph ts = Inr () \<longleftrightarrow>
     (\<forall>t\<in>set ts. distinct (pt_depends_on t) \<and> set (pt_depends_on t) \<subseteq> pt_task_id ` set ts)
     \<and> acyclic {(pt_task_id t, d) | t d. t \<in> set ts \<and> d \<in> set (pt_depends_on t)}"
proof -
  have rel: "depends (graph_of ts) = {(pt_task_id t, d) | t d. t \<in> set ts \<and> d \<in> set (pt_depends_on t)}"
    unfolding depends_def by (simp only: map_of_graph_of_iff [OF assms]) blast
  have "(k, ds) \<in> set (graph_of ts) \<longleftrightarrow> (\<exists>t\<in>set ts. pt_task_id t = k \<and> pt_depends_on t = ds)" for k ds
    using map_of_graph_of_iff [OF assms, of k ds] dict_ok_graph_of [of ts]
    by (simp add: dict_ok_def)
  then have known: "(\<forall>(k, ds)\<in>set (graph_of ts). set ds \<subseteq> pt_task_id ` set ts) \<longleftrightarrow>
      (\<forall>t\<in>set ts. set (pt_depends_on t) \<subseteq> pt_task_id ` set ts)"
    by fastforce
  have self: "pt_task_id t \<notin> set (pt_depends_on t)" if "acyclic (depends (graph_of ts))" "t \<in> set ts" for t
    using that unfolding rel acyclic_def by blast
  show ?thesis
    unfolding validate_task_graph_accepts known using self unfolding rel by blast
qed

theorem validate_task_graph_iff_witness:
  "distinct (map pt_task_id [demo_task ''a'' [], demo_task ''b'' [''a'']]) \<and>
   acyclic {(pt_task_id t, d) | t d. t \<in> set [demo_task ''a'' [], demo_task ''b'' [''a'']]
              \<and> d \<in> set (pt_depends_on t)}"
proof -
  have "validate_task_graph [demo_task ''a'' [], demo_task ''b'' [''a'']] = Inr ()"
    and dist: "distinct (map pt_task_id [demo_task ''a'' [], demo_task ''b'' [''a'']])"
    by code_simp+
  then show ?thesis using validate_task_graph_iff [OF dist] by blast
qed

end
