(* ===== verification/Plan_Sql.thy ===== *)
theory Plan_Sql
  imports Task_Graph
begin

text \<open>
  The persisted plan store: the tables of \<open>apps/api/src/app/models/runtime_plan.py\<close> and the
  class \<open>SqlPlanStore\<close> of \<open>apps/api/src/app/runtime/plan_store.py\<close>.

  A table is the list of its rows; a query is a filter over it, and an unordered query returns the
  rows in table order. The unique constraints and the cascading deletes of the schema are written
  out where an operation can meet them. Primary keys come from \<open>uuid4\<close>: \<^emph>\<open>db_uuids\<close> is
  the sequence of values it will return and \<^emph>\<open>db_drawn\<close> how many were used. A method that
  raises leaves the database as it was, because the caller's transaction (for \<open>apply_patch\<close> its
  own savepoint) is rolled back. Timestamps are an argument where the code stores them.
\<close>

section \<open>Tables\<close>

record plan_row =
  pl_id :: uuid
  pl_tenant_id :: uuid
  pl_chat_id :: "uuid option"
  pl_root_run_id :: uuid
  pl_goal :: string
  pl_status :: PlanStatus
  pl_revision :: int
  pl_answer_brief :: "string option"
  pl_last_failure :: "jobject option"

record task_row =
  tr_id :: uuid
  tr_plan_id :: uuid
  tr_task_id :: string
  tr_planned_order :: int
  tr_intent :: string
  tr_instructions :: string
  tr_executor :: string
  tr_status :: TaskStatus
  tr_inputs :: jobject
  tr_expected_outputs :: "TaskOutputSpec list"
  tr_on_success :: TaskSuccessAction
  tr_checkpoint :: jobject
  tr_result :: "AgentTaskResult option"
  tr_attempts :: int
  tr_next_retry_at :: "int option"

record dep_row =
  dr_id :: uuid
  dr_plan_id :: uuid
  dr_task_id :: string
  dr_depends_on_task_id :: string

record need_row =
  nr_id :: uuid
  nr_task_row_id :: uuid
  nr_need_key :: string
  nr_kind :: NeedKind
  nr_description :: string
  nr_schema :: jobject
  nr_ref :: string
  nr_required :: bool
  nr_context :: jobject
  nr_status :: RequirementStatus
  nr_resolved_value :: json
  nr_resolver_task_id :: "string option"

record revision_row =
  rv_plan_id :: uuid
  rv_revision :: int
  rv_reason :: string
  rv_patch :: PlanPatch
  rv_planner_invocation_id :: "string option"

record attempt_row =
  at_task_row_id :: uuid
  at_attempt_number :: int
  at_status :: AttemptStatus
  at_error :: "TaskAttemptFailure option"
  at_finished_at :: "int option"
  at_next_retry_at :: "int option"

record db =
  db_plans :: "plan_row list"
  db_tasks :: "task_row list"
  db_deps :: "dep_row list"
  db_needs :: "need_row list"
  db_revisions :: "revision_row list"
  db_attempts :: "attempt_row list"
  db_uuids :: "nat \<Rightarrow> uuid"
  db_drawn :: nat

section \<open>Queries and row updates\<close>

definition new_uuid :: "db \<Rightarrow> uuid \<times> db" where
  "new_uuid s = (db_uuids s (db_drawn s), s\<lparr>db_drawn := Suc (db_drawn s)\<rparr>)"

definition find_plan :: "db \<Rightarrow> uuid \<Rightarrow> plan_row option" where
  "find_plan s pid = find (\<lambda>p. pl_id p = pid) (db_plans s)"

definition plan_tasks :: "db \<Rightarrow> uuid \<Rightarrow> task_row list" where
  "plan_tasks s pid = filter (\<lambda>r. tr_plan_id r = pid) (db_tasks s)"

definition find_task :: "db \<Rightarrow> uuid \<Rightarrow> string \<Rightarrow> task_row option" where
  "find_task s pid tid = find (\<lambda>r. tr_task_id r = tid) (plan_tasks s pid)"

definition deps_of :: "db \<Rightarrow> uuid \<Rightarrow> string \<Rightarrow> string list" where
  "deps_of s pid tid =
     map dr_depends_on_task_id (filter (\<lambda>d. dr_plan_id d = pid \<and> dr_task_id d = tid) (db_deps s))"

definition needs_of_row :: "db \<Rightarrow> uuid \<Rightarrow> need_row list" where
  "needs_of_row s rid = filter (\<lambda>n. nr_task_row_id n = rid) (db_needs s)"

definition upd_plan :: "uuid \<Rightarrow> (plan_row \<Rightarrow> plan_row) \<Rightarrow> db \<Rightarrow> db" where
  "upd_plan pid f s = s\<lparr>db_plans := map (\<lambda>p. if pl_id p = pid then f p else p) (db_plans s)\<rparr>"

definition upd_task :: "uuid \<Rightarrow> (task_row \<Rightarrow> task_row) \<Rightarrow> db \<Rightarrow> db" where
  "upd_task rid f s = s\<lparr>db_tasks := map (\<lambda>r. if tr_id r = rid then f r else r) (db_tasks s)\<rparr>"

definition is_active :: "TaskStatus \<Rightarrow> bool" where
  "is_active st \<longleftrightarrow> st = TaskRunning \<or> st = TaskCompleted"

section \<open>Creation\<close>

definition get_by_run :: "db \<Rightarrow> uuid \<Rightarrow> plan_row option" where
  "get_by_run s root_run_id = find (\<lambda>p. pl_root_run_id p = root_run_id) (db_plans s)"

definition sql_create ::
    "string \<Rightarrow> uuid \<Rightarrow> uuid \<Rightarrow> uuid option \<Rightarrow> db \<Rightarrow> runtime_error + (uuid \<times> db)" where
  "sql_create goal root_run_id tenant_id chat_id s =
     (let (i, s1) = new_uuid s;
          plan = \<lparr>pl_id = i, pl_tenant_id = tenant_id, pl_chat_id = chat_id,
                  pl_root_run_id = root_run_id, pl_goal = goal, pl_status = PlanDraft,
                  pl_revision = 0, pl_answer_brief = None, pl_last_failure = None\<rparr>
      in if get_by_run s root_run_id \<noteq> None then Inl IntegrityError
         else Inr (i, s1\<lparr>db_plans := db_plans s1 @ [plan]\<rparr>))"

section \<open>apply\_patch\<close>

text \<open>The stored needs of a task as they are handed to \<open>PlannedTask\<close>.\<close>

definition need_spec_of_row :: "need_row \<Rightarrow> NeedSpec" where
  "need_spec_of_row n =
     \<lparr>ns_ref = str_or (nr_ref n) (nr_need_key n), ns_key = nr_need_key n, ns_kind = nr_kind n,
      ns_description = nr_description n, ns_schema = nr_schema n, ns_required = nr_required n,
      ns_context = nr_context n, ns_resolved_value = nr_resolved_value n, ns_resolved_by = None,
      ns_resolved_at_iteration = None\<rparr>"

definition planned_of_row :: "db \<Rightarrow> uuid \<Rightarrow> task_row \<Rightarrow> PlannedTask" where
  "planned_of_row s pid r =
     \<lparr>pt_task_id = tr_task_id r, pt_executor = tr_executor r, pt_intent = tr_intent r,
      pt_instructions = tr_instructions r, pt_inputs = tr_inputs r, pt_expected_outputs = [],
      pt_depends_on = deps_of s pid (tr_task_id r),
      pt_needs = map need_spec_of_row (needs_of_row s (tr_id r)),
      pt_on_success = tr_on_success r\<rparr>"

text \<open>The graph the patch would produce, in dictionary order.\<close>

definition combined_tasks :: "db \<Rightarrow> uuid \<Rightarrow> PlanPatch \<Rightarrow> (string, PlannedTask) dict" where
  "combined_tasks s pid patch =
     fold (\<lambda>item d. AList.update (pt_task_id item) item d) (pp_tasks patch)
       (map (\<lambda>r. (tr_task_id r, planned_of_row s pid r))
         (filter (\<lambda>r. tr_task_id r \<notin> set (pp_remove_task_ids patch)) (plan_tasks s pid)))"

definition existing_planned :: "db \<Rightarrow> uuid \<Rightarrow> PlanPatch \<Rightarrow> PlannedTask list" where
  "existing_planned s pid patch =
     map (planned_of_row s pid)
       (filter (\<lambda>r. tr_task_id r \<notin> set (pp_remove_task_ids patch)) (plan_tasks s pid))"

text \<open>
  Removal of the listed inactive tasks. The foreign keys of needs and attempts cascade;
  dependency rows refer to the plan only and stay.
\<close>

definition remove_tasks :: "uuid \<Rightarrow> string list \<Rightarrow> db \<Rightarrow> db" where
  "remove_tasks pid ids s =
     (let gone = (\<lambda>r. tr_plan_id r = pid \<and> tr_task_id r \<in> set ids \<and> \<not> is_active (tr_status r));
          gone_ids = map tr_id (filter gone (db_tasks s))
      in s\<lparr>db_tasks := filter (\<lambda>r. \<not> gone r) (db_tasks s),
           db_needs := filter (\<lambda>n. nr_task_row_id n \<notin> set gone_ids) (db_needs s),
           db_attempts := filter (\<lambda>a. at_task_row_id a \<notin> set gone_ids) (db_attempts s)\<rparr>)"

definition insert_task :: "uuid \<Rightarrow> int \<Rightarrow> PlannedTask \<Rightarrow> db \<Rightarrow> uuid \<times> db" where
  "insert_task pid index item s =
     (let (i, s1) = new_uuid s;
          row = \<lparr>tr_id = i, tr_plan_id = pid, tr_task_id = pt_task_id item,
                 tr_planned_order = index, tr_intent = pt_intent item,
                 tr_instructions = pt_instructions item, tr_executor = pt_executor item,
                 tr_status = TaskPending, tr_inputs = pt_inputs item,
                 tr_expected_outputs = pt_expected_outputs item,
                 tr_on_success = pt_on_success item, tr_checkpoint = [], tr_result = None,
                 tr_attempts = 0, tr_next_retry_at = None\<rparr>
      in (i, s1\<lparr>db_tasks := db_tasks s1 @ [row]\<rparr>))"

definition redefine_task :: "int \<Rightarrow> PlannedTask \<Rightarrow> task_row \<Rightarrow> task_row" where
  "redefine_task index item r =
     r\<lparr>tr_intent := pt_intent item, tr_instructions := pt_instructions item,
       tr_executor := pt_executor item, tr_inputs := pt_inputs item,
       tr_expected_outputs := pt_expected_outputs item, tr_on_success := pt_on_success item,
       tr_planned_order := index, tr_status := TaskPending, tr_result := None, tr_checkpoint := []\<rparr>"

fun add_deps :: "uuid \<Rightarrow> string \<Rightarrow> string list \<Rightarrow> db \<Rightarrow> db" where
  "add_deps pid tid [] s = s"
| "add_deps pid tid (d # ds) s =
     (let (i, s1) = new_uuid s in
      add_deps pid tid ds (s1\<lparr>db_deps := db_deps s1 @
        [\<lparr>dr_id = i, dr_plan_id = pid, dr_task_id = tid, dr_depends_on_task_id = d\<rparr>]\<rparr>))"

definition replace_deps :: "uuid \<Rightarrow> string \<Rightarrow> string list \<Rightarrow> db \<Rightarrow> db" where
  "replace_deps pid tid ds s =
     add_deps pid tid ds
       (s\<lparr>db_deps := filter (\<lambda>d. \<not> (dr_plan_id d = pid \<and> dr_task_id d = tid)) (db_deps s)\<rparr>)"

text \<open>A need row for a need of the patch; a need with a stored key keeps its resolution state.\<close>

definition need_row_of :: "uuid \<Rightarrow> uuid \<Rightarrow> need_row option \<Rightarrow> NeedSpec \<Rightarrow> need_row" where
  "need_row_of i rid prior n =
     \<lparr>nr_id = i, nr_task_row_id = rid, nr_need_key = ns_key n, nr_kind = ns_kind n,
      nr_description = ns_description n, nr_schema = ns_schema n,
      nr_ref = str_or (ns_ref n) (ns_key n), nr_required = ns_required n,
      nr_context = ns_context n,
      nr_status = (case prior of None \<Rightarrow> ReqPending | Some p \<Rightarrow> nr_status p),
      nr_resolved_value = (case prior of None \<Rightarrow> JNull | Some p \<Rightarrow> nr_resolved_value p),
      nr_resolver_task_id = (case prior of None \<Rightarrow> None | Some p \<Rightarrow> nr_resolver_task_id p)\<rparr>"

fun add_needs :: "uuid \<Rightarrow> (string \<Rightarrow> need_row option) \<Rightarrow> NeedSpec list \<Rightarrow> db \<Rightarrow> db" where
  "add_needs rid prior [] s = s"
| "add_needs rid prior (n # ns) s =
     (let (i, s1) = new_uuid s in
      add_needs rid prior ns
        (s1\<lparr>db_needs := db_needs s1 @ [need_row_of i rid (prior (ns_key n)) n]\<rparr>))"

definition replace_needs :: "uuid \<Rightarrow> (string \<Rightarrow> need_row option) \<Rightarrow> NeedSpec list \<Rightarrow> db \<Rightarrow> db" where
  "replace_needs rid prior ns s =
     add_needs rid prior ns (s\<lparr>db_needs := filter (\<lambda>n. nr_task_row_id n \<noteq> rid) (db_needs s)\<rparr>)"

text \<open>
  The existing row that the loop body finds for an item: \<open>need_rows\<close> are the rows read before the
  loop. When the item declares no needs but its row has some, \<open>model_copy\<close> puts the stored
  dictionaries into \<open>needs\<close> without validation, and the attribute access \<open>need.key\<close> on such a
  dictionary raises.
\<close>

definition apply_item ::
    "uuid \<Rightarrow> need_row list \<Rightarrow> db \<Rightarrow> nat \<times> PlannedTask \<Rightarrow> runtime_error + db" where
  "apply_item pid need_rows s indexed =
     (let index = int (fst indexed); item = snd indexed in
      case find_task s pid (pt_task_id item) of
        Some task \<Rightarrow>
          if is_active (tr_status task)
          then Inl (PlanValidationError (ReplaceActive (pt_task_id item)))
          else
            let existing = filter (\<lambda>n. nr_task_row_id n = tr_id task) need_rows;
                prior = map_of (rev (map (\<lambda>n. (nr_need_key n, n)) existing))
            in if pt_needs item = [] \<and> existing \<noteq> [] then Inl AttributeError
               else if \<not> distinct (map ns_key (pt_needs item))
               then Inl (PlanValidationError PersistenceConstraint)
               else Inr (replace_needs (tr_id task) prior (pt_needs item)
                          (replace_deps pid (pt_task_id item) (pt_depends_on item)
                            (upd_task (tr_id task) (redefine_task index item) s)))
      | None \<Rightarrow>
          let (rid, s1) = insert_task pid index item s
          in if \<not> distinct (map ns_key (pt_needs item))
             then Inl (PlanValidationError PersistenceConstraint)
             else Inr (replace_needs rid Map.empty (pt_needs item)
                        (replace_deps pid (pt_task_id item) (pt_depends_on item) s1)))"

definition decision_status :: "PlannerDecisionKind \<Rightarrow> PlanStatus" where
  "decision_status d =
     (case d of AskUser \<Rightarrow> PlanWaitingInput | CompletePlan \<Rightarrow> PlanCompleted
              | FailPlan \<Rightarrow> PlanFailed | _ \<Rightarrow> PlanActive)"

text \<open>The end of the savepoint: revision, status, user-routed needs, answer brief, journal.\<close>

definition route_needs_to_user :: "uuid \<Rightarrow> db \<Rightarrow> db" where
  "route_needs_to_user pid s =
     s\<lparr>db_needs := map (\<lambda>n. if nr_status n = ReqPending
                             \<and> nr_task_row_id n \<in> tr_id ` set (plan_tasks s pid)
                           then n\<lparr>nr_status := ReqWaitingUser\<rparr> else n) (db_needs s)\<rparr>"

definition finish_patch ::
    "uuid \<Rightarrow> PlanPatch \<Rightarrow> string \<Rightarrow> string option \<Rightarrow> plan_row \<Rightarrow> db \<Rightarrow> db" where
  "finish_patch pid patch reason invocation plan s =
     (let s1 = upd_plan pid (\<lambda>p. p\<lparr>pl_revision := pl_revision plan + 1,
                                  pl_status := decision_status (pp_decision patch)\<rparr>) s;
          s2 = (if pp_decision patch = AskUser then route_needs_to_user pid s1 else s1);
          s3 = (case pp_answer_brief patch of
                  None \<Rightarrow> s2
                | Some brief \<Rightarrow> upd_plan pid (\<lambda>p. p\<lparr>pl_answer_brief := Some brief\<rparr>) s2)
      in s3\<lparr>db_revisions := db_revisions s3 @
              [\<lparr>rv_plan_id = pid, rv_revision = pl_revision plan + 1, rv_reason = reason,
                rv_patch = patch, rv_planner_invocation_id = invocation\<rparr>]\<rparr>)"

definition sql_apply_patch ::
    "uuid \<Rightarrow> PlanPatch \<Rightarrow> string \<Rightarrow> string option \<Rightarrow> db \<Rightarrow> runtime_error + db" where
  "sql_apply_patch pid patch reason invocation s =
     (case find_plan s pid of
        None \<Rightarrow> Inl KeyError
      | Some plan \<Rightarrow>
          if pl_revision plan \<noteq> pp_expected_revision patch
          then Inl (PlanConflictError (pp_expected_revision patch) (pl_revision plan))
          else if list_ex (\<lambda>r. tr_task_id r \<in> set (pp_remove_task_ids patch)
                             \<and> is_active (tr_status r)) (plan_tasks s pid)
          then Inl (PlanValidationError RemoveActive)
          else if \<not> list_all PlannedTask_ok (existing_planned s pid patch)
          then Inl (PatchInvalid FieldConstraint)
          else bindE (validate_task_graph (map snd (combined_tasks s pid patch))) (\<lambda>_.
               bindE (foldE (apply_item pid (db_needs s))
                        (remove_tasks pid (pp_remove_task_ids patch) s)
                        (enumerate 0 (pp_tasks patch))) (\<lambda>s'.
               Inr (finish_patch pid patch reason invocation plan s'))))"

section \<open>Snapshot and claiming\<close>

text \<open>
  A task of the snapshot: the columns of its row, when there is one, its dependencies and its
  needs. A dependency row of a deleted task yields an entry without columns.
\<close>

record snap_task =
  sn_row :: "task_row option"
  sn_depends_on :: "string list"
  sn_needs :: "need_row list"

definition snap_of_row :: "task_row \<Rightarrow> snap_task" where
  "snap_of_row r = \<lparr>sn_row = Some r, sn_depends_on = [], sn_needs = []\<rparr>"

definition snap_add_dep :: "dep_row \<Rightarrow> (string, snap_task) dict \<Rightarrow> (string, snap_task) dict" where
  "snap_add_dep d tasks =
     (let t = dget_or \<lparr>sn_row = None, sn_depends_on = [], sn_needs = []\<rparr> tasks (dr_task_id d)
      in AList.update (dr_task_id d)
           (t\<lparr>sn_depends_on := sn_depends_on t @ [dr_depends_on_task_id d]\<rparr>) tasks)"

definition snap_add_need ::
    "task_row list \<Rightarrow> need_row \<Rightarrow> (string, snap_task) dict \<Rightarrow> (string, snap_task) dict" where
  "snap_add_need rows n tasks =
     (case find (\<lambda>r. tr_id r = nr_task_row_id n) rows of
        None \<Rightarrow> tasks
      | Some r \<Rightarrow> dmodify (tr_task_id r) (\<lambda>t. t\<lparr>sn_needs := sn_needs t @ [n]\<rparr>) tasks)"

definition snapshot_tasks :: "db \<Rightarrow> uuid \<Rightarrow> (string, snap_task) dict" where
  "snapshot_tasks s pid =
     (let rows = plan_tasks s pid;
          base = map (\<lambda>r. (tr_task_id r, snap_of_row r)) rows;
          with_deps = fold snap_add_dep (filter (\<lambda>d. dr_plan_id d = pid) (db_deps s)) base
      in fold (snap_add_need rows)
           (filter (\<lambda>n. nr_task_row_id n \<in> tr_id ` set rows) (db_needs s)) with_deps)"

record snapshot =
  ss_plan :: plan_row
  ss_tasks :: "(string, snap_task) dict"

definition sql_snapshot :: "uuid \<Rightarrow> db \<Rightarrow> runtime_error + snapshot" where
  "sql_snapshot pid s =
     (case find_plan s pid of
        None \<Rightarrow> Inl KeyError
      | Some plan \<Rightarrow> Inr \<lparr>ss_plan = plan, ss_tasks = snapshot_tasks s pid\<rparr>)"

definition sn_status :: "snap_task \<Rightarrow> TaskStatus option" where
  "sn_status t = map_option tr_status (sn_row t)"

definition sn_need_view :: "snap_task \<Rightarrow> (bool \<times> RequirementStatus option) list" where
  "sn_need_view t = map (\<lambda>n. (nr_required n, Some (nr_status n))) (sn_needs t)"

definition snap_ready :: "(string, snap_task) dict \<Rightarrow> snap_task \<Rightarrow> bool" where
  "snap_ready tasks t =
     task_is_ready (sn_status t) (sn_depends_on t) (sn_need_view t)
       (\<lambda>dep. Option.bind (map_of tasks dep) sn_status)"

text \<open>The read half of \<open>claim_ready_batch\<close>: the ready tasks in scheduling order.\<close>

definition ready_entry :: "(string, snap_task) dict \<Rightarrow> snap_task \<Rightarrow> (int \<times> string) list" where
  "ready_entry tasks t =
     (case sn_row t of
        None \<Rightarrow> []
      | Some r \<Rightarrow> if snap_ready tasks t then [(tr_planned_order r, tr_task_id r)] else [])"

definition claim_candidates :: "uuid \<Rightarrow> int \<Rightarrow> db \<Rightarrow> string list" where
  "claim_candidates pid limit s =
     (let tasks = snapshot_tasks s pid;
          candidates = concat (map (\<lambda>e. ready_entry tasks (snd e)) tasks)
      in map snd (take (nat (max 1 limit)) (sort candidates)))"

definition start_attempt :: "task_row \<Rightarrow> task_row" where
  "start_attempt r = r\<lparr>tr_status := TaskRunning, tr_attempts := tr_attempts r + 1\<rparr>"

text \<open>The locking half: each candidate row is read again and marked running.\<close>

definition claim_one :: "uuid \<Rightarrow> string \<Rightarrow> db \<times> task_row list \<Rightarrow> db \<times> task_row list" where
  "claim_one pid tid st =
     (let (s, claimed) = st in
      case find_task s pid tid of
        None \<Rightarrow> (s, claimed)
      | Some task \<Rightarrow>
          if tr_status task = TaskRunning then (s, claimed)
          else (let task' = start_attempt task;
                    s1 = upd_task (tr_id task) start_attempt s
                in (s1\<lparr>db_attempts := db_attempts s1 @
                         [\<lparr>at_task_row_id = tr_id task, at_attempt_number = tr_attempts task',
                           at_status = AttRunning, at_error = None, at_finished_at = None,
                           at_next_retry_at = None\<rparr>]\<rparr>, claimed @ [task'])))"

definition claim_commit :: "uuid \<Rightarrow> string list \<Rightarrow> db \<Rightarrow> db \<times> task_row list" where
  "claim_commit pid ids s = fold (claim_one pid) ids (s, [])"

definition sql_claim_ready_batch ::
    "uuid \<Rightarrow> int \<Rightarrow> db \<Rightarrow> runtime_error + (db \<times> task_row list)" where
  "sql_claim_ready_batch pid limit s =
     (case find_plan s pid of
        None \<Rightarrow> Inl KeyError
      | Some _ \<Rightarrow> Inr (claim_commit pid (claim_candidates pid limit s) s))"

definition sql_claim_ready :: "uuid \<Rightarrow> db \<Rightarrow> runtime_error + (db \<times> task_row option)" where
  "sql_claim_ready pid s =
     bindE (sql_claim_ready_batch pid 1 s)
       (\<lambda>(s', claimed). Inr (s', case claimed of [] \<Rightarrow> None | r # _ \<Rightarrow> Some r))"

section \<open>Pausing and resuming\<close>

definition sql_resolve_waiting_need ::
    "uuid \<Rightarrow> string \<Rightarrow> db \<Rightarrow> db \<times> string option" where
  "sql_resolve_waiting_need pid user_input s =
     (let value = strip user_input;
          rows = plan_tasks s pid;
          waiting = filter (\<lambda>n. nr_status n = ReqWaitingUser \<and> nr_task_row_id n \<in> tr_id ` set rows)
                      (db_needs s)
      in if value = [] then (s, None)
         else case sort_key nr_id waiting of
                [] \<Rightarrow> (s, None)
              | need # _ \<Rightarrow>
                  let s1 = s\<lparr>db_needs := map (\<lambda>n. if nr_id n = nr_id need
                               then n\<lparr>nr_status := ReqResolved, nr_resolved_value := JStr value,
                                      nr_resolver_task_id := Some ''user''\<rparr> else n) (db_needs s)\<rparr>;
                      s2 = upd_task (nr_task_row_id need)
                             (\<lambda>r. let r' = r\<lparr>tr_checkpoint :=
                                        AList.update ''user_input'' (JStr value) (tr_checkpoint r)\<rparr>
                                  in if tr_status r \<in> {TaskWaitingDependency, TaskWaitingUser}
                                     then r'\<lparr>tr_status := TaskPending\<rparr> else r') s1;
                      s3 = upd_plan pid (\<lambda>p. p\<lparr>pl_status := PlanActive\<rparr>) s2
                  in (s3, Some (nr_need_key need)))"

definition sql_mark_failed :: "uuid \<Rightarrow> jobject \<Rightarrow> db \<Rightarrow> runtime_error + db" where
  "sql_mark_failed pid failure s =
     (case find_plan s pid of
        None \<Rightarrow> Inl KeyError
      | Some _ \<Rightarrow> Inr (upd_plan pid (\<lambda>p. p\<lparr>pl_status := PlanFailed,
                                            pl_last_failure := Some failure\<rparr>) s))"

definition is_waiting :: "TaskStatus \<Rightarrow> bool" where
  "is_waiting st \<longleftrightarrow> st \<in> {TaskWaitingUser, TaskWaitingDependency, TaskWaitingRetry}"

definition sql_resume_waiting_tasks :: "uuid \<Rightarrow> string \<Rightarrow> db \<Rightarrow> db" where
  "sql_resume_waiting_tasks pid user_input s =
     (let waiting = (\<lambda>r. tr_plan_id r = pid \<and> is_waiting (tr_status r));
          resume = (\<lambda>r. r\<lparr>tr_checkpoint := (if user_input \<noteq> []
                             then AList.update ''user_input'' (JStr user_input) (tr_checkpoint r)
                             else tr_checkpoint r),
                          tr_status := TaskPending\<rparr>);
          s1 = s\<lparr>db_tasks := map (\<lambda>r. if waiting r then resume r else r) (db_tasks s)\<rparr>
      in if list_ex waiting (db_tasks s) then upd_plan pid (\<lambda>p. p\<lparr>pl_status := PlanActive\<rparr>) s1
         else s1)"

definition upd_attempt :: "task_row \<Rightarrow> (attempt_row \<Rightarrow> attempt_row) \<Rightarrow> db \<Rightarrow> db" where
  "upd_attempt task f s =
     s\<lparr>db_attempts := map (\<lambda>a. if at_task_row_id a = tr_id task
                                 \<and> at_attempt_number a = tr_attempts task
                               then f a else a) (db_attempts s)\<rparr>"

definition sql_pause_task_for_confirmation ::
    "uuid \<Rightarrow> string \<Rightarrow> jobject \<Rightarrow> int \<Rightarrow> db \<Rightarrow> runtime_error + db" where
  "sql_pause_task_for_confirmation pid tid confirmation now s =
     (case find_task s pid tid of
        None \<Rightarrow> Inl (TaskNotFoundError tid)
      | Some task \<Rightarrow>
          let s1 = upd_task (tr_id task)
                     (\<lambda>r. r\<lparr>tr_checkpoint := AList.update ''confirmation'' (JObj confirmation)
                                              (tr_checkpoint r),
                            tr_status := TaskWaitingUser\<rparr>) s;
              s2 = upd_attempt task (\<lambda>a. a\<lparr>at_status := AttCancelled,
                                           at_finished_at := Some now\<rparr>) s1
          in Inr (upd_plan pid (\<lambda>p. p\<lparr>pl_status := PlanWaitingInput\<rparr>) s2))"

definition sql_resume_planner_pause :: "uuid \<Rightarrow> db \<Rightarrow> runtime_error + db" where
  "sql_resume_planner_pause pid s =
     (case find_plan s pid of
        None \<Rightarrow> Inl KeyError
      | Some plan \<Rightarrow>
          if pl_status plan \<noteq> PlanWaitingInput
          then Inl (PlanValidationError NotWaitingForPlanner)
          else Inr (upd_plan pid (\<lambda>p. p\<lparr>pl_status := PlanActive\<rparr>) s))"

section \<open>Results and failures\<close>

definition is_terminal :: "TaskStatus \<Rightarrow> bool" where
  "is_terminal st \<longleftrightarrow> st \<in> {TaskCompleted, TaskUnfulfillable, TaskFailed, TaskCancelled}"

definition sql_refresh_status :: "uuid \<Rightarrow> db \<Rightarrow> db" where
  "sql_refresh_status pid s =
     (let statuses = map tr_status (plan_tasks s pid) in
      if statuses \<noteq> [] \<and> list_all is_terminal statuses
         \<and> TaskFailed \<notin> set statuses \<and> TaskUnfulfillable \<notin> set statuses
      then upd_plan pid (\<lambda>p. p\<lparr>pl_status := PlanCompleted\<rparr>) s
      else if TaskWaitingUser \<in> set statuses
      then upd_plan pid (\<lambda>p. p\<lparr>pl_status := PlanWaitingInput\<rparr>) s
      else if statuses \<noteq> [] \<and> set statuses \<subseteq> {TaskFailed, TaskUnfulfillable}
      then upd_plan pid (\<lambda>p. p\<lparr>pl_status := PlanFailed\<rparr>) s
      else s)"

definition resolve_consumer_needs :: "uuid \<Rightarrow> task_row \<Rightarrow> jobject \<Rightarrow> db \<Rightarrow> db" where
  "resolve_consumer_needs pid row produced s =
     s\<lparr>db_needs := map (\<lambda>n.
         if nr_status n = ReqPending \<and> nr_task_row_id n \<noteq> tr_id row
         then (case find (\<lambda>r. tr_id r = nr_task_row_id n) (plan_tasks s pid) of
                 None \<Rightarrow> n
               | Some consumer \<Rightarrow>
                   (case map_of produced (nr_need_key n) of
                      Some v \<Rightarrow>
                        if tr_task_id row \<in> set (deps_of s pid (tr_task_id consumer))
                        then n\<lparr>nr_status := ReqResolved, nr_resolved_value := v,
                               nr_resolver_task_id := Some (tr_task_id row)\<rparr>
                        else n
                    | None \<Rightarrow> n))
         else n) (db_needs s)\<rparr>"

definition sql_apply_result ::
    "uuid \<Rightarrow> string \<Rightarrow> AgentTaskResult \<Rightarrow> db \<Rightarrow> runtime_error + db" where
  "sql_apply_result pid tid result s =
     (case find_task s pid tid of
        None \<Rightarrow> Inl (TaskNotFoundError tid)
      | Some row \<Rightarrow>
          if tr_status row \<noteq> TaskRunning then Inl (PlanValidationError (NotRunning tid))
          else if ar_outcome result = OutCompleted
            \<and> list_ex (\<lambda>n. nr_required n \<and> nr_status n \<noteq> ReqResolved) (needs_of_row s (tr_id row))
          then Inl (PlanValidationError (UnresolvedNeeds tid))
          else if ar_outcome result = OutCompleted
            \<and> missing_contract_outputs (tr_expected_outputs row) result \<noteq> []
          then Inl (PlanValidationError (MissingOutputs tid))
          else
            let store = (\<lambda>st r. r\<lparr>tr_result := Some result, tr_checkpoint := ar_checkpoint result,
                                  tr_status := st\<rparr>)
            in (case ar_outcome result of
                  OutCompleted \<Rightarrow>
                    Inr (sql_refresh_status pid
                          (resolve_consumer_needs pid row (ar_outputs result)
                            (upd_task (tr_id row) (store TaskCompleted) s)))
                | OutNeedsDependency \<Rightarrow>
                    if \<not> distinct (map ns_key (ar_needs result)) then Inl IntegrityError
                    else Inr (sql_refresh_status pid
                               (replace_needs (tr_id row) Map.empty (ar_needs result)
                                 (upd_task (tr_id row) (store TaskWaitingDependency) s)))
                | OutUnfulfillable \<Rightarrow>
                    Inr (sql_refresh_status pid
                          (upd_task (tr_id row) (store TaskUnfulfillable) s))))"

definition sql_record_failure ::
    "uuid \<Rightarrow> string \<Rightarrow> TaskAttemptFailure \<Rightarrow> int option \<Rightarrow> int \<Rightarrow> int \<Rightarrow> db \<Rightarrow> runtime_error + db" where
  "sql_record_failure pid tid failure retry_at max_attempts now s =
     (case find_task s pid tid of
        None \<Rightarrow> Inl (TaskNotFoundError tid)
      | Some row \<Rightarrow>
          let s1 = upd_attempt row
                     (\<lambda>a. a\<lparr>at_status := (if tf_timed_out failure then AttTimedOut else AttFailed),
                            at_error := Some failure, at_finished_at := Some now,
                            at_next_retry_at := retry_at\<rparr>) s;
              s2 = upd_task (tr_id row)
                     (\<lambda>r. if tf_retryable failure \<and> tr_attempts row < max_attempts
                          then r\<lparr>tr_status := TaskWaitingRetry, tr_next_retry_at := retry_at\<rparr>
                          else r\<lparr>tr_status := TaskFailed\<rparr>) s1
          in Inr (sql_refresh_status pid s2))"

end
