(* ===== verification/Plan_Lifecycle.thy ===== *)
theory Plan_Lifecycle
  imports Contracts
begin

text \<open>
  The contract every plan store promises its scheduler, as a locale. A store exposes, for the plan
  at hand, the status and the dependencies of each task, an invariant of its own data, and four
  kinds of steps: claiming ready tasks, settling a running task (a result, a failure or a
  confirmation pause), revising the graph, and resuming waiting tasks. The laws say what a step may
  change. From them the locale derives, once for every store, that a task which runs or has
  completed only ever depends on completed tasks.
\<close>

definition active_status :: "TaskStatus option \<Rightarrow> bool" where
  "active_status st \<longleftrightarrow> st = Some TaskRunning \<or> st = Some TaskCompleted"

text \<open>The quiet change a store may make to any waiting task: pending becomes ready.\<close>

definition refreshed :: "TaskStatus option \<Rightarrow> TaskStatus option \<Rightarrow> bool" where
  "refreshed st st' \<longleftrightarrow> st' = st \<or> (st = Some TaskPending \<and> st' = Some TaskReady)"

lemma refreshed_refl [simp]: "refreshed st st"
  by (simp add: refreshed_def)

lemma refreshed_active: "refreshed st st' \<Longrightarrow> active_status st' \<Longrightarrow> active_status st"
  by (auto simp: refreshed_def active_status_def)

lemma active_Running [simp]: "active_status (Some TaskRunning)"
  by (simp add: active_status_def)

lemma refreshed_completed: "refreshed st st' \<Longrightarrow> st = Some TaskCompleted \<longleftrightarrow> st' = Some TaskCompleted"
  by (auto simp: refreshed_def)

locale plan_lifecycle =
  fixes status :: "'s \<Rightarrow> string \<Rightarrow> TaskStatus option"
    and deps :: "'s \<Rightarrow> string \<Rightarrow> string list"
    and ok :: "'s \<Rightarrow> bool"
    and claim :: "'s \<Rightarrow> 's \<Rightarrow> bool"
    and settle :: "string \<Rightarrow> 's \<Rightarrow> 's \<Rightarrow> bool"
    and revise :: "'s \<Rightarrow> 's \<Rightarrow> bool"
    and resume :: "'s \<Rightarrow> 's \<Rightarrow> bool"
  assumes claim_ok: "ok s \<Longrightarrow> claim s s' \<Longrightarrow> ok s'"
    and settle_ok: "ok s \<Longrightarrow> settle tid s s' \<Longrightarrow> ok s'"
    and revise_ok: "ok s \<Longrightarrow> revise s s' \<Longrightarrow> ok s'"
    and resume_ok: "ok s \<Longrightarrow> resume s s' \<Longrightarrow> ok s'"
    and claim_deps: "ok s \<Longrightarrow> claim s s' \<Longrightarrow> deps s' t = deps s t"
    and settle_deps: "ok s \<Longrightarrow> settle tid s s' \<Longrightarrow> deps s' t = deps s t"
    and resume_deps: "ok s \<Longrightarrow> resume s s' \<Longrightarrow> deps s' t = deps s t"
    and claim_status: "ok s \<Longrightarrow> claim s s' \<Longrightarrow>
       refreshed (status s t) (status s' t)
       \<or> status s t \<in> {Some TaskPending, Some TaskReady} \<and> status s' t = Some TaskRunning
         \<and> (\<forall>d\<in>set (deps s t). status s d = Some TaskCompleted)"
    and settle_from: "ok s \<Longrightarrow> settle tid s s' \<Longrightarrow> status s tid = Some TaskRunning"
    and settle_other: "ok s \<Longrightarrow> settle tid s s' \<Longrightarrow> t \<noteq> tid \<Longrightarrow> refreshed (status s t) (status s' t)"
    and revise_active: "ok s \<Longrightarrow> revise s s' \<Longrightarrow> active_status (status s' t) \<Longrightarrow>
       status s' t = status s t \<and> deps s' t = deps s t
       \<and> (\<forall>d\<in>set (deps s t). status s d = Some TaskCompleted \<longrightarrow> status s' d = Some TaskCompleted)"
    and resume_status: "ok s \<Longrightarrow> resume s s' \<Longrightarrow>
       refreshed (status s t) (status s' t)
       \<or> \<not> active_status (status s t) \<and> \<not> active_status (status s' t)"
begin

text \<open>Every running or completed task has only completed dependencies.\<close>

definition deps_done :: "'s \<Rightarrow> bool" where
  "deps_done s \<longleftrightarrow>
     (\<forall>t d. active_status (status s t) \<longrightarrow> d \<in> set (deps s t) \<longrightarrow> status s d = Some TaskCompleted)"

lemma claim_completed:
  "ok s \<Longrightarrow> claim s s' \<Longrightarrow> status s d = Some TaskCompleted \<Longrightarrow> status s' d = Some TaskCompleted"
  using claim_status [of s s' d] by (auto simp: refreshed_def)

lemma resume_completed:
  "ok s \<Longrightarrow> resume s s' \<Longrightarrow> status s d = Some TaskCompleted \<Longrightarrow> status s' d = Some TaskCompleted"
  using resume_status [of s s' d] by (auto simp: refreshed_def active_status_def)

lemma settle_completed:
  "ok s \<Longrightarrow> settle tid s s' \<Longrightarrow> status s d = Some TaskCompleted \<Longrightarrow> status s' d = Some TaskCompleted"
  using settle_from [of s tid s'] settle_other [of s tid s' d] by (cases "d = tid") (auto simp: refreshed_def)

lemma claim_deps_done:
  assumes "ok s" and "claim s s'" and "deps_done s"
  shows "deps_done s'"
  unfolding deps_done_def
proof (intro allI impI)
  fix t d assume a: "active_status (status s' t)" and d: "d \<in> set (deps s' t)"
  have d': "d \<in> set (deps s t)" using d claim_deps [OF assms(1,2)] by simp
  have "status s d = Some TaskCompleted"
    using claim_status [OF assms(1,2), of t]
  proof
    assume "refreshed (status s t) (status s' t)"
    with a have "active_status (status s t)" by (blast intro: refreshed_active)
    with d' assms(3) show ?thesis by (auto simp: deps_done_def)
  qed (use d' in blast)
  then show "status s' d = Some TaskCompleted"
    using assms(1,2) claim_completed by blast
qed

lemma settle_deps_done:
  assumes "ok s" and "settle tid s s'" and "deps_done s"
  shows "deps_done s'"
  unfolding deps_done_def
proof (intro allI impI)
  fix t d assume a: "active_status (status s' t)" and d: "d \<in> set (deps s' t)"
  have "active_status (status s t)"
    using a settle_from [OF assms(1,2)] settle_other [OF assms(1,2), of t]
    by (cases "t = tid") (auto intro: refreshed_active)
  then have "status s d = Some TaskCompleted"
    using assms(3) d settle_deps [OF assms(1,2)] by (auto simp: deps_done_def)
  then show "status s' d = Some TaskCompleted"
    using assms(1,2) settle_completed by blast
qed

lemma revise_deps_done:
  assumes "ok s" and "revise s s'" and "deps_done s"
  shows "deps_done s'"
  unfolding deps_done_def
proof (intro allI impI)
  fix t d assume a: "active_status (status s' t)" and d: "d \<in> set (deps s' t)"
  note r = revise_active [OF assms(1,2) a]
  from a r d assms(3) have "status s d = Some TaskCompleted"
    by (auto simp: deps_done_def)
  with r d show "status s' d = Some TaskCompleted" by auto
qed

lemma resume_deps_done:
  assumes "ok s" and "resume s s'" and "deps_done s"
  shows "deps_done s'"
  unfolding deps_done_def
proof (intro allI impI)
  fix t d assume a: "active_status (status s' t)" and d: "d \<in> set (deps s' t)"
  have "active_status (status s t)"
    using a resume_status [OF assms(1,2), of t] by (blast intro: refreshed_active)
  then have "status s d = Some TaskCompleted"
    using assms(3) d resume_deps [OF assms(1,2)] by (auto simp: deps_done_def)
  then show "status s' d = Some TaskCompleted"
    using assms(1,2) resume_completed by blast
qed

lemmas steps_ok = claim_ok settle_ok revise_ok resume_ok
lemmas steps_deps_done = claim_deps_done settle_deps_done revise_deps_done resume_deps_done

end

end
