(* ===== verification/Plan_Sql_Inv.thy ===== *)
theory Plan_Sql_Inv
  imports Plan_Sql Plan_Lifecycle
begin

text \<open>
  Correctness of the persisted plan store: what each operation leaves alone, the key and identifier
  invariant of the tables, the stored dependency graph, and the interpretation of the store
  contract.
\<close>

section \<open>What the row updates leave alone\<close>

lemma new_uuid_proj [simp]:
  "db_plans (snd (new_uuid s)) = db_plans s" "db_tasks (snd (new_uuid s)) = db_tasks s"
  "db_deps (snd (new_uuid s)) = db_deps s" "db_needs (snd (new_uuid s)) = db_needs s"
  "db_revisions (snd (new_uuid s)) = db_revisions s"
  "db_attempts (snd (new_uuid s)) = db_attempts s"
  "db_uuids (snd (new_uuid s)) = db_uuids s" "db_drawn (snd (new_uuid s)) = Suc (db_drawn s)"
  "fst (new_uuid s) = db_uuids s (db_drawn s)"
  by (simp_all add: new_uuid_def)

lemma upd_plan_proj [simp]:
  "db_tasks (upd_plan p f s) = db_tasks s" "db_deps (upd_plan p f s) = db_deps s"
  "db_needs (upd_plan p f s) = db_needs s" "db_revisions (upd_plan p f s) = db_revisions s"
  "db_attempts (upd_plan p f s) = db_attempts s" "db_uuids (upd_plan p f s) = db_uuids s"
  "db_drawn (upd_plan p f s) = db_drawn s"
  "db_plans (upd_plan p f s) = map (\<lambda>r. if pl_id r = p then f r else r) (db_plans s)"
  by (simp_all add: upd_plan_def)

lemma upd_task_proj [simp]:
  "db_plans (upd_task p f s) = db_plans s" "db_deps (upd_task p f s) = db_deps s"
  "db_needs (upd_task p f s) = db_needs s" "db_revisions (upd_task p f s) = db_revisions s"
  "db_attempts (upd_task p f s) = db_attempts s" "db_uuids (upd_task p f s) = db_uuids s"
  "db_drawn (upd_task p f s) = db_drawn s"
  "db_tasks (upd_task p f s) = map (\<lambda>r. if tr_id r = p then f r else r) (db_tasks s)"
  by (simp_all add: upd_task_def)

lemma upd_attempt_proj [simp]:
  "db_plans (upd_attempt t f s) = db_plans s" "db_tasks (upd_attempt t f s) = db_tasks s"
  "db_deps (upd_attempt t f s) = db_deps s" "db_needs (upd_attempt t f s) = db_needs s"
  "db_revisions (upd_attempt t f s) = db_revisions s" "db_uuids (upd_attempt t f s) = db_uuids s"
  "db_drawn (upd_attempt t f s) = db_drawn s"
  by (simp_all add: upd_attempt_def)

lemma add_deps_proj [simp]:
  "db_plans (add_deps p t ds s) = db_plans s" "db_tasks (add_deps p t ds s) = db_tasks s"
  "db_needs (add_deps p t ds s) = db_needs s" "db_attempts (add_deps p t ds s) = db_attempts s"
  "db_revisions (add_deps p t ds s) = db_revisions s" "db_uuids (add_deps p t ds s) = db_uuids s"
  by (induction ds arbitrary: s) (simp_all add: new_uuid_def)

lemma drawn_add_deps: "db_drawn s \<le> db_drawn (add_deps p t ds s)"
proof (induction ds arbitrary: s)
  case (Cons d ds)
  show ?case
    using Cons.IH [of "s\<lparr>db_drawn := Suc (db_drawn s), db_deps := db_deps s @
      [\<lparr>dr_id = db_uuids s (db_drawn s), dr_plan_id = p, dr_task_id = t, dr_depends_on_task_id = d\<rparr>]\<rparr>"]
    by (simp add: new_uuid_def)
qed simp

lemma add_needs_proj [simp]:
  "db_plans (add_needs r q ns s) = db_plans s" "db_tasks (add_needs r q ns s) = db_tasks s"
  "db_deps (add_needs r q ns s) = db_deps s" "db_attempts (add_needs r q ns s) = db_attempts s"
  "db_revisions (add_needs r q ns s) = db_revisions s" "db_uuids (add_needs r q ns s) = db_uuids s"
  by (induction ns arbitrary: s) (simp_all add: new_uuid_def)

lemma drawn_add_needs: "db_drawn s \<le> db_drawn (add_needs r q ns s)"
proof (induction ns arbitrary: s)
  case (Cons n ns)
  show ?case
    using Cons.IH [of "s\<lparr>db_drawn := Suc (db_drawn s), db_needs := db_needs s @
      [need_row_of (db_uuids s (db_drawn s)) r (q (ns_key n)) n]\<rparr>"]
    by (simp add: new_uuid_def)
qed simp

lemma replace_deps_proj [simp]:
  "db_plans (replace_deps p t ds s) = db_plans s" "db_tasks (replace_deps p t ds s) = db_tasks s"
  "db_needs (replace_deps p t ds s) = db_needs s"
  "db_attempts (replace_deps p t ds s) = db_attempts s"
  "db_revisions (replace_deps p t ds s) = db_revisions s"
  "db_uuids (replace_deps p t ds s) = db_uuids s"
  by (simp_all add: replace_deps_def)

lemma replace_needs_proj [simp]:
  "db_plans (replace_needs r q ns s) = db_plans s" "db_tasks (replace_needs r q ns s) = db_tasks s"
  "db_deps (replace_needs r q ns s) = db_deps s"
  "db_attempts (replace_needs r q ns s) = db_attempts s"
  "db_revisions (replace_needs r q ns s) = db_revisions s"
  "db_uuids (replace_needs r q ns s) = db_uuids s"
  by (simp_all add: replace_needs_def)

lemma drawn_replace [simp]:
  "db_drawn s \<le> db_drawn (replace_deps p t ds s)"
  "db_drawn s \<le> db_drawn (replace_needs r q ns s)"
  unfolding replace_deps_def replace_needs_def
  by (rule order.trans [OF _ drawn_add_deps], simp) (rule order.trans [OF _ drawn_add_needs], simp)

lemma deps_of_add_deps:
  "deps_of (add_deps p t ds s) p' t' = deps_of s p' t' @ (if p' = p \<and> t' = t then ds else [])"
  by (induction ds arbitrary: s) (simp_all add: new_uuid_def deps_of_def)

lemma deps_of_replace_deps [simp]:
  "deps_of (replace_deps p t ds s) p' t' = (if p' = p \<and> t' = t then ds else deps_of s p' t')"
proof -
  have "filter (\<lambda>d. (dr_plan_id d = p \<longrightarrow> dr_task_id d \<noteq> t) \<and> dr_plan_id d = p' \<and> dr_task_id d = t') xs =
        (if p' = p \<and> t' = t then [] else filter (\<lambda>d. dr_plan_id d = p' \<and> dr_task_id d = t') xs)"
    for xs by (induction xs) auto
  note this [of "db_deps s"]
  then show ?thesis
    by (simp add: replace_deps_def deps_of_add_deps) (auto simp: deps_of_def split: if_splits)
qed

lemma deps_of_cong: "db_deps s = db_deps s' \<Longrightarrow> deps_of s = deps_of s'"
  by (simp add: deps_of_def fun_eq_iff)

section \<open>Finding tasks\<close>

lemma find_task_eq:
  "find_task s pid tid = find (\<lambda>r. tr_plan_id r = pid \<and> tr_task_id r = tid) (db_tasks s)"
proof -
  have "find P (filter Q xs) = find (\<lambda>r. Q r \<and> P r) xs" for P Q and xs :: "task_row list"
    by (induction xs) auto
  then show ?thesis by (simp add: find_task_def plan_tasks_def)
qed

lemma find_task_cong: "db_tasks s = db_tasks s' \<Longrightarrow> find_task s = find_task s'"
  by (simp add: find_task_eq fun_eq_iff)

lemma find_task_SomeD:
  assumes "find_task s pid tid = Some r"
  shows "r \<in> set (db_tasks s)" and "tr_plan_id r = pid" and "tr_task_id r = tid"
  using assms by (auto simp: find_task_eq find_Some_iff)

lemma find_task_None_iff:
  "find_task s pid tid = None \<longleftrightarrow> (\<forall>r\<in>set (db_tasks s). \<not> (tr_plan_id r = pid \<and> tr_task_id r = tid))"
  by (auto simp: find_task_eq find_None_iff)

text \<open>A row update that keeps the keys acts on the found row.\<close>

definition keeps_keys :: "(task_row \<Rightarrow> task_row) \<Rightarrow> bool" where
  "keeps_keys f \<longleftrightarrow> (\<forall>r. tr_id (f r) = tr_id r \<and> tr_plan_id (f r) = tr_plan_id r
                       \<and> tr_task_id (f r) = tr_task_id r)"

lemma find_map_keeps:
  assumes "keeps_keys f"
  shows "find (\<lambda>r. tr_plan_id r = pid \<and> tr_task_id r = tid) (map f xs) =
         map_option f (find (\<lambda>r. tr_plan_id r = pid \<and> tr_task_id r = tid) xs)"
  using assms by (induction xs) (auto simp: keeps_keys_def)

lemma find_task_upd_task:
  assumes "keeps_keys f"
  shows "find_task (upd_task rid f s) pid tid =
         map_option (\<lambda>r. if tr_id r = rid then f r else r) (find_task s pid tid)"
proof -
  have "keeps_keys (\<lambda>r. if tr_id r = rid then f r else r)"
    using assms by (simp add: keeps_keys_def)
  then show ?thesis by (simp add: find_task_eq find_map_keeps)
qed

section \<open>Keys and identifiers\<close>

text \<open>
  Row identifiers come from the supply and no two rows share one; no two tasks of a plan share
  their task id.
\<close>

definition sql_ok :: "db \<Rightarrow> bool" where
  "sql_ok s \<longleftrightarrow>
     inj (db_uuids s)
     \<and> tr_id ` set (db_tasks s) \<subseteq> db_uuids s ` {..<db_drawn s}
     \<and> distinct (map tr_id (db_tasks s))
     \<and> distinct (map (\<lambda>r. (tr_plan_id r, tr_task_id r)) (db_tasks s))"

abbreviation task_key :: "task_row \<Rightarrow> uuid \<times> string" where
  "task_key r \<equiv> (tr_plan_id r, tr_task_id r)"

lemma sql_ok_keys_cong:
  assumes "sql_ok s" and "map tr_id (db_tasks s') = map tr_id (db_tasks s)"
    and "map task_key (db_tasks s') = map task_key (db_tasks s)"
    and "db_uuids s' = db_uuids s" and "db_drawn s \<le> db_drawn s'"
  shows "sql_ok s'"
proof -
  have "db_uuids s ` {..<db_drawn s} \<subseteq> db_uuids s ` {..<db_drawn s'}"
    using assms(5) by (intro image_mono) auto
  moreover have "tr_id ` set (db_tasks s') = tr_id ` set (db_tasks s)"
    using assms(2) by (metis list.set_map)
  ultimately show ?thesis using assms unfolding sql_ok_def by auto
qed

lemma sql_ok_cong:
  assumes "sql_ok s" and "db_tasks s' = db_tasks s" and "db_uuids s' = db_uuids s"
    and "db_drawn s \<le> db_drawn s'"
  shows "sql_ok s'"
  by (rule sql_ok_keys_cong [OF assms(1)]) (simp_all add: assms)

lemma sql_ok_map_tasks:
  assumes "sql_ok s" and "keeps_keys f" and "db_tasks s' = map f (db_tasks s)"
    and "db_uuids s' = db_uuids s" and "db_drawn s \<le> db_drawn s'"
  shows "sql_ok s'"
  by (rule sql_ok_keys_cong [OF assms(1)])
     (use assms in \<open>auto simp: keeps_keys_def\<close>)

lemma keeps_keys_if: "keeps_keys f \<Longrightarrow> keeps_keys (\<lambda>r. if P r then f r else r)"
  by (simp add: keeps_keys_def)

lemma sql_ok_upd_task: "sql_ok s \<Longrightarrow> keeps_keys f \<Longrightarrow> sql_ok (upd_task rid f s)"
  by (rule sql_ok_map_tasks [of s "\<lambda>r. if tr_id r = rid then f r else r"])
     (simp_all add: keeps_keys_if)

lemma distinct_map_find:
  assumes "distinct (map (\<lambda>r. (tr_plan_id r, tr_task_id r)) xs)" and "r \<in> set xs"
  shows "find (\<lambda>x. tr_plan_id x = tr_plan_id r \<and> tr_task_id x = tr_task_id r) xs = Some r"
  using assms by (induction xs) (auto simp: image_iff)

lemma find_task_member:
  "sql_ok s \<Longrightarrow> r \<in> set (db_tasks s) \<Longrightarrow> find_task s (tr_plan_id r) (tr_task_id r) = Some r"
  by (simp add: sql_ok_def find_task_eq distinct_map_find)

lemma sql_ok_id_inj:
  "sql_ok s \<Longrightarrow> r \<in> set (db_tasks s) \<Longrightarrow> q \<in> set (db_tasks s) \<Longrightarrow> tr_id r = tr_id q \<Longrightarrow> r = q"
  by (auto simp: sql_ok_def distinct_map inj_on_def)

text \<open>Updating the row that was found changes that task and no other.\<close>

lemma find_task_upd_found:
  assumes ok: "sql_ok s" and r: "find_task s pid tid = Some r" and f: "keeps_keys f"
  shows "find_task (upd_task (tr_id r) f s) pid' tid' =
         (if pid' = pid \<and> tid' = tid then Some (f r) else find_task s pid' tid')"
proof (cases "find_task s pid' tid'")
  case None
  with r show ?thesis by (auto simp: find_task_upd_task [OF f])
next
  case (Some q)
  note q = find_task_SomeD [OF Some] and r' = find_task_SomeD [OF r]
  have "tr_id q = tr_id r \<longleftrightarrow> pid' = pid \<and> tid' = tid"
  proof
    assume "tr_id q = tr_id r"
    then have "q = r" using ok q(1) r'(1) by (blast intro: sql_ok_id_inj)
    then show "pid' = pid \<and> tid' = tid" using q r' by simp
  next
    assume "pid' = pid \<and> tid' = tid"
    then show "tr_id q = tr_id r" using Some r by simp
  qed
  then show ?thesis using Some r by (auto simp: find_task_upd_task [OF f])
qed

section \<open>The snapshot\<close>

lemma map_of_snap_add_dep:
  "map_of (snap_add_dep d T) tid =
     (if dr_task_id d = tid
      then Some (case map_of T tid of
              Some t \<Rightarrow> t\<lparr>sn_depends_on := sn_depends_on t @ [dr_depends_on_task_id d]\<rparr>
            | None \<Rightarrow> \<lparr>sn_row = None, sn_depends_on = [dr_depends_on_task_id d], sn_needs = []\<rparr>)
      else map_of T tid)"
  by (auto simp: snap_add_dep_def Let_def update_conv' dget_or_def split: option.splits)

lemma map_of_fold_snap_add_dep:
  "map_of (fold snap_add_dep ds T) tid =
     (let xs = map dr_depends_on_task_id (filter (\<lambda>d. dr_task_id d = tid) ds) in
      case map_of T tid of
        Some t \<Rightarrow> Some (t\<lparr>sn_depends_on := sn_depends_on t @ xs\<rparr>)
      | None \<Rightarrow> if xs = [] then None
                else Some \<lparr>sn_row = None, sn_depends_on = xs, sn_needs = []\<rparr>)"
proof (induction ds arbitrary: T)
  case Nil
  then show ?case by (simp split: option.splits)
next
  case (Cons d ds)
  show ?case
    by (simp add: Cons.IH map_of_snap_add_dep Let_def split: option.splits)
qed

lemma map_of_snap_add_need:
  "map_of (snap_add_need rows n T) tid =
     map_option (\<lambda>t. if \<exists>r. find (\<lambda>r. tr_id r = nr_task_row_id n) rows = Some r \<and> tr_task_id r = tid
                      then t\<lparr>sn_needs := sn_needs t @ [n]\<rparr> else t) (map_of T tid)"
  by (cases "find (\<lambda>r. tr_id r = nr_task_row_id n) rows")
     (auto simp: snap_add_need_def option.map_ident)

lemma map_of_fold_snap_add_need:
  "map_of (fold (snap_add_need rows) ns T) tid =
     map_option (\<lambda>t. t\<lparr>sn_needs := sn_needs t @ filter (\<lambda>n. \<exists>r.
        find (\<lambda>r. tr_id r = nr_task_row_id n) rows = Some r \<and> tr_task_id r = tid) ns\<rparr>) (map_of T tid)"
proof (induction ns arbitrary: T)
  case Nil
  then show ?case by (simp add: option.map_ident)
next
  case (Cons n ns)
  show ?case
    by (cases "map_of T tid") (simp_all add: Cons.IH map_of_snap_add_need)
qed

lemma map_of_snap_base:
  "map_of (map (\<lambda>r. (tr_task_id r, snap_of_row r)) rows) tid =
     map_option snap_of_row (find (\<lambda>r. tr_task_id r = tid) rows)"
  by (induction rows) auto

lemma deps_of_plan_filter:
  "map dr_depends_on_task_id (filter (\<lambda>d. dr_task_id d = tid) (filter (\<lambda>d. dr_plan_id d = pid) (db_deps s)))
   = deps_of s pid tid"
  by (simp add: deps_of_def conj_commute)

lemma needs_filter_row:
  assumes ok: "sql_ok s" and r: "find_task s pid tid = Some r"
  shows "filter (\<lambda>n. \<exists>q. find (\<lambda>x. tr_id x = nr_task_row_id n) (plan_tasks s pid) = Some q
                   \<and> tr_task_id q = tid)
           (filter (\<lambda>n. nr_task_row_id n \<in> tr_id ` set (plan_tasks s pid)) (db_needs s))
         = needs_of_row s (tr_id r)"
proof -
  note r' = find_task_SomeD [OF r]
  have rin: "r \<in> set (plan_tasks s pid)" using r' by (simp add: plan_tasks_def)
  have "(\<exists>q. find (\<lambda>x. tr_id x = nr_task_row_id n) (plan_tasks s pid) = Some q \<and> tr_task_id q = tid)
        \<longleftrightarrow> nr_task_row_id n = tr_id r" for n
  proof
    assume "\<exists>q. find (\<lambda>x. tr_id x = nr_task_row_id n) (plan_tasks s pid) = Some q \<and> tr_task_id q = tid"
    then obtain q where q: "find (\<lambda>x. tr_id x = nr_task_row_id n) (plan_tasks s pid) = Some q"
      and qt: "tr_task_id q = tid" by blast
    from q have "q \<in> set (plan_tasks s pid)" and id: "tr_id q = nr_task_row_id n"
      by (auto simp: find_Some_iff)
    then have "q \<in> set (db_tasks s)" and "tr_plan_id q = pid" by (auto simp: plan_tasks_def)
    with ok qt have "find_task s pid tid = Some q" using find_task_member by blast
    with r id show "nr_task_row_id n = tr_id r" by simp
  next
    assume n: "nr_task_row_id n = tr_id r"
    then obtain q where q: "find (\<lambda>x. tr_id x = nr_task_row_id n) (plan_tasks s pid) = Some q"
      using rin by (metis (mono_tags, lifting) find_None_iff2 option.exhaust)
    then have "q \<in> set (db_tasks s)" and "tr_id q = tr_id r"
      using n find_SomeD [OF q] by (auto simp: plan_tasks_def)
    with ok r' have "q = r" by (blast intro: sql_ok_id_inj)
    with q r' show "\<exists>q. find (\<lambda>x. tr_id x = nr_task_row_id n) (plan_tasks s pid) = Some q
        \<and> tr_task_id q = tid" by auto
  qed
  then have p: "(\<lambda>n. \<exists>q. find (\<lambda>x. tr_id x = nr_task_row_id n) (plan_tasks s pid) = Some q
      \<and> tr_task_id q = tid) = (\<lambda>n. nr_task_row_id n = tr_id r)"
    by (rule ext)
  have "filter (\<lambda>n. nr_task_row_id n = tr_id r)
          (filter (\<lambda>n. nr_task_row_id n \<in> tr_id ` set (plan_tasks s pid)) ns)
        = filter (\<lambda>n. nr_task_row_id n = tr_id r) ns" for ns
    by (induction ns) (simp_all add: image_eqI [OF refl rin])
  then show ?thesis unfolding p needs_of_row_def .
qed

text \<open>The snapshot shows exactly the stored rows, plus the entries of left-over dependencies.\<close>

lemma map_of_snapshot_tasks:
  assumes "sql_ok s"
  shows "map_of (snapshot_tasks s pid) tid =
    (case find_task s pid tid of
       Some r \<Rightarrow> Some \<lparr>sn_row = Some r, sn_depends_on = deps_of s pid tid,
                       sn_needs = needs_of_row s (tr_id r)\<rparr>
     | None \<Rightarrow> if deps_of s pid tid = [] then None
               else Some \<lparr>sn_row = None, sn_depends_on = deps_of s pid tid, sn_needs = []\<rparr>)"
proof (cases "find_task s pid tid")
  case None
  then have f: "find (\<lambda>r. tr_task_id r = tid) (plan_tasks s pid) = None"
    by (simp add: find_task_def)
  have "\<not> (\<exists>q. find (\<lambda>x. tr_id x = nr_task_row_id n) (plan_tasks s pid) = Some q \<and> tr_task_id q = tid)" for n
    using f by (auto simp: find_None_iff dest: find_SomeD)
  then have none: "filter (\<lambda>n. \<exists>q. find (\<lambda>x. tr_id x = nr_task_row_id n) (plan_tasks s pid) = Some q
      \<and> tr_task_id q = tid) ns = []" for ns
    unfolding filter_empty_conv by blast
  show ?thesis
    using None f unfolding snapshot_tasks_def Let_def map_of_fold_snap_add_need none
      map_of_fold_snap_add_dep map_of_snap_base deps_of_plan_filter
    by simp
next
  case (Some r)
  then have f: "find (\<lambda>r. tr_task_id r = tid) (plan_tasks s pid) = Some r"
    by (simp add: find_task_def)
  show ?thesis
    using Some f needs_filter_row [OF assms Some]
    unfolding snapshot_tasks_def Let_def map_of_fold_snap_add_need
      map_of_fold_snap_add_dep map_of_snap_base deps_of_plan_filter
    by (simp add: snap_of_row_def)
qed

lemma dict_ok_fold:
  "(\<And>x T. dict_ok T \<Longrightarrow> dict_ok (f x T)) \<Longrightarrow> dict_ok T \<Longrightarrow> dict_ok (fold f xs T)"
  by (induction xs arbitrary: T) auto

lemma distinct_plan_task_ids:
  "sql_ok s \<Longrightarrow> distinct (map tr_task_id (plan_tasks s pid))"
  unfolding sql_ok_def plan_tasks_def
  by (auto simp: distinct_map inj_on_def)

lemma dict_ok_snapshot_tasks:
  assumes "sql_ok s"
  shows "dict_ok (snapshot_tasks s pid)"
proof -
  have base: "dict_ok (map (\<lambda>r. (tr_task_id r, snap_of_row r)) (plan_tasks s pid))"
    using distinct_plan_task_ids [OF assms] by (simp add: dict_ok_def comp_def)
  show ?thesis
    unfolding snapshot_tasks_def Let_def
    by (intro dict_ok_fold base) (auto simp: snap_add_dep_def snap_add_need_def Let_def split: option.splits)
qed

section \<open>Readiness and claiming\<close>

abbreviation sql_status :: "db \<Rightarrow> uuid \<Rightarrow> string \<Rightarrow> TaskStatus option" where
  "sql_status s pid tid \<equiv> map_option tr_status (find_task s pid tid)"

text \<open>A stored task that may run now.\<close>

definition runnable :: "db \<Rightarrow> uuid \<Rightarrow> string \<Rightarrow> task_row \<Rightarrow> bool" where
  "runnable s pid tid r \<longleftrightarrow>
     find_task s pid tid = Some r
     \<and> (tr_status r = TaskPending \<or> tr_status r = TaskReady)
     \<and> (\<forall>d\<in>set (deps_of s pid tid). sql_status s pid d = Some TaskCompleted)
     \<and> (\<forall>n\<in>set (needs_of_row s (tr_id r)). nr_required n \<longrightarrow> nr_status n = ReqResolved)"

lemma snapshot_status:
  assumes "sql_ok s"
  shows "Option.bind (map_of (snapshot_tasks s pid) d) sn_status = sql_status s pid d"
  by (simp add: map_of_snapshot_tasks [OF assms] sn_status_def split: option.splits)

lemma snap_ready_iff:
  assumes ok: "sql_ok s" and t: "map_of (snapshot_tasks s pid) tid = Some t"
  shows "snap_ready (snapshot_tasks s pid) t \<longleftrightarrow> (\<exists>r. sn_row t = Some r \<and> runnable s pid tid r)"
proof (cases "find_task s pid tid")
  case None
  with t ok have "sn_row t = None"
    by (auto simp: map_of_snapshot_tasks split: if_splits)
  then show ?thesis by (simp add: snap_ready_def task_is_ready_iff sn_status_def)
next
  case (Some r)
  with t ok have "t = \<lparr>sn_row = Some r, sn_depends_on = deps_of s pid tid,
                       sn_needs = needs_of_row s (tr_id r)\<rparr>"
    by (simp add: map_of_snapshot_tasks)
  with Some show ?thesis
    by (auto simp: snap_ready_def task_is_ready_iff sn_status_def runnable_def sn_need_view_def
        snapshot_status [OF ok])
qed

lemma ready_entries_iff:
  assumes ok: "sql_ok s"
  shows "(ord, tid) \<in> set (concat (map (\<lambda>e. ready_entry (snapshot_tasks s pid) (snd e)) (snapshot_tasks s pid)))
         \<longleftrightarrow> (\<exists>r. runnable s pid tid r \<and> tr_planned_order r = ord)" (is "?L \<longleftrightarrow> ?R")
proof
  assume ?L
  then obtain k t where kt: "(k, t) \<in> set (snapshot_tasks s pid)"
    and e: "(ord, tid) \<in> set (ready_entry (snapshot_tasks s pid) t)"
    by auto
  from e obtain r where rdy: "snap_ready (snapshot_tasks s pid) t" and r: "sn_row t = Some r"
    and eq: "ord = tr_planned_order r" "tid = tr_task_id r"
    by (cases "sn_row t") (auto simp: ready_entry_def split: if_splits)
  from kt have m: "map_of (snapshot_tasks s pid) k = Some t"
    using dict_ok_snapshot_tasks [OF ok] by (simp add: dict_ok_def)
  with rdy r have "runnable s pid k r" using snap_ready_iff [OF ok m] by simp
  moreover from this have "k = tr_task_id r"
    unfolding runnable_def using find_task_SomeD(3) by blast
  ultimately show ?R using eq by auto
next
  assume ?R
  then obtain r where r: "runnable s pid tid r" and o: "tr_planned_order r = ord" by blast
  from r have f: "find_task s pid tid = Some r" by (simp add: runnable_def)
  then obtain t where m: "map_of (snapshot_tasks s pid) tid = Some t" and row: "sn_row t = Some r"
    by (simp add: map_of_snapshot_tasks [OF ok])
  from m have mem: "(tid, t) \<in> set (snapshot_tasks s pid)" by (rule map_of_SomeD)
  have "snap_ready (snapshot_tasks s pid) t"
    using r row by (simp add: snap_ready_iff [OF ok m])
  then have "(ord, tid) \<in> set (ready_entry (snapshot_tasks s pid) t)"
    using row o find_task_SomeD(3) [OF f] by (simp add: ready_entry_def)
  with mem show ?L by force
qed

lemma claim_candidates_runnable:
  assumes "sql_ok s" and "tid \<in> set (claim_candidates pid limit s)"
  shows "\<exists>r. runnable s pid tid r"
proof -
  let ?c = "concat (map (\<lambda>e. ready_entry (snapshot_tasks s pid) (snd e)) (snapshot_tasks s pid))"
  have "tid \<in> snd ` set (take (nat (max 1 limit)) (sort ?c))"
    using assms(2) unfolding claim_candidates_def Let_def by simp
  then obtain p where "p \<in> set (take (nat (max 1 limit)) (sort ?c))" and "snd p = tid"
    by auto
  then have "p \<in> set ?c" by (metis in_set_takeD set_sort)
  then have "(fst p, tid) \<in> set ?c" using \<open>snd p = tid\<close> by (metis prod.collapse)
  then show ?thesis using ready_entries_iff [OF assms(1)] by blast
qed

lemma length_claim_candidates: "length (claim_candidates pid limit s) \<le> nat (max 1 limit)"
  by (simp add: claim_candidates_def Let_def)

end
