(* ===== verification/Plan_Sql_Ops.thy ===== *)
theory Plan_Sql_Ops
  imports Plan_Sql_Inv
begin

text \<open>
  The effect of each operation of the persisted store on the tasks of a plan: claiming, results,
  failures, pauses and resumption.
\<close>

section \<open>Row updates used by the operations\<close>

lemma keeps_keys_intros [simp, intro]:
  "keeps_keys start_attempt"
  "keeps_keys (redefine_task index item)"
  "keeps_keys (\<lambda>r. r\<lparr>tr_result := v, tr_checkpoint := c, tr_status := st\<rparr>)"
  "keeps_keys (\<lambda>r. r\<lparr>tr_checkpoint := g r, tr_status := st\<rparr>)"
  "keeps_keys (\<lambda>r. if P r then r\<lparr>tr_status := st, tr_next_retry_at := q\<rparr> else r\<lparr>tr_status := st'\<rparr>)"
  by (simp_all add: keeps_keys_def start_attempt_def redefine_task_def)

lemma find_task_upd_plan [simp]: "find_task (upd_plan p f s) = find_task s"
  by (rule find_task_cong) simp

lemma deps_of_upd_plan [simp]: "deps_of (upd_plan p f s) = deps_of s"
  by (rule deps_of_cong) simp

lemma deps_of_upd_task [simp]: "deps_of (upd_task p f s) = deps_of s"
  by (rule deps_of_cong) simp

lemma find_task_upd_attempt [simp]: "find_task (upd_attempt t f s) = find_task s"
  by (rule find_task_cong) simp

lemma deps_of_upd_attempt [simp]: "deps_of (upd_attempt t f s) = deps_of s"
  by (rule deps_of_cong) simp

lemma find_task_replace [simp]:
  "find_task (replace_deps p t ds s) = find_task s"
  "find_task (replace_needs r q ns s) = find_task s"
  "deps_of (replace_needs r q ns s) = deps_of s"
  by (rule find_task_cong deps_of_cong, simp)+

lemma sql_refresh_status_proj [simp]:
  "db_tasks (sql_refresh_status pid s) = db_tasks s"
  "db_deps (sql_refresh_status pid s) = db_deps s"
  "db_needs (sql_refresh_status pid s) = db_needs s"
  "db_attempts (sql_refresh_status pid s) = db_attempts s"
  "db_revisions (sql_refresh_status pid s) = db_revisions s"
  "db_uuids (sql_refresh_status pid s) = db_uuids s"
  "db_drawn (sql_refresh_status pid s) = db_drawn s"
  by (simp_all add: sql_refresh_status_def Let_def)

lemma find_task_refresh [simp]: "find_task (sql_refresh_status pid s) = find_task s"
  by (rule find_task_cong) simp

lemma deps_of_refresh [simp]: "deps_of (sql_refresh_status pid s) = deps_of s"
  by (rule deps_of_cong) simp

lemma resolve_consumer_needs_proj [simp]:
  "db_tasks (resolve_consumer_needs pid row v s) = db_tasks s"
  "db_deps (resolve_consumer_needs pid row v s) = db_deps s"
  "db_plans (resolve_consumer_needs pid row v s) = db_plans s"
  "db_attempts (resolve_consumer_needs pid row v s) = db_attempts s"
  "db_revisions (resolve_consumer_needs pid row v s) = db_revisions s"
  "db_uuids (resolve_consumer_needs pid row v s) = db_uuids s"
  "db_drawn (resolve_consumer_needs pid row v s) = db_drawn s"
  by (simp_all add: resolve_consumer_needs_def)

lemma find_task_resolve [simp]: "find_task (resolve_consumer_needs pid row v s) = find_task s"
  by (rule find_task_cong) simp

lemma deps_of_resolve [simp]: "deps_of (resolve_consumer_needs pid row v s) = deps_of s"
  by (rule deps_of_cong) simp

section \<open>Claiming\<close>

text \<open>Marking one candidate: the row found for it, unless it runs already, starts an attempt.\<close>

lemma claim_one_effect_all:
  assumes ok: "sql_ok s" and c: "claim_one pid tid (s, cl) = (s', cl')"
  shows "sql_ok s' \<and> deps_of s' = deps_of s \<and> db_plans s' = db_plans s \<and> db_needs s' = db_needs s
    \<and> (\<forall>pid' tid'. find_task s' pid' tid' =
         (if pid' = pid \<and> tid' = tid
          then map_option (\<lambda>r. if tr_status r = TaskRunning then r else start_attempt r)
                 (find_task s pid tid)
          else find_task s pid' tid'))"
proof -
  consider (skip) "s' = s" "find_task s pid tid = None \<or>
        (\<exists>r. find_task s pid tid = Some r \<and> tr_status r = TaskRunning)"
    | (start) r a where "find_task s pid tid = Some r" "tr_status r \<noteq> TaskRunning"
        "s' = (upd_task (tr_id r) start_attempt s)\<lparr>db_attempts := a\<rparr>"
    using c by (auto simp: claim_one_def Let_def split: option.splits if_splits)
  then show ?thesis
  proof cases
    case skip
    then show ?thesis using ok by auto
  next
    case (start r a)
    let ?u = "upd_task (tr_id r) start_attempt s"
    have u: "sql_ok ?u" using ok by (simp add: sql_ok_upd_task)
    have "sql_ok s'"
      using u by (rule sql_ok_cong) (simp_all add: start)
    moreover have "find_task s' = find_task ?u"
      by (rule find_task_cong) (simp add: start)
    moreover have "deps_of s' = deps_of s"
      by (rule deps_of_cong) (simp add: start)
    moreover have "find_task ?u pid' tid' =
        (if pid' = pid \<and> tid' = tid then Some (start_attempt r) else find_task s pid' tid')"
      for pid' tid'
      using find_task_upd_found [OF ok start(1), of start_attempt] by simp
    ultimately show ?thesis using start by simp
  qed
qed

lemma claim_one_effect:
  assumes "sql_ok s" and "claim_one pid tid (s, cl) = (s', cl')"
  shows "sql_ok s'" and "deps_of s' = deps_of s" and "db_plans s' = db_plans s"
    and "db_needs s' = db_needs s"
    and "find_task s' pid' tid' =
         (if pid' = pid \<and> tid' = tid
          then map_option (\<lambda>r. if tr_status r = TaskRunning then r else start_attempt r)
                 (find_task s pid tid)
          else find_task s pid' tid')"
  using claim_one_effect_all [OF assms] by blast+

lemma start_attempt_status [simp]: "tr_status (start_attempt r) = TaskRunning"
  by (simp add: start_attempt_def)

lemma claim_fold_effect:
  assumes "sql_ok s" and "fold (claim_one pid) ids (s, cl) = (s', cl')"
  shows "sql_ok s' \<and> deps_of s' = deps_of s \<and> db_plans s' = db_plans s \<and> db_needs s' = db_needs s
    \<and> (\<forall>pid' tid'. find_task s' pid' tid' =
         (if pid' = pid \<and> tid' \<in> set ids
          then map_option (\<lambda>r. if tr_status r = TaskRunning then r else start_attempt r)
                 (find_task s pid tid')
          else find_task s pid' tid'))"
  using assms
proof (induction ids arbitrary: s cl)
  case Nil
  then show ?case by simp
next
  case (Cons tid ids)
  obtain u c where u: "claim_one pid tid (s, cl) = (u, c)" by fastforce
  note e = claim_one_effect [OF Cons.prems(1) u]
  have "fold (claim_one pid) ids (u, c) = (s', cl')" using Cons.prems(2) u by simp
  note IH = Cons.IH [OF e(1) this]
  show ?case
    using IH e by (auto simp: option.map_comp comp_def intro!: option.map_cong)
qed

text \<open>The claimed rows are exactly the rows that the fold started.\<close>

lemma claim_one_claimed:
  assumes "claim_one pid tid (s, cl) = (s', cl')"
  shows "cl' = cl @ (case find_task s pid tid of None \<Rightarrow> []
                     | Some r \<Rightarrow> if tr_status r = TaskRunning then [] else [start_attempt r])"
  using assms by (auto simp: claim_one_def Let_def split: option.splits if_splits)

lemma claim_fold_claimed:
  assumes "sql_ok s" and "fold (claim_one pid) ids (s, cl) = (s', cl')" and "distinct ids"
  shows "cl' = cl @ concat (map (\<lambda>tid. case find_task s pid tid of None \<Rightarrow> []
                     | Some r \<Rightarrow> if tr_status r = TaskRunning then [] else [start_attempt r]) ids)"
  using assms
proof (induction ids arbitrary: s cl)
  case Nil
  then show ?case by simp
next
  case (Cons tid ids)
  obtain u c where u: "claim_one pid tid (s, cl) = (u, c)" by fastforce
  note e = claim_one_effect [OF Cons.prems(1) u]
  have "fold (claim_one pid) ids (u, c) = (s', cl')" using Cons.prems(2) u by simp
  then have "cl' = c @ concat (map (\<lambda>tid. case find_task u pid tid of None \<Rightarrow> []
                     | Some r \<Rightarrow> if tr_status r = TaskRunning then [] else [start_attempt r]) ids)"
    using Cons.IH [OF e(1)] Cons.prems(3) by simp
  moreover have "find_task u pid t = find_task s pid t" if "t \<in> set ids" for t
    using that Cons.prems(3) e(5) [of pid t] by auto
  ultimately show ?case
    using claim_one_claimed [OF u] by (simp cong: map_cong)
qed

lemma distinct_claim_candidates:
  assumes ok: "sql_ok s"
  shows "distinct (claim_candidates pid limit s)"
proof -
  let ?T = "snapshot_tasks s pid"
  have gen: "distinct (map snd (concat (map (\<lambda>e. ready_entry ?T (snd e)) xs)))
        \<and> set (map snd (concat (map (\<lambda>e. ready_entry ?T (snd e)) xs))) \<subseteq> fst ` set xs"
    if "set xs \<subseteq> set ?T" and "distinct (map fst xs)" for xs
    using that
  proof (induction xs)
    case Nil
    then show ?case by simp
  next
    case (Cons x xs)
    obtain k t where x: "x = (k, t)" by fastforce
    have m: "map_of ?T k = Some t"
      using Cons.prems x dict_ok_snapshot_tasks [OF ok] by (simp add: dict_ok_def)
    have key: "set (map snd (ready_entry ?T t)) \<subseteq> {k}"
    proof (cases "sn_row t")
      case None
      then show ?thesis by (simp add: ready_entry_def)
    next
      case (Some r)
      with m ok have "find_task s pid k = Some r"
        by (auto simp: map_of_snapshot_tasks split: option.splits if_splits)
      then have "tr_task_id r = k" by (rule find_task_SomeD(3))
      with Some show ?thesis by (auto simp: ready_entry_def)
    qed
    have d: "distinct (map snd (ready_entry ?T t))"
      by (simp add: ready_entry_def split: option.splits)
    have "set xs \<subseteq> set ?T" and "distinct (map fst xs)" using Cons.prems by auto
    note IH = Cons.IH [OF this]
    have "distinct (map snd (concat (map (\<lambda>e. ready_entry ?T (snd e)) xs)))"
      and sub: "set (map snd (concat (map (\<lambda>e. ready_entry ?T (snd e)) xs))) \<subseteq> fst ` set xs"
      using IH by blast+
    moreover have "k \<notin> fst ` set xs" using Cons.prems x by simp
    ultimately show ?case using key d x by (auto simp: subset_iff)
  qed
  have "distinct (map snd (concat (map (\<lambda>e. ready_entry ?T (snd e)) ?T)))"
    using gen [of ?T] dict_ok_snapshot_tasks [OF ok] by (simp add: dict_ok_def)
  then have "distinct (map snd (sort (concat (map (\<lambda>e. ready_entry ?T (snd e)) ?T))))"
    by (simp add: distinct_map)
  then show ?thesis
    unfolding claim_candidates_def Let_def take_map [symmetric] by (rule distinct_take)
qed

end
