(* ===== verification/Plan_Sql_Patch.thy ===== *)
theory Plan_Sql_Patch
  imports Plan_Sql_Ops
begin

text \<open>
  The effect of \<open>apply_patch\<close>: which tasks it replaces, inserts and removes, the dependency graph
  it leaves in the database, and what it never touches.
\<close>

section \<open>Removal\<close>

lemma remove_tasks_proj [simp]:
  "db_plans (remove_tasks pid ids s) = db_plans s" "db_deps (remove_tasks pid ids s) = db_deps s"
  "db_revisions (remove_tasks pid ids s) = db_revisions s"
  "db_uuids (remove_tasks pid ids s) = db_uuids s" "db_drawn (remove_tasks pid ids s) = db_drawn s"
  by (simp_all add: remove_tasks_def Let_def)

lemma find_filter_unique:
  assumes "\<And>x y. x \<in> set xs \<Longrightarrow> y \<in> set xs \<Longrightarrow> P x \<Longrightarrow> P y \<Longrightarrow> x = y"
  shows "find P (filter Q xs) = (case find P xs of Some x \<Rightarrow> if Q x then Some x else None | None \<Rightarrow> None)"
  using assms
proof (induction xs)
  case Nil
  then show ?case by simp
next
  case (Cons x xs)
  have IH: "find P (filter Q xs) = (case find P xs of Some x \<Rightarrow> if Q x then Some x else None | None \<Rightarrow> None)"
    by (rule Cons.IH) (use Cons.prems in auto)
  show ?case
  proof (cases "P x \<and> \<not> Q x")
    case True
    have "find P (filter Q xs) = None"
      unfolding find_None_iff using True Cons.prems by fastforce
    then show ?thesis using True by simp
  next
    case False
    then show ?thesis using IH by auto
  qed
qed

lemma find_task_remove_tasks:
  assumes ok: "sql_ok s"
  shows "find_task (remove_tasks pid ids s) pid' tid' =
    (case find_task s pid' tid' of
       Some r \<Rightarrow> if pid' = pid \<and> tid' \<in> set ids \<and> \<not> is_active (tr_status r) then None else Some r
     | None \<Rightarrow> None)"
proof -
  let ?P = "\<lambda>r. tr_plan_id r = pid' \<and> tr_task_id r = tid'"
  let ?Q = "\<lambda>r. \<not> (tr_plan_id r = pid \<and> tr_task_id r \<in> set ids \<and> \<not> is_active (tr_status r))"
  have "find ?P (filter ?Q (db_tasks s)) =
        (case find ?P (db_tasks s) of Some x \<Rightarrow> if ?Q x then Some x else None | None \<Rightarrow> None)"
  proof (rule find_filter_unique)
    fix x y assume "x \<in> set (db_tasks s)" "y \<in> set (db_tasks s)" "?P x" "?P y"
    then show "x = y" using find_task_member [OF ok, of x] find_task_member [OF ok, of y] by simp
  qed
  moreover have "find_task (remove_tasks pid ids s) pid' tid' = find ?P (filter ?Q (db_tasks s))"
    by (simp add: find_task_eq remove_tasks_def Let_def)
  ultimately show ?thesis
    by (auto simp: find_task_eq split: option.splits dest: find_SomeD)
qed

lemma sql_ok_remove_tasks: "sql_ok s \<Longrightarrow> sql_ok (remove_tasks pid ids s)"
  unfolding sql_ok_def by (auto simp: remove_tasks_def Let_def distinct_map inj_on_def)

lemma deps_of_remove_tasks [simp]: "deps_of (remove_tasks pid ids s) = deps_of s"
  by (rule deps_of_cong) simp

section \<open>One item of a patch\<close>

lemma insert_task_fresh:
  assumes ok: "sql_ok s" and none: "find_task s pid (pt_task_id item) = None"
    and ins: "insert_task pid index item s = (rid, s1)"
  shows "sql_ok s1 \<and> deps_of s1 = deps_of s \<and> db_plans s1 = db_plans s
    \<and> (\<exists>r. tr_status r = TaskPending \<and> tr_id r = rid \<and> (\<forall>pid' tid'. find_task s1 pid' tid' =
         (if pid' = pid \<and> tid' = pt_task_id item then Some r else find_task s pid' tid')))"
proof -
  define row where "row = \<lparr>tr_id = db_uuids s (db_drawn s), tr_plan_id = pid, tr_task_id = pt_task_id item,
                 tr_planned_order = index, tr_intent = pt_intent item,
                 tr_instructions = pt_instructions item, tr_executor = pt_executor item,
                 tr_status = TaskPending, tr_inputs = pt_inputs item,
                 tr_expected_outputs = pt_expected_outputs item,
                 tr_on_success = pt_on_success item, tr_checkpoint = [], tr_result = None,
                 tr_attempts = 0, tr_next_retry_at = None\<rparr>"
  have s1: "s1 = s\<lparr>db_drawn := Suc (db_drawn s), db_tasks := db_tasks s @ [row]\<rparr>" and rid: "rid = tr_id row"
    using ins by (auto simp: insert_task_def new_uuid_def row_def)
  have fresh: "db_uuids s (db_drawn s) \<notin> tr_id ` set (db_tasks s)"
  proof
    assume "db_uuids s (db_drawn s) \<in> tr_id ` set (db_tasks s)"
    then have "db_uuids s (db_drawn s) \<in> db_uuids s ` {..<db_drawn s}"
      using ok by (auto simp: sql_ok_def)
    then show False using ok by (auto simp: sql_ok_def dest: injD)
  qed
  have key: "(pid, pt_task_id item) \<notin> task_key ` set (db_tasks s)"
    using none by (auto simp: find_task_None_iff)
  have "tr_id ` set (db_tasks s) \<subseteq> db_uuids s ` {..<Suc (db_drawn s)}"
    using ok by (auto simp: sql_ok_def lessThan_Suc)
  then have "sql_ok s1"
    using ok fresh key by (auto simp: sql_ok_def s1 row_def lessThan_Suc)
  moreover have "deps_of s1 = deps_of s" by (rule deps_of_cong) (simp add: s1)
  moreover have "find_task s1 pid' tid' =
      (if pid' = pid \<and> tid' = pt_task_id item then Some row else find_task s pid' tid')" for pid' tid'
  proof -
    have "find P (xs @ [x]) = (case find P xs of Some y \<Rightarrow> Some y | None \<Rightarrow> if P x then Some x else None)"
      for P and xs :: "task_row list" and x
      by (induction xs) auto
    then show ?thesis
      using none by (auto simp: find_task_eq s1 row_def split: option.splits)
  qed
  moreover have "tr_status row = TaskPending" by (simp add: row_def)
  ultimately show ?thesis using rid by (auto simp: s1)
qed

lemma redefine_task_status [simp]: "tr_status (redefine_task i item r) = TaskPending"
  by (simp add: redefine_task_def)

text \<open>An applied item: its task was absent or inactive, is pending now, and has its new edges.\<close>

lemma apply_item_effect:
  assumes ok: "sql_ok s" and a: "apply_item pid need_rows s (i, item) = Inr s'"
  shows "sql_ok s' \<and> db_plans s' = db_plans s
    \<and> (\<forall>r. find_task s pid (pt_task_id item) = Some r \<longrightarrow> \<not> is_active (tr_status r))
    \<and> (\<forall>pid' tid'. deps_of s' pid' tid' =
         (if pid' = pid \<and> tid' = pt_task_id item then pt_depends_on item else deps_of s pid' tid'))
    \<and> (\<exists>r. tr_status r = TaskPending \<and> (\<forall>pid' tid'. find_task s' pid' tid' =
         (if pid' = pid \<and> tid' = pt_task_id item then Some r else find_task s pid' tid')))"
proof (cases "find_task s pid (pt_task_id item)")
  case None
  obtain rid s1 where ins: "insert_task pid (int i) item s = (rid, s1)" by fastforce
  have s': "s' = replace_needs rid Map.empty (pt_needs item)
                  (replace_deps pid (pt_task_id item) (pt_depends_on item) s1)"
    using a None ins by (auto simp: apply_item_def split: if_splits)
  note f = insert_task_fresh [OF ok None ins]
  have "sql_ok s'"
  proof -
    have "sql_ok (replace_deps pid (pt_task_id item) (pt_depends_on item) s1)"
      using f by (auto intro: sql_ok_cong)
    then show ?thesis unfolding s' by (rule sql_ok_cong) simp_all
  qed
  moreover obtain r where "tr_status r = TaskPending" and "\<forall>pid' tid'. find_task s1 pid' tid' =
      (if pid' = pid \<and> tid' = pt_task_id item then Some r else find_task s pid' tid')"
    using f by blast
  ultimately show ?thesis using f None unfolding s' by auto
next
  case (Some task)
  have na: "\<not> is_active (tr_status task)"
    using a Some by (auto simp: apply_item_def Let_def split: if_splits)
  define u where "u = upd_task (tr_id task) (redefine_task (int i) item) s"
  obtain prior where s': "s' = replace_needs (tr_id task) prior (pt_needs item)
                  (replace_deps pid (pt_task_id item) (pt_depends_on item) u)"
    using a Some na by (auto simp: apply_item_def Let_def u_def split: if_splits)
  have u: "sql_ok u" unfolding u_def using ok by (simp add: sql_ok_upd_task)
  then have "sql_ok s'"
  proof -
    have "sql_ok (replace_deps pid (pt_task_id item) (pt_depends_on item) u)"
      using u by (rule sql_ok_cong) simp_all
    then show ?thesis unfolding s' by (rule sql_ok_cong) simp_all
  qed
  moreover have "find_task s' pid' tid' = (if pid' = pid \<and> tid' = pt_task_id item
       then Some (redefine_task (int i) item task) else find_task s pid' tid')" for pid' tid'
    unfolding s' u_def using find_task_upd_found [OF ok Some, of "redefine_task (int i) item"] by simp
  then have "\<exists>r. tr_status r = TaskPending \<and> (\<forall>pid' tid'. find_task s' pid' tid' =
         (if pid' = pid \<and> tid' = pt_task_id item then Some r else find_task s pid' tid'))"
    by (intro exI [of _ "redefine_task (int i) item task"]) simp
  moreover have "deps_of s' pid' tid' = (if pid' = pid \<and> tid' = pt_task_id item
       then pt_depends_on item else deps_of s pid' tid')" for pid' tid'
    by (simp add: s' u_def)
  moreover have "db_plans s' = db_plans s" by (simp add: s' u_def)
  ultimately show ?thesis using na Some by simp
qed

section \<open>All items\<close>

lemma apply_items_effect:
  assumes "sql_ok s" and "foldE (apply_item pid need_rows) s ixs = Inr s'"
    and "distinct (map (\<lambda>x. pt_task_id (snd x)) ixs)"
  shows "sql_ok s' \<and> db_plans s' = db_plans s
    \<and> (\<forall>pid' tid'. \<not> (pid' = pid \<and> tid' \<in> (\<lambda>x. pt_task_id (snd x)) ` set ixs) \<longrightarrow>
         find_task s' pid' tid' = find_task s pid' tid' \<and> deps_of s' pid' tid' = deps_of s pid' tid')
    \<and> (\<forall>x\<in>set ixs. deps_of s' pid (pt_task_id (snd x)) = pt_depends_on (snd x)
         \<and> (\<forall>r. find_task s pid (pt_task_id (snd x)) = Some r \<longrightarrow> \<not> is_active (tr_status r))
         \<and> sql_status s' pid (pt_task_id (snd x)) = Some TaskPending)"
  using assms
proof (induction ixs arbitrary: s)
  case Nil
  then show ?case by simp
next
  case (Cons x ixs)
  obtain i item where x: "x = (i, item)" by fastforce
  from Cons.prems(2) obtain u where u: "apply_item pid need_rows s (i, item) = Inr u"
    and rest: "foldE (apply_item pid need_rows) u ixs = Inr s'"
    by (auto simp: x split: sum.splits)
  note e = apply_item_effect [OF Cons.prems(1) u]
  have d: "distinct (map (\<lambda>x. pt_task_id (snd x)) ixs)" and new: "pt_task_id item \<notin> (\<lambda>x. pt_task_id (snd x)) ` set ixs"
    using Cons.prems(3) x by auto
  note IH = Cons.IH [OF conjunct1 [OF e] rest d]
  obtain r where r: "tr_status r = TaskPending" "\<forall>pid' tid'. find_task u pid' tid' =
         (if pid' = pid \<and> tid' = pt_task_id item then Some r else find_task s pid' tid')"
    using e by blast
  have other: "find_task u pid (pt_task_id (snd y)) = find_task s pid (pt_task_id (snd y))"
    if "y \<in> set ixs" for y
    using that new r(2) by (metis (mono_tags, lifting) image_eqI)
  have item: "find_task s' pid (pt_task_id item) = Some r" "deps_of s' pid (pt_task_id item) = pt_depends_on item"
    using IH new r(2) e by auto
  show ?case
    using IH e r other item x by auto
qed

section \<open>The whole patch\<close>

lemma finish_patch_proj [simp]:
  "db_tasks (finish_patch pid patch reason invocation plan s) = db_tasks s"
  "db_deps (finish_patch pid patch reason invocation plan s) = db_deps s"
  "db_attempts (finish_patch pid patch reason invocation plan s) = db_attempts s"
  "db_uuids (finish_patch pid patch reason invocation plan s) = db_uuids s"
  "db_drawn (finish_patch pid patch reason invocation plan s) = db_drawn s"
  by (simp_all add: finish_patch_def route_needs_to_user_def Let_def split: option.splits)

lemma find_task_finish_patch [simp]: "find_task (finish_patch pid patch reason invocation plan s) = find_task s"
  by (rule find_task_cong) simp

lemma deps_of_finish_patch [simp]: "deps_of (finish_patch pid patch reason invocation plan s) = deps_of s"
  by (rule deps_of_cong) simp

text \<open>The successful run of \<open>apply_patch\<close>, taken apart.\<close>

lemma sql_apply_patch_E:
  assumes "sql_apply_patch pid patch reason invocation s = Inr s'"
  obtains plan s1 where "find_plan s pid = Some plan"
    and "pl_revision plan = pp_expected_revision patch"
    and "\<forall>r\<in>set (plan_tasks s pid). tr_task_id r \<in> set (pp_remove_task_ids patch)
           \<longrightarrow> \<not> is_active (tr_status r)"
    and "validate_task_graph (map snd (combined_tasks s pid patch)) = Inr ()"
    and "foldE (apply_item pid (db_needs s)) (remove_tasks pid (pp_remove_task_ids patch) s)
           (enumerate 0 (pp_tasks patch)) = Inr s1"
    and "s' = finish_patch pid patch reason invocation plan s1"
  using assms
  by (auto simp: sql_apply_patch_def accept_simps list_ex_iff split: option.splits if_splits)

lemma set_enumerate_items: "(\<lambda>x. pt_task_id (snd x)) ` set (enumerate n ts) = pt_task_id ` set ts"
  by (metis (no_types) image_image image_set map_snd_enumerate)

lemma enumerate_member: "x \<in> set xs \<Longrightarrow> \<exists>k. (k, x) \<in> set (enumerate n xs)"
  by (induction xs arbitrary: n) auto

lemma map_enumerate_items: "map (\<lambda>x. pt_task_id (snd x)) (enumerate n ts) = map pt_task_id ts"
  by (induction ts arbitrary: n) simp_all

text \<open>What a successful patch does to each task of the plan.\<close>

lemma sql_apply_patch_effect:
  assumes ok: "sql_ok s" and valid: "distinct (map pt_task_id (pp_tasks patch))"
    and p: "sql_apply_patch pid patch reason invocation s = Inr s'"
  shows "sql_ok s'"
    and "\<not> (pid' = pid \<and> (tid' \<in> pt_task_id ` set (pp_tasks patch) \<or> tid' \<in> set (pp_remove_task_ids patch)))
         \<Longrightarrow> find_task s' pid' tid' = find_task s pid' tid' \<and> deps_of s' pid' tid' = deps_of s pid' tid'"
    and "t \<in> set (pp_tasks patch) \<Longrightarrow>
         deps_of s' pid (pt_task_id t) = pt_depends_on t
         \<and> sql_status s' pid (pt_task_id t) = Some TaskPending
         \<and> \<not> active_status (sql_status s pid (pt_task_id t))
             \<or> pt_task_id t \<in> set (pp_remove_task_ids patch)"
    and "tid' \<in> set (pp_remove_task_ids patch) - pt_task_id ` set (pp_tasks patch) \<Longrightarrow>
         find_task s' pid tid' = None \<and> \<not> active_status (sql_status s pid tid')"
proof -
  obtain plan s1 where plan: "find_plan s pid = Some plan"
    and keep: "\<forall>r\<in>set (plan_tasks s pid). tr_task_id r \<in> set (pp_remove_task_ids patch)
           \<longrightarrow> \<not> is_active (tr_status r)"
    and run: "foldE (apply_item pid (db_needs s)) (remove_tasks pid (pp_remove_task_ids patch) s)
           (enumerate 0 (pp_tasks patch)) = Inr s1"
    and s': "s' = finish_patch pid patch reason invocation plan s1"
    using p by (rule sql_apply_patch_E)
  let ?r = "remove_tasks pid (pp_remove_task_ids patch) s"
  have okr: "sql_ok ?r" using ok by (rule sql_ok_remove_tasks)
  note e = apply_items_effect [OF okr run, unfolded map_enumerate_items set_enumerate_items, OF valid]
  have e1: "sql_ok s1" using e by simp
  have e2: "find_task s1 p x = find_task ?r p x \<and> deps_of s1 p x = deps_of s p x"
    if "\<not> (p = pid \<and> x \<in> pt_task_id ` set (pp_tasks patch))" for p x
    using e that unfolding deps_of_remove_tasks by blast
  have e3: "deps_of s1 pid (pt_task_id x) = pt_depends_on x
        \<and> (\<forall>r. find_task ?r pid (pt_task_id x) = Some r \<longrightarrow> \<not> is_active (tr_status r))
        \<and> sql_status s1 pid (pt_task_id x) = Some TaskPending" if x: "x \<in> set (pp_tasks patch)" for x
  proof -
    obtain n where "(n, x) \<in> set (enumerate 0 (pp_tasks patch))"
      using enumerate_member [OF x] by blast
    note bspec [OF conjunct2 [OF conjunct2 [OF conjunct2 [OF e]]] this]
    then show ?thesis by simp
  qed
  have inact: "\<not> is_active (tr_status r)"
    if "find_task s pid x = Some r" "x \<in> set (pp_remove_task_ids patch)" for x r
    using keep that find_task_SomeD [OF that(1)] by (simp add: plan_tasks_def)
  have fr: "find_task ?r pid' x = (if pid' = pid \<and> x \<in> set (pp_remove_task_ids patch) then None
       else find_task s pid' x)" for pid' x
    using inact by (auto simp: find_task_remove_tasks [OF ok] split: option.splits)
  show "sql_ok s'"
    by (rule sql_ok_cong [OF e1]) (simp_all add: s')
  show "find_task s' pid' tid' = find_task s pid' tid' \<and> deps_of s' pid' tid' = deps_of s pid' tid'"
    if "\<not> (pid' = pid \<and> (tid' \<in> pt_task_id ` set (pp_tasks patch) \<or> tid' \<in> set (pp_remove_task_ids patch)))"
    using that e2 [of pid' tid'] fr [of pid' tid'] unfolding s' by auto
  have as: "active_status (sql_status s pid x) \<longleftrightarrow>
      (\<exists>r. find_task s pid x = Some r \<and> is_active (tr_status r))" for x
    by (auto simp: active_status_def is_active_def)
  show "deps_of s' pid (pt_task_id t) = pt_depends_on t
         \<and> sql_status s' pid (pt_task_id t) = Some TaskPending
         \<and> \<not> active_status (sql_status s pid (pt_task_id t))
             \<or> pt_task_id t \<in> set (pp_remove_task_ids patch)" if "t \<in> set (pp_tasks patch)"
    using e3 [OF that] fr [of pid "pt_task_id t"] as unfolding s' by auto
  show "find_task s' pid tid' = None \<and> \<not> active_status (sql_status s pid tid')"
    if "tid' \<in> set (pp_remove_task_ids patch) - pt_task_id ` set (pp_tasks patch)"
    using that e2 [of pid tid'] fr [of pid tid'] inact [of tid'] as [of tid'] unfolding s' by auto
qed

end
