(* ===== verification/Plan_Sql_Props.thy ===== *)
theory Plan_Sql_Props
  imports Plan_Sql_Patch
begin

text \<open>
  The persisted store fulfils the store contract \<open>plan_lifecycle\<close>, and the properties of the
  store as a whole.
\<close>

section \<open>Steps of the store on one plan\<close>

definition sql_claim :: "uuid \<Rightarrow> db \<Rightarrow> db \<Rightarrow> bool" where
  "sql_claim pid s s' \<longleftrightarrow> (\<exists>limit claimed. sql_claim_ready_batch pid limit s = Inr (s', claimed))"

text \<open>The scheduler reports results, failures and confirmation pauses for running tasks only.\<close>

definition sql_settle :: "uuid \<Rightarrow> string \<Rightarrow> db \<Rightarrow> db \<Rightarrow> bool" where
  "sql_settle pid tid s s' \<longleftrightarrow>
     sql_status s pid tid = Some TaskRunning \<and>
     ((\<exists>result. sql_apply_result pid tid result s = Inr s')
      \<or> (\<exists>failure retry_at max_attempts now.
            sql_record_failure pid tid failure retry_at max_attempts now s = Inr s')
      \<or> (\<exists>confirmation now. sql_pause_task_for_confirmation pid tid confirmation now s = Inr s'))"

definition sql_revise :: "uuid \<Rightarrow> db \<Rightarrow> db \<Rightarrow> bool" where
  "sql_revise pid s s' \<longleftrightarrow>
     (\<exists>patch reason invocation. validate_patch patch = Inr patch
        \<and> sql_apply_patch pid patch reason invocation s = Inr s')"

definition sql_resume :: "uuid \<Rightarrow> db \<Rightarrow> db \<Rightarrow> bool" where
  "sql_resume pid s s' \<longleftrightarrow>
     (\<exists>user_input. s' = sql_resume_waiting_tasks pid user_input s)
     \<or> (\<exists>user_input. s' = fst (sql_resolve_waiting_need pid user_input s))
     \<or> sql_resume_planner_pause pid s = Inr s'
     \<or> (\<exists>failure. sql_mark_failed pid failure s = Inr s')"

section \<open>Effects\<close>

lemma sql_claim_effect:
  assumes ok: "sql_ok s" and c: "sql_claim_ready_batch pid limit s = Inr (s', claimed)"
  shows "sql_ok s'" and "deps_of s' = deps_of s" and "db_plans s' = db_plans s"
    and "db_needs s' = db_needs s"
    and "find_task s' pid' tid' =
         (if pid' = pid \<and> tid' \<in> set (claim_candidates pid limit s)
          then map_option start_attempt (find_task s pid tid') else find_task s pid' tid')"
    and "map tr_task_id claimed = claim_candidates pid limit s"
    and "claimed = map (\<lambda>tid. start_attempt (the (find_task s pid tid))) (claim_candidates pid limit s)"
proof -
  let ?ids = "claim_candidates pid limit s"
  have run: "fold (claim_one pid) ?ids (s, []) = (s', claimed)"
    using c by (auto simp: sql_claim_ready_batch_def claim_commit_def split: option.splits)
  note e = claim_fold_effect [OF ok run]
  show "sql_ok s'" and "deps_of s' = deps_of s" and "db_plans s' = db_plans s"
    and "db_needs s' = db_needs s"
    using e by auto
  have found: "\<exists>r. find_task s pid t = Some r \<and> tr_status r \<noteq> TaskRunning" if "t \<in> set ?ids" for t
    using claim_candidates_runnable [OF ok that] by (auto simp: runnable_def)
  then have "find_task s' pid t = map_option start_attempt (find_task s pid t)" if "t \<in> set ?ids" for t
    using e that by fastforce
  then show "find_task s' pid' tid' =
         (if pid' = pid \<and> tid' \<in> set ?ids
          then map_option start_attempt (find_task s pid tid') else find_task s pid' tid')"
    using e by auto
  have "claimed = concat (map (\<lambda>tid. case find_task s pid tid of None \<Rightarrow> []
        | Some r \<Rightarrow> if tr_status r = TaskRunning then [] else [start_attempt r]) ?ids)"
    using claim_fold_claimed [OF ok run distinct_claim_candidates [OF ok]] by simp
  also have "\<dots> = concat (map (\<lambda>tid. [start_attempt (the (find_task s pid tid))]) ?ids)"
    by (intro arg_cong [of _ _ concat] map_cong refl) (use found in fastforce)
  also have "\<dots> = map (\<lambda>tid. start_attempt (the (find_task s pid tid))) ?ids"
    by (induction ?ids) auto
  finally show cl: "claimed = map (\<lambda>tid. start_attempt (the (find_task s pid tid))) ?ids" .
  have "tr_task_id (start_attempt (the (find_task s pid t))) = t" if "t \<in> set ?ids" for t
    using found [OF that] by (auto simp: start_attempt_def dest: find_task_SomeD)
  then show "map tr_task_id claimed = ?ids"
    unfolding cl by (simp add: map_idI)
qed

lemma upd_found_effect:
  assumes ok: "sql_ok s" and r: "find_task s pid tid = Some r" and f: "keeps_keys f"
    and t: "db_tasks s' = db_tasks (upd_task (tr_id r) f s)"
    and u: "db_uuids s' = db_uuids s" and d: "db_drawn s \<le> db_drawn s'" and dp: "db_deps s' = db_deps s"
  shows "sql_ok s'" and "deps_of s' = deps_of s"
    and "find_task s' pid' tid' = (if pid' = pid \<and> tid' = tid then Some (f r) else find_task s pid' tid')"
proof -
  have "sql_ok (upd_task (tr_id r) f s)" using ok f by (rule sql_ok_upd_task)
  then show "sql_ok s'" by (rule sql_ok_cong) (use t u d in simp_all)
  show "deps_of s' = deps_of s" using dp by (rule deps_of_cong)
  have "find_task s' = find_task (upd_task (tr_id r) f s)" using t by (rule find_task_cong)
  then show "find_task s' pid' tid' = (if pid' = pid \<and> tid' = tid then Some (f r) else find_task s pid' tid')"
    using find_task_upd_found [OF ok r f] by simp
qed

text \<open>A reported result settles the running task and no other.\<close>

lemma sql_apply_result_effect:
  assumes ok: "sql_ok s" and a: "sql_apply_result pid tid result s = Inr s'"
  obtains r st where "find_task s pid tid = Some r" and "tr_status r = TaskRunning"
    and "st = (case ar_outcome result of OutCompleted \<Rightarrow> TaskCompleted
                 | OutNeedsDependency \<Rightarrow> TaskWaitingDependency | OutUnfulfillable \<Rightarrow> TaskUnfulfillable)"
    and "sql_ok s'" and "deps_of s' = deps_of s" and "db_attempts s' = db_attempts s"
    and "\<And>pid' tid'. find_task s' pid' tid' = (if pid' = pid \<and> tid' = tid
          then Some (r\<lparr>tr_result := Some result, tr_checkpoint := ar_checkpoint result, tr_status := st\<rparr>)
          else find_task s pid' tid')"
proof -
  obtain r where r: "find_task s pid tid = Some r" and run: "tr_status r = TaskRunning"
    using a by (auto simp: sql_apply_result_def split: option.splits if_splits)
  define st where "st = (case ar_outcome result of OutCompleted \<Rightarrow> TaskCompleted
        | OutNeedsDependency \<Rightarrow> TaskWaitingDependency | OutUnfulfillable \<Rightarrow> TaskUnfulfillable)"
  define f where "f = (\<lambda>r :: task_row. r\<lparr>tr_result := Some result, tr_checkpoint := ar_checkpoint result, tr_status := st\<rparr>)"
  have f: "keeps_keys f" by (simp add: f_def)
  have shape: "db_tasks s' = db_tasks (upd_task (tr_id r) f s) \<and> db_uuids s' = db_uuids s
      \<and> db_drawn s \<le> db_drawn s' \<and> db_deps s' = db_deps s \<and> db_attempts s' = db_attempts s"
  proof (cases "ar_outcome result")
    case OutCompleted
    then show ?thesis using a r run
      by (auto simp: sql_apply_result_def f_def st_def Let_def split: if_splits)
  next
    case OutNeedsDependency
    have "db_drawn s \<le> db_drawn (replace_needs (tr_id r) Map.empty (ar_needs result)
        (upd_task (tr_id r) f s))"
      using drawn_replace(2) [of "upd_task (tr_id r) f s"] by simp
    then show ?thesis using a r run OutNeedsDependency
      by (auto simp: sql_apply_result_def f_def st_def Let_def split: if_splits)
  next
    case OutUnfulfillable
    then show ?thesis using a r run
      by (auto simp: sql_apply_result_def f_def st_def Let_def split: if_splits)
  qed
  note e = upd_found_effect [OF ok r f, of s']
  show thesis
    by (rule that [OF r run st_def]) (use e shape in \<open>auto simp: f_def\<close>)
qed

lemma sql_record_failure_effect:
  assumes ok: "sql_ok s" and a: "sql_record_failure pid tid failure retry_at max_attempts now s = Inr s'"
  obtains r where "find_task s pid tid = Some r" and "sql_ok s'" and "deps_of s' = deps_of s"
    and "\<And>pid' tid'. find_task s' pid' tid' = (if pid' = pid \<and> tid' = tid
          then Some (if tf_retryable failure \<and> tr_attempts r < max_attempts
                     then r\<lparr>tr_status := TaskWaitingRetry, tr_next_retry_at := retry_at\<rparr>
                     else r\<lparr>tr_status := TaskFailed\<rparr>)
          else find_task s pid' tid')"
proof -
  obtain r where r: "find_task s pid tid = Some r"
    using a by (auto simp: sql_record_failure_def split: option.splits)
  define f where "f = (\<lambda>q :: task_row. if tf_retryable failure \<and> tr_attempts r < max_attempts
      then q\<lparr>tr_status := TaskWaitingRetry, tr_next_retry_at := retry_at\<rparr> else q\<lparr>tr_status := TaskFailed\<rparr>)"
  have f: "keeps_keys f" by (simp add: f_def keeps_keys_def)
  have shape: "db_tasks s' = db_tasks (upd_task (tr_id r) f s)" "db_uuids s' = db_uuids s"
      "db_drawn s \<le> db_drawn s'" "db_deps s' = db_deps s"
    using a r by (auto simp: sql_record_failure_def f_def Let_def)
  show thesis
    by (rule that [OF r]) (use upd_found_effect [OF ok r f shape] in \<open>auto simp: f_def\<close>)
qed

lemma sql_pause_effect:
  assumes ok: "sql_ok s" and a: "sql_pause_task_for_confirmation pid tid confirmation now s = Inr s'"
  obtains r where "find_task s pid tid = Some r" and "sql_ok s'" and "deps_of s' = deps_of s"
    and "\<And>pid' tid'. find_task s' pid' tid' = (if pid' = pid \<and> tid' = tid
          then Some (r\<lparr>tr_checkpoint := AList.update ''confirmation'' (JObj confirmation) (tr_checkpoint r),
                       tr_status := TaskWaitingUser\<rparr>)
          else find_task s pid' tid')"
proof -
  obtain r where r: "find_task s pid tid = Some r"
    using a by (auto simp: sql_pause_task_for_confirmation_def split: option.splits)
  define f where "f = (\<lambda>r :: task_row. r\<lparr>tr_checkpoint := AList.update ''confirmation'' (JObj confirmation) (tr_checkpoint r),
                       tr_status := TaskWaitingUser\<rparr>)"
  have f: "keeps_keys f" by (simp add: f_def keeps_keys_def)
  have shape: "db_tasks s' = db_tasks (upd_task (tr_id r) f s)" "db_uuids s' = db_uuids s"
      "db_drawn s \<le> db_drawn s'" "db_deps s' = db_deps s"
    using a r by (auto simp: sql_pause_task_for_confirmation_def f_def Let_def)
  show thesis
    by (rule that [OF r]) (use upd_found_effect [OF ok r f shape] in \<open>auto simp: f_def\<close>)
qed

text \<open>A resuming step only turns waiting tasks into pending ones.\<close>

lemma sql_resume_effect:
  assumes ok: "sql_ok s" and a: "sql_resume pid s s'"
  shows "sql_ok s' \<and> deps_of s' = deps_of s \<and>
     (sql_status s' pid t = sql_status s pid t
      \<or> (\<exists>st. sql_status s pid t = Some st \<and> is_waiting st \<and> sql_status s' pid t = Some TaskPending))"
proof -
  have map_case: "sql_ok u \<and> deps_of u = deps_of s \<and>
     (sql_status u pid t = sql_status s pid t
      \<or> (\<exists>st. sql_status s pid t = Some st \<and> is_waiting st \<and> sql_status u pid t = Some TaskPending))"
    if t: "db_tasks u = map f (db_tasks s)" and f: "keeps_keys f"
      and st: "\<And>r. tr_status (f r) = tr_status r \<or> is_waiting (tr_status r) \<and> tr_status (f r) = TaskPending"
      and rest: "db_deps u = db_deps s" "db_uuids u = db_uuids s" "db_drawn u = db_drawn s" for u f
  proof -
    have "find_task u pid t = map_option f (find_task s pid t)"
      by (simp add: find_task_eq t find_map_keeps [OF f])
    moreover have "deps_of u = deps_of s" using rest(1) by (rule deps_of_cong)
    moreover have "sql_ok u" by (rule sql_ok_map_tasks [OF ok f t]) (simp_all add: rest)
    ultimately show ?thesis using st by (cases "find_task s pid t") auto
  qed
  have same: "sql_ok u \<and> deps_of u = deps_of s \<and> sql_status u pid t = sql_status s pid t"
    if "db_tasks u = db_tasks s" "db_deps u = db_deps s" "db_uuids u = db_uuids s" "db_drawn u = db_drawn s" for u
    using that ok find_task_cong [of u s] deps_of_cong [of u s] by (auto intro: sql_ok_cong)
  from a show ?thesis unfolding sql_resume_def
  proof (elim disjE exE)
    fix user_input assume "s' = sql_resume_waiting_tasks pid user_input s"
    then show ?thesis
      by (intro map_case [where f = "\<lambda>r. if tr_plan_id r = pid \<and> is_waiting (tr_status r)
             then r\<lparr>tr_checkpoint := (if user_input \<noteq> []
                             then AList.update ''user_input'' (JStr user_input) (tr_checkpoint r)
                             else tr_checkpoint r), tr_status := TaskPending\<rparr> else r"])
         (auto simp: sql_resume_waiting_tasks_def Let_def keeps_keys_def)
  next
    fix user_input assume s': "s' = fst (sql_resolve_waiting_need pid user_input s)"
    show ?thesis
    proof (cases "s' = s")
      case True
      with ok show ?thesis by simp
    next
      case False
      then obtain n ns f where "sort_key nr_id (filter (\<lambda>n. nr_status n = ReqWaitingUser
            \<and> nr_task_row_id n \<in> tr_id ` set (plan_tasks s pid)) (db_needs s)) = n # ns"
        using s' by (auto simp: sql_resolve_waiting_need_def Let_def split: list.splits if_splits)
      then show ?thesis using s' False
        by (intro map_case [where f = "\<lambda>r. if tr_id r = nr_task_row_id n
             then (let r' = r\<lparr>tr_checkpoint :=
                      AList.update ''user_input'' (JStr (strip user_input)) (tr_checkpoint r)\<rparr>
                   in if tr_status r \<in> {TaskWaitingDependency, TaskWaitingUser}
                      then r'\<lparr>tr_status := TaskPending\<rparr> else r') else r"])
           (auto simp: sql_resolve_waiting_need_def Let_def keeps_keys_def is_waiting_def split: if_splits)
    qed
  next
    assume "sql_resume_planner_pause pid s = Inr s'"
    then show ?thesis
      using same [of s'] by (auto simp: sql_resume_planner_pause_def split: option.splits if_splits)
  next
    fix failure assume "sql_mark_failed pid failure s = Inr s'"
    then show ?thesis
      using same [of s'] by (auto simp: sql_mark_failed_def split: option.splits)
  qed
qed

section \<open>The store fulfils the contract\<close>

lemma sql_settle_effect:
  assumes ok: "sql_ok s" and a: "sql_settle pid tid s s'"
  shows "sql_ok s' \<and> deps_of s' = deps_of s \<and>
    (\<forall>t. t \<noteq> tid \<longrightarrow> find_task s' pid t = find_task s pid t)
    \<and> (find_task s' pid tid = None \<longleftrightarrow> find_task s pid tid = None)"
  using a unfolding sql_settle_def
proof (elim conjE disjE exE)
  fix result assume "sql_apply_result pid tid result s = Inr s'"
  then show ?thesis by (rule sql_apply_result_effect [OF ok]) auto
next
  fix failure retry_at max_attempts now
  assume "sql_record_failure pid tid failure retry_at max_attempts now s = Inr s'"
  then show ?thesis by (rule sql_record_failure_effect [OF ok]) auto
next
  fix confirmation now assume "sql_pause_task_for_confirmation pid tid confirmation now s = Inr s'"
  then show ?thesis by (rule sql_pause_effect [OF ok]) auto
qed

lemma sql_revise_untouched:
  assumes ok: "sql_ok s" and a: "sql_revise pid s s'"
    and act: "active_status (sql_status s pid t) \<or> active_status (sql_status s' pid t)"
  shows "find_task s' pid t = find_task s pid t \<and> deps_of s' pid t = deps_of s pid t"
proof -
  obtain patch reason invocation where v: "validate_patch patch = Inr patch"
    and p: "sql_apply_patch pid patch reason invocation s = Inr s'"
    using a by (auto simp: sql_revise_def)
  have d: "distinct (map pt_task_id (pp_tasks patch))"
    and disj: "set (pp_remove_task_ids patch) \<inter> pt_task_id ` set (pp_tasks patch) = {}"
    using v by (auto simp: validate_patch_accepts_iff patch_ok_def)
  note e = sql_apply_patch_effect [OF ok d p]
  have "t \<notin> pt_task_id ` set (pp_tasks patch)"
  proof
    assume "t \<in> pt_task_id ` set (pp_tasks patch)"
    then obtain x where "x \<in> set (pp_tasks patch)" and "t = pt_task_id x" by blast
    with e(3) [of x] disj act show False by (auto simp: active_status_def)
  qed
  moreover have "t \<notin> set (pp_remove_task_ids patch)"
    using e(4) [of t] calculation act by (auto simp: active_status_def)
  ultimately show ?thesis using e(2) [of pid t] by blast
qed

lemma sql_revise_ok: "sql_ok s \<Longrightarrow> sql_revise pid s s' \<Longrightarrow> sql_ok s'"
  by (auto simp: sql_revise_def validate_patch_accepts_iff patch_ok_def dest: sql_apply_patch_effect(1))

interpretation sql: plan_lifecycle "\<lambda>s. sql_status s pid" "\<lambda>s. deps_of s pid" sql_ok
  "sql_claim pid" "sql_settle pid" "sql_revise pid" "sql_resume pid" for pid
proof (unfold_locales, goal_cases)
  case (1 s s')
  then show ?case by (auto simp: sql_claim_def dest: sql_claim_effect(1))
next
  case (2 s tid s')
  then show ?case using sql_settle_effect by blast
next
  case (3 s s')
  then show ?case by (rule sql_revise_ok)
next
  case (4 s s')
  then show ?case using sql_resume_effect by blast
next
  case (5 s s' t)
  then show ?case by (auto simp: sql_claim_def dest: sql_claim_effect(2))
next
  case (6 s tid s' t)
  then show ?case using sql_settle_effect by metis
next
  case (7 s s' t)
  then show ?case using sql_resume_effect by metis
next
  case (8 s s' t)
  then obtain limit claimed where c: "sql_claim_ready_batch pid limit s = Inr (s', claimed)"
    by (auto simp: sql_claim_def)
  show ?case
  proof (cases "t \<in> set (claim_candidates pid limit s)")
    case True
    then obtain r where "runnable s pid t r" using claim_candidates_runnable 8(1) by blast
    then show ?thesis
      using sql_claim_effect(5) [OF 8(1) c, of pid t] True by (auto simp: runnable_def)
  next
    case False
    then show ?thesis using sql_claim_effect(5) [OF 8(1) c, of pid t] by simp
  qed
next
  case (9 s tid s')
  then show ?case by (simp add: sql_settle_def)
next
  case (10 s tid s' t)
  then show ?case using sql_settle_effect by (metis refreshed_refl)
next
  case (11 s s' t)
  have same: "find_task s' pid t = find_task s pid t" "deps_of s' pid t = deps_of s pid t"
    using sql_revise_untouched [OF 11(1,2)] 11(3) by auto
  moreover have "sql_status s' pid d = Some TaskCompleted"
    if "sql_status s pid d = Some TaskCompleted" for d
    using sql_revise_untouched [OF 11(1,2), of d] that by (auto simp: active_status_def)
  ultimately show ?case by auto
next
  case (12 s s' t)
  then show ?case
    using sql_resume_effect [OF 12, of t] by (auto simp: refreshed_def active_status_def is_waiting_def)
qed

section \<open>The stored graph\<close>

definition stored_graph :: "db \<Rightarrow> uuid \<Rightarrow> (string \<times> string) set" where
  "stored_graph s pid = {(t, d). find_task s pid t \<noteq> None \<and> d \<in> set (deps_of s pid t)}"

definition graph_inv :: "db \<Rightarrow> uuid \<Rightarrow> bool" where
  "graph_inv s pid \<longleftrightarrow>
     (\<forall>t. find_task s pid t \<noteq> None \<longrightarrow> distinct (deps_of s pid t)
          \<and> (\<forall>d\<in>set (deps_of s pid t). find_task s pid d \<noteq> None))
     \<and> acyclic (stored_graph s pid)"

lemma graph_inv_cong:
  assumes "graph_inv s pid" and "\<And>t. find_task s' pid t = None \<longleftrightarrow> find_task s pid t = None"
    and "\<And>t. deps_of s' pid t = deps_of s pid t"
  shows "graph_inv s' pid"
  using assms by (simp add: graph_inv_def stored_graph_def)

lemma combined_tasks_keyed:
  "(k, t) \<in> set (combined_tasks s pid patch) \<Longrightarrow> k = pt_task_id t"
  using set_fold_update_items [of "pp_tasks patch"]
  by (fastforce simp: combined_tasks_def planned_of_row_def)

lemma dict_ok_combined:
  assumes "sql_ok s"
  shows "dict_ok (combined_tasks s pid patch)"
proof -
  have "dict_ok (map (\<lambda>r. (tr_task_id r, planned_of_row s pid r))
          (filter (\<lambda>r. tr_task_id r \<notin> set (pp_remove_task_ids patch)) (plan_tasks s pid)))"
    using distinct_plan_task_ids [OF assms, of pid]
    by (auto simp: dict_ok_def comp_def intro: distinct_map_filter)
  then show ?thesis unfolding combined_tasks_def by (rule dict_ok_fold [rotated]) simp
qed

lemma map_of_combined:
  assumes "distinct (map pt_task_id (pp_tasks patch))"
  shows "map_of (combined_tasks s pid patch) t =
     (case find (\<lambda>item. pt_task_id item = t) (pp_tasks patch) of
        Some item \<Rightarrow> Some item
      | None \<Rightarrow> if t \<in> set (pp_remove_task_ids patch) then None
                else map_option (planned_of_row s pid) (find_task s pid t))"
proof -
  have "map_of (map (\<lambda>r. (tr_task_id r, planned_of_row s pid r))
          (filter (\<lambda>r. tr_task_id r \<notin> set (pp_remove_task_ids patch)) xs)) t
        = (if t \<in> set (pp_remove_task_ids patch) then None
           else map_option (planned_of_row s pid) (find (\<lambda>r. tr_task_id r = t) xs))" for xs
    by (induction xs) auto
  from this [of "plan_tasks s pid"] show ?thesis
    unfolding combined_tasks_def map_of_fold_update_items [OF assms] find_task_def
    by (simp split: option.splits)
qed

lemma graph_of_combined:
  assumes "sql_ok s"
  shows "map_of (graph_of (map snd (combined_tasks s pid patch))) t =
         map_option pt_depends_on (map_of (combined_tasks s pid patch) t)"
  using dict_ok_combined [OF assms] combined_tasks_keyed by (rule graph_of_keyed)

text \<open>After a successful patch the stored graph is the combined graph that was validated.\<close>

lemma patched_graph:
  assumes ok: "sql_ok s" and v: "validate_patch patch = Inr patch"
    and p: "sql_apply_patch pid patch reason invocation s = Inr s'"
  shows "case map_of (combined_tasks s pid patch) t of
           None \<Rightarrow> find_task s' pid t = None
         | Some x \<Rightarrow> find_task s' pid t \<noteq> None \<and> deps_of s' pid t = pt_depends_on x"
proof -
  have d: "distinct (map pt_task_id (pp_tasks patch))"
    and disj: "set (pp_remove_task_ids patch) \<inter> pt_task_id ` set (pp_tasks patch) = {}"
    using v by (auto simp: validate_patch_accepts_iff patch_ok_def)
  note e = sql_apply_patch_effect [OF ok d p]
  show ?thesis
  proof (cases "find (\<lambda>item. pt_task_id item = t) (pp_tasks patch)")
    case (Some x)
    then have x: "x \<in> set (pp_tasks patch)" "pt_task_id x = t" by (auto dest: find_SomeD)
    then have "t \<notin> set (pp_remove_task_ids patch)" using disj by blast
    then have "find_task s' pid t \<noteq> None \<and> deps_of s' pid t = pt_depends_on x"
      using e(3) [OF x(1)] x(2) by auto
    then show ?thesis by (simp add: map_of_combined [OF d] Some)
  next
    case None
    then have nt: "t \<notin> pt_task_id ` set (pp_tasks patch)" by (auto simp: find_None_iff)
    show ?thesis
    proof (cases "t \<in> set (pp_remove_task_ids patch)")
      case True
      then show ?thesis using e(4) [of t] nt by (simp add: map_of_combined [OF d] None)
    next
      case False
      then have same: "find_task s' pid t = find_task s pid t" "deps_of s' pid t = deps_of s pid t"
        using e(2) [of pid t] nt by blast+
      then show ?thesis using False
        by (cases "find_task s pid t")
           (auto simp: map_of_combined [OF d] None planned_of_row_def dest: find_task_SomeD)
    qed
  qed
qed

lemma patch_graph_inv:
  assumes ok: "sql_ok s" and v: "validate_patch patch = Inr patch"
    and p: "sql_apply_patch pid patch reason invocation s = Inr s'"
  shows "graph_inv s' pid"
proof -
  let ?c = "combined_tasks s pid patch"
  have acc: "validate_task_graph (map snd ?c) = Inr ()" using p by (rule sql_apply_patch_E)
  note g = patched_graph [OF ok v p]
  have stored: "find_task s' pid t \<noteq> None \<and> ds = deps_of s' pid t \<longleftrightarrow>
      map_of (graph_of (map snd ?c)) t = Some ds" for t ds
    using g [of t] unfolding graph_of_combined [OF ok] by (auto split: option.splits)
  have rel: "stored_graph s' pid = depends (graph_of (map snd ?c))"
    unfolding stored_graph_def depends_def stored [symmetric] by simp
  have "distinct (deps_of s' pid t) \<and> (\<forall>d\<in>set (deps_of s' pid t). find_task s' pid d \<noteq> None)"
    if t: "find_task s' pid t \<noteq> None" for t
  proof -
    obtain x where x: "map_of ?c t = Some x" "deps_of s' pid t = pt_depends_on x"
      using g [of t] t by (auto split: option.splits)
    then have "x \<in> set (map snd ?c)" using map_of_SomeD [OF x(1)] by (simp add: rev_image_eqI)
    then have "distinct (deps_of s' pid t)" using acc x(2) unfolding validate_task_graph_accepts by metis
    moreover have "find_task s' pid d \<noteq> None" if "d \<in> set (deps_of s' pid t)" for d
    proof -
      have "(t, deps_of s' pid t) \<in> set (graph_of (map snd ?c))"
        using stored [of t "deps_of s' pid t"] t by (simp add: map_of_SomeD)
      then have "d \<in> fst ` set (graph_of (map snd ?c))"
        using acc that unfolding validate_task_graph_accepts set_dkeys_graph_of by blast
      then have "map_of (graph_of (map snd ?c)) d \<noteq> None" by (simp add: map_of_eq_None_iff)
      then show ?thesis using stored [of d] by blast
    qed
    ultimately show ?thesis by blast
  qed
  moreover have "acyclic (stored_graph s' pid)"
    unfolding rel using acc by (simp add: validate_task_graph_accepts)
  ultimately show ?thesis unfolding graph_inv_def by blast
qed

end
