(* ===== verification/Plan_Sql_Reach.thy ===== *)
theory Plan_Sql_Reach
  imports Plan_Sql_Props
begin

text \<open>
  The databases a plan can reach in the persisted store, and the invariants they satisfy: rows with
  unique keys, completed dependencies of every started task, a closed acyclic graph, and a journal
  that lists the revisions without gaps.
\<close>

section \<open>Plan rows and the revision journal\<close>

definition keeps_plan_key :: "(plan_row \<Rightarrow> plan_row) \<Rightarrow> bool" where
  "keeps_plan_key f \<longleftrightarrow> (\<forall>p. pl_id (f p) = pl_id p)"

lemma find_plan_upd_plan:
  assumes "keeps_plan_key f"
  shows "find_plan (upd_plan pid f s) pid' =
         map_option (\<lambda>p. if pl_id p = pid then f p else p) (find_plan s pid')"
proof -
  have "find (\<lambda>p. pl_id p = pid') (map (\<lambda>p. if pl_id p = pid then f p else p) xs) =
        map_option (\<lambda>p. if pl_id p = pid then f p else p) (find (\<lambda>p. pl_id p = pid') xs)" for xs
    using assms by (induction xs) (auto simp: keeps_plan_key_def)
  then show ?thesis by (simp add: find_plan_def)
qed

lemma find_plan_cong: "db_plans s' = db_plans s \<Longrightarrow> find_plan s' = find_plan s"
  by (simp add: find_plan_def fun_eq_iff)

lemma find_plan_id: "find_plan s pid = Some p \<Longrightarrow> pl_id p = pid"
  by (auto simp: find_plan_def dest: find_SomeD)

text \<open>The revision of the plan and the revisions its journal lists, in order.\<close>

definition plan_revision :: "db \<Rightarrow> uuid \<Rightarrow> int option" where
  "plan_revision s pid = map_option pl_revision (find_plan s pid)"

definition journal :: "db \<Rightarrow> uuid \<Rightarrow> revision_row list" where
  "journal s pid = filter (\<lambda>v. rv_plan_id v = pid) (db_revisions s)"

definition journal_ok :: "db \<Rightarrow> uuid \<Rightarrow> bool" where
  "journal_ok s pid \<longleftrightarrow> (case plan_revision s pid of
      None \<Rightarrow> False
    | Some n \<Rightarrow> 0 \<le> n \<and> map rv_revision (journal s pid) = [1..n])"

lemma plan_revision_map_of:
  "plan_revision s pid = map_of (map (\<lambda>p. (pl_id p, pl_revision p)) (db_plans s)) pid"
proof -
  have "map_option pl_revision (find (\<lambda>p. pl_id p = pid) xs) = map_of (map (\<lambda>p. (pl_id p, pl_revision p)) xs) pid"
    for xs by (induction xs) auto
  then show ?thesis by (simp add: plan_revision_def find_plan_def)
qed

lemma plan_revision_upd_plan:
  "keeps_plan_key f \<Longrightarrow> (\<And>p. pl_revision (f p) = pl_revision p) \<Longrightarrow>
     plan_revision (upd_plan pid' f s) pid = plan_revision s pid"
  by (cases "find_plan s pid") (simp_all add: plan_revision_def find_plan_upd_plan)

lemma plan_revision_cong: "db_plans s' = db_plans s \<Longrightarrow> plan_revision s' pid = plan_revision s pid"
  by (simp add: plan_revision_def find_plan_def)

lemma journal_cong: "db_revisions s' = db_revisions s \<Longrightarrow> journal s' = journal s"
  by (simp add: journal_def fun_eq_iff)

lemma plan_revision_refresh [simp]:
  "plan_revision (sql_refresh_status pid' s) pid = plan_revision s pid"
  by (simp add: sql_refresh_status_def Let_def plan_revision_upd_plan keeps_plan_key_def)

lemma journal_refresh [simp]: "journal (sql_refresh_status pid s) = journal s"
  by (rule journal_cong) (simp add: sql_refresh_status_def Let_def)

lemma journal_upd_plan [simp]: "journal (upd_plan p f s) = journal s"
  by (rule journal_cong) simp

lemma claim_fold_plans:
  "fold (claim_one pid) ids (s, cl) = (s', cl') \<Longrightarrow>
     db_plans s' = db_plans s \<and> db_revisions s' = db_revisions s"
proof (induction ids arbitrary: s cl)
  case (Cons i ids)
  obtain s1 cl1 where c: "claim_one pid i (s, cl) = (s1, cl1)" by fastforce
  then have "db_plans s1 = db_plans s \<and> db_revisions s1 = db_revisions s"
    by (auto simp: claim_one_def Let_def split: option.splits if_splits)
  with Cons.IH [of s1 cl1] Cons.prems c show ?case by simp
qed simp

lemma apply_item_plans:
  "apply_item pid nr s x = Inr s' \<Longrightarrow> db_plans s' = db_plans s \<and> db_revisions s' = db_revisions s"
  by (auto simp: apply_item_def insert_task_def new_uuid_def Let_def split: option.splits if_splits)

lemma apply_items_plans:
  "foldE (apply_item pid nr) s xs = Inr s' \<Longrightarrow> db_plans s' = db_plans s \<and> db_revisions s' = db_revisions s"
  by (induction xs arbitrary: s) (auto split: sum.splits dest: apply_item_plans)

text \<open>What a successful patch does to the plan row and to the journal.\<close>

lemma sql_apply_patch_plan:
  assumes "sql_apply_patch pid patch reason invocation s = Inr s'"
  obtains plan where "find_plan s pid = Some plan" and "pl_revision plan = pp_expected_revision patch"
    and "find_plan s' pid = Some (plan\<lparr>pl_revision := pp_expected_revision patch + 1,
           pl_status := decision_status (pp_decision patch),
           pl_answer_brief := (case pp_answer_brief patch of None \<Rightarrow> pl_answer_brief plan | Some b \<Rightarrow> Some b)\<rparr>)"
    and "db_revisions s' = db_revisions s @ [\<lparr>rv_plan_id = pid,
           rv_revision = pp_expected_revision patch + 1, rv_reason = reason,
           rv_patch = patch, rv_planner_invocation_id = invocation\<rparr>]"
proof -
  obtain plan s1 where plan: "find_plan s pid = Some plan" and rev: "pl_revision plan = pp_expected_revision patch"
    and run: "foldE (apply_item pid (db_needs s)) (remove_tasks pid (pp_remove_task_ids patch) s)
           (enumerate 0 (pp_tasks patch)) = Inr s1"
    and s': "s' = finish_patch pid patch reason invocation plan s1"
    using assms by (rule sql_apply_patch_E)
  have "db_plans s1 = db_plans s" and rs: "db_revisions s1 = db_revisions s"
    using apply_items_plans [OF run] by (simp_all add: remove_tasks_def Let_def)
  then have f1: "find_plan s1 pid = Some plan" using plan find_plan_cong by metis
  have pid: "pl_id plan = pid" using plan by (rule find_plan_id)
  have route: "find_plan (route_needs_to_user q u) = find_plan u" "db_revisions (route_needs_to_user q u) = db_revisions u" for q u
    by (simp_all add: route_needs_to_user_def find_plan_def fun_eq_iff)
  have jr: "find_plan (u\<lparr>db_revisions := v\<rparr>) = find_plan u" for u v
    by (simp add: find_plan_def fun_eq_iff)
  show thesis
    by (rule that [OF plan rev])
       (auto simp: s' finish_patch_def Let_def jr route find_plan_upd_plan keeps_plan_key_def f1 pid rs rev
             split: option.splits)
qed

section \<open>Reachable databases\<close>

text \<open>
  The life of one plan: the store starts with empty tables, the plan is created, and then claims,
  settlements, revisions and resumptions follow in any order.
\<close>

definition empty_db :: "(nat \<Rightarrow> uuid) \<Rightarrow> db" where
  "empty_db us = \<lparr>db_plans = [], db_tasks = [], db_deps = [], db_needs = [], db_revisions = [],
     db_attempts = [], db_uuids = us, db_drawn = 0\<rparr>"

inductive sql_reach :: "uuid \<Rightarrow> db \<Rightarrow> bool" for pid where
  created: "inj us \<Longrightarrow> sql_create goal run tenant chat (empty_db us) = Inr (pid, s) \<Longrightarrow> sql_reach pid s"
| claimed: "sql_reach pid s \<Longrightarrow> sql_claim pid s s' \<Longrightarrow> sql_reach pid s'"
| settled: "sql_reach pid s \<Longrightarrow> sql_settle pid tid s s' \<Longrightarrow> sql_reach pid s'"
| revised: "sql_reach pid s \<Longrightarrow> sql_revise pid s s' \<Longrightarrow> sql_reach pid s'"
| resumed: "sql_reach pid s \<Longrightarrow> sql_resume pid s s' \<Longrightarrow> sql_reach pid s'"

lemma created_db:
  assumes "sql_create goal run tenant chat (empty_db us) = Inr (pid, s)"
  shows "db_tasks s = []" and "db_deps s = []" and "db_revisions s = []" and "db_uuids s = us"
    and "plan_revision s pid = Some 0"
  using assms by (auto simp: sql_create_def new_uuid_def empty_db_def Let_def plan_revision_def find_plan_def
      split: if_splits)

lemma reach_ok: "sql_reach pid s \<Longrightarrow> sql_ok s"
proof (induction rule: sql_reach.induct)
  case (created us goal run tenant chat s)
  then show ?case using created_db [OF created(2)] by (simp add: sql_ok_def)
qed (auto intro: sql.steps_ok)

lemma reach_deps_done: "sql_reach pid s \<Longrightarrow> sql.deps_done pid s"
proof (induction rule: sql_reach.induct)
  case (created us goal run tenant chat s)
  then show ?case using created_db(1) [OF created(2)]
    unfolding sql.deps_done_def by (simp add: find_task_eq active_status_def)
qed (auto dest: reach_ok intro: sql.steps_deps_done)

lemma claim_graph:
  assumes "sql_ok s" and "sql_claim pid s s'" and "graph_inv s pid"
  shows "graph_inv s' pid"
proof -
  obtain limit claimed where c: "sql_claim_ready_batch pid limit s = Inr (s', claimed)"
    using assms(2) by (auto simp: sql_claim_def)
  show ?thesis
    by (rule graph_inv_cong [OF assms(3)])
       (use sql_claim_effect [OF assms(1) c] in \<open>auto split: if_splits\<close>)
qed

lemma settle_graph:
  assumes "sql_ok s" and "sql_settle pid tid s s'" and "graph_inv s pid"
  shows "graph_inv s' pid"
  by (rule graph_inv_cong [OF assms(3)]) (use sql_settle_effect [OF assms(1,2)] in metis)+

lemma resume_graph:
  assumes "sql_ok s" and "sql_resume pid s s'" and "graph_inv s pid"
  shows "graph_inv s' pid"
proof (rule graph_inv_cong [OF assms(3)])
  fix t
  show "find_task s' pid t = None \<longleftrightarrow> find_task s pid t = None"
    using sql_resume_effect [OF assms(1,2), of t] by (cases "find_task s pid t"; cases "find_task s' pid t") auto
  show "deps_of s' pid t = deps_of s pid t"
    using sql_resume_effect [OF assms(1,2), of t] by simp
qed

lemma reach_graph: "sql_reach pid s \<Longrightarrow> graph_inv s pid"
proof (induction rule: sql_reach.induct)
  case (created us goal run tenant chat s)
  then show ?case using created_db [OF created(2)]
    by (simp add: graph_inv_def stored_graph_def find_task_eq acyclic_def)
next
  case (revised s s')
  then show ?case using reach_ok patch_graph_inv unfolding sql_revise_def by blast
qed (auto dest: reach_ok intro: claim_graph settle_graph resume_graph)

text \<open>Every step but a revision keeps the revision and the journal.\<close>

lemma claim_journal: "sql_claim pid s s' \<Longrightarrow> plan_revision s' pid = plan_revision s pid \<and> journal s' = journal s"
  by (auto simp: sql_claim_def sql_claim_ready_batch_def claim_commit_def split: option.splits
      dest!: claim_fold_plans intro: plan_revision_cong journal_cong)

lemma refresh_keys [simp]:
  "map (\<lambda>p. (pl_id p, pl_revision p)) (db_plans (sql_refresh_status pid s)) =
   map (\<lambda>p. (pl_id p, pl_revision p)) (db_plans s)"
  by (simp add: sql_refresh_status_def Let_def)

lemma settle_journal:
  assumes "sql_settle pid tid s s'"
  shows "plan_revision s' pid = plan_revision s pid \<and> journal s' = journal s"
proof -
  have "map (\<lambda>p. (pl_id p, pl_revision p)) (db_plans s') = map (\<lambda>p. (pl_id p, pl_revision p)) (db_plans s)
      \<and> db_revisions s' = db_revisions s"
    using assms unfolding sql_settle_def
  proof (elim conjE disjE exE)
    fix result assume a: "sql_apply_result pid tid result s = Inr s'"
    then obtain r where "find_task s pid tid = Some r" "tr_status r = TaskRunning"
      by (auto simp: sql_apply_result_def split: option.splits if_splits)
    with a show ?thesis
      by (cases "ar_outcome result") (auto simp: sql_apply_result_def Let_def split: if_splits)
  next
    fix failure retry_at max_attempts now
    assume "sql_record_failure pid tid failure retry_at max_attempts now s = Inr s'"
    then show ?thesis by (auto simp: sql_record_failure_def Let_def split: option.splits)
  next
    fix confirmation now assume "sql_pause_task_for_confirmation pid tid confirmation now s = Inr s'"
    then show ?thesis by (auto simp: sql_pause_task_for_confirmation_def Let_def split: option.splits)
  qed
  then show ?thesis unfolding plan_revision_map_of journal_def by simp
qed

lemma resume_journal:
  assumes "sql_resume pid s s'"
  shows "plan_revision s' pid = plan_revision s pid \<and> journal s' = journal s"
proof -
  have "map (\<lambda>p. (pl_id p, pl_revision p)) (db_plans s') = map (\<lambda>p. (pl_id p, pl_revision p)) (db_plans s)
      \<and> db_revisions s' = db_revisions s"
    using assms unfolding sql_resume_def
    by (auto simp: sql_resume_waiting_tasks_def sql_resolve_waiting_need_def sql_resume_planner_pause_def
        sql_mark_failed_def Let_def split: option.splits if_splits list.splits)
  then show ?thesis unfolding plan_revision_map_of journal_def by simp
qed

lemma journal_ok_cong:
  "plan_revision s' pid = plan_revision s pid \<and> journal s' = journal s \<Longrightarrow> journal_ok s pid \<Longrightarrow> journal_ok s' pid"
  by (cases "plan_revision s pid") (simp_all add: journal_ok_def)

lemma reach_journal: "sql_reach pid s \<Longrightarrow> journal_ok s pid"
proof (induction rule: sql_reach.induct)
  case (created us goal run tenant chat s)
  then show ?case using created_db [OF created(2)] by (simp add: journal_ok_def journal_def)
next
  case (revised s s')
  then obtain patch reason invocation where "sql_apply_patch pid patch reason invocation s = Inr s'"
    by (auto simp: sql_revise_def)
  then show ?case
  proof (rule sql_apply_patch_plan)
    fix plan assume "find_plan s pid = Some plan" "pl_revision plan = pp_expected_revision patch"
      and "find_plan s' pid = Some (plan\<lparr>pl_revision := pp_expected_revision patch + 1,
           pl_status := decision_status (pp_decision patch),
           pl_answer_brief := (case pp_answer_brief patch of None \<Rightarrow> pl_answer_brief plan | Some b \<Rightarrow> Some b)\<rparr>)"
      and "db_revisions s' = db_revisions s @ [\<lparr>rv_plan_id = pid,
           rv_revision = pp_expected_revision patch + 1, rv_reason = reason,
           rv_patch = patch, rv_planner_invocation_id = invocation\<rparr>]"
    with revised.IH show ?thesis
      by (auto simp: journal_ok_def plan_revision_def journal_def upto_rec2)
  qed
qed (blast intro: journal_ok_cong dest: claim_journal settle_journal resume_journal)+

text \<open>The dependency invariant read on the rows.\<close>

lemma reach_started:
  assumes "sql_reach pid s" and "find_task s pid t = Some r"
    and "tr_status r = TaskRunning \<or> tr_status r = TaskCompleted" and "d \<in> set (deps_of s pid t)"
  shows "\<exists>q. find_task s pid d = Some q \<and> tr_status q = TaskCompleted"
proof -
  have "active_status (sql_status s pid t)" using assms(2,3) by (auto simp: active_status_def)
  then show ?thesis using reach_deps_done [OF assms(1)] assms(4) unfolding sql.deps_done_def by force
qed

end
