(* ===== verification/Plan_Sql_Theorems.thy ===== *)
theory Plan_Sql_Theorems
  imports Plan_Sql_Reach
begin

text \<open>
  The properties of the persisted plan store, each with a concrete instance: what every reachable
  database satisfies, and what each operation does on its success and error branches.
\<close>

section \<open>A concrete plan\<close>

text \<open>
  A plan of two tasks, \<open>b\<close> after \<open>a\<close>, followed through creation, its first revision, the run
  of \<open>a\<close> and the claim of \<open>b\<close>. The theorems below are applied to it.
\<close>

definition demo_created :: db where
  "demo_created = snd (projr (sql_create ''goal'' 7 1 None (empty_db (\<lambda>n. n))))"

definition demo_patched :: db where
  "demo_patched = projr (sql_apply_patch 0 (demo_patch 0) ''initial'' None demo_created)"

definition demo_running :: db where
  "demo_running = fst (projr (sql_claim_ready_batch 0 1 demo_patched))"

definition demo_done :: db where
  "demo_done = projr (sql_apply_result 0 ''a'' demo_result demo_running)"

definition demo_second :: db where
  "demo_second = fst (projr (sql_claim_ready_batch 0 1 demo_done))"

lemma demo_runs:
  "sql_create ''goal'' 7 1 None (empty_db (\<lambda>n. n)) = Inr (0, demo_created)"
  "sql_apply_patch 0 (demo_patch 0) ''initial'' None demo_created = Inr demo_patched"
  "sql_claim_ready_batch 0 1 demo_patched = Inr (demo_running, snd (projr (sql_claim_ready_batch 0 1 demo_patched)))"
  "sql_apply_result 0 ''a'' demo_result demo_running = Inr demo_done"
  "sql_claim_ready_batch 0 1 demo_done = Inr (demo_second, snd (projr (sql_claim_ready_batch 0 1 demo_done)))"
proof -
  show "sql_create ''goal'' 7 1 None (empty_db (\<lambda>n. n)) = Inr (0, demo_created)"
    by (simp add: sql_create_def new_uuid_def empty_db_def get_by_run_def Let_def demo_created_def)
  have "\<not> isl (sql_apply_patch 0 (demo_patch 0) ''initial'' None demo_created)" by code_simp
  then show "sql_apply_patch 0 (demo_patch 0) ''initial'' None demo_created = Inr demo_patched"
    unfolding demo_patched_def by (rule projr_eq)
  have "\<not> isl (sql_claim_ready_batch 0 1 demo_patched)" by code_simp
  then show "sql_claim_ready_batch 0 1 demo_patched = Inr (demo_running, snd (projr (sql_claim_ready_batch 0 1 demo_patched)))"
    unfolding demo_running_def prod.collapse by (rule projr_eq)
  have "\<not> isl (sql_apply_result 0 ''a'' demo_result demo_running)" by code_simp
  then show "sql_apply_result 0 ''a'' demo_result demo_running = Inr demo_done"
    unfolding demo_done_def by (rule projr_eq)
  have "\<not> isl (sql_claim_ready_batch 0 1 demo_done)" by code_simp
  then show "sql_claim_ready_batch 0 1 demo_done = Inr (demo_second, snd (projr (sql_claim_ready_batch 0 1 demo_done)))"
    unfolding demo_second_def prod.collapse by (rule projr_eq)
qed

lemma demo_reach:
  shows "sql_reach 0 demo_created" and "sql_reach 0 demo_patched" and "sql_reach 0 demo_running"
    and "sql_reach 0 demo_done" and "sql_reach 0 demo_second"
proof -
  show c: "sql_reach 0 demo_created"
    by (rule sql_reach.created [OF _ demo_runs(1)]) (simp add: inj_on_def)
  show p: "sql_reach 0 demo_patched"
    by (rule sql_reach.revised [OF c]) (use demo_runs(2) demo_patch_valid in \<open>auto simp: sql_revise_def\<close>)
  show r: "sql_reach 0 demo_running"
    by (rule sql_reach.claimed [OF p]) (use demo_runs(3) in \<open>auto simp: sql_claim_def\<close>)
  have "sql_status demo_running 0 ''a'' = Some TaskRunning" by code_simp
  then show d: "sql_reach 0 demo_done"
    by (intro sql_reach.settled [OF r, of "''a''"]) (use demo_runs(4) in \<open>auto simp: sql_settle_def\<close>)
  show "sql_reach 0 demo_second"
    by (rule sql_reach.claimed [OF d]) (use demo_runs(5) in \<open>auto simp: sql_claim_def\<close>)
qed

section \<open>Reachable databases\<close>





text \<open>
  In every reachable database the journal of the plan lists the revisions 1, 2, up to the plan's
  current revision, in order and without gaps: every successful patch is recorded exactly once and
  nothing else advances the revision.
\<close>

theorem journal_lists_every_revision:
  assumes "sql_reach pid s"
  shows "\<exists>plan. find_plan s pid = Some plan \<and> 0 \<le> pl_revision plan
     \<and> map rv_revision (filter (\<lambda>v. rv_plan_id v = pid) (db_revisions s)) = [1..pl_revision plan]"
  using reach_journal [OF assms]
  by (auto simp: journal_ok_def plan_revision_def journal_def split: option.splits)

theorem journal_lists_every_revision_witness:
  "\<exists>plan. find_plan demo_second 0 = Some plan
     \<and> map rv_revision (filter (\<lambda>v. rv_plan_id v = 0) (db_revisions demo_second)) = [1..pl_revision plan]"
  using journal_lists_every_revision [OF demo_reach(5)] by blast

section \<open>Claiming\<close>

definition ready_keys :: "db \<Rightarrow> uuid \<Rightarrow> (int \<times> string) list" where
  "ready_keys s pid = concat (map (\<lambda>e. ready_entry (snapshot_tasks s pid) (snd e)) (snapshot_tasks s pid))"

abbreviation order_key :: "task_row \<Rightarrow> int \<times> string" where
  "order_key r \<equiv> (tr_planned_order r, tr_task_id r)"

lemma claim_candidates_ready_keys:
  "claim_candidates pid limit s = map snd (take (nat (max 1 limit)) (sort (ready_keys s pid)))"
  by (simp add: claim_candidates_def ready_keys_def Let_def)

lemma claimed_member:
  assumes ok: "sql_ok s" and c: "sql_claim_ready_batch pid limit s = Inr (s', claimed)" and r: "r \<in> set claimed"
  shows "\<exists>q. runnable s pid (tr_task_id r) q \<and> r = start_attempt q
        \<and> find_task s' pid (tr_task_id r) = Some r"
proof -
  let ?ids = "claim_candidates pid limit s"
  note e = sql_claim_effect [OF ok c]
  obtain x where x: "x \<in> set ?ids" "r = start_attempt (the (find_task s pid x))" using r e(7) by auto
  obtain q where q: "runnable s pid x q" using claim_candidates_runnable [OF ok x(1)] by blast
  then have f: "find_task s pid x = Some q" by (simp add: runnable_def)
  then have t: "tr_task_id r = x" and rq: "r = start_attempt q"
    using x(2) find_task_SomeD(3) [OF f] by (simp_all add: start_attempt_def)
  show ?thesis unfolding t using q rq e(5) [of pid x] x(1) f by auto
qed

lemma map_determined:
  assumes "map f xs = map g ys" and "\<And>x y. x \<in> set xs \<Longrightarrow> y \<in> set ys \<Longrightarrow> f x = g y \<Longrightarrow> h x = y"
  shows "map h xs = ys"
  using assms
proof (induction xs arbitrary: ys)
  case (Cons x xs)
  then obtain y zs where "ys = y # zs" "f x = g y" "map f xs = map g zs" by (auto simp: Cons_eq_map_conv)
  with Cons.IH [of zs] Cons.prems(2) show ?case by simp
qed simp

lemma claimed_keys:
  assumes ok: "sql_ok s" and c: "sql_claim_ready_batch pid limit s = Inr (s', claimed)"
  shows "map order_key claimed = take (nat (max 1 limit)) (sort (ready_keys s pid))"
proof -
  let ?ks = "take (nat (max 1 limit)) (sort (ready_keys s pid))"
  have snds: "map tr_task_id claimed = map snd ?ks"
    using sql_claim_effect(6) [OF ok c] unfolding claim_candidates_ready_keys .
  have "order_key r = p" if r: "r \<in> set claimed" and p: "p \<in> set ?ks" and eq: "tr_task_id r = snd p" for r p
  proof -
    have "(fst p, snd p) \<in> set (ready_keys s pid)" using p by (metis in_set_takeD prod.collapse set_sort)
    then obtain q where "runnable s pid (snd p) q" "tr_planned_order q = fst p"
      unfolding ready_keys_def using ready_entries_iff [OF ok] by blast
    then show ?thesis
      using claimed_member [OF ok c r] eq by (auto simp: runnable_def start_attempt_def)
  qed
  then show ?thesis by (rule map_determined [OF snds])
qed

text \<open>What \<open>take\<close> leaves out of a sorted list comes after it.\<close>

lemma sorted_take_rest:
  assumes "y \<in> set xs" and "y \<notin> set (take n (sort xs))"
  shows "n = length (take n (sort xs)) \<and> (\<forall>x\<in>set (take n (sort xs)). x < (y :: 'a :: linorder))"
proof -
  have "y \<in> set (take n (sort xs) @ drop n (sort xs))" using assms(1) by simp
  then have y: "y \<in> set (drop n (sort xs))" using assms(2) unfolding set_append by blast
  then have "n < length (sort xs)" by (metis drop_all empty_iff empty_set not_le)
  moreover have "sorted (take n (sort xs) @ drop n (sort xs))" by simp
  ultimately show ?thesis using y assms(2) unfolding sorted_append by (fastforce simp: less_le)
qed

text \<open>
  C10. Claiming a batch starts exactly the runnable tasks of smallest \<open>(planned_order, task_id)\<close>,
  at most \<open>max 1 limit\<close> of them: the claimed rows are sorted, each was pending or ready with
  completed dependencies and resolved required needs, each is now running with one more attempt, no
  runnable task left behind precedes a claimed one, one is left behind only when the batch is full,
  and every other task is as it was.
\<close>

theorem claim_batch_starts_first_runnable:
  assumes ok: "sql_ok s" and c: "sql_claim_ready_batch pid limit s = Inr (s', claimed)"
  shows "sorted (map (\<lambda>r. (tr_planned_order r, tr_task_id r)) claimed)
    \<and> distinct (map tr_task_id claimed)
    \<and> (\<forall>r\<in>set claimed. \<exists>q. runnable s pid (tr_task_id r) q
          \<and> r = q\<lparr>tr_status := TaskRunning, tr_attempts := tr_attempts q + 1\<rparr>
          \<and> find_task s' pid (tr_task_id r) = Some r)
    \<and> (\<forall>tid q. runnable s pid tid q \<and> tid \<notin> tr_task_id ` set claimed \<longrightarrow>
          length claimed = nat (max 1 limit)
          \<and> (\<forall>r\<in>set claimed. (tr_planned_order r, tr_task_id r) < (tr_planned_order q, tid)))
    \<and> (\<forall>pid' tid. pid' \<noteq> pid \<or> tid \<notin> tr_task_id ` set claimed \<longrightarrow>
          find_task s' pid' tid = find_task s pid' tid)"
proof -
  let ?ids = "claim_candidates pid limit s"
  note e = sql_claim_effect [OF ok c] and keys = claimed_keys [OF ok c]
  have ids: "tr_task_id ` set claimed = set ?ids" using e(6) by (metis set_map)
  have "length claimed = nat (max 1 limit) \<and> (\<forall>r\<in>set claimed. order_key r < (tr_planned_order q, tid))"
    if run: "runnable s pid tid q" and out: "tid \<notin> tr_task_id ` set claimed" for tid q
  proof -
    have "(tr_planned_order q, tid) \<in> set (ready_keys s pid)"
      unfolding ready_keys_def using run ready_entries_iff [OF ok] by blast
    moreover have "(tr_planned_order q, tid) \<notin> set (map order_key claimed)" using out by auto
    ultimately show ?thesis
      using sorted_take_rest [of "(tr_planned_order q, tid)" "ready_keys s pid" "nat (max 1 limit)"]
      unfolding keys [symmetric] by simp
  qed
  moreover have "sorted (map order_key claimed)" unfolding keys by (simp add: sorted_wrt_take)
  moreover have "distinct (map tr_task_id claimed)"
    using e(6) distinct_claim_candidates [OF ok] by metis
  moreover have "find_task s' pid' tid = find_task s pid' tid"
    if "pid' \<noteq> pid \<or> tid \<notin> tr_task_id ` set claimed" for pid' tid
    using e(5) [of pid' tid] that unfolding ids by auto
  ultimately show ?thesis using claimed_member [OF ok c] unfolding start_attempt_def by blast
qed

theorem claim_batch_starts_first_runnable_witness:
  "sql_ok demo_patched \<and> sorted (map (\<lambda>r. (tr_planned_order r, tr_task_id r))
     (snd (projr (sql_claim_ready_batch 0 1 demo_patched))))"
  using claim_batch_starts_first_runnable [OF reach_ok [OF demo_reach(2)] demo_runs(3)]
    reach_ok [OF demo_reach(2)] by blast

section \<open>Revising the plan\<close>

text \<open>
  Optimistic concurrency: when two planners produce patches against the same revision, the one
  applied second is refused with a conflict that names the expected and the actual revision, and the
  refused patch leaves no trace. The plan advanced by exactly one revision.
\<close>

theorem second_patch_conflicts:
  assumes "sql_apply_patch pid first reason invocation s = Inr s'"
    and "pp_expected_revision second = pp_expected_revision first"
  shows "sql_apply_patch pid second reason' invocation' s' =
           Inl (PlanConflictError (pp_expected_revision first) (pp_expected_revision first + 1))"
  using assms(1)
proof (rule sql_apply_patch_plan)
  fix plan
  assume "find_plan s' pid = Some (plan\<lparr>pl_revision := pp_expected_revision first + 1,
           pl_status := decision_status (pp_decision first),
           pl_answer_brief := (case pp_answer_brief first of None \<Rightarrow> pl_answer_brief plan | Some b \<Rightarrow> Some b)\<rparr>)"
  then show ?thesis by (simp add: sql_apply_patch_def assms(2))
qed

theorem second_patch_conflicts_witness:
  "sql_apply_patch 0 (demo_patch 0) ''again'' None demo_patched = Inl (PlanConflictError 0 1)"
  using second_patch_conflicts [OF demo_runs(2), of "demo_patch 0" "''again''" None]
  by (simp add: demo_patch_def)

text \<open>
  C11. A validated patch that succeeds never touches a task that is running or has completed: its row
  (result, checkpoint, attempts, order) and its dependencies are as before, and no task becomes running
  or completed through a patch. What it emits is pending with the dependencies it names, and what it
  removes is gone.
\<close>

theorem patch_keeps_started_tasks:
  assumes ok: "sql_ok s" and v: "validate_patch patch = Inr patch"
    and p: "sql_apply_patch pid patch reason invocation s = Inr s'"
  shows "(\<forall>t r. find_task s pid t = Some r \<and> is_active (tr_status r) \<longrightarrow>
            find_task s' pid t = Some r \<and> deps_of s' pid t = deps_of s pid t)
    \<and> (\<forall>t r. find_task s' pid t = Some r \<and> is_active (tr_status r) \<longrightarrow> find_task s pid t = Some r)
    \<and> (\<forall>t\<in>set (pp_tasks patch). deps_of s' pid (pt_task_id t) = pt_depends_on t
            \<and> sql_status s' pid (pt_task_id t) = Some TaskPending)
    \<and> (\<forall>t\<in>set (pp_remove_task_ids patch). find_task s' pid t = None)"
proof -
  have rev: "sql_revise pid s s'" using v p by (auto simp: sql_revise_def)
  have d: "distinct (map pt_task_id (pp_tasks patch))"
    and disj: "set (pp_remove_task_ids patch) \<inter> pt_task_id ` set (pp_tasks patch) = {}"
    using v by (auto simp: validate_patch_accepts_iff patch_ok_def)
  note e = sql_apply_patch_effect [OF ok d p]
  have act: "active_status (map_option tr_status x) \<longleftrightarrow> (\<exists>r. x = Some r \<and> is_active (tr_status r))" for x
    by (auto simp: active_status_def is_active_def)
  have "find_task s' pid t = Some r \<and> deps_of s' pid t = deps_of s pid t"
    if "find_task s pid t = Some r" "is_active (tr_status r)" for t r
    using sql_revise_untouched [OF ok rev, of t] that unfolding act by simp
  moreover have "find_task s pid t = Some r"
    if "find_task s' pid t = Some r" "is_active (tr_status r)" for t r
    using sql_revise_untouched [OF ok rev, of t] that unfolding act by simp
  moreover have "deps_of s' pid (pt_task_id t) = pt_depends_on t
            \<and> sql_status s' pid (pt_task_id t) = Some TaskPending" if "t \<in> set (pp_tasks patch)" for t
    using e(3) [OF that] disj that by blast
  moreover have "find_task s' pid t = None" if "t \<in> set (pp_remove_task_ids patch)" for t
    using e(4) [of t] disj that by blast
  ultimately show ?thesis by blast
qed

definition demo_extend :: PlanPatch where
  "demo_extend = (demo_patch 1)\<lparr>pp_decision := RevisePlan, pp_tasks := [demo_task ''c'' [''a'']],
     pp_remove_task_ids := [''b'']\<rparr>"

lemma demo_extend_runs:
  "validate_patch demo_extend = Inr demo_extend"
  "sql_apply_patch 0 demo_extend ''more'' None demo_done = Inr (projr (sql_apply_patch 0 demo_extend ''more'' None demo_done))"
proof -
  show "validate_patch demo_extend = Inr demo_extend"
    unfolding validate_patch_accepts_iff patch_ok_def
    by (simp add: demo_extend_def demo_patch_def demo_task_def PlannedTask_ok_def)
  have "\<not> isl (sql_apply_patch 0 demo_extend ''more'' None demo_done)" by code_simp
  then show "sql_apply_patch 0 demo_extend ''more'' None demo_done = Inr (projr (sql_apply_patch 0 demo_extend ''more'' None demo_done))"
    by (rule projr_eq)
qed

theorem patch_keeps_started_tasks_witness:
  "find_task (projr (sql_apply_patch 0 demo_extend ''more'' None demo_done)) 0 ''b'' = None
   \<and> deps_of (projr (sql_apply_patch 0 demo_extend ''more'' None demo_done)) 0 ''c'' = [''a'']"
  using patch_keeps_started_tasks [OF reach_ok [OF demo_reach(4)] demo_extend_runs]
  by (simp add: demo_extend_def demo_task_def)

section \<open>Results and failures\<close>

definition result_acceptable :: "db \<Rightarrow> task_row \<Rightarrow> AgentTaskResult \<Rightarrow> bool" where
  "result_acceptable s r result \<longleftrightarrow>
     (case ar_outcome result of
        OutCompleted \<Rightarrow> (\<forall>n\<in>set (needs_of_row s (tr_id r)). nr_required n \<longrightarrow> nr_status n = ReqResolved)
          \<and> (\<forall>spec\<in>set (tr_expected_outputs r). os_required spec \<longrightarrow> os_key spec \<in> set (dkeys (ar_outputs result)))
      | OutNeedsDependency \<Rightarrow> distinct (map ns_key (ar_needs result))
      | OutUnfulfillable \<Rightarrow> True)"

lemma apply_result_accepts:
  "(\<exists>s'. sql_apply_result pid tid result s = Inr s') \<longleftrightarrow>
     (\<exists>r. find_task s pid tid = Some r \<and> tr_status r = TaskRunning \<and> result_acceptable s r result)"
proof (cases "find_task s pid tid")
  case (Some r)
  have "list_ex (\<lambda>n. nr_required n \<and> nr_status n \<noteq> ReqResolved) (needs_of_row s (tr_id r)) \<longleftrightarrow>
      \<not> (\<forall>n\<in>set (needs_of_row s (tr_id r)). nr_required n \<longrightarrow> nr_status n = ReqResolved)"
    by (auto simp: list_ex_iff)
  then show ?thesis using Some
    by (cases "ar_outcome result")
       (auto simp: sql_apply_result_def result_acceptable_def missing_contract_outputs_Nil_iff Let_def)
qed (simp add: sql_apply_result_def)

text \<open>
  C30. A reported result is accepted exactly for a running task whose required needs are resolved and
  whose contract outputs are delivered (the last two when it reports completion), and whose reported
  needs have distinct keys (when it reports a dependency). An accepted result is stored with the
  checkpoint and the status of its outcome, and no other task of any plan changes.
\<close>

theorem apply_result_settles_task:
  assumes ok: "sql_ok s" and r: "find_task s pid tid = Some r"
  shows "if tr_status r = TaskRunning \<and> result_acceptable s r result
         then \<exists>s'. sql_apply_result pid tid result s = Inr s' \<and> sql_ok s'
           \<and> find_task s' pid tid = Some (r\<lparr>tr_result := Some result, tr_checkpoint := ar_checkpoint result,
               tr_status := (case ar_outcome result of OutCompleted \<Rightarrow> TaskCompleted
                 | OutNeedsDependency \<Rightarrow> TaskWaitingDependency | OutUnfulfillable \<Rightarrow> TaskUnfulfillable)\<rparr>)
           \<and> (\<forall>pid' t. (pid', t) \<noteq> (pid, tid) \<longrightarrow> find_task s' pid' t = find_task s pid' t)
           \<and> deps_of s' = deps_of s
         else isl (sql_apply_result pid tid result s)"
proof (cases "tr_status r = TaskRunning \<and> result_acceptable s r result")
  case True
  then obtain s' where a: "sql_apply_result pid tid result s = Inr s'"
    using apply_result_accepts [of pid tid result s] r by blast
  from ok a show ?thesis
    by (rule sql_apply_result_effect) (use a r True in auto)
next
  case False
  then have "\<not> (\<exists>s'. sql_apply_result pid tid result s = Inr s')"
    using apply_result_accepts [of pid tid result s] r by auto
  then show ?thesis using False by (cases "sql_apply_result pid tid result s") auto
qed

theorem apply_result_settles_task_witness:
  "\<exists>r. find_task demo_running 0 ''a'' = Some r \<and>
     (if tr_status r = TaskRunning \<and> result_acceptable demo_running r demo_result
      then \<exists>s'. sql_apply_result 0 ''a'' demo_result demo_running = Inr s' \<and> sql_ok s'
      else isl (sql_apply_result 0 ''a'' demo_result demo_running))"
proof -
  have "find_task demo_running 0 ''a'' \<noteq> None" by code_simp
  then obtain r where r: "find_task demo_running 0 ''a'' = Some r" by auto
  show ?thesis
    using apply_result_settles_task [OF reach_ok [OF demo_reach(3)] r, of demo_result] r
    by (auto split: if_splits)
qed

text \<open>The task a need belongs to, found by row id.\<close>

lemma owner_iff:
  assumes "sql_ok s"
  shows "find (\<lambda>q. tr_id q = i) (plan_tasks s pid) = Some q \<longleftrightarrow>
         find_task s pid (tr_task_id q) = Some q \<and> tr_id q = i" (is "?L \<longleftrightarrow> ?R")
proof
  assume ?L
  then have "q \<in> set (db_tasks s)" "tr_plan_id q = pid" "tr_id q = i"
    by (auto simp: plan_tasks_def dest: find_SomeD)
  then show ?R using find_task_member [OF assms] by blast
next
  assume R: ?R
  then have q: "q \<in> set (db_tasks s)" "tr_plan_id q = pid" by (auto dest: find_task_SomeD)
  show ?L
  proof (cases "find (\<lambda>q. tr_id q = i) (plan_tasks s pid)")
    case None
    then show ?thesis using q R by (simp add: find_None_iff plan_tasks_def)
  next
    case (Some x)
    then have "x \<in> set (db_tasks s)" "tr_id x = i" by (auto simp: plan_tasks_def dest: find_SomeD)
    then show ?thesis using sql_ok_id_inj [OF assms _ q(1), of x] R Some by auto
  qed
qed

lemma consumer_iff:
  assumes ok: "sql_ok s" and r: "find_task s pid tid = Some r" and f: "keeps_keys f"
  shows "(\<exists>q. find (\<lambda>q. tr_id q = i) (plan_tasks (upd_task (tr_id r) f s) pid) = Some q \<and> P (tr_task_id q)) \<longleftrightarrow>
         (\<exists>c q. find_task s pid c = Some q \<and> tr_id q = i \<and> P c)"
proof -
  have ok': "sql_ok (upd_task (tr_id r) f s)" using ok f by (rule sql_ok_upd_task)
  have k: "tr_id (f q) = tr_id q" "tr_task_id (f q) = tr_task_id q" for q
    using f by (simp_all add: keeps_keys_def)
  show ?thesis
    unfolding owner_iff [OF ok'] find_task_upd_task [OF f]
  proof (intro iffI; elim exE conjE)
    fix q assume q: "map_option (\<lambda>x. if tr_id x = tr_id r then f x else x) (find_task s pid (tr_task_id q)) = Some q"
      and i: "tr_id q = i" and P: "P (tr_task_id q)"
    from q obtain x where "find_task s pid (tr_task_id q) = Some x" "q = (if tr_id x = tr_id r then f x else x)" by auto
    then show "\<exists>c q. find_task s pid c = Some q \<and> tr_id q = i \<and> P c"
      using i P k(1) [of x] by (auto split: if_splits)
  next
    fix c q assume q: "find_task s pid c = Some q" and i: "tr_id q = i" and P: "P c"
    have "tr_task_id q = c" using q by (rule find_task_SomeD)
    then show "\<exists>q. (map_option (\<lambda>x. if tr_id x = tr_id r then f x else x) (find_task s pid (tr_task_id q)) = Some q
        \<and> tr_id q = i) \<and> P (tr_task_id q)"
      using q i P k [of q] by (intro exI [of _ "if tr_id q = tr_id r then f q else q"]) auto
  qed
qed

text \<open>
  C31. A completed result resolves the needs of the tasks that wait for it and no others: after an
  accepted completion, a need that was pending, belongs to another task of the plan that depends on
  the completed one and has the key of a produced output, is resolved with that output and records
  its producer; every other need keeps its state.
\<close>

theorem completion_resolves_consumer_needs:
  assumes ok: "sql_ok s" and r: "find_task s pid tid = Some r"
    and a: "sql_apply_result pid tid result s = Inr s'" and out: "ar_outcome result = OutCompleted"
  shows "db_needs s' = map (\<lambda>n.
      if nr_status n = ReqPending \<and> nr_task_row_id n \<noteq> tr_id r
         \<and> map_of (ar_outputs result) (nr_need_key n) \<noteq> None
         \<and> (\<exists>c q. find_task s pid c = Some q \<and> tr_id q = nr_task_row_id n \<and> tid \<in> set (deps_of s pid c))
      then n\<lparr>nr_status := ReqResolved,
             nr_resolved_value := the (map_of (ar_outputs result) (nr_need_key n)),
             nr_resolver_task_id := Some tid\<rparr>
      else n) (db_needs s)"
proof -
  let ?f = "\<lambda>q :: task_row. q\<lparr>tr_result := Some result, tr_checkpoint := ar_checkpoint result, tr_status := TaskCompleted\<rparr>"
  let ?u = "upd_task (tr_id r) ?f s"
  have tid: "tr_task_id r = tid" using r by (rule find_task_SomeD)
  have s': "s' = sql_refresh_status pid (resolve_consumer_needs pid r (ar_outputs result) ?u)"
    using a r out by (auto simp: sql_apply_result_def Let_def split: if_splits)
  have f: "keeps_keys ?f" by simp
  show ?thesis
    unfolding s' sql_refresh_status_proj resolve_consumer_needs_def consumer_iff [OF ok r f, symmetric] tid
    by (auto split: option.splits)
qed

definition demo_waiting :: db where
  "demo_waiting = demo_running\<lparr>db_needs := [\<lparr>nr_id = 9, nr_task_row_id = 2, nr_need_key = ''x'',
     nr_kind = NeedData, nr_description = ''x'', nr_schema = [], nr_ref = ''x'', nr_required = True,
     nr_context = [], nr_status = ReqPending, nr_resolved_value = JNull, nr_resolver_task_id = None\<rparr>]\<rparr>"

lemma demo_waiting_runs:
  "sql_ok demo_waiting"
  "sql_apply_result 0 ''a'' demo_result demo_waiting = Inr (projr (sql_apply_result 0 ''a'' demo_result demo_waiting))"
proof -
  show "sql_ok demo_waiting"
    by (rule sql_ok_cong [OF reach_ok [OF demo_reach(3)]]) (simp_all add: demo_waiting_def)
  have "\<not> isl (sql_apply_result 0 ''a'' demo_result demo_waiting)" by code_simp
  then show "sql_apply_result 0 ''a'' demo_result demo_waiting = Inr (projr (sql_apply_result 0 ''a'' demo_result demo_waiting))"
    by (rule projr_eq)
qed

theorem completion_resolves_consumer_needs_witness:
  "map nr_status (db_needs (projr (sql_apply_result 0 ''a'' demo_result demo_waiting))) = [ReqResolved]"
proof -
  have "find_task demo_waiting 0 ''a'' \<noteq> None \<and> tr_id (the (find_task demo_waiting 0 ''a'')) = 1" by code_simp
  then obtain r where r: "find_task demo_waiting 0 ''a'' = Some r" "tr_id r = 1" by auto
  have b: "map_option tr_id (find_task demo_waiting 0 ''b'') = Some 2
      \<and> deps_of demo_waiting 0 ''b'' = [''a'']" by code_simp
  then have "\<exists>c q. find_task demo_waiting 0 c = Some q \<and> tr_id q = 2 \<and> ''a'' \<in> set (deps_of demo_waiting 0 c)"
    by (intro exI [of _ "''b''"]) auto
  then show ?thesis
    using completion_resolves_consumer_needs [OF demo_waiting_runs(1) r(1) demo_waiting_runs(2)] r(2)
    by (simp add: demo_result_def) (simp add: demo_waiting_def)
qed

text \<open>
  C33. A failure is retried at most as often as allowed: a failed attempt puts the task back to
  waiting for a retry exactly when the failure is retryable and fewer than \<open>max_attempts\<close>
  attempts were started, and otherwise the task has failed; the attempt that failed records the error,
  the time and the retry time, and no other task or attempt changes.
\<close>

theorem failure_retries_within_limit:
  assumes ok: "sql_ok s" and r: "find_task s pid tid = Some r"
  shows "\<exists>s'. sql_record_failure pid tid failure retry_at max_attempts now s = Inr s' \<and> sql_ok s'
    \<and> sql_status s' pid tid = Some (if tf_retryable failure \<and> tr_attempts r < max_attempts
                                     then TaskWaitingRetry else TaskFailed)
    \<and> (\<forall>pid' t. (pid', t) \<noteq> (pid, tid) \<longrightarrow> find_task s' pid' t = find_task s pid' t)
    \<and> db_attempts s' = map (\<lambda>a. if at_task_row_id a = tr_id r \<and> at_attempt_number a = tr_attempts r
        then a\<lparr>at_status := (if tf_timed_out failure then AttTimedOut else AttFailed),
               at_error := Some failure, at_finished_at := Some now, at_next_retry_at := retry_at\<rparr>
        else a) (db_attempts s)"
proof -
  define s' where "s' = projr (sql_record_failure pid tid failure retry_at max_attempts now s)"
  have a: "sql_record_failure pid tid failure retry_at max_attempts now s = Inr s'"
    using r by (simp add: s'_def sql_record_failure_def Let_def)
  have at: "db_attempts s' = map (\<lambda>a. if at_task_row_id a = tr_id r \<and> at_attempt_number a = tr_attempts r
        then a\<lparr>at_status := (if tf_timed_out failure then AttTimedOut else AttFailed),
               at_error := Some failure, at_finished_at := Some now, at_next_retry_at := retry_at\<rparr>
        else a) (db_attempts s)"
    using a r by (auto simp: sql_record_failure_def Let_def upd_attempt_def)
  from ok a show ?thesis
    by (rule sql_record_failure_effect) (use a at r in auto)
qed

theorem failure_retries_within_limit_witness:
  "\<exists>s'. sql_record_failure 0 ''a'' \<lparr>tf_code = ''E'', tf_message = ''m'', tf_retryable = True,
       tf_timed_out = False, tf_details = []\<rparr> None 1 0 demo_running = Inr s' \<and> sql_ok s'
     \<and> sql_status s' 0 ''a'' = Some TaskFailed"
proof -
  have "map_option tr_attempts (find_task demo_running 0 ''a'') = Some 1" by code_simp
  then obtain r where r: "find_task demo_running 0 ''a'' = Some r" "tr_attempts r = 1" by auto
  show ?thesis
    using failure_retries_within_limit [OF reach_ok [OF demo_reach(3)] r(1),
        of "\<lparr>tf_code = ''E'', tf_message = ''m'', tf_retryable = True, tf_timed_out = False, tf_details = []\<rparr>" None 1 0]
      r(2) by auto
qed

section \<open>Behaviours the comments do not promise\<close>

text \<open>
  Claiming is not atomic: the ready tasks are chosen from a snapshot, and each row is locked and
  re-read only to exclude running tasks. A task that another scheduler completed between the two halves
  is started again; it is handed out as running with one more attempt.
\<close>

theorem claim_restarts_completed_task:
  assumes ok: "sql_ok s'" and tid: "tid \<in> set (claim_candidates pid limit s)"
    and r: "find_task s' pid tid = Some r" and fin: "tr_status r = TaskCompleted"
  shows "\<exists>q. find_task (fst (claim_commit pid (claim_candidates pid limit s) s')) pid tid = Some q
      \<and> tr_status q = TaskRunning \<and> tr_attempts q = tr_attempts r + 1"
proof -
  obtain u cl where u: "claim_commit pid (claim_candidates pid limit s) s' = (u, cl)" by fastforce
  then have "find_task u pid tid = Some (start_attempt r)"
    using claim_fold_effect [OF ok, of pid "claim_candidates pid limit s" "[]" u cl] tid r fin
    by (auto simp: claim_commit_def)
  then show ?thesis unfolding u by (simp add: start_attempt_def)
qed

theorem claim_restarts_completed_task_witness:
  "\<exists>q. find_task (fst (claim_commit 0 (claim_candidates 0 1 demo_patched) demo_done)) 0 ''a'' = Some q
      \<and> tr_status q = TaskRunning"
proof -
  have c: "''a'' \<in> set (claim_candidates 0 1 demo_patched)" by code_simp
  have "sql_status demo_done 0 ''a'' = Some TaskCompleted" by code_simp
  then obtain r where r: "find_task demo_done 0 ''a'' = Some r" "tr_status r = TaskCompleted" by auto
  show ?thesis using claim_restarts_completed_task [OF reach_ok [OF demo_reach(4)] c r] by blast
qed

lemma removed_deps:
  assumes ok: "sql_ok s" and v: "validate_patch patch = Inr patch"
    and p: "sql_apply_patch pid patch reason invocation s = Inr s'" and t: "t \<in> set (pp_remove_task_ids patch)"
  shows "deps_of s' pid t = deps_of s pid t"
proof -
  have d: "distinct (map pt_task_id (pp_tasks patch))"
    and nt: "t \<notin> pt_task_id ` set (pp_tasks patch)"
    using v t by (auto simp: validate_patch_accepts_iff patch_ok_def)
  obtain plan s1 where run: "foldE (apply_item pid (db_needs s)) (remove_tasks pid (pp_remove_task_ids patch) s)
           (enumerate 0 (pp_tasks patch)) = Inr s1"
    and s': "s' = finish_patch pid patch reason invocation plan s1"
    using p by (rule sql_apply_patch_E)
  have "deps_of s1 pid t = deps_of s pid t"
    using apply_items_effect [OF sql_ok_remove_tasks [OF ok] run, unfolded map_enumerate_items set_enumerate_items, OF d]
      nt unfolding deps_of_remove_tasks by blast
  then show ?thesis unfolding s' by simp
qed

text \<open>
  Removing a task leaves its dependency rows behind: after a successful patch that removes a task
  with dependencies, the snapshot still lists an entry under its id, with those dependencies but
  without any of the columns (status, intent, executor) that readers of the snapshot look up.
\<close>

theorem removed_task_stays_in_snapshot:
  assumes ok: "sql_ok s" and v: "validate_patch patch = Inr patch"
    and p: "sql_apply_patch pid patch reason invocation s = Inr s'"
    and t: "t \<in> set (pp_remove_task_ids patch)" and d: "deps_of s pid t \<noteq> []"
  shows "map_of (snapshot_tasks s' pid) t =
           Some \<lparr>sn_row = None, sn_depends_on = deps_of s pid t, sn_needs = []\<rparr>"
proof -
  have dist: "distinct (map pt_task_id (pp_tasks patch))"
    and disj: "t \<notin> pt_task_id ` set (pp_tasks patch)"
    using v t by (auto simp: validate_patch_accepts_iff patch_ok_def)
  note e = sql_apply_patch_effect [OF ok dist p]
  have "find_task s' pid t = None" using e(4) [of t] t disj by blast
  then show ?thesis
    unfolding map_of_snapshot_tasks [OF e(1)] removed_deps [OF ok v p t] using d by simp
qed

theorem removed_task_stays_in_snapshot_witness:
  "map_of (snapshot_tasks (projr (sql_apply_patch 0 demo_extend ''more'' None demo_done)) 0) ''b'' =
     Some \<lparr>sn_row = None, sn_depends_on = [''a''], sn_needs = []\<rparr>"
proof -
  have "deps_of demo_done 0 ''b'' = [''a'']" by code_simp
  then show ?thesis
    using removed_task_stays_in_snapshot [OF reach_ok [OF demo_reach(4)] demo_extend_runs, of "''b''"]
    by (simp add: demo_extend_def)
qed

text \<open>
  A patch that re-emits a stored inactive task without repeating its needs never succeeds when the
  task has stored needs: the stored needs are copied in as plain dictionaries and reading
  \<open>need.key\<close> on one raises, instead of the needs being carried over.
\<close>

theorem reemitting_task_without_needs_fails:
  assumes "find_plan s pid = Some plan" and "pl_revision plan = pp_expected_revision patch"
    and "pp_tasks patch = [item]" and "pp_remove_task_ids patch = []" and "pt_needs item = []"
    and "find_task s pid (pt_task_id item) = Some r" and "\<not> is_active (tr_status r)"
    and "needs_of_row s (tr_id r) \<noteq> []"
    and "list_all PlannedTask_ok (existing_planned s pid patch)"
    and "validate_task_graph (map snd (combined_tasks s pid patch)) = Inr ()"
  shows "sql_apply_patch pid patch reason invocation s = Inl AttributeError"
proof -
  have "remove_tasks pid [] s = s" by (simp add: remove_tasks_def Let_def)
  moreover have "apply_item pid (db_needs s) s (0, item) = Inl AttributeError"
    using assms by (simp add: apply_item_def Let_def needs_of_row_def)
  ultimately show ?thesis using assms by (simp add: sql_apply_patch_def list_ex_iff)
qed

definition demo_reemit :: PlanPatch where
  "demo_reemit = (demo_patch 1)\<lparr>pp_tasks := [demo_task ''b'' [''a'']]\<rparr>"

theorem reemitting_task_without_needs_fails_witness:
  "sql_apply_patch 0 demo_reemit ''again'' None demo_waiting = Inl AttributeError"
proof -
  let ?p = demo_reemit
  obtain plan where plan: "find_plan demo_waiting 0 = Some plan" "pl_revision plan = 1"
  proof -
    have "map_option pl_revision (find_plan demo_waiting 0) = Some 1" by code_simp
    then show thesis using that by auto
  qed
  obtain r where r: "find_task demo_waiting 0 ''b'' = Some r" "tr_status r = TaskPending" "tr_id r = 2"
  proof -
    have "map_option (\<lambda>r. (tr_status r, tr_id r)) (find_task demo_waiting 0 ''b'') = Some (TaskPending, 2)" by code_simp
    then show thesis using that by auto
  qed
  have n: "needs_of_row demo_waiting 2 \<noteq> []" by code_simp
  have x: "list_all PlannedTask_ok (existing_planned demo_waiting 0 ?p)" by code_simp
  have g: "validate_task_graph (map snd (combined_tasks demo_waiting 0 ?p)) = Inr ()" by code_simp
  show ?thesis
    by (rule reemitting_task_without_needs_fails [OF plan(1), where item = "demo_task ''b'' [''a'']" and r = r])
       (use plan(2) r n x g in \<open>simp_all add: demo_reemit_def demo_patch_def demo_task_def is_active_def\<close>)
qed

end
