(* ===== verification/Plan_Memory.thy ===== *)
theory Plan_Memory
  imports Plan_Sql
begin

text \<open>
  The class \<open>InMemoryPlanStore\<close> of \<open>apps/api/src/app/runtime/plan_store.py\<close>. A plan is a
  mutable dictionary, so what an operation changed before it raised stays changed: \<open>apply_patch\<close>
  returns the store with its error. The other operations raise before they change anything. Attempts
  are keyed by the task id alone, as in the code. Timestamps are left out.
\<close>

section \<open>Data\<close>

record mem_need =
  mn_task_id :: string
  mn_spec :: NeedSpec
  mn_status :: RequirementStatus
  mn_resolved_value :: json
  mn_resolver_task_id :: "string option"

record mem_task =
  mt_spec :: PlannedTask
  mt_status :: TaskStatus
  mt_checkpoint :: jobject
  mt_result :: "AgentTaskResult option"
  mt_attempts :: int
  mt_planned_order :: int
  mt_next_retry_at :: "int option"

datatype mem_failure = MarkedFailure jobject | AttemptFailure string TaskAttemptFailure

record mem_plan =
  mp_id :: uuid
  mp_goal :: string
  mp_root_run_id :: uuid
  mp_tenant_id :: uuid
  mp_chat_id :: "uuid option"
  mp_status :: PlanStatus
  mp_revision :: int
  mp_tasks :: "(string, mem_task) dict"
  mp_needs :: "(string, mem_need) dict"
  mp_answer_brief :: "string option"
  mp_last_failure :: "mem_failure option"

record mem_revision =
  mr_revision :: int
  mr_reason :: string
  mr_invocation :: "string option"
  mr_patch :: PlanPatch

record mem_attempt =
  ma_attempt_number :: int
  ma_status :: AttemptStatus
  ma_error :: "TaskAttemptFailure option"

record mem_store =
  ms_plans :: "(uuid, mem_plan) dict"
  ms_revisions :: "(uuid, mem_revision list) dict"
  ms_attempts :: "(string, mem_attempt list) dict"

section \<open>Operations\<close>

definition mem_create :: "uuid \<Rightarrow> string \<Rightarrow> uuid \<Rightarrow> uuid \<Rightarrow> uuid option \<Rightarrow> mem_store \<Rightarrow> mem_store" where
  "mem_create plan_id goal root_run_id tenant_id chat_id s =
     s\<lparr>ms_plans := AList.update plan_id
           \<lparr>mp_id = plan_id, mp_goal = goal, mp_root_run_id = root_run_id, mp_tenant_id = tenant_id,
            mp_chat_id = chat_id, mp_status = PlanDraft, mp_revision = 0, mp_tasks = [], mp_needs = [],
            mp_answer_brief = None, mp_last_failure = None\<rparr> (ms_plans s),
       ms_revisions := AList.update plan_id [] (ms_revisions s)\<rparr>"

definition mem_get :: "uuid \<Rightarrow> mem_store \<Rightarrow> runtime_error + mem_plan" where
  "mem_get plan_id s = (case map_of (ms_plans s) plan_id of None \<Rightarrow> Inl KeyError | Some p \<Rightarrow> Inr p)"

definition set_plan :: "uuid \<Rightarrow> mem_plan \<Rightarrow> mem_store \<Rightarrow> mem_store" where
  "set_plan plan_id p s = s\<lparr>ms_plans := AList.update plan_id p (ms_plans s)\<rparr>"

text \<open>The recorded requirement of a need of a task, if there is one.\<close>

definition mem_requirement :: "mem_plan \<Rightarrow> string \<Rightarrow> NeedSpec \<Rightarrow> mem_need option" where
  "mem_requirement p tid n =
     map_option snd (find (\<lambda>(k, q). mn_task_id q = tid \<and> ns_key (mn_spec q) = ns_key n) (mp_needs p))"

definition mem_need_view :: "mem_plan \<Rightarrow> mem_task \<Rightarrow> (bool \<times> RequirementStatus option) list" where
  "mem_need_view p t =
     map (\<lambda>n. case mem_requirement p (pt_task_id (mt_spec t)) n of
                None \<Rightarrow> (ns_required n, None)
              | Some q \<Rightarrow> (ns_required (mn_spec q), Some (mn_status q))) (pt_needs (mt_spec t))"

definition mem_ready :: "mem_plan \<Rightarrow> mem_task \<Rightarrow> bool" where
  "mem_ready p t =
     task_is_ready (Some (mt_status t)) (pt_depends_on (mt_spec t)) (mem_need_view p t)
       (\<lambda>dep. map_option mt_status (map_of (mp_tasks p) dep))"

text \<open>Marking a task ready does not change the readiness of another, so the loop is a map.\<close>

definition refresh_ready :: "mem_plan \<Rightarrow> mem_plan" where
  "refresh_ready p =
     p\<lparr>mp_tasks := dmap (\<lambda>_ t. if mem_ready p t then t\<lparr>mt_status := TaskReady\<rparr> else t) (mp_tasks p)\<rparr>"

definition mem_existing :: "mem_plan \<Rightarrow> PlanPatch \<Rightarrow> (string, PlannedTask) dict" where
  "mem_existing p patch =
     map (\<lambda>(k, t). (k, mt_spec t)) (filter (\<lambda>(k, t). k \<notin> set (pp_remove_task_ids patch)) (mp_tasks p))"

definition mem_merged :: "mem_plan \<Rightarrow> PlanPatch \<Rightarrow> (string, PlannedTask) dict" where
  "mem_merged p patch =
     fold (\<lambda>item d. AList.update (pt_task_id item) item d) (pp_tasks patch) (mem_existing p patch)"

definition need_dict_key :: "string \<Rightarrow> string \<Rightarrow> string" where
  "need_dict_key tid key = tid @ '':'' @ key"

definition mem_add_needs :: "string \<Rightarrow> NeedSpec list \<Rightarrow> mem_plan \<Rightarrow> mem_plan" where
  "mem_add_needs tid needs p =
     p\<lparr>mp_needs := fold (\<lambda>n d. AList.update (need_dict_key tid (ns_key n))
          \<lparr>mn_task_id = tid, mn_spec = n, mn_status = ReqPending, mn_resolved_value = JNull,
           mn_resolver_task_id = None\<rparr> d) needs (mp_needs p)\<rparr>"

text \<open>
  One item of the patch. When the item declares no needs and the task has recorded ones, the copied
  dictionaries make \<open>need.key\<close> raise after the task was replaced and its needs were dropped.
\<close>

definition mem_apply_item :: "nat \<times> PlannedTask \<Rightarrow> mem_plan \<Rightarrow> runtime_error option \<times> mem_plan" where
  "mem_apply_item indexed p =
     (let index = int (fst indexed); task = snd indexed; tid = pt_task_id task;
          old = map_of (mp_tasks p) tid;
          old_needs = filter (\<lambda>(k, q). mn_task_id q = tid) (mp_needs p);
          copied = (old \<noteq> None \<and> pt_needs task = [] \<and> old_needs \<noteq> []);
          effective = (if copied then task\<lparr>pt_needs := map (\<lambda>(k, q). mn_spec q) old_needs\<rparr> else task);
          p1 = p\<lparr>mp_needs := filter (\<lambda>(k, q). mn_task_id q \<noteq> tid) (mp_needs p),
                 mp_tasks := AList.update tid
                   \<lparr>mt_spec = effective, mt_status = TaskPending, mt_checkpoint = [], mt_result = None,
                    mt_attempts = (case old of None \<Rightarrow> 0 | Some t \<Rightarrow> mt_attempts t),
                    mt_planned_order = (case old of None \<Rightarrow> index | Some t \<Rightarrow> mt_planned_order t),
                    mt_next_retry_at = None\<rparr> (mp_tasks p)\<rparr>
      in case old of
           Some t \<Rightarrow>
             if is_active (mt_status t) then (Some (PlanValidationError (ReplaceActive tid)), p)
             else if copied then (Some AttributeError, p1)
             else (None, mem_add_needs tid (pt_needs task) p1)
         | None \<Rightarrow> (None, mem_add_needs tid (pt_needs task) p1))"

fun mem_apply_items :: "(nat \<times> PlannedTask) list \<Rightarrow> mem_plan \<Rightarrow> runtime_error option \<times> mem_plan" where
  "mem_apply_items [] p = (None, p)"
| "mem_apply_items (x # xs) p =
     (case mem_apply_item x p of
        (Some e, p1) \<Rightarrow> (Some e, p1)
      | (None, p1) \<Rightarrow> mem_apply_items xs p1)"

definition mem_finish_patch :: "PlanPatch \<Rightarrow> mem_plan \<Rightarrow> mem_plan" where
  "mem_finish_patch patch p =
     (let p1 = p\<lparr>mp_revision := mp_revision p + 1,
                 mp_goal := (case pp_goal patch of None \<Rightarrow> mp_goal p | Some g \<Rightarrow> str_or g (mp_goal p)),
                 mp_status := decision_status (pp_decision patch)\<rparr>;
          p2 = (if pp_decision patch = AskUser
                then p1\<lparr>mp_needs := dmap (\<lambda>_ q. if mn_status q = ReqPending
                            then q\<lparr>mn_status := ReqWaitingUser\<rparr> else q) (mp_needs p1)\<rparr>
                else p1)
      in case pp_answer_brief patch of
           None \<Rightarrow> p2 | Some brief \<Rightarrow> p2\<lparr>mp_answer_brief := Some brief\<rparr>)"

definition mem_apply_patch ::
    "uuid \<Rightarrow> PlanPatch \<Rightarrow> string \<Rightarrow> string option \<Rightarrow> mem_store \<Rightarrow> runtime_error option \<times> mem_store" where
  "mem_apply_patch plan_id patch reason invocation s =
     (case mem_get plan_id s of
        Inl e \<Rightarrow> (Some e, s)
      | Inr p \<Rightarrow>
          if pp_expected_revision patch \<noteq> mp_revision p
          then (Some (PlanConflictError (pp_expected_revision patch) (mp_revision p)), s)
          else if \<not> list_all PlannedTask_ok (map snd (mem_existing p patch))
          then (Some (PatchInvalid FieldConstraint), s)
          else
            case validate_task_graph (map snd (mem_merged p patch)) of
              Inl e \<Rightarrow> (Some e, s)
            | Inr _ \<Rightarrow>
                let p1 = p\<lparr>mp_tasks := filter (\<lambda>(k, t). k \<notin> set (pp_remove_task_ids patch)) (mp_tasks p)\<rparr>
                in (case mem_apply_items (enumerate 0 (pp_tasks patch)) p1 of
                      (Some e, p2) \<Rightarrow> (Some e, set_plan plan_id p2 s)
                    | (None, p2) \<Rightarrow>
                        let p3 = mem_finish_patch patch p2;
                            entry = \<lparr>mr_revision = mp_revision p3, mr_reason = reason,
                                     mr_invocation = invocation, mr_patch = patch\<rparr>;
                            s1 = set_plan plan_id (refresh_ready p3) s
                        in (None, s1\<lparr>ms_revisions :=
                              dmodify plan_id (\<lambda>es. es @ [entry]) (ms_revisions s1)\<rparr>)))"

definition mem_mark_failed :: "uuid \<Rightarrow> jobject \<Rightarrow> mem_store \<Rightarrow> runtime_error + mem_store" where
  "mem_mark_failed plan_id failure s =
     bindE (mem_get plan_id s) (\<lambda>p.
       Inr (set_plan plan_id (p\<lparr>mp_status := PlanFailed, mp_last_failure := Some (MarkedFailure failure)\<rparr>) s))"

section \<open>Claiming\<close>

definition mem_start :: "mem_task \<Rightarrow> mem_task" where
  "mem_start t = t\<lparr>mt_status := TaskRunning, mt_attempts := mt_attempts t + 1\<rparr>"

definition mem_ready_keys :: "mem_plan \<Rightarrow> (int \<times> string) list" where
  "mem_ready_keys p =
     map (\<lambda>(k, t). (mt_planned_order t, pt_task_id (mt_spec t)))
       (filter (\<lambda>(k, t). mt_status t = TaskReady) (mp_tasks p))"

definition mem_claim_one :: "uuid \<Rightarrow> string \<Rightarrow> mem_store \<times> mem_task list \<Rightarrow> mem_store \<times> mem_task list" where
  "mem_claim_one plan_id tid st =
     (let (s, claimed) = st in
      case mem_get plan_id s of
        Inl _ \<Rightarrow> st
      | Inr p \<Rightarrow>
          (case map_of (mp_tasks p) tid of
             None \<Rightarrow> st
           | Some t \<Rightarrow>
               let t' = mem_start t;
                   s1 = set_plan plan_id (p\<lparr>mp_tasks := AList.update tid t' (mp_tasks p)\<rparr>) s;
                   attempt = \<lparr>ma_attempt_number = mt_attempts t', ma_status = AttRunning, ma_error = None\<rparr>
               in (s1\<lparr>ms_attempts := AList.update tid
                        (dget_or [] (ms_attempts s1) tid @ [attempt]) (ms_attempts s1)\<rparr>,
                   claimed @ [t'])))"

definition mem_claim_ready_batch ::
    "uuid \<Rightarrow> int \<Rightarrow> mem_store \<Rightarrow> runtime_error + (mem_store \<times> mem_task list)" where
  "mem_claim_ready_batch plan_id limit s =
     bindE (mem_get plan_id s) (\<lambda>p.
       let p1 = refresh_ready p;
           ids = map snd (take (nat (max 1 limit)) (sort (mem_ready_keys p1)))
       in Inr (fold (mem_claim_one plan_id) ids (set_plan plan_id p1 s, [])))"

definition mem_claim_ready :: "uuid \<Rightarrow> mem_store \<Rightarrow> runtime_error + (mem_store \<times> mem_task option)" where
  "mem_claim_ready plan_id s =
     bindE (mem_claim_ready_batch plan_id 1 s)
       (\<lambda>(s', claimed). Inr (s', case claimed of [] \<Rightarrow> None | t # _ \<Rightarrow> Some t))"

section \<open>Results, failures and resumption\<close>

definition mem_refresh_plan_status :: "mem_plan \<Rightarrow> mem_plan" where
  "mem_refresh_plan_status p =
     (let statuses = map (\<lambda>(k, t). mt_status t) (mp_tasks p) in
      if statuses \<noteq> [] \<and> list_all is_terminal statuses
         \<and> TaskFailed \<notin> set statuses \<and> TaskUnfulfillable \<notin> set statuses
      then p\<lparr>mp_status := PlanCompleted\<rparr>
      else if TaskWaitingUser \<in> set statuses then p\<lparr>mp_status := PlanWaitingInput\<rparr>
      else p)"

definition mem_resolve_needs :: "string \<Rightarrow> jobject \<Rightarrow> mem_plan \<Rightarrow> mem_plan" where
  "mem_resolve_needs tid outputs p =
     p\<lparr>mp_needs := dmap (\<lambda>_ q.
         if mn_status q = ReqPending \<and> mn_task_id q \<noteq> tid
            \<and> tid \<in> set (case map_of (mp_tasks p) (mn_task_id q) of None \<Rightarrow> [] | Some c \<Rightarrow> pt_depends_on (mt_spec c))
         then (case map_of outputs (ns_key (mn_spec q)) of
                 None \<Rightarrow> q
               | Some v \<Rightarrow> q\<lparr>mn_status := ReqResolved, mn_resolved_value := v,
                             mn_resolver_task_id := Some tid\<rparr>)
         else q) (mp_needs p)\<rparr>"

definition mem_pending_needs :: "mem_plan \<Rightarrow> mem_task \<Rightarrow> string \<Rightarrow> NeedSpec list" where
  "mem_pending_needs p t tid =
     filter (\<lambda>n. ns_required n \<and>
        map_option mn_status (map_of (mp_needs p) (need_dict_key tid (ns_key n))) \<noteq> Some ReqResolved)
       (pt_needs (mt_spec t))"

definition mem_settle_task ::
    "string \<Rightarrow> AgentTaskResult \<Rightarrow> TaskStatus \<Rightarrow> mem_plan \<Rightarrow> mem_plan" where
  "mem_settle_task tid result st p =
     p\<lparr>mp_tasks := dmodify tid (\<lambda>t. t\<lparr>mt_result := Some result, mt_checkpoint := ar_checkpoint result,
                                      mt_status := st\<rparr>) (mp_tasks p)\<rparr>"

definition mem_apply_result ::
    "uuid \<Rightarrow> string \<Rightarrow> AgentTaskResult \<Rightarrow> mem_store \<Rightarrow> runtime_error + mem_store" where
  "mem_apply_result plan_id tid result s =
     bindE (mem_get plan_id s) (\<lambda>p.
       case map_of (mp_tasks p) tid of
         None \<Rightarrow> Inl (TaskNotFoundError tid)
       | Some t \<Rightarrow>
           if mt_status t \<noteq> TaskRunning then Inl (PlanValidationError (NotRunning tid))
           else if ar_outcome result = OutCompleted \<and> mem_pending_needs p t tid \<noteq> []
           then Inl (PlanValidationError (UnresolvedNeeds tid))
           else if ar_outcome result = OutCompleted
             \<and> missing_contract_outputs (pt_expected_outputs (mt_spec t)) result \<noteq> []
           then Inl (PlanValidationError (MissingOutputs tid))
           else
             let p1 = (case ar_outcome result of
                         OutCompleted \<Rightarrow> mem_resolve_needs tid (ar_outputs result)
                                          (mem_settle_task tid result TaskCompleted p)
                       | OutNeedsDependency \<Rightarrow> mem_add_needs tid (ar_needs result)
                                          (mem_settle_task tid result TaskWaitingDependency p)
                       | OutUnfulfillable \<Rightarrow> mem_settle_task tid result TaskUnfulfillable p)
             in Inr (set_plan plan_id (mem_refresh_plan_status (refresh_ready p1)) s))"

definition mem_fail_attempt :: "TaskAttemptFailure \<Rightarrow> mem_attempt list \<Rightarrow> mem_attempt list" where
  "mem_fail_attempt failure attempts =
     (if attempts = [] then []
      else butlast attempts @ [(last attempts)\<lparr>ma_status := (if tf_timed_out failure then AttTimedOut else AttFailed),
                                               ma_error := Some failure\<rparr>])"

definition mem_record_failure ::
    "uuid \<Rightarrow> string \<Rightarrow> TaskAttemptFailure \<Rightarrow> int option \<Rightarrow> int \<Rightarrow> mem_store \<Rightarrow> runtime_error + mem_store" where
  "mem_record_failure plan_id tid failure retry_at max_attempts s =
     bindE (mem_get plan_id s) (\<lambda>p.
       case map_of (mp_tasks p) tid of
         None \<Rightarrow> Inl (TaskNotFoundError tid)
       | Some t \<Rightarrow>
           let s1 = s\<lparr>ms_attempts := AList.update tid
                        (mem_fail_attempt failure (dget_or [] (ms_attempts s) tid)) (ms_attempts s)\<rparr>;
               p1 = (if tf_retryable failure \<and> mt_attempts t < max_attempts
                     then p\<lparr>mp_tasks := dmodify tid (\<lambda>t. t\<lparr>mt_status := TaskWaitingRetry,
                                              mt_next_retry_at := retry_at\<rparr>) (mp_tasks p)\<rparr>
                     else p\<lparr>mp_tasks := dmodify tid (\<lambda>t. t\<lparr>mt_status := TaskFailed\<rparr>) (mp_tasks p),
                            mp_last_failure := Some (AttemptFailure tid failure)\<rparr>)
           in Inr (set_plan plan_id (mem_refresh_plan_status p1) s1))"

definition mem_resume_task :: "uuid \<Rightarrow> string \<Rightarrow> mem_store \<Rightarrow> runtime_error + mem_store" where
  "mem_resume_task plan_id tid s =
     bindE (mem_get plan_id s) (\<lambda>p.
       case map_of (mp_tasks p) tid of
         None \<Rightarrow> Inl (TaskNotFoundError tid)
       | Some t \<Rightarrow>
           if \<not> is_waiting (mt_status t) then Inl (PlanValidationError (NotResumable tid))
           else Inr (set_plan plan_id (refresh_ready
                  (p\<lparr>mp_tasks := dmodify tid (\<lambda>t. t\<lparr>mt_status := TaskPending\<rparr>) (mp_tasks p),
                     mp_status := PlanActive\<rparr>)) s))"

definition mem_resolve_waiting_need ::
    "uuid \<Rightarrow> string \<Rightarrow> mem_store \<Rightarrow> runtime_error + (mem_store \<times> string option)" where
  "mem_resolve_waiting_need plan_id user_input s =
     (let value = strip user_input in
      if value = [] then Inr (s, None)
      else bindE (mem_get plan_id s) (\<lambda>p.
        case sort (map fst (filter (\<lambda>(k, q). mn_status q = ReqWaitingUser) (mp_needs p))) of
          [] \<Rightarrow> Inr (s, None)
        | key # _ \<Rightarrow>
            (case map_of (mp_needs p) key of
               None \<Rightarrow> Inr (s, None)
             | Some need \<Rightarrow>
                 let p1 = p\<lparr>mp_needs := dmodify key (\<lambda>q. q\<lparr>mn_status := ReqResolved,
                              mn_resolved_value := JStr value, mn_resolver_task_id := Some ''user''\<rparr>) (mp_needs p),
                            mp_tasks := dmodify (mn_task_id need)
                              (\<lambda>t. t\<lparr>mt_checkpoint := AList.update ''user_input'' (JStr value) (mt_checkpoint t),
                                    mt_status := (if mt_status t \<in> {TaskWaitingDependency, TaskWaitingUser}
                                                  then TaskPending else mt_status t)\<rparr>) (mp_tasks p),
                            mp_status := PlanActive\<rparr>
                 in Inr (set_plan plan_id (refresh_ready p1) s,
                         Some (str_or (ns_key (mn_spec need)) key)))))"

end
