(* ===== verification/Plan_Memory_Props.thy ===== *)
theory Plan_Memory_Props
  imports Plan_Memory Plan_Lifecycle
begin

text \<open>
  The in-memory store fulfils the store contract \<open>plan_lifecycle\<close> too. Its invariant says that
  tasks are stored under their own ids and that a task marked ready has completed dependencies.
\<close>

section \<open>Views of one plan\<close>

definition plan_status :: "mem_plan \<Rightarrow> string \<Rightarrow> TaskStatus option" where
  "plan_status p t = map_option mt_status (map_of (mp_tasks p) t)"

definition plan_deps :: "mem_plan \<Rightarrow> string \<Rightarrow> string list" where
  "plan_deps p t = (case map_of (mp_tasks p) t of None \<Rightarrow> [] | Some x \<Rightarrow> pt_depends_on (mt_spec x))"

definition ready_done :: "mem_plan \<Rightarrow> bool" where
  "ready_done p \<longleftrightarrow> (\<forall>t. plan_status p t = Some TaskReady \<longrightarrow>
      (\<forall>d\<in>set (plan_deps p t). plan_status p d = Some TaskCompleted))"

definition keyed :: "mem_plan \<Rightarrow> bool" where
  "keyed p \<longleftrightarrow> dict_ok (mp_tasks p) \<and> (\<forall>k x. map_of (mp_tasks p) k = Some x \<longrightarrow> pt_task_id (mt_spec x) = k)"

definition plan_ok :: "mem_plan \<Rightarrow> bool" where
  "plan_ok p \<longleftrightarrow> keyed p \<and> ready_done p"

lemma keyed_iff:
  "keyed p \<longleftrightarrow> dict_ok (mp_tasks p) \<and>
     (\<forall>k. map_option (\<lambda>x. pt_task_id (mt_spec x)) (map_of (mp_tasks p) k) \<in> {None, Some k})"
proof -
  have "(\<forall>x. o' = Some x \<longrightarrow> pt_task_id (mt_spec x) = k) \<longleftrightarrow>
      map_option (\<lambda>x. pt_task_id (mt_spec x)) o' \<in> {None, Some k}" for o' :: "mem_task option" and k
    by (cases o') auto
  then show ?thesis unfolding keyed_def by simp
qed

lemma plan_view_cong:
  "mp_tasks p' = mp_tasks p \<Longrightarrow> plan_status p' = plan_status p \<and> plan_deps p' = plan_deps p \<and> keyed p' = keyed p
     \<and> ready_done p' = ready_done p"
  by (simp add: plan_status_def plan_deps_def keyed_def ready_done_def fun_eq_iff)

lemma ready_doneD:
  "ready_done p \<Longrightarrow> plan_status p t = Some TaskReady \<Longrightarrow> d \<in> set (plan_deps p t) \<Longrightarrow> plan_status p d = Some TaskCompleted"
  by (simp add: ready_done_def)

section \<open>Refreshing\<close>

lemma mem_ready_iff:
  "map_of (mp_tasks p) t = Some x \<Longrightarrow> mem_ready p x \<Longrightarrow>
     plan_status p t \<in> {Some TaskPending, Some TaskReady} \<and> (\<forall>d\<in>set (plan_deps p t). plan_status p d = Some TaskCompleted)"
  by (auto simp: mem_ready_def task_is_ready_iff plan_status_def plan_deps_def)

lemma refresh_ready_effect:
  "plan_deps (refresh_ready p) = plan_deps p"
  "refreshed (plan_status p t) (plan_status (refresh_ready p) t)"
  "keyed (refresh_ready p) = keyed p"
proof -
  show "plan_deps (refresh_ready p) = plan_deps p"
    by (auto simp: plan_deps_def refresh_ready_def fun_eq_iff split: option.splits)
  show "refreshed (plan_status p t) (plan_status (refresh_ready p) t)"
    by (cases "map_of (mp_tasks p) t")
       (use mem_ready_iff [of p t] in \<open>force simp: plan_status_def refresh_ready_def refreshed_def\<close>)+
  show "keyed (refresh_ready p) = keyed p"
    unfolding keyed_iff by (simp add: refresh_ready_def option.map_comp comp_def if_distrib [of mt_spec])
qed

lemma refresh_ready_done:
  assumes "ready_done p"
  shows "ready_done (refresh_ready p)"
  unfolding ready_done_def refresh_ready_effect(1)
proof (intro allI impI ballI)
  fix t d assume r: "plan_status (refresh_ready p) t = Some TaskReady" and d: "d \<in> set (plan_deps p t)"
  have "plan_status p d = Some TaskCompleted"
  proof (cases "plan_status p t = Some TaskReady")
    case True
    then show ?thesis using assms d ready_doneD by blast
  next
    case False
    with r obtain x where "map_of (mp_tasks p) t = Some x" "mem_ready p x"
      by (auto simp: plan_status_def refresh_ready_def split: if_splits)
    then show ?thesis using d mem_ready_iff by blast
  qed
  then show "plan_status (refresh_ready p) d = Some TaskCompleted"
    using refresh_ready_effect(2) [of p d] by (auto simp: refreshed_def)
qed

lemma refresh_plan_status_tasks [simp]: "mp_tasks (mem_refresh_plan_status p) = mp_tasks p"
  by (simp add: mem_refresh_plan_status_def Let_def)

section \<open>Claiming\<close>

definition claim_task :: "string \<Rightarrow> mem_plan \<Rightarrow> mem_plan" where
  "claim_task tid p = p\<lparr>mp_tasks := (case map_of (mp_tasks p) tid of
      None \<Rightarrow> mp_tasks p | Some t \<Rightarrow> AList.update tid (mem_start t) (mp_tasks p))\<rparr>"

lemma mem_get_set_plan [simp]:
  "mem_get q (set_plan r p s) = (if q = r then Inr p else mem_get q s)"
  by (simp add: mem_get_def set_plan_def update_conv')

lemma mem_get_attempts [simp]: "mem_get q (s\<lparr>ms_attempts := v\<rparr>) = mem_get q s" "mem_get q (s\<lparr>ms_revisions := w\<rparr>) = mem_get q s"
  by (simp_all add: mem_get_def)

lemma mem_claim_one_plan:
  "mem_get pid s = Inr p \<Longrightarrow> mem_get pid (fst (mem_claim_one pid tid (s, cl))) = Inr (claim_task tid p)"
  by (auto simp: mem_claim_one_def claim_task_def Let_def split: option.splits)

lemma mem_claim_fold_plan:
  "mem_get pid s = Inr p \<Longrightarrow> mem_get pid (fst (fold (mem_claim_one pid) ids (s, cl))) = Inr (fold claim_task ids p)"
proof (induction ids arbitrary: s p cl)
  case (Cons i ids)
  obtain s1 cl1 where c: "mem_claim_one pid i (s, cl) = (s1, cl1)" by fastforce
  then have "mem_get pid s1 = Inr (claim_task i p)" using mem_claim_one_plan [OF Cons.prems, of i cl] by simp
  then show ?case using Cons.IH [of s1 "claim_task i p" cl1] c by simp
qed simp

lemma claim_task_view:
  "plan_deps (claim_task i p) = plan_deps p"
  "plan_status (claim_task i p) t = (if t = i \<and> plan_status p i \<noteq> None then Some TaskRunning else plan_status p t)"
  "keyed p \<Longrightarrow> keyed (claim_task i p)"
  by (auto simp: claim_task_def plan_deps_def plan_status_def keyed_def mem_start_def update_conv' fun_eq_iff
      split: option.splits)

lemma claim_tasks_view:
  "plan_deps (fold claim_task ids p) = plan_deps p"
  "plan_status (fold claim_task ids p) t = (if t \<in> set ids \<and> plan_status p t \<noteq> None then Some TaskRunning else plan_status p t)"
  "keyed p \<Longrightarrow> keyed (fold claim_task ids p)"
  by (induction ids arbitrary: p) (auto simp: claim_task_view)

definition claim_ids :: "int \<Rightarrow> mem_plan \<Rightarrow> string list" where
  "claim_ids limit p = map snd (take (nat (max 1 limit)) (sort (mem_ready_keys p)))"

lemma claim_ids_ready:
  assumes "keyed p" and "t \<in> set (claim_ids limit p)"
  shows "plan_status p t = Some TaskReady"
proof -
  have "t \<in> snd ` set (mem_ready_keys p)"
    using assms(2) unfolding claim_ids_def by (metis image_mono set_map set_sort set_take_subset subsetD)
  then obtain k x where "(k, x) \<in> set (mp_tasks p)" "mt_status x = TaskReady" "t = pt_task_id (mt_spec x)"
    by (auto simp: mem_ready_keys_def)
  moreover from this(1) have "map_of (mp_tasks p) k = Some x" using assms(1) by (simp add: keyed_def dict_ok_def)
  ultimately show ?thesis using assms(1) by (auto simp: keyed_def plan_status_def)
qed

lemma claim_effect:
  assumes ok: "plan_ok p" and "p' = fold claim_task (claim_ids limit (refresh_ready p)) (refresh_ready p)"
  shows "plan_ok p'" and "plan_deps p' = plan_deps p"
    and "refreshed (plan_status p t) (plan_status p' t)
       \<or> plan_status p t \<in> {Some TaskPending, Some TaskReady} \<and> plan_status p' t = Some TaskRunning
         \<and> (\<forall>d\<in>set (plan_deps p t). plan_status p d = Some TaskCompleted)"
proof -
  let ?r = "refresh_ready p"
  have k: "keyed ?r" and rd: "ready_done ?r"
    using ok refresh_ready_done by (auto simp: plan_ok_def refresh_ready_effect(3))
  note v = claim_tasks_view(1) [of "claim_ids limit ?r" ?r] claim_tasks_view(2) [of "claim_ids limit ?r" ?r]
    claim_tasks_view(3) [of ?r "claim_ids limit ?r"]
  have comp: "plan_status p' d = Some TaskCompleted" if "plan_status ?r d = Some TaskCompleted" for d
    using that claim_ids_ready [OF k, of d limit] unfolding assms(2) v(2) by auto
  have "ready_done p'"
    unfolding ready_done_def
  proof (intro allI impI ballI)
    fix t d assume "plan_status p' t = Some TaskReady" and "d \<in> set (plan_deps p' t)"
    then have "plan_status ?r t = Some TaskReady" "d \<in> set (plan_deps ?r t)"
      unfolding assms(2) v by (auto split: if_splits)
    then show "plan_status p' d = Some TaskCompleted" using rd comp ready_doneD by blast
  qed
  then show "plan_ok p'" using v(3) [OF k] by (simp add: plan_ok_def assms(2))
  show "plan_deps p' = plan_deps p" unfolding assms(2) v(1) refresh_ready_effect(1) ..
  show "refreshed (plan_status p t) (plan_status p' t)
       \<or> plan_status p t \<in> {Some TaskPending, Some TaskReady} \<and> plan_status p' t = Some TaskRunning
         \<and> (\<forall>d\<in>set (plan_deps p t). plan_status p d = Some TaskCompleted)"
  proof (cases "t \<in> set (claim_ids limit ?r)")
    case True
    then have ready: "plan_status ?r t = Some TaskReady" by (rule claim_ids_ready [OF k])
    then have "plan_status p t \<in> {Some TaskPending, Some TaskReady}"
      using refresh_ready_effect(2) [of p t] by (auto simp: refreshed_def)
    moreover have "plan_status p d = Some TaskCompleted" if "d \<in> set (plan_deps p t)" for d
      using ready_doneD [OF rd ready, of d] that refresh_ready_effect(2) [of p d]
      by (auto simp: refresh_ready_effect(1) refreshed_def)
    ultimately show ?thesis using True ready unfolding assms(2) v(2) by auto
  next
    case False
    then show ?thesis using refresh_ready_effect(2) [of p t] unfolding assms(2) v(2) by auto
  qed
qed

section \<open>Settling and resuming one task\<close>

lemma dmodify_cong: "map_of d k = Some x \<Longrightarrow> f x = g x \<Longrightarrow> dmodify k f d = dmodify k g d"
  by (induction d) auto

lemma step_one:
  assumes ok: "plan_ok p" and same: "\<And>t. t \<noteq> tid \<Longrightarrow> plan_status p1 t = plan_status p t"
    and deps: "plan_deps p1 = plan_deps p" and k: "keyed p1"
    and nc: "plan_status p tid \<noteq> Some TaskCompleted" and nr: "plan_status p1 tid \<noteq> Some TaskReady"
  shows "plan_ok p1" and "plan_ok (refresh_ready p1)" and "plan_deps (refresh_ready p1) = plan_deps p"
    and "t \<noteq> tid \<Longrightarrow> refreshed (plan_status p t) (plan_status (refresh_ready p1) t)"
proof -
  have comp: "plan_status p1 d = Some TaskCompleted" if "plan_status p d = Some TaskCompleted" for d
    using that same [of d] nc by (cases "d = tid") auto
  have "ready_done p1"
    unfolding ready_done_def deps
  proof (intro allI impI ballI)
    fix t d assume "plan_status p1 t = Some TaskReady" and d: "d \<in> set (plan_deps p t)"
    then have "plan_status p t = Some TaskReady" using same [of t] nr by (cases "t = tid") auto
    then show "plan_status p1 d = Some TaskCompleted"
      using ok d comp ready_doneD unfolding plan_ok_def by blast
  qed
  then show "plan_ok p1" "plan_ok (refresh_ready p1)"
    using k refresh_ready_done by (simp_all add: plan_ok_def refresh_ready_effect(3))
  show "plan_deps (refresh_ready p1) = plan_deps p" by (simp add: refresh_ready_effect(1) deps)
  show "refreshed (plan_status p t) (plan_status (refresh_ready p1) t)" if "t \<noteq> tid"
    using refresh_ready_effect(2) [of p1 t] same [OF that] by simp
qed

lemma dmodify_view:
  assumes "mp_tasks p1 = dmodify tid g (mp_tasks p)" and "\<And>x. mt_spec (g x) = mt_spec x"
  shows "t \<noteq> tid \<Longrightarrow> plan_status p1 t = plan_status p t" and "plan_deps p1 = plan_deps p"
    and "keyed p1 = keyed p" and "plan_status p1 tid = map_option (\<lambda>x. mt_status (g x)) (map_of (mp_tasks p) tid)"
proof -
  have comp: "map_option (\<lambda>x. f (mt_spec x)) (map_of (mp_tasks p1) k) = map_option (\<lambda>x. f (mt_spec x)) (map_of (mp_tasks p) k)"
    for f :: "PlannedTask \<Rightarrow> 'b" and k
    using assms by (simp add: option.map_comp comp_def)
  show "t \<noteq> tid \<Longrightarrow> plan_status p1 t = plan_status p t"
    "plan_status p1 tid = map_option (\<lambda>x. mt_status (g x)) (map_of (mp_tasks p) tid)"
    using assms by (simp_all add: plan_status_def option.map_comp comp_def)
  show "plan_deps p1 = plan_deps p"
    using assms by (auto simp: plan_deps_def fun_eq_iff split: option.splits)
  show "keyed p1 = keyed p"
    unfolding keyed_iff comp using assms(1) by simp
qed

lemma mem_settle_view:
  assumes ok: "plan_ok p" and run: "plan_status p tid = Some TaskRunning"
    and t1: "mp_tasks p1 = dmodify tid g (mp_tasks p)" and g: "\<And>x. mt_spec (g x) = mt_spec x"
    and ng: "\<And>x. mt_status (g x) \<noteq> TaskReady"
  shows "plan_ok p1 \<and> plan_ok (refresh_ready p1) \<and> plan_deps (refresh_ready p1) = plan_deps p \<and> plan_deps p1 = plan_deps p
    \<and> (\<forall>t. t \<noteq> tid \<longrightarrow> refreshed (plan_status p t) (plan_status (refresh_ready p1) t) \<and> plan_status p1 t = plan_status p t)"
proof -
  note v = dmodify_view [OF t1 g]
  have "keyed p1" using v(3) ok by (simp add: plan_ok_def)
  moreover have "plan_status p1 tid \<noteq> Some TaskReady" using v(4) ng by auto
  ultimately show ?thesis using step_one [OF ok v(1) v(2), of tid] run v(1,2) by auto
qed

definition mem_status :: "uuid \<Rightarrow> mem_store \<Rightarrow> string \<Rightarrow> TaskStatus option" where
  "mem_status pid s t = (case mem_get pid s of Inl _ \<Rightarrow> None | Inr p \<Rightarrow> plan_status p t)"

definition mem_deps :: "uuid \<Rightarrow> mem_store \<Rightarrow> string \<Rightarrow> string list" where
  "mem_deps pid s t = (case mem_get pid s of Inl _ \<Rightarrow> [] | Inr p \<Rightarrow> plan_deps p t)"

definition mem_ok :: "uuid \<Rightarrow> mem_store \<Rightarrow> bool" where
  "mem_ok pid s = (case mem_get pid s of Inl _ \<Rightarrow> True | Inr p \<Rightarrow> plan_ok p)"

definition mem_claim :: "uuid \<Rightarrow> mem_store \<Rightarrow> mem_store \<Rightarrow> bool" where
  "mem_claim pid s s' \<longleftrightarrow> (\<exists>limit claimed. mem_claim_ready_batch pid limit s = Inr (s', claimed))"

definition mem_settle :: "uuid \<Rightarrow> string \<Rightarrow> mem_store \<Rightarrow> mem_store \<Rightarrow> bool" where
  "mem_settle pid tid s s' \<longleftrightarrow>
     mem_status pid s tid = Some TaskRunning \<and>
     ((\<exists>result. mem_apply_result pid tid result s = Inr s')
      \<or> (\<exists>failure retry_at max_attempts. mem_record_failure pid tid failure retry_at max_attempts s = Inr s'))"

definition mem_revise :: "uuid \<Rightarrow> mem_store \<Rightarrow> mem_store \<Rightarrow> bool" where
  "mem_revise pid s s' \<longleftrightarrow>
     (\<exists>patch reason invocation. validate_patch patch = Inr patch
        \<and> mem_apply_patch pid patch reason invocation s = (None, s'))"

definition mem_resume :: "uuid \<Rightarrow> mem_store \<Rightarrow> mem_store \<Rightarrow> bool" where
  "mem_resume pid s s' \<longleftrightarrow>
     (\<exists>tid. mem_resume_task pid tid s = Inr s')
     \<or> (\<exists>user_input key. mem_resolve_waiting_need pid user_input s = Inr (s', key))
     \<or> (\<exists>failure. mem_mark_failed pid failure s = Inr s')"

lemma mem_settle_effect:
  assumes ok: "mem_ok pid s" and st: "mem_settle pid tid s s'"
  obtains p p' where "mem_get pid s = Inr p" and "mem_get pid s' = Inr p'" and "plan_ok p"
    and "plan_ok p'" and "plan_deps p' = plan_deps p"
    and "\<And>t. t \<noteq> tid \<Longrightarrow> refreshed (plan_status p t) (plan_status p' t)"
proof -
  obtain p where p: "mem_get pid s = Inr p" and run: "plan_status p tid = Some TaskRunning"
    using st by (auto simp: mem_settle_def mem_status_def split: sum.splits)
  have okp: "plan_ok p" using ok p by (simp add: mem_ok_def)
  obtain t where t: "map_of (mp_tasks p) tid = Some t" "mt_status t = TaskRunning"
    using run by (auto simp: plan_status_def)
  let ?set = "\<lambda>result st x. x\<lparr>mt_result := Some result, mt_checkpoint := ar_checkpoint result, mt_status := st\<rparr>"
  from st consider result where "mem_apply_result pid tid result s = Inr s'"
    | failure retry_at max_attempts where "mem_record_failure pid tid failure retry_at max_attempts s = Inr s'"
    by (auto simp: mem_settle_def)
  then show thesis
  proof cases
    case 1
    then obtain p1 st where s': "s' = set_plan pid (mem_refresh_plan_status (refresh_ready p1)) s"
      and p1: "mp_tasks p1 = dmodify tid (?set result st) (mp_tasks p)" and st: "st \<noteq> TaskReady"
      using p t by (cases "ar_outcome result")
        (auto simp: mem_apply_result_def Let_def mem_settle_task_def mem_resolve_needs_def mem_add_needs_def split: if_splits)
    note v = mem_settle_view [OF okp run p1]
    let ?q = "mem_refresh_plan_status (refresh_ready p1)"
    have view: "plan_status ?q = plan_status (refresh_ready p1)" "plan_deps ?q = plan_deps (refresh_ready p1)"
      "plan_ok ?q = plan_ok (refresh_ready p1)"
      using plan_view_cong [of ?q "refresh_ready p1"] by (simp_all add: plan_ok_def)
    show thesis by (rule that [OF p, of ?q]) (use v st okp view s' in auto)
  next
    case 2
    then obtain p1 g s1 where s': "s' = set_plan pid (mem_refresh_plan_status p1) s1"
      and p1: "mp_tasks p1 = dmodify tid g (mp_tasks p)" and g: "\<And>x. mt_spec (g x) = mt_spec x"
      and ng: "\<And>x. mt_status (g x) \<noteq> TaskReady"
      using p t by (auto simp: mem_record_failure_def Let_def split: if_splits)
    note v = mem_settle_view [OF okp run p1 g ng]
    let ?q = "mem_refresh_plan_status p1"
    have view: "plan_status ?q = plan_status p1" "plan_deps ?q = plan_deps p1" "plan_ok ?q = plan_ok p1"
      using plan_view_cong [of ?q p1] by (simp_all add: plan_ok_def)
    show thesis by (rule that [OF p, of ?q]) (use v okp view s' in auto)
  qed
qed

lemma mem_resume_effect:
  assumes ok: "mem_ok pid s" and st: "mem_resume pid s s'"
  shows "mem_ok pid s' \<and> mem_deps pid s' t = mem_deps pid s t \<and>
    (refreshed (mem_status pid s t) (mem_status pid s' t)
     \<or> \<not> active_status (mem_status pid s t) \<and> \<not> active_status (mem_status pid s' t))"
proof -
  have wake: ?thesis
    if p: "mem_get pid s = Inr p" and s': "s' = set_plan pid (refresh_ready p1) s"
      and p1: "mp_tasks p1 = dmodify tid g (mp_tasks p)" and g: "\<And>x. mt_spec (g x) = mt_spec x"
      and gs: "\<And>x. mt_status (g x) = (if is_waiting (mt_status x) \<and> w x then TaskPending else mt_status x)" for p p1 tid g w
  proof -
    have okp: "plan_ok p" using ok p by (simp add: mem_ok_def)
    note v = dmodify_view [OF p1 g]
    have k: "keyed p1" using v(3) okp by (simp add: plan_ok_def)
    have at: "plan_status p1 tid = plan_status p tid
        \<or> plan_status p1 tid = Some TaskPending \<and> \<not> active_status (plan_status p tid)"
      using v(4) gs by (cases "map_of (mp_tasks p) tid") (auto simp: plan_status_def active_status_def is_waiting_def)
    show ?thesis
    proof (cases "plan_status p1 tid = plan_status p tid")
      case True
      then have same: "plan_status p1 = plan_status p" using v(1) by (metis ext)
      have "plan_ok p1" using okp k same v(2) by (simp add: plan_ok_def ready_done_def)
      then have "plan_ok (refresh_ready p1)"
        using refresh_ready_done by (simp add: plan_ok_def refresh_ready_effect(3))
      then show ?thesis
        using refresh_ready_effect(2) [of p1 t] p
        by (simp add: s' mem_ok_def mem_deps_def mem_status_def refresh_ready_effect(1) same v(2))
    next
      case False
      with at have P: "plan_status p1 tid = Some TaskPending" "\<not> active_status (plan_status p tid)" by auto
      then have "plan_status p tid \<noteq> Some TaskCompleted" by (auto simp: active_status_def)
      note o = step_one [OF okp v(1) v(2) k this]
      have "\<not> active_status (plan_status (refresh_ready p1) tid)"
        using refresh_ready_effect(2) [of p1 tid] P(1) by (auto simp: refreshed_def active_status_def)
      then show ?thesis
        using o P p by (cases "t = tid") (auto simp: s' mem_ok_def mem_deps_def mem_status_def)
    qed
  qed
  from st consider (resume) tid where "mem_resume_task pid tid s = Inr s'"
    | (need) user_input key where "mem_resolve_waiting_need pid user_input s = Inr (s', key)"
    | (failed) failure where "mem_mark_failed pid failure s = Inr s'"
    by (auto simp: mem_resume_def)
  then show ?thesis
  proof cases
    case resume
    then obtain p x where p: "mem_get pid s = Inr p" and x: "map_of (mp_tasks p) tid = Some x" "is_waiting (mt_status x)"
      and s': "s' = set_plan pid (refresh_ready (p\<lparr>mp_tasks := dmodify tid (\<lambda>t. t\<lparr>mt_status := TaskPending\<rparr>) (mp_tasks p),
                     mp_status := PlanActive\<rparr>)) s"
      by (auto simp: mem_resume_task_def accept_simps split: option.splits if_splits)
    have "dmodify tid (\<lambda>t. t\<lparr>mt_status := TaskPending\<rparr>) (mp_tasks p) =
        dmodify tid (\<lambda>t. if is_waiting (mt_status t) then t\<lparr>mt_status := TaskPending\<rparr> else t) (mp_tasks p)"
      using x by (intro dmodify_cong [of _ _ x]) simp_all
    then show ?thesis
      by (intro wake [OF p s', of tid "\<lambda>t. if is_waiting (mt_status t) then t\<lparr>mt_status := TaskPending\<rparr> else t" "\<lambda>_. True"]) auto
  next
    case need
    show ?thesis
    proof (cases "s' = s")
      case True
      then show ?thesis using ok by simp
    next
      case False
      have v: "strip user_input \<noteq> []"
        using False need by (auto simp: mem_resolve_waiting_need_def)
      obtain p where p: "mem_get pid s = Inr p"
        using need v by (cases "mem_get pid s") (auto simp: mem_resolve_waiting_need_def)
      obtain k ks where ks: "sort (map fst (filter (\<lambda>(k, q). mn_status q = ReqWaitingUser) (mp_needs p))) = k # ks"
        using need v p False
        by (cases "sort (map fst (filter (\<lambda>(k, q). mn_status q = ReqWaitingUser) (mp_needs p)))")
           (auto simp: mem_resolve_waiting_need_def)
      obtain q where q: "map_of (mp_needs p) k = Some q"
        using need v p ks False by (cases "map_of (mp_needs p) k") (auto simp: mem_resolve_waiting_need_def)
      have s': "s' = set_plan pid (refresh_ready (p\<lparr>mp_needs := dmodify k (\<lambda>q. q\<lparr>mn_status := ReqResolved,
                              mn_resolved_value := JStr (strip user_input), mn_resolver_task_id := Some ''user''\<rparr>) (mp_needs p),
                            mp_tasks := dmodify (mn_task_id q)
                              (\<lambda>t. t\<lparr>mt_checkpoint := AList.update ''user_input'' (JStr (strip user_input)) (mt_checkpoint t),
                                    mt_status := (if mt_status t \<in> {TaskWaitingDependency, TaskWaitingUser}
                                                  then TaskPending else mt_status t)\<rparr>) (mp_tasks p),
                            mp_status := PlanActive\<rparr>)) s"
        using need v p ks q by (auto simp: mem_resolve_waiting_need_def Let_def)
      show ?thesis
        by (rule wake [OF p s', where w = "\<lambda>x. mt_status x \<noteq> TaskWaitingRetry" and tid = "mn_task_id q"])
           (simp, auto simp: is_waiting_def)
    qed
  next
    case failed
    then obtain p where p: "mem_get pid s = Inr p"
      and s': "s' = set_plan pid (p\<lparr>mp_status := PlanFailed, mp_last_failure := Some (MarkedFailure failure)\<rparr>) s"
      by (auto simp: mem_mark_failed_def accept_simps)
    show ?thesis
      using plan_view_cong [of "p\<lparr>mp_status := PlanFailed, mp_last_failure := Some (MarkedFailure failure)\<rparr>" p] ok p
      by (simp add: s' mem_ok_def mem_deps_def mem_status_def plan_ok_def)
  qed
qed

section \<open>Revising\<close>

lemma mem_apply_item_effect:
  assumes "mem_apply_item (i, x) p = (None, p')" and k: "keyed p"
  shows "keyed p'" and "\<not> active_status (plan_status p (pt_task_id x))"
    and "plan_status p' t = (if t = pt_task_id x then Some TaskPending else plan_status p t)"
    and "plan_deps p' t = (if t = pt_task_id x then pt_depends_on x else plan_deps p t)"
  using assms
  by (auto simp: mem_apply_item_def Let_def plan_status_def plan_deps_def keyed_def mem_add_needs_def
      active_status_def is_active_def update_conv' split: option.splits if_splits)

lemma mem_apply_items_effect:
  "mem_apply_items ixs p = (None, p') \<Longrightarrow> keyed p \<Longrightarrow> distinct (map (\<lambda>x. pt_task_id (snd x)) ixs) \<Longrightarrow>
     keyed p'
     \<and> (\<forall>x\<in>set ixs. \<not> active_status (plan_status p (pt_task_id (snd x))) \<and> plan_status p' (pt_task_id (snd x)) = Some TaskPending)
     \<and> (\<forall>t. t \<notin> (\<lambda>x. pt_task_id (snd x)) ` set ixs \<longrightarrow> plan_status p' t = plan_status p t \<and> plan_deps p' t = plan_deps p t)"
proof (induction ixs arbitrary: p)
  case (Cons x ixs)
  obtain i y where x: "x = (i, y)" by fastforce
  from Cons.prems(1) x obtain p1 where p1: "mem_apply_item (i, y) p = (None, p1)" and rest: "mem_apply_items ixs p1 = (None, p')"
    by (auto split: prod.splits option.splits)
  note e = mem_apply_item_effect [OF p1 Cons.prems(2)]
  have "distinct (map (\<lambda>x. pt_task_id (snd x)) ixs)" and nin: "pt_task_id y \<notin> (\<lambda>x. pt_task_id (snd x)) ` set ixs"
    using Cons.prems(3) x by auto
  note IH = Cons.IH [OF rest e(1) this(1)]
  have same: "plan_status p1 (pt_task_id (snd z)) = plan_status p (pt_task_id (snd z))" if "z \<in> set ixs" for z
    using e(3) that nin by (auto simp: image_iff)
  have "plan_status p' (pt_task_id y) = Some TaskPending"
    using IH nin e(3) [of "pt_task_id y"] by auto
  then show ?case
    using IH e(2) same x e(3,4) by (auto simp: image_iff)
qed simp

lemma mem_existing_keyed:
  assumes "keyed p"
  shows "dict_ok (mem_existing p patch)" and "\<And>k t. (k, t) \<in> set (mem_existing p patch) \<Longrightarrow> k = pt_task_id t"
    and "map_of (mem_existing p patch) t = (if t \<in> set (pp_remove_task_ids patch) then None
           else map_option mt_spec (map_of (mp_tasks p) t))"
proof -
  have "dkeys (mem_existing p patch) = filter (\<lambda>k. k \<notin> set (pp_remove_task_ids patch)) (dkeys (mp_tasks p))"
    by (auto simp: mem_existing_def filter_map comp_def split_def)
  then show "dict_ok (mem_existing p patch)" using assms by (simp add: dict_ok_def keyed_def)
  show "k = pt_task_id t" if m: "(k, t) \<in> set (mem_existing p patch)" for k t
  proof -
    obtain x where "(k, x) \<in> set (mp_tasks p)" "t = mt_spec x" using m by (auto simp: mem_existing_def)
    then show ?thesis using assms by (auto simp: keyed_def dict_ok_def)
  qed
  have "map_of (map (\<lambda>(k, t). (k, mt_spec t)) (filter (\<lambda>(k, t). k \<notin> R) d)) t =
      (if t \<in> R then None else map_option mt_spec (map_of d t))" for R and d :: "(string, mem_task) dict"
    by (induction d) auto
  then show "map_of (mem_existing p patch) t = (if t \<in> set (pp_remove_task_ids patch) then None
           else map_option mt_spec (map_of (mp_tasks p) t))"
    by (simp add: mem_existing_def)
qed

lemma dict_ok_fold_update:
  "dict_ok base \<Longrightarrow> dict_ok (fold (\<lambda>item :: PlannedTask. AList.update (pt_task_id item) item) items base)"
  by (induction items arbitrary: base) auto

text \<open>A task that a patch neither emits nor removes keeps only dependencies that stay in the plan.\<close>

lemma mem_merged_closed:
  assumes k: "keyed p" and d: "distinct (map pt_task_id (pp_tasks patch))"
    and g: "validate_task_graph (map snd (mem_merged p patch)) = Inr ()"
    and t: "t \<notin> pt_task_id ` set (pp_tasks patch)" "t \<notin> set (pp_remove_task_ids patch)"
    and x: "map_of (mp_tasks p) t = Some x" and dep: "e \<in> set (pt_depends_on (mt_spec x))"
  shows "e \<in> pt_task_id ` set (pp_tasks patch) \<or> e \<notin> set (pp_remove_task_ids patch)"
proof -
  note ex = mem_existing_keyed [OF k]
  let ?m = "mem_merged p patch"
  have ok: "dict_ok ?m" unfolding mem_merged_def by (rule dict_ok_fold_update [OF ex(1)])
  have keyed: "kk = pt_task_id y" if "(kk, y) \<in> set ?m" for kk y
    using that set_fold_update_items [of "pp_tasks patch" "mem_existing p patch"] ex(2) unfolding mem_merged_def by blast
  have m: "map_of ?m u = (case find (\<lambda>item. pt_task_id item = u) (pp_tasks patch) of Some item \<Rightarrow> Some item
      | None \<Rightarrow> map_of (mem_existing p patch) u)" for u
    unfolding mem_merged_def by (rule map_of_fold_update_items [OF d])
  have gk: "map_of (graph_of (map snd ?m)) u = map_option pt_depends_on (map_of ?m u)" for u
    using ok keyed by (rule graph_of_keyed)
  have "find (\<lambda>item. pt_task_id item = t) (pp_tasks patch) = None" using t(1) by (auto simp: find_None_iff)
  then have "map_of (graph_of (map snd ?m)) t = Some (pt_depends_on (mt_spec x))"
    using t(2) x by (simp add: gk m ex(3))
  then have "(t, pt_depends_on (mt_spec x)) \<in> set (graph_of (map snd ?m))" by (rule map_of_SomeD)
  then have "e \<in> pt_task_id ` set (map snd ?m)"
    using g dep unfolding validate_task_graph_accepts by blast
  then obtain kk y where "(kk, y) \<in> set ?m" "e = pt_task_id y" by auto
  then have "map_of ?m e = Some y" using keyed ok by (auto simp: dict_ok_def)
  then show ?thesis
    using m [of e] ex(3) [of patch e] by (auto split: option.splits if_splits dest: find_SomeD intro: rev_image_eqI)
qed

lemma mem_revise_plan:
  assumes ok: "mem_ok pid s" and r: "mem_revise pid s s'"
  obtains p p2 p' patch where "mem_get pid s = Inr p" and "mem_get pid s' = Inr p'" and "plan_ok p"
    and "p' = refresh_ready p2" and "keyed p2"
    and "distinct (map pt_task_id (pp_tasks patch))"
    and "set (pp_remove_task_ids patch) \<inter> pt_task_id ` set (pp_tasks patch) = {}"
    and "validate_task_graph (map snd (mem_merged p patch)) = Inr ()"
    and "\<forall>t. t \<in> pt_task_id ` set (pp_tasks patch) \<longrightarrow> \<not> active_status (plan_status p t) \<and> plan_status p2 t = Some TaskPending"
    and "\<forall>t. t \<notin> pt_task_id ` set (pp_tasks patch) \<longrightarrow> t \<in> set (pp_remove_task_ids patch) \<longrightarrow> plan_status p2 t = None"
    and "\<forall>t. t \<notin> pt_task_id ` set (pp_tasks patch) \<longrightarrow> t \<notin> set (pp_remove_task_ids patch) \<longrightarrow>
           plan_status p2 t = plan_status p t \<and> plan_deps p2 t = plan_deps p t"
proof -
  obtain patch reason invocation where v: "validate_patch patch = Inr patch"
    and a: "mem_apply_patch pid patch reason invocation s = (None, s')"
    using r by (auto simp: mem_revise_def)
  have d: "distinct (map pt_task_id (pp_tasks patch))"
    and disj: "set (pp_remove_task_ids patch) \<inter> pt_task_id ` set (pp_tasks patch) = {}"
    using v by (auto simp: validate_patch_accepts_iff patch_ok_def)
  obtain p where p: "mem_get pid s = Inr p" using a by (auto simp: mem_apply_patch_def split: sum.splits)
  have okp: "plan_ok p" using ok p by (simp add: mem_ok_def)
  let ?p1 = "p\<lparr>mp_tasks := filter (\<lambda>(k, t). k \<notin> set (pp_remove_task_ids patch)) (mp_tasks p)\<rparr>"
  obtain q where g: "validate_task_graph (map snd (mem_merged p patch)) = Inr ()"
    and items: "mem_apply_items (enumerate 0 (pp_tasks patch)) ?p1 = (None, q)"
    and s': "mem_get pid s' = Inr (refresh_ready (mem_finish_patch patch q))"
    using a p by (auto simp: mem_apply_patch_def Let_def split: if_splits sum.splits prod.splits option.splits)
  have tasks: "mp_tasks (mem_finish_patch patch q) = mp_tasks q"
    by (simp add: mem_finish_patch_def Let_def split: option.splits)
  have flt: "map_of (mp_tasks ?p1) t = (if t \<in> set (pp_remove_task_ids patch) then None else map_of (mp_tasks p) t)" for t
    by (simp add: map_of_filter_keys)
  have k1: "keyed ?p1"
    using okp unfolding plan_ok_def keyed_def flt by (auto simp: dict_ok_def distinct_map_filter split_def)
  have ids: "(\<lambda>x. pt_task_id (snd x)) ` set (enumerate n ts) = pt_task_id ` set ts"
    "map (\<lambda>x. pt_task_id (snd x)) (enumerate n ts) = map pt_task_id ts" for n and ts :: "PlannedTask list"
    by (metis (no_types) image_image image_set map_snd_enumerate) (induction ts arbitrary: n, simp_all)
  note e = mem_apply_items_effect [OF items k1, unfolded ids, OF d]
  note c = plan_view_cong [OF tasks]
  have st1: "plan_status ?p1 t = (if t \<in> set (pp_remove_task_ids patch) then None else plan_status p t)" for t
    unfolding plan_status_def flt by simp
  have dp1: "t \<notin> set (pp_remove_task_ids patch) \<Longrightarrow> plan_deps ?p1 t = plan_deps p t" for t
    unfolding plan_deps_def flt by simp
  show thesis
  proof (rule that [OF p s' okp refl _ d disj g]; (intro allI impI)?)
    show "keyed (mem_finish_patch patch q)" using c e by simp
    fix t
    show "\<not> active_status (plan_status p t) \<and> plan_status (mem_finish_patch patch q) t = Some TaskPending"
      if "t \<in> pt_task_id ` set (pp_tasks patch)"
    proof -
      have "t \<in> (\<lambda>x. pt_task_id (snd x)) ` set (enumerate 0 (pp_tasks patch))" using that unfolding ids .
      then obtain x where x: "x \<in> set (enumerate 0 (pp_tasks patch))" "t = pt_task_id (snd x)" by blast
      then have "\<not> active_status (plan_status ?p1 t) \<and> plan_status q t = Some TaskPending" using e by blast
      moreover have "t \<notin> set (pp_remove_task_ids patch)" using that disj by blast
      ultimately show ?thesis using c st1 by simp
    qed
    show "plan_status (mem_finish_patch patch q) t = None"
      if "t \<notin> pt_task_id ` set (pp_tasks patch)" "t \<in> set (pp_remove_task_ids patch)"
      using e that c st1 by simp
    show "plan_status (mem_finish_patch patch q) t = plan_status p t \<and> plan_deps (mem_finish_patch patch q) t = plan_deps p t"
      if "t \<notin> pt_task_id ` set (pp_tasks patch)" "t \<notin> set (pp_remove_task_ids patch)"
      using e that c st1 dp1 by simp
  qed
qed

lemma mem_revise_effect:
  assumes ok: "mem_ok pid s" and r: "mem_revise pid s s'"
  shows "mem_ok pid s'"
    and "active_status (mem_status pid s' t) \<Longrightarrow> mem_status pid s' t = mem_status pid s t
      \<and> mem_deps pid s' t = mem_deps pid s t
      \<and> (\<forall>d\<in>set (mem_deps pid s t). mem_status pid s d = Some TaskCompleted \<longrightarrow> mem_status pid s' d = Some TaskCompleted)"
proof -
  obtain p p2 p' patch where p: "mem_get pid s = Inr p" and p': "mem_get pid s' = Inr p'" and okp: "plan_ok p"
    and ref: "p' = refresh_ready p2" and k2: "keyed p2"
    and d: "distinct (map pt_task_id (pp_tasks patch))"
    and disj: "set (pp_remove_task_ids patch) \<inter> pt_task_id ` set (pp_tasks patch) = {}"
    and g: "validate_task_graph (map snd (mem_merged p patch)) = Inr ()"
    and em0: "\<forall>t. t \<in> pt_task_id ` set (pp_tasks patch) \<longrightarrow> \<not> active_status (plan_status p t) \<and> plan_status p2 t = Some TaskPending"
    and gone0: "\<forall>t. t \<notin> pt_task_id ` set (pp_tasks patch) \<longrightarrow> t \<in> set (pp_remove_task_ids patch) \<longrightarrow> plan_status p2 t = None"
    and keep0: "\<forall>t. t \<notin> pt_task_id ` set (pp_tasks patch) \<longrightarrow> t \<notin> set (pp_remove_task_ids patch) \<longrightarrow>
           plan_status p2 t = plan_status p t \<and> plan_deps p2 t = plan_deps p t"
    using ok r by (rule mem_revise_plan)
  note em = em0 [rule_format] and gone = gone0 [rule_format] and keep = keep0 [rule_format]
  have kept: "plan_status p2 t = plan_status p t \<and> plan_deps p2 t = plan_deps p t
      \<and> (\<forall>e\<in>set (plan_deps p t). plan_status p e = Some TaskCompleted \<longrightarrow> plan_status p2 e = Some TaskCompleted)"
    if st: "plan_status p2 t \<noteq> None" "plan_status p2 t \<noteq> Some TaskPending" for t
  proof -
    have ne: "t \<notin> pt_task_id ` set (pp_tasks patch)" using st em [of t] by blast
    moreover have "t \<notin> set (pp_remove_task_ids patch)" using st(1) gone [OF ne] by auto
    ultimately have t: "t \<notin> pt_task_id ` set (pp_tasks patch)" "t \<notin> set (pp_remove_task_ids patch)" .
    obtain x where x: "map_of (mp_tasks p) t = Some x"
      using st(1) keep [OF t] by (cases "map_of (mp_tasks p) t") (auto simp: plan_status_def)
    have "plan_status p2 e = Some TaskCompleted"
      if e: "e \<in> set (plan_deps p t)" "plan_status p e = Some TaskCompleted" for e
    proof -
      have ne: "e \<notin> pt_task_id ` set (pp_tasks patch)" using em [of e] e(2) by (auto simp: active_status_def)
      have "e \<in> set (pt_depends_on (mt_spec x))" using e(1) x by (simp add: plan_deps_def)
      then have "e \<notin> set (pp_remove_task_ids patch)"
        using mem_merged_closed [OF _ d g t x] okp ne by (auto simp: plan_ok_def)
      then show ?thesis using keep [OF ne] e(2) by simp
    qed
    then show ?thesis using keep [OF t] by blast
  qed
  have "ready_done p2"
    unfolding ready_done_def
  proof (intro allI impI ballI)
    fix t e assume a: "plan_status p2 t = Some TaskReady" "e \<in> set (plan_deps p2 t)"
    then show "plan_status p2 e = Some TaskCompleted"
      using kept [of t] okp ready_doneD [of p t e] by (auto simp: plan_ok_def)
  qed
  then have "plan_ok p'" using k2 refresh_ready_done by (simp add: ref plan_ok_def refresh_ready_effect(3))
  then show "mem_ok pid s'" using p' by (simp add: mem_ok_def)
  assume "active_status (mem_status pid s' t)"
  then have a: "active_status (plan_status p' t)" using p' by (simp add: mem_status_def)
  then have st: "plan_status p2 t = plan_status p' t"
    using refresh_ready_effect(2) [of p2 t] by (auto simp: ref refreshed_def active_status_def)
  have "plan_status p' e = Some TaskCompleted" if "plan_status p2 e = Some TaskCompleted" for e
    using that refresh_ready_effect(2) [of p2 e] by (auto simp: ref refreshed_def)
  moreover have "plan_status p2 t \<noteq> None" "plan_status p2 t \<noteq> Some TaskPending"
    using a st by (auto simp: active_status_def)
  note kept [OF this]
  ultimately show "mem_status pid s' t = mem_status pid s t \<and> mem_deps pid s' t = mem_deps pid s t
      \<and> (\<forall>d\<in>set (mem_deps pid s t). mem_status pid s d = Some TaskCompleted \<longrightarrow> mem_status pid s' d = Some TaskCompleted)"
    using p p' st by (simp add: mem_status_def mem_deps_def ref refresh_ready_effect(1))
qed

lemma mem_claim_effect:
  assumes ok: "mem_ok pid s" and c: "mem_claim pid s s'"
  obtains p p' where "mem_get pid s = Inr p" and "mem_get pid s' = Inr p'" and "plan_ok p" and "plan_ok p'"
    and "plan_deps p' = plan_deps p"
    and "\<And>t. refreshed (plan_status p t) (plan_status p' t)
       \<or> plan_status p t \<in> {Some TaskPending, Some TaskReady} \<and> plan_status p' t = Some TaskRunning
         \<and> (\<forall>d\<in>set (plan_deps p t). plan_status p d = Some TaskCompleted)"
proof -
  obtain limit claimed p where p: "mem_get pid s = Inr p"
    and f: "fold (mem_claim_one pid) (claim_ids limit (refresh_ready p)) (set_plan pid (refresh_ready p) s, []) = (s', claimed)"
    using c by (auto simp: mem_claim_def mem_claim_ready_batch_def accept_simps Let_def claim_ids_def)
  have s': "s' = fst (fold (mem_claim_one pid) (claim_ids limit (refresh_ready p)) (set_plan pid (refresh_ready p) s, []))"
    using f by simp
  have okp: "plan_ok p" using ok p by (simp add: mem_ok_def)
  have p': "mem_get pid s' = Inr (fold claim_task (claim_ids limit (refresh_ready p)) (refresh_ready p))"
    unfolding s' by (rule mem_claim_fold_plan) simp
  show thesis by (rule that [OF p p' okp]) (use claim_effect [OF okp refl] in blast)+
qed

section \<open>The in-memory store fulfils the contract\<close>

interpretation mem: plan_lifecycle "mem_status pid" "mem_deps pid" "mem_ok pid"
  "mem_claim pid" "mem_settle pid" "mem_revise pid" "mem_resume pid" for pid
proof (unfold_locales, goal_cases)
  case (1 s s')
  then show ?case by (rule mem_claim_effect) (simp add: mem_ok_def)
next
  case (2 s tid s')
  then show ?case by (rule mem_settle_effect) (simp add: mem_ok_def)
next
  case (3 s s')
  then show ?case by (rule mem_revise_effect)
next
  case (4 s s')
  then show ?case using mem_resume_effect by blast
next
  case (5 s s' t)
  then show ?case by (rule mem_claim_effect) (simp add: mem_deps_def)
next
  case (6 s tid s' t)
  then show ?case by (rule mem_settle_effect) (simp add: mem_deps_def)
next
  case (7 s s' t)
  then show ?case using mem_resume_effect by blast
next
  case (8 s s' t)
  then show ?case by (rule mem_claim_effect) (simp add: mem_status_def mem_deps_def)
next
  case (9 s tid s')
  then show ?case by (simp add: mem_settle_def)
next
  case (10 s tid s' t)
  from 10(1,2) show ?case by (rule mem_settle_effect) (use 10(3) in \<open>simp add: mem_status_def\<close>)
next
  case (11 s s' t)
  then show ?case by (intro mem_revise_effect(2))
next
  case (12 s s' t)
  then show ?case using mem_resume_effect by blast
qed

inductive mem_reach :: "uuid \<Rightarrow> mem_store \<Rightarrow> bool" for pid where
  created: "s' = mem_create pid goal run tenant chat s \<Longrightarrow> mem_reach pid s'"
| claimed: "mem_reach pid s \<Longrightarrow> mem_claim pid s s' \<Longrightarrow> mem_reach pid s'"
| settled: "mem_reach pid s \<Longrightarrow> mem_settle pid tid s s' \<Longrightarrow> mem_reach pid s'"
| revised: "mem_reach pid s \<Longrightarrow> mem_revise pid s s' \<Longrightarrow> mem_reach pid s'"
| resumed: "mem_reach pid s \<Longrightarrow> mem_resume pid s s' \<Longrightarrow> mem_reach pid s'"

lemma mem_created:
  "s' = mem_create pid goal run tenant chat s \<Longrightarrow> mem_ok pid s' \<and> mem.deps_done pid s'"
  unfolding mem.deps_done_def
  by (simp add: mem_create_def mem_ok_def mem_status_def mem_get_def plan_ok_def keyed_def ready_done_def
      plan_status_def active_status_def update_conv')

lemma mem_reach_ok: "mem_reach pid s \<Longrightarrow> mem_ok pid s \<and> mem.deps_done pid s"
proof (induction rule: mem_reach.induct)
  case (created s' goal run tenant chat s)
  then show ?case by (rule mem_created)
qed (auto intro: mem.steps_ok mem.steps_deps_done)


definition demo_mem :: "nat \<Rightarrow> mem_store" where
  "demo_mem n =
     (let s0 = mem_create 0 ''goal'' 7 1 None \<lparr>ms_plans = [], ms_revisions = [], ms_attempts = []\<rparr>;
          s1 = snd (mem_apply_patch 0 (demo_patch 0) ''initial'' None s0);
          s2 = fst (projr (mem_claim_ready_batch 0 1 s1));
          s3 = projr (mem_apply_result 0 ''a'' demo_result s2);
          s4 = fst (projr (mem_claim_ready_batch 0 1 s3))
      in [s0, s1, s2, s3, s4] ! n)"

lemma demo_mem_reach: "mem_reach 0 (demo_mem 4)"
proof -
  have s0: "mem_reach 0 (demo_mem 0)"
    by (rule mem_reach.created [of _ _ "''goal''" 7 1 None]) (simp add: demo_mem_def Let_def)
  have "mem_apply_patch 0 (demo_patch 0) ''initial'' None (demo_mem 0) = (None, demo_mem 1)" by code_simp
  then have "mem_revise 0 (demo_mem 0) (demo_mem 1)" unfolding mem_revise_def using demo_patch_valid by blast
  with s0 have s1: "mem_reach 0 (demo_mem 1)" by (rule mem_reach.revised)
  have "(case mem_claim_ready_batch 0 1 (demo_mem 1) of Inr (s, _) \<Rightarrow> s = demo_mem 2 | _ \<Rightarrow> False)" by code_simp
  then have s2: "mem_reach 0 (demo_mem 2)"
    by (intro mem_reach.claimed [OF s1]) (auto simp: mem_claim_def split: sum.splits)
  have "mem_apply_result 0 ''a'' demo_result (demo_mem 2) = Inr (demo_mem 3)" by code_simp
  moreover have "mem_status 0 (demo_mem 2) ''a'' = Some TaskRunning" by code_simp
  ultimately have s3: "mem_reach 0 (demo_mem 3)"
    by (intro mem_reach.settled [OF s2, of "''a''"]) (auto simp: mem_settle_def)
  have "(case mem_claim_ready_batch 0 1 (demo_mem 3) of Inr (s, _) \<Rightarrow> s = demo_mem 4 | _ \<Rightarrow> False)" by code_simp
  then show ?thesis
    by (intro mem_reach.claimed [OF s3]) (auto simp: mem_claim_def split: sum.splits)
qed


end
