(* ===== verification/Meter.thy ===== *)
theory Meter
  imports Prelude
begin

text \<open>
  The contract of a metered resource, as a locale: a budget exposes what each key has used, a cap
  for each key and a charging operation that accepts or refuses. An accepted positive charge is added
  to its key and to no other and stays within the cap; a refused charge leaves the usage alone. The
  locale derives what any sequence of charges does. The in-memory ledgers and the persisted counters
  both fulfil it.
\<close>

locale meter =
  fixes used :: "'s \<Rightarrow> 'k \<Rightarrow> int"
    and cap :: "'k \<Rightarrow> int option"
    and ok :: "'s \<Rightarrow> bool"
    and charge :: "'k \<Rightarrow> int \<Rightarrow> 's \<Rightarrow> bool \<times> 's"
  assumes charge_ok: "ok s \<Longrightarrow> charge k n s = (b, s') \<Longrightarrow> ok s'"
    and accepted: "ok s \<Longrightarrow> charge k n s = (True, s') \<Longrightarrow>
          used s' k' = used s k' + (if k' = k then max 0 n else 0)"
    and refused: "ok s \<Longrightarrow> charge k n s = (False, s') \<Longrightarrow> used s' k' = used s k'"
    and within: "ok s \<Longrightarrow> charge k n s = (True, s') \<Longrightarrow> 0 < n \<Longrightarrow> cap k = Some c \<Longrightarrow> used s' k \<le> c"
begin

lemma charge_within:
  assumes "ok s" and "charge k n s = (b, s')" and "cap k' = Some c" and "used s k' \<le> c"
  shows "used s' k' \<le> c"
proof (cases b)
  case True
  then show ?thesis
    using assms accepted [of s k n s' k'] within [of s k n s' c] by (cases "k' = k"; cases "0 < n") auto
next
  case False
  then show ?thesis using assms refused [of s k n s' k'] by simp
qed

primrec charges :: "('k \<times> int) list \<Rightarrow> 's \<Rightarrow> bool list \<times> 's" where
  "charges [] s = ([], s)"
| "charges (x # xs) s =
     (let r = charge (fst x) (snd x) s; rest = charges xs (snd r) in (fst r # fst rest, snd rest))"

definition accepted_total :: "('k \<times> int) list \<Rightarrow> bool list \<Rightarrow> 'k \<Rightarrow> int" where
  "accepted_total xs bs k = sum_list (map (\<lambda>(x, b). if b \<and> fst x = k then max 0 (snd x) else 0) (zip xs bs))"

lemma charges_ok: "ok s \<Longrightarrow> ok (snd (charges xs s))"
proof (induction xs arbitrary: s)
  case (Cons x xs)
  have "ok (snd (charge (fst x) (snd x) s))" using Cons.prems charge_ok by (metis prod.collapse)
  then show ?case using Cons.IH by (simp add: Let_def)
qed simp

lemma charges_within:
  "ok s \<Longrightarrow> cap k = Some c \<Longrightarrow> used s k \<le> c \<Longrightarrow> used (snd (charges xs s)) k \<le> c"
proof (induction xs arbitrary: s)
  case (Cons x xs)
  obtain b s1 where c: "charge (fst x) (snd x) s = (b, s1)" by fastforce
  then have "ok s1" and "used s1 k \<le> c"
    using Cons.prems charge_ok charge_within by blast+
  then show ?case using Cons.IH [of s1] Cons.prems(2) c by (simp add: Let_def)
qed simp

lemma charges_used:
  "ok s \<Longrightarrow> used (snd (charges xs s)) k = used s k + accepted_total xs (fst (charges xs s)) k"
proof (induction xs arbitrary: s)
  case Nil
  then show ?case by (simp add: accepted_total_def)
next
  case (Cons x xs)
  obtain b s1 where c: "charge (fst x) (snd x) s = (b, s1)" by fastforce
  have step: "used s1 k = used s k + (if b \<and> fst x = k then max 0 (snd x) else 0)"
    using accepted [of s "fst x" "snd x" s1 k] refused [of s "fst x" "snd x" s1 k] c Cons.prems
    by (cases b) auto
  have "ok s1" using charge_ok [OF Cons.prems c] .
  then show ?case
    using Cons.IH [of s1] c step by (simp add: accepted_total_def Let_def)
qed

end

end
