(* ===== verification/Budgets.thy ===== *)
theory Budgets
  imports Meter
begin

text \<open>
  The budgets of a run: the in-memory ledgers of \<open>apps/api/src/app/runtime/budgets\<close>
  (\<open>schema.py\<close>, \<open>errors.py\<close>, \<open>ledger.py\<close>) and the persisted counters of
  \<open>apps/api/src/app/services/runtime_budget_service.py\<close>. The clock is an argument where a
  timestamp is stored. Methods that mutate before they raise return the mutated state with the error.
\<close>

section \<open>Limits and ledgers\<close>

datatype MetricName =
  PlanRevisions | TaskAttempts | AgentRuns | LlmCalls | ToolCalls | TokensIn | TokensOut
  | TokensTotal | Retries | WallTimeMs

record EntityLimits =
  el_plan_revisions :: "int option"
  el_task_attempts :: "int option"
  el_agent_runs :: "int option"
  el_llm_calls :: "int option"
  el_tool_calls :: "int option"
  el_tokens_total :: "int option"
  el_retries :: "int option"
  el_wall_time_ms :: "int option"
  el_max_parallel_tasks :: "int option"

record RunLimits =
  rl_plan_revisions :: "int option"
  rl_task_attempts :: "int option"
  rl_agent_runs :: "int option"
  rl_llm_calls :: "int option"
  rl_tool_calls :: "int option"
  rl_tokens_total :: "int option"
  rl_retries :: "int option"
  rl_wall_time_ms :: "int option"
  rl_max_parallel_tasks :: "int option"

definition as_entity_limits :: "RunLimits \<Rightarrow> EntityLimits" where
  "as_entity_limits r =
     \<lparr>el_plan_revisions = rl_plan_revisions r, el_task_attempts = rl_task_attempts r,
      el_agent_runs = rl_agent_runs r, el_llm_calls = rl_llm_calls r,
      el_tool_calls = rl_tool_calls r, el_tokens_total = rl_tokens_total r,
      el_retries = rl_retries r, el_wall_time_ms = rl_wall_time_ms r,
      el_max_parallel_tasks = rl_max_parallel_tasks r\<rparr>"

text \<open>\<open>getattr(limits, metric, None)\<close>: the limits have no attribute for input and output tokens.\<close>

fun limit_attr :: "EntityLimits \<Rightarrow> MetricName \<Rightarrow> int option" where
  "limit_attr l PlanRevisions = el_plan_revisions l"
| "limit_attr l TaskAttempts = el_task_attempts l"
| "limit_attr l AgentRuns = el_agent_runs l"
| "limit_attr l LlmCalls = el_llm_calls l"
| "limit_attr l ToolCalls = el_tool_calls l"
| "limit_attr l TokensIn = None"
| "limit_attr l TokensOut = None"
| "limit_attr l TokensTotal = el_tokens_total l"
| "limit_attr l Retries = el_retries l"
| "limit_attr l WallTimeMs = el_wall_time_ms l"

datatype budget_error =
    BudgetExceededError string MetricName int int
  | UnknownEntity string

record EntityLedger =
  lg_entity_type :: string
  lg_entity_id :: string
  lg_parent_entity_id :: "string option"
  lg_role :: "string option"
  lg_limits :: "EntityLimits option"
  lg_started_at :: int
  lg_own :: "(MetricName, int) dict"

definition limit_of :: "EntityLedger \<Rightarrow> MetricName \<Rightarrow> int option" where
  "limit_of l m = (case lg_limits l of None \<Rightarrow> None | Some lims \<Rightarrow> limit_attr lims m)"

definition ledger_consume :: "MetricName \<Rightarrow> int \<Rightarrow> EntityLedger \<Rightarrow> budget_error + EntityLedger" where
  "ledger_consume m amount l =
     (if amount \<le> 0 then Inr l
      else
        let next_used = dget_or 0 (lg_own l) m + amount in
        case limit_of l m of
          Some limit \<Rightarrow>
            if next_used > limit then Inl (BudgetExceededError ''orchestrator'' m next_used limit)
            else Inr (l\<lparr>lg_own := AList.update m next_used (lg_own l)\<rparr>)
        | None \<Rightarrow> Inr (l\<lparr>lg_own := AList.update m next_used (lg_own l)\<rparr>))"

definition can_consume :: "MetricName \<Rightarrow> int \<Rightarrow> EntityLedger \<Rightarrow> bool" where
  "can_consume m amount l =
     (case limit_of l m of
        None \<Rightarrow> True
      | Some limit \<Rightarrow> dget_or 0 (lg_own l) m + max 0 amount \<le> limit)"

record ledger_snapshot =
  sp_entity_type :: string
  sp_entity_id :: string
  sp_parent_entity_id :: "string option"
  sp_role :: "string option"
  sp_reason :: string
  sp_at_ms :: int
  sp_own :: "(MetricName, int) dict"
  sp_limits :: "(MetricName, int) dict option"
  sp_delta :: "(MetricName, int) dict"

definition snapshot_payload :: "string \<Rightarrow> int \<Rightarrow> (MetricName, int) dict \<Rightarrow> EntityLedger \<Rightarrow> ledger_snapshot" where
  "snapshot_payload reason at_ms delta l =
     \<lparr>sp_entity_type = lg_entity_type l, sp_entity_id = lg_entity_id l,
      sp_parent_entity_id = lg_parent_entity_id l, sp_role = lg_role l, sp_reason = reason,
      sp_at_ms = at_ms, sp_own = lg_own l,
      sp_limits = map_option (\<lambda>lims.
        concat (map (\<lambda>m. case limit_attr lims m of None \<Rightarrow> [] | Some v \<Rightarrow> [(m, v)])
          [PlanRevisions, TaskAttempts, AgentRuns, LlmCalls, ToolCalls, TokensTotal, Retries, WallTimeMs]))
        (lg_limits l),
      sp_delta = delta\<rparr>"

section \<open>The registry of a run\<close>

record BudgetRegistry =
  rg_run_limits :: RunLimits
  rg_has_emit :: bool
  rg_emitted :: "ledger_snapshot list"
  rg_ledgers :: "(string, EntityLedger) dict"

definition new_registry :: "RunLimits \<Rightarrow> bool \<Rightarrow> BudgetRegistry" where
  "new_registry limits has_emit =
     \<lparr>rg_run_limits = limits, rg_has_emit = has_emit, rg_emitted = [], rg_ledgers = []\<rparr>"

definition registry_register ::
    "string \<Rightarrow> string \<Rightarrow> string option \<Rightarrow> string option \<Rightarrow> EntityLimits option \<Rightarrow> int
     \<Rightarrow> BudgetRegistry \<Rightarrow> EntityLedger \<times> BudgetRegistry" where
  "registry_register entity_type entity_id parent role limits now g =
     (case map_of (rg_ledgers g) entity_id of
        Some existing \<Rightarrow> (existing, g)
      | None \<Rightarrow>
          let ledger = \<lparr>lg_entity_type = entity_type, lg_entity_id = entity_id,
                        lg_parent_entity_id = parent, lg_role = role, lg_limits = limits,
                        lg_started_at = now, lg_own = []\<rparr>
          in (ledger, g\<lparr>rg_ledgers := AList.update entity_id ledger (rg_ledgers g)\<rparr>))"

definition registry_get :: "string \<Rightarrow> BudgetRegistry \<Rightarrow> budget_error + EntityLedger" where
  "registry_get entity_id g =
     (case map_of (rg_ledgers g) entity_id of
        None \<Rightarrow> Inl (UnknownEntity entity_id) | Some l \<Rightarrow> Inr l)"

definition add_own :: "(MetricName, int) dict \<Rightarrow> (MetricName, int) dict \<Rightarrow> (MetricName, int) dict" where
  "add_own own out = fold (\<lambda>(k, v) out. AList.update k (dget_or 0 out k + v) out) own out"

definition aggregated_used :: "BudgetRegistry \<Rightarrow> (MetricName, int) dict" where
  "aggregated_used g = fold (\<lambda>(_, l) out. add_own (lg_own l) out) (rg_ledgers g) []"

definition emit_snapshot ::
    "string \<Rightarrow> string \<Rightarrow> (MetricName, int) dict \<Rightarrow> int \<Rightarrow> BudgetRegistry
     \<Rightarrow> ledger_snapshot option \<times> BudgetRegistry" where
  "emit_snapshot entity_id reason delta now g =
     (case map_of (rg_ledgers g) entity_id of
        None \<Rightarrow> (None, g)
      | Some l \<Rightarrow>
          let payload = snapshot_payload reason now delta l
          in (Some payload, if rg_has_emit g then g\<lparr>rg_emitted := rg_emitted g @ [payload]\<rparr> else g))"

text \<open>The registry is returned with the error too: the ledger is charged before the run cap is checked.\<close>

definition registry_consume ::
    "string \<Rightarrow> MetricName \<Rightarrow> int \<Rightarrow> string \<Rightarrow> int \<Rightarrow> BudgetRegistry \<Rightarrow> budget_error option \<times> BudgetRegistry" where
  "registry_consume entity_id m amount reason now g =
     (case registry_get entity_id g of
        Inl e \<Rightarrow> (Some e, g)
      | Inr l \<Rightarrow>
          (case ledger_consume m amount l of
             Inl e \<Rightarrow> (Some e, g)
           | Inr l' \<Rightarrow>
               let g1 = g\<lparr>rg_ledgers := AList.update entity_id l' (rg_ledgers g)\<rparr>;
                   agg = dget_or 0 (aggregated_used g1) m;
                   passed = (None, snd (emit_snapshot entity_id reason [(m, amount)] now g1))
               in (case limit_attr (as_entity_limits (rg_run_limits g)) m of
                     None \<Rightarrow> passed
                   | Some run_limit \<Rightarrow>
                       if agg > run_limit then (Some (BudgetExceededError ''run'' m agg run_limit), g1)
                       else passed)))"

section \<open>Persisted counters\<close>

record counter_row =
  bc_run_id :: uuid
  bc_owner_type :: string
  bc_owner_id :: string
  bc_metric :: string
  bc_consumed :: int
  bc_limit_value :: "int option"

record entry_row =
  be_run_id :: uuid
  be_owner_type :: string
  be_owner_id :: string
  be_metric :: string
  be_delta :: int
  be_before_value :: int
  be_after_value :: int
  be_limit_value :: "int option"
  be_reason :: string
  be_causation_event_id :: "uuid option"

datatype budget_event =
    BudgetRejected string string string int "int option"
  | BudgetConsumed string string string int int "int option" string

record BudgetDecision =
  bd_allowed :: bool
  bd_metric :: string
  bd_consumed :: int
  bd_limit :: "int option"
  bd_reason :: string

record budget_db =
  bb_counters :: "counter_row list"
  bb_entries :: "entry_row list"
  bb_has_sink :: bool
  bb_events :: "budget_event list"

type_synonym budget_key = "string \<times> string \<times> string"

definition counter_key :: "counter_row \<Rightarrow> budget_key" where
  "counter_key c = (bc_owner_type c, bc_owner_id c, bc_metric c)"

definition entry_key :: "entry_row \<Rightarrow> budget_key" where
  "entry_key e = (be_owner_type e, be_owner_id e, be_metric e)"

definition budget_emit :: "budget_event \<Rightarrow> budget_db \<Rightarrow> budget_db" where
  "budget_emit ev s = (if bb_has_sink s then s\<lparr>bb_events := bb_events s @ [ev]\<rparr> else s)"

definition find_counter :: "budget_key \<Rightarrow> budget_db \<Rightarrow> counter_row option" where
  "find_counter k s = find (\<lambda>c. counter_key c = k) (bb_counters s)"

definition upd_counter :: "budget_key \<Rightarrow> (counter_row \<Rightarrow> counter_row) \<Rightarrow> budget_db \<Rightarrow> budget_db" where
  "upd_counter k f s = s\<lparr>bb_counters := map (\<lambda>c. if counter_key c = k then f c else c) (bb_counters s)\<rparr>"

text \<open>The counter a charge works on: created on first use, its limit replaced when one is given.\<close>

definition touch_counter :: "uuid \<Rightarrow> budget_key \<Rightarrow> int option \<Rightarrow> budget_db \<Rightarrow> counter_row \<times> budget_db" where
  "touch_counter run_id k limit s =
     (case find_counter k s of
        None \<Rightarrow>
          let c = \<lparr>bc_run_id = run_id, bc_owner_type = fst k, bc_owner_id = fst (snd k),
                   bc_metric = snd (snd k), bc_consumed = 0, bc_limit_value = limit\<rparr>
          in (c, s\<lparr>bb_counters := bb_counters s @ [c]\<rparr>)
      | Some c \<Rightarrow>
          (case limit of
             None \<Rightarrow> (c, s)
           | Some v \<Rightarrow> (c\<lparr>bc_limit_value := Some v\<rparr>, upd_counter k (\<lambda>c. c\<lparr>bc_limit_value := Some v\<rparr>) s)))"

definition budget_consume ::
    "uuid \<Rightarrow> budget_key \<Rightarrow> int \<Rightarrow> int option \<Rightarrow> string \<Rightarrow> uuid option \<Rightarrow> budget_db \<Rightarrow> BudgetDecision \<times> budget_db" where
  "budget_consume run_id k amount limit reason cause s =
     (let metric = snd (snd k) in
      if amount \<le> 0
      then (\<lparr>bd_allowed = True, bd_metric = metric, bd_consumed = 0, bd_limit = limit, bd_reason = reason\<rparr>, s)
      else
        let (c, s1) = touch_counter run_id k limit s;
            before = bc_consumed c;
            after = before + amount;
            effective = bc_limit_value c
        in if (case effective of None \<Rightarrow> False | Some v \<Rightarrow> after > v)
           then (\<lparr>bd_allowed = False, bd_metric = metric, bd_consumed = before, bd_limit = effective,
                  bd_reason = ''budget_exceeded''\<rparr>,
                 budget_emit (BudgetRejected (fst k) (fst (snd k)) metric before effective) s1)
           else
             let s2 = upd_counter k (\<lambda>c. c\<lparr>bc_consumed := after\<rparr>) s1;
                 s3 = s2\<lparr>bb_entries := bb_entries s2 @
                        [\<lparr>be_run_id = run_id, be_owner_type = fst k, be_owner_id = fst (snd k),
                          be_metric = metric, be_delta = amount, be_before_value = before,
                          be_after_value = after, be_limit_value = effective, be_reason = reason,
                          be_causation_event_id = cause\<rparr>]\<rparr>
             in (\<lparr>bd_allowed = True, bd_metric = metric, bd_consumed = after, bd_limit = effective,
                  bd_reason = reason\<rparr>,
                 budget_emit (BudgetConsumed (fst k) (fst (snd k)) metric amount after effective reason) s3))"

end
