(* ===== verification/Budget_Theorems.thy ===== *)
theory Budget_Theorems
  imports Budgets
begin

text \<open>
  The in-memory ledgers and the persisted counters fulfil the contract of a metered resource, the
  registry enforces the caps of the run, and the persisted entries account for every counter.
\<close>

section \<open>Ledgers\<close>

definition ledger_used :: "EntityLedger \<Rightarrow> MetricName \<Rightarrow> int" where
  "ledger_used l m = dget_or 0 (lg_own l) m"

definition ledger_charge :: "MetricName \<Rightarrow> int \<Rightarrow> EntityLedger \<Rightarrow> bool \<times> EntityLedger" where
  "ledger_charge m n l = (case ledger_consume m n l of Inl _ \<Rightarrow> (False, l) | Inr l' \<Rightarrow> (True, l'))"

lemma ledger_consume_Inr:
  assumes "ledger_consume m n l = Inr l'"
  shows "ledger_used l' m' = ledger_used l m' + (if m' = m then max 0 n else 0)"
    and "limit_of l' = limit_of l" and "lg_limits l' = lg_limits l"
    and "0 < n \<Longrightarrow> limit_of l m = Some c \<Longrightarrow> ledger_used l' m \<le> c"
    and "dict_ok (lg_own l) \<Longrightarrow> dict_ok (lg_own l')"
  using assms
  by (auto simp: ledger_consume_def ledger_used_def limit_of_def Let_def fun_eq_iff split: option.splits if_splits)

interpretation ledger: meter ledger_used
  "\<lambda>m. case limits of None \<Rightarrow> None | Some lims \<Rightarrow> limit_attr lims m"
  "\<lambda>l. lg_limits l = limits" ledger_charge for limits
proof (unfold_locales, goal_cases)
  case (4 s k n s' c)
  then show ?case
    by (auto simp: ledger_charge_def limit_of_def split: sum.splits dest: ledger_consume_Inr(4))
qed (auto simp: ledger_charge_def ledger_consume_Inr(1,3) split: sum.splits)

lemma ledger_consume_iff:
  "isl (ledger_consume m n l) \<longleftrightarrow> 0 < n \<and> \<not> can_consume m n l"
  by (auto simp: ledger_consume_def can_consume_def Let_def split: option.splits)

section \<open>The registry\<close>

definition registry_ok :: "BudgetRegistry \<Rightarrow> bool" where
  "registry_ok g \<longleftrightarrow> dict_ok (rg_ledgers g) \<and> (\<forall>(k, l)\<in>set (rg_ledgers g). dict_ok (lg_own l))"

definition total_used :: "BudgetRegistry \<Rightarrow> MetricName \<Rightarrow> int" where
  "total_used g m = (\<Sum>(k, l)\<leftarrow>rg_ledgers g. ledger_used l m)"

lemma dget_or_add_own:
  "dict_ok own \<Longrightarrow> dget_or 0 (add_own own out) m = dget_or 0 out m + dget_or 0 own m"
proof (induction own arbitrary: out)
  case Nil
  then show ?case by (simp add: add_own_def dget_or_def)
next
  case (Cons x own)
  obtain k v where x: "x = (k, v)" by fastforce
  have "map_of own k = None" using Cons.prems x by (simp add: dict_ok_def map_of_eq_None_iff)
  then show ?case
    using Cons.IH [of "AList.update k (dget_or 0 out k + v) out"] Cons.prems x
    by (auto simp: add_own_def dict_ok_def dget_or_def [of 0 "(k, v) # own"] dget_or_def [of 0 own m])
qed

lemma aggregated_used_total:
  assumes "registry_ok g"
  shows "dget_or 0 (aggregated_used g) m = total_used g m"
proof -
  have "dget_or 0 (fold (\<lambda>(_, l) out. add_own (lg_own l) out) ls out) m =
      dget_or 0 out m + (\<Sum>(k, l)\<leftarrow>ls. ledger_used l m)"
    if "\<forall>(k, l)\<in>set ls. dict_ok (lg_own l)" for ls out
    using that by (induction ls arbitrary: out) (auto simp: dget_or_add_own ledger_used_def)
  from this [of "rg_ledgers g" "[]"] assms show ?thesis
    by (simp add: aggregated_used_def total_used_def registry_ok_def dget_or_def)
qed

lemma sum_list_update:
  assumes "dict_ok d" and "map_of d k = Some l"
  shows "(\<Sum>(k, l)\<leftarrow>AList.update k l' d. f l) = (\<Sum>(k, l)\<leftarrow>d. f l) - f l + (f l' :: int)"
  using assms by (induction d) (auto simp: dict_ok_def)

lemma set_update_subset: "set (AList.update k v d) \<subseteq> insert (k, v) (set d)"
  by (induction d) auto

lemma charged_registry:
  assumes ok: "registry_ok g" and l: "map_of (rg_ledgers g) i = Some l" and c: "ledger_consume m n l = Inr l'"
  defines "g1 \<equiv> g\<lparr>rg_ledgers := AList.update i l' (rg_ledgers g)\<rparr>"
  shows "registry_ok g1" and "total_used g1 m' = total_used g m' + (if m' = m then max 0 n else 0)"
proof -
  have "dict_ok (lg_own l)" using ok l unfolding registry_ok_def by (fastforce dest: map_of_SomeD)
  then have "dict_ok (lg_own l')" using ledger_consume_Inr(5) [OF c] by blast
  then show "registry_ok g1"
    using ok set_update_subset [of i l' "rg_ledgers g"] unfolding registry_ok_def g1_def by auto
  show "total_used g1 m' = total_used g m' + (if m' = m then max 0 n else 0)"
    using sum_list_update [of "rg_ledgers g" i l "\<lambda>l. ledger_used l m'" l'] ok l
      ledger_consume_Inr(1) [OF c, of m']
    by (simp add: total_used_def g1_def registry_ok_def)
qed

lemma emit_snapshot_ledgers [simp]: "rg_ledgers (snd (emit_snapshot i r d now g)) = rg_ledgers g"
  by (simp add: emit_snapshot_def Let_def split: option.splits)

lemma total_used_cong: "rg_ledgers g' = rg_ledgers g \<Longrightarrow> total_used g' = total_used g"
  by (simp add: total_used_def fun_eq_iff)

text \<open>
  A charge the registry accepts respects both budgets: the ledger of the entity stays within the
  limit of the entity, the sum over all ledgers of the run stays within the cap of the run, the sum
  grew by exactly the amount, and (with a callback) one snapshot was emitted. A charge refused by the
  entity's own limit changes nothing.
\<close>

theorem registry_consume_respects_caps:
  assumes ok: "registry_ok g" and n: "0 < n"
    and c: "registry_consume i m n reason now g = (res, g')"
  shows "registry_ok g'
    \<and> (res = None \<longrightarrow> total_used g' m = total_used g m + n
         \<and> (\<forall>r. limit_attr (as_entity_limits (rg_run_limits g)) m = Some r \<longrightarrow> total_used g' m \<le> r)
         \<and> (\<exists>l. map_of (rg_ledgers g') i = Some l
              \<and> (\<forall>r. limit_of l m = Some r \<longrightarrow> ledger_used l m \<le> r)))
    \<and> (\<forall>used r. res = Some (BudgetExceededError ''orchestrator'' m used r) \<longrightarrow> g' = g)"
proof (cases "map_of (rg_ledgers g) i")
  case None
  then show ?thesis using c ok by (auto simp: registry_consume_def registry_get_def)
next
  case (Some l)
  show ?thesis
  proof (cases "ledger_consume m n l")
    case (Inl e)
    then show ?thesis using c ok Some by (auto simp: registry_consume_def registry_get_def)
  next
    case (Inr l')
    define g1 where "g1 = g\<lparr>rg_ledgers := AList.update i l' (rg_ledgers g)\<rparr>"
    note ch = charged_registry [OF ok Some Inr, folded g1_def]
    have l': "map_of (rg_ledgers g1) i = Some l'" by (simp add: g1_def update_conv')
    have g': "rg_ledgers g' = rg_ledgers g1"
      using c Some Inr by (auto simp: registry_consume_def registry_get_def g1_def Let_def split: option.splits if_splits)
    have lim: "limit_of l' m = Some r \<Longrightarrow> ledger_used l' m \<le> r" for r
      using ledger_consume_Inr(2,4) [OF Inr] n by simp
    have cap: "total_used g1 m \<le> r" if "res = None" "limit_attr (as_entity_limits (rg_run_limits g)) m = Some r" for r
      using c Some Inr that aggregated_used_total [OF ch(1), of m]
      by (auto simp: registry_consume_def registry_get_def g1_def Let_def split: if_splits)
    have no: "res \<noteq> Some (BudgetExceededError ''orchestrator'' m u r)" for u r
      using c Some Inr by (auto simp: registry_consume_def registry_get_def Let_def split: option.splits if_splits)
    have "registry_ok g'" using ch(1) g' by (simp add: registry_ok_def)
    then show ?thesis
      using ch(2) [of m] n total_used_cong [OF g'] l' lim cap no unfolding g' by auto
  qed
qed

definition demo_registry :: BudgetRegistry where
  "demo_registry = snd (registry_register ''agent'' ''e1'' None None None 0
     (new_registry \<lparr>rl_plan_revisions = None, rl_task_attempts = None, rl_agent_runs = None,
        rl_llm_calls = Some 5, rl_tool_calls = None, rl_tokens_total = None, rl_retries = None,
        rl_wall_time_ms = None, rl_max_parallel_tasks = None\<rparr> True))"

theorem registry_consume_respects_caps_witness:
  "fst (registry_consume ''e1'' LlmCalls 3 ''call'' 0 demo_registry) = None
   \<and> total_used (snd (registry_consume ''e1'' LlmCalls 3 ''call'' 0 demo_registry)) LlmCalls \<le> 5"
proof -
  have r: "fst (registry_consume ''e1'' LlmCalls 3 ''call'' 0 demo_registry) = None" by code_simp
  have ok: "registry_ok demo_registry" by code_simp
  have c: "limit_attr (as_entity_limits (rg_run_limits demo_registry)) LlmCalls = Some 5" by code_simp
  show ?thesis
    using registry_consume_respects_caps [OF ok, of 3 "''e1''" LlmCalls "''call''" 0] r c
    by (metis prod.collapse zero_less_numeral)
qed

text \<open>
  A charge refused by the cap of the run is recorded all the same: the ledger of the entity keeps
  the amount, so the sum over the run ends above the cap and later charges of the same metric are
  refused although the refused work was not done.
\<close>

theorem refused_run_charge_is_recorded:
  assumes ok: "registry_ok g"
    and c: "registry_consume i m n reason now g = (Some (BudgetExceededError ''run'' m u r), g')"
  shows "total_used g' m = total_used g m + max 0 n \<and> u = total_used g' m \<and> r < total_used g' m"
proof -
  obtain l l' where l: "map_of (rg_ledgers g) i = Some l" "ledger_consume m n l = Inr l'"
    using c by (auto simp: registry_consume_def registry_get_def ledger_consume_def Let_def
        split: option.splits sum.splits if_splits)
  define g1 where "g1 = g\<lparr>rg_ledgers := AList.update i l' (rg_ledgers g)\<rparr>"
  note ch = charged_registry [OF ok l, folded g1_def]
  have g': "g' = g1" and u: "u = dget_or 0 (aggregated_used g1) m" and r: "u > r"
    using c l by (auto simp: registry_consume_def registry_get_def g1_def Let_def split: option.splits if_splits)
  show ?thesis using ch(2) [of m] aggregated_used_total [OF ch(1)] g' u r by simp
qed

theorem refused_run_charge_is_recorded_witness:
  "\<exists>g'. registry_consume ''e1'' LlmCalls 6 ''call'' 0 demo_registry = (Some (BudgetExceededError ''run'' LlmCalls 6 5), g')
     \<and> total_used g' LlmCalls = 6"
proof -
  have r: "fst (registry_consume ''e1'' LlmCalls 6 ''call'' 0 demo_registry) = Some (BudgetExceededError ''run'' LlmCalls 6 5)"
    by code_simp
  then have c: "registry_consume ''e1'' LlmCalls 6 ''call'' 0 demo_registry =
      (Some (BudgetExceededError ''run'' LlmCalls 6 5), snd (registry_consume ''e1'' LlmCalls 6 ''call'' 0 demo_registry))"
    by (metis prod.collapse)
  have ok: "registry_ok demo_registry" by code_simp
  show ?thesis using c refused_run_charge_is_recorded [OF ok c] by metis
qed

section \<open>Persisted counters\<close>

definition counter_used :: "budget_db \<Rightarrow> budget_key \<Rightarrow> int" where
  "counter_used s k = (case find_counter k s of None \<Rightarrow> 0 | Some c \<Rightarrow> bc_consumed c)"

lemma find_counter_key: "find_counter k s = Some c \<Longrightarrow> counter_key c = k"
  by (auto simp: find_counter_def dest: find_SomeD)

lemma find_counter_upd:
  assumes "\<And>c. counter_key (f c) = counter_key c"
  shows "find_counter k' (upd_counter k f s) =
         (if k' = k then map_option f (find_counter k s) else find_counter k' s)"
proof -
  have "find (\<lambda>c. counter_key c = k') (map (\<lambda>c. if counter_key c = k then f c else c) xs) =
      (if k' = k then map_option f (find (\<lambda>c. counter_key c = k) xs) else find (\<lambda>c. counter_key c = k') xs)" for xs
    using assms by (induction xs) auto
  then show ?thesis by (simp add: find_counter_def upd_counter_def)
qed

lemma find_counter_append:
  "find_counter k' (s\<lparr>bb_counters := bb_counters s @ [c]\<rparr>) =
     (case find_counter k' s of Some d \<Rightarrow> Some d | None \<Rightarrow> if counter_key c = k' then Some c else None)"
proof -
  have "find P (xs @ [c]) = (case find P xs of Some d \<Rightarrow> Some d | None \<Rightarrow> if P c then Some c else None)"
    for P and xs :: "counter_row list" by (induction xs) auto
  then show ?thesis by (simp add: find_counter_def)
qed

lemma counter_key_upd [simp]:
  "counter_key (c\<lparr>bc_limit_value := v\<rparr>) = counter_key c" "counter_key (c\<lparr>bc_consumed := n\<rparr>) = counter_key c"
  by (simp_all add: counter_key_def)

lemma new_counter_key [simp]:
  "counter_key \<lparr>bc_run_id = r, bc_owner_type = fst k, bc_owner_id = fst (snd k), bc_metric = snd (snd k),
     bc_consumed = n, bc_limit_value = v\<rparr> = k"
  by (simp add: counter_key_def)

lemma upd_counter_proj [simp]:
  "bb_entries (upd_counter k f s) = bb_entries s" "bb_has_sink (upd_counter k f s) = bb_has_sink s"
  by (simp_all add: upd_counter_def)

text \<open>Touching a counter changes no usage, adds no entry and reports the counter it leaves behind.\<close>

lemma touch_counter_effect:
  assumes "touch_counter run_id k limit s = (c, s1)"
  shows "find_counter k s1 = Some c" and "counter_used s1 = counter_used s" and "bb_entries s1 = bb_entries s"
    and "k' \<noteq> k \<Longrightarrow> find_counter k' s1 = find_counter k' s" and "bc_consumed c = counter_used s k"
    and "bc_limit_value c = (case limit of Some v \<Rightarrow> Some v
           | None \<Rightarrow> Option.bind (find_counter k s) bc_limit_value)"
proof -
  have *: "find_counter k' s1 = (if k' = k then Some c else find_counter k' s)
      \<and> bc_consumed c = counter_used s k \<and> bb_entries s1 = bb_entries s
      \<and> bc_limit_value c = (case limit of Some v \<Rightarrow> Some v
           | None \<Rightarrow> Option.bind (find_counter k s) bc_limit_value)" for k'
    using assms
    by (cases "find_counter k s"; cases limit)
       (auto simp: touch_counter_def Let_def find_counter_append counter_used_def
          find_counter_upd dest: find_counter_key split: option.splits)
  then show "find_counter k s1 = Some c" "bb_entries s1 = bb_entries s"
    "k' \<noteq> k \<Longrightarrow> find_counter k' s1 = find_counter k' s" "bc_consumed c = counter_used s k"
    "bc_limit_value c = (case limit of Some v \<Rightarrow> Some v
           | None \<Rightarrow> Option.bind (find_counter k s) bc_limit_value)" by auto
  show "counter_used s1 = counter_used s"
    using * by (auto simp: fun_eq_iff counter_used_def)
qed

lemma budget_emit_proj [simp]:
  "find_counter k (budget_emit ev s) = find_counter k s" "bb_entries (budget_emit ev s) = bb_entries s"
  "counter_used (budget_emit ev s) = counter_used s" "bb_has_sink (budget_emit ev s) = bb_has_sink s"
  by (simp_all add: budget_emit_def find_counter_def counter_used_def fun_eq_iff)

lemma counter_used_entries [simp]:
  "find_counter k (s\<lparr>bb_entries := v\<rparr>) = find_counter k s" "counter_used (s\<lparr>bb_entries := v\<rparr>) = counter_used s"
  by (simp_all add: find_counter_def counter_used_def fun_eq_iff)

text \<open>The whole effect of a positive charge.\<close>

lemma budget_consume_effect:
  assumes "budget_consume run_id k n limit reason cause s = (d, s')" and n: "0 < n"
  defines "lv \<equiv> (case limit of Some v \<Rightarrow> Some v | None \<Rightarrow> Option.bind (find_counter k s) bc_limit_value)"
    and "fits \<equiv> (case (case limit of Some v \<Rightarrow> Some v | None \<Rightarrow> Option.bind (find_counter k s) bc_limit_value)
                  of None \<Rightarrow> True | Some v \<Rightarrow> counter_used s k + n \<le> v)"
  shows "bd_allowed d = fits" and "bd_limit d = lv" and "bd_consumed d = counter_used s' k"
    and "counter_used s' k' = counter_used s k' + (if fits \<and> k' = k then n else 0)"
    and "bb_entries s' = bb_entries s @ (if fits then [\<lparr>be_run_id = run_id, be_owner_type = fst k,
           be_owner_id = fst (snd k), be_metric = snd (snd k), be_delta = n,
           be_before_value = counter_used s k, be_after_value = counter_used s k + n,
           be_limit_value = lv, be_reason = reason, be_causation_event_id = cause\<rparr>] else [])"
    and "\<exists>c. find_counter k s' = Some c \<and> bc_limit_value c = lv"
    and "k' \<noteq> k \<Longrightarrow> find_counter k' s' = find_counter k' s"
proof -
  obtain c s1 where t: "touch_counter run_id k limit s = (c, s1)" by fastforce
  note e = touch_counter_effect [OF t]
  have lv: "bc_limit_value c = lv" unfolding lv_def by (rule e(6))
  have used: "counter_used (upd_counter k (\<lambda>c. c\<lparr>bc_consumed := counter_used s k + n\<rparr>) s1) k' =
      (if k' = k then counter_used s k + n else counter_used s k')" for k'
    using e(1,4) by (auto simp: counter_used_def find_counter_upd)
  have fits: "fits \<longleftrightarrow> \<not> (case lv of None \<Rightarrow> False | Some v \<Rightarrow> counter_used s k + n > v)"
    unfolding fits_def lv_def by (auto split: option.splits)
  let ?u = "upd_counter k (\<lambda>c. c\<lparr>bc_consumed := counter_used s k + n\<rparr>) s1"
  have nn: "\<not> n \<le> 0" using n by simp
  have entries: "bb_entries ?u = bb_entries s" using e(3) by simp
  have lc: "find_counter k ?u = Some (c\<lparr>bc_consumed := counter_used s k + n\<rparr>)"
    using e(1) by (simp add: find_counter_upd)
  have oth: "k' \<noteq> k \<Longrightarrow> find_counter k' ?u = find_counter k' s" for k'
    using touch_counter_effect(4) [OF t] by (simp add: find_counter_upd)
  note run = assms(1) [unfolded budget_consume_def Let_def t prod.case if_not_P [OF nn] e(5) lv]
  show "bd_allowed d = fits" "bd_limit d = lv" "bd_consumed d = counter_used s' k"
    "counter_used s' k' = counter_used s k' + (if fits \<and> k' = k then n else 0)"
    "bb_entries s' = bb_entries s @ (if fits then [\<lparr>be_run_id = run_id, be_owner_type = fst k,
           be_owner_id = fst (snd k), be_metric = snd (snd k), be_delta = n,
           be_before_value = counter_used s k, be_after_value = counter_used s k + n,
           be_limit_value = lv, be_reason = reason, be_causation_event_id = cause\<rparr>] else [])"
    "\<exists>c. find_counter k s' = Some c \<and> bc_limit_value c = lv"
    "k' \<noteq> k \<Longrightarrow> find_counter k' s' = find_counter k' s"
    using run e(1-3) lv touch_counter_effect(4) [OF t, of k'] oth [of k'] unfolding fits
    by (auto simp: used lc entries split: if_splits)
qed

definition counter_charge ::
    "uuid \<Rightarrow> string \<Rightarrow> uuid option \<Rightarrow> (budget_key \<Rightarrow> int option) \<Rightarrow> budget_key \<Rightarrow> int \<Rightarrow> budget_db \<Rightarrow> bool \<times> budget_db" where
  "counter_charge run_id reason cause cap k n s =
     (bd_allowed (fst (budget_consume run_id k n (cap k) reason cause s)),
      snd (budget_consume run_id k n (cap k) reason cause s))"

definition caps_stored :: "(budget_key \<Rightarrow> int option) \<Rightarrow> budget_db \<Rightarrow> bool" where
  "caps_stored cap s \<longleftrightarrow> (\<forall>k c. find_counter k s = Some c \<longrightarrow> bc_limit_value c = cap k)"

lemma budget_consume_nonpos:
  "n \<le> 0 \<Longrightarrow> budget_consume run_id k n limit reason cause s =
     (\<lparr>bd_allowed = True, bd_metric = snd (snd k), bd_consumed = 0, bd_limit = limit, bd_reason = reason\<rparr>, s)"
  by (simp add: budget_consume_def Let_def)

lemma caps_storedD: "caps_stored cap s \<Longrightarrow> find_counter k s = Some c \<Longrightarrow> bc_limit_value c = cap k"
  unfolding caps_stored_def by blast

lemma stored_cap:
  "caps_stored cap s \<Longrightarrow> (case cap k of Some v \<Rightarrow> Some v | None \<Rightarrow> Option.bind (find_counter k s) bc_limit_value) = cap k"
  by (cases "find_counter k s"; cases "cap k") (auto dest: caps_storedD)

lemma counter_charge_E:
  assumes "counter_charge run_id reason cause cap k n s = (b, s')"
  obtains d where "budget_consume run_id k n (cap k) reason cause s = (d, s')" and "bd_allowed d = b"
  using assms by (cases "budget_consume run_id k n (cap k) reason cause s") (auto simp: counter_charge_def)

interpretation counter: meter counter_used cap "caps_stored cap" "counter_charge run_id reason cause cap"
  for run_id reason cause cap
proof (unfold_locales, goal_cases)
  case (1 s k n b s')
  obtain d where d: "budget_consume run_id k n (cap k) reason cause s = (d, s')"
    using 1(2) by (rule counter_charge_E)
  show ?case
  proof (cases "0 < n")
    case True
    note e = budget_consume_effect [OF d True, unfolded stored_cap [OF 1(1)]]
    show ?thesis unfolding caps_stored_def
    proof (intro allI impI)
      fix k' c assume f: "find_counter k' s' = Some c"
      show "bc_limit_value c = cap k'"
        using e(6) e(7) [of k'] f caps_storedD [OF 1(1)] by (cases "k' = k") auto
    qed
  qed (use 1 d in \<open>simp add: budget_consume_nonpos\<close>)
next
  case (2 s k n s' k')
  obtain d where d: "budget_consume run_id k n (cap k) reason cause s = (d, s')" and a: "bd_allowed d = True"
    using 2(2) by (rule counter_charge_E)
  show ?case
    using budget_consume_effect(1,4) [OF d] a d by (cases "0 < n") (auto simp: budget_consume_nonpos)
next
  case (3 s k n s' k')
  obtain d where d: "budget_consume run_id k n (cap k) reason cause s = (d, s')" and a: "bd_allowed d = False"
    using 3(2) by (rule counter_charge_E)
  show ?case
    using budget_consume_effect(1,4) [OF d] a d by (cases "0 < n") (auto simp: budget_consume_nonpos)
next
  case (4 s k n s' c)
  obtain d where d: "budget_consume run_id k n (cap k) reason cause s = (d, s')" and a: "bd_allowed d = True"
    using 4(2) by (rule counter_charge_E)
  show ?case
    using budget_consume_effect(1,4) [OF d 4(3), unfolded stored_cap [OF 4(1)]] a 4(4) by simp
qed

section \<open>Runs of the persisted budget\<close>

definition empty_budget :: "bool \<Rightarrow> budget_db" where
  "empty_budget sink = \<lparr>bb_counters = [], bb_entries = [], bb_has_sink = sink, bb_events = []\<rparr>"

fun consume_all ::
    "uuid \<Rightarrow> string \<Rightarrow> uuid option \<Rightarrow> (budget_key \<Rightarrow> int option) \<Rightarrow> (budget_key \<times> int) list \<Rightarrow> budget_db \<Rightarrow> budget_db" where
  "consume_all run_id reason cause cap [] s = s"
| "consume_all run_id reason cause cap ((k, n) # calls) s =
     consume_all run_id reason cause cap calls (snd (budget_consume run_id k n (cap k) reason cause s))"

lemma consume_all_charges:
  "consume_all run_id reason cause cap calls s = snd (counter.charges run_id reason cause cap calls s)"
  by (induction calls arbitrary: s) (auto simp: counter_charge_def Let_def)

text \<open>
  C9. However many charges a run makes, the persisted usage of a key never exceeds its cap: starting
  from an empty store, any sequence of charges made with fixed caps leaves every counter within the
  cap of its key.
\<close>

theorem persisted_usage_within_cap:
  assumes "cap k = Some c" and "0 \<le> c"
  shows "counter_used (consume_all run_id reason cause cap calls (empty_budget sink)) k \<le> c"
proof -
  have "caps_stored cap (empty_budget sink)" by (simp add: caps_stored_def find_counter_def empty_budget_def)
  moreover have "counter_used (empty_budget sink) k \<le> c"
    using assms(2) by (simp add: counter_used_def find_counter_def empty_budget_def)
  ultimately show ?thesis unfolding consume_all_charges using assms(1) by (intro counter.charges_within)
qed

theorem persisted_usage_within_cap_witness:
  "counter_used (consume_all 1 ''step'' None (\<lambda>_. Some 3)
     [((''run'', ''r'', ''llm_calls''), 2), ((''run'', ''r'', ''llm_calls''), 2)] (empty_budget True))
     (''run'', ''r'', ''llm_calls'') \<le> 3"
  by (rule persisted_usage_within_cap) simp_all

text \<open>Every database the budget service can produce.\<close>

inductive budget_reach :: "budget_db \<Rightarrow> bool" where
  start: "budget_reach (empty_budget sink)"
| charge: "budget_reach s \<Longrightarrow> budget_reach (snd (budget_consume run_id k n limit reason cause s))"

definition entries_of :: "budget_db \<Rightarrow> budget_key \<Rightarrow> entry_row list" where
  "entries_of s k = filter (\<lambda>e. entry_key e = k) (bb_entries s)"

definition account_ok :: "entry_row list \<Rightarrow> bool" where
  "account_ok es \<longleftrightarrow> (\<forall>i < length es.
      be_before_value (es ! i) = sum_list (map be_delta (take i es))
    \<and> be_after_value (es ! i) = sum_list (map be_delta (take (Suc i) es))
    \<and> 0 < be_delta (es ! i)
    \<and> (\<forall>v. be_limit_value (es ! i) = Some v \<longrightarrow> be_after_value (es ! i) \<le> v))"

lemma account_ok_snoc:
  assumes "account_ok es" and "be_before_value e = sum_list (map be_delta es)"
    and "be_after_value e = be_before_value e + be_delta e" and "0 < be_delta e"
    and "\<And>v. be_limit_value e = Some v \<Longrightarrow> be_after_value e \<le> v"
  shows "account_ok (es @ [e])"
  unfolding account_ok_def
proof (intro allI impI)
  fix i assume "i < length (es @ [e])"
  then consider "i < length es" | "i = length es" by fastforce
  then show "be_before_value ((es @ [e]) ! i) = sum_list (map be_delta (take i (es @ [e])))
    \<and> be_after_value ((es @ [e]) ! i) = sum_list (map be_delta (take (Suc i) (es @ [e])))
    \<and> 0 < be_delta ((es @ [e]) ! i)
    \<and> (\<forall>v. be_limit_value ((es @ [e]) ! i) = Some v \<longrightarrow> be_after_value ((es @ [e]) ! i) \<le> v)"
    using assms by cases (auto simp: account_ok_def nth_append)
qed

lemma budget_reach_account:
  "budget_reach s \<Longrightarrow> account_ok (entries_of s k) \<and> counter_used s k = sum_list (map be_delta (entries_of s k))"
proof (induction rule: budget_reach.induct)
  case (start sink)
  show ?case by (simp add: entries_of_def empty_budget_def account_ok_def counter_used_def find_counter_def)
next
  case (charge s run_id k' n limit reason cause)
  obtain d s' where d: "budget_consume run_id k' n limit reason cause s = (d, s')" by fastforce
  show ?case
  proof (cases "0 < n")
    case True
    note e = budget_consume_effect [OF d True]
    show ?thesis
      using charge.IH e(4) [of k] unfolding d snd_conv entries_of_def e(5)
      by (auto simp: entry_key_def True split: option.splits if_splits intro!: account_ok_snoc)
  qed (use charge.IH in \<open>simp add: budget_consume_nonpos\<close>)
qed

text \<open>
  C15. The ledger entries account for the counters: in every database the service can produce, whatever
  limits are passed, the entries of a key form one chain from zero in which each entry starts where
  the previous one ended, adds a positive amount and ends within the limit it was checked against, and
  the counter of the key equals the sum of their amounts.
\<close>

theorem entries_account_for_counter:
  assumes "budget_reach s"
  shows "counter_used s k = sum_list (map be_delta (entries_of s k)) \<and>
    (\<forall>i < length (entries_of s k).
       be_before_value (entries_of s k ! i) = sum_list (map be_delta (take i (entries_of s k)))
     \<and> be_after_value (entries_of s k ! i) = sum_list (map be_delta (take (Suc i) (entries_of s k)))
     \<and> 0 < be_delta (entries_of s k ! i)
     \<and> (\<forall>v. be_limit_value (entries_of s k ! i) = Some v \<longrightarrow> be_after_value (entries_of s k ! i) \<le> v))"
  using budget_reach_account [OF assms] unfolding account_ok_def by blast

theorem entries_account_for_counter_witness:
  "counter_used (snd (budget_consume 1 (''run'', ''r'', ''m'') 2 None ''x'' None (empty_budget False))) (''run'', ''r'', ''m'') =
   sum_list (map be_delta (entries_of (snd (budget_consume 1 (''run'', ''r'', ''m'') 2 None ''x'' None (empty_budget False)))
     (''run'', ''r'', ''m'')))"
  using entries_account_for_counter [OF budget_reach.charge [OF budget_reach.start]] by blast

end
