(* ===== verification/Runtime_Limits.thy ===== *)
theory Runtime_Limits
  imports Budgets
begin

text \<open>
  Where the limits of a run come from: \<open>apps/api/src/app/services/runtime_limits_service.py\<close>
  (sparse rows over code defaults, with sandbox overrides) and
  \<open>apps/api/src/app/runtime/budgets/resolver.py\<close>, which turns them into the limits the budgets
  enforce. A row holds an optional integer per field; an override is a JSON object.
\<close>

section \<open>Fields, defaults and rows\<close>

datatype runtime_field = WallTimeMsMax | MaxParallelTasks | MaxReplans | MaxTaskExecutions

datatype actor_field = LlmCallsMax | ToolCallsMax | ActorWallTimeMsMax

fun runtime_field_name :: "runtime_field \<Rightarrow> string" where
  "runtime_field_name WallTimeMsMax = ''wall_time_ms_max''"
| "runtime_field_name MaxParallelTasks = ''max_parallel_tasks''"
| "runtime_field_name MaxReplans = ''max_replans''"
| "runtime_field_name MaxTaskExecutions = ''max_task_executions''"

fun actor_field_name :: "actor_field \<Rightarrow> string" where
  "actor_field_name LlmCallsMax = ''llm_calls_max''"
| "actor_field_name ToolCallsMax = ''tool_calls_max''"
| "actor_field_name ActorWallTimeMsMax = ''wall_time_ms_max''"

fun RUNTIME_CODE_DEFAULTS :: "runtime_field \<Rightarrow> int option" where
  "RUNTIME_CODE_DEFAULTS WallTimeMsMax = Some 300000"
| "RUNTIME_CODE_DEFAULTS MaxParallelTasks = Some 1"
| "RUNTIME_CODE_DEFAULTS MaxReplans = Some 3"
| "RUNTIME_CODE_DEFAULTS MaxTaskExecutions = Some 100"

fun AGENT_CODE_DEFAULTS :: "actor_field \<Rightarrow> int option" where
  "AGENT_CODE_DEFAULTS LlmCallsMax = Some 10"
| "AGENT_CODE_DEFAULTS ToolCallsMax = Some 50"
| "AGENT_CODE_DEFAULTS ActorWallTimeMsMax = Some 300000"

fun ORCHESTRATOR_CODE_DEFAULTS :: "actor_field \<Rightarrow> int option" where
  "ORCHESTRATOR_CODE_DEFAULTS LlmCallsMax = Some 12"
| "ORCHESTRATOR_CODE_DEFAULTS ToolCallsMax = None"
| "ORCHESTRATOR_CODE_DEFAULTS ActorWallTimeMsMax = Some 300000"

record RuntimeLimits =
  rt_wall_time_ms_max :: "int option"
  rt_max_parallel_tasks :: "int option"
  rt_max_replans :: "int option"
  rt_max_task_executions :: "int option"

record ActorLimits =
  ac_llm_calls_max :: "int option"
  ac_tool_calls_max :: "int option"
  ac_wall_time_ms_max :: "int option"

fun runtime_get :: "RuntimeLimits \<Rightarrow> runtime_field \<Rightarrow> int option" where
  "runtime_get l WallTimeMsMax = rt_wall_time_ms_max l"
| "runtime_get l MaxParallelTasks = rt_max_parallel_tasks l"
| "runtime_get l MaxReplans = rt_max_replans l"
| "runtime_get l MaxTaskExecutions = rt_max_task_executions l"

definition runtime_of :: "(runtime_field \<Rightarrow> int option) \<Rightarrow> RuntimeLimits" where
  "runtime_of f = \<lparr>rt_wall_time_ms_max = f WallTimeMsMax, rt_max_parallel_tasks = f MaxParallelTasks,
     rt_max_replans = f MaxReplans, rt_max_task_executions = f MaxTaskExecutions\<rparr>"

fun actor_get :: "ActorLimits \<Rightarrow> actor_field \<Rightarrow> int option" where
  "actor_get l LlmCallsMax = ac_llm_calls_max l"
| "actor_get l ToolCallsMax = ac_tool_calls_max l"
| "actor_get l ActorWallTimeMsMax = ac_wall_time_ms_max l"

definition actor_of :: "(actor_field \<Rightarrow> int option) \<Rightarrow> ActorLimits" where
  "actor_of f = \<lparr>ac_llm_calls_max = f LlmCallsMax, ac_tool_calls_max = f ToolCallsMax,
     ac_wall_time_ms_max = f ActorWallTimeMsMax\<rparr>"

datatype limits_source = FromEntity | FromDefault | FromCode | FromSandbox

record ResolvedActorLimits =
  ra_own :: ActorLimits
  ra_effective :: ActorLimits
  ra_sources :: "actor_field \<Rightarrow> limits_source"

datatype actor_scope = ScopeAgentDefault | ScopeOrchestratorDefault | ScopeAgent | ScopeOrchestratorRole

record actor_row =
  aw_scope_type :: actor_scope
  aw_scope_ref :: string
  aw_values :: ActorLimits

record limits_db =
  ld_runtime :: "RuntimeLimits option"
  ld_actors :: "actor_row list"

section \<open>Resolution\<close>

definition valid_limit :: "bool \<Rightarrow> int option \<Rightarrow> bool" where
  "valid_limit allow_zero value =
     (case value of None \<Rightarrow> False | Some n \<Rightarrow> n \<ge> (if allow_zero then 0 else 1))"

definition override_value :: "json option \<Rightarrow> string \<Rightarrow> int option" where
  "override_value override field =
     (case override of
        Some (JObj d) \<Rightarrow> (case map_of d field of None \<Rightarrow> None | Some v \<Rightarrow> json_int v)
      | _ \<Rightarrow> None)"

text \<open>One field of \<open>_resolve_values\<close>: the row over the fallback, the override over both.\<close>

definition resolve_value :: "bool \<Rightarrow> int option \<Rightarrow> int option \<Rightarrow> int option \<Rightarrow> int option" where
  "resolve_value allow_zero fallback candidate override =
     (if valid_limit allow_zero override then override
      else if valid_limit allow_zero candidate then candidate else fallback)"

definition resolve_runtime :: "json option \<Rightarrow> limits_db \<Rightarrow> RuntimeLimits" where
  "resolve_runtime override s =
     runtime_of (\<lambda>f. resolve_value (f = MaxReplans) (RUNTIME_CODE_DEFAULTS f)
       (Option.bind (ld_runtime s) (\<lambda>row. runtime_get row f))
       (override_value override (runtime_field_name f)))"

definition update_runtime :: "RuntimeLimits \<Rightarrow> runtime_field set \<Rightarrow> limits_db \<Rightarrow> limits_db" where
  "update_runtime values fs s =
     (let row = (case ld_runtime s of None \<Rightarrow> runtime_of (\<lambda>_. None) | Some r \<Rightarrow> r)
      in s\<lparr>ld_runtime := Some (runtime_of (\<lambda>f. if f \<in> fs then runtime_get values f else runtime_get row f))\<rparr>)"

definition actor_row_of :: "actor_scope \<Rightarrow> string \<Rightarrow> limits_db \<Rightarrow> actor_row option" where
  "actor_row_of scope ref s =
     find (\<lambda>r. aw_scope_type r = scope \<and> aw_scope_ref r = strip ref) (ld_actors s)"

definition actor_from_row :: "actor_row option \<Rightarrow> ActorLimits" where
  "actor_from_row row = (case row of None \<Rightarrow> actor_of (\<lambda>_. None) | Some r \<Rightarrow> aw_values r)"

definition resolve_actor_field ::
    "int option \<Rightarrow> int option \<Rightarrow> int option \<Rightarrow> int option \<Rightarrow> int option \<times> limits_source" where
  "resolve_actor_field fallback own dflt override =
     (if valid_limit False override then (override, FromSandbox)
      else if valid_limit False own then (own, FromEntity)
      else if valid_limit False dflt then (dflt, FromDefault)
      else (fallback, FromCode))"

definition resolve_actor ::
    "actor_scope \<Rightarrow> string \<Rightarrow> (actor_field \<Rightarrow> int option) \<Rightarrow> json option \<Rightarrow> limits_db \<Rightarrow> ResolvedActorLimits" where
  "resolve_actor scope ref code_defaults override s =
     (let own_row = actor_row_of scope ref s;
          default_scope = (if scope = ScopeAgent then ScopeAgentDefault else ScopeOrchestratorDefault);
          default_row = actor_row_of default_scope ''global'' s;
          field = (\<lambda>f. resolve_actor_field (code_defaults f)
                     (Option.bind own_row (\<lambda>r. actor_get (aw_values r) f))
                     (Option.bind default_row (\<lambda>r. actor_get (aw_values r) f))
                     (override_value override (actor_field_name f)))
      in \<lparr>ra_own = actor_from_row own_row, ra_effective = actor_of (\<lambda>f. fst (field f)),
          ra_sources = (\<lambda>f. snd (field f))\<rparr>)"

definition resolve_agent :: "string \<Rightarrow> json option \<Rightarrow> limits_db \<Rightarrow> ResolvedActorLimits" where
  "resolve_agent slug override = resolve_actor ScopeAgent slug AGENT_CODE_DEFAULTS override"

definition resolve_orchestrator :: "string \<Rightarrow> json option \<Rightarrow> limits_db \<Rightarrow> ResolvedActorLimits" where
  "resolve_orchestrator role override = resolve_actor ScopeOrchestratorRole role ORCHESTRATOR_CODE_DEFAULTS override"

definition resolve_default ::
    "actor_scope \<Rightarrow> (actor_field \<Rightarrow> int option) \<Rightarrow> limits_db \<Rightarrow> ResolvedActorLimits" where
  "resolve_default scope code_defaults s =
     (let row = actor_row_of scope ''global'' s; own = actor_from_row row
      in \<lparr>ra_own = own,
          ra_effective = actor_of (\<lambda>f. resolve_value False (code_defaults f)
             (Option.bind row (\<lambda>r. actor_get (aw_values r) f)) None),
          ra_sources = (\<lambda>f. if actor_get own f \<noteq> None then FromDefault else FromCode)\<rparr>)"

datatype limits_error = ToolCallsForOrchestrator | DuplicateScope | NotAnObject

text \<open>
  \<open>update_actor\<close> looks the row up under the stripped reference and inserts it under the reference as
  given; the table has a unique key on scope and reference.
\<close>

definition update_actor ::
    "actor_scope \<Rightarrow> string \<Rightarrow> ActorLimits \<Rightarrow> actor_field set \<Rightarrow> limits_db \<Rightarrow> limits_error + limits_db" where
  "update_actor scope ref values fs s =
     (if scope \<in> {ScopeOrchestratorDefault, ScopeOrchestratorRole} \<and> ToolCallsMax \<in> fs
      then Inl ToolCallsForOrchestrator
      else
        let assign = (\<lambda>v. actor_of (\<lambda>f. if f \<in> fs then actor_get values f else actor_get v f)) in
        case actor_row_of scope ref s of
          Some _ \<Rightarrow>
            Inr (s\<lparr>ld_actors := map (\<lambda>r. if aw_scope_type r = scope \<and> aw_scope_ref r = strip ref
                                    then r\<lparr>aw_values := assign (aw_values r)\<rparr> else r) (ld_actors s)\<rparr>)
        | None \<Rightarrow>
            if list_ex (\<lambda>r. aw_scope_type r = scope \<and> aw_scope_ref r = ref) (ld_actors s)
            then Inl DuplicateScope
            else Inr (s\<lparr>ld_actors := ld_actors s @
                   [\<lparr>aw_scope_type = scope, aw_scope_ref = ref, aw_values = assign (actor_of (\<lambda>_. None))\<rparr>]\<rparr>))"

section \<open>The budget resolver\<close>

definition as_optional_int :: "int option \<Rightarrow> int option" where
  "as_optional_int value = (case value of None \<Rightarrow> None | Some n \<Rightarrow> if n > 0 then Some n else None)"

definition resolve_run :: "jobject option \<Rightarrow> limits_db \<Rightarrow> RunLimits" where
  "resolve_run sandbox s =
     (let limits = resolve_runtime (Option.bind sandbox (\<lambda>d. map_of d ''runtime_limits'')) s
      in \<lparr>rl_plan_revisions = as_optional_int (Some ((case rt_max_replans limits of None \<Rightarrow> 0 | Some n \<Rightarrow> n) + 1)),
          rl_task_attempts = as_optional_int (rt_max_task_executions limits),
          rl_agent_runs = None, rl_llm_calls = None, rl_tool_calls = None, rl_tokens_total = None,
          rl_retries = None,
          rl_wall_time_ms = as_optional_int (rt_wall_time_ms_max limits),
          rl_max_parallel_tasks =
            (case as_optional_int (rt_max_parallel_tasks limits) of None \<Rightarrow> Some 1 | Some n \<Rightarrow> Some n)\<rparr>)"

text \<open>
  The sandbox entry for a role: \<open>(sandbox.get("orchestrator_limits") or {}).get(role_key)\<close>, which
  raises when the entry is a non-empty value other than an object.
\<close>

definition role_override :: "string \<Rightarrow> jobject option \<Rightarrow> limits_error + json option" where
  "role_override role_key sandbox =
     (case Option.bind sandbox (\<lambda>d. map_of d ''orchestrator_limits'') of
        None \<Rightarrow> Inr None
      | Some (JObj d) \<Rightarrow> Inr (map_of d role_key)
      | Some v \<Rightarrow> if truthy v then Inl NotAnObject else Inr None)"

definition resolve_orchestrator_limits :: "string \<Rightarrow> jobject option \<Rightarrow> limits_db \<Rightarrow> limits_error + EntityLimits" where
  "resolve_orchestrator_limits role sandbox s =
     (let role_key = lower (strip role) in
      bindE (role_override role_key sandbox) (\<lambda>override.
        let limits = ra_effective (resolve_orchestrator role_key override s)
        in Inr \<lparr>el_plan_revisions = None, el_task_attempts = None, el_agent_runs = None,
             el_llm_calls = as_optional_int (ac_llm_calls_max limits),
             el_tool_calls = None, el_tokens_total = None, el_retries = None,
             el_wall_time_ms = as_optional_int (ac_wall_time_ms_max limits),
             el_max_parallel_tasks = None\<rparr>))"

section \<open>Properties\<close>

lemma resolve_value_pos:
  "fallback = Some d \<Longrightarrow> d \<ge> (if z then 0 else 1) \<Longrightarrow>
     \<exists>n. resolve_value z fallback c ov = Some n \<and> n \<ge> (if z then 0 else 1)"
  by (auto simp: resolve_value_def valid_limit_def split: option.splits if_splits)

text \<open>
  Every run is bounded: whatever the stored rows and the sandbox overrides contain (missing,
  negative, non-integer), the resolved limits of a run are present and positive for plan revisions,
  task attempts, wall time and parallel tasks.
\<close>

theorem run_limits_always_positive:
  "\<exists>p a w m. rl_plan_revisions (resolve_run sandbox s) = Some p \<and> 1 \<le> p
     \<and> rl_task_attempts (resolve_run sandbox s) = Some a \<and> 1 \<le> a
     \<and> rl_wall_time_ms (resolve_run sandbox s) = Some w \<and> 1 \<le> w
     \<and> rl_max_parallel_tasks (resolve_run sandbox s) = Some m \<and> 1 \<le> m"
proof -
  let ?o = "Option.bind sandbox (\<lambda>d. map_of d ''runtime_limits'')"
  have "\<exists>n. runtime_get (resolve_runtime ?o s) f = Some n \<and> n \<ge> (if f = MaxReplans then 0 else 1)" for f
  proof -
    obtain d where "RUNTIME_CODE_DEFAULTS f = Some d" "d \<ge> (if f = MaxReplans then 0 else 1)" by (cases f) auto
    then show ?thesis
      using resolve_value_pos [of _ d "f = MaxReplans"] by (cases f) (auto simp: resolve_runtime_def runtime_of_def)
  qed
  from this [of WallTimeMsMax] this [of MaxParallelTasks] this [of MaxReplans] this [of MaxTaskExecutions]
  show ?thesis by (auto simp: resolve_run_def Let_def as_optional_int_def)
qed

text \<open>
  Updating an actor's limits and resolving them again is a round trip: after a successful update
  of a stripped reference, every updated field with a positive value that no sandbox override replaces
  resolves to that value with the actor itself as its source, and other actors resolve as before.
\<close>

theorem updated_actor_limits_resolve:
  assumes "update_actor scope ref values fs s = Inr s'" and "strip ref = ref"
    and "f \<in> fs" and "actor_get values f = Some n" and "1 \<le> n"
    and "\<not> valid_limit False (override_value override (actor_field_name f))"
  shows "actor_get (ra_effective (resolve_actor scope ref code_defaults override s')) f = Some n
    \<and> ra_sources (resolve_actor scope ref code_defaults override s') f = FromEntity
    \<and> (\<forall>scope' ref'. (scope', strip ref') \<noteq> (scope, ref) \<longrightarrow> actor_row_of scope' ref' s' = actor_row_of scope' ref' s)"
proof -
  have get: "actor_get (actor_of g) f = g f" for g f by (cases f) (simp_all add: actor_of_def)
  have found: "\<exists>r. actor_row_of scope ref s' = Some r \<and> actor_get (aw_values r) f = Some n
      \<and> (\<forall>scope' ref'. (scope', strip ref') \<noteq> (scope, ref) \<longrightarrow> actor_row_of scope' ref' s' = actor_row_of scope' ref' s)"
  proof (cases "actor_row_of scope ref s")
    case None
    have app: "find P (xs @ [r]) = (case find P xs of None \<Rightarrow> if P r then Some r else None | Some x \<Rightarrow> Some x)"
      for P r and xs :: "actor_row list" by (induction xs) auto
    show ?thesis using assms None
      by (auto simp: update_actor_def actor_row_of_def Let_def app get split: if_splits option.splits)
  next
    case (Some r)
    let ?P = "\<lambda>sc rf r. aw_scope_type r = sc \<and> aw_scope_ref r = rf"
    let ?up = "\<lambda>r. if ?P scope ref r then r\<lparr>aw_values := actor_of (\<lambda>f. if f \<in> fs
         then actor_get values f else actor_get (aw_values r) f)\<rparr> else r"
    have mapped: "find (?P sc rf) (map ?up xs) = map_option ?up (find (?P sc rf) xs)" for sc rf and xs :: "actor_row list"
      by (induction xs) auto
    have s': "ld_actors s' = map ?up (ld_actors s)"
      using assms(1,2) Some by (auto simp: update_actor_def Let_def split: if_splits)
    have r: "?P scope ref r" using Some assms(2) by (auto simp: actor_row_of_def dest: find_SomeD)
    have other: "map_option ?up (find (?P sc rf) xs) = find (?P sc rf) xs"
      if "(sc, rf) \<noteq> (scope, ref)" for sc rf and xs :: "actor_row list"
      using that by (induction xs) auto
    show ?thesis
      using Some r assms(2-4) other unfolding actor_row_of_def s' mapped by (auto simp: get)
  qed
  then show ?thesis
    using assms(5,6) by (auto simp: resolve_actor_def resolve_actor_field_def valid_limit_def get Let_def)
qed

theorem updated_actor_limits_resolve_witness:
  "actor_get (ra_effective (resolve_actor ScopeAgent ''a'' AGENT_CODE_DEFAULTS None
     (projr (update_actor ScopeAgent ''a'' (actor_of (\<lambda>_. Some 7)) {LlmCallsMax} \<lparr>ld_runtime = None, ld_actors = []\<rparr>)))) LlmCallsMax = Some 7"
proof -
  let ?s = "\<lparr>ld_runtime = None, ld_actors = []\<rparr>"
  have u: "update_actor ScopeAgent ''a'' (actor_of (\<lambda>_. Some 7)) {LlmCallsMax} ?s =
      Inr (projr (update_actor ScopeAgent ''a'' (actor_of (\<lambda>_. Some 7)) {LlmCallsMax} ?s))"
    by (simp add: update_actor_def actor_row_of_def Let_def)
  show ?thesis
    using updated_actor_limits_resolve [OF u, of LlmCallsMax 7 None]
    by (simp add: strip_def is_space_def actor_of_def valid_limit_def override_value_def)
qed

end
