(* ===== verification/Entity_Ids.thy ===== *)
theory Entity_Ids
  imports Prelude
begin

text \<open>
  The stable entity ids of \<open>apps/api/src/app/runtime/entity_ids.py\<close>. Each is \<open>uuid5\<close> of a name
  built from a kind and its parts, joined with colons; \<open>uuid5\<close> (over the fixed namespace) is the
  argument \<^emph>\<open>h\<close> of the definitions. Parts that are numbers are rendered with \<open>str\<close>.
\<close>

definition entity_name :: "string \<Rightarrow> string list \<Rightarrow> string" where
  "entity_name kind parts = join '':'' (kind # parts)"

definition entity_id :: "(string \<Rightarrow> string) \<Rightarrow> string \<Rightarrow> string list \<Rightarrow> string" where
  "entity_id h kind parts = h (entity_name kind parts)"

definition planner_orchestrator_id :: "(string \<Rightarrow> string) \<Rightarrow> string \<Rightarrow> string" where
  "planner_orchestrator_id h run_id = entity_id h ''orchestrator'' [run_id]"

definition runtime_plan_id :: "(string \<Rightarrow> string) \<Rightarrow> string \<Rightarrow> string" where
  "runtime_plan_id h run_id = entity_id h ''plan'' [run_id]"

definition runtime_task_id :: "(string \<Rightarrow> string) \<Rightarrow> string \<Rightarrow> string \<Rightarrow> string" where
  "runtime_task_id h plan_id task_id = entity_id h ''task'' [plan_id, task_id]"

definition runtime_attempt_id :: "(string \<Rightarrow> string) \<Rightarrow> string \<Rightarrow> int \<Rightarrow> string" where
  "runtime_attempt_id h task_id n = entity_id h ''attempt'' [task_id, int_str n]"

definition attempt_id :: "(string \<Rightarrow> string) \<Rightarrow> string \<Rightarrow> int \<Rightarrow> string" where
  "attempt_id h task_id n = runtime_attempt_id h task_id n"

definition memory_orchestrator_id :: "(string \<Rightarrow> string) \<Rightarrow> string \<Rightarrow> string" where
  "memory_orchestrator_id h run_id = entity_id h ''memory-orchestrator'' [run_id]"

definition memory_preparation_orchestrator_id :: "(string \<Rightarrow> string) \<Rightarrow> string \<Rightarrow> string" where
  "memory_preparation_orchestrator_id h run_id = entity_id h ''memory-preparation-orchestrator'' [run_id]"

definition memory_component_entity_id :: "(string \<Rightarrow> string) \<Rightarrow> string \<Rightarrow> string \<Rightarrow> int \<Rightarrow> string" where
  "memory_component_entity_id h run_id component index =
     entity_id h ''memory-component'' [run_id, component, int_str index]"

definition planner_iteration_id :: "(string \<Rightarrow> string) \<Rightarrow> string \<Rightarrow> int \<Rightarrow> string" where
  "planner_iteration_id h run_id n = entity_id h ''planner-iteration'' [run_id, int_str n]"

definition step_id :: "(string \<Rightarrow> string) \<Rightarrow> string \<Rightarrow> int \<Rightarrow> string \<Rightarrow> string" where
  "step_id h iteration_id n task_id = entity_id h ''step'' [iteration_id, int_str n, task_id]"

definition agent_execution_id :: "(string \<Rightarrow> string) \<Rightarrow> string \<Rightarrow> string \<Rightarrow> int \<Rightarrow> string" where
  "agent_execution_id h iteration_id task_id n =
     entity_id h ''agent-execution'' [iteration_id, task_id, int_str n]"

definition checkpoint_id :: "(string \<Rightarrow> string) \<Rightarrow> string \<Rightarrow> string \<Rightarrow> string \<Rightarrow> string" where
  "checkpoint_id h run_id kind key = entity_id h ''checkpoint'' [run_id, kind, key]"

definition synthesis_run_id :: "(string \<Rightarrow> string) \<Rightarrow> string \<Rightarrow> int \<Rightarrow> string" where
  "synthesis_run_id h run_id n = entity_id h ''synthesis'' [run_id, int_str n]"

definition call_id :: "(string \<Rightarrow> string) \<Rightarrow> string \<Rightarrow> string \<Rightarrow> int \<Rightarrow> string" where
  "call_id h agent_id kind n = entity_id h kind [agent_id, int_str n]"

definition interaction_id :: "(string \<Rightarrow> string) \<Rightarrow> string \<Rightarrow> int \<Rightarrow> string" where
  "interaction_id h run_id n = entity_id h ''interaction'' [run_id, int_str n]"

section \<open>Distinct iterations have distinct ids\<close>

lemma nat_str_digits: "set (nat_str n) \<subseteq> char_of ` {48..57 :: nat}"
proof (induction n rule: nat_str.induct)
  case (1 n)
  then show ?case by (subst nat_str.simps) auto
qed

lemma nat_str_not_Nil [simp]: "nat_str n \<noteq> []"
  by (subst nat_str.simps) simp

lemma char_of_digit_inj:
  assumes "a < (10 :: nat)" and "b < 10" and "(char_of (48 + a) :: char) = char_of (48 + b)"
  shows "a = b"
proof -
  have "of_char (char_of (48 + a) :: char) = (of_char (char_of (48 + b) :: char) :: nat)"
    using assms(3) by simp
  then show ?thesis using assms(1,2) by (simp add: of_char_of)
qed

lemma nat_str_inj: "nat_str m = nat_str n \<Longrightarrow> m = n"
proof (induction m arbitrary: n rule: nat_str.induct)
  case (1 m)
  have long: "length (nat_str k) \<ge> 2" if "10 \<le> k" for k
    using that nat_str_not_Nil [of "k div 10"] by (subst nat_str.simps) (cases "nat_str (k div 10)", auto)
  have short: "length (nat_str k) = 1" if "k < 10" for k
    using that by (subst nat_str.simps) simp
  show ?case
  proof (cases "m < 10")
    case True
    then have "n < 10" using 1(2) long [of n] short [of m] by (metis not_le numeral_le_one_iff semiring_norm(69))
    with True have "(char_of (48 + m) :: char) = char_of (48 + n)"
      using 1(2) nat_str.simps [of m] nat_str.simps [of n] by simp
    then show ?thesis using True \<open>n < 10\<close> by (intro char_of_digit_inj)
  next
    case False
    then have "\<not> n < 10" using 1(2) long [of m] short [of n] by (metis not_le numeral_le_one_iff semiring_norm(69))
    with False have eq: "nat_str (m div 10) = nat_str (n div 10)" "(char_of (48 + m mod 10) :: char) = char_of (48 + n mod 10)"
      using 1(2) nat_str.simps [of m] nat_str.simps [of n] by simp_all
    have "m div 10 = n div 10" using 1(1) [OF False eq(1)] .
    moreover have "m mod 10 = n mod 10" using eq(2) by (intro char_of_digit_inj) simp_all
    ultimately show ?thesis by (metis div_mult_mod_eq)
  qed
qed

lemma int_str_inj:
  assumes "int_str m = int_str n" and "0 \<le> m" and "0 \<le> n"
  shows "m = n"
  using assms nat_str_inj [of "nat m" "nat n"] by (simp add: int_str_def)

lemma planner_iteration_id_inj:
  assumes "inj h" and "planner_iteration_id h run m = planner_iteration_id h run n" and "0 \<le> m" and "0 \<le> n"
  shows "m = n"
proof -
  have "entity_name ''planner-iteration'' [run, int_str m] = entity_name ''planner-iteration'' [run, int_str n]"
    using assms(1,2) by (auto simp: planner_iteration_id_def entity_id_def dest: injD)
  then show ?thesis using int_str_inj assms(3,4) by (simp add: entity_name_def)
qed

end
