(* ===== verification/Orchestrator.thy ===== *)
theory Orchestrator
  imports Plan_Sql Budgets Entity_Ids
begin

text \<open>
  The orchestration loop \<open>GraphOrchestrator\<close> of \<open>apps/api/src/app/runtime/orchestrator.py\<close>
  over the persisted plan store and the persisted budget.

  The planner and the task executor are the code outside the loop: they are arguments, functions of a
  world they may change (the planner answers a request with a patch or an exception, the executor a
  task with a result, a confirmation request or an exception). The identifiers of \<open>uuid5\<close>, the
  rendering of an exception and of a UUID as text, and the clock are arguments as well. What the loop
  does visibly is one journal: the observations it sends to its event sink and the events it yields, in
  order. The payload of an observation is left out, except its kind, its entity and its parent. An
  exception that leaves \<open>run\<close> is the result \<open>Raised\<close>.
\<close>

section \<open>Requests, outcomes and events\<close>

record PlanRequest =
  pr_goal :: string
  pr_available_agents :: "json list"
  pr_plan :: snapshot
  pr_completed_outputs :: "(string, jobject) dict"
  pr_available_artifacts :: "jobject list"
  pr_needs :: "(string \<times> need_row) list"
  pr_last_failure :: "TaskAttemptFailure option"
  pr_user_response :: "string option"
  pr_memory_context :: "json list"
  pr_trigger :: string

record planner_failure =
  pf_code :: string
  pf_message :: string

datatype exec_outcome =
    ExecResult AgentTaskResult
  | ExecConfirmation jobject
  | ExecTaskError string string bool jobject
  | ExecOther string string

datatype orch_event =
    PlannerIterationStart string int string
  | PlannerIterationEnd string int string string "string option"
  | StepStart string string int string
  | StepEnd string string int string string
  | AgentStart string string string
  | AgentEnd string string string string
  | RbacSnapshot string string
  | PlanCreated string int int PlanPatch
  | TaskStarted string int
  | TaskCompletedEvent string
  | TaskUnfulfillableEvent string TaskOutcome
  | TaskAttemptFailed string TaskAttemptFailure
  | ConfirmationRequired string jobject
  | PlanTerminal string "string option"
  | PlanStalled
  | MaxSteps

record observation =
  ob_type :: string
  ob_entity_type :: string
  ob_entity_id :: string
  ob_parent_type :: "string option"
  ob_parent_id :: "string option"
  ob_trigger :: "string option"

datatype journal_entry = Sunk observation | Yielded orch_event

record invocation_row =
  iv_id :: uuid
  iv_run_id :: uuid
  iv_plan_id :: uuid
  iv_trigger :: string
  iv_status :: string
  iv_revision_before :: int
  iv_revision_after :: "int option"
  iv_error :: "string option"
  iv_finished_at :: "int option"

text \<open>The constructor arguments of the orchestrator and of one run, with the code it calls.\<close>

record 'w env =
  ev_plan :: "'w \<Rightarrow> PlanRequest \<Rightarrow> (planner_failure + PlanPatch) \<times> 'w"
  ev_execute :: "'w \<Rightarrow> TaskRequest \<Rightarrow> exec_outcome \<times> 'w"
  ev_now :: "'w \<Rightarrow> int"
  ev_uuid5 :: "string \<Rightarrow> string"
  ev_uuid_str :: "uuid \<Rightarrow> string"
  ev_error :: "runtime_error \<Rightarrow> planner_failure"
  ev_str :: "json \<Rightarrow> string"
  ev_memory :: "string \<Rightarrow> json list"
  ev_max_attempts :: int
  ev_retry_delay :: int
  ev_has_sink :: bool
  ev_has_budget :: bool
  ev_plan_id :: uuid
  ev_goal :: string
  ev_agents :: "json list"
  ev_artifacts :: "json list"
  ev_max_steps :: nat
  ev_force_replan :: bool
  ev_user_response :: "string option"
  ev_limits :: "string \<Rightarrow> int option"
  ev_planner_memory :: "json list"

record 'w orch =
  oc_db :: db
  oc_budget :: budget_db
  oc_world :: 'w
  oc_uuids :: "nat \<Rightarrow> uuid"
  oc_drawn :: nat
  oc_invocations :: "invocation_row list"
  oc_journal :: "journal_entry list"
  oc_iteration :: int
  oc_active :: "string option"
  oc_active_type :: string
  oc_step :: int
  oc_open :: bool

text \<open>\<open>max(1, max_attempts)\<close> and \<open>max(1, retry_delay_seconds)\<close> of the constructor.\<close>

definition effective_max_attempts :: "'w env \<Rightarrow> int" where
  "effective_max_attempts e = max 1 (ev_max_attempts e)"

definition effective_retry_delay :: "'w env \<Rightarrow> int" where
  "effective_retry_delay e = max 1 (ev_retry_delay e)"

section \<open>Pure helpers\<close>

definition completed_outputs :: "snapshot \<Rightarrow> (string, jobject) dict" where
  "completed_outputs plan =
     concat (map (\<lambda>(tid, t). case sn_row t of
         None \<Rightarrow> []
       | Some r \<Rightarrow> (case tr_result r of
            None \<Rightarrow> []
          | Some res \<Rightarrow> if tr_status r = TaskCompleted then [(tid, ar_outputs res)] else []))
       (ss_tasks plan))"

text \<open>\<open>a or b\<close> on optional JSON values read from a dictionary\<close>

definition jget :: "jobject \<Rightarrow> string \<Rightarrow> json" where
  "jget d k = (case map_of d k of None \<Rightarrow> JNull | Some v \<Rightarrow> v)"

definition jor :: "json \<Rightarrow> json \<Rightarrow> json" where
  "jor a b = (if truthy a then a else b)"

definition input_artifact :: "(json \<Rightarrow> string) \<Rightarrow> json \<Rightarrow> jobject list" where
  "input_artifact str v =
     (case v of
        JObj item \<Rightarrow>
          let ref = (case jget item ''ref'' of JObj d \<Rightarrow> d | _ \<Rightarrow> item);
              either = (\<lambda>k. jor (jget ref k) (jget item k));
              artifact_id = strip (str (jor (either ''artifact_id'') (JStr [])))
          in if artifact_id = [] \<or> str (jor (either ''status'') (JStr ''active'')) = ''deleted''
             then []
             else [[(''artifact_id'', JStr artifact_id),
                    (''file_name'', jor (either ''file_name'') (JStr ''artifact'')),
                    (''content_type'', either ''content_type''),
                    (''size_bytes'', either ''size_bytes''),
                    (''snippet'', jor (jget item ''snippet'') (JStr [])),
                    (''snippet_status'', jor (jget item ''snippet_status'') (JStr ''missing'')),
                    (''readable'', JBool (truthy (jget item ''readable''))),
                    (''truncated'', JBool (truthy (jget item ''truncated'')))]]
      | _ \<Rightarrow> [])"

text \<open>The items \<open>*(value or [])\<close> unpacks; only objects among them matter below.\<close>

fun unpack_items :: "json \<Rightarrow> runtime_error + json list" where
  "unpack_items (JArr xs) = Inr xs"
| "unpack_items (JObj d) = Inr (map (\<lambda>kv. JStr (fst kv)) d)"
| "unpack_items (JStr s) = Inr (map (\<lambda>c. JStr [c]) s)"
| "unpack_items v = (if truthy v then Inl PyTypeError else Inr [])"

definition output_artifacts :: "jobject \<Rightarrow> runtime_error + jobject list" where
  "output_artifacts outputs =
     bindE (unpack_items (jget outputs ''artifacts'')) (\<lambda>xs.
     bindE (unpack_items (jget outputs ''attachments'')) (\<lambda>ys.
     Inr (concat (map (\<lambda>v. case v of
            JObj d \<Rightarrow> if truthy (jget d ''artifact_id'') \<and> jget d ''status'' \<noteq> JStr ''deleted'' then [d] else []
          | _ \<Rightarrow> []) (xs @ ys)))))"

definition artifact_key :: "(json \<Rightarrow> string) \<Rightarrow> jobject \<Rightarrow> string" where
  "artifact_key str d = strip (str (jor (jget d ''artifact_id'') (JStr [])))"

fun dedupe_artifacts :: "(json \<Rightarrow> string) \<Rightarrow> string list \<Rightarrow> jobject list \<Rightarrow> jobject list" where
  "dedupe_artifacts str seen [] = []"
| "dedupe_artifacts str seen (d # ds) =
     (let k = artifact_key str d in
      if k = [] \<or> k \<in> set seen then dedupe_artifacts str seen ds
      else d # dedupe_artifacts str (k # seen) ds)"

definition row_outputs :: "snap_task \<Rightarrow> jobject" where
  "row_outputs t = (case Option.bind (sn_row t) tr_result of None \<Rightarrow> [] | Some r \<Rightarrow> ar_outputs r)"

definition collect_artifacts :: "(json \<Rightarrow> string) \<Rightarrow> snapshot \<Rightarrow> json list \<Rightarrow> runtime_error + jobject list" where
  "collect_artifacts str plan inputs =
     foldE (\<lambda>acc t. bindE (output_artifacts (row_outputs (snd t))) (\<lambda>ds. Inr (acc @ ds)))
       (concat (map (input_artifact str) inputs)) (ss_tasks plan)"

definition available_artifacts :: "(json \<Rightarrow> string) \<Rightarrow> snapshot \<Rightarrow> json list \<Rightarrow> runtime_error + jobject list" where
  "available_artifacts str plan inputs =
     bindE (collect_artifacts str plan inputs) (\<lambda>ds. Inr (dedupe_artifacts str [] ds))"

definition declares_output :: "snap_task \<Rightarrow> string \<Rightarrow> bool" where
  "declares_output t key =
     (case sn_row t of None \<Rightarrow> False | Some r \<Rightarrow> list_ex (\<lambda>s. os_key s = key) (tr_expected_outputs r))"

definition has_declared_resolvers :: "snapshot \<Rightarrow> (string \<times> need_row) list \<Rightarrow> bool" where
  "has_declared_resolvers plan pending =
     list_all (\<lambda>(tid, need). case map_of (ss_tasks plan) tid of
         None \<Rightarrow> False
       | Some task \<Rightarrow>
           nr_need_key need \<noteq> [] \<and>
           list_ex (\<lambda>producer_id. case map_of (ss_tasks plan) producer_id of
               None \<Rightarrow> False | Some producer \<Rightarrow> declares_output producer (nr_need_key need))
             (sn_depends_on task)) pending"

section \<open>Journal and iterations\<close>

definition draw_uuid :: "'w orch \<Rightarrow> uuid \<times> 'w orch" where
  "draw_uuid st = (oc_uuids st (oc_drawn st), st\<lparr>oc_drawn := Suc (oc_drawn st)\<rparr>)"

definition yield_event :: "orch_event \<Rightarrow> 'w orch \<Rightarrow> 'w orch" where
  "yield_event ev st = st\<lparr>oc_journal := oc_journal st @ [Yielded ev]\<rparr>"

definition observe ::
    "'w env \<Rightarrow> string \<Rightarrow> string \<Rightarrow> string \<Rightarrow> string option \<Rightarrow> string option \<Rightarrow> string option \<Rightarrow> 'w orch \<Rightarrow> 'w orch" where
  "observe e ty entity_ty eid parent_ty parent trigger st =
     (if ty \<in> {''plan_created'', ''task_started'', ''task_completed'', ''task_unfulfillable''} then st
      else if \<not> ev_has_sink e then st
      else st\<lparr>oc_journal := oc_journal st @
        [Sunk \<lparr>ob_type = ty, ob_entity_type = entity_ty, ob_entity_id = eid, ob_parent_type = parent_ty,
               ob_parent_id = parent, ob_trigger = trigger\<rparr>]\<rparr>)"

definition close_active_iteration :: "string \<Rightarrow> string option \<Rightarrow> 'w orch \<Rightarrow> 'w orch" where
  "close_active_iteration status outcome st =
     (case oc_active st of
        None \<Rightarrow> st
      | Some i \<Rightarrow>
          if \<not> oc_open st then st
          else yield_event (PlannerIterationEnd i (oc_iteration st) (oc_active_type st) status outcome)
                 (st\<lparr>oc_open := False\<rparr>))"

datatype flow = Continue | Return | Raised runtime_error

definition root_run :: "snapshot \<Rightarrow> uuid" where
  "root_run plan = pl_root_run_id (ss_plan plan)"

definition orchestrator_of :: "'w env \<Rightarrow> uuid \<Rightarrow> string" where
  "orchestrator_of e run = planner_orchestrator_id (ev_uuid5 e) (ev_uuid_str e run)"

text \<open>The persisted charge of one unit against the run, when a budget service is configured.\<close>

definition charge_run :: "'w env \<Rightarrow> uuid \<Rightarrow> string \<Rightarrow> string \<Rightarrow> 'w orch \<Rightarrow> bool \<times> 'w orch" where
  "charge_run e run metric reason st =
     (if \<not> ev_has_budget e then (True, st)
      else let (d, b) = budget_consume run (''run'', ev_uuid_str e run, metric) 1 (ev_limits e metric)
                          reason None (oc_budget st)
           in (bd_allowed d, st\<lparr>oc_budget := b\<rparr>))"

definition upd_invocation :: "uuid \<Rightarrow> (invocation_row \<Rightarrow> invocation_row) \<Rightarrow> 'w orch \<Rightarrow> 'w orch" where
  "upd_invocation i f st =
     st\<lparr>oc_invocations := map (\<lambda>v. if iv_id v = i then f v else v) (oc_invocations st)\<rparr>"

definition start_invocation :: "'w env \<Rightarrow> uuid \<Rightarrow> uuid \<Rightarrow> string \<Rightarrow> int \<Rightarrow> 'w orch \<Rightarrow> 'w orch" where
  "start_invocation e i run trigger revision st =
     st\<lparr>oc_invocations := oc_invocations st @
          [\<lparr>iv_id = i, iv_run_id = run, iv_plan_id = ev_plan_id e, iv_trigger = trigger,
            iv_status = ''running'', iv_revision_before = revision, iv_revision_after = None,
            iv_error = None, iv_finished_at = None\<rparr>]\<rparr>"

section \<open>Planning\<close>

definition plan_needs :: "snapshot \<Rightarrow> (string \<times> need_row) list" where
  "plan_needs plan = concat (map (\<lambda>(tid, t). map (\<lambda>n. (tid, n)) (sn_needs t)) (ss_tasks plan))"

text \<open>
  The body of the \<open>try\<close> block shared by the initial plan and a revision: build the request, ask the
  planner, charge the revision budget and apply the patch. Any exception is the failure it returns;
  the world and the budget keep what was done before it. The decision is observed once the planner has
  answered.
\<close>

definition plan_and_apply ::
    "'w env \<Rightarrow> snapshot \<Rightarrow> string \<Rightarrow> string \<Rightarrow> TaskAttemptFailure option \<Rightarrow> string option
     \<Rightarrow> (string \<times> need_row) list \<Rightarrow> string \<Rightarrow> string \<Rightarrow> 'w orch
     \<Rightarrow> (planner_failure + PlanPatch) \<times> 'w orch" where
  "plan_and_apply e plan trigger reason last_failure user_response needs iteration_id invocation st =
     (case available_artifacts (ev_str e) plan (ev_artifacts e) of
        Inl err \<Rightarrow> (Inl (ev_error e err), st)
      | Inr artifacts \<Rightarrow>
          if ev_goal e = [] then (Inl (ev_error e ValidationError), st)
          else
            let request = \<lparr>pr_goal = ev_goal e, pr_available_agents = ev_agents e, pr_plan = plan,
                           pr_completed_outputs = completed_outputs plan,
                           pr_available_artifacts = artifacts, pr_needs = needs,
                           pr_last_failure = last_failure, pr_user_response = user_response,
                           pr_memory_context = ev_planner_memory e, pr_trigger = trigger\<rparr>;
                (answer, w) = ev_plan e (oc_world st) request;
                st1 = st\<lparr>oc_world := w\<rparr>
            in (case answer of
                  Inl f \<Rightarrow> (Inl f, st1)
                | Inr patch \<Rightarrow>
                    let st2 = observe e ''planner_decision'' ''planner_iteration'' iteration_id
                                (Some ''orchestrator'') (Some (orchestrator_of e (root_run plan))) (Some trigger) st1;
                        (allowed, st3) = charge_run e (root_run plan) ''plan_revisions'' reason st2
                    in if \<not> allowed then (Inl (ev_error e (BudgetError ''plan revision budget exceeded'')), st3)
                       else (case sql_apply_patch (ev_plan_id e) patch reason (Some invocation) (oc_db st3) of
                               Inl err \<Rightarrow> (Inl (ev_error e err), st3)
                             | Inr db' \<Rightarrow> (Inr patch, st3\<lparr>oc_db := db'\<rparr>))))"

definition failure_record :: "planner_failure \<Rightarrow> string \<Rightarrow> jobject" where
  "failure_record f trigger =
     [(''code'', JStr (pf_code f)), (''message'', JStr (pf_message f)), (''trigger'', JStr trigger)]"

text \<open>The exception handler both planning blocks share, up to the closing events.\<close>

definition planning_failed ::
    "'w env \<Rightarrow> uuid \<Rightarrow> string \<Rightarrow> string \<Rightarrow> string \<Rightarrow> uuid \<Rightarrow> planner_failure \<Rightarrow> 'w orch \<Rightarrow> runtime_error + 'w orch" where
  "planning_failed e run trigger iteration_id chk invocation f st =
     (let orch = orchestrator_of e run;
          st1 = upd_invocation invocation (\<lambda>v. v\<lparr>iv_status := ''failed'', iv_error := Some (pf_message f),
                   iv_finished_at := Some (ev_now e (oc_world st))\<rparr>) st
      in bindE (sql_mark_failed (ev_plan_id e) (failure_record f trigger) (oc_db st1)) (\<lambda>db'.
           let st2 = st1\<lparr>oc_db := db'\<rparr>;
               st3 = observe e ''planner_invocation_finished'' ''planner_invocation'' (ev_uuid_str e invocation)
                       (Some ''orchestrator'') (Some orch) (Some trigger) st2;
               (err_id, st4) = draw_uuid st3;
               st5 = observe e ''error'' ''error'' (ev_uuid_str e err_id)
                       (Some ''planner_iteration'') (Some iteration_id) (Some trigger) st4
           in Inr (observe e ''orchestrator_checkpoint_finished'' ''orchestrator_checkpoint'' chk
                     (Some ''orchestrator'') (Some orch) (Some trigger) st5)))"

definition planning_done ::
    "'w env \<Rightarrow> uuid \<Rightarrow> string \<Rightarrow> string \<Rightarrow> string \<Rightarrow> string \<Rightarrow> string \<Rightarrow> uuid \<Rightarrow> PlanPatch \<Rightarrow> 'w orch \<Rightarrow> 'w orch" where
  "planning_done e run trigger applied iteration_id executor_id chk invocation patch st =
     (let orch = orchestrator_of e run;
          st1 = upd_invocation invocation (\<lambda>v. v\<lparr>iv_status := ''completed'',
                   iv_revision_after := Some (pp_expected_revision patch + 1),
                   iv_finished_at := Some (ev_now e (oc_world st))\<rparr>) st;
          st2 = observe e ''planner_invocation_finished'' ''planner_invocation'' (ev_uuid_str e invocation)
                  (Some ''orchestrator'') (Some orch) (Some trigger) st1;
          st3 = observe e applied ''plan'' (ev_uuid_str e (ev_plan_id e))
                  (Some ''agent_execution'') (Some executor_id) (Some trigger) st2;
          st4 = (if pp_decision patch = AskUser
                 then (let (i, st') = draw_uuid st3
                       in observe e ''waiting_input'' ''interaction'' (ev_uuid_str e i)
                            (Some ''planner_iteration'') (Some iteration_id) (Some trigger) st')
                 else st3)
      in observe e ''orchestrator_checkpoint_finished'' ''orchestrator_checkpoint'' chk
           (Some ''orchestrator'') (Some orch) (Some trigger) st4)"

definition revise ::
    "'w env \<Rightarrow> string \<Rightarrow> TaskAttemptFailure option \<Rightarrow> 'w orch \<Rightarrow> (runtime_error + string option) \<times> 'w orch" where
  "revise e reason last_failure st =
     (case sql_snapshot (ev_plan_id e) (oc_db st) of
        Inl err \<Rightarrow> (Inl err, st)
      | Inr current \<Rightarrow>
          let run = root_run current; run_s = ev_uuid_str e run; orch = orchestrator_of e run;
              n = oc_iteration st + 1;
              it = planner_iteration_id (ev_uuid5 e) run_s n;
              stp = step_id (ev_uuid5 e) it 1 ''replan'';
              exe = agent_execution_id (ev_uuid5 e) it ''planner'' n;
              st0 = st\<lparr>oc_iteration := n, oc_active := Some it, oc_active_type := ''replan'',
                       oc_step := 2, oc_open := True\<rparr>;
              (invocation, st1) = draw_uuid st0;
              chk = checkpoint_id (ev_uuid5 e) run_s ''planner'' (ev_uuid_str e invocation);
              st2 = observe e ''orchestrator_checkpoint_started'' ''orchestrator_checkpoint'' chk
                      (Some ''orchestrator'') (Some orch) (Some reason) st1;
              st3 = start_invocation e invocation run reason (pl_revision (ss_plan current)) st2;
              st4 = observe e ''planner_invocation_started'' ''planner_invocation'' (ev_uuid_str e invocation)
                      (Some ''orchestrator'') (Some orch) (Some reason) st3;
              st5 = observe e ''planner_iteration_start'' ''planner_iteration'' it
                      (Some ''orchestrator'') (Some orch) (Some reason) st4;
              st6 = observe e ''step_start'' ''step'' stp (Some ''planner_iteration'') (Some it) (Some reason) st5;
              st7 = observe e ''agent_start'' ''agent_execution'' exe (Some ''step'') (Some stp) (Some reason) st6;
              st8 = observe e ''rbac_snapshot'' ''agent_execution'' exe (Some ''step'') (Some stp) (Some reason) st7;
              finish = (\<lambda>s. observe e ''step_end'' ''step'' stp (Some ''planner_iteration'') (Some it) (Some reason)
                          (observe e ''agent_end'' ''agent_execution'' exe (Some ''step'') (Some stp) (Some reason) s))
          in (case plan_and_apply e current reason reason last_failure
                     (if reason = ''user_input'' then ev_user_response e else None) (plan_needs current)
                     it (ev_uuid_str e invocation) st8 of
                (Inl f, st9) \<Rightarrow>
                  (case planning_failed e run reason it chk invocation f st9 of
                     Inl err \<Rightarrow> (Inl err, st9)
                   | Inr st10 \<Rightarrow> (Inr (Some (pf_message f)), finish st10))
              | (Inr patch, st9) \<Rightarrow>
                  (Inr None, finish (planning_done e run reason ''plan_patch_applied'' it exe chk invocation patch st9))))"

text \<open>
  After a revision: an exception leaves the run, a non-empty error message ends it as failed, otherwise
  the run goes on.
\<close>

definition after_revise :: "(runtime_error + string option) \<times> 'w orch \<Rightarrow> flow \<times> 'w orch" where
  "after_revise r =
     (case fst r of
        Inl err \<Rightarrow> (Raised err, snd r)
      | Inr msg \<Rightarrow>
          if opt_truthy msg
          then (Return, yield_event (PlanTerminal ''failed'' msg)
                          (close_active_iteration ''failed'' (Some ''plan_patch_invalid'') (snd r)))
          else (Continue, snd r))"

definition initial_plan :: "'w env \<Rightarrow> snapshot \<Rightarrow> 'w orch \<Rightarrow> flow \<times> 'w orch" where
  "initial_plan e plan st =
     (let run = root_run plan; run_s = ev_uuid_str e run; orch = orchestrator_of e run;
          (invocation, st1) = draw_uuid st;
          chk = checkpoint_id (ev_uuid5 e) run_s ''planner'' (ev_uuid_str e invocation);
          st2 = observe e ''orchestrator_checkpoint_started'' ''orchestrator_checkpoint'' chk
                  (Some ''orchestrator'') (Some orch) (Some ''initial'') st1;
          st3 = start_invocation e invocation run ''initial'' (pl_revision (ss_plan plan)) st2;
          st4 = observe e ''planner_invocation_started'' ''planner_invocation'' (ev_uuid_str e invocation)
                  (Some ''orchestrator'') (Some orch) (Some ''initial'') st3;
          n = oc_iteration st;
          it = planner_iteration_id (ev_uuid5 e) run_s n;
          stp = step_id (ev_uuid5 e) it 1 ''plan'';
          exe = agent_execution_id (ev_uuid5 e) it ''planner'' 1;
          st5 = st4\<lparr>oc_active := Some it, oc_active_type := ''decision'', oc_step := 2, oc_open := True\<rparr>;
          st6 = yield_event (RbacSnapshot exe stp)
                  (yield_event (AgentStart exe stp ''planner'')
                    (yield_event (StepStart stp it 1 ''plan'')
                      (yield_event (PlannerIterationStart it n ''decision'') st5)))
      in (case plan_and_apply e plan ''initial'' ''initial_plan'' None None [] it
                 (ev_uuid_str e invocation) st6 of
            (Inl f, st7) \<Rightarrow>
              (case planning_failed e run ''initial'' it chk invocation f st7 of
                 Inl err \<Rightarrow> (Raised err, st7)
               | Inr st8 \<Rightarrow>
                   (Return, yield_event (PlanTerminal ''failed'' (Some (pf_message f)))
                      (close_active_iteration ''failed'' (Some ''plan_patch_invalid'')
                        (yield_event (StepEnd stp it 1 ''failed'' ''plan_patch_invalid'')
                          (yield_event (AgentEnd exe stp ''planner'' ''failed'') st8)))))
          | (Inr patch, st7) \<Rightarrow>
              (Continue,
               yield_event (PlanCreated exe (pl_revision (ss_plan plan)) (pp_expected_revision patch + 1) patch)
                 (yield_event (StepEnd stp it 1 ''completed'' ''success'')
                   (yield_event (AgentEnd exe stp ''planner'' ''completed'')
                     (planning_done e run ''initial'' ''plan_created'' it exe chk invocation patch st7))))))"

section \<open>Task execution\<close>

text \<open>The outputs of the dependencies that have a result, in dependency order.\<close>

definition dependency_outputs :: "snapshot \<Rightarrow> string \<Rightarrow> (string, string \<times> jobject \<times> jobject) dict" where
  "dependency_outputs plan tid =
     fold (\<lambda>dep d. case Option.bind (Option.bind (map_of (ss_tasks plan) dep) sn_row) tr_result of
             None \<Rightarrow> d
           | Some r \<Rightarrow> AList.update dep (ar_summary r, ar_outputs r, ar_evidence r) d)
       (case map_of (ss_tasks plan) tid of None \<Rightarrow> [] | Some t \<Rightarrow> sn_depends_on t) []"

definition resolved_need_json :: "need_row \<Rightarrow> json" where
  "resolved_need_json n =
     JObj [(''ref'', JStr (str_or (nr_ref n) (nr_need_key n))), (''key'', JStr (nr_need_key n)),
           (''value'', nr_resolved_value n),
           (''resolver_task_id'', case nr_resolver_task_id n of None \<Rightarrow> JNull | Some t \<Rightarrow> JStr t)]"

definition task_request :: "'w env \<Rightarrow> snapshot \<Rightarrow> task_row \<Rightarrow> runtime_error + TaskRequest" where
  "task_request e plan task =
     (let tid = tr_task_id task;
          needs = (case map_of (ss_tasks plan) tid of None \<Rightarrow> [] | Some t \<Rightarrow> sn_needs t);
          specs = map need_spec_of_row needs
      in if tid = [] \<or> tr_executor task = [] \<or> tr_intent task = [] \<or> tr_instructions task = []
            \<or> \<not> list_all NeedSpec_ok specs \<or> \<not> list_all TaskOutputSpec_ok (tr_expected_outputs task)
         then Inl ValidationError
         else Inr \<lparr>rq_task_id = tid, rq_executor = tr_executor task, rq_intent = tr_intent task,
                   rq_instructions = tr_instructions task,
                   rq_inputs = AList.update ''resolved_needs''
                     (JArr (map resolved_need_json (filter (\<lambda>n. nr_status n = ReqResolved) needs))) (tr_inputs task),
                   rq_needs = specs, rq_checkpoint = tr_checkpoint task,
                   rq_dependency_outputs = dependency_outputs plan tid,
                   rq_memory_context = ev_memory e (tr_intent task @ '' '' @ tr_instructions task),
                   rq_expected_outputs = tr_expected_outputs task\<rparr>)"

definition attempt_failure :: "exec_outcome \<Rightarrow> TaskAttemptFailure option" where
  "attempt_failure x =
     (case x of
        ExecTaskError code message retryable details \<Rightarrow>
          Some \<lparr>tf_code = code, tf_message = str_or message ''task execution failed'',
                tf_retryable = retryable, tf_timed_out = False, tf_details = details\<rparr>
      | ExecOther code message \<Rightarrow>
          Some \<lparr>tf_code = code, tf_message = str_or message ''task execution failed'',
                tf_retryable = True, tf_timed_out = False, tf_details = []\<rparr>
      | _ \<Rightarrow> None)"

text \<open>The retry delay in seconds: the configured one, or what the failure asks for within 1 and 30.\<close>

definition retry_delay :: "'w env \<Rightarrow> TaskAttemptFailure \<Rightarrow> int" where
  "retry_delay e f =
     (case map_of (tf_details f) ''retry_after_ms'' of
        None \<Rightarrow> effective_retry_delay e
      | Some v \<Rightarrow>
          (case json_int v of
             None \<Rightarrow> effective_retry_delay e
           | Some ms \<Rightarrow> if ms > 0 then max 1 (min 30 ((ms + 999) div 1000)) else effective_retry_delay e))"

definition outcome_name :: "TaskOutcome \<Rightarrow> string" where
  "outcome_name o' = (case o' of OutCompleted \<Rightarrow> ''completed'' | OutNeedsDependency \<Rightarrow> ''needs_dependency''
                        | OutUnfulfillable \<Rightarrow> ''unfulfillable'')"

definition status_name :: "PlanStatus \<Rightarrow> string" where
  "status_name s = (case s of PlanDraft \<Rightarrow> ''draft'' | PlanActive \<Rightarrow> ''active''
      | PlanWaitingInput \<Rightarrow> ''waiting_input'' | PlanCompleted \<Rightarrow> ''completed''
      | PlanFailed \<Rightarrow> ''failed'' | PlanCancelled \<Rightarrow> ''cancelled'')"

text \<open>A confirmation gate: the task is paused and the run ends waiting.\<close>

definition confirmation_branch ::
    "'w env \<Rightarrow> task_row \<Rightarrow> string \<Rightarrow> int \<Rightarrow> string \<Rightarrow> string \<Rightarrow> jobject \<Rightarrow> 'w orch \<Rightarrow> flow \<times> 'w orch" where
  "confirmation_branch e task it n stp exe confirmation st =
     (let tid = tr_task_id task in
      case sql_pause_task_for_confirmation (ev_plan_id e) tid confirmation (ev_now e (oc_world st)) (oc_db st) of
        Inl err \<Rightarrow> (Raised err, st)
      | Inr db' \<Rightarrow>
          let st1 = observe e ''task_paused'' ''task'' tid (Some ''plan'') (Some (ev_uuid_str e (ev_plan_id e)))
                      (Some ''waiting_confirmation'') (st\<lparr>oc_db := db'\<rparr>);
              (i, st2) = draw_uuid st1;
              st3 = yield_event (StepEnd stp it n ''waiting_confirmation'' ''waiting_confirmation'')
                      (yield_event (AgentEnd exe stp (tr_executor task) ''waiting_confirmation'')
                        (yield_event (ConfirmationRequired (ev_uuid_str e i) confirmation) st2))
          in (Return, yield_event (PlanTerminal ''waiting_input'' None)
                (close_active_iteration ''waiting_confirmation'' (Some ''waiting_confirmation'') st3)))"

text \<open>A technical failure: the attempt is recorded, and without a retry the planner is asked again.\<close>

definition failure_branch ::
    "'w env \<Rightarrow> uuid \<Rightarrow> task_row \<Rightarrow> string \<Rightarrow> int \<Rightarrow> string \<Rightarrow> string \<Rightarrow> string \<Rightarrow> TaskAttemptFailure \<Rightarrow> 'w orch \<Rightarrow> flow \<times> 'w orch" where
  "failure_branch e run task it n stp exe chk f st =
     (let tid = tr_task_id task; orch = orchestrator_of e run;
          now = ev_now e (oc_world st) in
      if tf_code f = [] then (Raised ValidationError, st)
      else
        case sql_record_failure (ev_plan_id e) tid f (Some (now + retry_delay e f)) (effective_max_attempts e) now (oc_db st) of
          Inl err \<Rightarrow> (Raised err, st)
        | Inr db' \<Rightarrow>
            let st1 = observe e ''attempt_failed'' ''attempt'' (attempt_id (ev_uuid5 e) tid (tr_attempts task))
                        (Some ''task'') (Some tid) (Some ''technical_failure'') (st\<lparr>oc_db := db'\<rparr>);
                st2 = observe e ''orchestrator_checkpoint_finished'' ''orchestrator_checkpoint'' chk
                        (Some ''orchestrator'') (Some orch) (Some ''technical_failure'') st1;
                st3 = yield_event (TaskAttemptFailed tid f)
                        (yield_event (StepEnd stp it n ''failed'' ''technical_failure'')
                          (yield_event (AgentEnd exe stp (tr_executor task) ''failed'') st2));
                st4 = st3\<lparr>oc_step := oc_step st3 + 1\<rparr>
            in if \<not> tf_retryable f \<or> tr_attempts task \<ge> effective_max_attempts e
               then after_revise (revise e ''technical_failure'' (Some f)
                      (close_active_iteration ''failed'' (Some ''technical_failure'') st4))
               else (Continue, st4))"

definition result_branch ::
    "'w env \<Rightarrow> uuid \<Rightarrow> task_row \<Rightarrow> string \<Rightarrow> int \<Rightarrow> string \<Rightarrow> string \<Rightarrow> string \<Rightarrow> AgentTaskResult \<Rightarrow> 'w orch \<Rightarrow> flow \<times> 'w orch" where
  "result_branch e run task it n stp exe chk result st =
     (let tid = tr_task_id task; orch = orchestrator_of e run; name = outcome_name (ar_outcome result);
          plan_s = ev_uuid_str e (ev_plan_id e) in
      case sql_apply_result (ev_plan_id e) tid result (oc_db st) of
        Inl err \<Rightarrow> (Raised err, st)
      | Inr db' \<Rightarrow>
          let st1 = observe e (if ar_outcome result = OutCompleted then ''task_completed'' else ''status'')
                      ''task'' tid (Some ''plan'') (Some plan_s) (Some name) (st\<lparr>oc_db := db'\<rparr>);
              st2 = observe e ''attempt_succeeded'' ''attempt'' (attempt_id (ev_uuid5 e) tid (tr_attempts task))
                      (Some ''task'') (Some tid) None st1;
              st3 = observe e ''orchestrator_checkpoint_finished'' ''orchestrator_checkpoint'' chk
                      (Some ''orchestrator'') (Some orch) (Some name) st2;
              st4 = yield_event (if ar_outcome result = OutCompleted then TaskCompletedEvent tid
                                 else TaskUnfulfillableEvent tid (ar_outcome result))
                      (yield_event (StepEnd stp it n name name)
                        (yield_event (AgentEnd exe stp (tr_executor task) name) st3));
              st5 = st4\<lparr>oc_step := oc_step st4 + 1\<rparr>
          in if ar_outcome result = OutCompleted \<and> tr_on_success task = OnReplan
             then after_revise (revise e ''task_completed'' None
                    (close_active_iteration ''completed'' (Some ''replan'') st5))
             else if ar_outcome result \<noteq> OutCompleted
             then after_revise (revise e name None (close_active_iteration name (Some name) st5))
             else (Continue, st5))"

definition execute_claimed :: "'w env \<Rightarrow> task_row \<Rightarrow> 'w orch \<Rightarrow> flow \<times> 'w orch" where
  "execute_claimed e task st =
     (case oc_active st of
        None \<Rightarrow> (Raised NoActiveIteration, st)
      | Some it \<Rightarrow>
          (case sql_snapshot (ev_plan_id e) (oc_db st) of
             Inl err \<Rightarrow> (Raised err, st)
           | Inr plan \<Rightarrow>
               (case task_request e plan task of
                  Inl err \<Rightarrow> (Raised err, st)
                | Inr request \<Rightarrow>
                    let run = root_run plan; run_s = ev_uuid_str e run; orch = orchestrator_of e run;
                        tid = tr_task_id task; n = oc_step st; att = tr_attempts task;
                        chk = checkpoint_id (ev_uuid5 e) run_s ''task'' (tid @ '':'' @ int_str att);
                        exe = agent_execution_id (ev_uuid5 e) it tid att;
                        stp = step_id (ev_uuid5 e) it n tid;
                        st1 = observe e ''orchestrator_checkpoint_started'' ''orchestrator_checkpoint'' chk
                                (Some ''orchestrator'') (Some orch) None st;
                        st2 = observe e ''task_started'' ''task'' tid (Some ''plan'')
                                (Some (ev_uuid_str e (ev_plan_id e))) None st1;
                        st3 = observe e ''attempt_started'' ''attempt'' (attempt_id (ev_uuid5 e) tid att)
                                (Some ''task'') (Some tid) None st2;
                        (allowed, st4) = charge_run e run ''task_attempts'' ''task_started'' st3
                    in if \<not> allowed then (Raised (BudgetError ''task attempt budget exceeded''), st4)
                       else
                         let st5 = yield_event (AgentStart exe stp (tr_executor task))
                                     (yield_event (StepStart stp it n ''call_agent'')
                                       (yield_event (TaskStarted tid att) st4));
                             (outcome, w) = ev_execute e (oc_world st5) request;
                             st6 = st5\<lparr>oc_world := w\<rparr>
                         in (case outcome of
                               ExecResult result \<Rightarrow> result_branch e run task it n stp exe chk result st6
                             | ExecConfirmation payload \<Rightarrow> confirmation_branch e task it n stp exe payload st6
                             | _ \<Rightarrow> failure_branch e run task it n stp exe chk (the (attempt_failure outcome)) st6))))"

section \<open>The loop\<close>

definition pending_needs :: "snapshot \<Rightarrow> (string \<times> need_row) list" where
  "pending_needs plan = filter (\<lambda>(tid, n). nr_required n \<and> nr_status n \<noteq> ReqResolved) (plan_needs plan)"

definition unresolvable_failure :: "(string \<times> need_row) list \<Rightarrow> jobject" where
  "unresolvable_failure pending =
     [(''code'', JStr ''unresolvable_dependency''),
      (''message'', JStr ''planner did not declare a producer or request user input for pending needs''),
      (''needs'', JArr (map (\<lambda>(tid, n). JObj [(''task_id'', JStr tid), (''key'', JStr (nr_need_key n))]) pending))]"

text \<open>No task is ready: pending needs are handed to the planner, otherwise the plan is stalled.\<close>

definition nothing_ready :: "'w env \<Rightarrow> snapshot \<Rightarrow> 'w orch \<Rightarrow> flow \<times> 'w orch" where
  "nothing_ready e plan st =
     (let pending = pending_needs plan in
      if pending = []
      then (Return, yield_event PlanStalled (close_active_iteration ''stalled'' None st))
      else
        (case after_revise (revise e ''pending_need'' None
                (close_active_iteration ''needs_dependency'' (Some ''needs_dependency'') st)) of
           (Continue, st1) \<Rightarrow>
             (case sql_snapshot (ev_plan_id e) (oc_db st1) of
                Inl err \<Rightarrow> (Raised err, st1)
              | Inr revised \<Rightarrow>
                  if pl_status (ss_plan revised) = PlanActive \<and> \<not> has_declared_resolvers revised pending
                  then (case sql_mark_failed (ev_plan_id e) (unresolvable_failure pending) (oc_db st1) of
                          Inl err \<Rightarrow> (Raised err, st1)
                        | Inr db' \<Rightarrow>
                            let (i, st2) = draw_uuid (st1\<lparr>oc_db := db'\<rparr>);
                                st3 = observe e ''error'' ''error'' (ev_uuid_str e i) (Some ''planner_iteration'')
                                        (oc_active st2) (Some ''pending_need'') st2
                            in (Return, yield_event
                                  (PlanTerminal ''failed'' (Some ''planner did not declare a producer or request user input for pending needs''))
                                  (close_active_iteration ''failed'' (Some ''unresolvable_dependency'') st3)))
                  else (Continue, st1))
         | other \<Rightarrow> other))"

definition terminal_plan :: "PlanStatus \<Rightarrow> bool" where
  "terminal_plan s \<longleftrightarrow> s \<in> {PlanCompleted, PlanWaitingInput, PlanFailed, PlanCancelled}"

definition loop_body :: "'w env \<Rightarrow> 'w orch \<Rightarrow> flow \<times> 'w orch" where
  "loop_body e st =
     (case sql_snapshot (ev_plan_id e) (oc_db st) of
        Inl err \<Rightarrow> (Raised err, st)
      | Inr plan \<Rightarrow>
          if terminal_plan (pl_status (ss_plan plan))
          then (let name = status_name (pl_status (ss_plan plan))
                in (Return, yield_event (PlanTerminal name None) (close_active_iteration name None st)))
          else
            case sql_claim_ready (ev_plan_id e) (oc_db st) of
              Inl err \<Rightarrow> (Raised err, st)
            | Inr (db', claimed) \<Rightarrow>
                let st1 = st\<lparr>oc_db := db'\<rparr>
                in (case claimed of
                      None \<Rightarrow> nothing_ready e plan st1
                    | Some task \<Rightarrow> execute_claimed e task st1))"

fun run_loop :: "'w env \<Rightarrow> nat \<Rightarrow> 'w orch \<Rightarrow> flow \<times> 'w orch" where
  "run_loop e 0 st = (Return, yield_event MaxSteps (close_active_iteration ''max_steps'' None st))"
| "run_loop e (Suc k) st =
     (case loop_body e st of
        (Continue, st1) \<Rightarrow> run_loop e k st1
      | other \<Rightarrow> other)"

text \<open>Before the loop: a forced revision, the initial plan, or the iteration of a resumed plan.\<close>

definition prepare :: "'w env \<Rightarrow> 'w orch \<Rightarrow> flow \<times> 'w orch" where
  "prepare e st =
     (case sql_snapshot (ev_plan_id e) (oc_db st) of
        Inl err \<Rightarrow> (Raised err, st)
      | Inr plan \<Rightarrow>
          if ev_force_replan e then after_revise (revise e ''user_input'' None st)
          else if ss_tasks plan = [] then initial_plan e plan st
          else
            let it = planner_iteration_id (ev_uuid5 e) (ev_uuid_str e (root_run plan)) (oc_iteration st)
            in (Continue, yield_event (PlannerIterationStart it (oc_iteration st) ''execution'')
                  (st\<lparr>oc_active := Some it, oc_active_type := ''execution'', oc_step := 1, oc_open := True\<rparr>)))"

definition initial_orch :: "db \<Rightarrow> budget_db \<Rightarrow> 'w \<Rightarrow> (nat \<Rightarrow> uuid) \<Rightarrow> 'w orch" where
  "initial_orch db b w us =
     \<lparr>oc_db = db, oc_budget = b, oc_world = w, oc_uuids = us, oc_drawn = 0, oc_invocations = [],
      oc_journal = [], oc_iteration = 1, oc_active = None, oc_active_type = ''execution'', oc_step = 1,
      oc_open = False\<rparr>"

definition orchestrate :: "'w env \<Rightarrow> 'w orch \<Rightarrow> flow \<times> 'w orch" where
  "orchestrate e st =
     (case prepare e st of
        (Continue, st1) \<Rightarrow> run_loop e (ev_max_steps e) st1
      | other \<Rightarrow> other)"

end
