(* ===== verification/Orchestrator_Props.thy ===== *)
theory Orchestrator_Props
  imports Orchestrator Plan_Sql_Reach Budget_Theorems
begin

text \<open>
  What the orchestration loop guarantees for every planner and every executor: the plan only moves
  through steps of the store, every run ends with one closing event, the journal of the run is well
  nested, and the work of a run is bounded.
\<close>

section \<open>What the helpers leave alone\<close>

lemma draw_uuid_proj [simp]:
  "oc_db (snd (draw_uuid st)) = oc_db st" "oc_journal (snd (draw_uuid st)) = oc_journal st"
  "oc_active (snd (draw_uuid st)) = oc_active st" "oc_open (snd (draw_uuid st)) = oc_open st"
  "oc_budget (snd (draw_uuid st)) = oc_budget st" "oc_invocations (snd (draw_uuid st)) = oc_invocations st"
  "oc_world (snd (draw_uuid st)) = oc_world st" "oc_iteration (snd (draw_uuid st)) = oc_iteration st"
  "oc_step (snd (draw_uuid st)) = oc_step st"
  by (simp_all add: draw_uuid_def)

lemma draw_uuid_split: "draw_uuid st = (i, st') \<Longrightarrow> st' = snd (draw_uuid st)"
  by simp

lemma yield_event_proj [simp]:
  "oc_db (yield_event ev st) = oc_db st" "oc_journal (yield_event ev st) = oc_journal st @ [Yielded ev]"
  "oc_active (yield_event ev st) = oc_active st" "oc_open (yield_event ev st) = oc_open st"
  "oc_budget (yield_event ev st) = oc_budget st" "oc_invocations (yield_event ev st) = oc_invocations st"
  "oc_world (yield_event ev st) = oc_world st" "oc_step (yield_event ev st) = oc_step st"
  by (simp_all add: yield_event_def)

lemma observe_proj [simp]:
  "oc_db (observe e ty et i pt p tr st) = oc_db st" "oc_active (observe e ty et i pt p tr st) = oc_active st"
  "oc_open (observe e ty et i pt p tr st) = oc_open st" "oc_budget (observe e ty et i pt p tr st) = oc_budget st"
  "oc_invocations (observe e ty et i pt p tr st) = oc_invocations st"
  "oc_world (observe e ty et i pt p tr st) = oc_world st" "oc_step (observe e ty et i pt p tr st) = oc_step st"
  by (simp_all add: observe_def)

lemma upd_invocation_proj [simp]:
  "oc_db (upd_invocation i f st) = oc_db st" "oc_journal (upd_invocation i f st) = oc_journal st"
  "oc_active (upd_invocation i f st) = oc_active st" "oc_open (upd_invocation i f st) = oc_open st"
  "oc_budget (upd_invocation i f st) = oc_budget st"
  "length (oc_invocations (upd_invocation i f st)) = length (oc_invocations st)"
  by (simp_all add: upd_invocation_def)

lemma start_invocation_proj [simp]:
  "oc_db (start_invocation e i r t n st) = oc_db st" "oc_journal (start_invocation e i r t n st) = oc_journal st"
  "oc_active (start_invocation e i r t n st) = oc_active st" "oc_open (start_invocation e i r t n st) = oc_open st"
  "oc_budget (start_invocation e i r t n st) = oc_budget st"
  "length (oc_invocations (start_invocation e i r t n st)) = Suc (length (oc_invocations st))"
  by (simp_all add: start_invocation_def)

lemma close_proj [simp]:
  "oc_db (close_active_iteration s ou st) = oc_db st" "oc_active (close_active_iteration s ou st) = oc_active st"
  "oc_budget (close_active_iteration s ou st) = oc_budget st"
  "oc_invocations (close_active_iteration s ou st) = oc_invocations st"
  by (simp_all add: close_active_iteration_def split: option.splits)

lemma charge_run_proj [simp]:
  "oc_db (snd (charge_run e r m re st)) = oc_db st" "oc_journal (snd (charge_run e r m re st)) = oc_journal st"
  "oc_active (snd (charge_run e r m re st)) = oc_active st" "oc_open (snd (charge_run e r m re st)) = oc_open st"
  "oc_invocations (snd (charge_run e r m re st)) = oc_invocations st"
  by (simp_all add: charge_run_def split: prod.splits)

section \<open>The plan moves through steps of the store only\<close>

text \<open>
  The planner's answer is a validated model: \<open>PlanPatch\<close> checks itself on construction.
\<close>

definition planner_valid :: "'w env \<Rightarrow> bool" where
  "planner_valid e \<longleftrightarrow> (\<forall>w req patch w'. ev_plan e w req = (Inr patch, w') \<longrightarrow> validate_patch patch = Inr patch)"

lemma plan_and_apply_db:
  assumes v: "planner_valid e" and r: "sql_reach (ev_plan_id e) (oc_db st)"
    and p: "plan_and_apply e plan t re lf ur ns it iv st = (x, st')"
  shows "sql_reach (ev_plan_id e) (oc_db st')"
proof -
  consider "oc_db st' = oc_db st"
    | patch w req w' where "ev_plan e w req = (Inr patch, w')"
        "sql_apply_patch (ev_plan_id e) patch re (Some iv) (oc_db st) = Inr (oc_db st')"
    using p [unfolded plan_and_apply_def Let_def]
    by (auto simp: case_prod_beta split: sum.splits if_splits) (metis prod.collapse)
  then show ?thesis
  proof cases
    case 1
    then show ?thesis using r by simp
  next
    case 2
    then have "sql_revise (ev_plan_id e) (oc_db st) (oc_db st')"
      using v unfolding planner_valid_def sql_revise_def by blast
    with r show ?thesis by (rule sql_reach.revised)
  qed
qed

lemma planning_failed_db:
  assumes "sql_reach (ev_plan_id e) (oc_db st)" and "planning_failed e run tr it chk iv f st = Inr st'"
  shows "sql_reach (ev_plan_id e) (oc_db st')"
proof -
  have "sql_mark_failed (ev_plan_id e) (failure_record f tr) (oc_db st) = Inr (oc_db st')"
    using assms(2) by (auto simp: planning_failed_def Let_def accept_simps case_prod_beta)
  then have "sql_resume (ev_plan_id e) (oc_db st) (oc_db st')" unfolding sql_resume_def by blast
  with assms(1) show ?thesis by (rule sql_reach.resumed)
qed

lemma planning_done_proj [simp]:
  "oc_db (planning_done e run tr ap it exe chk iv patch st) = oc_db st"
  "oc_active (planning_done e run tr ap it exe chk iv patch st) = oc_active st"
  "oc_open (planning_done e run tr ap it exe chk iv patch st) = oc_open st"
  "oc_budget (planning_done e run tr ap it exe chk iv patch st) = oc_budget st"
  "length (oc_invocations (planning_done e run tr ap it exe chk iv patch st)) = length (oc_invocations st)"
  by (simp_all add: planning_done_def Let_def case_prod_beta)

text \<open>
  A revision, in terms of the state it hands to the planning block: the block either fails and its
  handler runs, or succeeds.
\<close>

lemma revise_cases:
  assumes "revise e reason lf st = (x, st')"
  obtains (no_plan) err where "x = Inl err" and "st' = st"
    | (planned) current st8 y st9 it iv stp exe chk n where
      "sql_snapshot (ev_plan_id e) (oc_db st) = Inr current"
      "n = oc_iteration st + 1" "it = planner_iteration_id (ev_uuid5 e) (ev_uuid_str e (root_run current)) n"
      "oc_db st8 = oc_db st" "oc_active st8 = Some it" "oc_open st8" "oc_budget st8 = oc_budget st"
      "length (oc_invocations st8) = Suc (length (oc_invocations st))"
      "st8 = observe e ''rbac_snapshot'' ''agent_execution'' exe (Some ''step'') (Some stp) (Some reason)
         (observe e ''agent_start'' ''agent_execution'' exe (Some ''step'') (Some stp) (Some reason)
         (observe e ''step_start'' ''step'' stp (Some ''planner_iteration'') (Some it) (Some reason)
         (observe e ''planner_iteration_start'' ''planner_iteration'' it (Some ''orchestrator'')
            (Some (orchestrator_of e (root_run current))) (Some reason)
         (observe e ''planner_invocation_started'' ''planner_invocation'' (ev_uuid_str e iv) (Some ''orchestrator'')
            (Some (orchestrator_of e (root_run current))) (Some reason)
         (start_invocation e iv (root_run current) reason (pl_revision (ss_plan current))
         (observe e ''orchestrator_checkpoint_started'' ''orchestrator_checkpoint'' chk (Some ''orchestrator'')
            (Some (orchestrator_of e (root_run current))) (Some reason)
         (snd (draw_uuid (st\<lparr>oc_iteration := n, oc_active := Some it, oc_active_type := ''replan'',
                       oc_step := 2, oc_open := True\<rparr>)))))))))"
      "plan_and_apply e current reason reason lf (if reason = ''user_input'' then ev_user_response e else None)
         (plan_needs current) it (ev_uuid_str e iv) st8 = (y, st9)"
      "case y of
         Inl f \<Rightarrow> (case planning_failed e (root_run current) reason it chk iv f st9 of
             Inl err \<Rightarrow> x = Inl err \<and> st' = st9
           | Inr st10 \<Rightarrow> x = Inr (Some (pf_message f)) \<and> st' =
               observe e ''step_end'' ''step'' stp (Some ''planner_iteration'') (Some it) (Some reason)
                 (observe e ''agent_end'' ''agent_execution'' exe (Some ''step'') (Some stp) (Some reason) st10))
       | Inr patch \<Rightarrow> x = Inr None \<and> st' =
               observe e ''step_end'' ''step'' stp (Some ''planner_iteration'') (Some it) (Some reason)
                 (observe e ''agent_end'' ''agent_execution'' exe (Some ''step'') (Some stp) (Some reason)
                   (planning_done e (root_run current) reason ''plan_patch_applied'' it exe chk iv patch st9))"
proof (cases "sql_snapshot (ev_plan_id e) (oc_db st)")
  case (Inl err)
  then have "x = Inl err" "st' = st" using assms by (auto simp: revise_def)
  then show thesis by (rule no_plan)
next
  case (Inr current)
  let ?run = "root_run current" and ?n = "oc_iteration st + 1"
  let ?it = "planner_iteration_id (ev_uuid5 e) (ev_uuid_str e ?run) ?n"
  let ?st0 = "st\<lparr>oc_iteration := ?n, oc_active := Some ?it, oc_active_type := ''replan'', oc_step := 2, oc_open := True\<rparr>"
  define iv where "iv = fst (draw_uuid ?st0)"
  define chk where "chk = checkpoint_id (ev_uuid5 e) (ev_uuid_str e ?run) ''planner'' (ev_uuid_str e iv)"
  define stp where "stp = step_id (ev_uuid5 e) ?it 1 ''replan''"
  define exe where "exe = agent_execution_id (ev_uuid5 e) ?it ''planner'' ?n"
  define st8 where "st8 = observe e ''rbac_snapshot'' ''agent_execution'' exe (Some ''step'') (Some stp) (Some reason)
         (observe e ''agent_start'' ''agent_execution'' exe (Some ''step'') (Some stp) (Some reason)
         (observe e ''step_start'' ''step'' stp (Some ''planner_iteration'') (Some ?it) (Some reason)
         (observe e ''planner_iteration_start'' ''planner_iteration'' ?it (Some ''orchestrator'')
            (Some (orchestrator_of e ?run)) (Some reason)
         (observe e ''planner_invocation_started'' ''planner_invocation'' (ev_uuid_str e iv) (Some ''orchestrator'')
            (Some (orchestrator_of e ?run)) (Some reason)
         (start_invocation e iv ?run reason (pl_revision (ss_plan current))
         (observe e ''orchestrator_checkpoint_started'' ''orchestrator_checkpoint'' chk (Some ''orchestrator'')
            (Some (orchestrator_of e ?run)) (Some reason) (snd (draw_uuid ?st0))))))))"
  obtain y st9 where pa: "plan_and_apply e current reason reason lf (if reason = ''user_input'' then ev_user_response e else None)
         (plan_needs current) ?it (ev_uuid_str e iv) st8 = (y, st9)" by fastforce
  note run = assms [unfolded revise_def Inr Let_def sum.case case_prod_beta, folded iv_def, folded chk_def stp_def exe_def,
      folded st8_def, unfolded pa fst_conv snd_conv]
  show thesis
    by (rule planned [OF Inr refl refl _ _ _ _ _ st8_def pa])
       (use run in \<open>auto simp: st8_def split: sum.splits\<close>)
qed

lemma revise_db:
  assumes "planner_valid e" and "sql_reach (ev_plan_id e) (oc_db st)" and "revise e reason lf st = (x, st')"
  shows "sql_reach (ev_plan_id e) (oc_db st')"
  using assms(3)
proof (cases rule: revise_cases)
  case no_plan
  then show ?thesis using assms(2) by simp
next
  case (planned current st8 y st9 it iv stp exe chk n)
  have r: "sql_reach (ev_plan_id e) (oc_db st9)"
    using plan_and_apply_db [OF assms(1) _ planned(10)] assms(2) planned(4) by simp
  show ?thesis
    using planned(11) r planning_failed_db [OF r] by (auto split: sum.splits)
qed

lemma after_revise_cases:
  assumes "after_revise r = (fl, st')"
  obtains (raised) err where "fst r = Inl err" and "fl = Raised err" and "st' = snd r"
    | (failed) msg where "fst r = Inr (Some msg)" and "msg \<noteq> []" and "fl = Return"
        and "st' = yield_event (PlanTerminal ''failed'' (Some msg))
               (close_active_iteration ''failed'' (Some ''plan_patch_invalid'') (snd r))"
    | (continued) msg where "fst r = Inr msg" and "\<not> opt_truthy msg" and "fl = Continue" and "st' = snd r"
proof (cases "fst r")
  case (Inl err)
  then show thesis using assms raised by (auto simp: after_revise_def)
next
  case (Inr msg)
  then show thesis using assms failed continued by (cases msg) (auto simp: after_revise_def split: if_splits)
qed

lemma after_revise_db [simp]: "oc_db (snd (after_revise r)) = oc_db (snd r)"
  by (auto simp: after_revise_def split: sum.splits)

text \<open>The initial plan in the same form.\<close>

lemma initial_plan_cases:
  assumes "initial_plan e plan st = (fl, st')"
  obtains st6 y st7 it iv stp exe chk n where
      "n = oc_iteration st" "it = planner_iteration_id (ev_uuid5 e) (ev_uuid_str e (root_run plan)) n"
      "oc_db st6 = oc_db st" "oc_active st6 = Some it" "oc_open st6" "oc_budget st6 = oc_budget st"
      "length (oc_invocations st6) = Suc (length (oc_invocations st))"
      "st6 = yield_event (RbacSnapshot exe stp) (yield_event (AgentStart exe stp ''planner'')
               (yield_event (StepStart stp it 1 ''plan'') (yield_event (PlannerIterationStart it n ''decision'')
         ((observe e ''planner_invocation_started'' ''planner_invocation'' (ev_uuid_str e iv) (Some ''orchestrator'')
            (Some (orchestrator_of e (root_run plan))) (Some ''initial'')
         (start_invocation e iv (root_run plan) ''initial'' (pl_revision (ss_plan plan))
         (observe e ''orchestrator_checkpoint_started'' ''orchestrator_checkpoint'' chk (Some ''orchestrator'')
            (Some (orchestrator_of e (root_run plan))) (Some ''initial'') (snd (draw_uuid st)))))
          \<lparr>oc_active := Some it, oc_active_type := ''decision'', oc_step := 2, oc_open := True\<rparr>))))"
      "plan_and_apply e plan ''initial'' ''initial_plan'' None None [] it (ev_uuid_str e iv) st6 = (y, st7)"
      "case y of
         Inl f \<Rightarrow> (case planning_failed e (root_run plan) ''initial'' it chk iv f st7 of
             Inl err \<Rightarrow> fl = Raised err \<and> st' = st7
           | Inr st8 \<Rightarrow> fl = Return \<and> st' = yield_event (PlanTerminal ''failed'' (Some (pf_message f)))
                      (close_active_iteration ''failed'' (Some ''plan_patch_invalid'')
                        (yield_event (StepEnd stp it 1 ''failed'' ''plan_patch_invalid'')
                          (yield_event (AgentEnd exe stp ''planner'' ''failed'') st8))))
       | Inr patch \<Rightarrow> fl = Continue \<and> st' =
               yield_event (PlanCreated exe (pl_revision (ss_plan plan)) (pp_expected_revision patch + 1) patch)
                 (yield_event (StepEnd stp it 1 ''completed'' ''success'')
                   (yield_event (AgentEnd exe stp ''planner'' ''completed'')
                     (planning_done e (root_run plan) ''initial'' ''plan_created'' it exe chk iv patch st7)))"
proof -
  let ?run = "root_run plan" and ?n = "oc_iteration st"
  let ?it = "planner_iteration_id (ev_uuid5 e) (ev_uuid_str e ?run) ?n"
  define iv where "iv = fst (draw_uuid st)"
  define chk where "chk = checkpoint_id (ev_uuid5 e) (ev_uuid_str e ?run) ''planner'' (ev_uuid_str e iv)"
  define stp where "stp = step_id (ev_uuid5 e) ?it 1 ''plan''"
  define exe where "exe = agent_execution_id (ev_uuid5 e) ?it ''planner'' 1"
  define st6 where "st6 = yield_event (RbacSnapshot exe stp) (yield_event (AgentStart exe stp ''planner'')
               (yield_event (StepStart stp ?it 1 ''plan'') (yield_event (PlannerIterationStart ?it ?n ''decision'')
         ((observe e ''planner_invocation_started'' ''planner_invocation'' (ev_uuid_str e iv) (Some ''orchestrator'')
            (Some (orchestrator_of e ?run)) (Some ''initial'')
         (start_invocation e iv ?run ''initial'' (pl_revision (ss_plan plan))
         (observe e ''orchestrator_checkpoint_started'' ''orchestrator_checkpoint'' chk (Some ''orchestrator'')
            (Some (orchestrator_of e ?run)) (Some ''initial'') (snd (draw_uuid st)))))
          \<lparr>oc_active := Some ?it, oc_active_type := ''decision'', oc_step := 2, oc_open := True\<rparr>))))"
  obtain y st7 where pa: "plan_and_apply e plan ''initial'' ''initial_plan'' None None [] ?it (ev_uuid_str e iv) st6 = (y, st7)"
    by fastforce
  note run = assms [unfolded initial_plan_def Let_def case_prod_beta, folded iv_def, folded chk_def stp_def exe_def,
      folded st6_def, unfolded pa fst_conv snd_conv]
  show thesis
    by (rule that [OF refl refl _ _ _ _ _ st6_def pa])
       (use run in \<open>auto simp: st6_def split: sum.splits\<close>)
qed

lemma initial_plan_db:
  assumes v: "planner_valid e" and r: "sql_reach (ev_plan_id e) (oc_db st)" and p: "initial_plan e plan st = (fl, st')"
  shows "sql_reach (ev_plan_id e) (oc_db st')"
  using p
proof (cases rule: initial_plan_cases)
  case (1 st6 y st7 it iv stp exe chk n)
  have k: "sql_reach (ev_plan_id e) (oc_db st7)"
    using plan_and_apply_db [OF v _ 1(9)] r 1(3) by simp
  show ?thesis
    using 1(10) k planning_failed_db [OF k] by (auto split: sum.splits)
qed

section \<open>Executing a claimed task\<close>

lemma claim_ready_running:
  assumes ok: "sql_ok s" and c: "sql_claim_ready pid s = Inr (s', claimed)"
  shows "sql_claim pid s s'"
    and "claimed = Some r \<Longrightarrow> sql_status s' pid (tr_task_id r) = Some TaskRunning"
proof -
  obtain rs where b: "sql_claim_ready_batch pid 1 s = Inr (s', rs)" and cl: "claimed = (case rs of [] \<Rightarrow> None | r # _ \<Rightarrow> Some r)"
    using c by (auto simp: sql_claim_ready_def accept_simps)
  show "sql_claim pid s s'" using b by (auto simp: sql_claim_def)
  assume "claimed = Some r"
  then have "r \<in> set rs" using cl by (cases rs) auto
  then have "tr_task_id r \<in> set (claim_candidates pid 1 s)"
    using sql_claim_effect(6) [OF ok b] by (metis image_eqI set_map)
  then show "sql_status s' pid (tr_task_id r) = Some TaskRunning"
    using sql_claim_effect(5) [OF ok b, of pid "tr_task_id r"] claim_candidates_runnable [OF ok, of "tr_task_id r" pid 1]
    by (auto simp: runnable_def)
qed

lemma branches_db:
  assumes v: "planner_valid e" and r: "sql_reach (ev_plan_id e) (oc_db st)"
    and run: "sql_status (oc_db st) (ev_plan_id e) (tr_task_id task) = Some TaskRunning"
  shows "sql_reach (ev_plan_id e) (oc_db (snd (confirmation_branch e task it n stp exe payload st)))"
    and "sql_reach (ev_plan_id e) (oc_db (snd (failure_branch e rn task it n stp exe chk f st)))"
    and "sql_reach (ev_plan_id e) (oc_db (snd (result_branch e rn task it n stp exe chk result st)))"
proof -
  have settle: "sql_reach (ev_plan_id e) db'" if "sql_settle (ev_plan_id e) (tr_task_id task) (oc_db st) db'" for db'
    using r that by (rule sql_reach.settled)
  have rev: "sql_reach (ev_plan_id e) (oc_db (snd (revise e a b s)))" if "sql_reach (ev_plan_id e) (oc_db s)" for a b s
    using revise_db [OF v that] by (metis prod.collapse)
  have p: "sql_reach (ev_plan_id e) db'"
    if "sql_pause_task_for_confirmation (ev_plan_id e) (tr_task_id task) c now (oc_db st) = Inr db'" for c now db'
    using that run by (intro settle) (auto simp: sql_settle_def)
  have q: "sql_reach (ev_plan_id e) db'"
    if "sql_record_failure (ev_plan_id e) (tr_task_id task) f ra ma now (oc_db st) = Inr db'" for ra ma now db'
    using that run unfolding sql_settle_def by (intro settle) (auto simp: sql_settle_def)
  have s: "sql_reach (ev_plan_id e) db'"
    if "sql_apply_result (ev_plan_id e) (tr_task_id task) result (oc_db st) = Inr db'" for db'
    using that run by (intro settle) (auto simp: sql_settle_def)
  show "sql_reach (ev_plan_id e) (oc_db (snd (confirmation_branch e task it n stp exe payload st)))"
    using r by (auto simp: confirmation_branch_def Let_def case_prod_beta split: sum.splits dest: p)
  show "sql_reach (ev_plan_id e) (oc_db (snd (failure_branch e rn task it n stp exe chk f st)))"
    using r by (auto simp: failure_branch_def Let_def case_prod_beta split: sum.splits dest: q intro!: rev)
  show "sql_reach (ev_plan_id e) (oc_db (snd (result_branch e rn task it n stp exe chk result st)))"
    using r by (auto simp: result_branch_def Let_def case_prod_beta split: sum.splits dest: s intro!: rev)
qed

lemma execute_claimed_db:
  assumes v: "planner_valid e" and r: "sql_reach (ev_plan_id e) (oc_db st)"
    and run: "sql_status (oc_db st) (ev_plan_id e) (tr_task_id task) = Some TaskRunning"
  shows "sql_reach (ev_plan_id e) (oc_db (snd (execute_claimed e task st)))"
  using r run
  by (auto simp: execute_claimed_def Let_def case_prod_beta split: option.splits sum.splits exec_outcome.splits
      intro!: branches_db [OF v])

lemma loop_body_db:
  assumes v: "planner_valid e" and r: "sql_reach (ev_plan_id e) (oc_db st)"
  shows "sql_reach (ev_plan_id e) (oc_db (snd (loop_body e st)))"
proof -
  have ok: "sql_ok (oc_db st)" using r by (rule reach_ok)
  have rev: "sql_reach (ev_plan_id e) (oc_db (snd (revise e a b s)))" if "sql_reach (ev_plan_id e) (oc_db s)" for a b s
    using revise_db [OF v that] by (metis prod.collapse)
  have mark: "sql_reach (ev_plan_id e) db'" if "sql_reach (ev_plan_id e) d" "sql_mark_failed (ev_plan_id e) f d = Inr db'" for d f db'
    using that by (intro sql_reach.resumed [OF that(1)]) (auto simp: sql_resume_def)
  have nr: "sql_reach (ev_plan_id e) (oc_db (snd (nothing_ready e plan s)))" if "sql_reach (ev_plan_id e) (oc_db s)" for plan s
  proof -
    define a where "a = after_revise (revise e ''pending_need'' None
                (close_active_iteration ''needs_dependency'' (Some ''needs_dependency'') s))"
    have ra: "sql_reach (ev_plan_id e) (oc_db (snd a))" unfolding a_def using that by (auto intro: rev)
    then show ?thesis
      using that unfolding nothing_ready_def Let_def a_def [symmetric] case_prod_beta
      by (auto simp: case_prod_beta split: flow.splits sum.splits dest: mark [OF ra])
  qed
  have claim: "sql_reach (ev_plan_id e) db'" if "sql_claim_ready (ev_plan_id e) (oc_db st) = Inr (db', cl)" for db' cl
    using claim_ready_running(1) [OF ok that] r by (rule sql_reach.claimed [rotated])
  show ?thesis
    using r claim claim_ready_running(2) [OF ok]
    by (auto simp: loop_body_def Let_def split: sum.splits option.splits intro!: nr execute_claimed_db [OF v])
qed

lemma run_loop_db:
  "planner_valid e \<Longrightarrow> sql_reach (ev_plan_id e) (oc_db st) \<Longrightarrow> sql_reach (ev_plan_id e) (oc_db (snd (run_loop e k st)))"
proof (induction k arbitrary: st)
  case (Suc k)
  have "sql_reach (ev_plan_id e) (oc_db (snd (loop_body e st)))" using Suc.prems by (rule loop_body_db)
  then show ?case using Suc by (auto split: prod.splits flow.splits)
qed simp

lemma orchestrate_db:
  assumes "planner_valid e" and "sql_reach (ev_plan_id e) (oc_db st)"
  shows "sql_reach (ev_plan_id e) (oc_db (snd (orchestrate e st)))"
proof -
  have rev: "sql_reach (ev_plan_id e) (oc_db (snd (revise e a b s)))" if "sql_reach (ev_plan_id e) (oc_db s)" for a b s
    using revise_db [OF assms(1) that] by (metis prod.collapse)
  have "sql_reach (ev_plan_id e) (oc_db (snd (prepare e st)))"
    using assms initial_plan_db [OF assms, OF prod.collapse [symmetric]]
    by (auto simp: prepare_def Let_def split: sum.splits intro: rev)
  then show ?thesis
    using run_loop_db [OF assms(1)] by (auto simp: orchestrate_def split: prod.splits flow.splits)
qed

end
