(* ===== verification/Orchestrator_Journal.thy ===== *)
theory Orchestrator_Journal
  imports Orchestrator_Props
begin

text \<open>
  The journal of a run of the orchestrator, read by an acceptor of well-nested scopes: a planner
  iteration contains steps, a step contains agent executions, and one closing event ends the journal
  when every scope has been left.
\<close>

section \<open>The acceptor\<close>

datatype frame = InIteration string | InStep string | InExecution string

datatype scope = Scopes "frame list" | Finished

fun enter_scope :: "frame \<Rightarrow> frame list \<Rightarrow> scope \<Rightarrow> scope option" where
  "enter_scope f outer (Scopes stack) = (if take 1 stack = outer then Some (Scopes (f # stack)) else None)"
| "enter_scope f outer Finished = None"

fun leave_scope :: "frame \<Rightarrow> scope \<Rightarrow> scope option" where
  "leave_scope f (Scopes (g # stack)) = (if f = g then Some (Scopes stack) else None)"
| "leave_scope f _ = None"

fun stay_in_scope :: "scope \<Rightarrow> scope option" where
  "stay_in_scope (Scopes stack) = Some (Scopes stack)"
| "stay_in_scope Finished = None"

fun finish_scope :: "scope \<Rightarrow> scope option" where
  "finish_scope (Scopes []) = Some Finished"
| "finish_scope _ = None"

definition scan_observation :: "observation \<Rightarrow> scope \<Rightarrow> scope option" where
  "scan_observation ob =
     (let parent = (case ob_parent_id ob of None \<Rightarrow> [] | Some p \<Rightarrow> p) in
      if ob_type ob = ''planner_iteration_start'' then enter_scope (InIteration (ob_entity_id ob)) []
      else if ob_type ob = ''step_start'' then enter_scope (InStep (ob_entity_id ob)) [InIteration parent]
      else if ob_type ob = ''agent_start'' then enter_scope (InExecution (ob_entity_id ob)) [InStep parent]
      else if ob_type ob = ''agent_end'' then leave_scope (InExecution (ob_entity_id ob))
      else if ob_type ob = ''step_end'' then leave_scope (InStep (ob_entity_id ob))
      else if ob_type ob = ''planner_iteration_end'' then leave_scope (InIteration (ob_entity_id ob))
      else stay_in_scope)"

fun scan_event :: "orch_event \<Rightarrow> scope \<Rightarrow> scope option" where
  "scan_event (PlannerIterationStart it _ _) = enter_scope (InIteration it) []"
| "scan_event (PlannerIterationEnd it _ _ _ _) = leave_scope (InIteration it)"
| "scan_event (StepStart s it _ _) = enter_scope (InStep s) [InIteration it]"
| "scan_event (StepEnd s _ _ _ _) = leave_scope (InStep s)"
| "scan_event (AgentStart x s _) = enter_scope (InExecution x) [InStep s]"
| "scan_event (AgentEnd x _ _ _) = leave_scope (InExecution x)"
| "scan_event (PlanTerminal _ _) = finish_scope"
| "scan_event PlanStalled = finish_scope"
| "scan_event MaxSteps = finish_scope"
| "scan_event _ = stay_in_scope"

fun scan_entry :: "journal_entry \<Rightarrow> scope \<Rightarrow> scope option" where
  "scan_entry (Sunk ob) = scan_observation ob"
| "scan_entry (Yielded ev) = scan_event ev"

definition scan_journal :: "journal_entry list \<Rightarrow> scope option" where
  "scan_journal j = foldl (\<lambda>s x. Option.bind s (scan_entry x)) (Some (Scopes [])) j"

text \<open>What acceptance means: a finished journal has its one closing event at the end.\<close>

fun closing :: "journal_entry \<Rightarrow> bool" where
  "closing (Yielded (PlanTerminal _ _)) = True"
| "closing (Yielded PlanStalled) = True"
| "closing (Yielded MaxSteps) = True"
| "closing _ = False"

lemma scan_journal_append [simp]:
  "scan_journal (j @ k) = foldl (\<lambda>s x. Option.bind s (scan_entry x)) (scan_journal j) k"
  by (simp add: scan_journal_def)

lemma scan_journal_Nil [simp]: "scan_journal [] = Some (Scopes [])"
  by (simp add: scan_journal_def)

lemma enter_not_finished: "enter_scope f w s \<noteq> Some Finished"
  by (cases s) auto

lemma leave_not_finished: "leave_scope f s \<noteq> Some Finished"
proof (cases s)
  case (Scopes stack)
  then show ?thesis by (cases stack) auto
qed simp

lemma stay_not_finished: "stay_in_scope s \<noteq> Some Finished"
  by (cases s) auto

lemma finish_scope_iff: "finish_scope s = Some t \<longleftrightarrow> s = Scopes [] \<and> t = Finished"
proof (cases s)
  case (Scopes stack)
  then show ?thesis by (cases stack) auto
qed simp

lemmas never_finished = enter_not_finished leave_not_finished stay_not_finished

lemma scan_entry_Finished: "scan_entry x Finished = None"
proof (cases x)
  case (Sunk ob)
  then show ?thesis by (simp add: scan_observation_def Let_def)
next
  case (Yielded ev)
  then show ?thesis by (cases ev) auto
qed

lemma scan_entry_closing: "scan_entry x s = Some Finished \<longleftrightarrow> closing x \<and> s = Scopes []"
proof (cases x)
  case (Sunk ob)
  then show ?thesis by (simp add: scan_observation_def Let_def never_finished)
next
  case (Yielded ev)
  then show ?thesis by (cases ev) (auto simp: never_finished finish_scope_iff)
qed

lemma scan_closing_iff: "closing x \<Longrightarrow> scan_entry x s = Some t \<longleftrightarrow> s = Scopes [] \<and> t = Finished"
  by (cases x rule: closing.cases) (auto simp: finish_scope_iff)

lemma scan_open_no_closing: "scan_journal j = Some (Scopes stack) \<Longrightarrow> \<not> list_ex closing j"
proof (induction j arbitrary: stack rule: rev_induct)
  case (snoc x j)
  obtain s where s: "scan_journal j = Some s" and x: "scan_entry x s = Some (Scopes stack)"
    using snoc.prems by (auto simp: bind_eq_Some_conv)
  have "s \<noteq> Finished" using x by (auto simp: scan_entry_Finished)
  then obtain st where "s = Scopes st" by (cases s) auto
  then show ?case using snoc.IH s x scan_closing_iff [of x s] by auto
qed simp

lemma scan_finished_iff:
  "scan_journal j = Some Finished \<longleftrightarrow>
     (\<exists>j' x. j = j' @ [x] \<and> closing x \<and> scan_journal j' = Some (Scopes []) \<and> \<not> list_ex closing j')"
proof (cases j rule: rev_cases)
  case (snoc j' x)
  then show ?thesis
    using scan_open_no_closing [of j' "[]"] by (auto simp: bind_eq_Some_conv scan_entry_closing)
qed simp

section \<open>The journal of a run\<close>

text \<open>With an event sink every observation reaches the journal.\<close>

lemma scan_observe:
  "ev_has_sink e \<Longrightarrow> scan_journal (oc_journal (observe e ty et i pt p tr st)) =
     (if ty \<in> {''plan_created'', ''task_started'', ''task_completed'', ''task_unfulfillable''}
      then scan_journal (oc_journal st)
      else Option.bind (scan_journal (oc_journal st))
        (scan_observation \<lparr>ob_type = ty, ob_entity_type = et, ob_entity_id = i, ob_parent_type = pt,
           ob_parent_id = p, ob_trigger = tr\<rparr>))"
  by (simp add: observe_def)

definition scoped :: "frame list \<Rightarrow> 'w orch \<Rightarrow> bool" where
  "scoped stack st \<longleftrightarrow> scan_journal (oc_journal st) = Some (Scopes stack)"

lemma scan_leave: "leave_scope f s = Some (Scopes stack) \<longleftrightarrow> s = Scopes (f # stack)"
  by (cases "(f, s)" rule: leave_scope.cases) auto

lemma scan_enter: "enter_scope f outer s = Some (Scopes (g # stack)) \<longleftrightarrow> f = g \<and> s = Scopes stack \<and> take 1 stack = outer"
  by (cases s) auto

lemma scan_stay: "stay_in_scope s = Some (Scopes stack) \<longleftrightarrow> s = Scopes stack"
  by (cases s) auto

lemma scoped_observe_stay:
  assumes "ev_has_sink e"
    and "ty \<notin> {''planner_iteration_start'', ''step_start'', ''agent_start'', ''agent_end'', ''step_end'', ''planner_iteration_end''}"
  shows "scoped stack (observe e ty et i pt p tr st) = scoped stack st"
  using assms by (auto simp: scoped_def scan_observe scan_observation_def Let_def bind_eq_Some_conv scan_stay)

lemma scoped_observe_scope:
  assumes "ev_has_sink e"
  shows "scoped [InIteration i] (observe e ''planner_iteration_start'' et i pt p tr st) = scoped [] st"
    and "scoped (InStep i # InIteration q # stack) (observe e ''step_start'' et i pt (Some q) tr st)
           = scoped (InIteration q # stack) st"
    and "scoped (InExecution i # InStep q # stack) (observe e ''agent_start'' et i pt (Some q) tr st)
           = scoped (InStep q # stack) st"
    and "scoped stack (observe e ''agent_end'' et i pt p tr st) = scoped (InExecution i # stack) st"
    and "scoped stack (observe e ''step_end'' et i pt p tr st) = scoped (InStep i # stack) st"
  using assms
  by (auto simp: scoped_def scan_observe scan_observation_def Let_def bind_eq_Some_conv scan_enter scan_leave)

lemmas scoped_observe [simp] = scoped_observe_stay scoped_observe_scope

lemma scoped_same_journal:
  "oc_journal st' = oc_journal st \<Longrightarrow> scoped stack st \<Longrightarrow> scoped stack st'"
  by (simp add: scoped_def)

lemma scoped_update [simp]:
  "scoped stack (st\<lparr>oc_db := d\<rparr>) = scoped stack st" "scoped stack (st\<lparr>oc_world := w\<rparr>) = scoped stack st"
  "scoped stack (st\<lparr>oc_active := a\<rparr>) = scoped stack st" "scoped stack (st\<lparr>oc_step := n\<rparr>) = scoped stack st"
  "scoped stack (st\<lparr>oc_open := b\<rparr>) = scoped stack st" "scoped stack (st\<lparr>oc_active_type := t\<rparr>) = scoped stack st"
  "scoped stack (st\<lparr>oc_iteration := m\<rparr>) = scoped stack st"
  "scoped stack (snd (draw_uuid st)) = scoped stack st"
  "scoped stack (upd_invocation i f st) = scoped stack st"
  "scoped stack (start_invocation e i r tr re st) = scoped stack st"
  "scoped stack (snd (charge_run e r me rs st)) = scoped stack st"
  by (simp_all add: scoped_def)

lemma scoped_yield [simp]:
  "scoped stack (yield_event ev st) \<longleftrightarrow> Option.bind (scan_journal (oc_journal st)) (scan_event ev) = Some (Scopes stack)"
  by (simp add: scoped_def)

lemma scopedD [dest]: "scoped stack st \<Longrightarrow> scan_journal (oc_journal st) = Some (Scopes stack)"
  by (simp add: scoped_def)

definition finished :: "'w orch \<Rightarrow> bool" where
  "finished st \<longleftrightarrow> scan_journal (oc_journal st) = Some Finished"

text \<open>Between two steps of the loop exactly the active iteration is open.\<close>

definition in_iteration :: "'w orch \<Rightarrow> bool" where
  "in_iteration st \<longleftrightarrow> (\<exists>it. oc_active st = Some it \<and> oc_open st \<and> scoped [InIteration it] st)"

lemma close_active:
  assumes "in_iteration st"
  shows "scoped [] (close_active_iteration s ou st)" and "\<not> oc_open (close_active_iteration s ou st)"
  using assms by (auto simp: in_iteration_def close_active_iteration_def scoped_def)

lemma finish_after_close:
  assumes "in_iteration st" and "closing (Yielded ev)"
  shows "finished (yield_event ev (close_active_iteration s ou st))"
  using close_active(1) [OF assms(1), of s ou] assms(2)
  by (simp add: finished_def scoped_def scan_closing_iff [of "Yielded ev", simplified])

lemma plan_and_apply_scoped:
  assumes s: "ev_has_sink e" and p: "plan_and_apply e plan t re lf ur ns it iv st = (x, st')" and j: "scoped stack st"
  shows "scoped stack st'" and "oc_active st' = oc_active st" and "oc_open st' = oc_open st"
  using p j s
  by (auto simp: plan_and_apply_def Let_def case_prod_beta split: sum.splits if_splits)

lemma planning_failed_scoped:
  assumes s: "ev_has_sink e" and p: "planning_failed e run tr it chk iv f st = Inr st'" and j: "scoped stack st"
  shows "scoped stack st'" and "oc_active st' = oc_active st" and "oc_open st' = oc_open st"
  using p j s
  by (auto simp: planning_failed_def Let_def case_prod_beta accept_simps)

lemma planning_done_scoped:
  assumes s: "ev_has_sink e" and a: "ap \<in> {''plan_created'', ''plan_patch_applied''}" and j: "scoped stack st"
  shows "scoped stack (planning_done e run tr ap it exe chk iv patch st)"
  using a j s by (auto simp: planning_done_def Let_def case_prod_beta)

lemma revise_scoped:
  assumes s: "ev_has_sink e" and j: "scoped [] st" and r: "revise e reason lf st = (x, st')"
  shows "case x of Inl _ \<Rightarrow> scan_journal (oc_journal st') \<noteq> None | Inr _ \<Rightarrow> in_iteration st'"
  using r
proof (cases rule: revise_cases)
  case (no_plan err)
  then show ?thesis using j by auto
next
  case (planned current st8 y st9 it iv stp exe chk n)
  have "scoped [InExecution exe, InStep stp, InIteration it] st8"
    unfolding planned(9) using s j by simp
  note p = plan_and_apply_scoped [OF s planned(10) this]
  show ?thesis
  proof (cases y)
    case (Inl f)
    show ?thesis
    proof (cases "planning_failed e (root_run current) reason it chk iv f st9")
      case (Inl err)
      then show ?thesis using planned(11) \<open>y = Inl f\<close> p(1) by auto
    next
      case (Inr st10)
      note q = planning_failed_scoped [OF s this p(1)]
      have "x = Inr (Some (pf_message f))" and
        st': "st' = observe e ''step_end'' ''step'' stp (Some ''planner_iteration'') (Some it) (Some reason)
                 (observe e ''agent_end'' ''agent_execution'' exe (Some ''step'') (Some stp) (Some reason) st10)"
        using planned(11) \<open>y = Inl f\<close> Inr by auto
      moreover have "scoped [InIteration it] st'" unfolding st' using s q(1) by simp
      ultimately show ?thesis using p(2,3) q(2,3) planned(5,6) by (auto simp: in_iteration_def)
    qed
  next
    case (Inr patch)
    have "x = Inr None" and
      st': "st' = observe e ''step_end'' ''step'' stp (Some ''planner_iteration'') (Some it) (Some reason)
                 (observe e ''agent_end'' ''agent_execution'' exe (Some ''step'') (Some stp) (Some reason)
                   (planning_done e (root_run current) reason ''plan_patch_applied'' it exe chk iv patch st9))"
      using planned(11) Inr by auto
    moreover have "scoped [InIteration it] st'"
      unfolding st' using s p(1) by (simp add: planning_done_scoped)
    ultimately show ?thesis using p(2,3) planned(5,6) by (auto simp: in_iteration_def)
  qed
qed

text \<open>What each part of the run leaves behind, by how it ended.\<close>

definition left_in_order :: "flow \<times> 'w orch \<Rightarrow> bool" where
  "left_in_order r \<longleftrightarrow>
     (case fst r of
        Continue \<Rightarrow> in_iteration (snd r)
      | Return \<Rightarrow> finished (snd r)
      | Raised err \<Rightarrow> scan_journal (oc_journal (snd r)) \<noteq> None)"

lemma order_Return [simp]: "left_in_order (Return, st) = finished st"
  and order_Continue [simp]: "left_in_order (Continue, st) = in_iteration st"
  and order_Raised [simp]: "left_in_order (Raised err, st) = (scan_journal (oc_journal st) \<noteq> None)"
  by (simp_all add: left_in_order_def)

lemma after_revise_order:
  assumes "ev_has_sink e" and "scoped [] st"
  shows "left_in_order (after_revise (revise e reason lf st))"
proof -
  obtain x st' where r: "revise e reason lf st = (x, st')" by fastforce
  have c: "case x of Inl _ \<Rightarrow> scan_journal (oc_journal st') \<noteq> None | Inr _ \<Rightarrow> in_iteration st'"
    using assms r by (rule revise_scoped)
  obtain fl st'' where a: "after_revise (x, st') = (fl, st'')" by fastforce
  then show ?thesis
    unfolding r using c a by (cases rule: after_revise_cases) (auto intro: finish_after_close)
qed

lemma in_iteration_quiet [simp]:
  "in_iteration (yield_event (TaskCompletedEvent i) st) = in_iteration st"
  "in_iteration (yield_event (TaskUnfulfillableEvent i oo) st) = in_iteration st"
  "in_iteration (yield_event (TaskAttemptFailed i f) st) = in_iteration st"
  "in_iteration (yield_event (PlanCreated x m k patch) st) = in_iteration st"
  "in_iteration (st\<lparr>oc_db := d\<rparr>) = in_iteration st"
  "in_iteration (st\<lparr>oc_step := k\<rparr>) = in_iteration st"
  by (simp_all add: in_iteration_def scoped_def bind_eq_Some_conv scan_stay)

lemma initial_plan_order:
  assumes s: "ev_has_sink e" and j: "scoped [] st"
  shows "left_in_order (initial_plan e plan st)"
proof -
  obtain fl st' where r: "initial_plan e plan st = (fl, st')" by fastforce
  then show ?thesis
  proof (cases rule: initial_plan_cases)
    case (1 st6 y st7 it iv stp exe chk n)
    have "scoped [InExecution exe, InStep stp, InIteration it] st6"
      unfolding 1(8) using s j by (simp add: scoped_def scan_observe scan_observation_def Let_def)
    note p = plan_and_apply_scoped [OF s 1(9) this]
    note act = p(2,3) 1(4,5)
    have end_steps: "in_iteration (yield_event (StepEnd stp it a b c) (yield_event (AgentEnd exe stp d f) st8))"
      if "scoped [InExecution exe, InStep stp, InIteration it] st8" "oc_active st8 = Some it" "oc_open st8" for a b c d f st8
      using that by (auto simp: in_iteration_def scoped_def)
    show ?thesis
    proof (cases y)
      case (Inl f)
      then show ?thesis
        using 1(10) r p(1) act planning_failed_scoped [OF s _ p(1)]
        by (auto split: sum.splits intro!: finish_after_close end_steps)
    next
      case (Inr patch)
      have "in_iteration (yield_event (StepEnd stp it 1 ''completed'' ''success'')
                   (yield_event (AgentEnd exe stp ''planner'' ''completed'')
                     (planning_done e (root_run plan) ''initial'' ''plan_created'' it exe chk iv patch st7)))"
        using planning_done_scoped [OF s _ p(1)] act by (intro end_steps) auto
      then show ?thesis using 1(10) r Inr by simp
    qed
  qed
qed

text \<open>Executing a task opens a step and an execution inside the active iteration, and closes both.\<close>

definition in_execution :: "string \<Rightarrow> string \<Rightarrow> string \<Rightarrow> 'w orch \<Rightarrow> bool" where
  "in_execution it stp exe st \<longleftrightarrow>
     oc_active st = Some it \<and> oc_open st \<and> scoped [InExecution exe, InStep stp, InIteration it] st"

lemma end_execution:
  assumes "in_execution it stp exe st"
  shows "in_iteration (yield_event (StepEnd stp it n a b) (yield_event (AgentEnd exe stp x c) st))"
  using assms by (auto simp: in_execution_def in_iteration_def scoped_def)

lemma in_execution_update [simp]:
  "in_execution it stp exe (st\<lparr>oc_db := d\<rparr>) = in_execution it stp exe st"
  "in_execution it stp exe (snd (draw_uuid st)) = in_execution it stp exe st"
  by (simp_all add: in_execution_def)

lemma in_execution_observe:
  assumes "ev_has_sink e" and "in_execution it stp exe st"
    and "ty \<notin> {''planner_iteration_start'', ''step_start'', ''agent_start'', ''agent_end'', ''step_end'', ''planner_iteration_end''}"
  shows "in_execution it stp exe (observe e ty et i pt p tr st)"
  using assms by (simp add: in_execution_def)

lemma in_execution_confirmation [simp]:
  "in_execution it stp exe (yield_event (ConfirmationRequired i c) st) = in_execution it stp exe st"
  by (simp add: in_execution_def scoped_def bind_eq_Some_conv scan_stay)

lemma in_execution_scan: "in_execution it stp exe st \<Longrightarrow> scan_journal (oc_journal st) \<noteq> None"
  by (auto simp: in_execution_def)

lemma revise_after_close_order:
  assumes "ev_has_sink e" and "in_iteration st"
  shows "left_in_order (after_revise (revise e reason lf (close_active_iteration a b st)))"
  using assms(1) close_active(1) [OF assms(2)] by (rule after_revise_order)

lemma branches_order:
  assumes s: "ev_has_sink e" and x: "in_execution it stp exe st"
  shows "left_in_order (confirmation_branch e task it n stp exe payload st)"
    and "left_in_order (failure_branch e rn task it n stp exe chk f st)"
    and "left_in_order (result_branch e rn task it n stp exe chk result st)"
proof -
  show "left_in_order (confirmation_branch e task it n stp exe payload st)"
    using in_execution_scan [OF x] x
    by (auto simp: confirmation_branch_def Let_def case_prod_beta split: sum.splits
        intro!: finish_after_close end_execution in_execution_observe [OF s])
  show "left_in_order (failure_branch e rn task it n stp exe chk f st)"
    using in_execution_scan [OF x] x
    by (auto simp: failure_branch_def Let_def case_prod_beta split: sum.splits
        intro!: revise_after_close_order [OF s] end_execution in_execution_observe [OF s])
  show "left_in_order (result_branch e rn task it n stp exe chk result st)"
    using in_execution_scan [OF x] x
    by (auto simp: result_branch_def Let_def case_prod_beta split: sum.splits
        intro!: revise_after_close_order [OF s] end_execution in_execution_observe [OF s])
qed

lemma execute_claimed_order:
  assumes s: "ev_has_sink e" and i: "in_iteration st"
  shows "left_in_order (execute_claimed e task st)"
proof -
  have sc: "scan_journal (oc_journal st) \<noteq> None" using i by (auto simp: in_iteration_def)
  obtain it where it: "oc_active st = Some it" "oc_open st" "scoped [InIteration it] st"
    using i by (auto simp: in_iteration_def)
  have opened: "in_execution it stp exe (yield_event (AgentStart exe stp a) (yield_event (StepStart stp it n k)
      (yield_event (TaskStarted t m) st'))\<lparr>oc_world := w\<rparr>)"
    if "oc_active st' = Some it" "oc_open st'" "scoped [InIteration it] st'" for st' :: "'a orch" and stp exe a n k t m w
    using that by (simp add: in_execution_def scoped_def)
  show ?thesis
    using it s sc
    by (auto simp: execute_claimed_def Let_def case_prod_beta scoped_def [symmetric]
        split: option.splits sum.splits exec_outcome.splits
        intro!: branches_order [OF s] opened)
       (auto simp: scan_observe scoped_def scan_observation_def Let_def)
qed

lemma nothing_ready_order:
  assumes s: "ev_has_sink e" and i: "in_iteration st"
  shows "left_in_order (nothing_ready e plan st)"
proof -
  have stalled: "finished (yield_event PlanStalled (close_active_iteration a b st))" for a b
    using i by (rule finish_after_close) simp
  define r where "r = after_revise (revise e ''pending_need'' None
                (close_active_iteration ''needs_dependency'' (Some ''needs_dependency'') st))"
  have "left_in_order r" unfolding r_def using s i by (rule revise_after_close_order)
  moreover obtain fl st1 where "r = (fl, st1)" by fastforce
  moreover have "finished (yield_event (PlanTerminal a b) (close_active_iteration c d
        (observe e ''error'' f g h k l (snd (draw_uuid (st1\<lparr>oc_db := db'\<rparr>))))))"
    if "in_iteration st1" for a b c d f g h k l db'
    using that s by (intro finish_after_close) (auto simp: in_iteration_def)
  moreover have "scan_journal (oc_journal st1) \<noteq> None" if "in_iteration st1" using that by (auto simp: in_iteration_def)
  ultimately show ?thesis
    unfolding nothing_ready_def Let_def r_def [symmetric]
    by (auto simp: stalled case_prod_beta split: flow.splits sum.splits)
qed

lemma loop_body_order:
  assumes "ev_has_sink e" and "in_iteration st"
  shows "left_in_order (loop_body e st)"
  using assms
  by (auto simp: loop_body_def Let_def split: sum.splits option.splits
      intro!: nothing_ready_order execute_claimed_order finish_after_close)
     (auto simp: in_iteration_def)

lemma run_loop_order: "ev_has_sink e \<Longrightarrow> in_iteration st \<Longrightarrow> left_in_order (run_loop e k st) \<and> fst (run_loop e k st) \<noteq> Continue"
proof (induction k arbitrary: st)
  case 0
  then show ?case by (auto intro: finish_after_close)
next
  case (Suc k)
  have "left_in_order (loop_body e st)" using Suc.prems by (rule loop_body_order)
  then show ?case using Suc.IH [OF Suc.prems(1)] by (auto split: prod.splits flow.splits)
qed

lemma orchestrate_order:
  assumes "ev_has_sink e" and "scoped [] st"
  shows "left_in_order (orchestrate e st) \<and> fst (orchestrate e st) \<noteq> Continue"
proof -
  have "left_in_order (prepare e st)"
    using assms
    by (auto simp: prepare_def Let_def split: sum.splits intro!: after_revise_order initial_plan_order)
       (auto simp: in_iteration_def scoped_def)
  then show ?thesis
    using run_loop_order [OF assms(1)] by (auto simp: orchestrate_def split: prod.splits flow.splits)
qed

section \<open>The work of a run\<close>

fun is_start :: "journal_entry \<Rightarrow> bool" where
  "is_start (Yielded (TaskStarted _ _)) = True"
| "is_start _ = False"

definition task_starts :: "'w orch \<Rightarrow> nat" where
  "task_starts st = length (filter is_start (oc_journal st))"

text \<open>At most \<open>a\<close> further tasks were started and at most \<open>b\<close> further planner calls recorded.\<close>

definition spends :: "nat \<Rightarrow> nat \<Rightarrow> 'w orch \<Rightarrow> 'w orch \<Rightarrow> bool" where
  "spends a b st st' \<longleftrightarrow>
     task_starts st' \<le> task_starts st + a \<and> length (oc_invocations st') \<le> length (oc_invocations st) + b"

lemma task_starts_proj [simp]:
  "task_starts (observe e ty et i pt p tr st) = task_starts st"
  "task_starts (yield_event ev st) = task_starts st + (if is_start (Yielded ev) then 1 else 0)"
  "task_starts (snd (draw_uuid st)) = task_starts st"
  "task_starts (upd_invocation iv f st) = task_starts st"
  "task_starts (start_invocation e iv r t n st) = task_starts st"
  "task_starts (close_active_iteration s ou st) = task_starts st"
  "task_starts (snd (charge_run e r m rs st)) = task_starts st"
  "task_starts (st\<lparr>oc_db := d\<rparr>) = task_starts st" "task_starts (st\<lparr>oc_world := w\<rparr>) = task_starts st"
  "task_starts (st\<lparr>oc_active := ac\<rparr>) = task_starts st" "task_starts (st\<lparr>oc_step := k\<rparr>) = task_starts st"
  "task_starts (st\<lparr>oc_open := b\<rparr>) = task_starts st" "task_starts (st\<lparr>oc_active_type := ty'\<rparr>) = task_starts st"
  "task_starts (st\<lparr>oc_iteration := m'\<rparr>) = task_starts st"
  by (simp_all add: task_starts_def observe_def close_active_iteration_def split: option.splits)

lemma spends_trans: "spends a b s t \<Longrightarrow> spends c d t u \<Longrightarrow> spends (a + c) (b + d) s u"
  by (simp add: spends_def)

lemma spends_mono: "spends a b s t \<Longrightarrow> a \<le> c \<Longrightarrow> b \<le> d \<Longrightarrow> spends c d s t"
  by (auto simp: spends_def)

lemma planning_done_starts [simp]:
  "task_starts (planning_done e run tr ap it exe chk iv patch st) = task_starts st"
  by (simp add: planning_done_def Let_def case_prod_beta)

lemma planning_spends:
  "plan_and_apply e plan t re lf ur ns it iv st = (x, st') \<Longrightarrow> spends 0 0 st st'"
  "planning_failed e run tr it chk i f st = Inr st' \<Longrightarrow> spends 0 0 st st'"
  by (auto simp: spends_def plan_and_apply_def planning_failed_def Let_def case_prod_beta accept_simps
      split: sum.splits if_splits)

lemma revise_spends: "spends 0 (Suc 0) st (snd (revise e reason lf st))"
proof -
  obtain x st' where r: "revise e reason lf st = (x, st')" by fastforce
  then show ?thesis
  proof (cases rule: revise_cases)
    case (planned current st8 y st9 it iv stp exe chk n)
    have "task_starts st8 = task_starts st" unfolding planned(9) by simp
    then show ?thesis
      using planned(8,11) r planning_spends(1) [OF planned(10)]
      by (auto simp: spends_def split: sum.splits dest!: planning_spends(2))
  qed (simp add: spends_def r)
qed

lemma after_revise_spends: "spends 0 (Suc 0) st (snd (after_revise (revise e reason lf st)))"
proof -
  obtain x st' where r: "revise e reason lf st = (x, st')" by fastforce
  moreover obtain fl st'' where a: "after_revise (x, st') = (fl, st'')" by fastforce
  moreover have "spends 0 0 st' st''" using a by (cases rule: after_revise_cases) (auto simp: spends_def)
  ultimately show ?thesis using revise_spends [of st e reason lf] by (auto simp: spends_def)
qed

lemma initial_plan_spends: "spends 0 (Suc 0) st (snd (initial_plan e plan st))"
proof -
  obtain fl st' where r: "initial_plan e plan st = (fl, st')" by fastforce
  then show ?thesis
  proof (cases rule: initial_plan_cases)
    case (1 st6 y st7 it iv stp exe chk n)
    have "task_starts st6 = task_starts st" unfolding 1(8) by simp
    then show ?thesis
      using 1(7,10) r planning_spends(1) [OF 1(9)]
      by (auto simp: spends_def split: sum.splits dest!: planning_spends(2))
  qed
qed

lemma after_revise_spends':
  "task_starts s = task_starts st \<Longrightarrow> oc_invocations s = oc_invocations st \<Longrightarrow>
   spends 0 (Suc 0) st (snd (after_revise (revise e reason lf s)))"
  using after_revise_spends [of s e reason lf] by (simp add: spends_def)

lemma branches_spend:
  "spends 0 (Suc 0) st (snd (confirmation_branch e task it n stp exe payload st))"
  "spends 0 (Suc 0) st (snd (failure_branch e rn task it n stp exe chk f st))"
  "spends 0 (Suc 0) st (snd (result_branch e rn task it n stp exe chk result st))"
  by (auto simp: confirmation_branch_def failure_branch_def result_branch_def Let_def case_prod_beta
      split: sum.splits intro!: after_revise_spends') (auto simp: spends_def)

lemma execute_claimed_spends: "spends (Suc 0) (Suc 0) st (snd (execute_claimed e task st))"
proof -
  have one: "spends (Suc 0) (Suc 0) st u" if "spends 0 (Suc 0) s u" "task_starts s = task_starts st + 1" "oc_invocations s = oc_invocations st" for s u
    using that by (simp add: spends_def)
  show ?thesis
    by (auto simp: execute_claimed_def Let_def case_prod_beta
        split: option.splits sum.splits exec_outcome.splits intro!: one [OF branches_spend(1)] one [OF branches_spend(2)] one [OF branches_spend(3)])
       (auto simp: spends_def)
qed

lemma nothing_ready_spends: "spends 0 (Suc 0) st (snd (nothing_ready e plan st))"
proof -
  define r where "r = after_revise (revise e ''pending_need'' None
                (close_active_iteration ''needs_dependency'' (Some ''needs_dependency'') st))"
  have "spends 0 (Suc 0) st (snd r)" unfolding r_def by (rule after_revise_spends') simp_all
  moreover obtain fl st1 where "r = (fl, st1)" by fastforce
  ultimately show ?thesis
    unfolding nothing_ready_def Let_def r_def [symmetric]
    by (auto simp: spends_def case_prod_beta split: flow.splits sum.splits)
qed

lemma loop_body_spends: "spends (Suc 0) (Suc 0) st (snd (loop_body e st))"
proof -
  have eq: "spends a b st u" if "spends a b s u" "task_starts s = task_starts st" "oc_invocations s = oc_invocations st" for s u a b
    using that by (simp add: spends_def)
  show ?thesis
    by (auto simp: loop_body_def Let_def split: sum.splits option.splits
        intro!: eq [OF execute_claimed_spends] eq [OF nothing_ready_spends [THEN spends_mono]])
       (auto simp: spends_def)
qed

lemma run_loop_spends: "spends k k st (snd (run_loop e k st))"
proof (induction k arbitrary: st)
  case (Suc k)
  obtain fl st1 where b: "loop_body e st = (fl, st1)" by fastforce
  have "spends (Suc 0) (Suc 0) st st1" using loop_body_spends [of st e] b by simp
  then show ?case
    using b spends_trans [OF _ Suc.IH [of st1], of "Suc 0" "Suc 0" st] by (cases fl) (auto simp: spends_def)
qed (simp add: spends_def)

lemma orchestrate_spends: "spends (ev_max_steps e) (Suc (ev_max_steps e)) st (snd (orchestrate e st))"
proof -
  obtain fl st1 where p: "prepare e st = (fl, st1)" by fastforce
  have "spends 0 (Suc 0) st (snd (prepare e st))"
    by (auto simp: prepare_def Let_def split: sum.splits intro!: after_revise_spends initial_plan_spends)
       (auto simp: spends_def)
  then show ?thesis
    using p spends_trans [OF _ run_loop_spends [of "ev_max_steps e" st1 e], of 0 "Suc 0" st]
    by (cases fl) (auto simp: orchestrate_def spends_def)
qed

end
