(* ===== verification/Orchestrator_Theorems.thy ===== *)
theory Orchestrator_Theorems
  imports Orchestrator_Journal Plan_Sql_Theorems "HOL-Library.Sublist"
begin

text \<open>
  The properties of the orchestration loop, for every planner, executor, identifier scheme and clock,
  each with a concrete run.
\<close>

section \<open>A concrete run\<close>

text \<open>
  A planner that answers the two-task plan, an executor that completes every task, and a budget of
  three task attempts. The run resumes the plan whose task \<open>a\<close> has completed.
\<close>

definition demo_env :: "nat env" where
  "demo_env = \<lparr>ev_plan = (\<lambda>w req. (Inr (demo_patch 0), Suc w)), ev_execute = (\<lambda>w req. (ExecResult demo_result, Suc w)),
     ev_now = int, ev_uuid5 = (\<lambda>s. s), ev_uuid_str = (\<lambda>i. [CHR ''#'']), ev_error = (\<lambda>err. \<lparr>pf_code = ''Error'', pf_message = ''failed''\<rparr>),
     ev_str = (\<lambda>j. case j of JStr s \<Rightarrow> s | _ \<Rightarrow> ''?''), ev_memory = (\<lambda>q. []), ev_max_attempts = 3, ev_retry_delay = 60,
     ev_has_sink = True, ev_has_budget = True, ev_plan_id = 0, ev_goal = ''goal'', ev_agents = [], ev_artifacts = [],
     ev_max_steps = 5, ev_force_replan = False, ev_user_response = None,
     ev_limits = (\<lambda>m. Some 3), ev_planner_memory = []\<rparr>"

definition demo_start :: "nat orch" where
  "demo_start = initial_orch demo_done \<lparr>bb_counters = [], bb_entries = [], bb_has_sink = False, bb_events = []\<rparr> 0 (\<lambda>n. 100 + n)"

lemma demo_planner_valid: "planner_valid demo_env"
  by (simp add: planner_valid_def demo_env_def demo_patch_valid)

lemma demo_start_ok: "sql_reach (ev_plan_id demo_env) (oc_db demo_start)" "oc_journal demo_start = []"
  "oc_invocations demo_start = []" "ev_has_sink demo_env"
  using demo_reach(4) by (simp_all add: demo_start_def initial_orch_def demo_env_def)

lemma demo_run:
  "fst (orchestrate demo_env demo_start) = Return"
  "sql_status (oc_db (snd (orchestrate demo_env demo_start))) 0 ''b'' = Some TaskCompleted"
  "deps_of (oc_db (snd (orchestrate demo_env demo_start))) 0 ''b'' = [''a'']"
proof -
  have "(let r = orchestrate demo_env demo_start; db = oc_db (snd r)
         in fst r = Return \<and> sql_status db 0 ''b'' = Some TaskCompleted \<and> deps_of db 0 ''b'' = [''a''])"
    by code_simp
  then show "fst (orchestrate demo_env demo_start) = Return"
    and "sql_status (oc_db (snd (orchestrate demo_env demo_start))) 0 ''b'' = Some TaskCompleted"
    and "deps_of (oc_db (snd (orchestrate demo_env demo_start))) 0 ''b'' = [''a'']"
    by (simp_all add: Let_def)
qed

section \<open>Safety of a run\<close>



section \<open>Every run ends in order\<close>



text \<open>
  C12. The work of a run is bounded by its step limit: it starts at most \<open>max_steps\<close> tasks and
  records at most \<open>max_steps + 1\<close> planner invocations, whatever planner and executor do.
\<close>

theorem run_work_bounded:
  assumes "orchestrate e st = (fl, st')"
  shows "task_starts st' \<le> task_starts st + ev_max_steps e
    \<and> length (oc_invocations st') \<le> length (oc_invocations st) + ev_max_steps e + 1"
  using orchestrate_spends [of e st] assms by (simp add: spends_def)

theorem run_work_bounded_witness:
  "task_starts (snd (orchestrate demo_env demo_start)) \<le> 5
   \<and> length (oc_invocations (snd (orchestrate demo_env demo_start))) \<le> 6"
  using run_work_bounded [OF prod.collapse [symmetric], of demo_env demo_start] demo_start_ok(2,3)
  by (simp add: task_starts_def demo_env_def)

section \<open>Retry delays\<close>

text \<open>
  The delay before a retry is at least one second. A positive \<open>retry_after_ms\<close> given by the
  failure is rounded up to whole seconds and never exceeds thirty seconds, so the caller waits no less
  than asked unless it asked for more than thirty seconds.
\<close>

theorem retry_delay_bounds:
  "1 \<le> retry_delay e f \<and>
   (map_of (tf_details f) ''retry_after_ms'' = Some (JInt ms) \<and> 0 < ms \<longrightarrow>
     retry_delay e f \<le> 30 \<and> min ms 30000 \<le> 1000 * retry_delay e f \<and> 1000 * (retry_delay e f - 1) < ms)"
proof (intro conjI impI, goal_cases)
  case 1
  show ?case by (auto simp: retry_delay_def effective_retry_delay_def split: option.splits)
next
  case 2
  then show ?case by (auto simp: retry_delay_def)
next
  case 3
  then show ?case by (auto simp: retry_delay_def min_def max_def)
next
  case 4
  then show ?case by (auto simp: retry_delay_def min_def max_def)
qed

definition demo_failure :: TaskAttemptFailure where
  "demo_failure = \<lparr>tf_code = ''rate_limit'', tf_message = ''slow down'', tf_retryable = True, tf_timed_out = False,
     tf_details = [(''retry_after_ms'', JInt 1500)]\<rparr>"

theorem retry_delay_bounds_witness:
  "retry_delay demo_env demo_failure \<le> 30 \<and> 1500 \<le> 1000 * retry_delay demo_env demo_failure"
  using retry_delay_bounds [of demo_env demo_failure 1500] by (simp add: demo_failure_def)

section \<open>Results that break the contract\<close>

text \<open>
  A result the store refuses, such as a completed result without a required output, leaves
  \<open>run\<close> as an exception: nothing is recorded for the attempt, the task keeps running and the
  planner is not asked again.
\<close>

theorem refused_result_leaves_run:
  assumes "find_task (oc_db st) (ev_plan_id e) (tr_task_id task) = Some r" and "tr_status r = TaskRunning"
    and "\<not> result_acceptable (oc_db st) r result"
  shows "\<exists>err. result_branch e run task it n stp exe chk result st = (Raised err, st)"
proof -
  have "\<not> (\<exists>s'. sql_apply_result (ev_plan_id e) (tr_task_id task) result (oc_db st) = Inr s')"
    using apply_result_accepts [of "ev_plan_id e" "tr_task_id task" result "oc_db st"] assms by auto
  then obtain err where "sql_apply_result (ev_plan_id e) (tr_task_id task) result (oc_db st) = Inl err"
    by (cases "sql_apply_result (ev_plan_id e) (tr_task_id task) result (oc_db st)") auto
  then show ?thesis by (simp add: result_branch_def Let_def)
qed

definition demo_contract :: db where
  "demo_contract = fst (projr (sql_claim_ready_batch 0 1 (projr (sql_apply_patch 0
     ((demo_patch 0)\<lparr>pp_tasks := [(demo_task ''a'' [])\<lparr>pt_expected_outputs := [\<lparr>os_key = ''report'', os_description = [], os_schema = [], os_required = True\<rparr>]\<rparr>]\<rparr>)
     ''initial'' None demo_created))))"

theorem refused_result_leaves_run_witness:
  "\<exists>r err. find_task demo_contract 0 ''a'' = Some r
     \<and> result_branch demo_env 7 r ''it'' 1 ''s'' ''x'' ''c'' demo_result (demo_start\<lparr>oc_db := demo_contract\<rparr>)
         = (Raised err, demo_start\<lparr>oc_db := demo_contract\<rparr>)"
proof -
  have "(case find_task demo_contract 0 ''a'' of None \<Rightarrow> False | Some r \<Rightarrow>
          tr_task_id r = ''a'' \<and> tr_status r = TaskRunning
          \<and> map (\<lambda>s. (os_key s, os_required s)) (tr_expected_outputs r) = [(''report'', True)])" by code_simp
  then obtain r where r: "find_task demo_contract 0 ''a'' = Some r" "tr_task_id r = ''a''" "tr_status r = TaskRunning"
    and ex: "map (\<lambda>s. (os_key s, os_required s)) (tr_expected_outputs r) = [(''report'', True)]"
    by (auto split: option.splits)
  have "\<not> result_acceptable demo_contract r demo_result"
    using ex by (auto simp: result_acceptable_def demo_result_def)
  then show ?thesis
    using refused_result_leaves_run [of "demo_start\<lparr>oc_db := demo_contract\<rparr>" demo_env r r demo_result] r
    by (auto simp: demo_env_def)
qed

section \<open>Artifacts offered to the planner\<close>

lemma dedupe_artifacts_keys:
  "distinct (map (artifact_key str) (dedupe_artifacts str seen ds))
   \<and> set (map (artifact_key str) (dedupe_artifacts str seen ds)) = artifact_key str ` set ds - {[]} - set seen
   \<and> subseq (dedupe_artifacts str seen ds) ds"
  by (induction str seen ds rule: dedupe_artifacts.induct) (auto simp: Let_def)

text \<open>
  The artifacts a planner request offers are a subsequence of the collected ones in which every
  artifact identifier occurs once: none is blank, none is repeated, and none that was collected is
  lost.
\<close>

theorem artifacts_are_unique_and_complete:
  assumes "collect_artifacts str plan inputs = Inr ds"
  shows "\<exists>rs. available_artifacts str plan inputs = Inr rs \<and> subseq rs ds
    \<and> distinct (map (artifact_key str) rs) \<and> set (map (artifact_key str) rs) = artifact_key str ` set ds - {[]}"
  using assms dedupe_artifacts_keys [of str "[]" ds] by (simp add: available_artifacts_def)

theorem artifacts_are_unique_and_complete_witness:
  "\<exists>rs. available_artifacts (ev_str demo_env) \<lparr>ss_plan = ss_plan (projr (sql_snapshot 0 demo_done)), ss_tasks = []\<rparr>
      [JObj [(''artifact_id'', JStr ''f1'')], JObj [(''artifact_id'', JStr ''f1'')]] = Inr rs
    \<and> distinct (map (artifact_key (ev_str demo_env)) rs)"
proof -
  have "\<exists>ds. collect_artifacts (ev_str demo_env) \<lparr>ss_plan = ss_plan (projr (sql_snapshot 0 demo_done)), ss_tasks = []\<rparr>
      [JObj [(''artifact_id'', JStr ''f1'')], JObj [(''artifact_id'', JStr ''f1'')]] = Inr ds"
    by (simp add: collect_artifacts_def)
  then show ?thesis using artifacts_are_unique_and_complete by blast
qed

end
