(* ===== verification/Rag_Policy.thy ===== *)
theory Rag_Policy
  imports Prelude
begin

text \<open>
  The status vocabulary of document ingestion and the pure functions over it:
  \<open>services/rag_status_policy.py\<close> (stage names, the transition table, stage controls) and
  \<open>services/status_aggregator.py\<close> (the aggregate and the effective status of a document).

  The \<open>status\<close> column of a node is free text, so it is a string here; \<open>stage_of\<close> is the
  conversion \<open>StageStatus(value)\<close>, which fails on an unknown string.
\<close>

section \<open>Stages\<close>

datatype StageStatus = StPending | StQueued | StProcessing | StCompleted | StFailed | StCancelled

fun stage_value :: "StageStatus \<Rightarrow> string" where
  "stage_value StPending = ''pending''"
| "stage_value StQueued = ''queued''"
| "stage_value StProcessing = ''processing''"
| "stage_value StCompleted = ''completed''"
| "stage_value StFailed = ''failed''"
| "stage_value StCancelled = ''cancelled''"

definition stage_of :: "string \<Rightarrow> StageStatus option" where
  "stage_of s = find (\<lambda>x. stage_value x = s) [StPending, StQueued, StProcessing, StCompleted, StFailed, StCancelled]"

datatype PipelineStage = StageUpload | StageExtract | StageNormalize | StageChunk

fun pipeline_value :: "PipelineStage \<Rightarrow> string" where
  "pipeline_value StageUpload = ''upload''"
| "pipeline_value StageExtract = ''extract''"
| "pipeline_value StageNormalize = ''normalize''"
| "pipeline_value StageChunk = ''chunk''"

fun valid_transitions :: "StageStatus \<Rightarrow> StageStatus list" where
  "valid_transitions StPending = [StQueued, StProcessing, StFailed, StCancelled]"
| "valid_transitions StQueued = [StProcessing, StFailed, StCancelled]"
| "valid_transitions StProcessing = [StCompleted, StFailed, StCancelled]"
| "valid_transitions StCompleted = [StQueued]"
| "valid_transitions StFailed = [StQueued, StCancelled]"
| "valid_transitions StCancelled = [StQueued]"

definition retryable_stage_statuses :: "string list" where
  "retryable_stage_statuses = map stage_value [StFailed, StCancelled, StCompleted, StPending]"

definition stoppable_stage_statuses :: "string list" where
  "stoppable_stage_statuses = map stage_value [StProcessing, StQueued]"

text \<open>\<open>str.startswith\<close>\<close>

definition starts_with :: "string \<Rightarrow> string \<Rightarrow> bool" where
  "starts_with p s \<longleftrightarrow> take (length p) s = p"

definition format_stage_name :: "string \<Rightarrow> string \<Rightarrow> string" where
  "format_stage_name node_type node_key =
     (if node_type = ''embedding'' then ''embed.'' @ node_key
      else if node_type = ''index'' then ''index.'' @ node_key
      else node_key)"

definition split_stage_name :: "string \<Rightarrow> string \<times> string" where
  "split_stage_name stage =
     (if starts_with ''embed.'' stage then (''embedding'', drop 6 stage)
      else if starts_with ''index.'' stage then (''index'', drop 6 stage)
      else (''pipeline'', stage))"

definition is_retry_supported :: "string \<Rightarrow> bool" where
  "is_retry_supported stage \<longleftrightarrow> stage = ''extract'' \<or> starts_with ''embed.'' stage \<or> starts_with ''index.'' stage"

record stage_control =
  sc_stage :: string
  sc_node_type :: string
  sc_status :: string
  sc_retry_supported :: bool
  sc_can_retry :: bool
  sc_can_stop :: bool

definition build_stage_control :: "string \<Rightarrow> string \<Rightarrow> string \<Rightarrow> bool \<Rightarrow> stage_control" where
  "build_stage_control stage node_type status archived =
     (let retry_supported = is_retry_supported stage in
      \<lparr>sc_stage = stage, sc_node_type = node_type, sc_status = status,
       sc_retry_supported = retry_supported,
       sc_can_retry = (\<not> archived \<and> retry_supported \<and> status \<in> set retryable_stage_statuses),
       sc_can_stop = (status \<in> set stoppable_stage_statuses)\<rparr>)"

section \<open>Status nodes\<close>

record rag_node =
  rn_doc :: uuid
  rn_type :: string
  rn_key :: string
  rn_status :: string
  rn_task :: "string option"
  rn_version :: "string option"
  rn_modality :: "string option"
  rn_error :: "string option"
  rn_metrics :: "jobject option"
  rn_started :: "int option"
  rn_finished :: "int option"
  rn_updated :: int

section \<open>The aggregate status\<close>

text \<open>
  The details document. A part that a branch of the code leaves out of the dictionary is \<open>None\<close>
  or empty here.
\<close>

record agg_details =
  ad_pipeline :: "(string, string) dict"
  ad_embedding :: "(string, string) dict"
  ad_index :: "(string, string) dict option"
  ad_policy :: string
  ad_counters :: "(string, nat) dict"
  ad_lists :: "(string, string list) dict"
  ad_target_models :: "string list option"
  ad_last_error :: "string option"
  ad_updated_at :: int
  ad_effective_status :: string
  ad_effective_reason :: string
  ad_stale_models :: "string list"

definition node_statuses :: "rag_node list \<Rightarrow> (string, string) dict" where
  "node_statuses nodes = fold (\<lambda>n d. AList.update (rn_key n) (rn_status n) d) nodes []"

text \<open>\<open>max(nodes, key=updated_at)\<close>: the first of the latest nodes.\<close>

fun latest_node :: "rag_node list \<Rightarrow> rag_node option" where
  "latest_node [] = None"
| "latest_node (n # ns) = Some (foldl (\<lambda>best m. if rn_updated best < rn_updated m then m else best) n ns)"

definition last_error_of :: "string list \<Rightarrow> rag_node list \<Rightarrow> string option" where
  "last_error_of bad nodes =
     Option.bind (latest_node (filter (\<lambda>n. rn_status n \<in> set bad \<and> opt_truthy (rn_error n)) nodes)) rn_error"

definition get_last_pipeline_error :: "rag_node list \<Rightarrow> string option" where
  "get_last_pipeline_error nodes = last_error_of [''failed''] nodes"

definition get_last_embedding_error :: "rag_node list \<Rightarrow> string option" where
  "get_last_embedding_error nodes = last_error_of [''failed''] nodes"

definition get_last_index_error :: "rag_node list \<Rightarrow> string option" where
  "get_last_index_error nodes = last_error_of [''failed'', ''cancelled''] nodes"

definition active_statuses :: "string list" where
  "active_statuses = [''pending'', ''queued'', ''processing'']"

text \<open>The user-facing availability: status and reason.\<close>

definition effective_status ::
    "bool \<Rightarrow> rag_node list \<Rightarrow> rag_node list \<Rightarrow> string option \<Rightarrow> string option \<Rightarrow> (string, bool) dict \<Rightarrow> string \<times> string" where
  "effective_status archived pipeline_nodes index_nodes default_alias secondary_alias availability =
     (if archived then (''archived'', ''document_archived'')
      else if list_ex (\<lambda>n. lower (rn_status n) \<in> set active_statuses) (pipeline_nodes @ index_nodes)
      then (''processing'', ''active_ingest_stages'')
      else
        let idx = fold (\<lambda>n d. AList.update (rn_key n) (lower (rn_status n)) d) index_nodes [];
            has_any_index = list_ex (\<lambda>kv. snd kv = ''completed'') idx;
            model_ok = (\<lambda>alias. case alias of None \<Rightarrow> False
               | Some a \<Rightarrow> a \<noteq> [] \<and> map_of idx a = Some ''completed'' \<and> dget_or False availability a);
            default_ok = model_ok default_alias;
            secondary_ok = model_ok secondary_alias
        in if default_ok \<and> secondary_ok then (''extended'', ''default_and_secondary_available'')
           else if default_ok then (''available'', ''default_available'')
           else if secondary_ok then (''limited'', ''secondary_only_available'')
           else if has_any_index then (''archived'', ''indexes_exist_models_unavailable'')
           else (''unavailable'', ''no_indexes_no_active_tasks''))"

text \<open>The target models by the status of their index, as the loop sorts them.\<close>

definition ready_models :: "(string, string) dict \<Rightarrow> string list \<Rightarrow> string list" where
  "ready_models idx targets = filter (\<lambda>m. map_of idx m = Some ''completed'') targets"

definition failed_models :: "(string, string) dict \<Rightarrow> string list \<Rightarrow> string list" where
  "failed_models idx targets = filter (\<lambda>m. map_of idx m \<in> {Some ''failed'', Some ''cancelled''}) targets"

definition missing_models :: "(string, string) dict \<Rightarrow> string list \<Rightarrow> string list" where
  "missing_models idx targets = filter (\<lambda>m. map_of idx m = None) targets"

definition running_models :: "(string, string) dict \<Rightarrow> string list \<Rightarrow> string list" where
  "running_models idx targets =
     filter (\<lambda>m. case map_of idx m of None \<Rightarrow> False
                   | Some s \<Rightarrow> s \<notin> {''completed'', ''failed'', ''cancelled''}) targets"

definition index_verdict :: "(string, string) dict \<Rightarrow> string list \<Rightarrow> string \<times> string" where
  "index_verdict idx targets =
     (if targets = [] then (''ready'', ''no_target_models'')
      else if running_models idx targets @ missing_models idx targets \<noteq> [] then (''processing'', ''index_running'')
      else if length (ready_models idx targets) = length targets then (''ready'', ''all_index_ready'')
      else if ready_models idx targets \<noteq> [] \<and> failed_models idx targets \<noteq> [] then (''partial'', ''index_partial'')
      else if ready_models idx targets \<noteq> [] then (''partial'', ''index_partial'')
      else (''failed'', ''index_all_failed''))"

definition calculate_aggregate_status ::
    "int \<Rightarrow> rag_node list \<Rightarrow> rag_node list \<Rightarrow> string list \<Rightarrow> rag_node list \<Rightarrow> bool \<Rightarrow> string option \<Rightarrow> string option
     \<Rightarrow> (string, bool) dict \<Rightarrow> string \<times> agg_details" where
  "calculate_aggregate_status now pipeline_nodes embedding_nodes targets index_nodes archived default_alias
       secondary_alias availability =
     (let ps = node_statuses pipeline_nodes;
          eff = effective_status archived pipeline_nodes index_nodes default_alias secondary_alias availability;
          short = (\<lambda>policy err. \<lparr>ad_pipeline = ps, ad_embedding = [], ad_index = None, ad_policy = policy,
             ad_counters = [], ad_lists = [], ad_target_models = None, ad_last_error = err, ad_updated_at = now,
             ad_effective_status = fst eff, ad_effective_reason = snd eff, ad_stale_models = []\<rparr>)
      in if list_ex (\<lambda>kv. snd kv = ''failed'') ps
         then (''failed'', short ''pipeline_error'' (get_last_pipeline_error pipeline_nodes))
         else if map_of ps ''upload'' = Some ''completed''
                 \<and> list_all (\<lambda>kv. fst kv \<noteq> ''upload'' \<longrightarrow> snd kv = ''pending'') ps
         then (''uploaded'', short ''uploaded'' None)
         else if list_ex (\<lambda>kv. snd kv \<in> set active_statuses) ps
         then (''processing'', short ''pipeline_running'' None)
         else
           let es = node_statuses embedding_nodes;
               idx = node_statuses index_nodes;
               verdict = index_verdict idx targets;
               index_error = get_last_index_error index_nodes;
               embedding_error = get_last_embedding_error embedding_nodes
           in (fst verdict,
               \<lparr>ad_pipeline = ps, ad_embedding = es, ad_index = Some idx, ad_policy = snd verdict,
                ad_counters = [(''target_models'', length targets), (''ready_models'', length (ready_models idx targets)),
                  (''failed_models'', length (failed_models idx targets)),
                  (''running_models'', length (running_models idx targets)),
                  (''missing_models'', length (missing_models idx targets))],
                ad_lists = [(''ready'', ready_models idx targets), (''failed'', failed_models idx targets),
                  (''running'', running_models idx targets), (''missing'', missing_models idx targets)],
                ad_target_models = Some targets,
                ad_last_error = (if opt_truthy index_error then index_error
                                 else if opt_truthy embedding_error then embedding_error else None),
                ad_updated_at = now, ad_effective_status = fst eff, ad_effective_reason = snd eff,
                ad_stale_models = []\<rparr>))"

definition is_document_stale :: "rag_node list \<Rightarrow> (string, string) dict \<Rightarrow> bool" where
  "is_document_stale embedding_nodes versions =
     list_ex (\<lambda>n. rn_type n = ''embedding'' \<and> opt_truthy (rn_version n)
               \<and> opt_truthy (map_of versions (rn_key n)) \<and> map_of versions (rn_key n) \<noteq> rn_version n) embedding_nodes"

section \<open>Stage names\<close>

lemma split_format_embedding: "split_stage_name (''embed.'' @ k) = (''embedding'', k)"
  by (simp add: split_stage_name_def starts_with_def)

lemma split_format_index: "split_stage_name (''index.'' @ k) = (''index'', k)"
  by (simp add: split_stage_name_def starts_with_def)

lemmas split_format [simp] = split_format_embedding split_format_index
  split_format_embedding [unfolded append.simps] split_format_index [unfolded append.simps]

lemma split_pipeline_value [simp]: "split_stage_name (pipeline_value p) = (''pipeline'', pipeline_value p)"
  by (cases p) (simp_all add: split_stage_name_def starts_with_def)

lemma stage_of_value [simp]: "stage_of (stage_value s) = Some s"
  by (cases s) (simp_all add: stage_of_def)

lemma stage_of_Some: "stage_of t = Some s \<longleftrightarrow> t = stage_value s"
  using find_SomeD(2) [of "\<lambda>x. stage_value x = t", folded stage_of_def] stage_of_value [of s]
  unfolding stage_of_def by fastforce

lemma stage_value_inj [simp]: "stage_value a = stage_value b \<longleftrightarrow> a = b"
  by (metis option.inject stage_of_value)

end
