(* ===== verification/Rag_Status.thy ===== *)
theory Rag_Status
  imports Rag_Policy
begin

text \<open>
  The status manager of document ingestion: the node repository
  (\<open>repositories/rag_status_repo.py\<close>), the resolution of target models
  (\<open>services/rag_target_model_service.py\<close>), the ingest policy and document views
  (\<open>services/rag_status_views.py\<close>) and the manager itself
  (\<open>services/rag_status_manager.py\<close>).

  The state holds the rows of the tables the manager reads and writes, the events it publishes, the
  Celery jobs it submits and the collections it asks to refresh. An operation reads the clock once; its
  calls of \<open>datetime.now\<close> all return that value. The order of \<open>order_by\<close> on text is the
  order of the bytes.
\<close>

section \<open>Tables\<close>

record model_row =
  mr_alias :: string
  mr_type :: string
  mr_enabled :: bool
  mr_default_for_type :: bool
  mr_status :: string
  mr_health :: "string option"
  mr_version :: "string option"
  mr_created :: int
  mr_deleted :: "int option"

record tenant_row =
  tn_id :: uuid
  tn_embedding_alias :: "string option"

record rag_document =
  dc_id :: uuid
  dc_tenant :: "uuid option"
  dc_agg_status :: "string option"
  dc_details :: "agg_details option"

datatype rag_event =
    StatusInitialized uuid uuid
  | StatusUpdate uuid "uuid option" string string "string option" "jobject option"
  | AggregateStatus uuid uuid string agg_details

datatype celery_job =
    PipelineJob uuid uuid "string list"
  | EmbedJob uuid uuid string
  | IndexJob uuid uuid string

record rag_db =
  rg_nodes :: "rag_node list"
  rg_docs :: "rag_document list"
  rg_models :: "model_row list"
  rg_tenants :: "tenant_row list"
  rg_memberships :: "(uuid \<times> uuid) list"
  rg_collections :: "uuid list"
  rg_synced :: "uuid list"
  rg_events :: "rag_event list"
  rg_jobs :: "celery_job list"

datatype rag_error =
    StatusTransitionError string StageStatus StageStatus
  | NoEmbeddingModels uuid
  | RetryNotSupported string
  | MissingAttribute string

text \<open>The tenant of the repository factory and whether an event publisher is configured.\<close>

record rag_manager =
  rm_tenant :: "uuid option"
  rm_publisher :: bool

section \<open>Node repository\<close>

definition find_doc :: "uuid \<Rightarrow> rag_db \<Rightarrow> rag_document option" where
  "find_doc doc s = find (\<lambda>d. dc_id d = doc) (rg_docs s)"

definition tenant_visible :: "uuid option \<Rightarrow> uuid \<Rightarrow> rag_db \<Rightarrow> bool" where
  "tenant_visible tenant doc s =
     (case tenant of None \<Rightarrow> True
      | Some t \<Rightarrow> (case find_doc doc s of None \<Rightarrow> False | Some d \<Rightarrow> dc_tenant d = Some t))"

definition get_nodes_by_doc_id :: "uuid option \<Rightarrow> uuid \<Rightarrow> rag_db \<Rightarrow> rag_node list" where
  "get_nodes_by_doc_id tenant doc s =
     sort_key (\<lambda>n. (rn_type n, rn_key n))
       (filter (\<lambda>n. rn_doc n = doc \<and> tenant_visible tenant doc s) (rg_nodes s))"

definition get_node :: "uuid option \<Rightarrow> uuid \<Rightarrow> string \<Rightarrow> string \<Rightarrow> rag_db \<Rightarrow> rag_node option" where
  "get_node tenant doc ty key s =
     find (\<lambda>n. rn_doc n = doc \<and> rn_type n = ty \<and> rn_key n = key \<and> tenant_visible tenant doc s) (rg_nodes s)"

definition get_typed_nodes :: "string \<Rightarrow> uuid option \<Rightarrow> uuid \<Rightarrow> rag_db \<Rightarrow> rag_node list" where
  "get_typed_nodes ty tenant doc s =
     sort_key rn_key (filter (\<lambda>n. rn_doc n = doc \<and> rn_type n = ty \<and> tenant_visible tenant doc s) (rg_nodes s))"

definition get_pipeline_nodes :: "uuid option \<Rightarrow> uuid \<Rightarrow> rag_db \<Rightarrow> rag_node list" where
  "get_pipeline_nodes = get_typed_nodes ''pipeline''"

definition get_embedding_nodes :: "uuid option \<Rightarrow> uuid \<Rightarrow> rag_db \<Rightarrow> rag_node list" where
  "get_embedding_nodes = get_typed_nodes ''embedding''"

definition get_index_nodes :: "uuid option \<Rightarrow> uuid \<Rightarrow> rag_db \<Rightarrow> rag_node list" where
  "get_index_nodes = get_typed_nodes ''index''"

definition get_nodes_by_status :: "uuid option \<Rightarrow> string \<Rightarrow> rag_db \<Rightarrow> rag_node list" where
  "get_nodes_by_status tenant status s =
     filter (\<lambda>n. rn_status n = status \<and> tenant_visible tenant (rn_doc n) s) (rg_nodes s)"

definition delete_nodes_by_doc_id :: "uuid option \<Rightarrow> uuid \<Rightarrow> rag_db \<Rightarrow> rag_db \<times> nat" where
  "delete_nodes_by_doc_id tenant doc s =
     (let gone = (\<lambda>n. rn_doc n = doc \<and> tenant_visible tenant doc s)
      in (s\<lparr>rg_nodes := filter (\<lambda>n. \<not> gone n) (rg_nodes s)\<rparr>, length (filter gone (rg_nodes s))))"

text \<open>In-place change of the rows with a given identity.\<close>

definition upd_node :: "uuid \<Rightarrow> string \<Rightarrow> string \<Rightarrow> (rag_node \<Rightarrow> rag_node) \<Rightarrow> rag_db \<Rightarrow> rag_db" where
  "upd_node doc ty key f s =
     s\<lparr>rg_nodes := map (\<lambda>n. if rn_doc n = doc \<and> rn_type n = ty \<and> rn_key n = key then f n else n) (rg_nodes s)\<rparr>"

definition update_node_status ::
    "uuid \<Rightarrow> string \<Rightarrow> string \<Rightarrow> string \<Rightarrow> string option \<Rightarrow> jobject option \<Rightarrow> int \<Rightarrow> rag_db \<Rightarrow> rag_db \<times> bool" where
  "update_node_status doc ty key status err metrics now s =
     (upd_node doc ty key (\<lambda>n. n\<lparr>rn_status := status, rn_error := err, rn_metrics := metrics, rn_updated := now\<rparr>) s,
      get_node None doc ty key s \<noteq> None)"

text \<open>The keyword arguments of \<open>upsert_node\<close>, all but the status optional.\<close>

record node_values =
  nv_status :: string
  nv_task :: "string option"
  nv_version :: "string option"
  nv_modality :: "string option"
  nv_error :: "string option"
  nv_metrics :: "jobject option"
  nv_started :: "int option"
  nv_finished :: "int option"

definition node_status :: "string \<Rightarrow> node_values" where
  "node_status st = \<lparr>nv_status = st, nv_task = None, nv_version = None, nv_modality = None, nv_error = None,
     nv_metrics = None, nv_started = None, nv_finished = None\<rparr>"

definition given :: "'a option \<Rightarrow> 'a option \<Rightarrow> 'a option" where
  "given new old = (case new of None \<Rightarrow> old | Some x \<Rightarrow> Some x)"

definition apply_values :: "node_values \<Rightarrow> int \<Rightarrow> rag_node \<Rightarrow> rag_node" where
  "apply_values v now n =
     n\<lparr>rn_status := nv_status v, rn_task := given (nv_task v) (rn_task n),
       rn_version := given (nv_version v) (rn_version n), rn_modality := given (nv_modality v) (rn_modality n),
       rn_error := nv_error v, rn_metrics := nv_metrics v, rn_started := given (nv_started v) (rn_started n),
       rn_finished := given (nv_finished v) (rn_finished n), rn_updated := now\<rparr>"

definition new_node :: "uuid \<Rightarrow> string \<Rightarrow> string \<Rightarrow> node_values \<Rightarrow> int \<Rightarrow> rag_node" where
  "new_node doc ty key v now =
     \<lparr>rn_doc = doc, rn_type = ty, rn_key = key, rn_status = nv_status v, rn_task = nv_task v,
      rn_version = nv_version v, rn_modality = nv_modality v, rn_error = nv_error v, rn_metrics = nv_metrics v,
      rn_started = nv_started v, rn_finished = nv_finished v, rn_updated = now\<rparr>"

definition upsert_node :: "uuid option \<Rightarrow> uuid \<Rightarrow> string \<Rightarrow> string \<Rightarrow> node_values \<Rightarrow> int \<Rightarrow> rag_db \<Rightarrow> rag_db" where
  "upsert_node tenant doc ty key v now s =
     (if get_node tenant doc ty key s \<noteq> None then upd_node doc ty key (apply_values v now) s
      else if find_doc doc s = None then s
      else s\<lparr>rg_nodes := rg_nodes s @ [new_node doc ty key v now]\<rparr>)"

section \<open>Target models\<close>

definition serving :: "model_row \<Rightarrow> bool" where
  "serving m \<longleftrightarrow> mr_type m = ''embedding'' \<and> mr_enabled m \<and> mr_status m = ''available'' \<and> mr_deleted m = None"

definition first_alias :: "model_row list \<Rightarrow> string option" where
  "first_alias ms = (case ms of [] \<Rightarrow> None | m # _ \<Rightarrow> Some (mr_alias m))"

definition get_target_models_for_tenant :: "uuid \<Rightarrow> rag_db \<Rightarrow> string list" where
  "get_target_models_for_tenant tenant s =
     (case find (\<lambda>t. tn_id t = tenant) (rg_tenants s) of
        None \<Rightarrow> []
      | Some t \<Rightarrow>
          let by_age = sort_key mr_created (filter serving (rg_models s));
              default_alias = first_alias (filter mr_default_for_type by_age);
              fallback_alias = first_alias by_age;
              models = (if opt_truthy default_alias then [the default_alias]
                        else if opt_truthy fallback_alias then [the fallback_alias] else []);
              tenant_alias = strip (case tn_embedding_alias t of None \<Rightarrow> [] | Some a \<Rightarrow> a)
          in if tenant_alias \<noteq> [] \<and> list_ex (\<lambda>m. serving m \<and> mr_alias m = tenant_alias) (rg_models s)
                \<and> tenant_alias \<notin> set models
             then models @ [tenant_alias] else models)"

definition get_target_models :: "rag_manager \<Rightarrow> uuid \<Rightarrow> rag_db \<Rightarrow> string list" where
  "get_target_models mg doc s =
     (case rm_tenant mg of
        Some t \<Rightarrow> get_target_models_for_tenant t s
      | None \<Rightarrow> (case Option.bind (find_doc doc s) dc_tenant of
                  None \<Rightarrow> [] | Some t \<Rightarrow> get_target_models_for_tenant t s))"

text \<open>Default and tenant aliases with the availability of each, for the effective status.\<close>

definition model_available :: "model_row \<Rightarrow> bool" where
  "model_available m \<longleftrightarrow> mr_alias m \<noteq> [] \<and> mr_enabled m \<and> mr_deleted m = None
     \<and> mr_status m = ''available'' \<and> mr_health m = Some ''healthy''"

definition resolve_status_model_context ::
    "uuid \<Rightarrow> rag_db \<Rightarrow> string option \<times> string option \<times> (string, bool) dict" where
  "resolve_status_model_context doc s =
     (let default_alias = first_alias (filter (\<lambda>m. serving m \<and> mr_default_for_type m) (rg_models s));
          secondary_alias = (case Option.bind (find_doc doc s) dc_tenant of
             None \<Rightarrow> None
           | Some t \<Rightarrow> Option.bind (find (\<lambda>x. tn_id x = t) (rg_tenants s)) tn_embedding_alias);
          aliases = concat (map (\<lambda>a. if opt_truthy a then [the a] else []) [default_alias, secondary_alias]);
          availability = fold (\<lambda>m d. AList.update (mr_alias m) (model_available m) d)
            (filter (\<lambda>m. mr_alias m \<in> set aliases) (rg_models s)) []
      in (default_alias, secondary_alias, availability))"

definition get_current_model_versions :: "string list \<Rightarrow> rag_db \<Rightarrow> (string, string) dict" where
  "get_current_model_versions targets s =
     fold (\<lambda>m d. AList.update (mr_alias m) (the (mr_version m)) d)
       (filter (\<lambda>m. mr_alias m \<in> set (filter (\<lambda>a. a \<noteq> []) targets) \<and> mr_alias m \<noteq> [] \<and> opt_truthy (mr_version m))
         (rg_models s)) []"

definition annotate_stale_models ::
    "rag_node list \<Rightarrow> (string, string) dict \<Rightarrow> string list \<Rightarrow> agg_details \<Rightarrow> agg_details" where
  "annotate_stale_models index_nodes versions targets d =
     (let stale = sort (remdups (map rn_key (filter (\<lambda>n. rn_key n \<noteq> [] \<and> rn_key n \<in> set targets
                    \<and> opt_truthy (rn_version n) \<and> opt_truthy (map_of versions (rn_key n))
                    \<and> map_of versions (rn_key n) \<noteq> rn_version n) index_nodes)))
      in d\<lparr>ad_stale_models := stale,
           ad_counters := AList.update ''stale_models'' (length stale) (ad_counters d),
           ad_policy := (if stale \<noteq> [] \<and> ad_policy d = ''all_index_ready'' then ''index_ready_but_stale''
                         else ad_policy d)\<rparr>)"

end
