(* ===== verification/Rag_Manager.thy ===== *)
theory Rag_Manager
  imports Rag_Status
begin

text \<open>
  \<open>RAGStatusManager\<close> of \<open>services/rag_status_manager.py\<close>: every operation that changes
  the status nodes of a document, with the cascades, the aggregate status and the published events, and
  the policy and status views. The manager creates its node repository without a tenant, so the
  repository calls below pass none.
\<close>

section \<open>The aggregate status of a document\<close>

definition publish :: "rag_manager \<Rightarrow> rag_event \<Rightarrow> rag_db \<Rightarrow> rag_db" where
  "publish mg ev s = (if rm_publisher mg then s\<lparr>rg_events := rg_events s @ [ev]\<rparr> else s)"

definition refresh_collection_statuses_for_document :: "uuid \<Rightarrow> rag_db \<Rightarrow> rag_db" where
  "refresh_collection_statuses_for_document doc s =
     s\<lparr>rg_synced := rg_synced s @ filter (\<lambda>c. c \<in> set (rg_collections s))
         (map snd (filter (\<lambda>m. fst m = doc) (rg_memberships s)))\<rparr>"

definition aggregate_of :: "rag_manager \<Rightarrow> uuid \<Rightarrow> int \<Rightarrow> rag_db \<Rightarrow> string \<times> agg_details" where
  "aggregate_of mg doc now s =
     (let index_nodes = get_index_nodes None doc s;
          targets = get_target_models mg doc s;
          (default_alias, secondary_alias, availability) = resolve_status_model_context doc s;
          (status, details) = calculate_aggregate_status now (get_pipeline_nodes None doc s)
             (get_embedding_nodes None doc s) targets index_nodes
             (get_node None doc ''archive'' ''archive'' s \<noteq> None) default_alias secondary_alias availability
      in (status, annotate_stale_models index_nodes (get_current_model_versions targets s) targets details))"

definition update_aggregate_status :: "rag_manager \<Rightarrow> uuid \<Rightarrow> int \<Rightarrow> rag_db \<Rightarrow> rag_db" where
  "update_aggregate_status mg doc now s =
     (let (status, details) = aggregate_of mg doc now s;
          prev = find_doc doc s;
          prev_status = Option.bind prev dc_agg_status;
          prev_effective = map_option ad_effective_status (Option.bind prev dc_details);
          changed = (Some status \<noteq> prev_status \<or> Some (ad_effective_status details) \<noteq> prev_effective);
          s1 = s\<lparr>rg_docs := map (\<lambda>d. if dc_id d = doc then d\<lparr>dc_agg_status := Some status, dc_details := Some details\<rparr>
                                     else d) (rg_docs s)\<rparr>;
          s2 = (case Option.bind prev dc_tenant of
                  None \<Rightarrow> s1
                | Some t \<Rightarrow> if changed then publish mg (AggregateStatus doc t status details) s1 else s1)
      in refresh_collection_statuses_for_document doc s2)"

section \<open>Resets and cascades\<close>

definition reset_node :: "StageStatus \<Rightarrow> int \<Rightarrow> rag_node \<Rightarrow> rag_node" where
  "reset_node target now n =
     (let n1 = n\<lparr>rn_status := stage_value target\<rparr>;
          n2 = (if target = StPending
                then n1\<lparr>rn_started := None, rn_finished := None, rn_error := None, rn_metrics := None\<rparr>
                else if target = StCancelled then n1\<lparr>rn_finished := Some now\<rparr> else n1)
      in n2\<lparr>rn_updated := now\<rparr>)"

definition reset_stage_if_needed :: "uuid \<Rightarrow> StageStatus \<Rightarrow> bool \<Rightarrow> int \<Rightarrow> string \<Rightarrow> rag_db \<Rightarrow> rag_db" where
  "reset_stage_if_needed doc target force now stage s =
     (let (ty, key) = split_stage_name stage in
      case get_node None doc ty key s of
        Some n \<Rightarrow>
          if \<not> force \<and> rn_status n \<in> {stage_value StCompleted, stage_value StCancelled} then s
          else upd_node doc ty key (reset_node target now) s
      | None \<Rightarrow>
          upsert_node None doc ty key ((node_status (stage_value target))
            \<lparr>nv_finished := if target = StCancelled then Some now else None\<rparr>) now s)"

definition stage_order :: "string list" where
  "stage_order = [''upload'', ''extract'', ''normalize'', ''chunk'']"

definition after_stage :: "string \<Rightarrow> string list" where
  "after_stage stage = drop 1 (dropWhile (\<lambda>x. x \<noteq> stage) stage_order)"

definition cascade_reset_downstream :: "uuid \<Rightarrow> bool \<Rightarrow> int \<Rightarrow> string \<Rightarrow> rag_db \<Rightarrow> rag_db" where
  "cascade_reset_downstream doc reset_to_pending now stage s =
     (let target = (if reset_to_pending then StPending else StCancelled);
          reset = reset_stage_if_needed doc target (target = StPending) now
      in if starts_with ''embed.'' stage then reset (''index.'' @ drop 6 stage) s
         else if starts_with ''index.'' stage then s
         else if stage \<notin> set stage_order then s
         else
           let s1 = fold reset (after_stage stage) s
           in fold (\<lambda>n t. reset (''index.'' @ rn_key n) (reset (''embed.'' @ rn_key n) t))
                (get_embedding_nodes None doc s1) s1)"

section \<open>Transitions\<close>

definition transition_allowed :: "rag_node option \<Rightarrow> StageStatus \<Rightarrow> bool" where
  "transition_allowed node new_status =
     (case node of None \<Rightarrow> True
      | Some n \<Rightarrow> (case stage_of (rn_status n) of None \<Rightarrow> True | Some cur \<Rightarrow> new_status \<in> set (valid_transitions cur)))"

definition transition_values :: "StageStatus \<Rightarrow> string option \<Rightarrow> jobject option \<Rightarrow> string option \<Rightarrow> int \<Rightarrow> node_values" where
  "transition_values new_status err metrics task now =
     (let v = (node_status (stage_value new_status))
            \<lparr>nv_task := (if opt_truthy task then task else None),
             nv_error := (if opt_truthy err then err else None),
             nv_metrics := (case metrics of None \<Rightarrow> None | Some m \<Rightarrow> if m = [] then None else Some m)\<rparr>
      in if new_status = StProcessing then v\<lparr>nv_started := Some now\<rparr>
         else if new_status \<in> {StCompleted, StFailed, StCancelled} then v\<lparr>nv_finished := Some now, nv_task := None\<rparr>
         else v)"

definition transition_stage ::
    "rag_manager \<Rightarrow> uuid \<Rightarrow> string \<Rightarrow> StageStatus \<Rightarrow> string option \<Rightarrow> jobject option \<Rightarrow> string option \<Rightarrow> int \<Rightarrow> rag_db
     \<Rightarrow> rag_error + rag_db" where
  "transition_stage mg doc stage new_status err metrics task now s =
     (let (ty, key) = split_stage_name stage;
          node = get_node None doc ty key s
      in if \<not> transition_allowed node new_status
         then Inl (StatusTransitionError stage (the (stage_of (rn_status (the node)))) new_status)
         else
           let s1 = upsert_node None doc ty key (transition_values new_status err metrics task now) now s;
               s2 = publish mg (StatusUpdate doc (Option.bind (find_doc doc s1) dc_tenant) stage
                      (stage_value new_status) err metrics) s1;
               s3 = (if new_status \<in> {StFailed, StCancelled} then cascade_reset_downstream doc False now stage s2 else s2)
           in Inr (update_aggregate_status mg doc now s3))"

section \<open>Operations\<close>

definition initialize_document_statuses :: "rag_manager \<Rightarrow> uuid \<Rightarrow> uuid \<Rightarrow> string list \<Rightarrow> int \<Rightarrow> rag_db \<Rightarrow> rag_db" where
  "initialize_document_statuses mg doc tenant models now s =
     (let put = (\<lambda>ty key t. upsert_node None doc ty key (node_status (stage_value StPending)) now t);
          s1 = upsert_node None doc ''pipeline'' (pipeline_value StageUpload)
                 ((node_status (stage_value StCompleted))\<lparr>nv_started := Some now, nv_finished := Some now\<rparr>) now s;
          s2 = fold (\<lambda>st. put ''pipeline'' (pipeline_value st)) [StageExtract, StageNormalize, StageChunk] s1;
          s3 = fold (put ''embedding'') models s2;
          s4 = fold (put ''index'') models s3
      in update_aggregate_status mg doc now (publish mg (StatusInitialized doc tenant) s4))"

definition ensure_nodes :: "rag_manager \<Rightarrow> uuid \<Rightarrow> int \<Rightarrow> rag_db \<Rightarrow> rag_db" where
  "ensure_nodes mg doc now s =
     (if get_pipeline_nodes None doc s = [] \<and> get_embedding_nodes None doc s = [] \<and> get_index_nodes None doc s = []
      then (case Option.bind (find_doc doc s) dc_tenant of
              None \<Rightarrow> s
            | Some t \<Rightarrow> initialize_document_statuses mg doc t (get_target_models mg doc s) now s)
      else s)"

definition reset_for_ingest :: "uuid \<Rightarrow> int \<Rightarrow> rag_db \<Rightarrow> rag_db" where
  "reset_for_ingest doc now s =
     (let stages = filter (\<lambda>k. k \<noteq> pipeline_value StageUpload) (map rn_key (get_pipeline_nodes None doc s))
                   @ map (\<lambda>n. ''embed.'' @ rn_key n) (get_embedding_nodes None doc s)
                   @ map (\<lambda>n. ''index.'' @ rn_key n) (get_index_nodes None doc s)
      in fold (reset_stage_if_needed doc StPending True now) stages s)"

definition start_ingest :: "rag_manager \<Rightarrow> uuid \<Rightarrow> int \<Rightarrow> rag_db \<Rightarrow> rag_error + rag_db" where
  "start_ingest mg doc now s =
     transition_stage mg doc (pipeline_value StageExtract) StQueued None None None now
       (reset_for_ingest doc now (ensure_nodes mg doc now s))"

definition dispatch_ingest_pipeline :: "rag_manager \<Rightarrow> uuid \<Rightarrow> uuid \<Rightarrow> rag_db \<Rightarrow> rag_error + rag_db \<times> string list" where
  "dispatch_ingest_pipeline mg doc tenant s =
     (let models = get_target_models mg doc s in
      if models = [] then Inl (NoEmbeddingModels tenant)
      else Inr (s\<lparr>rg_jobs := rg_jobs s @ [PipelineJob doc tenant models]\<rparr>, models))"

definition stop_stage :: "rag_manager \<Rightarrow> uuid \<Rightarrow> string \<Rightarrow> int \<Rightarrow> rag_db \<Rightarrow> rag_error + rag_db \<times> string option" where
  "stop_stage mg doc stage now s =
     (let (ty, key) = split_stage_name stage in
      case get_node None doc ty key s of
        None \<Rightarrow> Inr (s, None)
      | Some n \<Rightarrow>
          bindE (transition_stage mg doc stage StCancelled None None None now s) (\<lambda>s1.
            Inr (cascade_reset_downstream doc False now stage s1, rn_task n)))"

text \<open>
  The loop of \<open>stop_ingest\<close> reads each node when it is reached: the cascades of the stages stopped
  before it have already changed it.
\<close>

fun stop_nodes ::
    "rag_manager \<Rightarrow> uuid \<Rightarrow> int \<Rightarrow> (string \<times> string) list \<Rightarrow> rag_db \<Rightarrow> rag_error + rag_db \<times> string list \<times> string list" where
  "stop_nodes mg doc now [] s = Inr (s, [], [])"
| "stop_nodes mg doc now ((ty, key) # nodes) s =
     (case get_node None doc ty key s of
        None \<Rightarrow> stop_nodes mg doc now nodes s
      | Some n \<Rightarrow>
          if rn_status n \<notin> {stage_value StQueued, stage_value StProcessing} then stop_nodes mg doc now nodes s
          else
            let stage = format_stage_name ty key in
            bindE (transition_stage mg doc stage StCancelled None None None now s) (\<lambda>s1.
            bindE (stop_nodes mg doc now nodes s1) (\<lambda>(s2, stages, tasks).
              Inr (s2, stage # stages, (if opt_truthy (rn_task n) then [the (rn_task n)] else []) @ tasks))))"

definition stop_ingest :: "rag_manager \<Rightarrow> uuid \<Rightarrow> int \<Rightarrow> rag_db \<Rightarrow> rag_error + rag_db \<times> string list \<times> string list" where
  "stop_ingest mg doc now s =
     stop_nodes mg doc now (map (\<lambda>n. (rn_type n, rn_key n)) (get_nodes_by_doc_id None doc s)) s"

definition retry_stage :: "rag_manager \<Rightarrow> uuid \<Rightarrow> string \<Rightarrow> int \<Rightarrow> rag_db \<Rightarrow> rag_error + rag_db" where
  "retry_stage mg doc stage now s =
     bindE (transition_stage mg doc stage StQueued None None None now s) (\<lambda>s1.
       Inr (if starts_with ''embed.'' stage
            then reset_stage_if_needed doc StPending True now (''index.'' @ drop 6 stage) s1
            else if starts_with ''index.'' stage then s1
            else cascade_reset_downstream doc True now stage s1))"

definition dispatch_stage_retry :: "rag_manager \<Rightarrow> uuid \<Rightarrow> uuid \<Rightarrow> string \<Rightarrow> rag_db \<Rightarrow> rag_error + rag_db" where
  "dispatch_stage_retry mg doc tenant stage s =
     (if stage = ''extract'' then bindE (dispatch_ingest_pipeline mg doc tenant s) (\<lambda>r. Inr (fst r))
      else if starts_with ''embed.'' stage then Inr (s\<lparr>rg_jobs := rg_jobs s @ [EmbedJob doc tenant (drop 6 stage)]\<rparr>)
      else if starts_with ''index.'' stage then Inr (s\<lparr>rg_jobs := rg_jobs s @ [IndexJob doc tenant (drop 6 stage)]\<rparr>)
      else Inl (RetryNotSupported stage))"

definition archive_document :: "uuid \<Rightarrow> int \<Rightarrow> rag_db \<Rightarrow> rag_db" where
  "archive_document doc now s =
     upsert_node None doc ''archive'' ''archive''
       ((node_status (stage_value StCompleted))\<lparr>nv_started := Some now, nv_finished := Some now\<rparr>) now s"

text \<open>\<open>AsyncRAGStatusRepository\<close> and its base class have no method \<open>delete_node\<close>.\<close>

definition unarchive_document :: "uuid \<Rightarrow> rag_db \<Rightarrow> rag_error + rag_db" where
  "unarchive_document doc s = Inl (MissingAttribute ''delete_node'')"

section \<open>Policy and status views\<close>

record ingest_policy =
  ip_archived :: bool
  ip_start_allowed :: bool
  ip_start_reason :: "string option"
  ip_active_stages :: "string list"
  ip_retryable_stages :: "string list"
  ip_stoppable_stages :: "string list"
  ip_controls :: "stage_control list"

definition status_or_pending :: "uuid \<Rightarrow> string \<Rightarrow> string \<Rightarrow> rag_db \<Rightarrow> string" where
  "status_or_pending doc ty key s =
     (case get_node None doc ty key s of None \<Rightarrow> stage_value StPending | Some n \<Rightarrow> rn_status n)"

definition stage_controls :: "uuid \<Rightarrow> string list \<Rightarrow> bool \<Rightarrow> rag_db \<Rightarrow> stage_control list" where
  "stage_controls doc models archived s =
     map (\<lambda>k. build_stage_control k ''pipeline'' (status_or_pending doc ''pipeline'' k s) archived) stage_order
     @ concat (map (\<lambda>m. [build_stage_control (''embed.'' @ m) ''embedding'' (status_or_pending doc ''embedding'' m s) archived,
                         build_stage_control (''index.'' @ m) ''index'' (status_or_pending doc ''index'' m s) archived]) models)"

definition build_ingest_policy :: "rag_manager \<Rightarrow> uuid \<Rightarrow> rag_db \<Rightarrow> ingest_policy" where
  "build_ingest_policy mg doc s =
     (let models = sort (remdups (get_target_models mg doc s @ map rn_key (get_embedding_nodes None doc s)
                                  @ map rn_key (get_index_nodes None doc s)));
          archived = (get_node None doc ''archive'' ''archive'' s \<noteq> None);
          controls = stage_controls doc models archived s;
          active = map sc_stage (filter (\<lambda>c. sc_status c \<in> set stoppable_stage_statuses) controls)
      in \<lparr>ip_archived = archived, ip_start_allowed = (\<not> archived \<and> active = []),
          ip_start_reason = (if archived then Some ''document_archived''
                             else if active \<noteq> [] then Some ''ingest_already_running'' else None),
          ip_active_stages = active,
          ip_retryable_stages = map sc_stage (filter sc_can_retry controls),
          ip_stoppable_stages = map sc_stage (filter sc_can_stop controls),
          ip_controls = controls\<rparr>)"

definition check_ingest_allowed :: "rag_manager \<Rightarrow> uuid \<Rightarrow> rag_db \<Rightarrow> (string option \<times> string list) option" where
  "check_ingest_allowed mg doc s =
     (let p = build_ingest_policy mg doc s in
      if ip_start_allowed p then None else Some (ip_start_reason p, ip_active_stages p))"

record document_status =
  ds_pipeline :: "(string, rag_node) dict"
  ds_embeddings :: "(string, rag_node) dict"
  ds_index :: "(string, rag_node) dict"
  ds_archived :: bool

definition build_document_status :: "uuid \<Rightarrow> rag_db \<Rightarrow> document_status" where
  "build_document_status doc s =
     (let view = (\<lambda>nodes. fold (\<lambda>n d. AList.update (rn_key n) n d) nodes [])
      in \<lparr>ds_pipeline = view (get_pipeline_nodes None doc s), ds_embeddings = view (get_embedding_nodes None doc s),
          ds_index = view (get_index_nodes None doc s),
          ds_archived = (get_node None doc ''archive'' ''archive'' s \<noteq> None)\<rparr>)"

end
