(* ===== verification/Rag_Props.thy ===== *)
theory Rag_Props
  imports Rag_Manager
begin

text \<open>
  How the operations of the status manager change the nodes of a document: lookup lemmas for every
  write, and the effect of the cascades as a relation on states that composes.
\<close>

section \<open>Lookups after writes\<close>

definition node_at :: "rag_db \<Rightarrow> uuid \<Rightarrow> string \<Rightarrow> string \<Rightarrow> rag_node option" where
  "node_at s doc ty key = get_node None doc ty key s"

lemma get_node_None [simp]: "get_node None doc ty key s = node_at s doc ty key"
  by (simp add: node_at_def)

lemma node_at_find: "node_at s doc ty key = find (\<lambda>n. rn_doc n = doc \<and> rn_type n = ty \<and> rn_key n = key) (rg_nodes s)"
  by (simp add: node_at_def get_node_def tenant_visible_def del: get_node_None)

lemma node_at_cong: "rg_nodes s' = rg_nodes s \<Longrightarrow> node_at s' = node_at s"
  by (simp add: node_at_find fun_eq_iff)

lemma node_at_SomeD: "node_at s doc ty key = Some n \<Longrightarrow> n \<in> set (rg_nodes s) \<and> rn_doc n = doc \<and> rn_type n = ty \<and> rn_key n = key"
  by (auto simp: node_at_find dest: find_SomeD)

lemma node_at_member: "n \<in> set (rg_nodes s) \<Longrightarrow> node_at s (rn_doc n) (rn_type n) (rn_key n) \<noteq> None"
  by (auto simp: node_at_find find_None_iff)

definition keeps_identity :: "(rag_node \<Rightarrow> rag_node) \<Rightarrow> bool" where
  "keeps_identity f \<longleftrightarrow> (\<forall>n. rn_doc (f n) = rn_doc n \<and> rn_type (f n) = rn_type n \<and> rn_key (f n) = rn_key n)"

lemma keeps_identity_simps [simp]:
  "keeps_identity (apply_values v now)" "keeps_identity (reset_node target now)"
  by (simp_all add: keeps_identity_def apply_values_def reset_node_def Let_def)

lemma node_at_upd:
  assumes "keeps_identity f"
  shows "node_at (upd_node d t k f s) doc ty key =
     (if doc = d \<and> ty = t \<and> key = k then map_option f (node_at s d t k) else node_at s doc ty key)"
proof -
  have "find (\<lambda>n. rn_doc n = doc \<and> rn_type n = ty \<and> rn_key n = key)
          (map (\<lambda>n. if rn_doc n = d \<and> rn_type n = t \<and> rn_key n = k then f n else n) ns) =
     (if doc = d \<and> ty = t \<and> key = k then map_option f (find (\<lambda>n. rn_doc n = d \<and> rn_type n = t \<and> rn_key n = k) ns)
      else find (\<lambda>n. rn_doc n = doc \<and> rn_type n = ty \<and> rn_key n = key) ns)" for ns
    using assms by (induction ns) (auto simp: keeps_identity_def)
  then show ?thesis by (simp add: node_at_find upd_node_def)
qed

lemma node_at_upsert:
  "node_at (upsert_node None d t k v now s) doc ty key =
     (if doc = d \<and> ty = t \<and> key = k
      then (case node_at s d t k of
              Some n \<Rightarrow> Some (apply_values v now n)
            | None \<Rightarrow> if find_doc d s = None then None else Some (new_node d t k v now))
      else node_at s doc ty key)"
proof (cases "node_at s d t k")
  case (Some n)
  then show ?thesis by (simp add: upsert_node_def node_at_upd)
next
  case None
  have upd: "node_at (s\<lparr>rg_nodes := rg_nodes s @ [new_node d t k v now]\<rparr>) doc ty key =
     (if doc = d \<and> ty = t \<and> key = k then Some (new_node d t k v now) else node_at s doc ty key)" for doc ty key
    using None unfolding node_at_find by (auto simp: find_snoc new_node_def split: option.splits)
  then show ?thesis using None by (auto simp: upsert_node_def upd)
qed

lemma status_apply_values [simp]: "rn_status (apply_values v now n) = nv_status v"
  by (simp add: apply_values_def)

lemma status_new_node [simp]: "rn_status (new_node d t k v now) = nv_status v"
  by (simp add: new_node_def)

lemma status_reset_node [simp]: "rn_status (reset_node target now n) = stage_value target"
  by (simp add: reset_node_def Let_def)

lemma nv_status_simps [simp]:
  "nv_status (node_status st) = st" "nv_status (transition_values new e m t now) = stage_value new"
  by (simp_all add: node_status_def transition_values_def Let_def)

section \<open>What leaves the nodes alone\<close>

lemma find_doc_cong: "rg_docs s' = rg_docs s \<Longrightarrow> find_doc d s' = find_doc d s"
  by (simp add: find_doc_def)

lemma docs_simps [simp]:
  "rg_docs (upd_node d t k f s) = rg_docs s" "rg_docs (upsert_node tn d t k v now s) = rg_docs s"
  "rg_docs (publish mg ev s) = rg_docs s" "rg_docs (reset_stage_if_needed d target force now stage s) = rg_docs s"
  by (auto simp: upd_node_def upsert_node_def publish_def reset_stage_if_needed_def Let_def split: prod.splits option.splits)

lemma find_doc_simps [simp]:
  "find_doc d (upd_node d' t k f s) = find_doc d s" "find_doc d (upsert_node tn d' t k v now s) = find_doc d s"
  "find_doc d (publish mg ev s) = find_doc d s" "find_doc d (reset_stage_if_needed d' target force now stage s) = find_doc d s"
  by (simp_all add: find_doc_def)

lemma nodes_publish [simp]: "rg_nodes (publish mg ev s) = rg_nodes s"
  by (simp add: publish_def)

lemma nodes_aggregate [simp]: "rg_nodes (update_aggregate_status mg doc now s) = rg_nodes s"
  by (auto simp: update_aggregate_status_def refresh_collection_statuses_for_document_def Let_def split: prod.splits option.splits)

lemma find_map_same:
  assumes "\<And>x. P (f x) = P x"
  shows "find P (map f xs) = map_option f (find P xs)"
  by (induction xs) (auto simp: assms)

lemma find_doc_aggregate [simp]:
  "find_doc d (update_aggregate_status mg doc now s) = None \<longleftrightarrow> find_doc d s = None"
proof -
  obtain status details where a: "aggregate_of mg doc now s = (status, details)" by fastforce
  let ?f = "\<lambda>x. if dc_id x = doc then x\<lparr>dc_agg_status := Some status, dc_details := Some details\<rparr> else x"
  have "rg_docs (update_aggregate_status mg doc now s) = map ?f (rg_docs s)"
    by (cases "Option.bind (find_doc doc s) dc_tenant")
       (simp_all add: update_aggregate_status_def a refresh_collection_statuses_for_document_def publish_def Let_def)
  then show ?thesis by (simp add: find_doc_def find_map_same)
qed

lemma node_at_quiet [simp]:
  "node_at (publish mg ev s) = node_at s" "node_at (update_aggregate_status mg doc now s) = node_at s"
  by (rule node_at_cong, simp)+

section \<open>Resets\<close>

lemma node_at_reset:
  assumes "split_stage_name stage = (t, k)"
  shows "node_at (reset_stage_if_needed d target force now stage s) doc ty key =
     (if doc = d \<and> ty = t \<and> key = k
      then (case node_at s d t k of
              Some n \<Rightarrow> if \<not> force \<and> rn_status n \<in> {''completed'', ''cancelled''} then Some n
                        else Some (reset_node target now n)
            | None \<Rightarrow> if find_doc d s = None then None
                      else Some (new_node d t k ((node_status (stage_value target))
                             \<lparr>nv_finished := if target = StCancelled then Some now else None\<rparr>) now))
      else node_at s doc ty key)"
  using assms by (auto simp: reset_stage_if_needed_def node_at_upd node_at_upsert split: option.splits)

text \<open>
  A state that differs from another only in nodes of one document that have been set to a status, none
  of which had a status to be kept.
\<close>

definition only_reset :: "uuid \<Rightarrow> string \<Rightarrow> string set \<Rightarrow> rag_db \<Rightarrow> rag_db \<Rightarrow> bool" where
  "only_reset doc st keep s s' \<longleftrightarrow>
     (\<forall>d ty key. node_at s' d ty key = node_at s d ty key \<or>
        (d = doc \<and> map_option rn_status (node_at s' d ty key) = Some st
          \<and> (\<forall>n. node_at s d ty key = Some n \<longrightarrow> rn_status n \<notin> keep)))"

lemma only_reset_refl [simp]: "only_reset doc st keep s s"
  by (simp add: only_reset_def)

lemma only_reset_trans:
  assumes "only_reset doc st keep s t" and "only_reset doc st keep t u"
  shows "only_reset doc st keep s u"
  unfolding only_reset_def
proof (intro allI)
  fix d ty key
  show "node_at u d ty key = node_at s d ty key \<or>
        (d = doc \<and> map_option rn_status (node_at u d ty key) = Some st
          \<and> (\<forall>n. node_at s d ty key = Some n \<longrightarrow> rn_status n \<notin> keep))"
    using assms(1) [unfolded only_reset_def, rule_format, of d ty key]
      assms(2) [unfolded only_reset_def, rule_format, of d ty key] by metis
qed

lemma only_reset_cong:
  "only_reset doc st keep s t \<Longrightarrow> node_at t' = node_at t \<Longrightarrow> only_reset doc st keep s t'"
  by (simp add: only_reset_def)

lemma only_reset_stage:
  "only_reset d (stage_value target) (if force then {} else {''completed'', ''cancelled''}) s
     (reset_stage_if_needed d target force now stage s)"
proof -
  obtain t k where sp: "split_stage_name stage = (t, k)" by fastforce
  show ?thesis
    unfolding only_reset_def node_at_reset [OF sp] by (auto split: option.splits)
qed

lemma only_reset_fold:
  assumes "\<And>x s. x \<in> set xs \<Longrightarrow> only_reset doc st keep s (f x s)"
  shows "only_reset doc st keep s (fold f xs s)"
  using assms
proof (induction xs arbitrary: s)
  case (Cons x xs)
  have "only_reset doc st keep s (f x s)" using Cons.prems by simp
  moreover have "only_reset doc st keep (f x s) (fold f xs (f x s))" using Cons by simp
  ultimately show ?case by (auto intro: only_reset_trans)
qed simp

lemma cascade_only_reset:
  "only_reset doc (if p then ''pending'' else ''cancelled'') (if p then {} else {''completed'', ''cancelled''}) s
     (cascade_reset_downstream doc p now stage s)" (is "only_reset doc ?st ?keep s _")
proof -
  let ?T = "if p then StPending else StCancelled"
  let ?reset = "reset_stage_if_needed doc ?T p now"
  have one: "only_reset doc ?st ?keep t (?reset x t)" for x t
    using only_reset_stage [of doc ?T p t now x] by (cases p) simp_all
  have models: "only_reset doc ?st ?keep t (fold (\<lambda>n u. ?reset (''index.'' @ rn_key n) (?reset (''embed.'' @ rn_key n) u)) ns t)" for ns :: "rag_node list" and t
    by (rule only_reset_fold) (rule only_reset_trans [OF one one])
  have stages: "only_reset doc ?st ?keep t (fold ?reset xs t)" for xs t
    by (rule only_reset_fold) (rule one)
  have f: "(?T = StPending) = p" by simp
  show ?thesis
    unfolding cascade_reset_downstream_def Let_def f
    using one only_reset_trans [OF stages models] by (cases p) simp_all
qed

lemma find_doc_fold_reset [simp]:
  "find_doc d (fold (reset_stage_if_needed doc target force now) stages s) = find_doc d s"
  by (induction stages arbitrary: s) auto

abbreviation status_at :: "rag_db \<Rightarrow> uuid \<Rightarrow> string \<Rightarrow> string \<Rightarrow> string option" where
  "status_at s doc ty key \<equiv> map_option rn_status (node_at s doc ty key)"

lemma only_reset_keeps:
  "only_reset doc st keep s s' \<Longrightarrow> status_at s doc ty key = Some st \<Longrightarrow> status_at s' doc ty key = Some st"
  unfolding only_reset_def by metis

lemma only_reset_exists:
  "only_reset doc st keep s s' \<Longrightarrow> node_at s d ty key \<noteq> None \<Longrightarrow> node_at s' d ty key \<noteq> None"
  unfolding only_reset_def by (metis option.map_disc_iff option.simps(3))

lemma reset_sets:
  assumes "split_stage_name stage = (t, k)" and "node_at s d t k \<noteq> None \<or> find_doc d s \<noteq> None"
  shows "status_at (reset_stage_if_needed d target True now stage s) d t k = Some (stage_value target)"
  using assms by (auto simp: node_at_reset split: option.splits)

lemma fold_reset_only:
  "only_reset d (stage_value target) (if force then {} else {''completed'', ''cancelled''}) s
     (fold (reset_stage_if_needed d target force now) stages s)"
  by (rule only_reset_fold) (rule only_reset_stage)

lemma fold_reset_sets:
  assumes "stage \<in> set stages" and "split_stage_name stage = (t, k)" and "node_at s d t k \<noteq> None \<or> find_doc d s \<noteq> None"
  shows "status_at (fold (reset_stage_if_needed d target True now) stages s) d t k = Some (stage_value target)"
  using assms
proof (induction stages arbitrary: s)
  case (Cons x xs)
  let ?s = "reset_stage_if_needed d target True now x s"
  note only = fold_reset_only [of d target True ?s now xs, simplified]
  show ?case
  proof (cases "stage = x")
    case True
    then show ?thesis using reset_sets [OF Cons.prems(2,3)] only_reset_keeps [OF only] by simp
  next
    case False
    have "node_at ?s d t k \<noteq> None \<or> find_doc d ?s \<noteq> None"
      using Cons.prems(3) only_reset_exists [OF only_reset_stage] by auto
    then show ?thesis using False Cons by auto
  qed
qed simp

lemma fold_reset_other:
  "\<forall>x\<in>set stages. split_stage_name x \<noteq> (t, k) \<Longrightarrow>
   node_at (fold (reset_stage_if_needed d target force now) stages s) d' t k = node_at s d' t k"
proof (induction stages arbitrary: s)
  case (Cons x xs)
  obtain t' k' where sp: "split_stage_name x = (t', k')" by fastforce
  then show ?case using Cons by (auto simp: node_at_reset [OF sp])
qed simp

lemma fold_models_flatten:
  "fold (\<lambda>n t. reset (''index.'' @ rn_key n) (reset (''embed.'' @ rn_key n) t)) ns s =
   fold reset (concat (map (\<lambda>n. [''embed.'' @ rn_key n, ''index.'' @ rn_key n]) ns)) s"
  for ns :: "rag_node list"
  by (induction ns arbitrary: s) auto

text \<open>Every cascade is a sequence of resets of stages behind the given one.\<close>

definition downstream :: "uuid \<Rightarrow> StageStatus \<Rightarrow> bool \<Rightarrow> int \<Rightarrow> string \<Rightarrow> rag_db \<Rightarrow> string list" where
  "downstream doc target force now stage s =
     (if starts_with ''embed.'' stage then [''index.'' @ drop 6 stage]
      else if starts_with ''index.'' stage \<or> stage \<notin> set stage_order then []
      else after_stage stage @ concat (map (\<lambda>n. [''embed.'' @ rn_key n, ''index.'' @ rn_key n])
             (get_embedding_nodes None doc (fold (reset_stage_if_needed doc target force now) (after_stage stage) s))))"

lemma cascade_downstream:
  "cascade_reset_downstream doc p now stage s =
     fold (reset_stage_if_needed doc (if p then StPending else StCancelled) p now)
       (downstream doc (if p then StPending else StCancelled) p now stage s) s"
proof -
  have f: "((if p then StPending else StCancelled) = StPending) = p" by simp
  show ?thesis
    unfolding cascade_reset_downstream_def downstream_def Let_def f fold_models_flatten by (simp add: comp_def)
qed

lemma after_stage_simps:
  "after_stage ''upload'' = [''extract'', ''normalize'', ''chunk'']" "after_stage ''extract'' = [''normalize'', ''chunk'']"
  "after_stage ''normalize'' = [''chunk'']" "after_stage ''chunk'' = []"
  by (simp_all add: after_stage_def stage_order_def)

lemma split_order [simp]:
  "split_stage_name ''upload'' = (''pipeline'', ''upload'')" "split_stage_name ''extract'' = (''pipeline'', ''extract'')"
  "split_stage_name ''normalize'' = (''pipeline'', ''normalize'')" "split_stage_name ''chunk'' = (''pipeline'', ''chunk'')"
  by (simp_all add: split_stage_name_def starts_with_def)

lemma downstream_other:
  assumes "split_stage_name stage = (t, k)" and "x \<in> set (downstream doc target force now stage s)"
  shows "split_stage_name x \<noteq> (t, k)"
proof (cases "starts_with ''embed.'' stage")
  case True
  then show ?thesis using assms by (auto simp: downstream_def split_stage_name_def starts_with_def)
next
  case False
  then have st: "stage \<in> set stage_order" and idx: "\<not> starts_with ''index.'' stage"
    using assms(2) by (auto simp: downstream_def split: if_splits)
  have sp: "(t, k) = (''pipeline'', stage)" using assms(1) False idx by (simp add: split_stage_name_def)
  have "x \<in> set (after_stage stage) \<or> (\<exists>m. x = ''embed.'' @ m \<or> x = ''index.'' @ m)"
    using assms(2) False idx st by (auto simp: downstream_def)
  then show ?thesis using st sp by (auto simp: stage_order_def after_stage_simps)
qed

lemma cascade_keeps_stage:
  assumes "split_stage_name stage = (t, k)"
  shows "node_at (cascade_reset_downstream doc p now stage s) d t k = node_at s d t k"
  unfolding cascade_downstream using downstream_other [OF assms] by (intro fold_reset_other) blast

section \<open>Transitions\<close>

lemma transition_allowed_iff:
  "transition_allowed node new \<longleftrightarrow>
     (\<forall>n cur. node = Some n \<and> rn_status n = stage_value cur \<longrightarrow> new \<in> set (valid_transitions cur))"
  by (auto simp: transition_allowed_def stage_of_Some split: option.splits)

lemma transition_refused:
  assumes "split_stage_name stage = (ty, key)" and "\<not> transition_allowed (node_at s doc ty key) new"
  shows "\<exists>n cur. node_at s doc ty key = Some n \<and> rn_status n = stage_value cur \<and> new \<notin> set (valid_transitions cur)
     \<and> transition_stage mg doc stage new err metrics task now s = Inl (StatusTransitionError stage cur new)"
  using assms by (auto simp: transition_stage_def transition_allowed_def stage_of_Some split: option.splits)

definition transitioned ::
    "uuid \<Rightarrow> string \<Rightarrow> StageStatus \<Rightarrow> node_values \<Rightarrow> int \<Rightarrow> rag_db \<Rightarrow> rag_db" where
  "transitioned doc stage new v now s =
     (let s1 = upsert_node None doc (fst (split_stage_name stage)) (snd (split_stage_name stage)) v now s
      in if new \<in> {StFailed, StCancelled} then cascade_reset_downstream doc False now stage s1 else s1)"

lemma fold_reset_cong:
  "rg_nodes s' = rg_nodes s \<Longrightarrow> rg_docs s' = rg_docs s \<Longrightarrow>
   rg_nodes (fold (reset_stage_if_needed d target force now) stages s') =
   rg_nodes (fold (reset_stage_if_needed d target force now) stages s)"
proof (induction stages arbitrary: s s')
  case (Cons x xs)
  have "rg_nodes (reset_stage_if_needed d target force now x s') = rg_nodes (reset_stage_if_needed d target force now x s)"
    using Cons.prems node_at_cong [OF Cons.prems(1)] find_doc_cong [OF Cons.prems(2)]
    by (cases "node_at s (d) (fst (split_stage_name x)) (snd (split_stage_name x))")
       (simp_all add: reset_stage_if_needed_def upsert_node_def upd_node_def case_prod_beta)
  from Cons.IH [OF this] show ?case using Cons.prems(2) by simp
qed simp

lemma typed_nodes_cong:
  "rg_nodes s' = rg_nodes s \<Longrightarrow> get_typed_nodes ty None doc s' = get_typed_nodes ty None doc s"
  by (simp add: get_typed_nodes_def tenant_visible_def)

lemma cascade_cong:
  assumes "rg_nodes s' = rg_nodes s" and "rg_docs s' = rg_docs s"
  shows "rg_nodes (cascade_reset_downstream doc p now stage s') = rg_nodes (cascade_reset_downstream doc p now stage s)"
  using fold_reset_cong [OF assms] typed_nodes_cong [OF fold_reset_cong [OF assms]]
  unfolding cascade_downstream downstream_def get_embedding_nodes_def by simp

lemma transition_accepted:
  assumes "split_stage_name stage = (ty, key)" and "transition_allowed (node_at s doc ty key) new"
  shows "\<exists>s'. transition_stage mg doc stage new err metrics task now s = Inr s'
     \<and> rg_nodes s' = rg_nodes (transitioned doc stage new (transition_values new err metrics task now) now s)
     \<and> (\<forall>d. find_doc d s' = None \<longleftrightarrow> find_doc d s = None)"
proof -
  have fc: "find_doc d (cascade_reset_downstream doc p now stage t) = find_doc d t" for d t p
    unfolding cascade_downstream by simp
  show ?thesis
    using assms by (auto simp: transition_stage_def transitioned_def Let_def fc intro!: cascade_cong)
qed

lemma node_at_transitioned:
  assumes sp: "split_stage_name stage = (ty, key)"
  shows "node_at (transitioned doc stage new v now s) doc ty key =
     (case node_at s doc ty key of
        Some n \<Rightarrow> Some (apply_values v now n)
      | None \<Rightarrow> if find_doc doc s = None then None else Some (new_node doc ty key v now))"
  using sp by (simp add: transitioned_def cascade_keeps_stage [OF sp] node_at_upsert Let_def split: option.split)

lemma transitioned_others:
  assumes sp: "split_stage_name stage = (ty, key)" and "(d, t, k) \<noteq> (doc, ty, key)"
  shows "node_at (transitioned doc stage new v now s) d t k = node_at s d t k \<or>
     (d = doc \<and> new \<in> {StFailed, StCancelled} \<and> status_at (transitioned doc stage new v now s) d t k = Some ''cancelled''
       \<and> (\<forall>n. node_at s d t k = Some n \<longrightarrow> rn_status n \<notin> {''completed'', ''cancelled''}))"
proof -
  let ?s1 = "upsert_node None doc ty key v now s"
  have one: "node_at ?s1 d t k = node_at s d t k" using assms(2) by (auto simp: node_at_upsert)
  show ?thesis
  proof (cases "new \<in> {StFailed, StCancelled}")
    case True
    then have eq: "transitioned doc stage new v now s = cascade_reset_downstream doc False now stage ?s1"
      using sp by (auto simp: transitioned_def)
    show ?thesis
      unfolding eq using cascade_only_reset [of doc False ?s1 now stage, unfolded only_reset_def, rule_format, of d t k] one True
      by auto
  next
    case False
    then have "transitioned doc stage new v now s = ?s1" using sp by (simp add: transitioned_def)
    then show ?thesis using one by simp
  qed
qed

end
