(* ===== verification/Rag_Theorems.thy ===== *)
theory Rag_Theorems
  imports Rag_Props "HOL-Library.Multiset"
begin

text \<open>
  The properties of document ingestion statuses: transitions follow the table, starting, stopping and
  retrying leave the stages where they promise to, the policy offers only actions that succeed, and the
  aggregate status says what the stages say.
\<close>

section \<open>A concrete document\<close>

definition demo_doc :: rag_db where
  "demo_doc = \<lparr>rg_nodes = [], rg_docs = [\<lparr>dc_id = 1, dc_tenant = Some 5, dc_agg_status = None, dc_details = None\<rparr>],
     rg_models = [\<lparr>mr_alias = ''emb'', mr_type = ''embedding'', mr_enabled = True, mr_default_for_type = True,
        mr_status = ''available'', mr_health = Some ''healthy'', mr_version = Some ''1'', mr_created = 0, mr_deleted = None\<rparr>],
     rg_tenants = [\<lparr>tn_id = 5, tn_embedding_alias = None\<rparr>], rg_memberships = [], rg_collections = [],
     rg_synced = [], rg_events = [], rg_jobs = []\<rparr>"

definition demo_manager :: rag_manager where
  "demo_manager = \<lparr>rm_tenant = None, rm_publisher = True\<rparr>"

definition demo_ingesting :: rag_db where
  "demo_ingesting = projr (start_ingest demo_manager 1 10 demo_doc)"

section \<open>Transitions\<close>

text \<open>
  C6. A stage changes status only along the transition table. A refused transition names the current
  status and the new one; an accepted one sets exactly that stage to the new status. Of the other stages
  it touches, only on failure or cancellation, none of another document and none that is completed or
  already cancelled: those it sets to cancelled.
\<close>

theorem transition_follows_table:
  assumes "split_stage_name stage = (ty, key)" and "find_doc doc s \<noteq> None"
  shows "case transition_stage mg doc stage new err metrics task now s of
     Inl e \<Rightarrow> (\<exists>n cur. get_node None doc ty key s = Some n \<and> rn_status n = stage_value cur
               \<and> new \<notin> set (valid_transitions cur) \<and> e = StatusTransitionError stage cur new)
   | Inr s' \<Rightarrow> (\<forall>n cur. get_node None doc ty key s = Some n \<and> rn_status n = stage_value cur \<longrightarrow> new \<in> set (valid_transitions cur))
       \<and> map_option rn_status (get_node None doc ty key s') = Some (stage_value new)
       \<and> (\<forall>d t k. (d, t, k) \<noteq> (doc, ty, key) \<longrightarrow>
            get_node None d t k s' = get_node None d t k s
          \<or> (d = doc \<and> new \<in> {StFailed, StCancelled} \<and> map_option rn_status (get_node None d t k s') = Some ''cancelled''
             \<and> (\<forall>n. get_node None d t k s = Some n \<longrightarrow> rn_status n \<notin> {''completed'', ''cancelled''})))"
proof (cases "transition_allowed (node_at s doc ty key) new")
  case True
  from transition_accepted [OF assms(1) True] obtain s' where
    r: "transition_stage mg doc stage new err metrics task now s = Inr s'" and
    n: "rg_nodes s' = rg_nodes (transitioned doc stage new (transition_values new err metrics task now) now s)" by blast
  note at = node_at_cong [OF n]
  have "status_at s' doc ty key = Some (stage_value new)"
    unfolding at using assms(2) by (auto simp: node_at_transitioned [OF assms(1)] split: option.splits)
  moreover have "\<forall>d t k. (d, t, k) \<noteq> (doc, ty, key) \<longrightarrow>
            node_at s' d t k = node_at s d t k
          \<or> (d = doc \<and> new \<in> {StFailed, StCancelled} \<and> status_at s' d t k = Some ''cancelled''
             \<and> (\<forall>n. node_at s d t k = Some n \<longrightarrow> rn_status n \<notin> {''completed'', ''cancelled''}))"
    unfolding at using transitioned_others [OF assms(1)] by blast
  ultimately show ?thesis
    using True unfolding r transition_allowed_iff by (simp only: sum.case get_node_None)
next
  case False
  then show ?thesis using transition_refused [OF assms(1) False, of mg err metrics task now] by auto
qed

theorem transition_follows_table_witness:
  "\<exists>e. transition_stage demo_manager 1 ''extract'' StCompleted None None None 11 demo_ingesting = Inl e
     \<and> e = StatusTransitionError ''extract'' StQueued StCompleted"
proof -
  have "isl (transition_stage demo_manager 1 ''extract'' StCompleted None None None 11 demo_ingesting)"
    and st: "map_option rn_status (get_node None 1 ''pipeline'' ''extract'' demo_ingesting) = Some ''queued''"
    and d: "find_doc 1 demo_ingesting \<noteq> None"
    by code_simp+
  then obtain e where e: "transition_stage demo_manager 1 ''extract'' StCompleted None None None 11 demo_ingesting = Inl e"
    by (auto simp: isl_def)
  have "stage_value cur = ''queued'' \<Longrightarrow> cur = StQueued" for cur by (cases cur) simp_all
  then show ?thesis
    using transition_follows_table [OF _ d, where stage = "''extract''" and ty = "''pipeline''" and key = "''extract''"
        and mg = demo_manager and new = StCompleted and err = None and metrics = None and task = None and now = 11] e st
    by (auto simp del: get_node_None)
qed

text \<open>
  Finishing a stage does not clear its Celery task id: the update passes no task id, which the
  repository takes as ``leave it''. A finished stage keeps the id of its last task.
\<close>

theorem finished_stage_keeps_task_id:
  assumes "split_stage_name stage = (ty, key)" and "get_node None doc ty key s = Some n"
    and "new \<in> {StCompleted, StFailed, StCancelled}"
    and "transition_stage mg doc stage new err metrics task now s = Inr s'"
  shows "map_option rn_task (get_node None doc ty key s') = Some (rn_task n)"
proof -
  have "transition_allowed (node_at s doc ty key) new"
  proof (rule ccontr)
    assume "\<not> ?thesis"
    from transition_refused [OF assms(1) this, of mg err metrics task now] assms(4) show False by auto
  qed
  from transition_accepted [OF assms(1) this, of mg err metrics task now] assms(4) have
    n: "rg_nodes s' = rg_nodes (transitioned doc stage new (transition_values new err metrics task now) now s)" by auto
  have "node_at s doc ty key = Some n" using assms(2) by simp
  moreover have "nv_task (transition_values new err metrics task now) = None"
    using assms(3) by (auto simp: transition_values_def node_status_def Let_def)
  ultimately show ?thesis
    using node_at_cong [OF n] by (simp add: node_at_transitioned [OF assms(1)] apply_values_def given_def)
qed

definition demo_processing :: rag_db where
  "demo_processing = projr (transition_stage demo_manager 1 ''extract'' StProcessing None None (Some ''task-1'') 11 demo_ingesting)"

theorem finished_stage_keeps_task_id_witness:
  "\<exists>s'. transition_stage demo_manager 1 ''extract'' StCompleted None None None 12 demo_processing = Inr s'
     \<and> map_option rn_task (get_node None 1 ''pipeline'' ''extract'' s') = Some (Some ''task-1'')"
proof -
  have "\<not> isl (transition_stage demo_manager 1 ''extract'' StCompleted None None None 12 demo_processing)"
    and t: "map_option rn_task (get_node None 1 ''pipeline'' ''extract'' demo_processing) = Some (Some ''task-1'')"
    by code_simp+
  then obtain s' where s: "transition_stage demo_manager 1 ''extract'' StCompleted None None None 12 demo_processing = Inr s'"
    using projr_eq by blast
  obtain n where n: "get_node None 1 ''pipeline'' ''extract'' demo_processing = Some n" "rn_task n = Some ''task-1''"
    using t by (auto simp del: get_node_None)
  show ?thesis
    using finished_stage_keeps_task_id [OF _ n(1) _ s] s n(2) by (auto simp del: get_node_None)
qed

section \<open>Stopping\<close>

definition active_at :: "rag_db \<Rightarrow> uuid \<Rightarrow> string \<Rightarrow> string \<Rightarrow> bool" where
  "active_at s doc ty key \<longleftrightarrow> status_at s doc ty key \<in> {Some ''queued'', Some ''processing''}"

lemma stop_active:
  assumes "active_at s doc ty key" and sp: "split_stage_name stage = (ty, key)"
  shows "\<exists>s'. transition_stage mg doc stage StCancelled None None None now s = Inr s'
     \<and> \<not> active_at s' doc ty key \<and> (\<forall>t k. active_at s' doc t k \<longrightarrow> active_at s doc t k)"
proof -
  obtain n where n: "node_at s doc ty key = Some n" "rn_status n \<in> {stage_value StQueued, stage_value StProcessing}"
    using assms(1) by (auto simp: active_at_def)
  then have "transition_allowed (node_at s doc ty key) StCancelled"
    by (auto simp: transition_allowed_def simp del: stage_value.simps)
  from transition_accepted [OF sp this, of mg None None None now] obtain s' where
    r: "transition_stage mg doc stage StCancelled None None None now s = Inr s'" and
    ns: "rg_nodes s' = rg_nodes (transitioned doc stage StCancelled (transition_values StCancelled None None None now) now s)"
    by blast
  note at = node_at_cong [OF ns]
  have self: "\<not> active_at s' doc ty key"
    using n(1) by (simp add: active_at_def at node_at_transitioned [OF sp])
  moreover have "active_at s doc t k" if "active_at s' doc t k" for t k
  proof (cases "(t, k) = (ty, key)")
    case True
    then show ?thesis using assms(1) by simp
  next
    case False
    then have "(doc, t, k) \<noteq> (doc, ty, key)" by simp
    from transitioned_others [OF sp this, of StCancelled "transition_values StCancelled None None None now" now s] that
    show ?thesis by (auto simp: active_at_def at)
  qed
  ultimately show ?thesis using r by blast
qed

lemma stop_nodes_stops:
  assumes "\<forall>(ty, key)\<in>set nodes. active_at s doc ty key \<longrightarrow> split_stage_name (format_stage_name ty key) = (ty, key)"
  shows "\<exists>s' stages tasks. stop_nodes mg doc now nodes s = Inr (s', stages, tasks)
     \<and> (\<forall>ty key. active_at s' doc ty key \<longrightarrow> active_at s doc ty key \<and> (ty, key) \<notin> set nodes)"
  using assms
proof (induction nodes arbitrary: s)
  case (Cons x nodes)
  obtain ty key where x: "x = (ty, key)" by fastforce
  show ?case
  proof (cases "active_at s doc ty key")
    case True
    then obtain n where n: "node_at s doc ty key = Some n" "rn_status n \<in> {''queued'', ''processing''}"
      by (auto simp: active_at_def)
    have sp: "split_stage_name (format_stage_name ty key) = (ty, key)" using Cons.prems True x by auto
    from stop_active [OF True sp, of mg now] obtain s1 where
      s1: "transition_stage mg doc (format_stage_name ty key) StCancelled None None None now s = Inr s1"
      and off: "\<not> active_at s1 doc ty key" and sub: "\<forall>t k. active_at s1 doc t k \<longrightarrow> active_at s doc t k" by blast
    have "\<forall>(ty, key)\<in>set nodes. active_at s1 doc ty key \<longrightarrow> split_stage_name (format_stage_name ty key) = (ty, key)"
      using Cons.prems sub by auto
    from Cons.IH [OF this] obtain s' stages tasks where
      r: "stop_nodes mg doc now nodes s1 = Inr (s', stages, tasks)"
      and a: "\<forall>ty key. active_at s' doc ty key \<longrightarrow> active_at s1 doc ty key \<and> (ty, key) \<notin> set nodes" by blast
    have "\<exists>ts. stop_nodes mg doc now (x # nodes) s = Inr (s', format_stage_name ty key # stages, ts)"
      using n s1 r x by auto
    then show ?thesis using a off sub x by fastforce
  next
    case False
    then have skip: "stop_nodes mg doc now (x # nodes) s = stop_nodes mg doc now nodes s"
      using x by (auto simp: active_at_def split: option.splits)
    from Cons.prems have "\<forall>(ty, key)\<in>set nodes. active_at s doc ty key \<longrightarrow> split_stage_name (format_stage_name ty key) = (ty, key)"
      by auto
    from Cons.IH [OF this] show ?thesis using skip False x by auto
  qed
qed simp

text \<open>
  C34. Stopping the ingest of a document always succeeds and leaves none of its stages queued or
  processing, as long as the names of its active stages identify them.
\<close>

theorem stop_ingest_stops_everything:
  assumes "\<forall>ty key n. get_node None doc ty key s = Some n \<and> rn_status n \<in> {''queued'', ''processing''} \<longrightarrow>
             split_stage_name (format_stage_name ty key) = (ty, key)"
  shows "\<exists>s' stages tasks. stop_ingest mg doc now s = Inr (s', stages, tasks)
     \<and> (\<forall>ty key n. get_node None doc ty key s' = Some n \<longrightarrow> rn_status n \<notin> {''queued'', ''processing''})"
proof -
  let ?nodes = "map (\<lambda>n. (rn_type n, rn_key n)) (get_nodes_by_doc_id None doc s)"
  have all: "(ty, key) \<in> set ?nodes" if "active_at s doc ty key" for ty key
    using that by (auto simp: active_at_def get_nodes_by_doc_id_def tenant_visible_def dest!: node_at_SomeD)
  have "\<forall>(ty, key)\<in>set ?nodes. active_at s doc ty key \<longrightarrow> split_stage_name (format_stage_name ty key) = (ty, key)"
    using assms by (auto simp: active_at_def)
  from stop_nodes_stops [OF this, of mg now] obtain s' stages tasks where
    "stop_ingest mg doc now s = Inr (s', stages, tasks)" and "\<forall>ty key. \<not> active_at s' doc ty key"
    unfolding stop_ingest_def using all by blast
  then show ?thesis by (fastforce simp: active_at_def)
qed

theorem stop_ingest_stops_everything_witness:
  "\<exists>s' stages tasks. stop_ingest demo_manager 1 20 demo_processing = Inr (s', stages, tasks)
     \<and> (\<forall>ty key n. get_node None 1 ty key s' = Some n \<longrightarrow> rn_status n \<notin> {''queued'', ''processing''})"
proof (rule stop_ingest_stops_everything, intro allI impI)
  have nodes: "list_all (\<lambda>n. split_stage_name (format_stage_name (rn_type n) (rn_key n)) = (rn_type n, rn_key n)) (rg_nodes demo_processing)"
    by code_simp
  fix ty key n
  assume "get_node None 1 ty key demo_processing = Some n \<and> rn_status n \<in> {''queued'', ''processing''}"
  then have "n \<in> set (rg_nodes demo_processing) \<and> rn_type n = ty \<and> rn_key n = key" by (auto dest: node_at_SomeD)
  then show "split_stage_name (format_stage_name ty key) = (ty, key)" using nodes by (auto simp: list_all_iff)
qed

text \<open>
  C38. The list of Celery tasks to revoke can miss a running one: when a model's embedding and its index
  are both active, stopping the embedding cancels the index before the loop reaches it, and the task of
  the index is never reported.
\<close>

definition demo_parallel :: rag_db where
  "demo_parallel = demo_doc\<lparr>rg_nodes :=
     [new_node 1 ''embedding'' ''emb'' ((node_status ''processing'')\<lparr>nv_task := Some ''task-e''\<rparr>) 10,
      new_node 1 ''index'' ''emb'' ((node_status ''processing'')\<lparr>nv_task := Some ''task-i''\<rparr>) 10]\<rparr>"

theorem stop_ingest_can_miss_a_task:
  "map_option rn_status (get_node None 1 ''index'' ''emb'' demo_parallel) = Some ''processing''
   \<and> map_option rn_task (get_node None 1 ''index'' ''emb'' demo_parallel) = Some (Some ''task-i'')
   \<and> snd (projr (stop_ingest demo_manager 1 20 demo_parallel)) = ([''embed.emb''], [''task-e''])"
  by code_simp

section \<open>Starting\<close>

lemma fold_upsert_exists:
  "node_at (fold (\<lambda>k. upsert_node None doc ty (g k) v now) ks s) d t key \<noteq> None \<Longrightarrow>
   node_at s d t key \<noteq> None \<or> (t = ty \<and> key \<in> g ` set ks)"
proof (induction ks arbitrary: s)
  case (Cons k ks)
  then have "node_at (upsert_node None doc ty (g k) v now s) d t key \<noteq> None \<or> (t = ty \<and> key \<in> g ` set ks)" by simp
  then show ?case by (auto simp: node_at_upsert split: if_splits option.splits)
qed simp

lemma find_doc_fold_upsert [simp]: "find_doc d (fold (\<lambda>k. upsert_node None doc ty (g k) v now) ks s) = find_doc d s"
  by (induction ks arbitrary: s) auto

lemma initialize_pipeline_nodes:
  assumes "node_at (initialize_document_statuses mg doc tenant models now s) d ''pipeline'' key \<noteq> None"
  shows "node_at s d ''pipeline'' key \<noteq> None \<or> key \<in> set stage_order"
proof -
  note fe = fold_upsert_exists [where g = "\<lambda>k. k"]
  let ?v = "node_status (stage_value StPending)"
  let ?s1 = "upsert_node None doc ''pipeline'' ''upload''
               ((node_status ''completed'')\<lparr>nv_started := Some now, nv_finished := Some now\<rparr>) now s"
  let ?s2 = "fold (\<lambda>st. upsert_node None doc ''pipeline'' (pipeline_value st) ?v now) [StageExtract, StageNormalize, StageChunk] ?s1"
  let ?s3 = "fold (\<lambda>m. upsert_node None doc ''embedding'' m ?v now) models ?s2"
  have "node_at (fold (\<lambda>m. upsert_node None doc ''index'' m ?v now) models ?s3) d ''pipeline'' key \<noteq> None"
    using assms by (simp add: initialize_document_statuses_def Let_def)
  then have "node_at ?s2 d ''pipeline'' key \<noteq> None"
    using fe [of doc "''index''" ?v now models ?s3 d "''pipeline''" key] fe [of doc "''embedding''" ?v now models ?s2 d "''pipeline''" key]
    by simp
  then have "node_at ?s1 d ''pipeline'' key \<noteq> None \<or> key \<in> pipeline_value ` {StageExtract, StageNormalize, StageChunk}"
    using fold_upsert_exists [of doc "''pipeline''" pipeline_value ?v now "[StageExtract, StageNormalize, StageChunk]" ?s1 d "''pipeline''" key]
    by simp
  then show ?thesis by (auto simp: stage_order_def node_at_upsert split: if_splits)
qed

lemma ensure_nodes_facts:
  shows "find_doc d (ensure_nodes mg doc now s) = None \<longleftrightarrow> find_doc d s = None"
    and "node_at (ensure_nodes mg doc now s) d ''pipeline'' key \<noteq> None \<Longrightarrow>
         node_at s d ''pipeline'' key \<noteq> None \<or> key \<in> set stage_order"
proof -
  have "find_doc d (initialize_document_statuses mg doc t models now s) = None \<longleftrightarrow> find_doc d s = None" for t models
    by (simp add: initialize_document_statuses_def Let_def)
  then show "find_doc d (ensure_nodes mg doc now s) = None \<longleftrightarrow> find_doc d s = None"
    by (auto simp: ensure_nodes_def split: option.splits)
  show "node_at (ensure_nodes mg doc now s) d ''pipeline'' key \<noteq> None \<Longrightarrow>
         node_at s d ''pipeline'' key \<noteq> None \<or> key \<in> set stage_order"
    using initialize_pipeline_nodes by (auto simp: ensure_nodes_def split: if_splits option.splits)
qed

lemma order_named: "key \<in> set stage_order \<Longrightarrow> split_stage_name key = (''pipeline'', key)"
  by (auto simp: stage_order_def)

lemma in_typed_nodes: "node_at s doc ty key = Some n \<Longrightarrow> n \<in> set (get_typed_nodes ty None doc s) \<and> rn_key n = key"
  by (auto simp: get_typed_nodes_def tenant_visible_def dest: node_at_SomeD)

lemma reset_for_ingest_pending:
  assumes named: "\<And>key. node_at s doc ''pipeline'' key \<noteq> None \<Longrightarrow> split_stage_name key = (''pipeline'', key)"
    and ty: "ty \<in> {''pipeline'', ''embedding'', ''index''}" "(ty, key) \<noteq> (''pipeline'', ''upload'')"
    and ex: "node_at (reset_for_ingest doc now s) doc ty key \<noteq> None"
  shows "status_at (reset_for_ingest doc now s) doc ty key = Some ''pending''"
proof (cases "node_at s doc ty key")
  case None
  let ?stages = "filter (\<lambda>k. k \<noteq> pipeline_value StageUpload) (map rn_key (get_pipeline_nodes None doc s))
                   @ map (\<lambda>n. ''embed.'' @ rn_key n) (get_embedding_nodes None doc s)
                   @ map (\<lambda>n. ''index.'' @ rn_key n) (get_index_nodes None doc s)"
  have "only_reset doc ''pending'' {} s (reset_for_ingest doc now s)"
    using fold_reset_only [of doc StPending True s now ?stages] by (simp add: reset_for_ingest_def Let_def)
  then show ?thesis using None ex unfolding only_reset_def by metis
next
  case (Some n)
  note mem = in_typed_nodes [OF Some]
  let ?stage = "format_stage_name ty key"
  have sp: "split_stage_name ?stage = (ty, key)"
    using ty(1) named [of key] Some by (auto simp: format_stage_name_def)
  have "?stage \<in> set (filter (\<lambda>k. k \<noteq> pipeline_value StageUpload) (map rn_key (get_pipeline_nodes None doc s))
                   @ map (\<lambda>n. ''embed.'' @ rn_key n) (get_embedding_nodes None doc s)
                   @ map (\<lambda>n. ''index.'' @ rn_key n) (get_index_nodes None doc s))"
    using ty mem by (auto simp: format_stage_name_def get_pipeline_nodes_def get_embedding_nodes_def get_index_nodes_def)
  from fold_reset_sets [OF this sp, of s doc StPending now] Some show ?thesis
    by (simp add: reset_for_ingest_def Let_def)
qed

text \<open>
  Starting the ingest of an existing document always succeeds, whatever the stages were: extraction
  is queued and every other stage but the upload is pending, so the worker chain can go through the
  transition table. (The names of stored pipeline stages must not look like model stages.)
\<close>

theorem start_ingest_resets_stages:
  assumes "find_doc doc s \<noteq> None"
    and "\<forall>key. get_node None doc ''pipeline'' key s \<noteq> None \<longrightarrow> split_stage_name key = (''pipeline'', key)"
  shows "\<exists>s'. start_ingest mg doc now s = Inr s'
     \<and> map_option rn_status (get_node None doc ''pipeline'' ''extract'' s') = Some ''queued''
     \<and> (\<forall>ty key n. get_node None doc ty key s' = Some n \<and> ty \<in> {''pipeline'', ''embedding'', ''index''}
          \<and> (ty, key) \<notin> {(''pipeline'', ''upload''), (''pipeline'', ''extract'')} \<longrightarrow> rn_status n = ''pending'')"
proof -
  let ?s1 = "ensure_nodes mg doc now s" and ?v = "transition_values StQueued None None None now"
  let ?s2 = "reset_for_ingest doc now ?s1"
  have named: "split_stage_name key = (''pipeline'', key)" if "node_at ?s1 doc ''pipeline'' key \<noteq> None" for key
    using ensure_nodes_facts(2) [OF that] assms(2) order_named by auto
  have pend: "status_at ?s2 doc ty key = Some ''pending''"
    if "ty \<in> {''pipeline'', ''embedding'', ''index''}" "(ty, key) \<noteq> (''pipeline'', ''upload'')" "node_at ?s2 doc ty key \<noteq> None" for ty key
    using reset_for_ingest_pending [OF named that] .
  have doc2: "find_doc doc ?s2 \<noteq> None"
    using assms(1) ensure_nodes_facts(1) [of doc mg doc now s] by (simp add: reset_for_ingest_def Let_def)
  have sp: "split_stage_name ''extract'' = (''pipeline'', ''extract'')" by simp
  have "transition_allowed (node_at ?s2 doc ''pipeline'' ''extract'') StQueued"
    using pend [of "''pipeline''" "''extract''"] by (auto simp: transition_allowed_def stage_of_def split: option.splits)
  from transition_accepted [OF sp this, of mg None None None now] obtain s' where
    r: "start_ingest mg doc now s = Inr s'" and ns: "rg_nodes s' = rg_nodes (transitioned doc ''extract'' StQueued ?v now ?s2)"
    by (auto simp: start_ingest_def)
  note at = node_at_cong [OF ns]
  have "status_at s' doc ''pipeline'' ''extract'' = Some ''queued''"
    unfolding at using doc2 by (auto simp: node_at_transitioned [OF sp] split: option.splits)
  moreover have "rn_status n = ''pending''" if "node_at s' doc ty key = Some n" "ty \<in> {''pipeline'', ''embedding'', ''index''}"
      "(ty, key) \<notin> {(''pipeline'', ''upload''), (''pipeline'', ''extract'')}" for ty key n
  proof -
    have "node_at s' doc ty key = node_at ?s2 doc ty key"
      using transitioned_others [OF sp, of doc ty key doc StQueued ?v now ?s2] that(3) unfolding at by auto
    then have "node_at ?s2 doc ty key = Some n" using that(1) by simp
    then show ?thesis using pend [OF that(2), of key] that(3) by simp
  qed
  ultimately show ?thesis using r by auto
qed

theorem start_ingest_resets_stages_witness:
  "\<exists>s'. start_ingest demo_manager 1 10 demo_doc = Inr s'
     \<and> map_option rn_status (get_node None 1 ''pipeline'' ''extract'' s') = Some ''queued''"
proof -
  have "find_doc 1 demo_doc \<noteq> None" by code_simp
  moreover have "get_node None 1 ''pipeline'' key demo_doc = None" for key by (simp add: demo_doc_def node_at_find)
  ultimately show ?thesis using start_ingest_resets_stages [of 1 demo_doc demo_manager 10] by auto
qed

section \<open>Retrying\<close>

lemma downstream_models:
  assumes st: "stage \<in> set stage_order"
    and ex: "node_at (fold (reset_stage_if_needed doc target force now) (downstream doc target force now stage s) s) doc ''embedding'' m \<noteq> None"
  shows "''embed.'' @ m \<in> set (downstream doc target force now stage s)
    \<and> ''index.'' @ m \<in> set (downstream doc target force now stage s)"
proof -
  let ?s2 = "fold (reset_stage_if_needed doc target force now) (after_stage stage) s"
  have ds: "downstream doc target force now stage s =
      after_stage stage @ concat (map (\<lambda>n. [''embed.'' @ rn_key n, ''index.'' @ rn_key n]) (get_embedding_nodes None doc ?s2))"
    using st by (auto simp: downstream_def stage_order_def starts_with_def)
  have pipe: "split_stage_name x = (''pipeline'', x)" if "x \<in> set (after_stage stage)" for x
    using st that by (auto simp: stage_order_def after_stage_simps)
  have "m \<in> rn_key ` set (get_embedding_nodes None doc ?s2)"
  proof (rule ccontr)
    assume no: "m \<notin> rn_key ` set (get_embedding_nodes None doc ?s2)"
    have "\<forall>x\<in>set (downstream doc target force now stage s). split_stage_name x \<noteq> (''embedding'', m)"
      unfolding ds using no pipe by auto
    from fold_reset_other [OF this] ex have "node_at s doc ''embedding'' m \<noteq> None" by simp
    moreover have "\<forall>x\<in>set (after_stage stage). split_stage_name x \<noteq> (''embedding'', m)" using pipe by auto
    ultimately have "node_at ?s2 doc ''embedding'' m \<noteq> None" using fold_reset_other by simp
    then show False using in_typed_nodes [of ?s2 doc "''embedding''" m] no by (auto simp: get_embedding_nodes_def)
  qed
  then show ?thesis unfolding ds by auto
qed

text \<open>
  A retry that is accepted queues its stage again and makes everything behind it pending: the index
  of a model for its embedding; for a pipeline stage the later pipeline stages and the stages of every
  model that has an embedding.
\<close>

theorem retry_resets_downstream:
  assumes doc: "find_doc doc s \<noteq> None" and sp: "split_stage_name stage = (ty, key)"
    and r: "retry_stage mg doc stage now s = Inr s'"
  shows "map_option rn_status (get_node None doc ty key s') = Some ''queued''
    \<and> (ty = ''embedding'' \<longrightarrow> map_option rn_status (get_node None doc ''index'' key s') = Some ''pending'')
    \<and> (stage \<in> set stage_order \<longrightarrow>
         (\<forall>k\<in>set (after_stage stage). map_option rn_status (get_node None doc ''pipeline'' k s') = Some ''pending'')
       \<and> (\<forall>m. get_node None doc ''embedding'' m s' \<noteq> None \<longrightarrow>
            map_option rn_status (get_node None doc ''embedding'' m s') = Some ''pending''
          \<and> map_option rn_status (get_node None doc ''index'' m s') = Some ''pending''))"
proof -
  obtain s1 where t: "transition_stage mg doc stage StQueued None None None now s = Inr s1"
    using r by (auto simp: retry_stage_def accept_simps)
  then have "transition_allowed (node_at s doc ty key) StQueued"
    using transition_refused [OF sp, of s doc StQueued mg None None None now] by auto
  from transition_accepted [OF sp this, of mg None None None now] t have
    ns: "rg_nodes s1 = rg_nodes (transitioned doc stage StQueued (transition_values StQueued None None None now) now s)"
    and doc1: "find_doc doc s1 \<noteq> None" using doc by auto
  have q: "status_at s1 doc ty key = Some ''queued''"
    using doc unfolding node_at_cong [OF ns] by (auto simp: node_at_transitioned [OF sp] split: option.splits)
  let ?ds = "downstream doc StPending True now stage s1"
  have s': "s' = fold (reset_stage_if_needed doc StPending True now) ?ds s1"
  proof -
    have "s' = cascade_reset_downstream doc True now stage s1"
      using r t by (auto simp: retry_stage_def cascade_reset_downstream_def Let_def)
    then show ?thesis by (simp add: cascade_downstream)
  qed
  have self: "status_at s' doc ty key = Some ''queued''"
    unfolding s' using q downstream_other [OF sp] fold_reset_other [of ?ds ty key doc StPending True now s1 doc] by metis
  have sets: "status_at s' doc t k = Some ''pending''" if "x \<in> set ?ds" "split_stage_name x = (t, k)" for x t k
    unfolding s' using fold_reset_sets [OF that, of s1 doc StPending now] doc1 by simp
  have emb: "''index.'' @ key \<in> set ?ds" if "ty = ''embedding''"
  proof -
    have "starts_with ''embed.'' stage" and "key = drop 6 stage" using sp that by (auto simp: split_stage_name_def split: if_splits)
    then show ?thesis by (simp add: downstream_def)
  qed
  show ?thesis
  proof (intro conjI impI ballI allI, goal_cases)
    case 1
    show ?case using self by simp
  next
    case 2
    then show ?case using sets [OF emb] by simp
  next
    case (3 k)
    have "k \<in> set ?ds" using 3 by (auto simp: downstream_def stage_order_def starts_with_def)
    moreover have "split_stage_name k = (''pipeline'', k)"
      using 3 by (auto simp: stage_order_def after_stage_simps)
    ultimately show ?case using sets by simp
  next
    case (4 m)
    then have "''embed.'' @ m \<in> set ?ds"
      using downstream_models [of stage doc StPending True now s1 m] by (simp add: s')
    then show ?case using sets [OF _ split_format_embedding] by simp
  next
    case (5 m)
    then have "''index.'' @ m \<in> set ?ds"
      using downstream_models [of stage doc StPending True now s1 m] by (simp add: s')
    then show ?case using sets [OF _ split_format_index] by simp
  qed
qed

theorem retry_resets_downstream_witness:
  "\<exists>s'. retry_stage demo_manager 1 ''extract'' 30 (fst (projr (stop_ingest demo_manager 1 20 demo_processing))) = Inr s'
     \<and> map_option rn_status (get_node None 1 ''pipeline'' ''extract'' s') = Some ''queued''
     \<and> map_option rn_status (get_node None 1 ''pipeline'' ''chunk'' s') = Some ''pending''"
proof -
  let ?s = "fst (projr (stop_ingest demo_manager 1 20 demo_processing))"
  have "\<not> isl (retry_stage demo_manager 1 ''extract'' 30 ?s)" and d: "find_doc 1 ?s \<noteq> None" by code_simp+
  then obtain s' where s': "retry_stage demo_manager 1 ''extract'' 30 ?s = Inr s'" using projr_eq by blast
  then show ?thesis
    using retry_resets_downstream [OF d split_order(2) s'] by (auto simp: after_stage_simps stage_order_def)
qed

section \<open>The ingest policy\<close>

lemma can_retry_allowed:
  "status \<in> set retryable_stage_statuses \<Longrightarrow> rn_status n = status \<Longrightarrow> transition_allowed (Some n) StQueued"
  by (auto simp: retryable_stage_statuses_def transition_allowed_def simp del: stage_value.simps)

lemma can_stop_allowed:
  "status \<in> set stoppable_stage_statuses \<Longrightarrow> rn_status n = status \<Longrightarrow> transition_allowed (Some n) StCancelled"
  by (auto simp: stoppable_stage_statuses_def transition_allowed_def simp del: stage_value.simps)

lemma control_shape:
  assumes "c \<in> set (stage_controls doc models archived s)"
  obtains ty key where "split_stage_name (sc_stage c) = (ty, key)" and "c = build_stage_control (sc_stage c) ty (status_or_pending doc ty key s) archived"
proof -
  have "\<exists>ty key. split_stage_name (sc_stage c) = (ty, key) \<and> c = build_stage_control (sc_stage c) ty (status_or_pending doc ty key s) archived"
    using assms by (auto simp: stage_controls_def stage_order_def build_stage_control_def Let_def)
  then show thesis using that by blast
qed

text \<open>
  The policy only offers what works: retrying a stage it lists as retryable is accepted by the
  manager and has a job to dispatch or no model to run it on, and stopping a stage it lists as stoppable
  is accepted.
\<close>

theorem offered_actions_succeed:
  assumes "c \<in> set (ip_controls (build_ingest_policy mg doc s))"
  shows "(sc_can_retry c \<longrightarrow> (\<exists>s'. retry_stage mg doc (sc_stage c) now s = Inr s')
            \<and> (\<forall>err. dispatch_stage_retry mg doc tenant (sc_stage c) s = Inl err \<longrightarrow> err = NoEmbeddingModels tenant \<and> get_target_models mg doc s = []))
       \<and> (sc_can_stop c \<longrightarrow> (\<exists>r. stop_stage mg doc (sc_stage c) now s = Inr r))"
proof -
  obtain models archived where "c \<in> set (stage_controls doc models archived s)"
    using assms by (auto simp: build_ingest_policy_def Let_def)
  then obtain ty key where sp: "split_stage_name (sc_stage c) = (ty, key)"
    and c: "c = build_stage_control (sc_stage c) ty (status_or_pending doc ty key s) archived" by (rule control_shape)
  have retry: "\<exists>s'. retry_stage mg doc (sc_stage c) now s = Inr s'" if "sc_can_retry c"
  proof -
    have "status_or_pending doc ty key s \<in> set retryable_stage_statuses"
      using that by (subst (asm) c) (simp add: build_stage_control_def Let_def)
    then have "transition_allowed (node_at s doc ty key) StQueued"
      by (auto simp: status_or_pending_def transition_allowed_def split: option.splits dest: can_retry_allowed [unfolded transition_allowed_def])
    from transition_accepted [OF sp this, of mg None None None now] show ?thesis by (auto simp: retry_stage_def)
  qed
  have stop: "\<exists>r. stop_stage mg doc (sc_stage c) now s = Inr r" if "sc_can_stop c"
  proof -
    have st: "status_or_pending doc ty key s \<in> set stoppable_stage_statuses"
      using that by (subst (asm) c) (simp add: build_stage_control_def Let_def)
    show ?thesis
    proof (cases "node_at s doc ty key")
      case (Some n)
      then have "transition_allowed (node_at s doc ty key) StCancelled"
        using st can_stop_allowed by (simp add: status_or_pending_def)
      from transition_accepted [OF sp this, of mg None None None now] Some show ?thesis by (auto simp: stop_stage_def sp)
    qed (simp add: stop_stage_def sp)
  qed
  have disp: "err = NoEmbeddingModels tenant \<and> get_target_models mg doc s = []"
    if "sc_can_retry c" "dispatch_stage_retry mg doc tenant (sc_stage c) s = Inl err" for err
  proof -
    have "is_retry_supported (sc_stage c)" using that(1) by (subst (asm) c) (simp add: build_stage_control_def Let_def)
    then show ?thesis
      using that(2) by (auto simp: is_retry_supported_def dispatch_stage_retry_def dispatch_ingest_pipeline_def Let_def
          split: if_splits)
  qed
  show ?thesis using retry stop disp by blast
qed

theorem offered_actions_succeed_witness:
  "\<exists>c\<in>set (ip_controls (build_ingest_policy demo_manager 1 demo_processing)). sc_can_stop c
     \<and> (\<exists>r. stop_stage demo_manager 1 (sc_stage c) 20 demo_processing = Inr r)"
proof -
  have "list_ex sc_can_stop (ip_controls (build_ingest_policy demo_manager 1 demo_processing))" by code_simp
  then obtain c where "c \<in> set (ip_controls (build_ingest_policy demo_manager 1 demo_processing))" "sc_can_stop c"
    by (auto simp: list_ex_iff)
  then show ?thesis using offered_actions_succeed [of c demo_manager 1 demo_processing] by blast
qed

section \<open>The aggregate status\<close>

text \<open>The pipeline has run to an end: no stage failed or is still to run, and more than the upload happened.\<close>

definition pipeline_settled :: "(string, string) dict \<Rightarrow> bool" where
  "pipeline_settled ps \<longleftrightarrow>
     (\<forall>kv\<in>set ps. snd kv \<notin> {''failed'', ''pending'', ''queued'', ''processing''})
     \<and> \<not> (map_of ps ''upload'' = Some ''completed'' \<and> (\<forall>kv\<in>set ps. fst kv = ''upload''))"

lemma filter_len: "length (filter P xs) = length xs \<longleftrightarrow> (\<forall>x\<in>set xs. P x)"
  by (induction xs) (auto, metis le_imp_less_Suc length_filter_le nat_less_le)

lemma verdict_facts:
  "running_models idx targets @ missing_models idx targets = [] \<longleftrightarrow>
     (\<forall>m\<in>set targets. map_of idx m \<in> {Some ''completed'', Some ''failed'', Some ''cancelled''})"
  "length (ready_models idx targets) = length targets \<longleftrightarrow> (\<forall>m\<in>set targets. map_of idx m = Some ''completed'')"
  "ready_models idx targets = [] \<longleftrightarrow> (\<forall>m\<in>set targets. map_of idx m \<noteq> Some ''completed'')"
  "failed_models idx targets = [] \<longleftrightarrow> (\<forall>m\<in>set targets. map_of idx m \<notin> {Some ''failed'', Some ''cancelled''})"
proof -
  show "running_models idx targets @ missing_models idx targets = [] \<longleftrightarrow>
     (\<forall>m\<in>set targets. map_of idx m \<in> {Some ''completed'', Some ''failed'', Some ''cancelled''})"
    unfolding running_models_def missing_models_def append_is_Nil_conv filter_empty_conv
    by (auto split: option.splits) (metis not_Some_eq option.inject)+
qed (simp_all only: ready_models_def failed_models_def filter_len filter_empty_conv)

lemma verdict_cases:
  "fst (index_verdict idx targets) = ''ready'' \<longleftrightarrow> (\<forall>m\<in>set targets. map_of idx m = Some ''completed'')"
  "fst (index_verdict idx targets) = ''partial'' \<longleftrightarrow>
     (\<forall>m\<in>set targets. map_of idx m \<in> {Some ''completed'', Some ''failed'', Some ''cancelled''})
     \<and> (\<exists>m\<in>set targets. map_of idx m = Some ''completed'') \<and> (\<exists>m\<in>set targets. map_of idx m \<noteq> Some ''completed'')"
  "fst (index_verdict idx targets) = ''failed'' \<longleftrightarrow>
     targets \<noteq> [] \<and> (\<forall>m\<in>set targets. map_of idx m \<in> {Some ''failed'', Some ''cancelled''})"
  "fst (index_verdict idx targets) \<noteq> ''uploaded''"
proof -
  define S where "S \<longleftrightarrow> (\<forall>m\<in>set targets. map_of idx m \<in> {Some ''completed'', Some ''failed'', Some ''cancelled''})"
  define C where "C \<longleftrightarrow> (\<forall>m\<in>set targets. map_of idx m = Some ''completed'')"
  define N where "N \<longleftrightarrow> (\<forall>m\<in>set targets. map_of idx m \<noteq> Some ''completed'')"
  have imp: "targets = [] \<Longrightarrow> C" "C \<Longrightarrow> S" "C \<Longrightarrow> N \<Longrightarrow> targets = []"
    by (cases targets; auto simp: S_def C_def N_def)+
  have sn: "S \<and> N \<longleftrightarrow> (\<forall>m\<in>set targets. map_of idx m \<in> {Some ''failed'', Some ''cancelled''})"
    unfolding S_def N_def by auto
  have v: "fst (index_verdict idx targets) = (if C then ''ready'' else if \<not> S then ''processing'' else if N then ''failed'' else ''partial'')"
    unfolding index_verdict_def verdict_facts S_def [symmetric] C_def [symmetric] N_def [symmetric] using imp by auto
  show "fst (index_verdict idx targets) = ''ready'' \<longleftrightarrow> (\<forall>m\<in>set targets. map_of idx m = Some ''completed'')"
    unfolding v C_def [symmetric] by simp
  show "fst (index_verdict idx targets) \<noteq> ''uploaded''" unfolding v by simp
  show "fst (index_verdict idx targets) = ''failed'' \<longleftrightarrow>
     targets \<noteq> [] \<and> (\<forall>m\<in>set targets. map_of idx m \<in> {Some ''failed'', Some ''cancelled''})"
    unfolding v sn [symmetric] using imp by auto
  have "\<not> N \<longleftrightarrow> (\<exists>m\<in>set targets. map_of idx m = Some ''completed'')" "\<not> C \<longleftrightarrow> (\<exists>m\<in>set targets. map_of idx m \<noteq> Some ''completed'')"
    by (auto simp: N_def C_def)
  then show "fst (index_verdict idx targets) = ''partial'' \<longleftrightarrow>
     (\<forall>m\<in>set targets. map_of idx m \<in> {Some ''completed'', Some ''failed'', Some ''cancelled''})
     \<and> (\<exists>m\<in>set targets. map_of idx m = Some ''completed'') \<and> (\<exists>m\<in>set targets. map_of idx m \<noteq> Some ''completed'')"
    unfolding v S_def [symmetric] by auto
qed

lemma calculate_fst:
  "fst (calculate_aggregate_status now pn en targets xn ar da sa av) =
     (let ps = node_statuses pn in
      if \<exists>kv\<in>set ps. snd kv = ''failed'' then ''failed''
      else if map_of ps ''upload'' = Some ''completed'' \<and> (\<forall>kv\<in>set ps. fst kv \<noteq> ''upload'' \<longrightarrow> snd kv = ''pending'') then ''uploaded''
      else if \<exists>kv\<in>set ps. snd kv \<in> {''pending'', ''queued'', ''processing''} then ''processing''
      else fst (index_verdict (node_statuses xn) targets))"
  by (simp add: calculate_aggregate_status_def Let_def list_ex_iff list_all_iff active_statuses_def) blast

text \<open>
  C35. What the aggregate status of a document says. It is \<open>ready\<close> exactly when the pipeline has
  run to an end and the index of every target model is complete; \<open>partial\<close> when every index has
  ended, some complete and some not; \<open>failed\<close> when a pipeline stage failed, or when the pipeline
  has run to an end and no target model has a usable index.
\<close>

theorem aggregate_status_meaning:
  "let settled = pipeline_settled (node_statuses pipeline_nodes); idx = node_statuses index_nodes;
       status = fst (calculate_aggregate_status now pipeline_nodes embedding_nodes targets index_nodes archived
                  default_alias secondary_alias availability)
   in (status = ''ready'' \<longleftrightarrow> settled \<and> (\<forall>m\<in>set targets. map_of idx m = Some ''completed''))
    \<and> (status = ''partial'' \<longleftrightarrow> settled
         \<and> (\<forall>m\<in>set targets. map_of idx m \<in> {Some ''completed'', Some ''failed'', Some ''cancelled''})
         \<and> (\<exists>m\<in>set targets. map_of idx m = Some ''completed'') \<and> (\<exists>m\<in>set targets. map_of idx m \<noteq> Some ''completed''))
    \<and> (status = ''failed'' \<longleftrightarrow> (\<exists>kv\<in>set (node_statuses pipeline_nodes). snd kv = ''failed'')
         \<or> (settled \<and> targets \<noteq> [] \<and> (\<forall>m\<in>set targets. map_of idx m \<in> {Some ''failed'', Some ''cancelled''})))"
proof -
  let ?ps = "node_statuses pipeline_nodes" and ?idx = "node_statuses index_nodes"
  let ?F = "\<exists>kv\<in>set ?ps. snd kv = ''failed''" and ?U = "map_of ?ps ''upload'' = Some ''completed'' \<and> (\<forall>kv\<in>set ?ps. fst kv \<noteq> ''upload'' \<longrightarrow> snd kv = ''pending'')"
  let ?A = "\<exists>kv\<in>set ?ps. snd kv \<in> {''pending'', ''queued'', ''processing''}"
  have se: "pipeline_settled ?ps \<longleftrightarrow> \<not> ?F \<and> \<not> ?U \<and> \<not> ?A"
    unfolding pipeline_settled_def by blast
  show ?thesis
    unfolding Let_def se calculate_fst verdict_cases [symmetric] by (simp add: verdict_cases(4))
qed

theorem aggregate_status_meaning_witness:
  "fst (calculate_aggregate_status 0
      [new_node 1 ''pipeline'' ''extract'' (node_status ''completed'') 0] [] [''emb'']
      [new_node 1 ''index'' ''emb'' (node_status ''completed'') 0] False None None []) = ''ready''"
proof -
  have "pipeline_settled (node_statuses [new_node 1 ''pipeline'' ''extract'' (node_status ''completed'') 0])"
    and "map_of (node_statuses [new_node 1 ''index'' ''emb'' (node_status ''completed'') 0]) ''emb'' = Some ''completed''"
    by (simp_all add: pipeline_settled_def node_statuses_def new_node_def node_status_def)
  then show ?thesis
    using aggregate_status_meaning [where pipeline_nodes = "[new_node 1 ''pipeline'' ''extract'' (node_status ''completed'') 0]"
        and index_nodes = "[new_node 1 ''index'' ''emb'' (node_status ''completed'') 0]" and now = 0
        and embedding_nodes = "[]" and targets = "[''emb'']" and archived = False and default_alias = None
        and secondary_alias = None and availability = "[]"]
    by (simp add: Let_def)
qed

section \<open>The effective status\<close>

text \<open>
  The card of a document offers the default model (\<open>available\<close>, or \<open>extended\<close> with the
  tenant's model beside it) exactly when the document is not archived, nothing of it is being ingested,
  the index of the default model is complete and that model is being served.
\<close>

theorem effective_status_available_iff:
  "fst (effective_status archived pn xn (Some a) sa av) \<in> {''available'', ''extended''} \<longleftrightarrow>
     \<not> archived \<and> a \<noteq> []
     \<and> \<not> (\<exists>n\<in>set (pn @ xn). lower (rn_status n) \<in> {''pending'', ''queued'', ''processing''})
     \<and> map_of (fold (\<lambda>n d. AList.update (rn_key n) (lower (rn_status n)) d) xn []) a = Some ''completed''
     \<and> map_of av a = Some True"
proof -
  have g: "dget_or False av a \<longleftrightarrow> map_of av a = Some True" by (auto simp: dget_or_def split: option.splits)
  show ?thesis
    unfolding effective_status_def Let_def list_ex_iff active_statuses_def option.case g by (auto split: if_splits)
qed

end
