(* ===== verification/Rbac.thy ===== *)
theory Rbac
  imports Prelude
begin

text \<open>
  Role-based access control: the rule table and its repository (\<open>models/rbac.py\<close>,
  \<open>repositories/rbac_repository.py\<close>), the rule service (\<open>services/rbac_service.py\<close>,
  \<open>services/rbac_cleanup_service.py\<close>), the resolution of effective permissions
  (\<open>services/permission_service.py\<close>) and its runtime facade
  (\<open>agents/runtime_rbac_resolver.py\<close>).

  The table enforces its check constraints and its foreign keys. Its unique constraint spans the nullable owner columns, of
  which exactly one is set, so every row has a null among its columns; PostgreSQL treats nulls as
  distinct and the constraint never refuses a row. A query that must return at most one row raises
  when it finds more.
\<close>

section \<open>Rules\<close>

record rbac_rule =
  rr_id :: uuid
  rr_level :: string
  rr_user :: "uuid option"
  rr_tenant :: "uuid option"
  rr_platform :: bool
  rr_type :: string
  rr_resource :: uuid
  rr_effect :: string
  rr_created :: int
  rr_created_by :: "uuid option"
  rr_lifecycle :: string

text \<open>
  Rules, the keys of the referenced user and tenant tables, the resource tables with their slugs, and the
  supply of new identifiers.
\<close>

record rbac_db =
  rb_rules :: "rbac_rule list"
  rb_users :: "uuid list"
  rb_tenants :: "uuid list"
  rb_agents :: "(uuid, string) dict"
  rb_instances :: "(uuid, string) dict"
  rb_collections :: "(uuid, string) dict"
  rb_next :: uuid

datatype rbac_error = RuleNotFound uuid | RuleInvalid string | RuleIntegrity | MultipleRules

definition of_bool_nat :: "bool \<Rightarrow> nat" where
  "of_bool_nat b = (if b then 1 else 0)"

definition rule_constraints :: "rbac_rule \<Rightarrow> bool" where
  "rule_constraints r \<longleftrightarrow>
     rr_level r \<in> {''platform'', ''tenant'', ''user''}
     \<and> rr_type r \<in> {''agent'', ''tool'', ''instance'', ''collection'', ''operation''}
     \<and> rr_effect r \<in> {''allow'', ''deny''}
     \<and> of_bool_nat (rr_platform r) + of_bool_nat (rr_user r \<noteq> None) + of_bool_nat (rr_tenant r \<noteq> None) = 1"

text \<open>The foreign keys of a row.\<close>

definition rule_references :: "rbac_db \<Rightarrow> rbac_rule \<Rightarrow> bool" where
  "rule_references s r \<longleftrightarrow>
     set_option (rr_user r) \<subseteq> set (rb_users s) \<and> set_option (rr_tenant r) \<subseteq> set (rb_tenants s)
     \<and> set_option (rr_created_by r) \<subseteq> set (rb_users s)"

section \<open>Repository\<close>

definition repo_create :: "rbac_rule \<Rightarrow> rbac_db \<Rightarrow> rbac_error + rbac_db \<times> rbac_rule" where
  "repo_create r s =
     (let row = r\<lparr>rr_id := rb_next s\<rparr> in
      if \<not> (rule_constraints row \<and> rule_references s row) then Inl RuleIntegrity
      else Inr (s\<lparr>rb_rules := rb_rules s @ [row], rb_next := Suc (rb_next s)\<rparr>, row))"

fun repo_bulk_create :: "rbac_rule list \<Rightarrow> rbac_db \<Rightarrow> rbac_error + rbac_db \<times> rbac_rule list" where
  "repo_bulk_create [] s = Inr (s, [])"
| "repo_bulk_create (r # rs) s =
     bindE (repo_create r s) (\<lambda>(s1, row). bindE (repo_bulk_create rs s1) (\<lambda>(s2, rows). Inr (s2, row # rows)))"

definition get_by_id :: "uuid \<Rightarrow> rbac_db \<Rightarrow> rbac_rule option" where
  "get_by_id i s = find (\<lambda>r. rr_id r = i) (rb_rules s)"

text \<open>\<open>if resource_type\<close>: a missing or empty filter selects everything.\<close>

definition matches :: "string option \<Rightarrow> string \<Rightarrow> bool" where
  "matches filt v \<longleftrightarrow> (opt_truthy filt \<longrightarrow> filt = Some v)"

definition list_by_user :: "uuid \<Rightarrow> string option \<Rightarrow> rbac_db \<Rightarrow> rbac_rule list" where
  "list_by_user u rtype s = sort_key rr_created (filter (\<lambda>r. rr_user r = Some u \<and> matches rtype (rr_type r)) (rb_rules s))"

definition list_by_tenant :: "uuid \<Rightarrow> string option \<Rightarrow> rbac_db \<Rightarrow> rbac_rule list" where
  "list_by_tenant t rtype s = sort_key rr_created (filter (\<lambda>r. rr_tenant r = Some t \<and> matches rtype (rr_type r)) (rb_rules s))"

definition list_platform_rules :: "string option \<Rightarrow> rbac_db \<Rightarrow> rbac_rule list" where
  "list_platform_rules rtype s = sort_key rr_created (filter (\<lambda>r. rr_platform r \<and> matches rtype (rr_type r)) (rb_rules s))"

text \<open>\<open>scalar_one_or_none\<close>\<close>

fun one_or_none :: "'a list \<Rightarrow> rbac_error + 'a option" where
  "one_or_none [] = Inr None"
| "one_or_none [x] = Inr (Some x)"
| "one_or_none (x # y # zs) = Inl MultipleRules"

definition find_user_rule :: "uuid \<Rightarrow> string \<Rightarrow> uuid \<Rightarrow> rbac_db \<Rightarrow> rbac_error + rbac_rule option" where
  "find_user_rule u rtype rid s =
     one_or_none (filter (\<lambda>r. rr_user r = Some u \<and> rr_type r = rtype \<and> rr_resource r = rid) (rb_rules s))"

definition find_tenant_rule :: "uuid \<Rightarrow> string \<Rightarrow> uuid \<Rightarrow> rbac_db \<Rightarrow> rbac_error + rbac_rule option" where
  "find_tenant_rule t rtype rid s =
     one_or_none (filter (\<lambda>r. rr_tenant r = Some t \<and> rr_type r = rtype \<and> rr_resource r = rid) (rb_rules s))"

definition find_platform_rule :: "string \<Rightarrow> uuid \<Rightarrow> rbac_db \<Rightarrow> rbac_error + rbac_rule option" where
  "find_platform_rule rtype rid s =
     one_or_none (filter (\<lambda>r. rr_platform r \<and> rr_type r = rtype \<and> rr_resource r = rid) (rb_rules s))"

definition check_access :: "uuid \<Rightarrow> uuid \<Rightarrow> string \<Rightarrow> uuid \<Rightarrow> rbac_db \<Rightarrow> rbac_error + string" where
  "check_access u t rtype rid s =
     bindE (find_user_rule u rtype rid s) (\<lambda>ur.
       case ur of Some r \<Rightarrow> Inr (rr_effect r)
       | None \<Rightarrow> bindE (find_tenant_rule t rtype rid s) (\<lambda>tr.
           case tr of Some r \<Rightarrow> Inr (rr_effect r)
           | None \<Rightarrow> bindE (find_platform_rule rtype rid s) (\<lambda>pr.
               case pr of Some r \<Rightarrow> Inr (rr_effect r) | None \<Rightarrow> Inr ''deny'')))"

text \<open>The flush of a changed row, which checks its constraints.\<close>

definition repo_update :: "rbac_rule \<Rightarrow> rbac_db \<Rightarrow> rbac_error + rbac_db \<times> rbac_rule" where
  "repo_update r s =
     (if \<not> rule_constraints r then Inl RuleIntegrity
      else Inr (s\<lparr>rb_rules := map (\<lambda>x. if rr_id x = rr_id r then r else x) (rb_rules s)\<rparr>, r))"

definition repo_delete :: "rbac_rule \<Rightarrow> rbac_db \<Rightarrow> rbac_db" where
  "repo_delete r s = s\<lparr>rb_rules := filter (\<lambda>x. rr_id x \<noteq> rr_id r) (rb_rules s)\<rparr>"

record rule_filter =
  fl_level :: "string option"
  fl_user :: "uuid option"
  fl_tenant :: "uuid option"
  fl_platform :: "bool option"
  fl_type :: "string option"
  fl_resource :: "uuid option"
  fl_effect :: "string option"
  fl_skip :: nat
  fl_limit :: nat

definition list_all_rules :: "rule_filter \<Rightarrow> rbac_db \<Rightarrow> rbac_rule list" where
  "list_all_rules f s =
     take (fl_limit f) (drop (fl_skip f)
       (sort_key (\<lambda>r. (rr_type r, rr_created r))
         (filter (\<lambda>r. matches (fl_level f) (rr_level r)
              \<and> (fl_user f \<noteq> None \<longrightarrow> rr_user r = fl_user f)
              \<and> (fl_tenant f \<noteq> None \<longrightarrow> rr_tenant r = fl_tenant f)
              \<and> (fl_platform f \<noteq> None \<longrightarrow> fl_platform f = Some (rr_platform r))
              \<and> matches (fl_type f) (rr_type r)
              \<and> (fl_resource f \<noteq> None \<longrightarrow> fl_resource f = Some (rr_resource r))
              \<and> matches (fl_effect f) (rr_effect r)) (rb_rules s))))"

definition delete_where :: "(rbac_rule \<Rightarrow> bool) \<Rightarrow> rbac_db \<Rightarrow> rbac_db \<times> nat" where
  "delete_where p s = (s\<lparr>rb_rules := filter (\<lambda>r. \<not> p r) (rb_rules s)\<rparr>, length (filter p (rb_rules s)))"

definition delete_by_user :: "uuid \<Rightarrow> rbac_db \<Rightarrow> rbac_db \<times> nat" where
  "delete_by_user u = delete_where (\<lambda>r. rr_user r = Some u)"

definition delete_by_tenant :: "uuid \<Rightarrow> rbac_db \<Rightarrow> rbac_db \<times> nat" where
  "delete_by_tenant t = delete_where (\<lambda>r. rr_tenant r = Some t)"

definition remove_rules_for_owner :: "uuid option \<Rightarrow> uuid option \<Rightarrow> rbac_db \<Rightarrow> rbac_db \<times> nat" where
  "remove_rules_for_owner user tenant s =
     (if user = None \<and> tenant = None then (s, 0)
      else delete_where (\<lambda>r. (user \<noteq> None \<longrightarrow> rr_user r = user) \<and> (tenant \<noteq> None \<longrightarrow> rr_tenant r = tenant)) s)"

definition remove_rules_for_resource :: "string \<Rightarrow> uuid \<Rightarrow> rbac_db \<Rightarrow> rbac_db \<times> nat" where
  "remove_rules_for_resource rtype rid = delete_where (\<lambda>r. rr_type r = rtype \<and> rr_resource r = rid)"

section \<open>Rule service\<close>

definition get_rule :: "uuid \<Rightarrow> rbac_db \<Rightarrow> rbac_error + rbac_rule" where
  "get_rule i s = (case get_by_id i s of None \<Rightarrow> Inl (RuleNotFound i) | Some r \<Rightarrow> Inr r)"

definition validate_resource_binding :: "string \<Rightarrow> uuid \<Rightarrow> rbac_db \<Rightarrow> rbac_error + unit" where
  "validate_resource_binding rtype rid s =
     (if rtype \<notin> {''agent'', ''instance''} then Inl (RuleInvalid ''resource_type'')
      else if rtype = ''agent''
      then guardE (RuleInvalid ''agent'') (map_of (rb_agents s) rid \<noteq> None)
      else guardE (RuleInvalid ''instance'') (map_of (rb_collections s) rid \<noteq> None))"

definition create_rule ::
    "string \<Rightarrow> string \<Rightarrow> uuid \<Rightarrow> string \<Rightarrow> uuid option \<Rightarrow> uuid option \<Rightarrow> bool \<Rightarrow> uuid option \<Rightarrow> int \<Rightarrow> rbac_db
     \<Rightarrow> rbac_error + rbac_db \<times> rbac_rule" where
  "create_rule level rtype rid effect user tenant platform created_by now s =
     bindE (validate_resource_binding rtype rid s) (\<lambda>_.
       repo_create \<lparr>rr_id = 0, rr_level = level, rr_user = user, rr_tenant = tenant, rr_platform = platform,
         rr_type = rtype, rr_resource = rid, rr_effect = effect, rr_created = now, rr_created_by = created_by,
         rr_lifecycle = ''active''\<rparr> s)"

definition update_rule ::
    "uuid \<Rightarrow> string option \<Rightarrow> string option \<Rightarrow> uuid option \<Rightarrow> rbac_db \<Rightarrow> rbac_error + rbac_db \<times> rbac_rule" where
  "update_rule i effect rtype rid s =
     bindE (get_rule i s) (\<lambda>r.
       if rr_lifecycle r \<noteq> ''active'' then Inl (RuleInvalid ''deprecated'')
       else
         let next_type = (if opt_truthy rtype then the rtype else rr_type r);
             next_resource = (case rid of None \<Rightarrow> rr_resource r | Some x \<Rightarrow> x)
         in bindE (validate_resource_binding next_type next_resource s) (\<lambda>_.
              repo_update (r\<lparr>rr_effect := (case effect of None \<Rightarrow> rr_effect r | Some x \<Rightarrow> x),
                             rr_type := (case rtype of None \<Rightarrow> rr_type r | Some x \<Rightarrow> x),
                             rr_resource := next_resource\<rparr>) s))"

definition delete_rule :: "uuid \<Rightarrow> rbac_db \<Rightarrow> rbac_error + rbac_db" where
  "delete_rule i s = bindE (get_rule i s) (\<lambda>r. Inr (repo_delete r s))"

definition list_rules :: "rule_filter \<Rightarrow> bool \<Rightarrow> rbac_db \<Rightarrow> rbac_rule list" where
  "list_rules f include_deprecated s =
     (if include_deprecated then list_all_rules f s
      else filter (\<lambda>r. rr_lifecycle r \<noteq> ''deprecated'') (list_all_rules f s))"

definition platform_rule :: "string \<Rightarrow> uuid \<Rightarrow> string \<Rightarrow> int \<Rightarrow> rbac_rule" where
  "platform_rule rtype rid effect now =
     \<lparr>rr_id = 0, rr_level = ''platform'', rr_user = None, rr_tenant = None, rr_platform = True, rr_type = rtype,
      rr_resource = rid, rr_effect = effect, rr_created = now, rr_created_by = None, rr_lifecycle = ''active''\<rparr>"

definition ensure_platform_deny :: "string \<Rightarrow> uuid \<Rightarrow> int \<Rightarrow> rbac_db \<Rightarrow> rbac_error + rbac_db \<times> rbac_rule option" where
  "ensure_platform_deny rtype rid now s =
     bindE (find_platform_rule rtype rid s) (\<lambda>existing.
       case existing of
         Some _ \<Rightarrow> Inr (s, None)
       | None \<Rightarrow> bindE (repo_create (platform_rule rtype rid ''deny'' now) s) (\<lambda>(s1, r). Inr (s1, Some r)))"

definition set_platform_effect :: "string \<Rightarrow> uuid \<Rightarrow> string \<Rightarrow> int \<Rightarrow> rbac_db \<Rightarrow> rbac_error + rbac_db \<times> rbac_rule" where
  "set_platform_effect rtype rid effect now s =
     bindE (find_platform_rule rtype rid s) (\<lambda>existing.
       case existing of
         Some r \<Rightarrow> repo_update (r\<lparr>rr_effect := effect\<rparr>) s
       | None \<Rightarrow> repo_create (platform_rule rtype rid effect now) s)"

section \<open>Effective permissions\<close>

record EffectivePermissions =
  ep_instances :: "(string, bool) dict"
  ep_agents :: "(string, bool) dict"
  ep_collections :: "(string, bool) dict"
  ep_denied_reasons :: "(string, string) dict"
  ep_default_collection_allow :: bool

definition is_instance_allowed :: "EffectivePermissions \<Rightarrow> string \<Rightarrow> bool" where
  "is_instance_allowed p slug = dget_or False (ep_instances p) slug"

definition is_agent_allowed :: "EffectivePermissions \<Rightarrow> string \<Rightarrow> bool" where
  "is_agent_allowed p slug = dget_or False (ep_agents p) slug"

definition is_collection_allowed :: "EffectivePermissions \<Rightarrow> string \<Rightarrow> bool" where
  "is_collection_allowed p slug = dget_or (ep_default_collection_allow p) (ep_collections p) slug"

definition allowed_keys :: "(string, bool) dict \<Rightarrow> string list" where
  "allowed_keys d = map fst (filter snd d)"

definition denied_keys :: "(string, bool) dict \<Rightarrow> string list" where
  "denied_keys d = map fst (filter (\<lambda>kv. \<not> snd kv) d)"

definition allowed_collections :: "EffectivePermissions \<Rightarrow> string list" where
  "allowed_collections p = allowed_keys (ep_collections p)"

definition get_allowed_instances :: "EffectivePermissions \<Rightarrow> string list" where
  "get_allowed_instances p = allowed_keys (ep_instances p)"

definition get_denied_instances :: "EffectivePermissions \<Rightarrow> string list" where
  "get_denied_instances p = denied_keys (ep_instances p)"

definition get_allowed_agents :: "EffectivePermissions \<Rightarrow> string list" where
  "get_allowed_agents p = allowed_keys (ep_agents p)"

definition get_denied_agents :: "EffectivePermissions \<Rightarrow> string list" where
  "get_denied_agents p = denied_keys (ep_agents p)"

definition filter_instances :: "EffectivePermissions \<Rightarrow> string list \<Rightarrow> string list" where
  "filter_instances p slugs = filter (is_instance_allowed p) slugs"

definition filter_agents :: "EffectivePermissions \<Rightarrow> string list \<Rightarrow> string list" where
  "filter_agents p slugs = filter (is_agent_allowed p) slugs"

text \<open>The batch lookups, as functions of one identifier.\<close>

definition resolve_slug :: "rbac_db \<Rightarrow> string \<Rightarrow> uuid \<Rightarrow> string option" where
  "resolve_slug s rtype rid =
     (if rtype = ''agent'' then map_of (rb_agents s) rid
      else if rtype = ''instance'' then map_of (rb_instances s) rid
      else if rtype = ''collection'' then map_of (rb_collections s) rid
      else None)"

definition resolve_resource_target :: "rbac_db \<Rightarrow> string \<Rightarrow> uuid \<Rightarrow> (string \<times> string) option" where
  "resolve_resource_target s rtype rid =
     (if rtype = ''instance''
      then (case resolve_slug s ''collection'' rid of
              Some slug \<Rightarrow> Some (slug, ''collection'')
            | None \<Rightarrow> map_option (\<lambda>slug. (slug, ''instance'')) (resolve_slug s ''instance'' rid))
      else map_option (\<lambda>slug. (slug, rtype)) (resolve_slug s rtype rid))"

definition overlay ::
    "string \<Rightarrow> rbac_rule list \<Rightarrow> (string \<times> uuid, string \<times> string) dict \<Rightarrow> (string \<times> uuid, string \<times> string) dict" where
  "overlay level rules d = fold (\<lambda>r d. AList.update (rr_type r, rr_resource r) (rr_effect r, level) d) rules d"

definition resolved_rules :: "uuid option \<Rightarrow> uuid option \<Rightarrow> rbac_db \<Rightarrow> (string \<times> uuid, string \<times> string) dict" where
  "resolved_rules user tenant s =
     overlay ''user'' (case user of None \<Rightarrow> [] | Some u \<Rightarrow> list_by_user u None s)
      (overlay ''tenant'' (case tenant of None \<Rightarrow> [] | Some t \<Rightarrow> list_by_tenant t None s)
       (overlay ''platform'' (list_platform_rules None s) []))"

definition apply_effect ::
    "rbac_db \<Rightarrow> (string \<times> uuid) \<times> string \<times> string \<Rightarrow> EffectivePermissions \<Rightarrow> EffectivePermissions" where
  "apply_effect s entry p =
     (case entry of ((rtype, rid), (effect, level)) \<Rightarrow>
       (case resolve_resource_target s rtype rid of
          None \<Rightarrow> p
        | Some (slug, logical) \<Rightarrow>
            let allowed = (effect = ''allow'');
                p1 = (if logical = ''instance'' then p\<lparr>ep_instances := AList.update slug allowed (ep_instances p)\<rparr>
                      else if logical = ''agent'' then p\<lparr>ep_agents := AList.update slug allowed (ep_agents p)\<rparr>
                      else if logical = ''collection'' then p\<lparr>ep_collections := AList.update slug allowed (ep_collections p)\<rparr>
                      else p)
            in if allowed then p1
               else p1\<lparr>ep_denied_reasons := AList.update slug (''Denied by RBAC rule ('' @ level @ '' level)'') (ep_denied_reasons p1)\<rparr>))"

definition resolve_permissions :: "uuid option \<Rightarrow> uuid option \<Rightarrow> bool \<Rightarrow> rbac_db \<Rightarrow> EffectivePermissions" where
  "resolve_permissions user tenant default_collection_allow s =
     fold (apply_effect s) (resolved_rules user tenant s)
       \<lparr>ep_instances = [], ep_agents = [], ep_collections = [], ep_denied_reasons = [],
        ep_default_collection_allow = default_collection_allow\<rparr>"

definition check_instance_permission :: "string \<Rightarrow> uuid option \<Rightarrow> uuid option \<Rightarrow> rbac_db \<Rightarrow> bool" where
  "check_instance_permission slug user tenant s = is_instance_allowed (resolve_permissions user tenant False s) slug"

definition check_agent_permission :: "string \<Rightarrow> uuid option \<Rightarrow> uuid option \<Rightarrow> rbac_db \<Rightarrow> bool" where
  "check_agent_permission slug user tenant s = is_agent_allowed (resolve_permissions user tenant False s) slug"

section \<open>Runtime facade\<close>

definition strict_envs :: "string list" where
  "strict_envs = [''prod'', ''production'', ''staging'']"

text \<open>The constructor returns the flag \<open>allow_undefined\<close>, or refuses it in a strict environment.\<close>

definition resolver_init :: "bool \<Rightarrow> string option \<Rightarrow> string + bool" where
  "resolver_init allow_undefined env_setting =
     (let env = lower (strip (if opt_truthy env_setting then the env_setting else ''local'')) in
      if allow_undefined \<and> env \<in> set strict_envs then Inl env else Inr allow_undefined)"

definition resolve_effective_permissions ::
    "bool \<Rightarrow> uuid option \<Rightarrow> uuid option \<Rightarrow> bool \<Rightarrow> rbac_db \<Rightarrow> EffectivePermissions" where
  "resolve_effective_permissions allow_undefined user tenant default_collection_allow s =
     resolve_permissions user tenant (default_collection_allow \<or> allow_undefined) s"

definition runtime_collection_allowed :: "EffectivePermissions option \<Rightarrow> string option \<Rightarrow> bool" where
  "runtime_collection_allowed perms slug =
     (if \<not> opt_truthy slug then True
      else case perms of None \<Rightarrow> True | Some p \<Rightarrow> is_collection_allowed p (the slug))"

definition runtime_agent_allowed :: "bool \<Rightarrow> EffectivePermissions option \<Rightarrow> string \<Rightarrow> bool \<Rightarrow> bool" where
  "runtime_agent_allowed allow_undefined perms slug default_allow =
     (if strip slug = [] then False
      else case perms of
             None \<Rightarrow> default_allow
           | Some p \<Rightarrow> (case map_of (ep_agents p) slug of Some b \<Rightarrow> b | None \<Rightarrow> allow_undefined \<or> default_allow))"

definition filter_agents_by_slug ::
    "bool \<Rightarrow> EffectivePermissions option \<Rightarrow> ('a \<Rightarrow> string option) \<Rightarrow> bool \<Rightarrow> 'a list \<Rightarrow> 'a list \<times> string list" where
  "filter_agents_by_slug allow_undefined perms getter default_allow agents =
     (let slug = (\<lambda>a. strip (case getter a of None \<Rightarrow> [] | Some x \<Rightarrow> x));
          named = filter (\<lambda>a. slug a \<noteq> []) agents;
          ok = (\<lambda>a. runtime_agent_allowed allow_undefined perms (slug a) default_allow)
      in (filter ok named, map slug (filter (\<lambda>a. \<not> ok a) named)))"

end
