(* ===== verification/Rbac_Theorems.thy ===== *)
theory Rbac_Theorems
  imports Rbac
begin

text \<open>
  The properties of access control: the runtime resolution of an agent's permission refines the access
  check of the repository, the platform effect decides exactly for those without rules of their own, a
  strict environment lets through only what a rule allows, and what the table does not prevent.
\<close>

section \<open>A concrete rule base\<close>

definition demo_rules :: rbac_db where
  "demo_rules = \<lparr>rb_rules =
      [\<lparr>rr_id = 0, rr_level = ''platform'', rr_user = None, rr_tenant = None, rr_platform = True, rr_type = ''agent'',
        rr_resource = 7, rr_effect = ''deny'', rr_created = 0, rr_created_by = None, rr_lifecycle = ''active''\<rparr>,
       \<lparr>rr_id = 1, rr_level = ''user'', rr_user = Some 3, rr_tenant = None, rr_platform = False, rr_type = ''agent'',
        rr_resource = 7, rr_effect = ''allow'', rr_created = 1, rr_created_by = None, rr_lifecycle = ''active''\<rparr>],
     rb_users = [3, 4], rb_tenants = [9], rb_agents = [(7, ''analyst'')], rb_instances = [], rb_collections = [], rb_next = 2\<rparr>"

section \<open>Lookups\<close>

lemma one_or_none_iff:
  "one_or_none xs = Inr None \<longleftrightarrow> xs = []" "one_or_none xs = Inr (Some x) \<longleftrightarrow> xs = [x]"
  by (cases xs rule: one_or_none.cases; simp)+

lemma overlay_lookup:
  "map_of (overlay level rules d) (rt, rid) =
     (case filter (\<lambda>r. rr_type r = rt \<and> rr_resource r = rid) rules of
        [] \<Rightarrow> map_of d (rt, rid) | x # xs \<Rightarrow> Some (rr_effect (last (x # xs)), level))"
proof (induction rules arbitrary: d)
  case (Cons r rules)
  show ?case
    using Cons.IH [of "AList.update (rr_type r, rr_resource r) (rr_effect r, level) d"]
    by (auto simp: overlay_def update_conv' split: list.splits)
qed (simp add: overlay_def)

lemma overlay_ok [simp]: "dict_ok d \<Longrightarrow> dict_ok (overlay level rules d)"
  unfolding overlay_def by (induction rules arbitrary: d) auto

lemma resolved_ok: "dict_ok (resolved_rules user tenant s)"
  by (simp add: resolved_rules_def)

lemma matches_None [simp]: "matches None v"
  by (simp add: matches_def)

lemma owner_lookup:
  "filter (\<lambda>r. rr_type r = rt \<and> rr_resource r = rid) (list_by_user u None s) =
     sort_key rr_created (filter (\<lambda>r. rr_user r = Some u \<and> rr_type r = rt \<and> rr_resource r = rid) (rb_rules s))"
  "filter (\<lambda>r. rr_type r = rt \<and> rr_resource r = rid) (list_by_tenant t None s) =
     sort_key rr_created (filter (\<lambda>r. rr_tenant r = Some t \<and> rr_type r = rt \<and> rr_resource r = rid) (rb_rules s))"
  "filter (\<lambda>r. rr_type r = rt \<and> rr_resource r = rid) (list_platform_rules None s) =
     sort_key rr_created (filter (\<lambda>r. rr_platform r \<and> rr_type r = rt \<and> rr_resource r = rid) (rb_rules s))"
  by (simp_all add: list_by_user_def list_by_tenant_def list_platform_rules_def filter_sort conj_ac)

text \<open>The resolved rules of a user in a tenant, as one decision per resource.\<close>

lemma resolved_check_access:
  assumes "check_access u t rt rid s = Inr eff"
  shows "case map_of (resolved_rules (Some u) (Some t) s) (rt, rid) of
           Some (e, _) \<Rightarrow> e = eff | None \<Rightarrow> eff = ''deny''"
proof -
  note lookups = find_user_rule_def find_tenant_rule_def find_platform_rule_def one_or_none_iff
    resolved_rules_def overlay_lookup owner_lookup
  obtain ur where u: "find_user_rule u rt rid s = Inr ur" using assms by (auto simp: check_access_def accept_simps)
  show ?thesis
  proof (cases ur)
    case (Some r)
    then show ?thesis using assms u by (simp add: check_access_def lookups)
  next
    case None
    obtain tr where t: "find_tenant_rule t rt rid s = Inr tr" using assms u None by (auto simp: check_access_def accept_simps)
    show ?thesis
    proof (cases tr)
      case (Some r)
      then show ?thesis using assms u t None by (simp add: check_access_def lookups)
    next
      case None
      obtain pr where p: "find_platform_rule rt rid s = Inr pr"
        using assms u t \<open>ur = None\<close> None by (auto simp: check_access_def accept_simps)
      then show ?thesis
        using assms u t \<open>ur = None\<close> None by (cases pr) (simp_all add: check_access_def lookups)
    qed
  qed
qed

lemma apply_effect_agents:
  assumes inj: "\<And>x. map_of (rb_agents s) x = Some slug \<Longrightarrow> x = rid" and slug: "map_of (rb_agents s) rid = Some slug"
  shows "map_of (ep_agents (apply_effect s ((rt, i), (e, lv)) p)) slug =
     (if (rt, i) = (''agent'', rid) then Some (e = ''allow'') else map_of (ep_agents p) slug)"
proof (cases "resolve_resource_target s rt i")
  case None
  then show ?thesis using slug by (auto simp: apply_effect_def resolve_resource_target_def resolve_slug_def split: if_splits option.splits)
next
  case (Some tg)
  obtain sl lg where tg: "tg = (sl, lg)" by fastforce
  have ag: "lg = ''agent'' \<longleftrightarrow> rt = ''agent''"
    using Some tg by (auto simp: resolve_resource_target_def resolve_slug_def split: if_splits option.splits)
  have "rt = ''agent'' \<Longrightarrow> map_of (rb_agents s) i = Some sl"
    using Some tg by (auto simp: resolve_resource_target_def resolve_slug_def)
  then have sl: "rt = ''agent'' \<Longrightarrow> (sl = slug \<longleftrightarrow> i = rid)" using inj [of i] slug by auto
  have "ep_agents (apply_effect s ((rt, i), (e, lv)) p) =
      (if rt = ''agent'' then AList.update sl (e = ''allow'') (ep_agents p) else ep_agents p)"
    using ag by (auto simp: apply_effect_def Some tg Let_def)
  then show ?thesis using sl by (cases "rt = ''agent''") (auto simp: update_conv')
qed

lemma fold_apply_agents:
  assumes inj: "\<And>x. map_of (rb_agents s) x = Some slug \<Longrightarrow> x = rid" and slug: "map_of (rb_agents s) rid = Some slug"
    and "dict_ok es"
  shows "map_of (ep_agents (fold (apply_effect s) es p)) slug =
     (case map_of es (''agent'', rid) of Some (e, _) \<Rightarrow> Some (e = ''allow'') | None \<Rightarrow> map_of (ep_agents p) slug)"
  using assms(3)
proof (induction es arbitrary: p)
  case (Cons x es)
  obtain rt i e lv where x: "x = ((rt, i), (e, lv))" by (metis prod.collapse)
  have ok: "dict_ok es" and new: "(rt, i) \<notin> fst ` set es" using Cons.prems x by (auto simp: dict_ok_def)
  then have "(rt, i) = (''agent'', rid) \<Longrightarrow> map_of es (''agent'', rid) = None" by (metis map_of_eq_None_iff)
  then show ?case
    using Cons.IH [OF ok, of "apply_effect s x p"] apply_effect_agents [OF inj slug, of rt i e lv p] x
    by (auto split: option.splits)
qed simp

section \<open>Theorems\<close>

text \<open>
  C8. The runtime's resolution of permissions refines the access check: for an agent with a unique slug,
  a user of a tenant is allowed by the resolved permissions exactly when the check (user before tenant
  before platform, denied without a rule) answers \<open>allow\<close>.
\<close>

theorem resolution_refines_access_check:
  assumes "check_access u t ''agent'' rid s = Inr eff"
    and "map_of (rb_agents s) rid = Some slug" and "\<forall>x. map_of (rb_agents s) x = Some slug \<longrightarrow> x = rid"
  shows "check_agent_permission slug (Some u) (Some t) s \<longleftrightarrow> eff = ''allow''"
proof -
  have "map_of (ep_agents (resolve_permissions (Some u) (Some t) False s)) slug =
     (case map_of (resolved_rules (Some u) (Some t) s) (''agent'', rid) of Some (e, _) \<Rightarrow> Some (e = ''allow'') | None \<Rightarrow> None)"
    unfolding resolve_permissions_def
    using fold_apply_agents [OF _ assms(2) resolved_ok] assms(3) by (simp split: option.split)
  then show ?thesis
    using resolved_check_access [OF assms(1)]
    by (auto simp: check_agent_permission_def is_agent_allowed_def dget_or_def split: option.splits)
qed

theorem resolution_refines_access_check_witness:
  "check_access 3 9 ''agent'' 7 demo_rules = Inr ''allow'' \<and> check_agent_permission ''analyst'' (Some 3) (Some 9) demo_rules"
proof -
  have c: "check_access 3 9 ''agent'' 7 demo_rules = Inr ''allow''" by code_simp
  have "map_of (rb_agents demo_rules) 7 = Some ''analyst''" "\<forall>x. map_of (rb_agents demo_rules) x = Some ''analyst'' \<longrightarrow> x = 7"
    by (auto simp: demo_rules_def split: if_splits)
  from resolution_refines_access_check [OF c this] c show ?thesis by simp
qed

text \<open>Row identifiers are distinct and come from the supply.\<close>

definition rbac_ok :: "rbac_db \<Rightarrow> bool" where
  "rbac_ok s \<longleftrightarrow> distinct (map rr_id (rb_rules s)) \<and> (\<forall>r\<in>set (rb_rules s). rr_id r < rb_next s)"

lemma single_owner: "rule_constraints r \<Longrightarrow> rr_platform r \<Longrightarrow> rr_user r = None \<and> rr_tenant r = None"
  by (auto simp: rule_constraints_def of_bool_nat_def split: if_splits)

lemma filter_replace:
  assumes "distinct (map rr_id rs)" and "r \<in> set rs" and "rr_id r' = rr_id r" and "P r = P r'"
  shows "filter P (map (\<lambda>x. if rr_id x = rr_id r' then r' else x) rs) =
         map (\<lambda>x. if rr_id x = rr_id r' then r' else x) (filter P rs)"
proof -
  have "P (if rr_id x = rr_id r' then r' else x) = P x" if "x \<in> set rs" for x
    using assms that by (metis distinct_map inj_onD)
  then have "filter (P \<circ> (\<lambda>x. if rr_id x = rr_id r' then r' else x)) rs = filter P rs"
    unfolding comp_def by (rule filter_cong [OF refl])
  then show ?thesis unfolding filter_map by simp
qed

lemma map_replace_absent:
  "\<forall>x\<in>set xs. rr_id x \<noteq> i \<Longrightarrow> map (\<lambda>x. if rr_id x = i then r' else x) xs = xs"
  by (rule map_idI) auto

text \<open>Replacing or adding one platform rule changes the platform lookup of its resource only.\<close>

lemma set_platform_lookups:
  assumes ok: "rbac_ok s" and e: "set_platform_effect rt rid eff now s = Inr (s', row)"
  shows "find_user_rule u rt' rid' s' = find_user_rule u rt' rid' s"
    and "find_tenant_rule t rt' rid' s' = find_tenant_rule t rt' rid' s"
    and "find_platform_rule rt' rid' s' =
         (if rt' = rt \<and> rid' = rid then Inr (Some row) else find_platform_rule rt' rid' s) \<and> rr_effect row = eff"
proof -
  obtain ex where ex: "find_platform_rule rt rid s = Inr ex" and
    act: "case ex of Some r \<Rightarrow> repo_update (r\<lparr>rr_effect := eff\<rparr>) s = Inr (s', row)
          | None \<Rightarrow> repo_create (platform_rule rt rid eff now) s = Inr (s', row)"
    using e by (auto simp: set_platform_effect_def accept_simps split: option.splits)
  have "find_user_rule u rt' rid' s' = find_user_rule u rt' rid' s
     \<and> find_tenant_rule t rt' rid' s' = find_tenant_rule t rt' rid' s
     \<and> find_platform_rule rt' rid' s' = (if rt' = rt \<and> rid' = rid then Inr (Some row) else find_platform_rule rt' rid' s)
     \<and> rr_effect row = eff"
  proof (cases ex)
    case None
    then have s': "rb_rules s' = rb_rules s @ [row]" and row: "row = (platform_rule rt rid eff now)\<lparr>rr_id := rb_next s\<rparr>"
      using act by (auto simp: repo_create_def Let_def split: if_splits)
    have "filter (\<lambda>r. rr_platform r \<and> rr_type r = rt \<and> rr_resource r = rid) (rb_rules s) = []"
      using ex None by (simp add: find_platform_rule_def one_or_none_iff)
    then show ?thesis
      unfolding find_user_rule_def find_tenant_rule_def find_platform_rule_def s' by (auto simp: row platform_rule_def)
  next
    case (Some r)
    then have row: "row = r\<lparr>rr_effect := eff\<rparr>" and con: "rule_constraints row"
      and s': "rb_rules s' = map (\<lambda>x. if rr_id x = rr_id row then row else x) (rb_rules s)"
      using act by (auto simp: repo_update_def split: if_splits)
    have only: "filter (\<lambda>x. rr_platform x \<and> rr_type x = rt \<and> rr_resource x = rid) (rb_rules s) = [r]"
      using ex Some by (simp add: find_platform_rule_def one_or_none_iff)
    have "r \<in> set (filter (\<lambda>x. rr_platform x \<and> rr_type x = rt \<and> rr_resource x = rid) (rb_rules s))"
      unfolding only by simp
    then have r: "r \<in> set (rb_rules s)" "rr_platform r" "rr_type r = rt" "rr_resource r = rid"
      by simp_all
    have none: "rr_user row = None" "rr_tenant row = None" "rr_user r = None" "rr_tenant r = None"
      using single_owner [OF con] r(2) row by auto
    have dist: "distinct (map rr_id (rb_rules s))" using ok by (simp add: rbac_ok_def)
    have absent: "map (\<lambda>x. if rr_id x = rr_id row then row else x) (filter P (rb_rules s)) = filter P (rb_rules s)" if "\<not> P r" for P
      using dist r(1) that row by (intro map_replace_absent) (auto simp: distinct_map inj_on_def)
    have repl: "filter P (rb_rules s') = map (\<lambda>x. if rr_id x = rr_id row then row else x) (filter P (rb_rules s))" if "P r = P row" for P
      unfolding s' using filter_replace [OF dist r(1) _ that] row by simp
    have keep: "filter P (rb_rules s') = filter P (rb_rules s)" if "\<not> P r" "\<not> P row" for P
      using repl [of P] absent [of P] that by simp
    have users: "filter (\<lambda>x. rr_user x = Some u \<and> rr_type x = rt' \<and> rr_resource x = rid') (rb_rules s') =
        filter (\<lambda>x. rr_user x = Some u \<and> rr_type x = rt' \<and> rr_resource x = rid') (rb_rules s)"
      and tenants: "filter (\<lambda>x. rr_tenant x = Some t \<and> rr_type x = rt' \<and> rr_resource x = rid') (rb_rules s') =
        filter (\<lambda>x. rr_tenant x = Some t \<and> rr_type x = rt' \<and> rr_resource x = rid') (rb_rules s)"
      by (rule keep; simp add: none)+
    have same: "filter (\<lambda>x. rr_platform x \<and> rr_type x = rt \<and> rr_resource x = rid) (rb_rules s') = [row]"
      using repl [of "\<lambda>x. rr_platform x \<and> rr_type x = rt \<and> rr_resource x = rid"] only row by simp
    have other: "filter (\<lambda>x. rr_platform x \<and> rr_type x = rt' \<and> rr_resource x = rid') (rb_rules s') =
        filter (\<lambda>x. rr_platform x \<and> rr_type x = rt' \<and> rr_resource x = rid') (rb_rules s)" if "\<not> (rt' = rt \<and> rid' = rid)"
      by (rule keep) (use that r(3,4) row in auto)
    show ?thesis
      unfolding find_user_rule_def find_tenant_rule_def find_platform_rule_def users tenants
      using same other row by (cases "rt' = rt \<and> rid' = rid") auto
  qed
  then show "find_user_rule u rt' rid' s' = find_user_rule u rt' rid' s"
    and "find_tenant_rule t rt' rid' s' = find_tenant_rule t rt' rid' s"
    and "find_platform_rule rt' rid' s' =
         (if rt' = rt \<and> rid' = rid then Inr (Some row) else find_platform_rule rt' rid' s) \<and> rr_effect row = eff"
    by blast+
qed

text \<open>
  Setting the platform effect of a resource decides exactly for the users that have no rule for it of
  their own and whose tenant has none; every other decision stays as it was.
\<close>

theorem platform_effect_decides_by_default:
  assumes "rbac_ok s" and "set_platform_effect rt rid eff now s = Inr (s', row)"
  shows "check_access u t rt' rid' s' =
     (if rt' = rt \<and> rid' = rid \<and> find_user_rule u rt rid s = Inr None \<and> find_tenant_rule t rt rid s = Inr None
      then Inr eff else check_access u t rt' rid' s)"
  using set_platform_lookups(1) [OF assms, of u rt' rid'] set_platform_lookups(2) [OF assms, of t rt' rid']
    set_platform_lookups(3) [OF assms, of rt' rid']
  by (auto simp: check_access_def split: option.splits sum.splits) (auto simp: bindE_def split: option.splits sum.splits)

theorem platform_effect_decides_by_default_witness:
  "\<exists>s' row. set_platform_effect ''agent'' 7 ''allow'' 5 demo_rules = Inr (s', row)
     \<and> check_access 4 9 ''agent'' 7 s' = Inr ''allow'' \<and> check_access 4 9 ''agent'' 7 demo_rules = Inr ''deny''"
proof -
  have "\<not> isl (set_platform_effect ''agent'' 7 ''allow'' 5 demo_rules)" by code_simp
  then obtain s' row where s': "set_platform_effect ''agent'' 7 ''allow'' 5 demo_rules = Inr (s', row)"
    by (metis projr_eq prod.collapse)
  have ok: "rbac_ok demo_rules" by (simp add: rbac_ok_def demo_rules_def)
  have "find_user_rule 4 ''agent'' 7 demo_rules = Inr None" "find_tenant_rule 9 ''agent'' 7 demo_rules = Inr None"
    "check_access 4 9 ''agent'' 7 demo_rules = Inr ''deny''" by code_simp+
  then show ?thesis
    using platform_effect_decides_by_default [OF ok s', of 4 9 "''agent''" 7] s' by auto
qed

text \<open>
  In a strict environment the runtime passes on only agents that a rule allows: an agent without a
  rule for its slug is left out, as is one that a rule denies.
\<close>

theorem strict_environment_allows_only_by_rule:
  assumes "resolver_init flag (Some env) = Inr allow_undefined" and "lower (strip env) \<in> set strict_envs"
    and "a \<in> set (fst (filter_agents_by_slug allow_undefined
           (Some (resolve_effective_permissions allow_undefined user tenant d s)) getter False agents))"
  shows "a \<in> set agents \<and> (\<exists>x. getter a = Some x \<and>
     map_of (ep_agents (resolve_permissions user tenant d s)) (strip x) = Some True)"
proof -
  have "env \<noteq> []" using assms(2) by (auto simp: strict_envs_def lower_def)
  then have "\<not> allow_undefined" using assms(1,2) by (auto simp: resolver_init_def Let_def split: if_splits)
  then show ?thesis
    using assms(3)
    by (auto simp: filter_agents_by_slug_def runtime_agent_allowed_def resolve_effective_permissions_def Let_def
        split: option.splits if_splits)
qed

theorem strict_environment_allows_only_by_rule_witness:
  "map_of (ep_agents (resolve_permissions (Some 3) (Some 9) False demo_rules)) (strip ''analyst'') = Some True"
proof -
  have i: "resolver_init False (Some ''Production'') = Inr False" by code_simp
  have e: "lower (strip ''Production'') \<in> set strict_envs" by code_simp
  have m: "''analyst'' \<in> set (fst (filter_agents_by_slug False
     (Some (resolve_effective_permissions False (Some 3) (Some 9) False demo_rules)) Some False [''analyst'']))"
    by code_simp
  show ?thesis using strict_environment_allows_only_by_rule [OF i e m] by simp
qed

text \<open>
  The table does not refuse a second rule of the same owner for the same resource: repeating an
  accepted creation is accepted, and from then on the access check of that user fails with an exception.
\<close>

theorem duplicate_rule_breaks_access_check:
  assumes "create_rule level rt rid eff (Some u) tenant plat by_user now s = Inr (s1, r1)"
  shows "\<exists>s2 r2. create_rule level rt rid eff (Some u) tenant plat by_user now s1 = Inr (s2, r2)
     \<and> (\<forall>t. check_access u t rt rid s2 = Inl MultipleRules)"
proof -
  define row where "row = \<lparr>rr_id = 0, rr_level = level, rr_user = Some u, rr_tenant = tenant, rr_platform = plat,
         rr_type = rt, rr_resource = rid, rr_effect = eff, rr_created = now, rr_created_by = by_user,
         rr_lifecycle = ''active''\<rparr>"
  have v: "validate_resource_binding rt rid s = Inr ()" and c: "rule_constraints row" and refs: "rule_references s row"
    and s1: "s1 = s\<lparr>rb_rules := rb_rules s @ [row\<lparr>rr_id := rb_next s\<rparr>], rb_next := Suc (rb_next s)\<rparr>"
    using assms unfolding create_rule_def row_def [symmetric]
    by (auto simp: accept_simps repo_create_def Let_def rule_constraints_def rule_references_def split: if_splits)
  let ?s2 = "s1\<lparr>rb_rules := rb_rules s1 @ [row\<lparr>rr_id := rb_next s1\<rparr>], rb_next := Suc (rb_next s1)\<rparr>"
  have "validate_resource_binding rt rid s1 = Inr ()" using v by (simp add: s1 validate_resource_binding_def split: if_splits)
  then have "create_rule level rt rid eff (Some u) tenant plat by_user now s1 = Inr (?s2, row\<lparr>rr_id := rb_next s1\<rparr>)"
    using c refs unfolding create_rule_def row_def [symmetric]
    by (simp add: repo_create_def Let_def rule_constraints_def rule_references_def s1)
  moreover have many: "one_or_none (xs @ [x, y]) = Inl MultipleRules" for xs and x y :: rbac_rule
    by (cases xs rule: one_or_none.cases) simp_all
  have "check_access u t rt rid ?s2 = Inl MultipleRules" for t
    by (simp add: check_access_def find_user_rule_def s1 row_def many)
  ultimately show ?thesis by blast
qed

theorem duplicate_rule_breaks_access_check_witness:
  "\<exists>s1 r1 s2 r2. create_rule ''user'' ''agent'' 7 ''deny'' (Some 4) None False None 1 demo_rules = Inr (s1, r1)
     \<and> create_rule ''user'' ''agent'' 7 ''deny'' (Some 4) None False None 1 s1 = Inr (s2, r2)
     \<and> check_access 4 9 ''agent'' 7 s2 = Inl MultipleRules"
proof -
  have "\<not> isl (create_rule ''user'' ''agent'' 7 ''deny'' (Some 4) None False None 1 demo_rules)" by code_simp
  then obtain s1 r1 where c: "create_rule ''user'' ''agent'' 7 ''deny'' (Some 4) None False None 1 demo_rules = Inr (s1, r1)"
    by (metis projr_eq prod.collapse)
  then show ?thesis using duplicate_rule_breaks_access_check [OF c] by blast
qed

text \<open>Any change of the lifecycle status of the rules.\<close>

definition relabel :: "(rbac_rule \<Rightarrow> string) \<Rightarrow> rbac_db \<Rightarrow> rbac_db" where
  "relabel mark s = s\<lparr>rb_rules := map (\<lambda>r. r\<lparr>rr_lifecycle := mark r\<rparr>) (rb_rules s)\<rparr>"

lemma insort_key_map: "insort_key k (f x) (map f ys) = map f (insort_key (\<lambda>z. k (f z)) x ys)"
  by (induction ys) auto

lemma sort_key_map: "sort_key k (map f xs) = map f (sort_key (\<lambda>z. k (f z)) xs)"
  by (induction xs) (auto simp: insort_key_map)

lemma one_or_none_map: "one_or_none (map f xs) = map_sum id (map_option f) (one_or_none xs)"
  by (cases xs rule: one_or_none.cases) simp_all

lemma relabel_lists:
  "list_by_user u ty (relabel mark s) = map (\<lambda>r. r\<lparr>rr_lifecycle := mark r\<rparr>) (list_by_user u ty s)"
  "list_by_tenant t ty (relabel mark s) = map (\<lambda>r. r\<lparr>rr_lifecycle := mark r\<rparr>) (list_by_tenant t ty s)"
  "list_platform_rules ty (relabel mark s) = map (\<lambda>r. r\<lparr>rr_lifecycle := mark r\<rparr>) (list_platform_rules ty s)"
  by (simp_all add: list_by_user_def list_by_tenant_def list_platform_rules_def relabel_def filter_map comp_def sort_key_map)

lemma relabel_find:
  "find_user_rule u rt rid (relabel mark s) = map_sum id (map_option (\<lambda>r. r\<lparr>rr_lifecycle := mark r\<rparr>)) (find_user_rule u rt rid s)"
  "find_tenant_rule t rt rid (relabel mark s) = map_sum id (map_option (\<lambda>r. r\<lparr>rr_lifecycle := mark r\<rparr>)) (find_tenant_rule t rt rid s)"
  "find_platform_rule rt rid (relabel mark s) = map_sum id (map_option (\<lambda>r. r\<lparr>rr_lifecycle := mark r\<rparr>)) (find_platform_rule rt rid s)"
  by (simp_all add: find_user_rule_def find_tenant_rule_def find_platform_rule_def relabel_def filter_map comp_def one_or_none_map)

lemma overlay_relabel: "overlay level (map (\<lambda>r. r\<lparr>rr_lifecycle := mark r\<rparr>) rules) d = overlay level rules d"
  by (simp add: overlay_def fold_map comp_def)

text \<open>
  Deprecating a rule has no effect on decisions: neither the access check nor the resolved
  permissions read the lifecycle status of a rule, although the rule listing hides deprecated rules.
\<close>

theorem deprecated_rules_still_decide:
  "check_access u t rt rid (relabel mark s) = check_access u t rt rid s
   \<and> resolve_permissions user tenant d (relabel mark s) = resolve_permissions user tenant d s"
proof
  show "check_access u t rt rid (relabel mark s) = check_access u t rt rid s"
    by (auto simp: check_access_def relabel_find bindE_def split: sum.splits option.splits)
  have slug: "resolve_slug (relabel mark s) = resolve_slug s" by (simp add: resolve_slug_def relabel_def fun_eq_iff)
  have "resolve_resource_target (relabel mark s) = resolve_resource_target s"
    unfolding resolve_resource_target_def slug ..
  then have "apply_effect (relabel mark s) = apply_effect s" unfolding apply_effect_def by simp
  moreover have "resolved_rules user tenant (relabel mark s) = resolved_rules user tenant s"
    by (simp add: resolved_rules_def relabel_lists overlay_relabel split: option.splits)
  ultimately show "resolve_permissions user tenant d (relabel mark s) = resolve_permissions user tenant d s"
    by (simp add: resolve_permissions_def)
qed

end
