(* ===== verification/Memory_Facts.thy ===== *)
theory Memory_Facts
  imports Prelude
begin

text \<open>
  The durable memory of the runtime: the tables of \<open>models/memory.py\<close>, \<open>models/project.py\<close> and
  \<open>models/glossary.py\<close>, the transport \<open>FactDTO\<close> (\<open>runtime/memory/dto.py\<close>), the repository
  \<open>FactStore\<close> (\<open>runtime/memory/fact_store.py\<close>), the read facade \<open>MemoryService\<close>
  (\<open>runtime/memory/service.py\<close>) and the selection of facts for a prompt
  (\<open>runtime/memory/fact_selection.py\<close>).

  Confidences and scores are floats in the code that are only compared, copied and combined by
  \<open>max\<close>; they are rationals here. Texts are ASCII, for which \<open>lower\<close> and \<open>casefold\<close> agree and a
  slice counts characters. A metadata dictionary is the record of the keys the memory code writes and
  reads, an absent key being an empty field.
\<close>

section \<open>Texts\<close>

text \<open>\<open>str.split()\<close> and \<open>" ".join(s.split())\<close>\<close>

fun split_ws :: "string \<Rightarrow> string \<Rightarrow> string list" where
  "split_ws acc [] = (if acc = [] then [] else [rev acc])"
| "split_ws acc (c # cs) =
     (if is_space c then (if acc = [] then [] else [rev acc]) @ split_ws [] cs else split_ws (c # acc) cs)"

definition squeeze :: "string \<Rightarrow> string" where
  "squeeze s = join '' '' (split_ws [] s)"

definition normalized_value :: "string \<Rightarrow> string" where
  "normalized_value v = take 500 (squeeze (lower v))"

section \<open>Facts\<close>

datatype FactScope = UserScope | TenantScope | ProjectScope

datatype FactStatus = FactPending | FactConfirmed | FactUnconfirmed | FactDeleted

datatype FactSource = SrcUserUtterance | SrcToolResult | SrcManual | SrcSystem | SrcLegacyAgentResult

record evidence_item =
  ei_type :: string
  ei_ref :: string
  ei_support_ref :: "string option"
  ei_label :: "string option"

record fact_meta =
  fm_project_key :: string
  fm_project_aliases :: "string list"
  fm_aliases :: "string list"
  fm_evidence :: "evidence_item list"
  fm_marked :: bool
  fm_glossary_scope :: string
  fm_action :: string
  fm_targets :: "uuid option list"

definition empty_meta :: fact_meta where
  "empty_meta = \<lparr>fm_project_key = [], fm_project_aliases = [], fm_aliases = [], fm_evidence = [], fm_marked = False,
     fm_glossary_scope = [], fm_action = [], fm_targets = []\<rparr>"

record FactDTO =
  fd_scope :: FactScope
  fd_subject :: string
  fd_value :: string
  fd_source :: FactSource
  fd_tenant :: "uuid option"
  fd_project :: "uuid option"
  fd_owner_type :: "string option"
  fd_owner :: "uuid option"
  fd_kind :: string
  fd_meta :: fact_meta
  fd_confidence :: rat
  fd_source_ref :: "string option"
  fd_observed :: int
  fd_id :: uuid
  fd_superseded :: "uuid option"
  fd_visible :: bool
  fd_status :: FactStatus
  fd_support :: int
  fd_first :: "int option"
  fd_last :: "int option"
  fd_revision :: int

text \<open>A row of \<open>facts\<close> has the fields of the transport and the normalised value.\<close>

record fact_row = FactDTO +
  fr_normalized :: string

record fact_observation =
  fo_owner :: uuid
  fo_type :: string
  fo_ref :: string
  fo_label :: "string option"

record project_row =
  pj_id :: uuid
  pj_key :: string
  pj_name :: string
  pj_aliases :: "string list"
  pj_active :: bool

datatype GlossaryScope = GlobalTerm | UserTerm | TenantTerm | ProjectTerm

datatype GlossaryStatus = TermPending | TermConfirmed | TermUnconfirmed

record glossary_row =
  gl_id :: uuid
  gl_scope :: GlossaryScope
  gl_user :: "uuid option"
  gl_tenant :: "uuid option"
  gl_term :: string
  gl_aliases :: "string list"
  gl_description :: "string option"
  gl_active :: bool
  gl_status :: GlossaryStatus
  gl_support :: int
  gl_first :: "int option"
  gl_last :: "int option"

record memory =
  mb_facts :: "fact_row list"
  mb_obs :: "fact_observation list"
  mb_projects :: "project_row list"
  mb_terms :: "glossary_row list"
  mb_term_obs :: "fact_observation list"
  mb_next :: uuid

text \<open>The flush of a new row: the primary key and the check on the confidence.\<close>

datatype memory_error = FactIntegrity

definition insert_fact :: "fact_row \<Rightarrow> memory \<Rightarrow> memory_error + memory" where
  "insert_fact r s =
     (if 0 \<le> fd_confidence r \<and> fd_confidence r \<le> 1 \<and> fd_id r \<notin> fd_id ` set (mb_facts s)
      then Inr (s\<lparr>mb_facts := mb_facts s @ [r]\<rparr>) else Inl FactIntegrity)"

text \<open>A bulk \<open>UPDATE\<close> of the facts, with the number of rows it matched.\<close>

definition update_facts :: "(fact_row \<Rightarrow> bool) \<Rightarrow> (fact_row \<Rightarrow> fact_row) \<Rightarrow> memory \<Rightarrow> memory" where
  "update_facts p f s = s\<lparr>mb_facts := map (\<lambda>r. if p r then f r else r) (mb_facts s)\<rparr>"

definition count_facts :: "(fact_row \<Rightarrow> bool) \<Rightarrow> memory \<Rightarrow> nat" where
  "count_facts p s = length (filter p (mb_facts s))"

section \<open>Fact store\<close>

definition dto_of_row :: "fact_row \<Rightarrow> FactDTO" where
  "dto_of_row r = (FactDTO.truncate r)\<lparr>fd_kind := str_or (fd_kind r) ''fact''\<rparr>"

definition row_of_dto :: "FactDTO \<Rightarrow> fact_row" where
  "row_of_dto d = FactDTO.extend d (fact_row.fields (take 500 (squeeze (lower (fd_value d)))))"

definition get_active_by_key :: "FactScope \<Rightarrow> string \<Rightarrow> string \<Rightarrow> uuid \<Rightarrow> memory \<Rightarrow> FactDTO option" where
  "get_active_by_key scope subject owner_type owner s =
     map_option dto_of_row (find (\<lambda>r. fd_scope r = scope \<and> fd_subject r = subject \<and> fd_superseded r = None
        \<and> fd_status r = FactConfirmed \<and> fd_owner_type r = Some owner_type \<and> fd_owner r = Some owner) (mb_facts s))"

text \<open>\<open>ORDER BY observed_at DESC\<close>\<close>

definition newest_first :: "fact_row list \<Rightarrow> fact_row list" where
  "newest_first rows = sort_key (\<lambda>r. - fd_observed r) rows"

text \<open>SQL \<open>LIKE\<close>, with the backslash as escape character\<close>

fun sql_like :: "string \<Rightarrow> string \<Rightarrow> bool" where
  "sql_like [] s = (s = [])"
| "sql_like (p # ps) [] = (p = CHR ''%'' \<and> sql_like ps [])"
| "sql_like (p # ps) (c # cs) =
     (if p = CHR ''%'' then sql_like ps (c # cs) \<or> sql_like (p # ps) cs
      else if p = char_of (92 :: nat) then (case ps of [] \<Rightarrow> False | q # qs \<Rightarrow> q = c \<and> sql_like qs cs)
      else (p = CHR ''_'' \<or> p = c) \<and> sql_like ps cs)"

definition retrieve ::
    "FactScope list \<Rightarrow> string option \<Rightarrow> uuid option \<Rightarrow> string option \<Rightarrow> FactSource list option \<Rightarrow> string option \<Rightarrow> nat
     \<Rightarrow> memory \<Rightarrow> FactDTO list" where
  "retrieve scopes owner_type owner prefix sources ref_part limit s =
     (if scopes = [] \<or> owner_type = None \<or> owner = None then []
      else map dto_of_row (take limit (newest_first (filter (\<lambda>r.
             fd_scope r \<in> set scopes \<and> fd_superseded r = None \<and> fd_status r = FactConfirmed
             \<and> fd_owner_type r = owner_type \<and> fd_owner r = owner
             \<and> (opt_truthy prefix \<longrightarrow> sql_like (the prefix @ ''%'') (fd_subject r))
             \<and> (case sources of None \<Rightarrow> True | Some l \<Rightarrow> l = [] \<or> fd_source r \<in> set l)
             \<and> (opt_truthy ref_part \<longrightarrow> (case fd_source_ref r of None \<Rightarrow> False
                  | Some x \<Rightarrow> sql_like (''%'' @ the ref_part @ ''%'') x))) (mb_facts s)))))"

definition list_user_visible :: "uuid \<Rightarrow> nat \<Rightarrow> nat \<Rightarrow> memory \<Rightarrow> FactDTO list" where
  "list_user_visible user limit offset s =
     map dto_of_row (take limit (drop offset (newest_first (filter (\<lambda>r.
        fd_owner_type r = Some ''user'' \<and> fd_owner r = Some user \<and> fd_superseded r = None
        \<and> fd_visible r \<and> fd_status r = FactConfirmed) (mb_facts s)))))"

definition store_add :: "FactDTO \<Rightarrow> memory \<Rightarrow> memory_error + memory" where
  "store_add d s = insert_fact (row_of_dto d) s"

definition mark_superseded :: "uuid \<Rightarrow> uuid \<Rightarrow> memory \<Rightarrow> memory" where
  "mark_superseded old new s =
     update_facts (\<lambda>r. fd_id r = old \<and> fd_superseded r = None) (\<lambda>r. r\<lparr>fd_superseded := Some new\<rparr>) s"

definition forget :: "uuid \<Rightarrow> memory \<Rightarrow> memory" where
  "forget i s = update_facts (\<lambda>r. fd_id r = i \<and> fd_superseded r = None) (\<lambda>r. r\<lparr>fd_superseded := Some i\<rparr>) s"

definition owned_by :: "string \<Rightarrow> uuid \<Rightarrow> uuid list \<Rightarrow> fact_row \<Rightarrow> bool" where
  "owned_by owner_type owner ids r \<longleftrightarrow>
     fd_id r \<in> set ids \<and> fd_owner_type r = Some owner_type \<and> fd_owner r = Some owner \<and> fd_visible r \<and> fd_superseded r = None"

definition forget_owned :: "string \<Rightarrow> uuid \<Rightarrow> uuid list \<Rightarrow> memory \<Rightarrow> memory \<times> nat" where
  "forget_owned owner_type owner ids s =
     (update_facts (owned_by owner_type owner ids) (\<lambda>r. r\<lparr>fd_superseded := Some (fd_id r)\<rparr>) s,
      count_facts (owned_by owner_type owner ids) s)"

definition reassign_tenant_context :: "uuid \<Rightarrow> uuid \<Rightarrow> memory \<Rightarrow> memory \<times> nat" where
  "reassign_tenant_context source target s =
     (update_facts (\<lambda>r. fd_tenant r = Some source) (\<lambda>r. r\<lparr>fd_tenant := Some target\<rparr>) s,
      count_facts (\<lambda>r. fd_tenant r = Some source) s)"

definition values_equivalent :: "string \<Rightarrow> string \<Rightarrow> bool" where
  "values_equivalent a b \<longleftrightarrow> strip a = strip b"

text \<open>The refreshed transport that the equal-value branch returns: fields it does not copy are defaults.\<close>

definition refreshed_dto :: "FactDTO \<Rightarrow> FactDTO \<Rightarrow> FactDTO" where
  "refreshed_dto old new =
     old\<lparr>fd_project := None, fd_confidence := max (fd_confidence old) (fd_confidence new),
         fd_observed := fd_observed new, fd_superseded := None, fd_status := FactPending, fd_support := 0,
         fd_first := None, fd_last := None, fd_revision := 1\<rparr>"

definition upsert_with_supersede :: "FactDTO \<Rightarrow> memory \<Rightarrow> memory_error + memory \<times> FactDTO" where
  "upsert_with_supersede new s =
     (case get_active_by_key (fd_scope new) (fd_subject new) (case fd_owner_type new of None \<Rightarrow> [] | Some t \<Rightarrow> t)
             (case fd_owner new of None \<Rightarrow> 0 | Some i \<Rightarrow> i) s of
        None \<Rightarrow> bindE (store_add new s) (\<lambda>s'. Inr (s', new))
      | Some old \<Rightarrow>
          if values_equivalent (fd_value old) (fd_value new)
          then if 0 \<le> max (fd_confidence old) (fd_confidence new) \<and> max (fd_confidence old) (fd_confidence new) \<le> 1
               then Inr (update_facts (\<lambda>r. fd_id r = fd_id old)
                      (\<lambda>r. r\<lparr>fd_observed := fd_observed new, fd_confidence := max (fd_confidence old) (fd_confidence new)\<rparr>) s,
                      refreshed_dto old new)
               else Inl FactIntegrity
          else bindE (store_add new s) (\<lambda>s'. Inr (mark_superseded (fd_id old) (fd_id new) s', new)))"

section \<open>Memory service\<close>

definition read_snapshot :: "uuid option \<Rightarrow> uuid option \<Rightarrow> nat \<Rightarrow> memory \<Rightarrow> FactDTO list \<times> FactDTO list" where
  "read_snapshot user tenant limit s =
     (if user = None then [] else retrieve [UserScope] (Some ''user'') user None None None limit s,
      if tenant = None then [] else retrieve [TenantScope] (Some ''tenant'') tenant None None None limit s)"

definition snapshot_entries :: "FactDTO list \<times> FactDTO list \<Rightarrow> FactDTO list" where
  "snapshot_entries snap = fst snap @ snd snap"

fun write_extracted ::
    "FactDTO list \<Rightarrow> uuid option \<Rightarrow> uuid option \<Rightarrow> nat \<Rightarrow> memory \<Rightarrow> memory_error + memory \<times> nat" where
  "write_extracted [] user tenant saved s = Inr (s, saved)"
| "write_extracted (f # fs) user tenant saved s =
     (let kind = str_or (fd_kind f) ''fact'' in
      if fd_scope f = UserScope \<and> user \<noteq> None
      then bindE (upsert_with_supersede (f\<lparr>fd_tenant := tenant, fd_owner_type := Some ''user'', fd_owner := user, fd_kind := kind\<rparr>) s)
             (\<lambda>(s', _). write_extracted fs user tenant (saved + 1) s')
      else if fd_scope f = TenantScope \<and> tenant \<noteq> None
      then bindE (upsert_with_supersede (f\<lparr>fd_tenant := tenant, fd_owner_type := Some ''tenant'', fd_owner := tenant, fd_kind := kind\<rparr>) s)
             (\<lambda>(s', _). write_extracted fs user tenant (saved + 1) s')
      else write_extracted fs user tenant saved s)"

definition MAX_PROFILE_ITEMS :: nat where "MAX_PROFILE_ITEMS = 12"
definition MAX_PROFILE_CHARS :: nat where "MAX_PROFILE_CHARS = 2400"
definition MAX_PROFILE_ITEM_CHARS :: nat where "MAX_PROFILE_ITEM_CHARS = 240"

record context_entry =
  ce_scope :: FactScope
  ce_kind :: string
  ce_subject :: string
  ce_value :: string
  ce_confidence :: rat

fun context_from :: "nat \<Rightarrow> FactDTO list \<Rightarrow> context_entry list" where
  "context_from used [] = []"
| "context_from used (f # fs) =
     (let subject = take MAX_PROFILE_ITEM_CHARS (fd_subject f);
          val = take MAX_PROFILE_ITEM_CHARS (fd_value f);
          size = length subject + length val
      in if used + size > MAX_PROFILE_CHARS then []
         else \<lparr>ce_scope = fd_scope f, ce_kind = fd_kind f, ce_subject = subject, ce_value = val,
               ce_confidence = fd_confidence f\<rparr> # context_from (used + size) fs)"

definition memory_context :: "FactDTO list \<Rightarrow> context_entry list" where
  "memory_context facts = context_from 0 facts"

definition planner_context :: "FactDTO list \<times> FactDTO list \<Rightarrow> nat \<Rightarrow> context_entry list" where
  "planner_context snap limit = memory_context (take limit (snapshot_entries snap))"

definition agent_context :: "FactDTO list \<times> FactDTO list \<Rightarrow> string \<Rightarrow> nat \<Rightarrow> context_entry list" where
  "agent_context snap query limit =
     (let terms = remdups (map lower (filter (\<lambda>w. length w > 2) (split_ws [] query)));
          hits = (\<lambda>f. length (filter (\<lambda>t. contains t (lower (fd_subject f @ '' '' @ fd_value f))) terms))
      in memory_context (take limit (sort_key (\<lambda>f. - int (hits f)) (snapshot_entries snap))))"

section \<open>Selection for a prompt\<close>

text \<open>The ranker is an argument of the policy (\<open>FactRanker\<close> is a protocol).\<close>

record RankedFact =
  rk_fact :: FactDTO
  rk_score :: rat
  rk_hits :: nat
  rk_stale :: bool
  rk_low :: bool

definition normalize_value :: "string \<Rightarrow> string" where
  "normalize_value v = squeeze (lower (strip v))"

definition contradiction_subjects :: "RankedFact list \<Rightarrow> string list" where
  "contradiction_subjects items =
     (let vals = (\<lambda>s. remdups (map (\<lambda>i. normalize_value (fd_value (rk_fact i))) (filter (\<lambda>i. fd_subject (rk_fact i) = s) items)))
      in sort (filter (\<lambda>s. length (vals s) > 1) (remdups (map (\<lambda>i. fd_subject (rk_fact i)) items))))"

text \<open>The best-ranked fact of each value of a subject, in the order the values first occur.\<close>

definition best_of :: "RankedFact list \<Rightarrow> RankedFact" where
  "best_of items = hd (sort_key (\<lambda>i. - rk_score i) items)"

fun first_occurrences :: "string list \<Rightarrow> string list" where
  "first_occurrences [] = []"
| "first_occurrences (x # xs) = x # filter (\<lambda>y. y \<noteq> x) (first_occurrences xs)"

definition representatives :: "RankedFact list \<Rightarrow> string \<Rightarrow> RankedFact list" where
  "representatives items subject =
     (let mine = filter (\<lambda>i. fd_subject (rk_fact i) = subject) items;
          norm = (\<lambda>i. normalize_value (fd_value (rk_fact i)))
      in map (\<lambda>v. best_of (filter (\<lambda>i. norm i = v) mine)) (first_occurrences (map norm mine)))"

text \<open>Adding to the selection what has no selected id yet.\<close>

definition select_new :: "RankedFact list \<Rightarrow> RankedFact list \<Rightarrow> RankedFact list" where
  "select_new selected items =
     fold (\<lambda>i sel. if fd_id (rk_fact i) \<in> (\<lambda>x. fd_id (rk_fact x)) ` set sel then sel else sel @ [i]) items selected"

record selection_result =
  sr_selected :: "RankedFact list"
  sr_input :: nat
  sr_candidates :: nat
  sr_omitted_low :: nat
  sr_omitted_stale :: nat
  sr_contradictions :: "string list"

definition usable :: "RankedFact \<Rightarrow> bool" where
  "usable i \<longleftrightarrow> \<not> (rk_low i \<and> rk_hits i = 0) \<and> \<not> (rk_stale i \<and> rk_hits i = 0)"

definition select_facts ::
    "(string \<Rightarrow> FactDTO list \<Rightarrow> RankedFact list) \<Rightarrow> string \<Rightarrow> FactDTO list \<Rightarrow> int \<Rightarrow> selection_result" where
  "select_facts rank query facts limit =
     (let ranked = rank query facts;
          low = filter (\<lambda>i. rk_low i \<and> rk_hits i = 0) ranked;
          stale = filter (\<lambda>i. \<not> (rk_low i \<and> rk_hits i = 0) \<and> rk_stale i \<and> rk_hits i = 0) ranked;
          prefiltered = filter usable ranked;
          contradictions = contradiction_subjects prefiltered;
          reps = select_new [] (concat (map (representatives prefiltered) contradictions));
          selected = take (nat (max 1 limit)) (select_new reps prefiltered)
      in \<lparr>sr_selected = selected, sr_input = length facts, sr_candidates = length prefiltered,
          sr_omitted_low = length low, sr_omitted_stale = length stale, sr_contradictions = contradictions\<rparr>)"

end
