(* ===== verification/Memory_Reconcile.thy ===== *)
theory Memory_Reconcile
  imports Memory_Facts
begin

text \<open>
  How facts are learned: the reconciler of facts (\<open>runtime/memory/fact_reconciler.py\<close>) and of
  terminology (\<open>runtime/memory/glossary_reconciler.py\<close>), the compactor that lets an LLM merge
  candidates (\<open>runtime/memory/fact_compactor.py\<close>), and the path of one turn through them
  (\<open>runtime/memory/writer.py\<close>).

  The answer of the LLM is an argument of the compactor, \<open>None\<close> standing for a call that raised. A
  \<open>uuid4\<close> is the next number of the supply \<open>mb_next\<close>.
\<close>

definition fresh_id :: "memory \<Rightarrow> uuid \<times> memory" where
  "fresh_id s = (mb_next s, s\<lparr>mb_next := Suc (mb_next s)\<rparr>)"

section \<open>Fact reconciler\<close>

text \<open>
  Facts as the compactor sees them: \<open>_dto\<close> of the reconciler copies neither the identifier nor the
  lifecycle fields, so each transport gets a new identifier.
\<close>

definition dto_without_id :: "uuid \<Rightarrow> int \<Rightarrow> fact_row \<Rightarrow> FactDTO" where
  "dto_without_id i now r =
     \<lparr>fd_scope = fd_scope r, fd_subject = fd_subject r, fd_value = fd_value r, fd_source = fd_source r,
      fd_tenant = fd_tenant r, fd_project = fd_project r, fd_owner_type = fd_owner_type r, fd_owner = fd_owner r,
      fd_kind = str_or (fd_kind r) ''fact'', fd_meta = fd_meta r, fd_confidence = fd_confidence r,
      fd_source_ref = None, fd_observed = now, fd_id = i, fd_superseded = None, fd_visible = True,
      fd_status = FactPending, fd_support = 0, fd_first = None, fd_last = None, fd_revision = 1\<rparr>"

fun dtos_of_rows :: "int \<Rightarrow> fact_row list \<Rightarrow> memory \<Rightarrow> FactDTO list \<times> memory" where
  "dtos_of_rows now [] s = ([], s)"
| "dtos_of_rows now (r # rs) s =
     (let (i, s1) = fresh_id s; (ds, s2) = dtos_of_rows now rs s1 in (dto_without_id i now r # ds, s2))"

definition current_for ::
    "uuid option \<Rightarrow> uuid option \<Rightarrow> string list \<Rightarrow> int \<Rightarrow> memory \<Rightarrow> FactDTO list \<times> memory" where
  "current_for user tenant project_keys now s =
     (let keys = filter (\<lambda>k. k \<noteq> []) (map (\<lambda>k. lower (strip k)) project_keys);
          projects = map pj_id (filter (\<lambda>p. pj_key p \<in> set keys) (mb_projects s));
          mine = (\<lambda>r. (user \<noteq> None \<and> fd_owner_type r = Some ''user'' \<and> fd_owner r = user)
                  \<or> (tenant \<noteq> None \<and> fd_owner_type r = Some ''tenant'' \<and> fd_owner r = tenant)
                  \<or> (\<exists>p\<in>set projects. fd_project r = Some p))
      in dtos_of_rows now (filter (\<lambda>r. fd_superseded r = None \<and> mine r) (mb_facts s)) s)"

definition project_key_of :: "FactDTO \<Rightarrow> string" where
  "project_key_of c = lower (strip (fm_project_key (fd_meta c)))"

definition ensure_project :: "FactDTO \<Rightarrow> memory \<Rightarrow> memory" where
  "ensure_project c s =
     (let key = project_key_of c in
      if fd_scope c \<noteq> ProjectScope \<or> key = [] \<or> key \<in> pj_key ` set (mb_projects s) then s
      else let (i, s1) = fresh_id s
           in s1\<lparr>mb_projects := mb_projects s1 @
                 [\<lparr>pj_id = i, pj_key = key, pj_name = key, pj_aliases = [key], pj_active = True\<rparr>]\<rparr>)"

definition ensure_projects :: "FactDTO list \<Rightarrow> memory \<Rightarrow> memory" where
  "ensure_projects cands s = fold ensure_project cands s"

definition owner_for ::
    "FactDTO \<Rightarrow> uuid option \<Rightarrow> uuid option \<Rightarrow> memory \<Rightarrow> string option \<times> uuid option \<times> uuid option" where
  "owner_for c user tenant s =
     (case fd_scope c of
        UserScope \<Rightarrow> (Some ''user'', user, None)
      | TenantScope \<Rightarrow> (Some ''tenant'', tenant, None)
      | ProjectScope \<Rightarrow>
          if project_key_of c = [] then (None, None, None)
          else (case find (\<lambda>p. pj_key p = project_key_of c \<and> pj_active p) (mb_projects s) of
                  None \<Rightarrow> (None, None, None)
                | Some p \<Rightarrow> (Some ''project'', Some (pj_id p), Some (pj_id p))))"

definition find_same ::
    "FactDTO \<Rightarrow> string option \<Rightarrow> uuid option \<Rightarrow> uuid option \<Rightarrow> memory \<Rightarrow> fact_row option" where
  "find_same c owner_type owner project s =
     find (\<lambda>r. fd_scope r = fd_scope c \<and> fd_subject r = fd_subject c \<and> fr_normalized r = normalized_value (fd_value c)
            \<and> fd_superseded r = None
            \<and> (if project \<noteq> None then fd_project r = project else fd_owner_type r = owner_type \<and> fd_owner r = owner))
       (mb_facts s)"

definition persisted_metadata :: "fact_meta \<Rightarrow> fact_meta" where
  "persisted_metadata m = m\<lparr>fm_evidence := [], fm_marked := False, fm_glossary_scope := [], fm_targets := []\<rparr>"

definition new_fact ::
    "FactDTO \<Rightarrow> uuid option \<Rightarrow> string option \<Rightarrow> uuid option \<Rightarrow> uuid option \<Rightarrow> bool \<Rightarrow> uuid \<Rightarrow> fact_row" where
  "new_fact c tenant owner_type owner project sandbox i =
     \<lparr>fd_scope = fd_scope c, fd_subject = fd_subject c, fd_value = fd_value c, fd_source = fd_source c,
      fd_tenant = tenant, fd_project = project, fd_owner_type = owner_type, fd_owner = owner, fd_kind = fd_kind c,
      fd_meta = persisted_metadata (fd_meta c), fd_confidence = fd_confidence c, fd_source_ref = None,
      fd_observed = fd_observed c, fd_id = i, fd_superseded = None, fd_visible = (fd_scope c = UserScope),
      fd_status = (if sandbox \<or> fd_scope c = UserScope then FactConfirmed else FactPending), fd_support = 0,
      fd_first = None, fd_last = None, fd_revision = 1, fr_normalized = normalized_value (fd_value c)\<rparr>"

text \<open>The targets of a semantic replacement, restricted to active facts of the same owner and scope.\<close>

definition supersede_targets :: "fact_row \<Rightarrow> uuid option list \<Rightarrow> memory \<Rightarrow> memory" where
  "supersede_targets new targets s =
     (let ids = set (List.map_filter id targets) - {fd_id new} in
      update_facts (\<lambda>r. fd_id r \<in> ids \<and> fd_superseded r = None \<and> fd_scope r = fd_scope new
           \<and> (if fd_project new \<noteq> None then fd_project r = fd_project new
              else fd_owner_type r = fd_owner_type new \<and> fd_owner r = fd_owner new))
         (\<lambda>r. r\<lparr>fd_superseded := Some (fd_id new)\<rparr>) s)"

text \<open>A source supports a fact once; the number of new sources is returned.\<close>

definition observed :: "fact_observation list \<Rightarrow> uuid \<Rightarrow> (string \<times> string) set" where
  "observed obs i = (\<lambda>o'. (fo_type o', fo_ref o')) ` {o' \<in> set obs. fo_owner o' = i}"

fun add_observations :: "uuid \<Rightarrow> evidence_item list \<Rightarrow> fact_observation list \<Rightarrow> fact_observation list \<times> int" where
  "add_observations i [] obs = (obs, 0)"
| "add_observations i (e # es) obs =
     (if ei_type e = [] \<or> ei_ref e = [] \<or> (ei_type e, ei_ref e) \<in> observed obs i then add_observations i es obs
      else let (obs', n) = add_observations i es
                 (obs @ [\<lparr>fo_owner = i, fo_type = ei_type e, fo_ref = ei_ref e, fo_label = ei_label e\<rparr>])
           in (obs', n + 1))"

record FactChange =
  fc_scope :: FactScope
  fc_kind :: string
  fc_subject :: string
  fc_value :: string
  fc_type :: string
  fc_status_before :: "FactStatus option"
  fc_status_after :: FactStatus
  fc_support_before :: int
  fc_support_after :: int
  fc_support_delta :: int
  fc_action :: string

definition confirm :: "int \<Rightarrow> fact_row \<Rightarrow> fact_row" where
  "confirm now r =
     r\<lparr>fd_status := FactConfirmed, fd_first := Some (case fd_first r of None \<Rightarrow> now | Some t \<Rightarrow> t), fd_last := Some now\<rparr>"

text \<open>The row after \<open>added\<close> new sources.\<close>

definition reinforce :: "string \<Rightarrow> bool \<Rightarrow> bool \<Rightarrow> int \<Rightarrow> int \<Rightarrow> fact_row \<Rightarrow> fact_row" where
  "reinforce action sandbox marked added now r =
     (let r1 = r\<lparr>fd_support := fd_support r + added, fd_observed := now\<rparr> in
      if action = ''mark_conflict'' then r1\<lparr>fd_status := FactUnconfirmed\<rparr>
      else if sandbox \<or> fd_scope r1 = UserScope \<or> marked then confirm now r1
      else if fd_support r1 \<ge> 3 then confirm now r1
      else r1)"

definition alias_of :: "nat \<Rightarrow> string \<Rightarrow> string" where
  "alias_of n raw = take n (squeeze (strip raw))"

fun extend_aliases :: "string \<Rightarrow> string list \<Rightarrow> string list \<Rightarrow> string list" where
  "extend_aliases name [] known = known"
| "extend_aliases name (raw # raws) known =
     (let a = alias_of 120 raw in
      extend_aliases name raws
        (if a \<noteq> [] \<and> lower a \<notin> lower ` set known \<and> lower a \<noteq> lower name then known @ [a] else known))"

definition apply_project_aliases :: "fact_row \<Rightarrow> string list \<Rightarrow> memory \<Rightarrow> memory" where
  "apply_project_aliases r raws s =
     s\<lparr>mb_projects := map (\<lambda>p. if Some (pj_id p) = fd_project r
         then p\<lparr>pj_aliases := extend_aliases (pj_name p) raws (pj_aliases p)\<rparr> else p) (mb_projects s)\<rparr>"

definition change_type :: "fact_row option \<Rightarrow> FactStatus \<Rightarrow> string" where
  "change_type before after =
     (case before of
        None \<Rightarrow> if after = FactConfirmed then ''confirmed'' else ''candidate_created''
      | Some r \<Rightarrow> if fd_status r \<noteq> after \<and> after = FactConfirmed then ''candidate_confirmed'' else ''candidate_reinforced'')"

definition fact_change :: "fact_row option \<Rightarrow> fact_row \<Rightarrow> int \<Rightarrow> string \<Rightarrow> FactChange" where
  "fact_change before after added action =
     \<lparr>fc_scope = fd_scope after, fc_kind = fd_kind after, fc_subject = fd_subject after, fc_value = fd_value after,
      fc_type = change_type before (fd_status after), fc_status_before = map_option fd_status before,
      fc_status_after = fd_status after,
      fc_support_before = (case before of None \<Rightarrow> 0 | Some r \<Rightarrow> fd_support r),
      fc_support_after = fd_support after, fc_support_delta = added, fc_action = action\<rparr>"

text \<open>The stored fact for a candidate: the same fact when there is one, otherwise a new row.\<close>

definition fact_for ::
    "FactDTO \<Rightarrow> uuid option \<Rightarrow> string option \<Rightarrow> uuid option \<Rightarrow> uuid option \<Rightarrow> bool \<Rightarrow> memory \<Rightarrow> memory_error + memory \<times> fact_row" where
  "fact_for c tenant owner_type owner project sandbox s =
     (case find_same c owner_type owner project s of
        Some r \<Rightarrow> Inr (s, r)
      | None \<Rightarrow>
          let (i, s1) = fresh_id s; r = new_fact c tenant owner_type owner project sandbox i
          in bindE (insert_fact r s1) (\<lambda>s2.
               Inr (if fm_action (fd_meta c) \<in> {''rewrite'', ''supersede''}
                    then supersede_targets r (fm_targets (fd_meta c)) s2 else s2, r)))"

definition reconcile_one ::
    "uuid option \<Rightarrow> uuid option \<Rightarrow> bool \<Rightarrow> int \<Rightarrow> FactDTO \<Rightarrow> memory \<Rightarrow> memory_error + memory \<times> FactChange list" where
  "reconcile_one user tenant sandbox now c s =
     (let action = str_or (fm_action (fd_meta c)) ''add'';
          (owner_type, owner, project) = owner_for c user tenant s
      in if owner = None \<and> project = None then Inr (s, [])
         else bindE (fact_for c tenant owner_type owner project sandbox s) (\<lambda>(s1, r).
           let (obs, added) = add_observations (fd_id r) (fm_evidence (fd_meta c)) (mb_obs s1);
               s2 = s1\<lparr>mb_obs := obs\<rparr>
           in if added = 0 then Inr (s2, [])
              else
                let r' = reinforce action sandbox (fm_marked (fd_meta c)) added now r;
                    s3 = update_facts (\<lambda>x. fd_id x = fd_id r) (\<lambda>_. r') s2;
                    s4 = (if fd_scope r' = ProjectScope \<and> fd_status r' = FactConfirmed
                          then apply_project_aliases r' (fm_project_aliases (fd_meta c)) s3 else s3)
                in Inr (s4, [fact_change (find_same c owner_type owner project s) r' added action])))"

fun reconcile_all ::
    "uuid option \<Rightarrow> uuid option \<Rightarrow> bool \<Rightarrow> int \<Rightarrow> FactDTO list \<Rightarrow> memory \<Rightarrow> memory_error + memory \<times> FactChange list" where
  "reconcile_all user tenant sandbox now [] s = Inr (s, [])"
| "reconcile_all user tenant sandbox now (c # cs) s =
     bindE (reconcile_one user tenant sandbox now c s) (\<lambda>(s1, ch1).
     bindE (reconcile_all user tenant sandbox now cs s1) (\<lambda>(s2, ch2). Inr (s2, ch1 @ ch2)))"

definition apply_with_changes ::
    "FactDTO list \<Rightarrow> uuid option \<Rightarrow> uuid option \<Rightarrow> bool \<Rightarrow> int \<Rightarrow> memory \<Rightarrow> memory_error + memory \<times> FactChange list" where
  "apply_with_changes cands user tenant sandbox now s =
     reconcile_all user tenant sandbox now cands (ensure_projects cands s)"

text \<open>A manual edit of a fact of a user: the other facts of the subject and the edited one step back.\<close>

definition replace_user_fact ::
    "(uuid \<Rightarrow> string) \<Rightarrow> uuid \<Rightarrow> uuid \<Rightarrow> string \<Rightarrow> string \<Rightarrow> int \<Rightarrow> memory \<Rightarrow> memory_error + memory \<times> fact_row option" where
  "replace_user_fact uuid_str fact_id user subject val now s =
     (case find (\<lambda>r. fd_id r = fact_id \<and> fd_owner_type r = Some ''user'' \<and> fd_owner r = Some user \<and> fd_superseded r = None)
             (mb_facts s) of
        None \<Rightarrow> Inr (s, None)
      | Some prev \<Rightarrow>
          let ref = ''manual:'' @ uuid_str fact_id;
              s1 = update_facts (\<lambda>r. fd_owner_type r = Some ''user'' \<and> fd_owner r = Some user \<and> fd_scope r = UserScope
                     \<and> fd_subject r = subject \<and> fd_superseded r = None \<and> fd_id r \<noteq> fact_id)
                     (\<lambda>r. r\<lparr>fd_status := FactUnconfirmed\<rparr>) s;
              s2 = update_facts (\<lambda>r. fd_id r = fact_id) (\<lambda>r. r\<lparr>fd_status := FactUnconfirmed\<rparr>) s1;
              (i, s3) = fresh_id s2;
              new = \<lparr>fd_scope = UserScope, fd_subject = subject, fd_value = val, fd_source = SrcManual,
                     fd_tenant = fd_tenant prev, fd_project = None, fd_owner_type = Some ''user'', fd_owner = Some user,
                     fd_kind = fd_kind prev, fd_meta = empty_meta, fd_confidence = 1, fd_source_ref = Some ref,
                     fd_observed = now, fd_id = i, fd_superseded = None, fd_visible = True, fd_status = FactConfirmed,
                     fd_support = 1, fd_first = Some now, fd_last = Some now, fd_revision = fd_revision prev + 1,
                     fr_normalized = normalized_value val\<rparr>
          in bindE (insert_fact new s3) (\<lambda>s4.
               Inr (s4\<lparr>mb_obs := mb_obs s4 @ [\<lparr>fo_owner = i, fo_type = ''manual'', fo_ref = ref,
                        fo_label = Some ''Manual profile edit''\<rparr>]\<rparr>, Some new)))"

section \<open>Glossary reconciler\<close>

definition GLOSSARY_CONFIRMATION_SUPPORT :: int where "GLOSSARY_CONFIRMATION_SUPPORT = 3"

definition term_owner :: "FactDTO \<Rightarrow> uuid option \<Rightarrow> uuid option \<Rightarrow> (GlossaryScope \<times> uuid option) option" where
  "term_owner c user tenant =
     (if fd_kind c = ''glossary'' \<and> fm_glossary_scope (fd_meta c) = ''global'' then Some (GlobalTerm, None)
      else if fd_scope c = UserScope \<and> user \<noteq> None then Some (UserTerm, user)
      else if fd_scope c = TenantScope \<and> tenant \<noteq> None then Some (TenantTerm, tenant)
      else None)"

fun unique_aliases :: "string list \<Rightarrow> string set \<Rightarrow> string list" where
  "unique_aliases [] seen = []"
| "unique_aliases (raw # raws) seen =
     (let v = alias_of 255 raw in
      if v \<noteq> [] \<and> lower v \<notin> seen then v # unique_aliases raws (insert (lower v) seen) else unique_aliases raws seen)"

definition term_aliases :: "string list \<Rightarrow> string \<Rightarrow> string list" where
  "term_aliases raws canonical = unique_aliases raws {squeeze (lower (strip canonical))}"

definition find_term :: "GlossaryScope \<Rightarrow> uuid option \<Rightarrow> string \<Rightarrow> memory \<Rightarrow> glossary_row option" where
  "find_term scope owner canonical s =
     find (\<lambda>g. gl_scope g = scope \<and> gl_term g = canonical \<and> gl_active g
        \<and> (case scope of UserTerm \<Rightarrow> gl_user g = owner | TenantTerm \<Rightarrow> gl_tenant g = owner
             | _ \<Rightarrow> gl_user g = None \<and> gl_tenant g = None)) (mb_terms s)"

text \<open>The stable source of a piece of evidence: its support reference when it has one.\<close>

definition term_evidence :: "evidence_item \<Rightarrow> evidence_item" where
  "term_evidence e =
     e\<lparr>ei_type := strip (ei_type e),
       ei_ref := strip (if opt_truthy (ei_support_ref e) then the (ei_support_ref e) else ei_ref e),
       ei_label := (case ei_label e of None \<Rightarrow> None
                    | Some l \<Rightarrow> if alias_of 255 l = [] then None else Some (alias_of 255 l))\<rparr>"

definition update_term :: "glossary_row \<Rightarrow> memory \<Rightarrow> memory" where
  "update_term g s = s\<lparr>mb_terms := map (\<lambda>x. if gl_id x = gl_id g then g else x) (mb_terms s)\<rparr>"

text \<open>The stored term for a candidate: a new row, or the existing one with its aliases extended.\<close>

definition term_for :: "FactDTO \<Rightarrow> GlossaryScope \<Rightarrow> uuid option \<Rightarrow> memory \<Rightarrow> memory \<times> glossary_row" where
  "term_for c scope owner s =
     (let aliases = term_aliases (fm_aliases (fd_meta c)) (fd_subject c) in
      case find_term scope owner (fd_subject c) s of
        None \<Rightarrow>
          let (i, s1) = fresh_id s;
              g = \<lparr>gl_id = i, gl_scope = scope, gl_user = (if scope = UserTerm then owner else None),
                   gl_tenant = (if scope = TenantTerm then owner else None), gl_term = fd_subject c,
                   gl_aliases = aliases, gl_description = Some (fd_value c), gl_active = True,
                   gl_status = TermPending, gl_support = 0, gl_first = None, gl_last = None\<rparr>
          in (s1\<lparr>mb_terms := mb_terms s1 @ [g]\<rparr>, g)
      | Some g \<Rightarrow>
          let g1 = g\<lparr>gl_aliases := term_aliases (gl_aliases g @ aliases) (gl_term g)\<rparr>;
              g2 = (if gl_status g \<noteq> TermConfirmed then g1\<lparr>gl_description := Some (fd_value c)\<rparr> else g1)
          in (update_term g2 s, g2))"

definition reinforce_term :: "int \<Rightarrow> int \<Rightarrow> glossary_row \<Rightarrow> glossary_row" where
  "reinforce_term added now g =
     (let g1 = g\<lparr>gl_support := gl_support g + added\<rparr>;
          g2 = (if gl_status g1 \<noteq> TermConfirmed \<and> gl_support g1 \<ge> GLOSSARY_CONFIRMATION_SUPPORT
                then g1\<lparr>gl_status := TermConfirmed, gl_first := Some (case gl_first g1 of None \<Rightarrow> now | Some t \<Rightarrow> t)\<rparr>
                else g1)
      in if gl_status g2 = TermConfirmed then g2\<lparr>gl_last := Some now\<rparr> else g2)"

definition glossary_one :: "uuid option \<Rightarrow> uuid option \<Rightarrow> int \<Rightarrow> FactDTO \<Rightarrow> memory \<times> nat \<Rightarrow> memory \<times> nat" where
  "glossary_one user tenant now c st =
     (let (s, changed) = st in
      if fd_kind c \<noteq> ''glossary'' then st
      else case term_owner c user tenant of
             None \<Rightarrow> st
           | Some (scope, owner) \<Rightarrow>
               if str_or (fm_action (fd_meta c)) ''add'' \<in> {''discard'', ''mark_conflict''} then st
               else
                 let (s1, g) = term_for c scope owner s;
                     (obs, added) = add_observations (gl_id g) (map term_evidence (fm_evidence (fd_meta c))) (mb_term_obs s1);
                     s2 = s1\<lparr>mb_term_obs := obs\<rparr>
                 in if added = 0 then (s2, changed)
                    else (update_term (reinforce_term added now g) s2, changed + 1))"

definition glossary_apply :: "FactDTO list \<Rightarrow> uuid option \<Rightarrow> uuid option \<Rightarrow> int \<Rightarrow> memory \<Rightarrow> memory \<times> nat" where
  "glossary_apply cands user tenant now s = fold (glossary_one user tenant now) cands (s, 0)"

definition glossary_dto :: "uuid option \<Rightarrow> int \<Rightarrow> glossary_row \<Rightarrow> FactDTO" where
  "glossary_dto tenant now g =
     \<lparr>fd_scope = (case gl_scope g of UserTerm \<Rightarrow> UserScope | ProjectTerm \<Rightarrow> ProjectScope | _ \<Rightarrow> TenantScope), fd_subject = gl_term g,
      fd_value = (case gl_description g of None \<Rightarrow> gl_term g | Some d \<Rightarrow> str_or d (gl_term g)), fd_source = SrcSystem,
      fd_tenant = tenant, fd_project = None,
      fd_owner_type = Some (case gl_scope g of GlobalTerm \<Rightarrow> ''global'' | UserTerm \<Rightarrow> ''user'' | TenantTerm \<Rightarrow> ''tenant'' | ProjectTerm \<Rightarrow> ''project''),
      fd_owner = (if gl_scope g = UserTerm then gl_user g else gl_tenant g), fd_kind = ''glossary'',
      fd_meta = empty_meta\<lparr>fm_aliases := gl_aliases g, fm_glossary_scope :=
         (case gl_scope g of GlobalTerm \<Rightarrow> ''global'' | UserTerm \<Rightarrow> ''user'' | TenantTerm \<Rightarrow> ''tenant'' | ProjectTerm \<Rightarrow> ''project'')\<rparr>,
      fd_confidence = 1, fd_source_ref = None, fd_observed = now, fd_id = gl_id g, fd_superseded = None,
      fd_visible = True, fd_status = FactPending, fd_support = 0, fd_first = None, fd_last = None, fd_revision = 1\<rparr>"

definition glossary_current :: "uuid option \<Rightarrow> uuid option \<Rightarrow> int \<Rightarrow> memory \<Rightarrow> FactDTO list" where
  "glossary_current user tenant now s =
     map (glossary_dto tenant now) (filter (\<lambda>g. gl_active g \<and> gl_status g = TermConfirmed
        \<and> (gl_scope g = GlobalTerm \<or> (user \<noteq> None \<and> gl_scope g = UserTerm \<and> gl_user g = user)
           \<or> (tenant \<noteq> None \<and> gl_scope g = TenantTerm \<and> gl_tenant g = tenant))) (mb_terms s))"

section \<open>Compactor\<close>

datatype CompactAction = ActAdd | ActRewrite | ActMerge | ActSupersede | ActMarkConflict | ActDiscard

definition action_value :: "CompactAction \<Rightarrow> string" where
  "action_value a = (case a of ActAdd \<Rightarrow> ''add'' | ActRewrite \<Rightarrow> ''rewrite'' | ActMerge \<Rightarrow> ''merge''
      | ActSupersede \<Rightarrow> ''supersede'' | ActMarkConflict \<Rightarrow> ''mark_conflict'' | ActDiscard \<Rightarrow> ''discard'')"

record CompactedFact =
  cf_subject :: string
  cf_value :: string
  cf_sources :: "int list"
  cf_action :: CompactAction
  cf_targets :: "int list"

text \<open>An exact user or tenant match needs no interpretation.\<close>

definition exact_match :: "FactDTO list \<Rightarrow> FactDTO \<Rightarrow> bool" where
  "exact_match current c \<longleftrightarrow>
     fd_scope c \<in> {UserScope, TenantScope}
     \<and> (\<exists>x\<in>set current. fd_scope x = fd_scope c \<and> fd_kind x = fd_kind c \<and> fd_subject x = fd_subject c
          \<and> squeeze (lower (fd_value x)) = squeeze (lower (fd_value c)))"

definition valid_indexes :: "nat \<Rightarrow> int list \<Rightarrow> nat list" where
  "valid_indexes n is = map nat (filter (\<lambda>i. 0 \<le> i \<and> i < int n) is)"

text \<open>The evidence of the merged candidates, one entry per source.\<close>

fun merge_evidence :: "evidence_item list \<Rightarrow> (string \<times> string) set \<Rightarrow> evidence_item list" where
  "merge_evidence [] seen = []"
| "merge_evidence (e # es) seen =
     (if ei_type e = [] \<or> ei_ref e = [] \<or> (ei_type e, ei_ref e) \<in> seen then merge_evidence es seen
      else e # merge_evidence es (insert (ei_type e, ei_ref e) seen))"

fun merge_aliases :: "string list \<Rightarrow> string set \<Rightarrow> string list" where
  "merge_aliases [] seen = []"
| "merge_aliases (raw # raws) seen =
     (let a = alias_of 120 raw in
      if a \<noteq> [] \<and> lower a \<notin> seen then a # merge_aliases raws (insert (lower a) seen) else merge_aliases raws seen)"

definition merged_fact :: "FactDTO list \<Rightarrow> FactDTO list \<Rightarrow> CompactedFact \<Rightarrow> uuid \<Rightarrow> int \<Rightarrow> FactDTO" where
  "merged_fact matches current out i now =
     (let base = hd matches in
      \<lparr>fd_scope = fd_scope base, fd_subject = str_or (take 200 (lower (strip (cf_subject out)))) (fd_subject base),
       fd_value = str_or (take 500 (strip (cf_value out))) (fd_value base), fd_source = fd_source base,
       fd_tenant = fd_tenant base, fd_project = fd_project base, fd_owner_type = fd_owner_type base,
       fd_owner = fd_owner base, fd_kind = fd_kind base,
       fd_meta = (fd_meta base)\<lparr>
         fm_evidence := merge_evidence (concat (map (\<lambda>m. fm_evidence (fd_meta m)) matches)) {},
         fm_action := action_value (cf_action out),
         fm_targets := map (\<lambda>k. Some (fd_id (current ! k))) (valid_indexes (length current) (cf_targets out)),
         fm_project_aliases := merge_aliases (concat (map (\<lambda>m. fm_project_aliases (fd_meta m)) matches)) {},
         fm_aliases := merge_aliases (concat (map (\<lambda>m. fm_aliases (fd_meta m)) matches)) {}\<rparr>,
       fd_confidence = Max (fd_confidence ` set matches), fd_source_ref = None, fd_observed = now, fd_id = i,
       fd_superseded = None, fd_visible = True, fd_status = FactPending, fd_support = 0, fd_first = None,
       fd_last = None, fd_revision = 1\<rparr>)"

fun compact_outputs ::
    "FactDTO list \<Rightarrow> FactDTO list \<Rightarrow> CompactedFact list \<Rightarrow> int \<Rightarrow> memory \<Rightarrow> FactDTO list \<times> nat set \<times> memory" where
  "compact_outputs semantic current [] now s = ([], {}, s)"
| "compact_outputs semantic current (out # outs) now s =
     (let idx = valid_indexes (length semantic) (cf_sources out); matches = map (\<lambda>k. semantic ! k) idx in
      if matches = [] then compact_outputs semantic current outs now s
      else if cf_action out = ActDiscard
      then (let (ds, seen, s') = compact_outputs semantic current outs now s in (ds, set idx \<union> seen, s'))
      else
        let (i, s1) = fresh_id s;
            (ds, seen, s2) = compact_outputs semantic current outs now s1
        in (merged_fact matches current out i now # ds, set idx \<union> seen, s2))"

definition compact ::
    "(FactDTO list \<Rightarrow> FactDTO list \<Rightarrow> CompactedFact list option) \<Rightarrow> FactDTO list \<Rightarrow> FactDTO list \<Rightarrow> int \<Rightarrow> memory
     \<Rightarrow> FactDTO list \<times> memory" where
  "compact llm cands current now s =
     (let exact = filter (exact_match current) cands;
          semantic = filter (\<lambda>c. \<not> exact_match current c) cands
      in if cands = [] then ([], s)
         else if semantic = [] then (exact, s)
         else case llm semantic current of
                None \<Rightarrow> (exact @ semantic, s)
              | Some outs \<Rightarrow>
                  let (compacted, seen, s') = compact_outputs semantic current outs now s;
                      untouched = map (\<lambda>k. semantic ! k) (filter (\<lambda>k. k \<notin> seen) [0..<length semantic])
                  in (exact @ compacted @ untouched, s'))"

section \<open>The write path of a turn\<close>

record project_candidate =
  pc_key :: string
  pc_subject :: string
  pc_value :: string
  pc_calls :: "string list"
  pc_aliases :: "string list"

text \<open>Project facts marked by the runtime, each with the evidence of the calls it names.\<close>

fun project_candidate_facts ::
    "(string, evidence_item) dict \<Rightarrow> uuid option \<Rightarrow> int \<Rightarrow> project_candidate list \<Rightarrow> memory \<Rightarrow> FactDTO list \<times> memory" where
  "project_candidate_facts evidence tenant now [] s = ([], s)"
| "project_candidate_facts evidence tenant now (p # ps) s =
     (let ev = List.map_filter (map_of evidence) (pc_calls p) in
      if ev = [] then project_candidate_facts evidence tenant now ps s
      else
        let (i, s1) = fresh_id s;
            (ds, s2) = project_candidate_facts evidence tenant now ps s1
        in (\<lparr>fd_scope = ProjectScope, fd_subject = pc_subject p, fd_value = pc_value p, fd_source = SrcToolResult,
             fd_tenant = tenant, fd_project = None, fd_owner_type = None, fd_owner = None, fd_kind = ''fact'',
             fd_meta = empty_meta\<lparr>fm_project_key := pc_key p, fm_project_aliases := pc_aliases p,
                fm_marked := True, fm_evidence := ev\<rparr>,
             fd_confidence = 1, fd_source_ref = None, fd_observed = now, fd_id = i, fd_superseded = None,
             fd_visible = True, fd_status = FactPending, fd_support = 0, fd_first = None, fd_last = None,
             fd_revision = 1\<rparr> # ds, s2))"

text \<open>
  \<open>_compact_and_write_facts\<close> for a persisted chat: the extracted candidates and the marked project
  facts are compacted against what is stored, then reconciled.
\<close>

definition compact_and_write ::
    "(FactDTO list \<Rightarrow> FactDTO list \<Rightarrow> CompactedFact list option) \<Rightarrow> uuid option \<Rightarrow> uuid option
     \<Rightarrow> (string, evidence_item) dict \<Rightarrow> project_candidate list \<Rightarrow> FactDTO list \<Rightarrow> int \<Rightarrow> memory
     \<Rightarrow> memory_error + memory \<times> FactChange list \<times> nat" where
  "compact_and_write llm user tenant evidence project_cands cands now s =
     (let (projects, s0) = project_candidate_facts evidence tenant now project_cands s;
          all_cands = cands @ projects
      in if all_cands = [] then Inr (s0, [], 0)
         else
           let keys = map (\<lambda>c. fm_project_key (fd_meta c)) (filter (\<lambda>c. fd_scope c = ProjectScope) all_cands);
               s1 = ensure_projects all_cands s0;
               (facts, s2) = current_for user tenant keys now s1;
               current = facts @ glossary_current user tenant now s2;
               (compacted, s3) = compact llm all_cands current now s2
           in bindE (apply_with_changes (filter (\<lambda>c. fd_kind c \<noteq> ''glossary'') compacted) user tenant False now s3)
                (\<lambda>(s4, changes).
                   let (s5, terms) = glossary_apply (filter (\<lambda>c. fd_kind c = ''glossary'') compacted) user tenant now s4
                   in Inr (s5, changes, length changes + terms)))"

end
