(* ===== verification/Memory_Evidence.thy ===== *)
theory Memory_Evidence
  imports Memory_Reconcile
begin

text \<open>
  What learned knowledge rests on, as a locale: a base of items, each with a count and a set of sources.
  A step may add sources, must count them, and may confirm an item only when it is exempt or has
  enough of them. Facts and terms of the memory both fulfil the contract.
\<close>

section \<open>The contract\<close>

locale evidence_base =
  fixes wf :: "'s \<Rightarrow> bool"
    and support :: "'s \<Rightarrow> 'i \<Rightarrow> int option"
    and sources :: "'s \<Rightarrow> 'i \<Rightarrow> 'e set"
    and confirmed :: "'s \<Rightarrow> 'i \<Rightarrow> bool"
    and exempt :: "'s \<Rightarrow> 'i \<Rightarrow> bool"
    and threshold :: int
    and learn :: "'s \<Rightarrow> 's \<Rightarrow> bool"
  assumes learn_wf: "wf s \<Longrightarrow> learn s s' \<Longrightarrow> wf s'"
    and wf_finite: "wf s \<Longrightarrow> finite (sources s i)"
    and learn_sources: "wf s \<Longrightarrow> learn s s' \<Longrightarrow> sources s i \<subseteq> sources s' i"
    and learn_counts: "wf s \<Longrightarrow> learn s s' \<Longrightarrow> support s i = Some m \<Longrightarrow>
          support s' i = Some (m + (int (card (sources s' i)) - int (card (sources s i))))"
    and learn_new: "wf s \<Longrightarrow> learn s s' \<Longrightarrow> support s i = None \<Longrightarrow> support s' i = Some n \<Longrightarrow>
          n = int (card (sources s' i))"
    and learn_confirms: "wf s \<Longrightarrow> learn s s' \<Longrightarrow> confirmed s' i \<Longrightarrow>
          confirmed s i \<or> exempt s' i \<or> (\<exists>n. support s' i = Some n \<and> threshold \<le> n)"
    and learn_exempt: "wf s \<Longrightarrow> learn s s' \<Longrightarrow> exempt s i \<Longrightarrow> exempt s' i"
begin

definition counted :: "'s \<Rightarrow> bool" where
  "counted s \<longleftrightarrow> (\<forall>i n. support s i = Some n \<longrightarrow> n = int (card (sources s i)))"

definition earned :: "'s \<Rightarrow> bool" where
  "earned s \<longleftrightarrow> (\<forall>i. confirmed s i \<longrightarrow> exempt s i \<or> (\<exists>n. support s i = Some n \<and> threshold \<le> n))"

lemma run_wf: "learn\<^sup>*\<^sup>* s s' \<Longrightarrow> wf s \<Longrightarrow> wf s'"
  by (induction rule: rtranclp_induct) (auto intro: learn_wf)

lemma step_counted:
  assumes "wf s" "learn s s'" "counted s"
  shows "counted s'"
  unfolding counted_def
proof (intro allI impI)
  fix i n assume n: "support s' i = Some n"
  show "n = int (card (sources s' i))"
  proof (cases "support s i")
    case None
    then show ?thesis using learn_new [OF assms(1,2) None n] by simp
  next
    case (Some m)
    then show ?thesis using learn_counts [OF assms(1,2) Some] n assms(3) by (simp add: counted_def)
  qed
qed

lemma step_support_mono:
  assumes "wf s" "learn s s'" "support s i = Some m"
  shows "\<exists>n. support s' i = Some n \<and> m \<le> n"
  using learn_counts [OF assms] learn_sources [OF assms(1,2)] wf_finite [OF learn_wf [OF assms(1,2)]]
  by (simp add: card_mono)

lemma step_earned:
  assumes "wf s" "learn s s'" "earned s"
  shows "earned s'"
  unfolding earned_def
proof (intro allI impI)
  fix i assume "confirmed s' i"
  then consider "confirmed s i" | "exempt s' i \<or> (\<exists>n. support s' i = Some n \<and> threshold \<le> n)"
    using learn_confirms [OF assms(1,2)] by blast
  then show "exempt s' i \<or> (\<exists>n. support s' i = Some n \<and> threshold \<le> n)"
  proof cases
    case 1
    with assms(3) have "exempt s i \<or> (\<exists>n. support s i = Some n \<and> threshold \<le> n)"
      unfolding earned_def by blast
    then show ?thesis
      using learn_exempt [OF assms(1,2)] step_support_mono [OF assms(1,2)] by (meson order_trans)
  qed simp
qed

lemma run_rests_on_evidence:
  assumes "learn\<^sup>*\<^sup>* s s'" "wf s" "counted s" "earned s"
  shows "counted s' \<and> earned s'"
  using assms
proof (induction rule: rtranclp_induct)
  case (step y z)
  then show ?case using step_counted step_earned run_wf by metis
qed simp

end

section \<open>The memory as a base of facts and of terms\<close>

definition fact_at :: "memory \<Rightarrow> uuid \<Rightarrow> fact_row option" where
  "fact_at s = map_of (map (\<lambda>r. (fd_id r, r)) (mb_facts s))"

definition term_at :: "memory \<Rightarrow> uuid \<Rightarrow> glossary_row option" where
  "term_at s = map_of (map (\<lambda>g. (gl_id g, g)) (mb_terms s))"

definition memory_wf :: "memory \<Rightarrow> bool" where
  "memory_wf s \<longleftrightarrow>
     distinct (map fd_id (mb_facts s)) \<and> distinct (map gl_id (mb_terms s))
     \<and> fd_id ` set (mb_facts s) \<inter> gl_id ` set (mb_terms s) = {}
     \<and> (\<forall>r\<in>set (mb_facts s). fd_id r < mb_next s) \<and> (\<forall>g\<in>set (mb_terms s). gl_id g < mb_next s)
     \<and> fo_owner ` set (mb_obs s) \<subseteq> fd_id ` set (mb_facts s)
     \<and> fo_owner ` set (mb_term_obs s) \<subseteq> gl_id ` set (mb_terms s)"

text \<open>A fact without the link to its replacement, which plays no part in its support.\<close>

definition core :: "fact_row \<Rightarrow> fact_row" where
  "core r = r\<lparr>fd_superseded := None\<rparr>"

definition core_at :: "memory \<Rightarrow> uuid \<Rightarrow> fact_row option" where
  "core_at s i = map_option core (fact_at s i)"

lemma core_simps [simp]:
  "fd_scope (core r) = fd_scope r" "fd_status (core r) = fd_status r" "fd_support (core r) = fd_support r"
  "fd_id (core r) = fd_id r" "core (r\<lparr>fd_superseded := x\<rparr>) = core r" "core (core r) = core r"
  by (simp_all add: core_def)

text \<open>Tables keyed by an identifier.\<close>

lemma map_of_snoc: "map_of xs k = None \<Longrightarrow> map_of (xs @ [(k, v)]) = (map_of xs)(k \<mapsto> v)"
  by (auto simp: map_add_def fun_eq_iff split: option.splits)

lemma map_of_keyed_map:
  assumes "\<And>x. key (f x) = key x"
  shows "map_of (map (\<lambda>x. (key x, x)) (map f xs)) i = map_option f (map_of (map (\<lambda>x. (key x, x)) xs) i)"
  using assms by (induction xs) auto

lemma map_of_keyed_None: "map_of (map (\<lambda>x. (key x, x)) xs) i = None \<longleftrightarrow> i \<notin> key ` set xs"
  by (auto simp: map_of_eq_None_iff image_image)

lemma map_of_keyed_Some: "map_of (map (\<lambda>x. (key x, x)) xs) i = Some x \<Longrightarrow> x \<in> set xs \<and> key x = i"
  by (auto dest: map_of_SomeD)

lemma fact_at_update:
  assumes "\<And>r. fd_id (f r) = fd_id r"
  shows "fact_at (update_facts p f s) i = map_option (\<lambda>r. if p r then f r else r) (fact_at s i)"
proof -
  have "fd_id (if p r then f r else r) = fd_id r" for r using assms by simp
  from map_of_keyed_map [of fd_id, OF this] show ?thesis by (simp add: fact_at_def update_facts_def)
qed

lemma fact_at_Some: "fact_at s i = Some r \<Longrightarrow> r \<in> set (mb_facts s) \<and> fd_id r = i"
  unfolding fact_at_def by (auto dest: map_of_SomeD)

lemma fact_at_iff: "memory_wf s \<Longrightarrow> fact_at s i = Some r \<longleftrightarrow> r \<in> set (mb_facts s) \<and> fd_id r = i"
  unfolding fact_at_def by (subst map_of_eq_Some_iff) (auto simp: memory_wf_def comp_def)

lemma term_at_iff: "memory_wf s \<Longrightarrow> term_at s i = Some g \<longleftrightarrow> g \<in> set (mb_terms s) \<and> gl_id g = i"
  unfolding term_at_def by (subst map_of_eq_Some_iff) (auto simp: memory_wf_def comp_def)

lemma fact_at_None: "fact_at s i = None \<longleftrightarrow> i \<notin> fd_id ` set (mb_facts s)"
  unfolding fact_at_def by (rule map_of_keyed_None)

lemma term_at_None: "term_at s i = None \<longleftrightarrow> i \<notin> gl_id ` set (mb_terms s)"
  unfolding term_at_def by (rule map_of_keyed_None)

lemma fact_at_append:
  "fd_id r \<notin> fd_id ` set (mb_facts s) \<Longrightarrow>
   fact_at (s\<lparr>mb_facts := mb_facts s @ [r]\<rparr>) = (fact_at s)(fd_id r \<mapsto> r)"
  using map_of_snoc [of "map (\<lambda>r. (fd_id r, r)) (mb_facts s)" "fd_id r" r]
  by (simp add: fact_at_def map_of_keyed_None)

lemma term_at_append:
  "gl_id g \<notin> gl_id ` set (mb_terms s) \<Longrightarrow>
   term_at (s\<lparr>mb_terms := mb_terms s @ [g]\<rparr>) = (term_at s)(gl_id g \<mapsto> g)"
  using map_of_snoc [of "map (\<lambda>g. (gl_id g, g)) (mb_terms s)" "gl_id g" g]
  by (simp add: term_at_def map_of_keyed_None)

lemma term_at_update:
  "term_at (update_term g s) i = (if i = gl_id g \<and> term_at s i \<noteq> None then Some g else term_at s i)"
proof -
  have "gl_id (if gl_id x = gl_id g then g else x) = gl_id x" for x by simp
  from map_of_keyed_map [of gl_id, OF this] show ?thesis
    by (cases "term_at s i") (auto simp: term_at_def update_term_def dest: map_of_keyed_Some)
qed

text \<open>Only the facts and observations, or only the terms, matter to their own view.\<close>

lemma fact_at_cong: "mb_facts s' = mb_facts s \<Longrightarrow> fact_at s' = fact_at s"
  by (simp add: fact_at_def)

lemma term_at_cong: "mb_terms s' = mb_terms s \<Longrightarrow> term_at s' = term_at s"
  by (simp add: term_at_def)

lemma update_facts_other [simp]:
  "mb_obs (update_facts p f s) = mb_obs s" "mb_terms (update_facts p f s) = mb_terms s"
  "mb_term_obs (update_facts p f s) = mb_term_obs s" "mb_next (update_facts p f s) = mb_next s"
  "mb_projects (update_facts p f s) = mb_projects s"
  by (simp_all add: update_facts_def)

lemma update_facts_ids:
  "(\<And>r. r \<in> set (mb_facts s) \<Longrightarrow> p r \<Longrightarrow> fd_id (f r) = fd_id r) \<Longrightarrow> map fd_id (mb_facts (update_facts p f s)) = map fd_id (mb_facts s)"
  by (auto simp: update_facts_def)

lemma memory_wf_ids:
  assumes "memory_wf s" and "map fd_id (mb_facts s') = map fd_id (mb_facts s)" and "map gl_id (mb_terms s') = map gl_id (mb_terms s)"
    and "mb_next s \<le> mb_next s'" and "fo_owner ` set (mb_obs s') \<subseteq> fd_id ` set (mb_facts s)"
    and "fo_owner ` set (mb_term_obs s') \<subseteq> gl_id ` set (mb_terms s)"
  shows "memory_wf s'"
proof -
  have f: "fd_id ` set (mb_facts s') = fd_id ` set (mb_facts s)" and t: "gl_id ` set (mb_terms s') = gl_id ` set (mb_terms s)"
    using assms(2,3) by (metis list.set_map)+
  have "fd_id ` set (mb_facts s) \<subseteq> {..<mb_next s'}" "gl_id ` set (mb_terms s) \<subseteq> {..<mb_next s'}"
    using assms(1,4) by (auto simp: memory_wf_def intro: less_le_trans)
  then have "\<forall>r\<in>set (mb_facts s'). fd_id r < mb_next s'" "\<forall>g\<in>set (mb_terms s'). gl_id g < mb_next s'"
    unfolding f [symmetric] t [symmetric] by auto
  then show ?thesis
    using assms(1,2,3,5,6) unfolding memory_wf_def f t by simp
qed

section \<open>Observations\<close>

definition evidence_keys :: "evidence_item list \<Rightarrow> (string \<times> string) set" where
  "evidence_keys es = (\<lambda>e. (ei_type e, ei_ref e)) ` {e \<in> set es. ei_type e \<noteq> [] \<and> ei_ref e \<noteq> []}"

lemma observed_append:
  "observed (obs @ [o']) i = (if fo_owner o' = i then insert (fo_type o', fo_ref o') (observed obs i) else observed obs i)"
  by (auto simp: observed_def)

lemma finite_observed [simp]: "finite (observed obs i)"
  by (simp add: observed_def)

lemma evidence_keys_simps [simp]:
  "evidence_keys [] = {}"
  "evidence_keys (e # es) = (if ei_type e \<noteq> [] \<and> ei_ref e \<noteq> [] then insert (ei_type e, ei_ref e) (evidence_keys es) else evidence_keys es)"
  by (auto simp: evidence_keys_def)

lemma add_observations_effect:
  assumes "add_observations i es obs = (obs', n)"
  shows "observed obs' j = (if j = i then observed obs i \<union> evidence_keys es else observed obs j)
    \<and> n = int (card (observed obs' i)) - int (card (observed obs i)) \<and> 0 \<le> n
    \<and> fo_owner ` set obs' \<subseteq> insert i (fo_owner ` set obs)"
  using assms
proof (induction es arbitrary: obs obs' n)
  case (Cons e es)
  show ?case
  proof (cases "ei_type e = [] \<or> ei_ref e = [] \<or> (ei_type e, ei_ref e) \<in> observed obs i")
    case True
    then have "add_observations i es obs = (obs', n)" using Cons.prems by simp
    from Cons.IH [OF this] show ?thesis using True by auto
  next
    case False
    let ?o = "\<lparr>fo_owner = i, fo_type = ei_type e, fo_ref = ei_ref e, fo_label = ei_label e\<rparr>"
    obtain m where m: "add_observations i es (obs @ [?o]) = (obs', m)" and n: "n = m + 1"
      using Cons.prems False by (auto split: prod.splits)
    from Cons.IH [OF m] show ?thesis using False n by (auto simp: observed_append)
  qed
qed (simp add: subset_insertI)

lemma add_observations_none:
  "evidence_keys es \<subseteq> observed obs i \<Longrightarrow> add_observations i es obs = (obs, 0)"
  by (induction es) (auto split: if_splits)

lemma add_observations_same:
  assumes "add_observations i es obs = (obs', 0)"
  shows "obs' = obs"
  using assms
proof (induction es)
  case (Cons e es)
  then show ?case
    using add_observations_effect [of i es] by (fastforce split: if_splits prod.splits)
qed simp

end
