(* ===== verification/Memory_Learning.thy ===== *)
theory Memory_Learning
  imports Memory_Evidence
begin

text \<open>
  The steps by which the memory learns, what each does to the facts, the terms and their observations,
  and the two interpretations of the contract \<open>evidence_base\<close>.
\<close>

section \<open>Growth\<close>

text \<open>
  What a step may do to the facts: sources are added and counted, scopes stay, and a tenant fact is
  confirmed with three sources only. The same for terms.
\<close>

definition may_be_confirmed :: "fact_row \<Rightarrow> bool" where
  "may_be_confirmed r \<longleftrightarrow> fd_status r = FactConfirmed \<longrightarrow> fd_scope r \<noteq> TenantScope \<or> 3 \<le> fd_support r"

definition fact_grows :: "(string \<times> string) set \<Rightarrow> (string \<times> string) set \<Rightarrow> fact_row option \<Rightarrow> fact_row option \<Rightarrow> bool" where
  "fact_grows old new before after \<longleftrightarrow>
     old \<subseteq> new \<and>
     (case before of
        None \<Rightarrow> (case after of None \<Rightarrow> True | Some r' \<Rightarrow> fd_support r' = int (card new) \<and> may_be_confirmed r')
      | Some r \<Rightarrow> (case after of None \<Rightarrow> False
          | Some r' \<Rightarrow> fd_scope r' = fd_scope r \<and> fd_support r' = fd_support r + (int (card new) - int (card old))
              \<and> (fd_status r = FactConfirmed \<or> may_be_confirmed r')))"

definition facts_grow :: "memory \<Rightarrow> memory \<Rightarrow> bool" where
  "facts_grow s s' \<longleftrightarrow>
     (\<forall>i. fact_grows (observed (mb_obs s) i) (observed (mb_obs s') i) (fact_at s i) (fact_at s' i))"

definition term_grows :: "(string \<times> string) set \<Rightarrow> (string \<times> string) set \<Rightarrow> glossary_row option \<Rightarrow> glossary_row option \<Rightarrow> bool" where
  "term_grows old new before after \<longleftrightarrow>
     old \<subseteq> new \<and>
     (case before of
        None \<Rightarrow> (case after of None \<Rightarrow> True
          | Some g' \<Rightarrow> gl_support g' = int (card new) \<and> (gl_status g' = TermConfirmed \<longrightarrow> 3 \<le> gl_support g'))
      | Some g \<Rightarrow> (case after of None \<Rightarrow> False
          | Some g' \<Rightarrow> gl_support g' = gl_support g + (int (card new) - int (card old))
              \<and> (gl_status g' = TermConfirmed \<longrightarrow> gl_status g = TermConfirmed \<or> 3 \<le> gl_support g')))"

definition terms_grow :: "memory \<Rightarrow> memory \<Rightarrow> bool" where
  "terms_grow s s' \<longleftrightarrow>
     (\<forall>i. term_grows (observed (mb_term_obs s) i) (observed (mb_term_obs s') i) (term_at s i) (term_at s' i))"

lemma terms_grow_same: "mb_terms s' = mb_terms s \<Longrightarrow> mb_term_obs s' = mb_term_obs s \<Longrightarrow> terms_grow s s'"
  by (auto simp: terms_grow_def term_grows_def term_at_def split: option.splits)

lemma facts_grow_same: "mb_facts s' = mb_facts s \<Longrightarrow> mb_obs s' = mb_obs s \<Longrightarrow> facts_grow s s'"
  by (auto simp: facts_grow_def fact_grows_def fact_at_def may_be_confirmed_def split: option.splits)

text \<open>A fact whose scope, support and status are kept.\<close>

definition alike :: "fact_row option \<Rightarrow> fact_row option \<Rightarrow> bool" where
  "alike a b \<longleftrightarrow> map_option (\<lambda>r. (fd_scope r, fd_support r, fd_status r)) a = map_option (\<lambda>r. (fd_scope r, fd_support r, fd_status r)) b"

lemma alike_grows: "alike a b \<Longrightarrow> fact_grows x x a b"
  by (auto simp: alike_def fact_grows_def may_be_confirmed_def split: option.splits)

lemma facts_grow_point:
  assumes "\<And>j. j \<noteq> k \<Longrightarrow> observed (mb_obs s') j = observed (mb_obs s) j"
    and "\<And>j. j \<noteq> k \<Longrightarrow> alike (fact_at s j) (fact_at s' j)"
    and "fact_grows (observed (mb_obs s) k) (observed (mb_obs s') k) (fact_at s k) (fact_at s' k)"
  shows "facts_grow s s'"
  unfolding facts_grow_def
proof
  fix i show "fact_grows (observed (mb_obs s) i) (observed (mb_obs s') i) (fact_at s i) (fact_at s' i)"
    using assms(1) [of i] alike_grows [OF assms(2) [of i]] assms(3) by (cases "i = k") simp_all
qed

section \<open>Reconciling a fact\<close>

lemma insert_fact_Inr:
  "insert_fact r s = Inr s' \<Longrightarrow> s' = s\<lparr>mb_facts := mb_facts s @ [r]\<rparr> \<and> fd_id r \<notin> fd_id ` set (mb_facts s)"
  by (auto simp: insert_fact_def split: if_splits)

text \<open>Which facts a new fact replaces.\<close>

definition replaced :: "FactDTO \<Rightarrow> fact_row \<Rightarrow> fact_row \<Rightarrow> bool" where
  "replaced c r x \<longleftrightarrow> fm_action (fd_meta c) \<in> {''rewrite'', ''supersede''}
     \<and> Some (fd_id x) \<in> set (fm_targets (fd_meta c)) \<and> fd_id x \<noteq> fd_id r \<and> fd_superseded x = None \<and> fd_scope x = fd_scope r
     \<and> (if fd_project r \<noteq> None then fd_project x = fd_project r
        else fd_owner_type x = fd_owner_type r \<and> fd_owner x = fd_owner r)"

definition supersede_by :: "FactDTO \<Rightarrow> fact_row \<Rightarrow> fact_row \<Rightarrow> fact_row" where
  "supersede_by c r x = (if replaced c r x then x\<lparr>fd_superseded := Some (fd_id r)\<rparr> else x)"

lemma supersede_targets_eq:
  "(if fm_action (fd_meta c) \<in> {''rewrite'', ''supersede''} then supersede_targets r (fm_targets (fd_meta c)) s else s)
   = s\<lparr>mb_facts := map (supersede_by c r) (mb_facts s)\<rparr>"
proof -
  have m: "i \<in> set (List.map_filter id ts) \<longleftrightarrow> Some i \<in> set ts" for i :: uuid and ts
    by (induction ts) (auto simp: map_filter_simps split: option.splits)
  show ?thesis
  proof (cases "fm_action (fd_meta c) \<in> {''rewrite'', ''supersede''}")
    case True
    then have "supersede_by c r = (\<lambda>x. if (fd_id x \<in> set (List.map_filter id (fm_targets (fd_meta c))) - {fd_id r} \<and> fd_superseded x = None
        \<and> fd_scope x = fd_scope r \<and> (if fd_project r \<noteq> None then fd_project x = fd_project r
           else fd_owner_type x = fd_owner_type r \<and> fd_owner x = fd_owner r)) then x\<lparr>fd_superseded := Some (fd_id r)\<rparr> else x)"
      by (intro ext) (use True in \<open>simp only: supersede_by_def replaced_def m Diff_iff singleton_iff simp_thms conj_assoc\<close>)
    then have "supersede_targets r (fm_targets (fd_meta c)) s = s\<lparr>mb_facts := map (supersede_by c r) (mb_facts s)\<rparr>"
      unfolding supersede_targets_def update_facts_def Let_def by (simp only:)
    then show ?thesis using True by simp
  next
    case False
    then have "supersede_by c r = id" by (intro ext) (simp add: supersede_by_def replaced_def)
    then show ?thesis using False by simp
  qed
qed

text \<open>The stored fact for a candidate, as the list of facts.\<close>

lemma fact_for_cases:
  assumes "fact_for c tenant ot ow pr sb s = Inr (s1, r)"
  obtains (same) "find_same c ot ow pr s = Some r" and "s1 = s"
  | (new) "find_same c ot ow pr s = None" and "r = new_fact c tenant ot ow pr sb (mb_next s)"
      and "mb_next s \<notin> fd_id ` set (mb_facts s)"
      and "s1 = s\<lparr>mb_next := Suc (mb_next s), mb_facts := map (supersede_by c r) (mb_facts s) @ [r]\<rparr>"
proof (cases "find_same c ot ow pr s")
  case (Some r')
  with assms have "s1 = s" "r = r'" by (simp_all add: fact_for_def)
  with Some show ?thesis by (intro same) simp_all
next
  case None
  let ?r = "new_fact c tenant ot ow pr sb (mb_next s)"
  let ?s1 = "s\<lparr>mb_next := Suc (mb_next s)\<rparr>"
  obtain s2 where i: "insert_fact ?r ?s1 = Inr s2" and r: "r = ?r"
    and s1: "s1 = (if fm_action (fd_meta c) \<in> {''rewrite'', ''supersede''} then supersede_targets ?r (fm_targets (fd_meta c)) s2 else s2)"
    using assms None by (auto simp: fact_for_def fresh_id_def Let_def accept_simps)
  from insert_fact_Inr [OF i] have s2: "s2 = ?s1\<lparr>mb_facts := mb_facts s @ [?r]\<rparr>" and "fd_id ?r \<notin> fd_id ` set (mb_facts s)"
    by simp_all
  moreover have "fd_id ?r = mb_next s" by (simp add: new_fact_def)
  moreover have "supersede_by c ?r ?r = ?r" by (simp add: supersede_by_def replaced_def)
  ultimately have "mb_next s \<notin> fd_id ` set (mb_facts s)"
    "s1 = s\<lparr>mb_next := Suc (mb_next s), mb_facts := map (supersede_by c ?r) (mb_facts s) @ [?r]\<rparr>"
    using s1 unfolding supersede_targets_eq by simp_all
  then show ?thesis using None r by (intro new) simp_all
qed

lemma supersede_by_keeps [simp]:
  "fd_id (supersede_by c r x) = fd_id x" "core (supersede_by c r x) = core x"
  "fd_scope (supersede_by c r x) = fd_scope x" "fd_support (supersede_by c r x) = fd_support x"
  "fd_status (supersede_by c r x) = fd_status x"
  by (simp_all add: supersede_by_def)

lemma find_same_at:
  assumes "memory_wf s" "find_same c ot ow pr s = Some r"
  shows "fact_at s (fd_id r) = Some r"
  using assms(2) unfolding find_same_def fact_at_iff [OF assms(1)] by (auto dest: find_SomeD)

text \<open>The rest of the step: observations, support, status.\<close>

lemma reconcile_one_cases:
  assumes "reconcile_one user tenant sb now c s = Inr (s', ch)" and "owner_for c user tenant s = (ot, ow, pr)"
  obtains (ownerless) "ow = None" "pr = None" "s' = s" "ch = []"
  | (known) s1 r obs where "fact_for c tenant ot ow pr sb s = Inr (s1, r)"
      "add_observations (fd_id r) (fm_evidence (fd_meta c)) (mb_obs s1) = (obs, 0)" "s' = s1\<lparr>mb_obs := obs\<rparr>" "ch = []"
  | (reinforced) s1 r obs n r' where "fact_for c tenant ot ow pr sb s = Inr (s1, r)"
      "add_observations (fd_id r) (fm_evidence (fd_meta c)) (mb_obs s1) = (obs, n)" "n \<noteq> 0"
      "r' = reinforce (str_or (fm_action (fd_meta c)) ''add'') sb (fm_marked (fd_meta c)) n now r"
      "mb_facts s' = map (\<lambda>x. if fd_id x = fd_id r then r' else x) (mb_facts s1)"
      "mb_obs s' = obs" "mb_terms s' = mb_terms s1" "mb_term_obs s' = mb_term_obs s1" "mb_next s' = mb_next s1"
      "\<exists>f. mb_projects s' = map f (mb_projects s1) \<and> (\<forall>p. pj_id (f p) = pj_id p \<and> pj_key (f p) = pj_key p \<and> pj_active (f p) = pj_active p)"
proof (cases "ow = None \<and> pr = None")
  case True
  then have "s' = s" "ch = []" using assms by (simp_all add: reconcile_one_def)
  with True show ?thesis by (intro ownerless) simp_all
next
  case False
  obtain s1 r where f: "fact_for c tenant ot ow pr sb s = Inr (s1, r)"
    using assms False by (auto simp: reconcile_one_def Let_def accept_simps)
  obtain obs n where o: "add_observations (fd_id r) (fm_evidence (fd_meta c)) (mb_obs s1) = (obs, n)" by fastforce
  note e = assms(1) [unfolded reconcile_one_def assms(2) Let_def]
  show ?thesis
  proof (cases "n = 0")
    case True
    have "s' = s1\<lparr>mb_obs := obs\<rparr>" "ch = []" using e False True by (auto simp: f o)
    then show ?thesis using f o True by (intro known) simp_all
  next
    case n: False
    let ?r' = "reinforce (str_or (fm_action (fd_meta c)) ''add'') sb (fm_marked (fd_meta c)) n now r"
    let ?s3 = "update_facts (\<lambda>x. fd_id x = fd_id r) (\<lambda>_. ?r') (s1\<lparr>mb_obs := obs\<rparr>)"
    have s': "s' = (if fd_scope ?r' = ProjectScope \<and> fd_status ?r' = FactConfirmed
                    then apply_project_aliases ?r' (fm_project_aliases (fd_meta c)) ?s3 else ?s3)"
      using e False n by (auto simp: f o)
    have "\<exists>f. mb_projects s' = map f (mb_projects s1) \<and> (\<forall>p. pj_id (f p) = pj_id p \<and> pj_key (f p) = pj_key p \<and> pj_active (f p) = pj_active p)"
    proof (cases "fd_scope ?r' = ProjectScope \<and> fd_status ?r' = FactConfirmed")
      case True
      let ?f = "\<lambda>p. if Some (pj_id p) = fd_project ?r'
          then p\<lparr>pj_aliases := extend_aliases (pj_name p) (fm_project_aliases (fd_meta c)) (pj_aliases p)\<rparr> else p"
      have "mb_projects s' = map ?f (mb_projects s1)" using True unfolding s' by (simp add: apply_project_aliases_def)
      then show ?thesis by (intro exI [of _ ?f]) simp
    next
      case False
      then show ?thesis unfolding s' by (intro exI [of _ id]) auto
    qed
    then show ?thesis
      using reinforced [OF f o n refl] unfolding s' by (simp add: apply_project_aliases_def update_facts_def)
  qed
qed

lemma reinforce_keeps [simp]:
  "fd_id (reinforce a sb m n now r) = fd_id r" "fd_scope (reinforce a sb m n now r) = fd_scope r"
  "fd_support (reinforce a sb m n now r) = fd_support r + n" "fd_superseded (reinforce a sb m n now r) = fd_superseded r"
  "fd_subject (reinforce a sb m n now r) = fd_subject r" "fr_normalized (reinforce a sb m n now r) = fr_normalized r"
  "fd_project (reinforce a sb m n now r) = fd_project r" "fd_owner_type (reinforce a sb m n now r) = fd_owner_type r"
  "fd_owner (reinforce a sb m n now r) = fd_owner r"
  by (simp_all add: reinforce_def confirm_def Let_def)

lemma reinforce_confirms:
  "fd_status (reinforce a False m n now r) = FactConfirmed \<Longrightarrow>
   fd_status r = FactConfirmed \<or> fd_scope r = UserScope \<or> m \<or> 3 \<le> fd_support r + n"
  by (auto simp: reinforce_def confirm_def Let_def split: if_splits)

lemma unobserved: "memory_wf s \<Longrightarrow> i \<notin> fd_id ` set (mb_facts s) \<Longrightarrow> observed (mb_obs s) i = {}"
  by (auto simp: memory_wf_def observed_def)

lemma fact_for_view:
  assumes wf: "memory_wf s" and f: "fact_for c tenant ot ow pr sb s = Inr (s1, r)"
  shows "memory_wf s1 \<and> mb_obs s1 = mb_obs s \<and> mb_terms s1 = mb_terms s \<and> mb_term_obs s1 = mb_term_obs s
    \<and> mb_next s \<le> mb_next s1 \<and> fact_at s1 (fd_id r) = Some r \<and> fd_scope r = fd_scope c
    \<and> (\<forall>j. j \<noteq> fd_id r \<longrightarrow> alike (fact_at s j) (fact_at s1 j))
    \<and> (fact_at s (fd_id r) = Some r
       \<or> fact_at s (fd_id r) = None \<and> observed (mb_obs s) (fd_id r) = {} \<and> fd_support r = 0
         \<and> (fd_status r = FactConfirmed \<longrightarrow> sb \<or> fd_scope r = UserScope))"
  using f
proof (cases rule: fact_for_cases)
  case same
  have "fd_scope r = fd_scope c" using same(1) unfolding find_same_def by (auto dest: find_SomeD)
  then show ?thesis using wf find_same_at [OF wf same(1)] same(2) by (simp add: alike_def)
next
  case new
  have id: "fd_id r = mb_next s" using new(2) by (simp add: new_fact_def)
  have ids: "fd_id ` set (mb_facts s1) = insert (mb_next s) (fd_id ` set (mb_facts s))"
    using new(4) id by (auto simp: image_image)
  have d: "distinct (map fd_id (mb_facts s1))"
    using wf new(3,4) id by (simp add: memory_wf_def comp_def image_image)
  have t: "mb_next s \<notin> gl_id ` set (mb_terms s)" using wf by (auto simp: memory_wf_def)
  have wf1: "memory_wf s1"
    unfolding memory_wf_def
  proof (intro conjI)
    show "distinct (map gl_id (mb_terms s1))" "fd_id ` set (mb_facts s1) \<inter> gl_id ` set (mb_terms s1) = {}"
      "fo_owner ` set (mb_obs s1) \<subseteq> fd_id ` set (mb_facts s1)" "fo_owner ` set (mb_term_obs s1) \<subseteq> gl_id ` set (mb_terms s1)"
      using wf ids t new(4) by (auto simp: memory_wf_def)
    show "\<forall>r\<in>set (mb_facts s1). fd_id r < mb_next s1" "\<forall>g\<in>set (mb_terms s1). gl_id g < mb_next s1"
      using wf new(4) id by (auto simp: memory_wf_def less_Suc_eq)
  qed (rule d)
  let ?s0 = "update_facts (\<lambda>_. True) (supersede_by c r) s"
  have "mb_facts s1 = mb_facts ?s0 @ [r]" using new(4) by (simp add: update_facts_def)
  then have "fact_at s1 = fact_at (?s0\<lparr>mb_facts := mb_facts ?s0 @ [r]\<rparr>)" by (intro fact_at_cong) simp
  also have "\<dots> = (fact_at ?s0)(fd_id r \<mapsto> r)"
    using new(3) id by (intro fact_at_append) (auto simp: update_facts_def)
  finally have at: "fact_at s1 j = (if j = fd_id r then Some r else map_option (supersede_by c r) (fact_at s j))" for j
    by (simp add: fact_at_update)
  have "alike x (map_option (supersede_by c r) x)" for x by (cases x) (simp_all add: alike_def)
  moreover have "fact_at s (fd_id r) = None" using new(3) id by (simp add: fact_at_None)
  moreover have "fd_support r = 0" "fd_scope r = fd_scope c" "fd_status r = FactConfirmed \<longrightarrow> sb \<or> fd_scope r = UserScope"
    using new(2) by (simp_all add: new_fact_def)
  moreover have "observed (mb_obs s) (fd_id r) = {}" using unobserved [OF wf new(3)] id by simp
  moreover have "mb_obs s1 = mb_obs s" "mb_terms s1 = mb_terms s" "mb_term_obs s1 = mb_term_obs s" "mb_next s \<le> mb_next s1"
    by (simp_all add: new(4))
  ultimately show ?thesis
    using wf1 by (simp add: at)
qed

lemma reconcile_one_grows:
  assumes wf: "memory_wf s" and r: "reconcile_one user tenant False now c s = Inr (s', ch)"
    and marked: "fm_marked (fd_meta c) \<Longrightarrow> fd_scope c = ProjectScope"
  shows "memory_wf s' \<and> facts_grow s s' \<and> terms_grow s s'"
proof -
  obtain ot ow pr where o: "owner_for c user tenant s = (ot, ow, pr)" by (cases "owner_for c user tenant s")
  note grows = facts_grow_point [where s = s]
  from r o show ?thesis
  proof (cases rule: reconcile_one_cases)
    case ownerless
    then show ?thesis using wf by (simp add: facts_grow_same terms_grow_same)
  next
    case (known s1 r obs)
    note v = fact_for_view [OF wf known(1)]
    have obs: "obs = mb_obs s1" using known(2) by (rule add_observations_same)
    have s': "s' = s1" using known(3) obs by simp
    have "fact_grows (observed (mb_obs s) (fd_id r)) (observed (mb_obs s) (fd_id r)) (fact_at s (fd_id r)) (fact_at s1 (fd_id r))"
      using v by (auto simp: fact_grows_def may_be_confirmed_def)
    then have "facts_grow s s'" using v s' by (intro facts_grow_point [where k = "fd_id r"]) simp_all
    then show ?thesis using v s' by (simp add: terms_grow_same)
  next
    case (reinforced s1 r obs n r')
    note v = fact_for_view [OF wf reinforced(1)]
    note e = add_observations_effect [OF reinforced(2)]
    have r': "fd_id r' = fd_id r" "fd_scope r' = fd_scope r" "fd_support r' = fd_support r + n"
      and conf: "fd_status r' = FactConfirmed \<Longrightarrow> fd_status r = FactConfirmed \<or> may_be_confirmed r'"
      using reinforced(4) reinforce_confirms [of "str_or (fm_action (fd_meta c)) ''add''" "fm_marked (fd_meta c)" n now r] marked v
      by (auto simp: may_be_confirmed_def)
    have "fact_at s' = fact_at (update_facts (\<lambda>x. fd_id x = fd_id r) (\<lambda>_. r') s1)"
      using reinforced(5) by (intro fact_at_cong) (simp add: update_facts_def)
    moreover have "update_facts (\<lambda>x. fd_id x = fd_id r) (\<lambda>_. r') s1 = update_facts (\<lambda>x. fd_id x = fd_id r) (\<lambda>x. if fd_id x = fd_id r then r' else x) s1"
      by (simp add: update_facts_def)
    ultimately have at: "fact_at s' j = map_option (\<lambda>x. if fd_id x = fd_id r then r' else x) (fact_at s1 j)" for j
      using r'(1) by (simp add: fact_at_update cong: if_cong)
    have at_r: "fact_at s' (fd_id r) = Some r'" using v by (simp add: at)
    have ids: "map fd_id (mb_facts s') = map fd_id (mb_facts s1)" using reinforced(5) r'(1) by auto
    have wf1: "memory_wf s1" using v by (rule conjunct1)
    then have owners: "fo_owner ` set (mb_obs s1) \<subseteq> fd_id ` set (mb_facts s1)"
      "fo_owner ` set (mb_term_obs s1) \<subseteq> gl_id ` set (mb_terms s1)"
      unfolding memory_wf_def by blast+
    have "fact_at s1 (fd_id r) = Some r" using v by simp
    then have "fd_id r \<in> fd_id ` set (mb_facts s1)" by (auto dest: fact_at_Some)
    moreover have "fo_owner ` set obs \<subseteq> insert (fd_id r) (fo_owner ` set (mb_obs s1))" using e [of 0] by (elim conjE)
    ultimately have "fo_owner ` set obs \<subseteq> fd_id ` set (mb_facts s1)"
      using owners(1) by (meson insert_subsetI subset_trans)
    then have wf': "memory_wf s'"
      using ids owners(2) reinforced(6-9) by (intro memory_wf_ids [OF wf1]) simp_all
    have others: "alike (fact_at s j) (fact_at s' j)" if "j \<noteq> fd_id r" for j
      using v that at [of j] by (cases "fact_at s1 j") (auto dest: fact_at_Some)
    have "may_be_confirmed r' \<or> fd_status r = FactConfirmed" using conf by (auto simp: may_be_confirmed_def)
    moreover have "observed (mb_obs s) (fd_id r) \<subseteq> observed (mb_obs s') (fd_id r)"
      and "n = int (card (observed (mb_obs s') (fd_id r))) - int (card (observed (mb_obs s) (fd_id r)))"
      using v e [of "fd_id r"] reinforced(6) by simp_all
    moreover have "fact_at s (fd_id r) = Some r \<or> fact_at s (fd_id r) = None \<and> observed (mb_obs s) (fd_id r) = {}
        \<and> fd_support r = 0 \<and> (fd_status r = FactConfirmed \<longrightarrow> fd_scope r = UserScope)"
      using v by blast
    ultimately have "fact_grows (observed (mb_obs s) (fd_id r)) (observed (mb_obs s') (fd_id r)) (fact_at s (fd_id r)) (fact_at s' (fd_id r))"
      unfolding at_r fact_grows_def by (elim disjE conjE) (simp_all add: r'(2,3) may_be_confirmed_def)
    then have "facts_grow s s'"
      using others v e reinforced(6) by (intro facts_grow_point [where k = "fd_id r"]) simp_all
    then show ?thesis using v wf' reinforced(7,8) by (simp add: terms_grow_same)
  qed
qed

section \<open>Reconciling a term\<close>

lemma term_unobserved: "memory_wf s \<Longrightarrow> i \<notin> gl_id ` set (mb_terms s) \<Longrightarrow> observed (mb_term_obs s) i = {}"
  by (auto simp: memory_wf_def observed_def)

lemma update_term_other [simp]:
  "mb_facts (update_term g s) = mb_facts s" "mb_obs (update_term g s) = mb_obs s"
  "mb_term_obs (update_term g s) = mb_term_obs s" "mb_next (update_term g s) = mb_next s"
  "map gl_id (mb_terms (update_term g s)) = map gl_id (mb_terms s)"
  by (auto simp: update_term_def)

lemma update_term_wf: "memory_wf s \<Longrightarrow> memory_wf (update_term g s)"
  by (rule memory_wf_ids) (auto simp: memory_wf_def)

lemma term_for_view:
  assumes wf: "memory_wf s" and f: "term_for c scope owner s = (s1, g)"
  shows "memory_wf s1 \<and> mb_facts s1 = mb_facts s \<and> mb_obs s1 = mb_obs s \<and> mb_term_obs s1 = mb_term_obs s
    \<and> term_at s1 = (term_at s)(gl_id g \<mapsto> g)
    \<and> ((\<exists>g0. term_at s (gl_id g) = Some g0 \<and> gl_support g = gl_support g0 \<and> gl_status g = gl_status g0)
       \<or> term_at s (gl_id g) = None \<and> observed (mb_term_obs s) (gl_id g) = {} \<and> gl_support g = 0 \<and> gl_status g = TermPending)"
proof (cases "find_term scope owner (fd_subject c) s")
  case None
  then have g: "gl_id g = mb_next s" "gl_support g = 0" "gl_status g = TermPending"
    and s1: "s1 = s\<lparr>mb_next := Suc (mb_next s), mb_terms := mb_terms s @ [g]\<rparr>"
    using f by (auto simp: term_for_def Let_def fresh_id_def)
  have fresh: "mb_next s \<notin> gl_id ` set (mb_terms s)" "mb_next s \<notin> fd_id ` set (mb_facts s)"
    using wf by (auto simp: memory_wf_def)
  have "term_at s1 = term_at (s\<lparr>mb_terms := mb_terms s @ [g]\<rparr>)" by (simp add: s1 term_at_def)
  then have "term_at s1 = (term_at s)(gl_id g \<mapsto> g)" using fresh g(1) by (simp add: term_at_append)
  moreover have "memory_wf s1"
    using wf fresh g(1) by (auto simp: s1 memory_wf_def less_Suc_eq)
  moreover have "term_at s (gl_id g) = None" using fresh(1) g(1) by (simp add: term_at_None)
  ultimately show ?thesis using g term_unobserved [OF wf fresh(1)] by (simp add: s1)
next
  case (Some g0)
  then have at: "term_at s (gl_id g0) = Some g0"
    unfolding term_at_iff [OF wf] find_term_def by (auto dest: find_SomeD)
  have g: "gl_id g = gl_id g0" "gl_support g = gl_support g0" "gl_status g = gl_status g0" and s1: "s1 = update_term g s"
    using f Some by (auto simp: term_for_def Let_def split: if_splits)
  have "term_at s1 = (term_at s)(gl_id g \<mapsto> g)" using at g(1) by (auto simp: s1 term_at_update fun_eq_iff)
  then show ?thesis using at g update_term_wf [OF wf] by (simp add: s1)
qed

lemma reinforce_term_keeps:
  "gl_id (reinforce_term n now g) = gl_id g" "gl_support (reinforce_term n now g) = gl_support g + n"
  "gl_status (reinforce_term n now g) = TermConfirmed \<Longrightarrow> gl_status g = TermConfirmed \<or> 3 \<le> gl_support g + n"
  by (auto simp: reinforce_term_def Let_def GLOSSARY_CONFIRMATION_SUPPORT_def split: if_splits)

lemma terms_grow_point:
  assumes "\<And>j. j \<noteq> k \<Longrightarrow> observed (mb_term_obs s') j = observed (mb_term_obs s) j"
    and "\<And>j. j \<noteq> k \<Longrightarrow> term_at s' j = term_at s j"
    and "term_grows (observed (mb_term_obs s) k) (observed (mb_term_obs s') k) (term_at s k) (term_at s' k)"
  shows "terms_grow s s'"
  unfolding terms_grow_def
proof
  fix i show "term_grows (observed (mb_term_obs s) i) (observed (mb_term_obs s') i) (term_at s i) (term_at s' i)"
    using assms(1,2) [of i] assms(3) by (cases "i = k") (auto simp: term_grows_def split: option.splits)
qed

lemma glossary_one_grows:
  assumes wf: "memory_wf s" and e: "glossary_one user tenant now c (s, k) = (s', k')"
  shows "memory_wf s' \<and> facts_grow s s' \<and> terms_grow s s'"
proof (cases "s' = s")
  case True
  then show ?thesis using wf by (simp add: facts_grow_same terms_grow_same)
next
  case False
  obtain scope owner where o: "term_owner c user tenant = Some (scope, owner)"
    using e False by (auto simp: glossary_one_def split: if_splits option.splits)
  obtain s1 g where f: "term_for c scope owner s = (s1, g)" by fastforce
  obtain obs n where a: "add_observations (gl_id g) (map term_evidence (fm_evidence (fd_meta c))) (mb_term_obs s1) = (obs, n)"
    by fastforce
  let ?s2 = "s1\<lparr>mb_term_obs := obs\<rparr>"
  have s': "s' = (if n = 0 then ?s2 else update_term (reinforce_term n now g) ?s2)"
    using e False o by (auto simp: glossary_one_def f a split: if_splits)
  note v = term_for_view [OF wf f]
  note eff = add_observations_effect [OF a]
  have at: "term_at s1 (gl_id g) = Some g" using v by simp
  let ?g = "if n = 0 then g else reinforce_term n now g"
  have g: "gl_support ?g = gl_support g + n" "gl_status ?g = TermConfirmed \<Longrightarrow> gl_status g = TermConfirmed \<or> 3 \<le> gl_support ?g"
    using reinforce_term_keeps [of n now g] by auto
  have at': "term_at s' j = (if j = gl_id g then Some ?g else term_at s j)" for j
    using v by (simp add: s' term_at_update reinforce_term_keeps term_at_cong [of "?s2" s1])
  have wf1: "memory_wf s1" using v by (rule conjunct1)
  have "gl_id g \<in> gl_id ` set (mb_terms s1)" using at term_at_iff [OF wf1] by blast
  moreover have "fo_owner ` set obs \<subseteq> insert (gl_id g) (fo_owner ` set (mb_term_obs s1))" using eff [of 0] by (elim conjE)
  moreover have owners: "fo_owner ` set (mb_term_obs s1) \<subseteq> gl_id ` set (mb_terms s1)" "fo_owner ` set (mb_obs s1) \<subseteq> fd_id ` set (mb_facts s1)"
    using wf1 unfolding memory_wf_def by blast+
  ultimately have "fo_owner ` set obs \<subseteq> gl_id ` set (mb_terms s1)" by (meson insert_subsetI subset_trans)
  then have "memory_wf ?s2" using owners(2) by (intro memory_wf_ids [OF wf1]) simp_all
  then have wf': "memory_wf s'" using update_term_wf by (simp add: s')
  have obs': "mb_term_obs s' = obs" by (simp add: s')
  have same: "mb_facts s' = mb_facts s" "mb_obs s' = mb_obs s" using v by (simp_all add: s')
  have "observed (mb_term_obs s) (gl_id g) \<subseteq> observed obs (gl_id g)"
    and "n = int (card (observed obs (gl_id g))) - int (card (observed (mb_term_obs s) (gl_id g)))"
    using v eff [of "gl_id g"] by simp_all
  moreover have "(\<exists>g0. term_at s (gl_id g) = Some g0 \<and> gl_support g = gl_support g0 \<and> gl_status g = gl_status g0)
       \<or> term_at s (gl_id g) = None \<and> observed (mb_term_obs s) (gl_id g) = {} \<and> gl_support g = 0 \<and> gl_status g = TermPending"
    using v by blast
  ultimately have "term_grows (observed (mb_term_obs s) (gl_id g)) (observed obs (gl_id g)) (term_at s (gl_id g)) (Some ?g)"
    using g unfolding term_grows_def by (elim disjE conjE exE) auto
  then have "terms_grow s s'"
    using v eff obs' at' by (intro terms_grow_point [where k = "gl_id g"]) simp_all
  then show ?thesis using wf' same by (simp add: facts_grow_same)
qed

section \<open>Edits\<close>

lemma update_facts_wf:
  assumes "memory_wf s" and "\<And>r. fd_id (f r) = fd_id r"
  shows "memory_wf (update_facts p f s)"
  using assms by (intro memory_wf_ids [OF assms(1)]) (auto simp: memory_wf_def update_facts_def)

lemma update_facts_grow:
  assumes "\<And>r. fd_id (f r) = fd_id r" "\<And>r. fd_scope (f r) = fd_scope r" "\<And>r. fd_support (f r) = fd_support r"
    and "\<And>r. fd_status (f r) = FactConfirmed \<Longrightarrow> fd_status r = FactConfirmed"
  shows "facts_grow s (update_facts p f s)"
  using assms(2-4)
  by (auto simp: facts_grow_def fact_grows_def fact_at_update [of f, OF assms(1)] may_be_confirmed_def split: option.splits)

lemma grow_trans:
  assumes "facts_grow a b" "facts_grow b c"
  shows "facts_grow a c"
  unfolding facts_grow_def
proof
  fix i
  have x: "fact_grows (observed (mb_obs a) i) (observed (mb_obs b) i) (fact_at a i) (fact_at b i)"
    and y: "fact_grows (observed (mb_obs b) i) (observed (mb_obs c) i) (fact_at b i) (fact_at c i)"
    using assms by (simp_all add: facts_grow_def)
  have "card (observed (mb_obs b) i) \<le> card (observed (mb_obs c) i)"
    using y by (intro card_mono) (auto simp: fact_grows_def)
  then show "fact_grows (observed (mb_obs a) i) (observed (mb_obs c) i) (fact_at a i) (fact_at c i)"
    using x y by (auto simp: fact_grows_def may_be_confirmed_def split: option.splits)
qed

lemma replace_user_fact_cases:
  assumes "replace_user_fact us fid user subject val now s = Inr (s', res)"
  obtains (absent) "s' = s" "res = None"
  | (done') prev new where "prev \<in> set (mb_facts s)" "fd_id prev = fid" "fd_owner_type prev = Some ''user''"
      "fd_owner prev = Some user" "res = Some new" "fd_id new = mb_next s" "mb_next s \<notin> fd_id ` set (mb_facts s)"
      "fd_scope new = UserScope" "fd_support new = 1" "fd_subject new = subject" "fd_value new = val"
      "fd_revision new = fd_revision prev + 1" "fd_status new = FactConfirmed" "fd_superseded new = None"
      "fd_owner_type new = Some ''user''" "fd_owner new = Some user"
      "s' = s\<lparr>mb_next := Suc (mb_next s),
              mb_facts := map (\<lambda>r. if fd_id r = fid \<or> (fd_owner_type r = Some ''user'' \<and> fd_owner r = Some user
                   \<and> fd_scope r = UserScope \<and> fd_subject r = subject \<and> fd_superseded r = None)
                   then r\<lparr>fd_status := FactUnconfirmed\<rparr> else r) (mb_facts s) @ [new],
              mb_obs := mb_obs s @ [\<lparr>fo_owner = mb_next s, fo_type = ''manual'', fo_ref = ''manual:'' @ us fid,
                          fo_label = Some ''Manual profile edit''\<rparr>]\<rparr>"
proof (cases "find (\<lambda>r. fd_id r = fid \<and> fd_owner_type r = Some ''user'' \<and> fd_owner r = Some user \<and> fd_superseded r = None) (mb_facts s)")
  case None
  with assms have "s' = s" "res = None" unfolding replace_user_fact_def by simp_all
  then show ?thesis by (rule absent)
next
  case (Some prev)
  have prev: "prev \<in> set (mb_facts s)" "fd_id prev = fid" "fd_owner_type prev = Some ''user''" "fd_owner prev = Some user"
    using find_SomeD [OF Some] by auto
  define u :: "fact_row \<Rightarrow> fact_row" where "u = (\<lambda>r. if fd_id r = fid \<or> (fd_owner_type r = Some ''user'' \<and> fd_owner r = Some user
                   \<and> fd_scope r = UserScope \<and> fd_subject r = subject \<and> fd_superseded r = None)
                   then r\<lparr>fd_status := FactUnconfirmed\<rparr> else r)"
  have u_id: "fd_id (u r) = fd_id r" for r by (simp add: u_def)
  let ?s2 = "update_facts (\<lambda>r. fd_id r = fid) (\<lambda>r. r\<lparr>fd_status := FactUnconfirmed\<rparr>)
     (update_facts (\<lambda>r. fd_owner_type r = Some ''user'' \<and> fd_owner r = Some user \<and> fd_scope r = UserScope
                     \<and> fd_subject r = subject \<and> fd_superseded r = None \<and> fd_id r \<noteq> fid)
                     (\<lambda>r. r\<lparr>fd_status := FactUnconfirmed\<rparr>) s)"
  have s2: "?s2 = s\<lparr>mb_facts := map u (mb_facts s)\<rparr>" by (auto simp: update_facts_def u_def)
  obtain new s4 where i: "insert_fact new (?s2\<lparr>mb_next := Suc (mb_next s)\<rparr>) = Inr s4" and res: "res = Some new"
    and new: "fd_id new = mb_next s" "fd_scope new = UserScope" "fd_support new = 1" "fd_subject new = subject" "fd_value new = val"
      "fd_revision new = fd_revision prev + 1" "fd_status new = FactConfirmed" "fd_superseded new = None"
      "fd_owner_type new = Some ''user''" "fd_owner new = Some user"
    and s': "s' = s4\<lparr>mb_obs := mb_obs s4 @ [\<lparr>fo_owner = mb_next s, fo_type = ''manual'', fo_ref = ''manual:'' @ us fid,
                        fo_label = Some ''Manual profile edit''\<rparr>]\<rparr>"
    using assms Some by (auto simp: replace_user_fact_def Let_def fresh_id_def accept_simps)
  have fresh: "mb_next s \<notin> fd_id ` set (mb_facts s)"
    and s4: "s4 = s\<lparr>mb_next := Suc (mb_next s), mb_facts := map u (mb_facts s) @ [new]\<rparr>"
    using insert_fact_Inr [OF i] new(1) unfolding s2 by (simp_all add: u_id image_image)
  show ?thesis
    using prev res new(1) fresh new(2-10) by (rule done') (simp add: s' s4 u_def [symmetric])
qed

lemma replace_user_fact_grows:
  assumes wf: "memory_wf s" and e: "replace_user_fact us fid user subject val now s = Inr (s', res)"
  shows "memory_wf s' \<and> facts_grow s s' \<and> terms_grow s s'"
  using e
proof (cases rule: replace_user_fact_cases)
  case absent
  then show ?thesis using wf by (simp add: facts_grow_same terms_grow_same)
next
  case (done' prev new)
  let ?p = "\<lambda>r. fd_id r = fid \<or> (fd_owner_type r = Some ''user'' \<and> fd_owner r = Some user
                   \<and> fd_scope r = UserScope \<and> fd_subject r = subject \<and> fd_superseded r = None)"
  let ?u = "update_facts ?p (\<lambda>r. r\<lparr>fd_status := FactUnconfirmed\<rparr>) s"
  have wfu: "memory_wf ?u" and up: "facts_grow s ?u"
    using update_facts_wf [OF wf] by (auto intro: update_facts_grow)
  have obs: "mb_obs s' = mb_obs ?u @ [\<lparr>fo_owner = mb_next s, fo_type = ''manual'', fo_ref = ''manual:'' @ us fid,
                          fo_label = Some ''Manual profile edit''\<rparr>]"
    and facts: "mb_facts s' = mb_facts ?u @ [new]"
    by (simp_all add: done'(17) update_facts_def)
  have fresh: "fd_id new \<notin> fd_id ` set (mb_facts ?u)"
    using done'(6,7) by (auto simp: update_facts_def image_image)
  have "fact_at s' = fact_at (?u\<lparr>mb_facts := mb_facts ?u @ [new]\<rparr>)" using facts by (intro fact_at_cong) simp
  then have at: "fact_at s' = (fact_at ?u)(fd_id new \<mapsto> new)" using fact_at_append [OF fresh] by simp
  have none: "fact_at ?u (fd_id new) = None" "observed (mb_obs ?u) (fd_id new) = {}"
    using fresh unobserved [OF wfu fresh] by (simp_all add: fact_at_None)
  have "facts_grow ?u s'"
    by (rule facts_grow_point [where k = "fd_id new"])
      (use none done'(6,8,9) in \<open>auto simp: at obs observed_append alike_def fact_grows_def may_be_confirmed_def\<close>)
  then have "facts_grow s s'" using up by (rule grow_trans [rotated])
  moreover have "memory_wf s'"
  proof -
    have t: "mb_terms s' = mb_terms ?u" "mb_term_obs s' = mb_term_obs ?u" "mb_next s' = Suc (mb_next ?u)"
      by (simp_all add: done'(17))
    have "mb_next s \<notin> gl_id ` set (mb_terms s)" using wf by (auto simp: memory_wf_def)
    then show ?thesis
      using wfu fresh done'(6) unfolding memory_wf_def facts obs t by (auto simp: less_Suc_eq)
  qed
  ultimately show ?thesis by (auto intro: terms_grow_same simp: done'(17))
qed

section \<open>The small steps of learning\<close>

text \<open>
  Bookkeeping that leaves the tables of knowledge alone, one reconciled fact, one reconciled term, a
  manual edit, a fact detached by a link to its replacement, and a change of tenant context.
\<close>

inductive learns :: "memory \<Rightarrow> memory \<Rightarrow> bool" where
  quiet: "mb_facts s' = mb_facts s \<Longrightarrow> mb_obs s' = mb_obs s \<Longrightarrow> mb_terms s' = mb_terms s
      \<Longrightarrow> mb_term_obs s' = mb_term_obs s \<Longrightarrow> mb_next s \<le> mb_next s' \<Longrightarrow> learns s s'"
| fact: "(fm_marked (fd_meta c) \<Longrightarrow> fd_scope c = ProjectScope)
      \<Longrightarrow> reconcile_one user tenant False now c s = Inr (s', ch) \<Longrightarrow> learns s s'"
| trm: "glossary_one user tenant now c (s, k) = (s', k') \<Longrightarrow> learns s s'"
| edit: "replace_user_fact us fid user subject val now s = Inr (s', res) \<Longrightarrow> learns s s'"
| detach: "learns s (update_facts p (\<lambda>r. r\<lparr>fd_superseded := Some (g r)\<rparr>) s)"
| move: "learns s (update_facts p (\<lambda>r. r\<lparr>fd_tenant := t\<rparr>) s)"

lemma learns_grow:
  assumes "learns s s'" and wf: "memory_wf s"
  shows "memory_wf s' \<and> facts_grow s s' \<and> terms_grow s s'"
  using assms(1)
proof cases
  case quiet
  moreover have "memory_wf s'"
    using wf quiet by (intro memory_wf_ids [OF wf]) (auto simp: memory_wf_def)
  ultimately show ?thesis using facts_grow_same [of s' s] terms_grow_same [of s' s] by blast
next
  case (fact c user tenant now ch)
  then show ?thesis using reconcile_one_grows [OF wf] by blast
next
  case (trm user tenant now c k k')
  then show ?thesis using glossary_one_grows [OF wf] by blast
next
  case (edit us fid user subject val now res)
  then show ?thesis using replace_user_fact_grows [OF wf] by blast
next
  case (detach p g)
  show ?thesis unfolding detach
    by (intro conjI update_facts_wf [OF wf] update_facts_grow terms_grow_same) simp_all
next
  case (move p t)
  show ?thesis unfolding move
    by (intro conjI update_facts_wf [OF wf] update_facts_grow terms_grow_same) simp_all
qed

lemma finite_fact_sources: "finite (observed (mb_obs s) i)"
  by simp

text \<open>Facts: a tenant fact needs three sources, the facts of users and projects are exempt.\<close>

definition fact_support :: "memory \<Rightarrow> uuid \<Rightarrow> int option" where
  "fact_support s i = map_option fd_support (fact_at s i)"

definition fact_confirmed :: "memory \<Rightarrow> uuid \<Rightarrow> bool" where
  "fact_confirmed s i \<longleftrightarrow> (case fact_at s i of None \<Rightarrow> False | Some r \<Rightarrow> fd_status r = FactConfirmed)"

definition fact_exempt :: "memory \<Rightarrow> uuid \<Rightarrow> bool" where
  "fact_exempt s i \<longleftrightarrow> (case fact_at s i of None \<Rightarrow> False | Some r \<Rightarrow> fd_scope r \<noteq> TenantScope)"

definition term_support :: "memory \<Rightarrow> uuid \<Rightarrow> int option" where
  "term_support s i = map_option gl_support (term_at s i)"

definition term_confirmed :: "memory \<Rightarrow> uuid \<Rightarrow> bool" where
  "term_confirmed s i \<longleftrightarrow> (case term_at s i of None \<Rightarrow> False | Some g \<Rightarrow> gl_status g = TermConfirmed)"

lemma fact_growsD:
  assumes "memory_wf s" "learns s s'"
  shows "fact_grows (observed (mb_obs s) i) (observed (mb_obs s') i) (fact_at s i) (fact_at s' i)"
  using learns_grow [OF assms(2,1)] by (simp add: facts_grow_def)

lemma term_growsD:
  assumes "memory_wf s" "learns s s'"
  shows "term_grows (observed (mb_term_obs s) i) (observed (mb_term_obs s') i) (term_at s i) (term_at s' i)"
  using learns_grow [OF assms(2,1)] by (simp add: terms_grow_def)

interpretation learned_facts:
  evidence_base memory_wf fact_support "\<lambda>s. observed (mb_obs s)" fact_confirmed fact_exempt 3 learns
proof (unfold_locales, goal_cases)
  case (1 s s')
  then show ?case using learns_grow by blast
next
  case (3 s s' i)
  then show ?case using fact_growsD [of s s' i] by (simp add: fact_grows_def)
next
  case (4 s s' i m)
  then show ?case using fact_growsD [of s s' i] by (auto simp: fact_grows_def fact_support_def split: option.splits)
next
  case (5 s s' i n)
  then show ?case using fact_growsD [of s s' i] by (auto simp: fact_grows_def fact_support_def split: option.splits)
next
  case (6 s s' i)
  then show ?case using fact_growsD [of s s' i]
    by (auto simp: fact_grows_def fact_confirmed_def fact_exempt_def fact_support_def may_be_confirmed_def split: option.splits)
next
  case (7 s s' i)
  then show ?case using fact_growsD [of s s' i] by (auto simp: fact_grows_def fact_exempt_def split: option.splits)
qed simp

interpretation learned_terms:
  evidence_base memory_wf term_support "\<lambda>s. observed (mb_term_obs s)" term_confirmed "\<lambda>_ _. False" 3 learns
proof (unfold_locales, goal_cases)
  case (1 s s')
  then show ?case using learns_grow by blast
next
  case (3 s s' i)
  then show ?case using term_growsD [of s s' i] by (simp add: term_grows_def)
next
  case (4 s s' i m)
  then show ?case using term_growsD [of s s' i] by (auto simp: term_grows_def term_support_def split: option.splits)
next
  case (5 s s' i n)
  then show ?case using term_growsD [of s s' i] by (auto simp: term_grows_def term_support_def split: option.splits)
next
  case (6 s s' i)
  then show ?case using term_growsD [of s s' i]
    by (auto simp: term_grows_def term_confirmed_def term_support_def split: option.splits)
qed simp_all

section \<open>The path of a turn\<close>

definition bookkeeping :: "memory \<Rightarrow> memory \<Rightarrow> bool" where
  "bookkeeping s s' \<longleftrightarrow> mb_facts s' = mb_facts s \<and> mb_obs s' = mb_obs s \<and> mb_terms s' = mb_terms s
     \<and> mb_term_obs s' = mb_term_obs s \<and> mb_next s \<le> mb_next s'"

lemma bookkeeping_simps [simp, intro]: "bookkeeping s s" "bookkeeping s (snd (fresh_id s))"
  by (simp_all add: bookkeeping_def fresh_id_def)

lemma bookkeeping_trans: "bookkeeping a b \<Longrightarrow> bookkeeping b c \<Longrightarrow> bookkeeping a c"
  by (simp add: bookkeeping_def)

lemma bookkeeping_learns: "bookkeeping s s' \<Longrightarrow> learns\<^sup>*\<^sup>* s s'"
  by (auto simp: bookkeeping_def intro: quiet)

lemma dtos_of_rows_quiet: "dtos_of_rows now rs s = (ds, s') \<Longrightarrow> bookkeeping s s'"
proof (induction rs arbitrary: s ds s')
  case (Cons r rs)
  then show ?case
    by (auto simp: fresh_id_def Let_def bookkeeping_def split: prod.splits) fastforce+
qed simp

lemma current_for_quiet: "current_for user tenant keys now s = (ds, s') \<Longrightarrow> bookkeeping s s'"
  unfolding current_for_def Let_def by (rule dtos_of_rows_quiet)

lemma ensure_project_quiet: "bookkeeping s (ensure_project c s)"
  by (auto simp: ensure_project_def Let_def fresh_id_def bookkeeping_def)

lemma ensure_projects_quiet: "bookkeeping s (ensure_projects cs s)"
  unfolding ensure_projects_def
  by (induction cs arbitrary: s) (auto intro: bookkeeping_trans [OF ensure_project_quiet])

lemma project_candidate_facts_effect:
  "project_candidate_facts ev tenant now ps s = (ds, s') \<Longrightarrow>
   bookkeeping s s' \<and> (\<forall>d\<in>set ds. fd_scope d = ProjectScope \<and> fm_targets (fd_meta d) = [] \<and> fm_action (fd_meta d) = [])"
proof (induction ps arbitrary: s ds s')
  case (Cons p ps)
  show ?case
  proof (cases "List.map_filter (map_of ev) (pc_calls p) = []")
    case True
    then show ?thesis using Cons by simp
  next
    case False
    obtain es s2 where r: "project_candidate_facts ev tenant now ps (snd (fresh_id s)) = (es, s2)" by fastforce
    from Cons.IH [OF r] show ?thesis
      using Cons.prems False r
      by (auto simp: fresh_id_def bookkeeping_def empty_meta_def Let_def split: prod.splits)
  qed
qed (auto simp: bookkeeping_def)

text \<open>What the compactor returns: candidates, or merges of candidates with identifiers of known items.\<close>

lemma merged_fact_meta:
  "matches \<noteq> [] \<Longrightarrow> fd_scope (merged_fact matches current out i now) = fd_scope (hd matches)
    \<and> fm_marked (fd_meta (merged_fact matches current out i now)) = fm_marked (fd_meta (hd matches))
    \<and> set (fm_targets (fd_meta (merged_fact matches current out i now))) \<subseteq> Some ` fd_id ` set current"
  by (auto simp: merged_fact_def Let_def valid_indexes_def)

lemma compact_outputs_effect:
  "compact_outputs semantic current outs now s = (ds, seen, s') \<Longrightarrow>
   bookkeeping s s' \<and> (\<forall>d\<in>set ds. \<exists>c\<in>set semantic. fd_scope d = fd_scope c \<and> fm_marked (fd_meta d) = fm_marked (fd_meta c)
     \<and> set (fm_targets (fd_meta d)) \<subseteq> Some ` fd_id ` set current)"
proof (induction outs arbitrary: s ds seen s')
  case (Cons out outs)
  let ?m = "map (\<lambda>k. semantic ! k) (valid_indexes (length semantic) (cf_sources out))"
  have idx: "set ?m \<subseteq> set semantic" by (auto simp: valid_indexes_def)
  consider "?m = [] \<or> cf_action out = ActDiscard" | "?m \<noteq> []" "cf_action out \<noteq> ActDiscard" by blast
  then show ?case
  proof cases
    case 1
    then obtain seen' where "compact_outputs semantic current outs now s = (ds, seen', s')"
      using Cons.prems by (auto simp: Let_def split: prod.splits if_splits)
    then show ?thesis by (rule Cons.IH)
  next
    case 2
    obtain es seen' s2 where r: "compact_outputs semantic current outs now (snd (fresh_id s)) = (es, seen', s2)"
      by (metis prod_cases3)
    have ds: "ds = merged_fact ?m current out (mb_next s) now # es" and s': "s' = s2"
      using Cons.prems 2 r by (auto simp: Let_def fresh_id_def split: prod.splits if_splits)
    have "hd ?m \<in> set semantic" using idx 2(1) hd_in_set by blast
    then show ?thesis
      using Cons.IH [OF r] merged_fact_meta [OF 2(1), of current out "mb_next s" now] bookkeeping_trans [OF bookkeeping_simps(2)]
      unfolding ds s' by auto
  qed
qed simp

lemma compact_effect:
  assumes "compact llm cands current now s = (ds, s')"
  shows "bookkeeping s s' \<and> (\<forall>d\<in>set ds. d \<in> set cands \<or> (\<exists>c\<in>set cands. fd_scope d = fd_scope c
     \<and> fm_marked (fd_meta d) = fm_marked (fd_meta c) \<and> set (fm_targets (fd_meta d)) \<subseteq> Some ` fd_id ` set current))"
proof -
  let ?sem = "filter (\<lambda>c. \<not> exact_match current c) cands"
  let ?out = "compact_outputs ?sem current (the (llm ?sem current)) now s"
  obtain es seen s2 where r: "?out = (es, seen, s2)" by (metis prod_cases3)
  note e = compact_outputs_effect [OF r]
  show ?thesis
  proof (cases "cands = [] \<or> ?sem = [] \<or> llm ?sem current = None")
    case True
    then show ?thesis using assms by (auto simp: compact_def Let_def split: if_splits option.splits)
  next
    case False
    then have ds: "ds = filter (exact_match current) cands @ es @ map (\<lambda>k. ?sem ! k) (filter (\<lambda>k. k \<notin> seen) [0..<length ?sem])"
      and s': "s' = s2"
      using assms r by (auto simp: compact_def Let_def)
    have sub: "set (map (\<lambda>k. xs ! k) (filter P [0..<length xs])) \<subseteq> set xs" for xs :: "FactDTO list" and P
      by auto
    have sem: "set ?sem \<subseteq> set cands" by simp
    have "set ds \<subseteq> set cands \<union> set es"
      using sub [of ?sem "\<lambda>k. k \<notin> seen"] sem unfolding ds by (auto simp only: set_append set_filter)
    then have "d \<in> set cands \<or> d \<in> set es" if "d \<in> set ds" for d using that by auto
    moreover have "c \<in> set cands" if "c \<in> set ?sem" for c using that by simp
    ultimately show ?thesis using e unfolding s' by meson
  qed
qed

lemma reconcile_all_learns:
  assumes "\<forall>c\<in>set cs. fm_marked (fd_meta c) \<longrightarrow> fd_scope c = ProjectScope"
    and "reconcile_all user tenant False now cs s = Inr (s', ch)"
  shows "learns\<^sup>*\<^sup>* s s'"
  using assms
proof (induction cs arbitrary: s ch)
  case (Cons c cs)
  obtain s1 ch1 ch2 where r: "reconcile_one user tenant False now c s = Inr (s1, ch1)" "reconcile_all user tenant False now cs s1 = Inr (s', ch2)"
    using Cons.prems(2) by (auto simp: accept_simps)
  have "learns s s1" using Cons.prems(1) r(1) by (intro fact) simp_all
  moreover have "learns\<^sup>*\<^sup>* s1 s'" using Cons.prems(1) by (intro Cons.IH [OF _ r(2)]) simp
  ultimately show ?case by (rule converse_rtranclp_into_rtranclp)
qed simp

lemma glossary_apply_learns:
  assumes "glossary_apply cs user tenant now s = (s', n)"
  shows "learns\<^sup>*\<^sup>* s s'"
proof -
  have "learns\<^sup>*\<^sup>* (fst st) (fst (fold (glossary_one user tenant now) cs st))" for st
  proof (induction cs arbitrary: st)
    case (Cons c cs)
    have "learns (fst st) (fst (glossary_one user tenant now c st))"
      by (rule trm [where k = "snd st" and k' = "snd (glossary_one user tenant now c st)"]) simp
    then show ?case using Cons.IH [of "glossary_one user tenant now c st"] by (simp add: converse_rtranclp_into_rtranclp)
  qed simp
  from this [of "(s, 0)"] show ?thesis using assms by (simp add: glossary_apply_def)
qed

lemma compact_and_write_learns:
  assumes marked: "\<forall>c\<in>set cands. fm_marked (fd_meta c) \<longrightarrow> fd_scope c = ProjectScope"
    and w: "compact_and_write llm user tenant ev ps cands now s = Inr (s', changes, n)"
  shows "learns\<^sup>*\<^sup>* s s'"
proof -
  obtain projects s0 where p: "project_candidate_facts ev tenant now ps s = (projects, s0)" by fastforce
  let ?all = "cands @ projects"
  let ?keys = "map (\<lambda>c. fm_project_key (fd_meta c)) (filter (\<lambda>c. fd_scope c = ProjectScope) ?all)"
  obtain fs s2 where c: "current_for user tenant ?keys now (ensure_projects ?all s0) = (fs, s2)" by fastforce
  obtain ds s3 where k: "compact llm ?all (fs @ glossary_current user tenant now s2) now s2 = (ds, s3)" by fastforce
  note pe = project_candidate_facts_effect [OF p] and ce = compact_effect [OF k]
  show ?thesis
  proof (cases "?all = []")
    case True
    then show ?thesis using w p pe by (auto simp: compact_and_write_def Let_def intro: bookkeeping_learns)
  next
    case False
    let ?ds = "filter (\<lambda>c. fd_kind c \<noteq> ''glossary'') ds"
    note w' = w [unfolded compact_and_write_def Let_def p prod.case c k if_not_P [OF False]]
    obtain s4 ch where a: "apply_with_changes ?ds user tenant False now s3 = Inr (s4, ch)"
      using w' by (auto simp: accept_simps)
    obtain s5 m where g5: "glossary_apply (filter (\<lambda>c. fd_kind c = ''glossary'') ds) user tenant now s4 = (s5, m)"
      by fastforce
    have g: "glossary_apply (filter (\<lambda>c. fd_kind c = ''glossary'') ds) user tenant now s4 = (s', m)"
      using w' by (simp add: a g5)
    have "bookkeeping s s3"
      using pe ce current_for_quiet [OF c] ensure_projects_quiet [of s0 ?all] by (meson bookkeeping_trans)
    then have "learns\<^sup>*\<^sup>* s s3" by (rule bookkeeping_learns)
    moreover have "learns\<^sup>*\<^sup>* s3 (ensure_projects ?ds s3)" by (intro bookkeeping_learns ensure_projects_quiet)
    moreover have "learns\<^sup>*\<^sup>* (ensure_projects ?ds s3) s4"
    proof (rule reconcile_all_learns)
      show "\<forall>c\<in>set ?ds. fm_marked (fd_meta c) \<longrightarrow> fd_scope c = ProjectScope"
        using ce pe marked by (fastforce simp del: set_append simp: set_append [of cands])
      show "reconcile_all user tenant False now ?ds (ensure_projects ?ds s3) = Inr (s4, ch)"
        using a by (simp add: apply_with_changes_def)
    qed
    moreover have "learns\<^sup>*\<^sup>* s4 s'" using g by (rule glossary_apply_learns)
    ultimately show ?thesis by (meson rtranclp_trans)
  qed
qed

end
