(* ===== verification/Memory_Settled.thy ===== *)
theory Memory_Settled
  imports Memory_Learning
begin

text \<open>
  When a candidate has nothing left to say: its fact is stored and all its sources are observed. Adding
  other candidates keeps it so, unless one of them replaces facts.
\<close>

section \<open>What reconciling leaves alone\<close>

definition fact_key :: "fact_row \<Rightarrow> uuid \<times> FactScope \<times> string \<times> string \<times> uuid option \<times> uuid option \<times> string option \<times> uuid option" where
  "fact_key r = (fd_id r, fd_scope r, fd_subject r, fr_normalized r, fd_superseded r, fd_project r, fd_owner_type r, fd_owner r)"

definition project_key :: "project_row \<Rightarrow> uuid \<times> string \<times> bool" where
  "project_key p = (pj_id p, pj_key p, pj_active p)"

definition steady :: "memory \<Rightarrow> memory \<Rightarrow> bool" where
  "steady s s' \<longleftrightarrow> (\<exists>new. map fact_key (mb_facts s') = map fact_key (mb_facts s) @ new)
     \<and> map project_key (mb_projects s') = map project_key (mb_projects s)
     \<and> (\<forall>i. observed (mb_obs s) i \<subseteq> observed (mb_obs s') i)
     \<and> (distinct (map fd_id (mb_facts s)) \<longrightarrow> distinct (map fd_id (mb_facts s')))"

lemma steady_refl [simp]: "steady s s"
  by (simp add: steady_def)

lemma steady_trans: "steady a b \<Longrightarrow> steady b c \<Longrightarrow> steady a c"
  unfolding steady_def by (intro conjI) (force, simp, blast, blast)

lemma find_keyed:
  assumes "map k ys = map k xs @ zs" "find (\<lambda>x. P (k x)) xs = Some x"
  shows "\<exists>y. find (\<lambda>x. P (k x)) ys = Some y \<and> k y = k x"
  using assms
proof (induction xs arbitrary: ys)
  case (Cons a xs)
  then obtain b bs where ys: "ys = b # bs" "k b = k a" "map k bs = map k xs @ zs" by (cases ys) auto
  then show ?case using Cons by (auto split: if_splits)
qed simp

lemma find_keyed_None:
  assumes "map k ys = map k xs"
  shows "find (\<lambda>x. P (k x)) ys = None \<longleftrightarrow> find (\<lambda>x. P (k x)) xs = None"
  using find_keyed [of k ys xs "[]" P] find_keyed [of k xs ys "[]" P] assms
  by (metis append_Nil2 not_None_eq)

lemma find_same_steady:
  assumes "steady s s'" "find_same c ot ow pr s = Some r"
  shows "\<exists>r'. find_same c ot ow pr s' = Some r' \<and> fd_id r' = fd_id r"
proof -
  let ?P = "\<lambda>(i, sc, su, n, sup, p, t, w). sc = fd_scope c \<and> su = fd_subject c \<and> n = normalized_value (fd_value c)
     \<and> sup = None \<and> (if pr \<noteq> None then p = pr else t = ot \<and> w = ow)"
  have f: "find_same c ot ow pr x = find (\<lambda>r. ?P (fact_key r)) (mb_facts x)" for x
    by (simp add: find_same_def fact_key_def)
  obtain new where new: "map fact_key (mb_facts s') = map fact_key (mb_facts s) @ new"
    using assms(1) by (auto simp: steady_def)
  obtain r' where "find_same c ot ow pr s' = Some r'" "fact_key r' = fact_key r"
    using find_keyed [of fact_key "mb_facts s'" "mb_facts s" new ?P r, OF new] assms(2) unfolding f by blast
  then show ?thesis by (simp add: fact_key_def)
qed

lemma owner_for_steady:
  assumes "steady s s'"
  shows "owner_for c user tenant s' = owner_for c user tenant s"
proof -
  let ?P = "\<lambda>(i::uuid, k, a). k = project_key_of c \<and> a"
  let ?find = "\<lambda>x. find (\<lambda>p. ?P (project_key p)) (mb_projects x)"
  have f: "find (\<lambda>p. pj_key p = project_key_of c \<and> pj_active p) (mb_projects x) = ?find x" for x
    by (simp add: project_key_def)
  have k: "map project_key (mb_projects s') = map project_key (mb_projects s)" using assms by (simp add: steady_def)
  have "map_option pj_id (?find s') = map_option pj_id (?find s)"
  proof (cases "?find s")
    case None
    then show ?thesis using find_keyed_None [OF k, of ?P] by simp
  next
    case (Some p)
    then obtain q where "?find s' = Some q" "project_key q = project_key p"
      using find_keyed [of project_key "mb_projects s'" "mb_projects s" "[]" ?P p] k by auto
    then show ?thesis using Some by (simp add: project_key_def)
  qed
  then show ?thesis unfolding owner_for_def f by (auto split: FactScope.splits option.splits)
qed

section \<open>Settled candidates\<close>

definition settled :: "uuid option \<Rightarrow> uuid option \<Rightarrow> FactDTO \<Rightarrow> memory \<Rightarrow> bool" where
  "settled user tenant c s \<longleftrightarrow>
     (case owner_for c user tenant s of (ot, ow, pr) \<Rightarrow>
        (ow = None \<and> pr = None)
        \<or> (\<exists>r. find_same c ot ow pr s = Some r \<and> evidence_keys (fm_evidence (fd_meta c)) \<subseteq> observed (mb_obs s) (fd_id r)))"

lemma settled_iff:
  "owner_for c user tenant s = (ot, ow, pr) \<Longrightarrow> settled user tenant c s \<longleftrightarrow> ow = None \<and> pr = None
     \<or> (\<exists>r. find_same c ot ow pr s = Some r \<and> evidence_keys (fm_evidence (fd_meta c)) \<subseteq> observed (mb_obs s) (fd_id r))"
  by (simp add: settled_def)

lemma settled_steady:
  assumes "settled user tenant c s" "steady s s'"
  shows "settled user tenant c s'"
proof -
  obtain ot ow pr where o: "owner_for c user tenant s = (ot, ow, pr)" by (metis prod_cases3)
  have o': "owner_for c user tenant s' = (ot, ow, pr)" using owner_for_steady [OF assms(2)] o by simp
  show ?thesis
  proof (cases "ow = None \<and> pr = None")
    case True
    then show ?thesis by (simp add: settled_iff [OF o'])
  next
    case False
    then obtain r where "find_same c ot ow pr s = Some r" "evidence_keys (fm_evidence (fd_meta c)) \<subseteq> observed (mb_obs s) (fd_id r)"
      using assms(1) unfolding settled_iff [OF o] by blast
    moreover from this obtain r' where "find_same c ot ow pr s' = Some r'" "fd_id r' = fd_id r"
      using find_same_steady [OF assms(2)] by blast
    moreover have "observed (mb_obs s) (fd_id r) \<subseteq> observed (mb_obs s') (fd_id r)" using assms(2) by (simp add: steady_def)
    ultimately show ?thesis unfolding settled_iff [OF o'] by (metis subset_trans)
  qed
qed

lemma settled_quiet:
  assumes "settled user tenant c s"
  shows "reconcile_one user tenant sb now c s = Inr (s, [])"
proof -
  obtain ot ow pr where o: "owner_for c user tenant s = (ot, ow, pr)" by (metis prod_cases3)
  show ?thesis
  proof (cases "ow = None \<and> pr = None")
    case True
    then show ?thesis by (simp add: reconcile_one_def o)
  next
    case False
    then obtain r where r: "find_same c ot ow pr s = Some r"
      and e: "evidence_keys (fm_evidence (fd_meta c)) \<subseteq> observed (mb_obs s) (fd_id r)"
      using assms by (auto simp: settled_def o)
    have "fact_for c tenant ot ow pr sb s = Inr (s, r)" by (simp add: fact_for_def r)
    then show ?thesis using False add_observations_none [OF e] by (auto simp: reconcile_one_def o)
  qed
qed

definition replacing :: "FactDTO \<Rightarrow> bool" where
  "replacing c \<longleftrightarrow> fm_action (fd_meta c) \<in> {''rewrite'', ''supersede''}"

lemma fact_for_steady:
  assumes "fact_for c tenant ot ow pr sb s = Inr (s1, r)" "\<not> replacing c"
  shows "steady s s1 \<and> find_same c ot ow pr s1 = Some r \<and> mb_obs s1 = mb_obs s \<and> mb_projects s1 = mb_projects s"
  using assms(1)
proof (cases rule: fact_for_cases)
  case new
  have "supersede_by c r = id" using assms(2) by (intro ext) (auto simp: supersede_by_def replaced_def replacing_def)
  then have s1: "mb_facts s1 = mb_facts s @ [r]" "mb_obs s1 = mb_obs s" "mb_projects s1 = mb_projects s"
    by (simp_all add: new(4))
  have id: "fd_id r = mb_next s" by (simp add: new(2) new_fact_def)
  have "find P (xs @ [x]) = Some x" if "find P xs = None" "P x" for P :: "fact_row \<Rightarrow> bool" and xs x
    using that by (induction xs) (auto split: if_splits)
  then have "find_same c ot ow pr s1 = Some r"
    using new(1) unfolding find_same_def s1(1) by (auto simp: new(2) new_fact_def)
  then show ?thesis using new(3) id by (simp add: steady_def s1)
qed simp

lemma find_same_id:
  assumes "find_same c ot ow pr s = Some r"
  shows "r \<in> set (mb_facts s)"
  using assms unfolding find_same_def by (auto dest: find_SomeD)

lemma reconcile_one_settles:
  assumes r: "reconcile_one user tenant sb now c s = Inr (s', ch)" and d: "distinct (map fd_id (mb_facts s))" and nr: "\<not> replacing c"
  shows "steady s s' \<and> settled user tenant c s'"
proof -
  obtain ot ow pr where o: "owner_for c user tenant s = (ot, ow, pr)" by (metis prod_cases3)
  from r o show ?thesis
  proof (cases rule: reconcile_one_cases)
    case ownerless
    then show ?thesis by (simp add: settled_def o)
  next
    case (known s1 x obs)
    note f = fact_for_steady [OF known(1) nr] and e = add_observations_effect [OF known(2)]
    have st: "steady s s'" using f e by (auto simp: known(3) steady_def)
    have "find_same c ot ow pr s' = find_same c ot ow pr s1" by (simp add: known(3) find_same_def)
    moreover have "observed (mb_obs s') (fd_id x) = observed (mb_obs s1) (fd_id x) \<union> evidence_keys (fm_evidence (fd_meta c))"
      using e by (simp add: known(3))
    moreover have "owner_for c user tenant s' = (ot, ow, pr)" using owner_for_steady [OF st] o by simp
    ultimately have "settled user tenant c s'" using f by (simp add: settled_iff)
    with st show ?thesis by blast
  next
    case (reinforced s1 x obs n x')
    note f = fact_for_steady [OF reinforced(1) nr] and e = add_observations_effect [OF reinforced(2)]
    have x: "x \<in> set (mb_facts s1)" using f find_same_id by blast
    have "distinct (map fd_id (mb_facts s1))" using f d by (simp add: steady_def)
    then have only: "y = x" if "y \<in> set (mb_facts s1)" "fd_id y = fd_id x" for y
      using that x by (auto simp: distinct_map dest: inj_onD)
    have kx: "fact_key x' = fact_key x" by (simp add: reinforced(4) fact_key_def)
    have keys: "map fact_key (mb_facts s') = map fact_key (mb_facts s1)"
      using only kx by (auto simp: reinforced(5))
    have ids: "map fd_id (mb_facts s') = map fd_id (mb_facts s1)"
      using arg_cong [OF keys, of "map fst"] by (simp add: fact_key_def comp_def)
    obtain g where g: "mb_projects s' = map g (mb_projects s1)"
      "\<forall>p. pj_id (g p) = pj_id p \<and> pj_key (g p) = pj_key p \<and> pj_active (g p) = pj_active p" using reinforced(10) by blast
    have s1: "steady s1 s'"
      using keys ids g e f reinforced(6) by (auto simp: steady_def project_key_def comp_def)
    then have st: "steady s s'" using f steady_trans by blast
    obtain y where "find_same c ot ow pr s' = Some y" "fd_id y = fd_id x" using find_same_steady [OF s1] f by blast
    moreover have "observed (mb_obs s') (fd_id x) = observed (mb_obs s1) (fd_id x) \<union> evidence_keys (fm_evidence (fd_meta c))"
      using e by (simp add: reinforced(6))
    moreover have "owner_for c user tenant s' = (ot, ow, pr)" using owner_for_steady [OF st] o by simp
    ultimately have "settled user tenant c s'" by (auto simp: settled_iff)
    with st show ?thesis by blast
  qed
qed

lemma reconcile_all_settles:
  assumes "reconcile_all user tenant sb now cs s = Inr (s', ch)" "distinct (map fd_id (mb_facts s))" "\<forall>c\<in>set cs. \<not> replacing c"
  shows "steady s s' \<and> (\<forall>c\<in>set cs. settled user tenant c s')"
  using assms
proof (induction cs arbitrary: s ch)
  case (Cons c cs)
  obtain s1 ch1 ch2 where r: "reconcile_one user tenant sb now c s = Inr (s1, ch1)" "reconcile_all user tenant sb now cs s1 = Inr (s', ch2)"
    using Cons.prems(1) by (auto simp: accept_simps)
  have one: "steady s s1 \<and> settled user tenant c s1" using reconcile_one_settles [OF r(1)] Cons.prems by simp
  then have "distinct (map fd_id (mb_facts s1))" using Cons.prems(2) by (simp add: steady_def)
  then have "steady s1 s' \<and> (\<forall>c\<in>set cs. settled user tenant c s')" using Cons.IH [OF r(2)] Cons.prems(3) by simp
  then show ?case using one settled_steady steady_trans by (metis set_ConsD)
qed simp

lemma settled_all_quiet:
  "\<forall>c\<in>set cs. settled user tenant c s \<Longrightarrow> reconcile_all user tenant sb now cs s = Inr (s, [])"
  by (induction cs) (simp_all add: settled_quiet accept_simps)

text \<open>The catalogue of projects after \<open>ensure_projects\<close>.\<close>

definition catalogued :: "memory \<Rightarrow> FactDTO \<Rightarrow> bool" where
  "catalogued s c \<longleftrightarrow> fd_scope c \<noteq> ProjectScope \<or> project_key_of c = [] \<or> project_key_of c \<in> pj_key ` set (mb_projects s)"

lemma ensure_project_known: "catalogued s c \<Longrightarrow> ensure_project c s = s"
  by (auto simp: catalogued_def ensure_project_def Let_def)

lemma ensure_project_catalogues: "catalogued (ensure_project c s) c"
  by (auto simp: catalogued_def ensure_project_def Let_def fresh_id_def)

lemma ensure_project_keeps: "catalogued s d \<Longrightarrow> catalogued (ensure_project c s) d"
  by (auto simp: catalogued_def ensure_project_def Let_def fresh_id_def)

lemma ensure_projects_catalogue: "\<forall>c\<in>set cs. catalogued (ensure_projects cs s) c"
proof -
  have keep: "catalogued s d \<Longrightarrow> catalogued (fold ensure_project cs s) d" for d s
    by (induction cs arbitrary: s) (auto intro: ensure_project_keeps)
  show ?thesis
    unfolding ensure_projects_def
  proof (induction cs arbitrary: s)
    case (Cons c cs)
    have keep: "catalogued s d \<Longrightarrow> catalogued (fold ensure_project cs s) d" for d s
      by (induction cs arbitrary: s) (auto intro: ensure_project_keeps)
    show ?case using Cons.IH keep [OF ensure_project_catalogues] by simp
  qed simp
qed

lemma ensure_projects_known: "\<forall>c\<in>set cs. catalogued s c \<Longrightarrow> ensure_projects cs s = s"
  by (induction cs) (simp_all add: ensure_projects_def ensure_project_known)

lemma catalogued_steady: "catalogued s c \<Longrightarrow> steady s s' \<Longrightarrow> catalogued s' c"
proof -
  assume c: "catalogued s c" and "steady s s'"
  then have "map project_key (mb_projects s') = map project_key (mb_projects s)" by (simp add: steady_def)
  from arg_cong [OF this, of "map (\<lambda>(i, k, a). k)"] have "map pj_key (mb_projects s') = map pj_key (mb_projects s)"
    by (simp add: project_key_def comp_def)
  from arg_cong [OF this, of set] show "catalogued s' c" using c by (simp add: catalogued_def)
qed

end
