(* ===== verification/Memory_Selection.thy ===== *)
theory Memory_Selection
  imports Memory_Learning
begin

text \<open>
  Reading the memory: the selection of facts for a prompt is bounded and hides no contradiction, the
  profile handed to planner and agents fits its budget, and the store keeps one active fact per slot.
\<close>

section \<open>Selection\<close>

abbreviation rk_id :: "RankedFact \<Rightarrow> uuid" where
  "rk_id i \<equiv> fd_id (rk_fact i)"

abbreviation rk_key :: "RankedFact \<Rightarrow> string \<times> string" where
  "rk_key i \<equiv> (fd_subject (rk_fact i), normalize_value (fd_value (rk_fact i)))"

lemma select_new_simps [simp]:
  "select_new sel [] = sel"
  "select_new sel (i # is) = select_new (if rk_id i \<in> rk_id ` set sel then sel else sel @ [i]) is"
  by (simp_all add: select_new_def)

lemma select_new_effect:
  "\<exists>new. select_new sel xs = sel @ new \<and> set new \<subseteq> set xs \<and> length new \<le> length xs
     \<and> rk_id ` set (sel @ new) = rk_id ` set sel \<union> rk_id ` set xs
     \<and> (distinct (map rk_id sel) \<longrightarrow> distinct (map rk_id (sel @ new)))"
proof (induction xs arbitrary: sel)
  case (Cons x xs)
  show ?case
  proof (cases "rk_id x \<in> rk_id ` set sel")
    case True
    from Cons.IH [of sel] obtain new where n: "select_new sel xs = sel @ new" "set new \<subseteq> set xs" "length new \<le> length xs"
      "rk_id ` set (sel @ new) = rk_id ` set sel \<union> rk_id ` set xs"
      "distinct (map rk_id sel) \<longrightarrow> distinct (map rk_id (sel @ new))" by blast
    show ?thesis using True n by (intro exI [of _ new]) auto
  next
    case False
    from Cons.IH [of "sel @ [x]"] obtain new where n: "select_new (sel @ [x]) xs = (sel @ [x]) @ new" "set new \<subseteq> set xs"
      "length new \<le> length xs" "rk_id ` set ((sel @ [x]) @ new) = rk_id ` set (sel @ [x]) \<union> rk_id ` set xs"
      "distinct (map rk_id (sel @ [x])) \<longrightarrow> distinct (map rk_id ((sel @ [x]) @ new))" by blast
    show ?thesis using False n by (intro exI [of _ "x # new"]) (auto simp: image_iff)
  qed
qed simp

lemma first_occurrences_props [simp]:
  "set (first_occurrences xs) = set xs" "distinct (first_occurrences xs)"
  by (induction xs) auto

lemma best_of_props:
  assumes "items \<noteq> []"
  shows "best_of items \<in> set items \<and> (\<forall>i\<in>set items. rk_score i \<le> rk_score (best_of items))"
proof -
  obtain b bs where s: "sort_key (\<lambda>i. - rk_score i) items = b # bs"
    using assms by (cases "sort_key (\<lambda>i. - rk_score i) items") (auto dest: arg_cong [of _ _ length])
  have "sorted (map (\<lambda>i. - rk_score i) (b # bs))" using sorted_sort_key [of "\<lambda>i. - rk_score i" items] s by simp
  moreover have "set items = set (b # bs)" using s by (metis set_sort)
  ultimately show ?thesis using s by (auto simp: best_of_def)
qed

text \<open>The representatives of a subject: one for each of its values, the best-ranked of the facts that have it.\<close>

lemma representatives_keys:
  "map rk_key (representatives items s) = map (\<lambda>v. (s, v))
     (first_occurrences (map (\<lambda>i. normalize_value (fd_value (rk_fact i))) (filter (\<lambda>i. fd_subject (rk_fact i) = s) items)))"
  (is "_ = map _ (first_occurrences ?vals)")
proof -
  let ?mine = "filter (\<lambda>i. fd_subject (rk_fact i) = s) items"
  let ?of = "\<lambda>v. filter (\<lambda>i. normalize_value (fd_value (rk_fact i)) = v) ?mine"
  have "rk_key (best_of (?of v)) = (s, v)" if "v \<in> set ?vals" for v
  proof -
    from that have "?of v \<noteq> []" by (auto simp: filter_empty_conv)
    from best_of_props [OF this] show ?thesis by auto
  qed
  then show ?thesis unfolding representatives_def Let_def map_map comp_def by (intro map_cong) simp_all
qed

lemma representatives_best:
  assumes "i \<in> set items" "fd_subject (rk_fact i) = s"
  shows "\<exists>j\<in>set (representatives items s). rk_key j = rk_key i \<and> rk_score i \<le> rk_score j \<and> j \<in> set items"
proof -
  let ?mine = "filter (\<lambda>i. fd_subject (rk_fact i) = s) items"
  let ?of = "filter (\<lambda>j. normalize_value (fd_value (rk_fact j)) = normalize_value (fd_value (rk_fact i))) ?mine"
  have m: "i \<in> set ?of" using assms by simp
  then have "?of \<noteq> []" by (metis empty_iff empty_set)
  note b = best_of_props [OF this]
  then have k: "rk_key (best_of ?of) = rk_key i" "rk_score i \<le> rk_score (best_of ?of)" "best_of ?of \<in> set items"
    using m assms(2) by auto
  have "best_of ?of \<in> set (representatives items s)"
    using assms by (auto simp: representatives_def Let_def)
  with k show ?thesis by blast
qed

lemma representatives_sub: "set (representatives items s) \<subseteq> set items"
proof
  fix j assume "j \<in> set (representatives items s)"
  then obtain v where v: "v \<in> (\<lambda>i. normalize_value (fd_value (rk_fact i))) ` set (filter (\<lambda>i. fd_subject (rk_fact i) = s) items)"
      "j = best_of (filter (\<lambda>i. normalize_value (fd_value (rk_fact i)) = v) (filter (\<lambda>i. fd_subject (rk_fact i) = s) items))"
    by (auto simp: representatives_def Let_def)
  then have "filter (\<lambda>i. normalize_value (fd_value (rk_fact i)) = v) (filter (\<lambda>i. fd_subject (rk_fact i) = s) items) \<noteq> []"
    by (auto simp: filter_empty_conv)
  from best_of_props [OF this] v(2) show "j \<in> set items" by auto
qed

lemma representatives_key_set:
  "rk_key ` set (representatives items s) = rk_key ` {i \<in> set items. fd_subject (rk_fact i) = s}"
proof -
  have "rk_key ` set (representatives items s) = set (map rk_key (representatives items s))" by simp
  also have "\<dots> = rk_key ` {i \<in> set items. fd_subject (rk_fact i) = s}"
    unfolding representatives_keys by force
  finally show ?thesis .
qed

text \<open>The values in dispute: those of the usable facts of a contradicted subject.\<close>

definition disputed :: "RankedFact list \<Rightarrow> (string \<times> string) set" where
  "disputed items = {rk_key i |i. i \<in> set items \<and> fd_subject (rk_fact i) \<in> set (contradiction_subjects items)}"

lemma contradiction_subjects_distinct: "distinct (contradiction_subjects items)"
  by (simp add: contradiction_subjects_def Let_def)

lemma all_representatives:
  fixes items defines "reps \<equiv> concat (map (representatives items) (contradiction_subjects items))"
  shows "length reps = card (disputed items)"
proof -
  have "distinct (concat (map (\<lambda>s. map rk_key (representatives items s)) ss))" if "distinct ss" for ss
    using that by (induction ss) (auto simp: representatives_keys distinct_map inj_on_def)
  then have "distinct (map rk_key reps)"
    unfolding reps_def map_concat map_map comp_def using contradiction_subjects_distinct by blast
  then have "length reps = card (rk_key ` set reps)" by (metis distinct_card length_map set_map)
  moreover have "rk_key ` set reps = disputed items"
    by (simp only: reps_def set_concat set_map image_UN image_image representatives_key_set) (auto simp: disputed_def)
  ultimately show ?thesis by simp
qed




text \<open>Two facts of one subject with different values, ranked by a ranker that puts the second last.\<close>

definition demo_fact :: "uuid \<Rightarrow> string \<Rightarrow> string \<Rightarrow> FactStatus \<Rightarrow> FactDTO" where
  "demo_fact i subject val status =
     \<lparr>fd_scope = UserScope, fd_subject = subject, fd_value = val, fd_source = SrcUserUtterance, fd_tenant = None,
      fd_project = None, fd_owner_type = Some ''user'', fd_owner = Some 3, fd_kind = ''fact'', fd_meta = empty_meta,
      fd_confidence = 1, fd_source_ref = None, fd_observed = 5, fd_id = i, fd_superseded = None, fd_visible = True,
      fd_status = status, fd_support = 0, fd_first = None, fd_last = None, fd_revision = 1\<rparr>"

definition demo_ranker :: "string \<Rightarrow> FactDTO list \<Rightarrow> RankedFact list" where
  "demo_ranker q facts = map (\<lambda>f. \<lparr>rk_fact = f, rk_score = 2, rk_hits = 1, rk_stale = False, rk_low = False\<rparr>) facts"

definition demo_facts :: "FactDTO list" where
  "demo_facts = [demo_fact 1 ''name'' ''Ann'' FactConfirmed, demo_fact 2 ''editor'' ''vim'' FactConfirmed,
                 demo_fact 3 ''editor'' ''emacs'' FactConfirmed]"


section \<open>The profile\<close>

definition entry_of :: "FactDTO \<Rightarrow> context_entry" where
  "entry_of f = \<lparr>ce_scope = fd_scope f, ce_kind = fd_kind f, ce_subject = take MAX_PROFILE_ITEM_CHARS (fd_subject f),
     ce_value = take MAX_PROFILE_ITEM_CHARS (fd_value f), ce_confidence = fd_confidence f\<rparr>"

definition entry_chars :: "context_entry \<Rightarrow> nat" where
  "entry_chars e = length (ce_subject e) + length (ce_value e)"

lemma context_from_prefix:
  assumes "used \<le> MAX_PROFILE_CHARS"
  shows "\<exists>k\<le>length facts. context_from used facts = map entry_of (take k facts)
     \<and> used + sum_list (map entry_chars (context_from used facts)) \<le> MAX_PROFILE_CHARS
     \<and> (k < length facts \<longrightarrow> MAX_PROFILE_CHARS < used + sum_list (map entry_chars (context_from used facts)) + entry_chars (entry_of (facts ! k)))"
  using assms
proof (induction facts arbitrary: used)
  case (Cons f fs)
  let ?n = "entry_chars (entry_of f)"
  have n: "?n = length (take MAX_PROFILE_ITEM_CHARS (fd_subject f)) + length (take MAX_PROFILE_ITEM_CHARS (fd_value f))"
    by (simp add: entry_chars_def entry_of_def)
  show ?case
  proof (cases "used + ?n > MAX_PROFILE_CHARS")
    case True
    then have "context_from used (f # fs) = []" by (simp add: n Let_def)
    then show ?thesis using True Cons.prems by (intro exI [of _ 0]) simp
  next
    case False
    then obtain k where k: "k \<le> length fs" "context_from (used + ?n) fs = map entry_of (take k fs)"
      "used + ?n + sum_list (map entry_chars (context_from (used + ?n) fs)) \<le> MAX_PROFILE_CHARS"
      "k < length fs \<longrightarrow> MAX_PROFILE_CHARS < used + ?n + sum_list (map entry_chars (context_from (used + ?n) fs)) + entry_chars (entry_of (fs ! k))"
      using Cons.IH [of "used + ?n"] leI [OF False] by blast
    have "context_from used (f # fs) = entry_of f # context_from (used + ?n) fs"
      using False by (simp add: entry_chars_def Let_def entry_of_def)
    then show ?thesis using k by (intro exI [of _ "Suc k"]) (simp add: add.assoc)
  qed
qed simp

text \<open>
  The profile given to the planner is the longest prefix of the first \<open>limit\<close> entries of the snapshot
  that fits the character budget, with every text cut to its own limit.
\<close>

theorem profile_is_longest_prefix_that_fits:
  "\<exists>k\<le>length (take limit (snapshot_entries snap)).
     planner_context snap limit = map entry_of (take k (take limit (snapshot_entries snap)))
   \<and> sum_list (map entry_chars (planner_context snap limit)) \<le> MAX_PROFILE_CHARS
   \<and> (k = length (take limit (snapshot_entries snap))
      \<or> MAX_PROFILE_CHARS < sum_list (map entry_chars (planner_context snap limit)) + entry_chars (entry_of (snapshot_entries snap ! k)))"
proof -
  obtain k where k: "k \<le> length (take limit (snapshot_entries snap))"
    "planner_context snap limit = map entry_of (take k (take limit (snapshot_entries snap)))"
    "sum_list (map entry_chars (planner_context snap limit)) \<le> MAX_PROFILE_CHARS"
    "k < length (take limit (snapshot_entries snap)) \<longrightarrow>
       MAX_PROFILE_CHARS < sum_list (map entry_chars (planner_context snap limit)) + entry_chars (entry_of (take limit (snapshot_entries snap) ! k))"
    using context_from_prefix [of 0 "take limit (snapshot_entries snap)"]
    unfolding planner_context_def memory_context_def add_0 by blast
  then show ?thesis by (intro exI [of _ k]) (auto simp: le_less)
qed


section \<open>One active fact per slot\<close>

definition live :: "fact_row \<Rightarrow> bool" where
  "live r \<longleftrightarrow> fd_superseded r = None \<and> fd_status r = FactConfirmed"

definition slot :: "fact_row \<Rightarrow> FactScope \<times> string \<times> string option \<times> uuid option" where
  "slot r = (fd_scope r, fd_subject r, fd_owner_type r, fd_owner r)"

definition one_per_slot :: "memory \<Rightarrow> bool" where
  "one_per_slot s \<longleftrightarrow> distinct (map fd_id (mb_facts s))
     \<and> (\<forall>r\<in>set (mb_facts s). \<forall>r'\<in>set (mb_facts s). live r \<longrightarrow> live r' \<longrightarrow> slot r = slot r' \<longrightarrow> fd_id r = fd_id r')"

lemma row_of_dto_fields [simp]:
  "fd_id (row_of_dto d) = fd_id d" "fd_scope (row_of_dto d) = fd_scope d" "fd_subject (row_of_dto d) = fd_subject d"
  "fd_value (row_of_dto d) = fd_value d" "fd_owner_type (row_of_dto d) = fd_owner_type d" "fd_owner (row_of_dto d) = fd_owner d"
  "fd_superseded (row_of_dto d) = fd_superseded d" "fd_status (row_of_dto d) = fd_status d"
  by (simp_all add: row_of_dto_def FactDTO.extend_def)

lemma dto_of_row_fields [simp]: "fd_id (dto_of_row r) = fd_id r" "fd_value (dto_of_row r) = fd_value r"
  by (simp_all add: dto_of_row_def FactDTO.truncate_def)

lemma get_active_by_key_None:
  "get_active_by_key (fd_scope d) (fd_subject d) t i s = None \<Longrightarrow> fd_owner_type d = Some t \<Longrightarrow> fd_owner d = Some i \<Longrightarrow>
   \<forall>r\<in>set (mb_facts s). live r \<longrightarrow> slot r \<noteq> slot (row_of_dto d)"
  by (auto simp: get_active_by_key_def find_None_iff live_def slot_def)

lemma get_active_by_key_Some:
  assumes "get_active_by_key (fd_scope d) (fd_subject d) t i s = Some old" "fd_owner_type d = Some t" "fd_owner d = Some i"
  shows "\<exists>r\<in>set (mb_facts s). live r \<and> slot r = slot (row_of_dto d) \<and> old = dto_of_row r"
  using assms by (auto simp: get_active_by_key_def find_Some_iff live_def slot_def)

text \<open>Updates that leave key and value of every fact alone, and make none live.\<close>

lemma one_per_slot_update:
  assumes "one_per_slot s"
    and "\<And>r. fd_id (f r) = fd_id r" "\<And>r. slot (f r) = slot r" "\<And>r. live (f r) \<longrightarrow> live r"
  shows "one_per_slot (update_facts p f s)"
proof -
  have "map fd_id (mb_facts (update_facts p f s)) = map fd_id (mb_facts s)" by (intro update_facts_ids) (rule assms(2))
  moreover have "\<forall>x\<in>set (mb_facts (update_facts p f s)). \<exists>r\<in>set (mb_facts s). fd_id x = fd_id r \<and> slot x = slot r \<and> (live x \<longrightarrow> live r)"
    using assms(2-4) by (auto simp: update_facts_def)
  ultimately show ?thesis using assms(1) unfolding one_per_slot_def by metis
qed

lemma one_per_slot_insert:
  assumes "one_per_slot s" "fd_id r \<notin> fd_id ` set (mb_facts s)" "\<forall>x\<in>set (mb_facts s). live x \<longrightarrow> slot x \<noteq> slot r"
    and s': "mb_facts s' = mb_facts s @ [r]"
  shows "one_per_slot s' \<and> (\<forall>x\<in>set (mb_facts s'). live x \<and> slot x = slot r \<longrightarrow> x = r)"
proof -
  have "fd_id x = fd_id y" if "x \<in> set (mb_facts s')" "y \<in> set (mb_facts s')" "live x" "live y" "slot x = slot y" for x y
  proof (cases "x = r \<or> y = r")
    case True
    then have "x = y" using that assms(3) s' by (metis Un_iff empty_iff insert_iff list.set set_append)
    then show ?thesis by simp
  next
    case False
    then have "x \<in> set (mb_facts s)" "y \<in> set (mb_facts s)" using that s' by auto
    then show ?thesis using assms(1) that(3-5) unfolding one_per_slot_def by blast
  qed
  moreover have "distinct (map fd_id (mb_facts s'))" using assms(1,2) s' by (simp add: one_per_slot_def)
  moreover have "\<forall>x\<in>set (mb_facts s'). live x \<and> slot x = slot r \<longrightarrow> x = r"
    using assms(3) s' by (metis Un_iff empty_iff insert_iff list.set set_append)
  ultimately show ?thesis unfolding one_per_slot_def by blast
qed

text \<open>
  Upserting a confirmed fact keeps at most one active fact per slot, and the active fact of its own
  slot then has its value; the rows of the table are only added to.
\<close>

theorem upsert_decides_its_slot:
  assumes one: "one_per_slot s" and d: "fd_status d = FactConfirmed" "fd_superseded d = None" "fd_owner_type d = Some t" "fd_owner d = Some i"
    and u: "upsert_with_supersede d s = Inr (s', res)"
  shows "one_per_slot s' \<and> fd_id ` set (mb_facts s) \<subseteq> fd_id ` set (mb_facts s')
     \<and> (\<exists>r\<in>set (mb_facts s'). live r \<and> slot r = slot (row_of_dto d) \<and> values_equivalent (fd_value r) (fd_value d))
     \<and> (\<forall>r\<in>set (mb_facts s'). live r \<and> slot r = slot (row_of_dto d) \<longrightarrow> values_equivalent (fd_value r) (fd_value d))"
proof -
  let ?new = "row_of_dto d" and ?key = "get_active_by_key (fd_scope d) (fd_subject d) t i s"
  have nl: "live ?new" using d by (simp add: live_def)
  consider (insert) "?key = None" "store_add d s = Inr s'"
    | (refresh) old where "?key = Some old" "values_equivalent (fd_value old) (fd_value d)"
        "s' = update_facts (\<lambda>r. fd_id r = fd_id old)
           (\<lambda>r. r\<lparr>fd_observed := fd_observed d, fd_confidence := max (fd_confidence old) (fd_confidence d)\<rparr>) s"
    | (replace) old s1 where "?key = Some old" "store_add d s = Inr s1" "s' = mark_superseded (fd_id old) (fd_id d) s1"
    using u d by (auto simp: upsert_with_supersede_def accept_simps split: option.splits if_splits)
  then show ?thesis
  proof cases
    case insert
    then have s': "mb_facts s' = mb_facts s @ [?new]" and fresh: "fd_id d \<notin> fd_id ` set (mb_facts s)"
      using insert_fact_Inr [of ?new s s'] by (auto simp: store_add_def)
    note ins = one_per_slot_insert [OF one _ get_active_by_key_None [OF insert(1) d(3,4)] s']
    have "one_per_slot s'" and only: "\<forall>x\<in>set (mb_facts s'). live x \<and> slot x = slot ?new \<longrightarrow> x = ?new"
      using ins fresh by simp_all
    then show ?thesis using nl s' by (auto simp: values_equivalent_def)
  next
    case (refresh old)
    obtain r where r: "r \<in> set (mb_facts s)" "live r" "slot r = slot ?new" "old = dto_of_row r"
      using get_active_by_key_Some [OF refresh(1) d(3,4)] by blast
    define f where "f = (\<lambda>r::fact_row. r\<lparr>fd_observed := fd_observed d, fd_confidence := max (fd_confidence old) (fd_confidence d)\<rparr>)"
    have f: "fd_id (f x) = fd_id x" "slot (f x) = slot x" "live (f x) \<longleftrightarrow> live x" "fd_value (f x) = fd_value x" for x
      by (simp_all add: f_def slot_def live_def)
    have s': "s' = update_facts (\<lambda>r. fd_id r = fd_id old) f s" using refresh(3) by (simp add: f_def)
    have "x = r" if "x \<in> set (mb_facts s)" "live x" "slot x = slot ?new" for x
    proof -
      have "fd_id x = fd_id r" using one that r(1-3) unfolding one_per_slot_def by metis
      then show ?thesis using one that(1) r(1) unfolding one_per_slot_def distinct_map by (blast dest: inj_onD)
    qed
    moreover have "one_per_slot s'" unfolding s' by (rule one_per_slot_update [OF one]) (simp_all add: f)
    moreover have "fd_id ` set (mb_facts s) \<subseteq> fd_id ` set (mb_facts s')"
      using update_facts_ids [of s "\<lambda>r. fd_id r = fd_id old" f] by (simp add: s' f flip: set_map)
    moreover have r': "f r \<in> set (mb_facts s') \<and> live (f r) \<and> slot (f r) = slot ?new \<and> fd_value (f r) = fd_value old"
      using r f by (auto simp: s' update_facts_def)
    moreover have "fd_value x = fd_value old" if x: "x \<in> set (mb_facts s')" "live x" "slot x = slot ?new" for x
    proof -
      obtain y where y: "y \<in> set (mb_facts s)" "x = f y \<or> x = y" using x(1) by (auto simp: s' update_facts_def)
      then have "live y" "slot y = slot ?new" "fd_value x = fd_value y" using x(2,3) f by metis+
      then show ?thesis using \<open>\<And>x. x \<in> set (mb_facts s) \<Longrightarrow> live x \<Longrightarrow> slot x = slot ?new \<Longrightarrow> x = r\<close> y(1) r(4) by simp
    qed
    ultimately show ?thesis using refresh(2) by metis
  next
    case (replace old s1)
    obtain r where r: "r \<in> set (mb_facts s)" "live r" "slot r = slot ?new" "old = dto_of_row r"
      using get_active_by_key_Some [OF replace(1) d(3,4)] by blast
    have s1: "mb_facts s1 = mb_facts s @ [?new]" and fresh: "fd_id d \<notin> fd_id ` set (mb_facts s)"
      using insert_fact_Inr [of ?new s s1] replace(2) by (auto simp: store_add_def)
    have ne: "fd_id r \<noteq> fd_id d" using fresh r(1) by (metis imageI)
    have same: "fd_id x = fd_id r" if "x \<in> set (mb_facts s)" "live x" "slot x = slot ?new" for x
      using one that r(1-3) unfolding one_per_slot_def by metis
    define f where "f = (\<lambda>x::fact_row. x\<lparr>fd_superseded := Some (fd_id d)\<rparr>)"
    have f: "fd_id (f x) = fd_id x" "slot (f x) = slot x" "\<not> live (f x)" for x by (simp_all add: f_def slot_def live_def)
    let ?p = "\<lambda>x. fd_id x = fd_id r \<and> fd_superseded x = None" and ?u = "update_facts (\<lambda>x. fd_id x = fd_id r \<and> fd_superseded x = None) f s"
    have s': "mb_facts s' = mb_facts ?u @ [?new]"
      using ne by (simp add: replace(3) mark_superseded_def update_facts_def s1 r(4) f_def)
    have ids: "map fd_id (mb_facts ?u) = map fd_id (mb_facts s)" by (intro update_facts_ids) (rule f)
    have "one_per_slot ?u" by (rule one_per_slot_update [OF one]) (simp_all add: f)
    moreover have "fd_id ?new \<notin> fd_id ` set (mb_facts ?u)" using fresh ids by (metis list.set_map row_of_dto_fields(1))
    moreover have "\<forall>x\<in>set (mb_facts ?u). live x \<longrightarrow> slot x \<noteq> slot ?new"
    proof (intro ballI impI notI)
      fix x assume x: "x \<in> set (mb_facts ?u)" "live x" "slot x = slot ?new"
      then obtain y where y: "y \<in> set (mb_facts s)" "x = (if ?p y then f y else y)" by (auto simp: update_facts_def)
      then have "x = y" "\<not> ?p y" using x(2) f(3) by (metis (full_types))+
      then show False using same [of y] y(1) x by (simp add: live_def)
    qed
    ultimately have ins: "one_per_slot s'" "\<forall>x\<in>set (mb_facts s'). live x \<and> slot x = slot ?new \<longrightarrow> x = ?new"
      using one_per_slot_insert [OF _ _ _ s'] by blast+
    moreover have "?new \<in> set (mb_facts s')" by (simp add: s')
    moreover have "fd_id ` set (mb_facts s) \<subseteq> fd_id ` set (mb_facts s')" using arg_cong [OF ids, of set] s' by auto
    ultimately show ?thesis using nl by (metis row_of_dto_fields(4) values_equivalent_def)
  qed
qed


definition demo_profile :: memory where
  "demo_profile = \<lparr>mb_facts = [row_of_dto (demo_fact 2 ''editor'' ''vim'' FactConfirmed)], mb_obs = [], mb_projects = [],
     mb_terms = [], mb_term_obs = [], mb_next = 9\<rparr>"

theorem upsert_decides_its_slot_witness:
  "map fd_value (filter live (mb_facts (fst (projr (upsert_with_supersede (demo_fact 3 ''editor'' ''emacs'' FactConfirmed) demo_profile))))) = [''emacs'']
   \<and> one_per_slot (fst (projr (upsert_with_supersede (demo_fact 3 ''editor'' ''emacs'' FactConfirmed) demo_profile)))"
proof
  show "map fd_value (filter live (mb_facts (fst (projr (upsert_with_supersede (demo_fact 3 ''editor'' ''emacs'' FactConfirmed) demo_profile))))) = [''emacs'']"
    by code_simp
  have ok: "\<not> isl (upsert_with_supersede (demo_fact 3 ''editor'' ''emacs'' FactConfirmed) demo_profile)" by code_simp
  have one: "one_per_slot demo_profile" by (simp add: demo_profile_def one_per_slot_def)
  let ?r = "projr (upsert_with_supersede (demo_fact 3 ''editor'' ''emacs'' FactConfirmed) demo_profile)"
  have u: "upsert_with_supersede (demo_fact 3 ''editor'' ''emacs'' FactConfirmed) demo_profile = Inr (fst ?r, snd ?r)"
    using ok by simp
  have d: "fd_status (demo_fact 3 ''editor'' ''emacs'' FactConfirmed) = FactConfirmed" "fd_superseded (demo_fact 3 ''editor'' ''emacs'' FactConfirmed) = None"
    "fd_owner_type (demo_fact 3 ''editor'' ''emacs'' FactConfirmed) = Some ''user''" "fd_owner (demo_fact 3 ''editor'' ''emacs'' FactConfirmed) = Some 3"
    by (simp_all add: demo_fact_def)
  show "one_per_slot (fst ?r)" using upsert_decides_its_slot [OF one d u] by (rule conjunct1)
qed

text \<open>Upserting pending facts one after the other, each under its own identifier.\<close>

fun upsert_all :: "FactDTO list \<Rightarrow> memory \<Rightarrow> memory_error + memory" where
  "upsert_all [] s = Inr s"
| "upsert_all (d # ds) s = bindE (upsert_with_supersede d s) (\<lambda>(s', _). upsert_all ds s')"

text \<open>
  The lookup for the fact to refresh sees confirmed facts only. Repeating a pending fact, the status
  a transport has by default, therefore inserts a row each time instead of refreshing the first.
\<close>

theorem pending_upserts_pile_up:
  assumes "\<forall>d\<in>set ds. fd_status d = FactPending \<and> fd_owner_type d = Some t \<and> fd_owner d = Some i \<and> fd_scope d = sc \<and> fd_subject d = sub"
    and "get_active_by_key sc sub t i s = None" and "upsert_all ds s = Inr s'"
  shows "mb_facts s' = mb_facts s @ map row_of_dto ds"
  using assms
proof (induction ds arbitrary: s)
  case (Cons d ds)
  obtain s1 where s1: "store_add d s = Inr s1" "upsert_all ds s1 = Inr s'"
    using Cons.prems by (auto simp: upsert_with_supersede_def accept_simps)
  have f: "mb_facts s1 = mb_facts s @ [row_of_dto d]"
    using insert_fact_Inr [of "row_of_dto d" s s1] s1(1) by (auto simp: store_add_def)
  then have "get_active_by_key sc sub t i s1 = None"
    using Cons.prems by (auto simp: get_active_by_key_def find_None_iff)
  moreover have "\<forall>d\<in>set ds. fd_status d = FactPending \<and> fd_owner_type d = Some t \<and> fd_owner d = Some i \<and> fd_scope d = sc \<and> fd_subject d = sub"
    using Cons.prems(1) by simp
  ultimately have "mb_facts s' = mb_facts s1 @ map row_of_dto ds" using s1(2) by (intro Cons.IH)
  then show ?case by (simp add: f)
qed simp

theorem pending_upserts_pile_up_witness:
  "map fd_value (mb_facts (projr (upsert_all [demo_fact 4 ''name'' ''Ann'' FactPending, demo_fact 5 ''name'' ''Ann'' FactPending] demo_profile)))
     = [''vim'', ''Ann'', ''Ann'']"
proof -
  let ?ds = "[demo_fact 4 ''name'' ''Ann'' FactPending, demo_fact 5 ''name'' ''Ann'' FactPending]"
  have ok: "\<not> isl (upsert_all ?ds demo_profile)" by code_simp
  have none: "get_active_by_key UserScope ''name'' ''user'' 3 demo_profile = None" by code_simp
  have all: "\<forall>d\<in>set ?ds. fd_status d = FactPending \<and> fd_owner_type d = Some ''user'' \<and> fd_owner d = Some 3
      \<and> fd_scope d = UserScope \<and> fd_subject d = ''name''"
    by (simp add: demo_fact_def)
  from pending_upserts_pile_up [OF all none, of "projr (upsert_all ?ds demo_profile)"] ok
  have "mb_facts (projr (upsert_all ?ds demo_profile)) = mb_facts demo_profile @ map row_of_dto ?ds" by simp
  then show ?thesis by (simp add: demo_profile_def demo_fact_def)
qed

end
