(* ===== verification/Memory_Theorems.thy ===== *)
theory Memory_Theorems
  imports Memory_Settled Memory_Selection
begin

text \<open>
  The properties of learning: what is confirmed rests on distinct sources, reconciling again changes
  nothing, the compactor loses no candidate, a manual edit decides its subject, and what semantic
  replacement does not achieve.
\<close>

section \<open>Knowledge rests on evidence\<close>

text \<open>The steps of the memory: the end of a turn, a manual edit, forgetting, replacing, migrating.\<close>

inductive memory_step :: "memory \<Rightarrow> memory \<Rightarrow> bool" where
  turn: "\<forall>c\<in>set cands. \<not> fm_marked (fd_meta c) \<Longrightarrow>
     compact_and_write llm user tenant evidence marked cands now s = Inr (s', changes, n) \<Longrightarrow> memory_step s s'"
| edit: "replace_user_fact uuid_str i user subject val now s = Inr (s', res) \<Longrightarrow> memory_step s s'"
| forgotten: "memory_step s (forget i s)"
| disowned: "memory_step s (fst (forget_owned owner_type owner ids s))"
| superseded: "memory_step s (mark_superseded old new s)"
| migrated: "memory_step s (fst (reassign_tenant_context a b s))"

lemma memory_step_learns: "memory_step s s' \<Longrightarrow> learns\<^sup>*\<^sup>* s s'"
proof (induction rule: memory_step.induct)
  case (turn cands llm user tenant evidence marked now s s' changes n)
  then show ?case using compact_and_write_learns by blast
next
  case (edit uuid_str i user subject val now s s' res)
  then show ?case by (intro r_into_rtranclp learns.edit)
qed (auto simp: forget_def forget_owned_def mark_superseded_def reassign_tenant_context_def
       intro!: r_into_rtranclp detach move)

lemma memory_steps_learn: "memory_step\<^sup>*\<^sup>* s s' \<Longrightarrow> learns\<^sup>*\<^sup>* s s'"
  by (induction rule: rtranclp_induct) (auto dest: memory_step_learns)

text \<open>A memory that knows projects but has learned nothing yet.\<close>

definition blank :: "memory \<Rightarrow> bool" where
  "blank s \<longleftrightarrow> mb_facts s = [] \<and> mb_obs s = [] \<and> mb_terms s = [] \<and> mb_term_obs s = []"

lemma blank_rests:
  assumes "blank s"
  shows "memory_wf s" "learned_facts.counted s" "learned_facts.earned s" "learned_terms.counted s" "learned_terms.earned s"
  using assms
  by (auto simp: blank_def memory_wf_def learned_facts.counted_def learned_facts.earned_def learned_terms.counted_def
      learned_terms.earned_def fact_support_def term_support_def fact_confirmed_def term_confirmed_def fact_at_def term_at_def)


definition demo_candidate :: "string list \<Rightarrow> FactDTO" where
  "demo_candidate refs =
     \<lparr>fd_scope = TenantScope, fd_subject = ''database'', fd_value = ''Postgres'', fd_source = SrcToolResult,
      fd_tenant = Some 9, fd_project = None, fd_owner_type = None, fd_owner = None, fd_kind = ''fact'',
      fd_meta = empty_meta\<lparr>fm_evidence := map (\<lambda>x. \<lparr>ei_type = ''tool_result'', ei_ref = x, ei_support_ref = None, ei_label = None\<rparr>) refs\<rparr>,
      fd_confidence = 1, fd_source_ref = None, fd_observed = 5, fd_id = 0, fd_superseded = None,
      fd_visible = True, fd_status = FactPending, fd_support = 0, fd_first = None, fd_last = None, fd_revision = 1\<rparr>"

definition demo_blank :: memory where
  "demo_blank = \<lparr>mb_facts = [], mb_obs = [], mb_projects = [], mb_terms = [], mb_term_obs = [], mb_next = 1\<rparr>"

definition demo_turn :: "string list \<Rightarrow> memory \<Rightarrow> memory" where
  "demo_turn refs s = fst (projr (compact_and_write (\<lambda>_ _. None) (Some 3) (Some 9) [] [] [demo_candidate refs] 5 s))"

lemma demo_turn_step:
  "\<not> isl (compact_and_write (\<lambda>_ _. None) (Some 3) (Some 9) [] [] [demo_candidate refs] 5 s) \<Longrightarrow> memory_step s (demo_turn refs s)"
  by (rule turn [of "[demo_candidate refs]" "\<lambda>_ _. None" "Some 3" "Some 9" "[]" "[]" 5 s _
        "fst (snd (projr (compact_and_write (\<lambda>_ _. None) (Some 3) (Some 9) [] [] [demo_candidate refs] 5 s)))"
        "snd (snd (projr (compact_and_write (\<lambda>_ _. None) (Some 3) (Some 9) [] [] [demo_candidate refs] 5 s)))"])
    (auto simp: demo_turn_def demo_candidate_def empty_meta_def intro: projr_eq)


section \<open>Reconciling again\<close>



section \<open>Compaction\<close>

lemma merge_evidence_keys: "evidence_keys (merge_evidence es seen) = evidence_keys es - seen"
  by (induction es arbitrary: seen) auto

lemma evidence_keys_append [simp]: "evidence_keys (xs @ ys) = evidence_keys xs \<union> evidence_keys ys"
  by (auto simp: evidence_keys_def)

lemma merged_fact_evidence:
  assumes "c \<in> set matches"
  shows "evidence_keys (fm_evidence (fd_meta c)) \<subseteq> evidence_keys (fm_evidence (fd_meta (merged_fact matches current out i now)))"
proof -
  have "evidence_keys (fm_evidence (fd_meta c)) \<subseteq> evidence_keys (concat (map (\<lambda>m. fm_evidence (fd_meta m)) matches))"
    using assms by (induction matches) auto
  then show ?thesis by (simp add: merged_fact_def Let_def merge_evidence_keys)
qed

text \<open>The model's answer accounts for a candidate: it discards it by index, or merges it with all its sources.\<close>

definition accounted :: "FactDTO list \<Rightarrow> CompactedFact list \<Rightarrow> FactDTO list \<Rightarrow> nat \<Rightarrow> bool" where
  "accounted semantic outs ds j \<longleftrightarrow> j < length semantic \<and>
     (\<exists>out\<in>set outs. int j \<in> set (cf_sources out)
        \<and> (cf_action out = ActDiscard
           \<or> (\<exists>d\<in>set ds. fm_action (fd_meta d) = action_value (cf_action out)
                \<and> evidence_keys (fm_evidence (fd_meta (semantic ! j))) \<subseteq> evidence_keys (fm_evidence (fd_meta d)))))"

lemma accounted_mono: "accounted semantic outs ds j \<Longrightarrow> set outs \<subseteq> set outs' \<Longrightarrow> set ds \<subseteq> set ds' \<Longrightarrow> accounted semantic outs' ds' j"
  unfolding accounted_def by blast

lemma valid_indexes_iff: "j \<in> set (valid_indexes n is) \<longleftrightarrow> j < n \<and> int j \<in> set is"
  by (force simp: valid_indexes_def image_iff)

lemma compact_outputs_account:
  "compact_outputs semantic current outs now s = (ds, seen, s') \<Longrightarrow> j \<in> seen \<Longrightarrow> accounted semantic outs ds j"
proof (induction outs arbitrary: s ds seen s')
  case (Cons out outs)
  let ?idx = "valid_indexes (length semantic) (cf_sources out)" and ?m = "map (\<lambda>k. semantic ! k) (valid_indexes (length semantic) (cf_sources out))"
  have rest: "accounted semantic (out # outs) ds j"
    if "compact_outputs semantic current outs now t = (es, seen', t')" "j \<in> seen'" "set es \<subseteq> set ds" for t es seen' t'
    by (rule accounted_mono [OF Cons.IH [OF that(1,2)]]) (use that(3) in auto)
  consider (none) "?m = []" | (discard) "?m \<noteq> []" "cf_action out = ActDiscard" | (merge) "?m \<noteq> []" "cf_action out \<noteq> ActDiscard" by blast
  then show ?case
  proof cases
    case none
    then have "compact_outputs semantic current outs now s = (ds, seen, s')" using Cons.prems(1) by (simp add: Let_def)
    then show ?thesis using rest Cons.prems(2) by blast
  next
    case discard
    then obtain seen' where r: "compact_outputs semantic current outs now s = (ds, seen', s')" "seen = set ?idx \<union> seen'"
      using Cons.prems(1) by (auto simp: Let_def split: prod.splits if_splits)
    show ?thesis
    proof (cases "j \<in> set ?idx")
      case True
      then show ?thesis using discard(2) by (auto simp: accounted_def valid_indexes_iff)
    next
      case False
      then show ?thesis using rest [OF r(1)] r(2) Cons.prems(2) by blast
    qed
  next
    case merge
    obtain es seen' s2 where r: "compact_outputs semantic current outs now (snd (fresh_id s)) = (es, seen', s2)" by (metis prod_cases3)
    have ds: "ds = merged_fact ?m current out (mb_next s) now # es" and seen: "seen = set ?idx \<union> seen'"
      using Cons.prems(1) merge r by (auto simp: Let_def fresh_id_def split: prod.splits if_splits)
    show ?thesis
    proof (cases "j \<in> set ?idx")
      case True
      then have "evidence_keys (fm_evidence (fd_meta (semantic ! j))) \<subseteq> evidence_keys (fm_evidence (fd_meta (hd ds)))"
        unfolding ds list.sel by (intro merged_fact_evidence) simp
      moreover have "fm_action (fd_meta (hd ds)) = action_value (cf_action out)" unfolding ds by (simp add: merged_fact_def Let_def)
      ultimately show ?thesis using True unfolding accounted_def valid_indexes_iff ds by (metis list.sel(1) list.set_intros(1))
    next
      case False
      then show ?thesis using rest [OF r] seen Cons.prems(2) ds by (metis UnE set_subset_Cons)
    qed
  qed
qed simp

text \<open>
  C18. Compaction loses no candidate: it comes through unchanged, or the model referred to it by its index
  and either discarded it or merged it into a fact that carries all its sources. A failed call and an
  empty or invalid answer lose nothing.
\<close>

theorem compaction_accounts_for_every_candidate:
  fixes llm cands current now s
  defines "semantic \<equiv> filter (\<lambda>c. \<not> exact_match current c) cands" and "ds \<equiv> fst (compact llm cands current now s)"
  assumes c: "c \<in> set cands"
  shows "c \<in> set ds \<or> (\<exists>outs j. llm semantic current = Some outs \<and> semantic ! j = c \<and> accounted semantic outs ds j)"
proof (cases "exact_match current c \<or> llm semantic current = None")
  case True
  then show ?thesis using c
    by (auto simp: ds_def compact_def Let_def semantic_def filter_empty_conv split: option.splits prod.splits)
next
  case False
  then obtain outs where outs: "llm semantic current = Some outs" by blast
  have "c \<in> set semantic" using c False by (simp add: semantic_def)
  then obtain j where j: "j < length semantic" "semantic ! j = c" by (metis in_set_conv_nth)
  obtain es seen s2 where r: "compact_outputs semantic current outs now s = (es, seen, s2)" by (metis prod_cases3)
  have ds: "set ds = set (filter (exact_match current) cands) \<union> set es \<union> {semantic ! k |k. k < length semantic \<and> k \<notin> seen}"
    using c j(1) outs r by (auto simp: ds_def compact_def Let_def semantic_def [symmetric] image_iff)
  show ?thesis
  proof (cases "j \<in> seen")
    case True
    have "accounted semantic outs ds j" by (rule accounted_mono [OF compact_outputs_account [OF r True]]) (auto simp: ds)
    then show ?thesis using outs j(2) by blast
  next
    case False
    then have "c \<in> set ds" using j unfolding ds by blast
    then show ?thesis by simp
  qed
qed

text \<open>A model that merges the first two candidates and forgets the third.\<close>

definition demo_merge :: "FactDTO list \<Rightarrow> FactDTO list \<Rightarrow> CompactedFact list option" where
  "demo_merge semantic current =
     Some [\<lparr>cf_subject = ''database'', cf_value = ''Postgres'', cf_sources = [0, 1, 7], cf_action = ActMerge, cf_targets = []\<rparr>]"

theorem compaction_accounts_for_every_candidate_witness:
  "(demo_candidate [''a''] \<in> set (fst (compact demo_merge [demo_candidate [''a''], demo_candidate [''b''], demo_candidate [''c'']] [] 5 demo_blank))
    \<or> (\<exists>outs j. demo_merge (filter (\<lambda>c. \<not> exact_match [] c) [demo_candidate [''a''], demo_candidate [''b''], demo_candidate [''c'']]) [] = Some outs
         \<and> filter (\<lambda>c. \<not> exact_match [] c) [demo_candidate [''a''], demo_candidate [''b''], demo_candidate [''c'']] ! j = demo_candidate [''a'']
         \<and> accounted (filter (\<lambda>c. \<not> exact_match [] c) [demo_candidate [''a''], demo_candidate [''b''], demo_candidate [''c'']]) outs
              (fst (compact demo_merge [demo_candidate [''a''], demo_candidate [''b''], demo_candidate [''c'']] [] 5 demo_blank)) j))
   \<and> map (\<lambda>d. map ei_ref (fm_evidence (fd_meta d)))
        (fst (compact demo_merge [demo_candidate [''a''], demo_candidate [''b''], demo_candidate [''c'']] [] 5 demo_blank)) = [[''a'', ''b''], [''c'']]"
proof
  show "demo_candidate [''a''] \<in> set (fst (compact demo_merge [demo_candidate [''a''], demo_candidate [''b''], demo_candidate [''c'']] [] 5 demo_blank))
    \<or> (\<exists>outs j. demo_merge (filter (\<lambda>c. \<not> exact_match [] c) [demo_candidate [''a''], demo_candidate [''b''], demo_candidate [''c'']]) [] = Some outs
         \<and> filter (\<lambda>c. \<not> exact_match [] c) [demo_candidate [''a''], demo_candidate [''b''], demo_candidate [''c'']] ! j = demo_candidate [''a'']
         \<and> accounted (filter (\<lambda>c. \<not> exact_match [] c) [demo_candidate [''a''], demo_candidate [''b''], demo_candidate [''c'']]) outs
              (fst (compact demo_merge [demo_candidate [''a''], demo_candidate [''b''], demo_candidate [''c'']] [] 5 demo_blank)) j)"
    by (rule compaction_accounts_for_every_candidate) simp
qed code_simp

section \<open>Replacement\<close>

definition link :: "fact_row \<Rightarrow> uuid \<times> uuid option" where
  "link r = (fd_id r, fd_superseded r)"

text \<open>Every row keeps its link, and new rows have none.\<close>

definition keeps_links :: "memory \<Rightarrow> memory \<Rightarrow> bool" where
  "keeps_links s s' \<longleftrightarrow> (\<exists>new. map link (mb_facts s') = map link (mb_facts s) @ new \<and> (\<forall>x\<in>set new. snd x = None))
     \<and> mb_next s \<le> mb_next s' \<and> (distinct (map fd_id (mb_facts s)) \<longrightarrow> distinct (map fd_id (mb_facts s')))
     \<and> fd_id ` set (mb_facts s') \<subseteq> fd_id ` set (mb_facts s) \<union> {mb_next s..}"

lemma keeps_linksD:
  assumes "keeps_links s s'"
  shows "\<exists>new. map link (mb_facts s') = map link (mb_facts s) @ new \<and> (\<forall>x\<in>set new. snd x = None)"
    and "mb_next s \<le> mb_next s'" and "distinct (map fd_id (mb_facts s)) \<Longrightarrow> distinct (map fd_id (mb_facts s'))"
    and "fd_id ` set (mb_facts s') \<subseteq> fd_id ` set (mb_facts s) \<union> {mb_next s..}"
  using assms by (simp_all add: keeps_links_def)

lemma keeps_links_refl: "mb_facts s' = mb_facts s \<Longrightarrow> mb_next s \<le> mb_next s' \<Longrightarrow> keeps_links s s'"
  by (simp add: keeps_links_def)

lemma keeps_links_ids: "keeps_links s s' \<Longrightarrow> fd_id ` set (mb_facts s) \<subseteq> fd_id ` set (mb_facts s')"
proof -
  assume "keeps_links s s'"
  then obtain new where "map link (mb_facts s') = map link (mb_facts s) @ new" using keeps_linksD(1) by blast
  from arg_cong [OF this, of "map fst"] have "map fd_id (mb_facts s') = map fd_id (mb_facts s) @ map fst new"
    by (simp add: link_def comp_def)
  from arg_cong [OF this, of set] show ?thesis by auto
qed

lemma later_ids: "m \<le> n \<Longrightarrow> B \<subseteq> A \<union> {m..} \<Longrightarrow> C \<subseteq> B \<union> {n..} \<Longrightarrow> C \<subseteq> A \<union> {m..}" for m n :: nat
proof -
  assume "m \<le> n" and sub: "B \<subseteq> A \<union> {m..}" "C \<subseteq> B \<union> {n..}"
  from \<open>m \<le> n\<close> have "{n..} \<subseteq> {m..}" by simp
  then have "{n..} \<subseteq> A \<union> {m..}" by (rule le_supI2)
  with sub(1) have "B \<union> {n..} \<subseteq> A \<union> {m..}" by (rule Un_least)
  with sub(2) show "C \<subseteq> A \<union> {m..}" by (rule order_trans)
qed

lemma keeps_links_trans: "keeps_links a b \<Longrightarrow> keeps_links b c \<Longrightarrow> keeps_links a c"
proof -
  assume ab: "keeps_links a b" and bc: "keeps_links b c"
  obtain n where n: "map link (mb_facts b) = map link (mb_facts a) @ n" "\<forall>x\<in>set n. snd x = None" using keeps_linksD(1) [OF ab] by blast
  obtain m where m: "map link (mb_facts c) = map link (mb_facts b) @ m" "\<forall>x\<in>set m. snd x = None" using keeps_linksD(1) [OF bc] by blast
  have "\<exists>k. map link (mb_facts c) = map link (mb_facts a) @ k \<and> (\<forall>x\<in>set k. snd x = None)"
    using n m by (intro exI [of _ "n @ m"]) auto
  moreover have "mb_next a \<le> mb_next c" using keeps_linksD(2) [OF ab] keeps_linksD(2) [OF bc] by linarith
  moreover have "distinct (map fd_id (mb_facts a)) \<longrightarrow> distinct (map fd_id (mb_facts c))"
    using keeps_linksD(3) [OF ab] keeps_linksD(3) [OF bc] by simp
  moreover have "fd_id ` set (mb_facts c) \<subseteq> fd_id ` set (mb_facts a) \<union> {mb_next a..}"
    using keeps_linksD(2,4) [OF ab] keeps_linksD(4) [OF bc] by (rule later_ids)
  ultimately show "keeps_links a c" unfolding keeps_links_def by (intro conjI)
qed

text \<open>The targets of a candidate name no stored fact, now or later.\<close>

definition untargeted :: "memory \<Rightarrow> FactDTO \<Rightarrow> bool" where
  "untargeted s c \<longleftrightarrow> (\<forall>i. Some i \<in> set (fm_targets (fd_meta c)) \<longrightarrow> i \<notin> fd_id ` set (mb_facts s) \<and> i < mb_next s)"

lemma untargeted_later: "untargeted s c \<Longrightarrow> keeps_links s s' \<Longrightarrow> untargeted s' c"
proof -
  assume u: "untargeted s c" and k: "keeps_links s s'"
  have sub: "fd_id ` set (mb_facts s') \<subseteq> fd_id ` set (mb_facts s) \<union> {mb_next s..}" and n: "mb_next s \<le> mb_next s'"
    using keeps_linksD(2,4) [OF k] by simp_all
  show "untargeted s' c"
    unfolding untargeted_def
  proof (intro allI impI)
    fix i assume "Some i \<in> set (fm_targets (fd_meta c))"
    then have "i \<notin> fd_id ` set (mb_facts s)" "i < mb_next s" using u by (simp_all add: untargeted_def)
    then show "i \<notin> fd_id ` set (mb_facts s') \<and> i < mb_next s'" using sub n by (meson UnE atLeast_iff leD less_le_trans subsetD)
  qed
qed

lemma reconcile_one_keeps_links:
  assumes r: "reconcile_one user tenant sb now c s = Inr (s', ch)" and d: "distinct (map fd_id (mb_facts s))" and u: "untargeted s c"
  shows "keeps_links s s'"
proof -
  obtain ot ow pr where o: "owner_for c user tenant s = (ot, ow, pr)" by (metis prod_cases3)
  have fo: "keeps_links s s1 \<and> x \<in> set (mb_facts s1)" if "fact_for c tenant ot ow pr sb s = Inr (s1, x)" for s1 x
    using that
  proof (cases rule: fact_for_cases)
    case same
    then show ?thesis using find_same_id by (simp add: keeps_links_refl)
  next
    case new
    have "supersede_by c x y = y" if "y \<in> set (mb_facts s)" for y
      using u that by (auto simp: supersede_by_def replaced_def untargeted_def)
    then have "mb_facts s1 = mb_facts s @ [x]" using new(4) by (simp add: map_idI)
    moreover have "link x = (mb_next s, None)" by (simp add: new(2) new_fact_def link_def)
    moreover have "mb_next s1 = Suc (mb_next s)" by (simp add: new(4))
    ultimately show ?thesis using new(3) by (auto simp: keeps_links_def link_def)
  qed
  from r o show ?thesis
  proof (cases rule: reconcile_one_cases)
    case ownerless
    then show ?thesis by (simp add: keeps_links_refl)
  next
    case (known s1 x obs)
    have "keeps_links s1 s'" by (rule keeps_links_refl) (simp_all add: known(3))
    then show ?thesis using fo [OF known(1)] keeps_links_trans by blast
  next
    case (reinforced s1 x obs n x')
    note f = fo [OF reinforced(1)]
    have "distinct (map fd_id (mb_facts s1))" using f d by (simp add: keeps_links_def)
    then have only: "y = x" if "y \<in> set (mb_facts s1)" "fd_id y = fd_id x" for y
      using that f by (auto simp: distinct_map dest: inj_onD)
    have "link x' = link x" by (simp add: reinforced(4) link_def)
    then have links: "map link (mb_facts s') = map link (mb_facts s1)" using only by (auto simp: reinforced(5))
    from arg_cong [OF this, of "map fst"] have ids: "map fd_id (mb_facts s') = map fd_id (mb_facts s1)"
      by (simp add: link_def comp_def)
    have "fd_id ` set (mb_facts s') = fd_id ` set (mb_facts s1)" using arg_cong [OF ids, of set] by simp
    then have "keeps_links s1 s'" using links ids reinforced(9) by (simp add: keeps_links_def)
    then show ?thesis using f keeps_links_trans by blast
  qed
qed

lemma reconcile_all_keeps_links:
  "reconcile_all user tenant sb now cs s = Inr (s', ch) \<Longrightarrow> distinct (map fd_id (mb_facts s)) \<Longrightarrow> \<forall>c\<in>set cs. untargeted s c \<Longrightarrow>
   keeps_links s s'"
proof (induction cs arbitrary: s ch)
  case (Cons c cs)
  obtain s1 ch1 ch2 where r: "reconcile_one user tenant sb now c s = Inr (s1, ch1)" "reconcile_all user tenant sb now cs s1 = Inr (s', ch2)"
    using Cons.prems(1) by (auto simp: accept_simps)
  have k: "keeps_links s s1" using reconcile_one_keeps_links [OF r(1)] Cons.prems by simp
  then have "distinct (map fd_id (mb_facts s1))" "\<forall>c\<in>set cs. untargeted s1 c"
    using Cons.prems untargeted_later by (auto simp: keeps_links_def)
  then show ?case using Cons.IH [OF r(2)] k keeps_links_trans by blast
qed (simp add: keeps_links_refl)


lemma glossary_apply_facts:
  assumes "glossary_apply cs user tenant now s = (s', n)"
  shows "mb_facts s' = mb_facts s"
proof -
  have "mb_facts (fst (term_for c scope owner s)) = mb_facts s" for c scope owner s
    by (cases "find_term scope owner (fd_subject c) s") (simp_all add: term_for_def Let_def fresh_id_def)
  then have tf: "mb_facts s1 = mb_facts s" if "term_for c scope owner s = (s1, g)" for c scope owner s s1 g
    using that by (metis fst_conv)
  have one: "mb_facts (fst (glossary_one user tenant now c st)) = mb_facts (fst st)" for c st
    by (cases st, cases "term_owner c user tenant") (auto simp: glossary_one_def Let_def tf split: prod.splits)
  have "mb_facts (fst (fold (glossary_one user tenant now) cs st)) = mb_facts (fst st)" for st
    by (induction cs arbitrary: st) (simp_all add: one)
  from this [of "(s, 0)"] show ?thesis using assms by (simp add: glossary_apply_def)
qed

text \<open>The identifiers the compactor sees: fresh ones for facts, those of the terms for terms.\<close>

lemma dtos_of_rows_ids:
  "dtos_of_rows now rs s = (ds, s') \<Longrightarrow> fd_id ` set ds \<subseteq> {mb_next s..<mb_next s'}"
proof (induction rs arbitrary: s ds s')
  case (Cons r rs)
  obtain es where e: "dtos_of_rows now rs (snd (fresh_id s)) = (es, s')" "ds = dto_without_id (mb_next s) now r # es"
    using Cons.prems by (auto simp: fresh_id_def split: prod.splits)
  have "mb_next (snd (fresh_id s)) \<le> mb_next s'" using dtos_of_rows_quiet [OF e(1)] by (simp add: bookkeeping_def)
  then show ?case using Cons.IH [OF e(1)] by (auto simp: e(2) fresh_id_def dto_without_id_def)
qed simp

lemma named_apart:
  fixes m k :: nat
  assumes "D \<subseteq> {m..<k}" "E \<subseteq> G" "F \<subseteq> {..<m}" "G \<subseteq> {..<m}" "F \<inter> G = {}" "m \<le> k"
  shows "(D \<union> E) \<inter> F = {} \<and> D \<union> E \<subseteq> {..<k}"
proof -
  have e: "{m..<k} \<inter> {..<m} = {}" "{m..<k} \<subseteq> {..<k}" "{..<m} \<subseteq> {..<k}" using assms(6) by auto
  have "D \<inter> F = {}" using Int_mono [OF assms(1,3)] unfolding e(1) by (rule subset_empty [THEN iffD1])
  moreover have "E \<inter> F = {}" using Int_mono [OF assms(2) order_refl, of F] assms(5) by (simp add: Int_commute)
  moreover have "D \<subseteq> {..<k}" using assms(1) e(2) by (rule subset_trans)
  moreover have "E \<subseteq> {..<k}" using subset_trans [OF subset_trans [OF assms(2,4)] e(3)] .
  ultimately show ?thesis by (simp add: Int_Un_distrib2)
qed

lemma current_ids_name_no_fact:
  assumes "memory_wf s" and "current_for user tenant keys now s = (fs, s2)"
  shows "fd_id ` set (fs @ glossary_current user tenant now s2) \<inter> fd_id ` set (mb_facts s) = {}
    \<and> fd_id ` set (fs @ glossary_current user tenant now s2) \<subseteq> {..<mb_next s2}"
proof -
  have b: "bookkeeping s s2" using current_for_quiet [OF assms(2)] .
  have f: "fd_id ` set fs \<subseteq> {mb_next s..<mb_next s2}"
    using assms(2) unfolding current_for_def Let_def by (rule dtos_of_rows_ids)
  have g: "fd_id ` set (glossary_current user tenant now s2) \<subseteq> gl_id ` set (mb_terms s)"
    using b by (auto simp: glossary_current_def glossary_dto_def bookkeeping_def)
  have "fd_id ` set (mb_facts s) \<subseteq> {..<mb_next s}" "gl_id ` set (mb_terms s) \<subseteq> {..<mb_next s}"
    "fd_id ` set (mb_facts s) \<inter> gl_id ` set (mb_terms s) = {}" "mb_next s \<le> mb_next s2"
    using assms(1) b by (auto simp: memory_wf_def bookkeeping_def)
  with f g show ?thesis unfolding set_append image_Un by (intro named_apart)
qed

text \<open>
  C36. A fact is never replaced through the compactor. The compactor chooses the facts to replace by the
  identifiers of what it is shown, and \<open>_dto\<close> shows it every fact under a new identifier; whatever the
  model answers, after a turn every stored fact is superseded exactly when it was before, and every new
  fact is active beside the facts it was to replace.
\<close>

theorem semantic_replacement_never_happens:
  assumes wf: "memory_wf s" and plain: "\<forall>c\<in>set cands. fm_targets (fd_meta c) = []"
    and w: "compact_and_write llm user tenant evidence marked cands now s = Inr (s', changes, n)"
  shows "\<exists>new. map (\<lambda>r. (fd_id r, fd_superseded r)) (mb_facts s')
           = map (\<lambda>r. (fd_id r, fd_superseded r)) (mb_facts s) @ map (\<lambda>i. (i, None)) new"
proof -
  obtain projects s0 where p: "project_candidate_facts evidence tenant now marked s = (projects, s0)" by fastforce
  let ?all = "cands @ projects"
  let ?keys = "map (\<lambda>c. fm_project_key (fd_meta c)) (filter (\<lambda>c. fd_scope c = ProjectScope) ?all)"
  let ?s1 = "ensure_projects ?all s0"
  obtain fs s2 where c: "current_for user tenant ?keys now ?s1 = (fs, s2)" by fastforce
  let ?current = "fs @ glossary_current user tenant now s2"
  obtain ds s3 where k: "compact llm ?all ?current now s2 = (ds, s3)" by fastforce
  note pe = project_candidate_facts_effect [OF p] and ce = compact_effect [OF k]
  have link_None: "\<exists>new. map link (mb_facts t) = map link (mb_facts s) @ map (\<lambda>i. (i, None)) new" if kt: "keeps_links s t" for t
  proof -
    obtain new where "map link (mb_facts t) = map link (mb_facts s) @ new" "\<forall>x\<in>set new. snd x = None"
      using keeps_linksD(1) [OF kt] by blast
    moreover from this(2) have "new = map (\<lambda>i. (i, None)) (map fst new)" by (induction new) auto
    ultimately show ?thesis by metis
  qed
  have "\<exists>t. keeps_links s t \<and> mb_facts s' = mb_facts t"
  proof (cases "?all = []")
    case True
    then have "s' = s0" using w p by (simp add: compact_and_write_def Let_def)
    then show ?thesis using pe keeps_links_refl [of s0 s] by (auto simp: bookkeeping_def)
  next
    case False
    let ?ds = "filter (\<lambda>c. fd_kind c \<noteq> ''glossary'') ds"
    note w' = w [unfolded compact_and_write_def Let_def p prod.case c k if_not_P [OF False]]
    obtain s4 ch where a: "apply_with_changes ?ds user tenant False now s3 = Inr (s4, ch)"
      using w' by (auto simp: accept_simps)
    obtain s5 m where g5: "glossary_apply (filter (\<lambda>c. fd_kind c = ''glossary'') ds) user tenant now s4 = (s5, m)"
      by fastforce
    have g: "glossary_apply (filter (\<lambda>c. fd_kind c = ''glossary'') ds) user tenant now s4 = (s', m)"
      using w' by (simp add: a g5)
    have b1: "bookkeeping s ?s1" using pe ensure_projects_quiet [of s0 ?all] by (meson bookkeeping_trans)
    have b2: "bookkeeping ?s1 s2" by (rule current_for_quiet [OF c])
    have b4: "bookkeeping s2 (ensure_projects ?ds s3)"
      using ce ensure_projects_quiet [of s3 ?ds] by (meson bookkeeping_trans)
    have wf1: "memory_wf ?s1" using wf b1 by (intro memory_wf_ids [OF wf]) (auto simp: bookkeeping_def memory_wf_def)
    note ids = current_ids_name_no_fact [OF wf1 c]
    have "untargeted (ensure_projects ?ds s3) d" if "d \<in> set ds" for d
    proof -
      have "fm_targets (fd_meta d) = [] \<or> set (fm_targets (fd_meta d)) \<subseteq> Some ` fd_id ` set ?current"
        using ce that plain pe by (metis Un_iff set_append)
      moreover have "mb_facts (ensure_projects ?ds s3) = mb_facts ?s1" "mb_next s2 \<le> mb_next (ensure_projects ?ds s3)"
        using b2 b4 by (simp_all add: bookkeeping_def)
      ultimately show ?thesis using ids unfolding untargeted_def by fastforce
    qed
    then have "\<forall>d\<in>set ?ds. untargeted (ensure_projects ?ds s3) d" by (metis filter_is_subset subsetD)
    moreover have "distinct (map fd_id (mb_facts (ensure_projects ?ds s3)))"
      using wf1 b2 b4 by (simp add: bookkeeping_def memory_wf_def)
    moreover have "reconcile_all user tenant False now ?ds (ensure_projects ?ds s3) = Inr (s4, ch)"
      using a by (simp add: apply_with_changes_def)
    ultimately have "keeps_links (ensure_projects ?ds s3) s4" by (intro reconcile_all_keeps_links)
    moreover have "keeps_links s (ensure_projects ?ds s3)"
      using b1 b2 b4 by (intro keeps_links_refl) (simp_all add: bookkeeping_def)
    ultimately have "keeps_links s s4" by (meson keeps_links_trans)
    then show ?thesis using glossary_apply_facts [OF g] by blast
  qed
  then obtain t where t: "keeps_links s t" "mb_facts s' = mb_facts t" by blast
  show ?thesis using link_None [OF t(1)] unfolding t(2) link_def [abs_def] .
qed


text \<open>A model that wants the only stored fact replaced.\<close>

definition demo_supersede :: "FactDTO list \<Rightarrow> FactDTO list \<Rightarrow> CompactedFact list option" where
  "demo_supersede semantic current =
     Some [\<lparr>cf_subject = ''database'', cf_value = ''Oracle'', cf_sources = [0], cf_action = ActSupersede, cf_targets = [0]\<rparr>]"

theorem semantic_replacement_never_happens_witness:
  "\<exists>new. map (\<lambda>r. (fd_id r, fd_superseded r))
       (mb_facts (fst (projr (compact_and_write demo_supersede (Some 3) (Some 9) [] [] [(demo_candidate [''z''])\<lparr>fd_value := ''Oracle''\<rparr>] 6
          (demo_turn [''a'', ''b'', ''c''] demo_blank)))))
     = map (\<lambda>r. (fd_id r, fd_superseded r)) (mb_facts (demo_turn [''a'', ''b'', ''c''] demo_blank)) @ map (\<lambda>i. (i, None)) new"
proof -
  let ?s = "demo_turn [''a'', ''b'', ''c''] demo_blank"
  let ?r = "compact_and_write demo_supersede (Some 3) (Some 9) [] [] [(demo_candidate [''z''])\<lparr>fd_value := ''Oracle''\<rparr>] 6 ?s"
  have "\<not> isl ?r" by code_simp
  then have r: "?r = Inr (fst (projr ?r), fst (snd (projr ?r)), snd (snd (projr ?r)))" by simp
  have "memory_step demo_blank ?s" by (rule demo_turn_step) code_simp
  then have "memory_wf ?s"
    using learned_facts.run_wf [OF memory_step_learns] blank_rests(1) by (simp add: blank_def demo_blank_def)
  moreover have "\<forall>c\<in>set [(demo_candidate [''z''])\<lparr>fd_value := ''Oracle''\<rparr>]. fm_targets (fd_meta c) = []"
    by (simp add: demo_candidate_def empty_meta_def)
  ultimately show ?thesis using r by (rule semantic_replacement_never_happens)
qed

section \<open>Manual edits\<close>

text \<open>
  C37. A manual edit decides its subject: afterwards the new fact, with the given value, is the only
  confirmed active fact of the user for that subject, no row is removed, and the edited fact stays active
  without a link to its successor, as unconfirmed.
\<close>

theorem manual_edit_decides_its_subject:
  assumes wf: "memory_wf s" and e: "replace_user_fact us fid user subject val now s = Inr (s', Some new)"
  shows "new \<in> set (mb_facts s') \<and> live new \<and> fd_value new = val \<and> slot new = (UserScope, subject, Some ''user'', Some user)
     \<and> (\<forall>r\<in>set (mb_facts s'). live r \<and> slot r = slot new \<longrightarrow> r = new)
     \<and> map fd_id (mb_facts s') = map fd_id (mb_facts s) @ [fd_id new]
     \<and> (\<exists>r\<in>set (mb_facts s'). fd_id r = fid \<and> fd_id r \<noteq> fd_id new \<and> fd_status r = FactUnconfirmed \<and> fd_superseded r = None)"
  using e
proof (cases rule: replace_user_fact_cases)
  case absent
  then show ?thesis by simp
next
  case (done' prev new')
  have n: "new' = new" using done'(5) by simp
  note d = done' [unfolded n]
  define u where "u = (\<lambda>r::fact_row. if fd_id r = fid \<or> (fd_owner_type r = Some ''user'' \<and> fd_owner r = Some user
                   \<and> fd_scope r = UserScope \<and> fd_subject r = subject \<and> fd_superseded r = None)
                   then r\<lparr>fd_status := FactUnconfirmed\<rparr> else r)"
  have facts: "mb_facts s' = map u (mb_facts s) @ [new]" using d(17) by (simp add: u_def)
  have sn: "slot new = (UserScope, subject, Some ''user'', Some user)" "live new" using d by (simp_all add: slot_def live_def)
  have idu: "fd_id (u r) = fd_id r" for r by (simp add: u_def)
  have dead: "\<not> (live (u r) \<and> slot (u r) = slot new)" for r
    unfolding sn(1) by (auto simp: u_def live_def slot_def)
  have "\<forall>r\<in>set (mb_facts s'). live r \<and> slot r = slot new \<longrightarrow> r = new" unfolding facts using dead by auto
  moreover have "map fd_id (mb_facts s') = map fd_id (mb_facts s) @ [fd_id new]" unfolding facts by (simp add: idu)
  moreover obtain p where "p \<in> set (mb_facts s)" "fd_id p = fid" "fd_superseded p = None"
  proof (cases "find (\<lambda>r. fd_id r = fid \<and> fd_owner_type r = Some ''user'' \<and> fd_owner r = Some user \<and> fd_superseded r = None) (mb_facts s)")
    case None
    then show ?thesis using e by (simp add: replace_user_fact_def)
  next
    case (Some p)
    then show ?thesis using find_SomeD [OF Some] that by blast
  qed
  then have "u p \<in> set (mb_facts s')" "fd_id (u p) = fid" "fd_status (u p) = FactUnconfirmed" "fd_superseded (u p) = None"
    unfolding facts by (simp_all add: u_def)
  moreover have "fid \<noteq> fd_id new" using d(1,2,6,7) by (metis imageI)
  ultimately show ?thesis using sn d(11) unfolding facts by auto
qed

theorem manual_edit_decides_its_subject_witness:
  "\<exists>s' new. replace_user_fact (\<lambda>_. ''u'') 2 3 ''editor'' ''emacs'' 8 demo_profile = Inr (s', Some new)
     \<and> new \<in> set (mb_facts s') \<and> live new \<and> fd_value new = ''emacs''"
proof -
  let ?r = "replace_user_fact (\<lambda>_. ''u'') 2 3 ''editor'' ''emacs'' 8 demo_profile"
  have "\<not> isl ?r \<and> snd (projr ?r) \<noteq> None" by code_simp
  then have r: "?r = Inr (fst (projr ?r), Some (the (snd (projr ?r))))" by simp
  have wf: "memory_wf demo_profile" by (simp add: memory_wf_def demo_profile_def demo_fact_def)
  from manual_edit_decides_its_subject [OF wf r] r show ?thesis by blast
qed

end
