(* ===== verification/Chat_Turns.thy ===== *)
theory Chat_Turns
  imports Prelude
begin

text \<open>
  The chat turn: its phases (\<open>services/chat_turn_state.py\<close>), its persisted row
  (\<open>models/chat_turn.py\<close>) with the operations of \<open>ChatTurnService\<close>
  (\<open>services/chat_turn_service.py\<close>), the messages of a chat
  (\<open>repositories/chats_repo.py\<close>, \<open>services/chat_persistence_service.py\<close>) and the
  idempotency cache (\<open>core/idempotency.py\<close>).

  A database session has the tables as its transaction sees them and the tables as last committed:
  \<open>flush\<close> writes to the former, \<open>commit\<close> makes them the latter, and closing the session
  (\<open>core/db.py\<close>) discards what was not committed. Redis is outside of the transaction.
\<close>

section \<open>Phases\<close>

datatype TurnPhase = PhInit | PhUserPersisted | PhContextLoaded | PhTriageComplete | PhExecutionStarted
  | PhDeltaStreaming | PhPaused | PhFinalPersisted | PhCompleted | PhError

fun valid_phases :: "TurnPhase \<Rightarrow> TurnPhase list" where
  "valid_phases PhInit = [PhUserPersisted, PhError]"
| "valid_phases PhUserPersisted = [PhContextLoaded, PhError]"
| "valid_phases PhContextLoaded = [PhTriageComplete, PhExecutionStarted, PhError]"
| "valid_phases PhTriageComplete = [PhExecutionStarted, PhError]"
| "valid_phases PhExecutionStarted = [PhDeltaStreaming, PhPaused, PhFinalPersisted, PhError]"
| "valid_phases PhDeltaStreaming = [PhDeltaStreaming, PhPaused, PhFinalPersisted, PhError]"
| "valid_phases PhPaused = [PhCompleted, PhError]"
| "valid_phases PhFinalPersisted = [PhCompleted, PhError]"
| "valid_phases PhCompleted = []"
| "valid_phases PhError = []"

definition phase_terminal :: "TurnPhase \<Rightarrow> bool" where
  "phase_terminal p \<longleftrightarrow> p \<in> {PhCompleted, PhError}"

text \<open>
  A state remembers the phases it went through, the current one first, and whether every move was
  valid; an invalid move is logged and still made.
\<close>

record turn_state =
  ts_phases :: "TurnPhase list"
  ts_valid :: bool

definition turn_init :: turn_state where
  "turn_init = \<lparr>ts_phases = [PhInit], ts_valid = True\<rparr>"

definition turn_phase :: "turn_state \<Rightarrow> TurnPhase" where
  "turn_phase t = hd (ts_phases t)"

definition turn_transition :: "TurnPhase \<Rightarrow> turn_state \<Rightarrow> turn_state" where
  "turn_transition to t =
     t\<lparr>ts_phases := to # ts_phases t, ts_valid := ts_valid t \<and> to \<in> set (valid_phases (turn_phase t))\<rparr>"

definition force_error :: "turn_state \<Rightarrow> turn_state" where
  "force_error t = t\<lparr>ts_phases := PhError # ts_phases t\<rparr>"

section \<open>Tables\<close>

record chat_row =
  ch_id :: uuid
  ch_owner :: uuid
  ch_name :: "string option"

record chat_message =
  cm_id :: uuid
  cm_chat :: uuid
  cm_role :: string
  cm_text :: string
  cm_meta :: jobject
  cm_created :: int

record chat_turn =
  tn_id :: uuid
  tn_chat :: uuid
  tn_user :: uuid
  tn_run :: "uuid option"
  tn_user_msg :: "uuid option"
  tn_asst_msg :: "uuid option"
  tn_key :: "string option"
  tn_hash :: "string option"
  tn_status :: string
  tn_pause :: "string option"
  tn_action :: "jobject option"
  tn_context :: "jobject option"
  tn_error :: "string option"
  tn_started :: int
  tn_paused_at :: "int option"
  tn_completed :: "int option"

record chat_tables =
  cb_chats :: "chat_row list"
  cb_turns :: "chat_turn list"
  cb_messages :: "chat_message list"
  cb_bound :: "(string \<times> uuid) list"

text \<open>The cache maps a key to its expiry and the two message identifiers.\<close>

record chat_session =
  cs_view :: chat_tables
  cs_saved :: chat_tables
  cs_redis :: "(string, int \<times> uuid \<times> uuid) dict"
  cs_next :: uuid

definition cs_commit :: "chat_session \<Rightarrow> chat_session" where
  "cs_commit s = s\<lparr>cs_saved := cs_view s\<rparr>"

definition cs_close :: "chat_session \<Rightarrow> chat_session" where
  "cs_close s = s\<lparr>cs_view := cs_saved s\<rparr>"

definition chat_fresh :: "chat_session \<Rightarrow> uuid \<times> chat_session" where
  "chat_fresh s = (cs_next s, s\<lparr>cs_next := Suc (cs_next s)\<rparr>)"

section \<open>Turn service\<close>

definition hash_payload :: "string \<Rightarrow> string list \<Rightarrow> string" where
  "hash_payload content ids = (if ids = [] then content else content @ ''||artifacts:'' @ join '','' (sort ids))"

definition get_turn :: "uuid \<Rightarrow> chat_session \<Rightarrow> chat_turn option" where
  "get_turn i s = find (\<lambda>t. tn_id t = i) (cb_turns (cs_view s))"

definition add_turn :: "chat_turn \<Rightarrow> chat_session \<Rightarrow> chat_session" where
  "add_turn t s = s\<lparr>cs_view := (cs_view s)\<lparr>cb_turns := cb_turns (cs_view s) @ [t]\<rparr>\<rparr>"

definition start_turn ::
    "uuid \<Rightarrow> uuid \<Rightarrow> string option \<Rightarrow> string option \<Rightarrow> uuid option \<Rightarrow> int \<Rightarrow> chat_session \<Rightarrow> chat_turn \<times> chat_session" where
  "start_turn chat user key hash run now s =
     (let (i, s1) = chat_fresh s;
          t = \<lparr>tn_id = i, tn_chat = chat, tn_user = user, tn_run = run, tn_user_msg = None, tn_asst_msg = None,
               tn_key = key, tn_hash = hash, tn_status = ''started'', tn_pause = None, tn_action = None,
               tn_context = None, tn_error = None, tn_started = now, tn_paused_at = None, tn_completed = None\<rparr>
      in (t, add_turn t s1))"

text \<open>Changing the row of an identifier; \<open>None\<close> when there is none.\<close>

definition change_turn :: "uuid \<Rightarrow> (chat_turn \<Rightarrow> chat_turn) \<Rightarrow> chat_session \<Rightarrow> chat_turn option \<times> chat_session" where
  "change_turn i f s =
     (case get_turn i s of
        None \<Rightarrow> (None, s)
      | Some t \<Rightarrow> (Some (f t), s\<lparr>cs_view := (cs_view s)\<lparr>cb_turns :=
            map (\<lambda>x. if tn_id x = i then f x else x) (cb_turns (cs_view s))\<rparr>\<rparr>))"

definition attach_user_message :: "uuid \<Rightarrow> uuid \<Rightarrow> chat_session \<Rightarrow> chat_turn option \<times> chat_session" where
  "attach_user_message i m = change_turn i (\<lambda>t. t\<lparr>tn_user_msg := Some m\<rparr>)"

definition attach_assistant_message :: "uuid \<Rightarrow> uuid \<Rightarrow> chat_session \<Rightarrow> chat_turn option \<times> chat_session" where
  "attach_assistant_message i m = change_turn i (\<lambda>t. t\<lparr>tn_asst_msg := Some m\<rparr>)"

definition pause_turn ::
    "uuid \<Rightarrow> string \<Rightarrow> uuid option \<Rightarrow> jobject option \<Rightarrow> jobject option \<Rightarrow> int \<Rightarrow> chat_session \<Rightarrow> chat_turn option \<times> chat_session" where
  "pause_turn i reason run action context now = change_turn i (\<lambda>t.
     (case run of None \<Rightarrow> t | Some r \<Rightarrow> t\<lparr>tn_run := Some r\<rparr>)\<lparr>tn_status := ''paused'', tn_pause := Some reason,
        tn_action := action, tn_context := context, tn_paused_at := Some now\<rparr>)"

definition resume_turn :: "uuid \<Rightarrow> chat_session \<Rightarrow> chat_turn option \<times> chat_session" where
  "resume_turn i = change_turn i (\<lambda>t. t\<lparr>tn_status := ''resumed'', tn_pause := None, tn_action := None,
     tn_context := None, tn_paused_at := None\<rparr>)"

definition cancel_turn :: "uuid \<Rightarrow> string \<Rightarrow> int \<Rightarrow> chat_session \<Rightarrow> chat_turn option \<times> chat_session" where
  "cancel_turn i message now = change_turn i (\<lambda>t. t\<lparr>tn_status := ''cancelled'', tn_error := Some message,
     tn_completed := Some now\<rparr>)"

definition complete_turn :: "uuid \<Rightarrow> uuid option \<Rightarrow> int \<Rightarrow> chat_session \<Rightarrow> chat_turn option \<times> chat_session" where
  "complete_turn i m now = change_turn i (\<lambda>t.
     (case m of None \<Rightarrow> t | Some k \<Rightarrow> t\<lparr>tn_asst_msg := Some k\<rparr>)\<lparr>tn_status := ''completed'', tn_pause := None,
        tn_action := None, tn_context := None, tn_paused_at := None, tn_completed := Some now\<rparr>)"

definition fail_turn :: "uuid \<Rightarrow> string \<Rightarrow> int \<Rightarrow> chat_session \<Rightarrow> chat_turn option \<times> chat_session" where
  "fail_turn i message now = change_turn i (\<lambda>t. t\<lparr>tn_status := ''failed'', tn_pause := None, tn_action := None,
     tn_context := None, tn_paused_at := None, tn_error := Some message, tn_completed := Some now\<rparr>)"

text \<open>\<open>ORDER BY started_at DESC LIMIT 1\<close>\<close>

definition latest_turn :: "chat_turn list \<Rightarrow> chat_turn option" where
  "latest_turn ts = (case sort_key (\<lambda>t. - tn_started t) ts of [] \<Rightarrow> None | t # _ \<Rightarrow> Some t)"

definition get_by_runtime_run_id :: "uuid \<Rightarrow> chat_session \<Rightarrow> chat_turn option" where
  "get_by_runtime_run_id run s = latest_turn (filter (\<lambda>t. tn_run t = Some run) (cb_turns (cs_view s)))"

definition get_latest_by_idempotency_key :: "uuid \<Rightarrow> uuid \<Rightarrow> string \<Rightarrow> chat_session \<Rightarrow> chat_turn option" where
  "get_latest_by_idempotency_key chat user key s =
     latest_turn (filter (\<lambda>t. tn_chat t = chat \<and> tn_user t = user \<and> tn_key t = Some key) (cb_turns (cs_view s)))"

definition is_in_flight :: "uuid \<Rightarrow> uuid \<Rightarrow> string \<Rightarrow> chat_session \<Rightarrow> bool" where
  "is_in_flight chat user key s =
     (case get_latest_by_idempotency_key chat user key s of None \<Rightarrow> False | Some t \<Rightarrow> tn_status t = ''started'')"

definition has_payload_mismatch :: "uuid \<Rightarrow> uuid \<Rightarrow> string \<Rightarrow> string \<Rightarrow> chat_session \<Rightarrow> bool" where
  "has_payload_mismatch chat user key hash s =
     (case get_latest_by_idempotency_key chat user key s of None \<Rightarrow> False
      | Some t \<Rightarrow> opt_truthy (tn_hash t) \<and> tn_hash t \<noteq> Some hash)"

section \<open>Messages\<close>

definition create_message :: "uuid \<Rightarrow> string \<Rightarrow> string \<Rightarrow> jobject \<Rightarrow> int \<Rightarrow> chat_session \<Rightarrow> uuid \<times> chat_session" where
  "create_message chat role txt meta now s =
     (let (i, s1) = chat_fresh s;
          m = \<lparr>cm_id = i, cm_chat = chat, cm_role = role, cm_text = txt, cm_meta = meta, cm_created = now\<rparr>
      in (i, s1\<lparr>cs_view := (cs_view s1)\<lparr>cb_messages := cb_messages (cs_view s1) @ [m]\<rparr>\<rparr>))"

definition create_user_message :: "uuid \<Rightarrow> string \<Rightarrow> jobject \<Rightarrow> int \<Rightarrow> chat_session \<Rightarrow> uuid \<times> chat_session" where
  "create_user_message chat content meta now s =
     (let (i, s1) = create_message chat ''user'' content meta now s in (i, cs_commit s1))"

text \<open>
  The metadata of an answer: its sources and attachments, the blocks and the grounding that
  \<open>StructuredAnswerService\<close> derives from them (an argument), and the extra entries.
\<close>

definition answer_meta ::
    "(string \<Rightarrow> json list \<Rightarrow> json list \<Rightarrow> jobject) \<Rightarrow> string \<Rightarrow> json list \<Rightarrow> json list \<Rightarrow> jobject \<Rightarrow> jobject" where
  "answer_meta structured txt sources attachments extra =
     fold (\<lambda>(k, v) d. AList.update k v d)
       (structured txt attachments sources @ extra)
       ((if sources = [] then [] else [(''rag_sources'', JArr sources)])
        @ (if attachments = [] then [] else [(''attachments'', JArr attachments)]))"

definition create_assistant_message ::
    "(string \<Rightarrow> json list \<Rightarrow> json list \<Rightarrow> jobject) \<Rightarrow> uuid \<Rightarrow> string \<Rightarrow> json list \<Rightarrow> json list \<Rightarrow> jobject \<Rightarrow> int
     \<Rightarrow> chat_session \<Rightarrow> uuid \<times> chat_session" where
  "create_assistant_message structured chat content sources attachments extra now s =
     (let (i, s1) = create_message chat ''assistant'' content (answer_meta structured content sources attachments extra) now s
      in (i, cs_commit s1))"

text \<open>The most recent messages, oldest first, that the model sees.\<close>

definition load_chat_context :: "uuid \<Rightarrow> nat \<Rightarrow> chat_session \<Rightarrow> (string \<times> string) list" where
  "load_chat_context chat limit s =
     map (\<lambda>m. (cm_role m, cm_text m)) (filter (\<lambda>m. cm_role m \<in> {''user'', ''assistant''})
       (rev (take limit (sort_key (\<lambda>m. - cm_created m) (filter (\<lambda>m. cm_chat m = chat) (cb_messages (cs_view s)))))))"

section \<open>Idempotency\<close>

definition redis_key :: "string \<Rightarrow> string" where
  "redis_key key = ''chat:message:'' @ key"

definition get_cached_result :: "string \<Rightarrow> int \<Rightarrow> chat_session \<Rightarrow> (uuid \<times> uuid) option" where
  "get_cached_result key now s =
     (case map_of (cs_redis s) (redis_key key) of
        None \<Rightarrow> None | Some (expiry, ids) \<Rightarrow> if now < expiry then Some ids else None)"

definition IDEMPOTENCY_TTL :: int where "IDEMPOTENCY_TTL = 86400"

definition store_idempotency :: "string \<Rightarrow> uuid \<Rightarrow> uuid \<Rightarrow> int \<Rightarrow> chat_session \<Rightarrow> chat_session" where
  "store_idempotency key user_msg asst_msg now s =
     s\<lparr>cs_redis := AList.update (redis_key key) (now + IDEMPOTENCY_TTL, user_msg, asst_msg) (cs_redis s)\<rparr>"

datatype idem_state = IdemConflict | IdemProcessing | IdemCompleted uuid uuid

definition check_turn_idempotency ::
    "(string \<Rightarrow> string) \<Rightarrow> string \<Rightarrow> uuid \<Rightarrow> uuid \<Rightarrow> string \<Rightarrow> string list \<Rightarrow> chat_session \<Rightarrow> idem_state option" where
  "check_turn_idempotency digest key chat user content ids s =
     (if has_payload_mismatch chat user key (digest (hash_payload content ids)) s then Some IdemConflict
      else case get_latest_by_idempotency_key chat user key s of
             None \<Rightarrow> None
           | Some t \<Rightarrow>
               if tn_status t = ''started'' then Some IdemProcessing
               else if tn_status t = ''completed''
               then (case (tn_user_msg t, tn_asst_msg t) of (Some u, Some a) \<Rightarrow> Some (IdemCompleted u a) | _ \<Rightarrow> None)
               else None)"

end
