(* ===== verification/Json_Text.thy ===== *)
theory Json_Text
  imports Prelude
begin

text \<open>
  JSON text as the sources make it for fingerprints,
  \<open>json.dumps(value, sort_keys=True, separators=(",", ":"), ensure_ascii=False)\<close>
  (\<open>agents/runtime/confirmation.py\<close>, \<open>runtime/memory/tool_ledger.py\<close>), and Python's
  \<open>==\<close> on JSON values. The argument \<open>fl\<close> writes a float.
\<close>

section \<open>Strings\<close>

definition quote_char :: char where "quote_char = char_of (34 :: nat)"

definition backslash :: char where "backslash = char_of (92 :: nat)"

definition hex_digit :: "nat \<Rightarrow> char" where
  "hex_digit n = (if n < 10 then char_of (48 + n) else char_of (87 + n))"

text \<open>The escapes of \<open>json.encoder\<close>: quote, backslash and the control characters.\<close>

definition escape_char :: "char \<Rightarrow> string" where
  "escape_char c = (let n = of_char c :: nat in
     if c = quote_char then [backslash, quote_char]
     else if c = backslash then [backslash, backslash]
     else if n = 10 then [backslash, CHR ''n'']
     else if n = 13 then [backslash, CHR ''r'']
     else if n = 9 then [backslash, CHR ''t'']
     else if n = 12 then [backslash, CHR ''f'']
     else if n = 8 then [backslash, CHR ''b'']
     else if n < 32 then [backslash, CHR ''u'', CHR ''0'', CHR ''0'', hex_digit (n div 16), hex_digit (n mod 16)]
     else [c])"

definition quoted :: "string \<Rightarrow> string" where
  "quoted s = quote_char # concat (map escape_char s) @ [quote_char]"

section \<open>Values\<close>

fun json_text :: "(rat \<Rightarrow> string) \<Rightarrow> json \<Rightarrow> string" where
  "json_text fl JNull = ''null''"
| "json_text fl (JBool b) = (if b then ''true'' else ''false'')"
| "json_text fl (JInt n) = int_str n"
| "json_text fl (JFloat r) = fl r"
| "json_text fl (JStr s) = quoted s"
| "json_text fl (JArr xs) = ''['' @ join '','' (map (json_text fl) xs) @ '']''"
| "json_text fl (JObj d) = ''{'' @ join '',''
     (map (\<lambda>(k, t). quoted k @ '':'' @ t) (sort_key fst (map (\<lambda>(k, v). (k, json_text fl v)) d))) @ ''}''"

text \<open>\<open>json.dumps(value, ensure_ascii=False)\<close>, in the order of the dictionaries.\<close>

fun json_dumps :: "(rat \<Rightarrow> string) \<Rightarrow> json \<Rightarrow> string" where
  "json_dumps fl JNull = ''null''"
| "json_dumps fl (JBool b) = (if b then ''true'' else ''false'')"
| "json_dumps fl (JInt n) = int_str n"
| "json_dumps fl (JFloat r) = fl r"
| "json_dumps fl (JStr s) = quoted s"
| "json_dumps fl (JArr xs) = ''['' @ join '', '' (map (json_dumps fl) xs) @ '']''"
| "json_dumps fl (JObj d) = ''{'' @ join '', '' (map (\<lambda>(k, v). quoted k @ '': '' @ json_dumps fl v) d) @ ''}''"

text \<open>
  \<open>str(value)\<close>; \<open>render\<close> is \<open>str()\<close> on arrays, objects and floats. Then
  \<open>str(d.get(key) or "")\<close>.
\<close>

definition py_str :: "(json \<Rightarrow> string) \<Rightarrow> json \<Rightarrow> string" where
  "py_str render j = (case j of JStr s \<Rightarrow> s | JInt n \<Rightarrow> int_str n | JBool b \<Rightarrow> if b then ''True'' else ''False''
     | JNull \<Rightarrow> ''None'' | _ \<Rightarrow> render j)"

definition text_of :: "(json \<Rightarrow> string) \<Rightarrow> jobject \<Rightarrow> string \<Rightarrow> string" where
  "text_of render d key = (let j = dget_or JNull d key in if truthy j then py_str render j else [])"

text \<open>\<open>==\<close>: booleans and numbers compare by value, objects without regard to the order of keys.\<close>

fun json_num :: "json \<Rightarrow> rat option" where
  "json_num (JBool b) = Some (if b then 1 else 0)"
| "json_num (JInt n) = Some (of_int n)"
| "json_num (JFloat r) = Some r"
| "json_num _ = None"

fun py_eq :: "json \<Rightarrow> json \<Rightarrow> bool" and py_eq_list :: "json list \<Rightarrow> json list \<Rightarrow> bool"
  and py_eq_entries :: "jobject \<Rightarrow> jobject \<Rightarrow> bool" where
  "py_eq (JArr xs) j = (case j of JArr ys \<Rightarrow> py_eq_list xs ys | _ \<Rightarrow> False)"
| "py_eq (JObj d) j = (case j of JObj e \<Rightarrow> length d = length e \<and> py_eq_entries d e | _ \<Rightarrow> False)"
| "py_eq i j = (case json_num i of Some r \<Rightarrow> json_num j = Some r | None \<Rightarrow> i = j)"
| "py_eq_list [] ys = (ys = [])"
| "py_eq_list (x # xs) ys = (case ys of [] \<Rightarrow> False | y # zs \<Rightarrow> py_eq x y \<and> py_eq_list xs zs)"
| "py_eq_entries [] e = True"
| "py_eq_entries ((k, v) # d) e = (case map_of e k of None \<Rightarrow> False | Some w \<Rightarrow> py_eq v w \<and> py_eq_entries d e)"

end
