(* ===== verification/Chat_Protocol.thy ===== *)
theory Chat_Protocol
  imports Chat_Turns Json_Text
begin

text \<open>
  The contracts around a chat turn: the terminal statuses of a run
  (\<open>services/runtime_terminal_status.py\<close>), the payload of a pause
  (\<open>services/runtime_hitl_protocol_service.py\<close>), the validation of a resume and its checkpoint
  (\<open>services/runtime_resume_checkpoint_service.py\<close>), and the classes of runtime errors
  (\<open>services/chat_turn_orchestrator.py\<close>).

  The argument \<open>render\<close> is \<open>str()\<close> on arrays, objects and floats.
\<close>

section \<open>Terminal statuses\<close>

datatype RunTerminalStatus = RunCompleted | RunFailed | RunWaitingInput | RunWaitingConfirmation | RunStopped

fun run_status_value :: "RunTerminalStatus \<Rightarrow> string" where
  "run_status_value RunCompleted = ''completed''"
| "run_status_value RunFailed = ''failed''"
| "run_status_value RunWaitingInput = ''waiting_input''"
| "run_status_value RunWaitingConfirmation = ''waiting_confirmation''"
| "run_status_value RunStopped = ''stopped''"

definition normalize_run_terminal_status :: "string option \<Rightarrow> RunTerminalStatus" where
  "normalize_run_terminal_status reason =
     (let v = strip (case reason of None \<Rightarrow> [] | Some r \<Rightarrow> r) in
      if v = ''waiting_input'' then RunWaitingInput
      else if v = ''waiting_confirmation'' then RunWaitingConfirmation
      else if v = ''failed'' then RunFailed
      else if v = ''completed'' then RunCompleted
      else RunStopped)"

definition normalize_run_status_for_storage :: "string option \<Rightarrow> string" where
  "normalize_run_status_for_storage status =
     (let v = strip (case status of None \<Rightarrow> [] | Some r \<Rightarrow> r) in
      if v \<in> {''running'', ''resumed'', ''cancelled''} then v
      else run_status_value (normalize_run_terminal_status (Some v)))"

datatype runtime_event_kind = EvFinal | EvError | EvStop | EvOther

definition planner_terminal_from_event ::
    "(json \<Rightarrow> string) \<Rightarrow> runtime_event_kind \<Rightarrow> jobject \<Rightarrow> (RunTerminalStatus \<times> string option) option" where
  "planner_terminal_from_event render kind data =
     (case kind of
        EvFinal \<Rightarrow>
          let s = normalize_run_terminal_status (Some (strip (text_of render data ''stop_reason''))) in
          if s \<notin> {RunStopped, RunCompleted} then Some (s, None) else Some (RunCompleted, None)
      | EvError \<Rightarrow> Some (RunFailed, Some (str_or (text_of render data ''error'') ''runtime_error''))
      | EvStop \<Rightarrow> Some (normalize_run_terminal_status (Some (text_of render data ''reason'')),
                       Some (str_or (text_of render data ''message'') (text_of render data ''question'')))
      | EvOther \<Rightarrow> None)"

datatype ContinuationTerminalStatus = ContCompleted | ContError | ContPaused

datatype ContinuationApiStatus = ResumedCompleted | ResumedWithError | ResumedPausedAgain

definition continuation_terminal_from_event ::
    "(json \<Rightarrow> string) \<Rightarrow> jobject \<Rightarrow> (ContinuationTerminalStatus \<times> string option) option" where
  "continuation_terminal_from_event render event =
     (let t = text_of render event ''type'' in
      if t = ''error'' then Some (ContError, Some (str_or (text_of render event ''error'') ''Unknown continuation error''))
      else if t = ''run_paused'' then Some (ContPaused, Some (text_of render event ''reason''))
      else if t = ''final'' then Some (ContCompleted, None)
      else None)"

definition continuation_api_status :: "ContinuationTerminalStatus \<Rightarrow> ContinuationApiStatus" where
  "continuation_api_status s =
     (if s = ContError then ResumedWithError else if s = ContPaused then ResumedPausedAgain else ResumedCompleted)"

section \<open>Pauses\<close>

definition CONTRACT_VERSION :: int where "CONTRACT_VERSION = 1"

definition action_kind_for_reason :: "string \<Rightarrow> string" where
  "action_kind_for_reason reason =
     (if reason = ''waiting_confirmation'' then ''confirm'' else if reason = ''waiting_input'' then ''input'' else ''resume'')"

record paused_payload =
  pp_reason :: string
  pp_run_id :: json
  pp_action :: jobject
  pp_context :: jobject

definition copied_keys :: "string list" where
  "copied_keys = [''operation_fingerprint'', ''tool_slug'', ''operation'', ''risk_level'', ''args_preview'', ''summary'']"

definition build_paused_from_stop :: "(json \<Rightarrow> string) \<Rightarrow> jobject \<Rightarrow> paused_payload" where
  "build_paused_from_stop render stop =
     (let reason = str_or (strip (text_of render stop ''reason'')) ''paused'';
          action0 = [(''kind'', JStr (action_kind_for_reason reason)), (''type'', JStr ''resume''), (''reason'', JStr reason),
                     (''question'', dget_or JNull stop ''question''), (''message'', dget_or JNull stop ''message''),
                     (''contract_version'', JInt CONTRACT_VERSION)];
          action1 = (case map_of stop ''action'' of Some (JObj a) \<Rightarrow> fold (\<lambda>(k, v) d. AList.update k v d) a action0 | _ \<Rightarrow> action0);
          action2 = fold (\<lambda>k d. if dget_or JNull stop k \<noteq> JNull then AList.update k (dget_or JNull stop k) d else d) copied_keys action1;
          context0 = (case map_of stop ''context'' of Some (JObj c) \<Rightarrow> c | _ \<Rightarrow> stop);
          context = (if map_of context0 ''contract_version'' = None
                     then AList.update ''contract_version'' (JInt CONTRACT_VERSION) context0 else context0)
      in \<lparr>pp_reason = reason, pp_run_id = dget_or JNull stop ''run_id'', pp_action = action2, pp_context = context\<rparr>)"

definition fingerprint_in :: "(json \<Rightarrow> string) \<Rightarrow> jobject option \<Rightarrow> string" where
  "fingerprint_in render d = (case d of None \<Rightarrow> [] | Some x \<Rightarrow> strip (text_of render x ''operation_fingerprint''))"

definition extract_operation_fingerprint :: "(json \<Rightarrow> string) \<Rightarrow> jobject option \<Rightarrow> jobject option \<Rightarrow> string" where
  "extract_operation_fingerprint render action context =
     str_or (fingerprint_in render action) (fingerprint_in render context)"

section \<open>Resume\<close>

datatype RuntimeResumeAction = ResumeInput | ResumeConfirm | ResumeCancel

fun resume_action_value :: "RuntimeResumeAction \<Rightarrow> string" where
  "resume_action_value ResumeInput = ''input''"
| "resume_action_value ResumeConfirm = ''confirm''"
| "resume_action_value ResumeCancel = ''cancel''"

datatype resume_error = WaitingInputNeedsInput | InputRequired | WaitingConfirmationNeedsConfirm | NotWaiting

definition validate_action :: "string \<Rightarrow> RuntimeResumeAction \<Rightarrow> string option \<Rightarrow> resume_error + string" where
  "validate_action pause_status action user_input =
     (let status = strip pause_status; input = strip (case user_input of None \<Rightarrow> [] | Some x \<Rightarrow> x) in
      if status = ''waiting_input''
      then if action = ResumeCancel then Inr []
           else if action \<noteq> ResumeInput then Inl WaitingInputNeedsInput
           else if input = [] then Inl InputRequired
           else Inr input
      else if status = ''waiting_confirmation''
      then if action \<notin> {ResumeConfirm, ResumeCancel} then Inl WaitingConfirmationNeedsConfirm else Inr []
      else Inl NotWaiting)"

definition source_context_snapshot :: "string \<Rightarrow> string option \<Rightarrow> jobject" where
  "source_context_snapshot goal mode =
     (''inputs'', JObj [(''goal'', JStr (strip goal)), (''user_request'', JStr (strip goal))])
     # (if opt_truthy mode then [(''meta'', JObj [(''execution_mode'', JStr (the mode))])] else [])"

text \<open>The value of a key when it is an object, otherwise the empty object.\<close>

definition sub_object :: "jobject \<Rightarrow> string \<Rightarrow> jobject" where
  "sub_object d k = (case map_of d k of Some (JObj x) \<Rightarrow> x | _ \<Rightarrow> [])"

text \<open>\<open>a or b or c\<close> on JSON values\<close>

definition json_or :: "json \<Rightarrow> json \<Rightarrow> json" where
  "json_or a b = (if truthy a then a else b)"

definition build_checkpoint ::
    "(json \<Rightarrow> string) \<Rightarrow> string \<Rightarrow> string \<Rightarrow> string \<Rightarrow> string \<Rightarrow> string \<Rightarrow> string \<Rightarrow> string option \<Rightarrow> string
     \<Rightarrow> jobject option \<Rightarrow> jobject option \<Rightarrow> string option \<Rightarrow> jobject option \<Rightarrow> jobject" where
  "build_checkpoint render checkpoint_id created run agent tenant user chat resume_action paused_action paused_context
      user_input snapshot =
     (let source = (case snapshot of None \<Rightarrow> [] | Some d \<Rightarrow> d);
          inputs = sub_object source ''inputs''; meta = sub_object source ''meta'';
          goal = json_or (dget_or JNull inputs ''goal'')
                   (json_or (dget_or JNull inputs ''user_request'') (dget_or JNull meta ''goal''));
          request = dget_or JNull inputs ''user_request''
      in [(''checkpoint_id'', JStr checkpoint_id), (''source_run_id'', JStr run), (''agent_slug'', JStr agent),
          (''tenant_id'', JStr tenant), (''user_id'', JStr user),
          (''chat_id'', (if opt_truthy chat then JStr (the chat) else JNull)), (''created_at'', JStr created),
          (''resume_action'', JStr resume_action),
          (''paused_action'', JObj (case paused_action of None \<Rightarrow> [] | Some d \<Rightarrow> d)),
          (''paused_context'', JObj (case paused_context of None \<Rightarrow> [] | Some d \<Rightarrow> d)),
          (''source_context_snapshot'', JObj source)]
         @ (if truthy goal then [(''original_goal'', JStr (py_str render goal))] else [])
         @ (if truthy request then [(''original_user_request'', JStr (py_str render request))] else [])
         @ (if opt_truthy user_input then [(''user_input'', JStr (the user_input))] else []))"

text \<open>What the runtime is told on a resume; the argument is the fixed confirmation text.\<close>

definition build_resume_content :: "string \<Rightarrow> string \<Rightarrow> string \<Rightarrow> string" where
  "build_resume_content confirmation action user_input = (if action = ''input'' then user_input else confirmation)"

section \<open>Runtime errors\<close>

text \<open>The class of an error; each class has one text for the user (an argument of the model).\<close>

record runtime_error =
  er_code :: string
  er_user :: string
  er_operator :: string

definition error_class :: "string \<Rightarrow> string \<Rightarrow> string" where
  "error_class code raw =
     (let c = lower (strip (str_or code ''unknown_runtime_error'')); m = lower raw in
      if contains ''budget'' c \<or> contains ''budget'' m then ''budget_exceeded''
      else if contains ''retry'' c \<or> contains ''retry'' m then ''max_retries_exceeded''
      else if contains ''tool'' c \<and> contains ''unavailable'' m then ''tool_unavailable''
      else if contains ''timeout'' c \<or> contains ''timeout'' m then ''tool_timeout''
      else if contains ''planner'' c \<or> contains ''planner'' m then ''planner_failed''
      else if contains ''policy'' c \<or> contains ''denied'' m then ''policy_blocked''
      else if contains ''agent'' c \<or> contains ''runtime_failed'' c then ''agent_failed''
      else ''unknown_runtime_error'')"

definition normalize_runtime_error :: "(string \<Rightarrow> string) \<Rightarrow> string \<Rightarrow> string \<Rightarrow> runtime_error" where
  "normalize_runtime_error user_text code raw =
     (let c = error_class code raw in \<lparr>er_code = c, er_user = user_text c, er_operator = str_or raw c\<rparr>)"

end
