(* ===== verification/Chat_Orchestrator.thy ===== *)
theory Chat_Orchestrator
  imports Chat_Protocol
begin

text \<open>
  One chat turn, \<open>ChatTurnOrchestrator.execute_turn\<close> (\<open>services/chat_turn_orchestrator.py\<close>),
  its transport \<open>ChatStreamService.send_message_stream\<close> (\<open>services/chat_stream_service.py\<close>) and
  the resume endpoint (\<open>api/v1/routers/chat/messages.py\<close>).

  The run of the agents is an argument: the events the router yields and, when it raises, the text of
  the exception. Events to the client are collected in the order they are yielded.
\<close>

section \<open>Events\<close>

record router_event =
  rv_type :: string
  rv_run :: "uuid option"
  rv_content :: "string option"
  rv_sources :: "json list"
  rv_attachments :: "json list"
  rv_stop :: "string option"
  rv_reason :: "string option"
  rv_action :: "jobject option"
  rv_context :: "jobject option"
  rv_code :: "string option"
  rv_error :: "string option"

datatype chat_out =
    OutStatus string
  | OutUserMessage uuid
  | OutTitle string
  | OutForward router_event
  | OutFinal uuid "json list" "json list"
  | OutError string "string option"
  | OutStop string "string option" "string option" "uuid option" jobject jobject
  | OutCached uuid uuid

record turn_env =
  te_digest :: "string \<Rightarrow> string"
  te_render :: "json \<Rightarrow> string"
  te_uuid :: "uuid \<Rightarrow> string"
  te_user_text :: "string \<Rightarrow> string"
  te_structured :: "string \<Rightarrow> json list \<Rightarrow> json list \<Rightarrow> jobject"
  te_title_answer :: "string \<Rightarrow> string option"
  te_default_ru :: string
  te_default_ru_lower :: string
  te_run :: "uuid \<Rightarrow> (string \<times> string) list \<Rightarrow> router_event list \<times> string option"
  te_router_commits :: bool
  te_attachments :: "string list \<Rightarrow> json list option"
  te_now :: int

record turn_request =
  tq_chat :: uuid
  tq_user :: uuid
  tq_content :: string
  tq_artifacts :: "string list"
  tq_attachment_meta :: "json list"
  tq_key :: "string option"
  tq_continued :: "uuid option"
  tq_resumed_turn :: "uuid option"
  tq_persist :: bool
  tq_preloaded :: "(string \<times> string) list"

section \<open>Chat title\<close>

definition strip_quotes :: "string \<Rightarrow> string" where
  "strip_quotes s = (let q = (\<lambda>c. c = char_of (34 :: nat) \<or> c = char_of (39 :: nat)) in rev (dropWhile q (rev (dropWhile q s))))"

definition get_chat :: "uuid \<Rightarrow> chat_session \<Rightarrow> chat_row option" where
  "get_chat i s = find (\<lambda>c. ch_id c = i) (cb_chats (cs_view s))"

definition generate_chat_title :: "turn_env \<Rightarrow> uuid \<Rightarrow> string \<Rightarrow> chat_session \<Rightarrow> string option \<times> chat_session" where
  "generate_chat_title env chat content s =
     (case get_chat chat s of
        None \<Rightarrow> (None, s)
      | Some c \<Rightarrow>
          let current = lower (strip (case ch_name c of None \<Rightarrow> [] | Some n \<Rightarrow> n)) in
          if current \<notin> {[], ''new chat'', te_default_ru_lower env} then (None, s)
          else case te_title_answer env (take 500 content) of
                 None \<Rightarrow> (None, s)
               | Some answer \<Rightarrow>
                   let title = strip_quotes (strip answer) in
                   if length title > 2
                   then (Some title, cs_commit (s\<lparr>cs_view := (cs_view s)\<lparr>cb_chats :=
                           map (\<lambda>x. if ch_id x = chat then x\<lparr>ch_name := Some (take 100 title)\<rparr> else x) (cb_chats (cs_view s))\<rparr>\<rparr>))
                   else (None, s))"

section \<open>The event loop\<close>

record run_view =
  rw_state :: turn_state
  rw_content :: string
  rw_sources :: "json list"
  rw_attachments :: "json list"
  rw_stop :: "string option"
  rw_error :: "runtime_error option"
  rw_paused :: bool
  rw_paused_run :: "uuid option"
  rw_last_run :: "uuid option"
  rw_reason :: "string option"
  rw_action :: "jobject option"
  rw_context :: "jobject option"
  rw_terminal :: bool

definition run_view_init :: "turn_state \<Rightarrow> run_view" where
  "run_view_init t = \<lparr>rw_state = t, rw_content = [], rw_sources = [], rw_attachments = [], rw_stop = None, rw_error = None,
     rw_paused = False, rw_paused_run = None, rw_last_run = None, rw_reason = None, rw_action = None, rw_context = None,
     rw_terminal = False\<rparr>"

definition on_router_event :: "turn_env \<Rightarrow> router_event \<Rightarrow> run_view \<Rightarrow> run_view" where
  "on_router_event env e v0 =
     (let v = (if rv_run e \<noteq> None then v0\<lparr>rw_last_run := rv_run e\<rparr> else v0) in
      if rv_type e = ''delta''
      then (if turn_phase (rw_state v) \<noteq> PhDeltaStreaming then v\<lparr>rw_state := turn_transition PhDeltaStreaming (rw_state v)\<rparr> else v)
             \<lparr>rw_content := rw_content v @ (case rv_content e of None \<Rightarrow> [] | Some c \<Rightarrow> c)\<rparr>
      else if rv_type e = ''final_content''
      then v\<lparr>rw_content := (case rv_content e of None \<Rightarrow> rw_content v | Some c \<Rightarrow> c), rw_sources := rv_sources e,
             rw_attachments := rv_attachments e,
             rw_stop := (let x = strip (case rv_stop e of None \<Rightarrow> [] | Some c \<Rightarrow> c) in if x = [] then None else Some x)\<rparr>
      else if rv_type e = ''run_paused''
      then v\<lparr>rw_paused := True, rw_paused_run := rv_run e, rw_reason := rv_reason e, rw_action := rv_action e,
             rw_context := rv_context e, rw_state := turn_transition PhPaused (rw_state v)\<rparr>
      else if rv_type e = ''error''
      then v\<lparr>rw_error := Some (normalize_runtime_error (te_user_text env)
                (if opt_truthy (rv_code e) then the (rv_code e) else ''runtime_error'')
                (if opt_truthy (rv_error e) then the (rv_error e) else ''Runtime error'')), rw_terminal := True\<rparr>
      else v)"

definition forwarded :: "router_event \<Rightarrow> bool" where
  "forwarded e \<longleftrightarrow> rv_type e \<notin> {''final_content'', ''run_paused''}"

definition run_events :: "turn_env \<Rightarrow> router_event list \<Rightarrow> run_view \<Rightarrow> run_view" where
  "run_events env es v = fold (on_router_event env) es v"

section \<open>The end of a turn\<close>

definition run_meta :: "turn_env \<Rightarrow> run_view \<Rightarrow> jobject" where
  "run_meta env v =
     (case rw_last_run v of None \<Rightarrow> [] | Some r \<Rightarrow> [(''runtime_run_id'', JStr (te_uuid env r))])
     @ (case rw_stop v of None \<Rightarrow> []
        | Some x \<Rightarrow> (''runtime_stop_reason'', JStr x) # (if x \<notin> {''completed'', ''stopped''} then [(''runtime_status'', JStr x)] else []))"

definition finish_completed ::
    "turn_env \<Rightarrow> turn_request \<Rightarrow> uuid \<Rightarrow> uuid option \<Rightarrow> run_view \<Rightarrow> chat_session \<Rightarrow> chat_out list \<times> turn_state \<times> chat_session" where
  "finish_completed env q turn user_msg v s =
     (let (m, s1) = create_assistant_message (te_structured env) (tq_chat q) (rw_content v) (rw_sources v) (rw_attachments v)
                      (run_meta env v) (te_now env) s;
          s2 = (if opt_truthy (tq_key q) \<and> user_msg \<noteq> None
                then store_idempotency (the (tq_key q)) (the user_msg) m (te_now env) s1 else s1);
          s3 = snd (complete_turn turn (Some m) (te_now env) s2)
      in ([OutFinal m (rw_sources v) (rw_attachments v), OutStatus ''completed''],
          turn_transition PhCompleted (turn_transition PhFinalPersisted (rw_state v)), s3))"

definition finish_empty ::
    "turn_env \<Rightarrow> uuid \<Rightarrow> run_view \<Rightarrow> chat_session \<Rightarrow> chat_out list \<times> turn_state \<times> chat_session" where
  "finish_empty env turn v s =
     ([OutError ''Empty response from agent'' None], force_error (rw_state v),
      snd (fail_turn turn ''Empty response from agent'' (te_now env) s))"

definition pause_text :: "turn_env \<Rightarrow> string \<Rightarrow> run_view \<Rightarrow> string option" where
  "pause_text env key v =
     (let get = (\<lambda>d. case d of None \<Rightarrow> [] | Some x \<Rightarrow> strip (text_of (te_render env) x key));
          t = str_or (get (rw_context v)) (get (rw_action v))
      in if t = [] then None else Some t)"

definition finish_paused ::
    "turn_env \<Rightarrow> uuid \<Rightarrow> run_view \<Rightarrow> chat_session \<Rightarrow> chat_out list \<times> turn_state \<times> chat_session" where
  "finish_paused env turn v s =
     (let reason = (if opt_truthy (rw_reason v) then the (rw_reason v) else ''paused'');
          s1 = cs_commit (snd (pause_turn turn reason (rw_paused_run v) (rw_action v) (rw_context v) (te_now env) s))
      in ([OutStop reason (pause_text env ''question'' v) (pause_text env ''message'' v) (rw_paused_run v)
             (case rw_action v of None \<Rightarrow> [] | Some a \<Rightarrow> a) (case rw_context v of None \<Rightarrow> [] | Some c \<Rightarrow> c)],
          rw_state v, s1))"

definition finish_failed ::
    "turn_env \<Rightarrow> turn_request \<Rightarrow> uuid \<Rightarrow> runtime_error \<Rightarrow> run_view \<Rightarrow> chat_session \<Rightarrow> chat_out list \<times> turn_state \<times> chat_session" where
  "finish_failed env q turn err v s =
     (let s1 = snd (fail_turn turn (er_operator err) (te_now env) s);
          run = (case rw_last_run v of None \<Rightarrow> JNull | Some r \<Rightarrow> JStr (te_uuid env r));
          (m, s2) =
            (if strip (rw_content v) \<noteq> []
             then create_assistant_message (te_structured env) (tq_chat q) (strip (rw_content v)) (rw_sources v) []
                    [(''runtime_status'', JStr ''partial''), (''runtime_error_code'', JStr (er_code err)),
                     (''runtime_error_message'', JStr (er_user err)), (''runtime_run_id'', run)] (te_now env) s1
             else create_assistant_message (te_structured env) (tq_chat q) (er_user err) (rw_sources v) []
                    [(''runtime_status'', JStr ''failed''), (''runtime_error_code'', JStr (er_code err)),
                     (''runtime_run_id'', run)] (te_now env) s1);
          s3 = snd (attach_assistant_message turn m s2)
      in ((if rw_terminal v then [] else [OutError (er_user err) (Some (er_code err))]), force_error (rw_state v), s3))"

definition finish_turn ::
    "turn_env \<Rightarrow> turn_request \<Rightarrow> uuid \<Rightarrow> uuid option \<Rightarrow> run_view \<Rightarrow> chat_session \<Rightarrow> chat_out list \<times> turn_state \<times> chat_session" where
  "finish_turn env q turn user_msg v s =
     (case rw_error v of
        None \<Rightarrow> if rw_content v \<noteq> [] then finish_completed env q turn user_msg v s
                else if rw_paused v then finish_paused env turn v s
                else finish_empty env turn v s
      | Some err \<Rightarrow> if rw_paused v then finish_paused env turn v s else finish_failed env q turn err v s)"

section \<open>The turn\<close>

definition begin_turn :: "turn_env \<Rightarrow> turn_request \<Rightarrow> chat_session \<Rightarrow> uuid \<times> uuid \<times> chat_session" where
  "begin_turn env q s =
     (let (run, s1) = (case tq_continued q of Some r \<Rightarrow> (r, s) | None \<Rightarrow> chat_fresh s) in
      case tq_resumed_turn q of
        Some t \<Rightarrow> (run, t, s1)
      | None \<Rightarrow>
          let (t, s2) = start_turn (tq_chat q) (tq_user q) (tq_key q)
                 (Some (te_digest env (hash_payload (tq_content q) (tq_artifacts q)))) (Some run) (te_now env) s1
          in (run, tn_id t, s2))"

text \<open>The user message and the artifacts bound to it, the attachment service being a logged call.\<close>

definition bind_artifacts :: "string list \<Rightarrow> uuid \<Rightarrow> chat_session \<Rightarrow> chat_session" where
  "bind_artifacts ids m s = s\<lparr>cs_view := (cs_view s)\<lparr>cb_bound := cb_bound (cs_view s) @ map (\<lambda>i. (i, m)) ids\<rparr>\<rparr>"

definition save_user_message ::
    "turn_env \<Rightarrow> turn_request \<Rightarrow> uuid \<Rightarrow> chat_session \<Rightarrow> chat_out list \<times> uuid option \<times> chat_session" where
  "save_user_message env q turn s =
     (if tq_persist q
      then let meta = (if tq_attachment_meta q = [] then [] else [(''attachments'', JArr (tq_attachment_meta q))]);
               (m, s1) = create_user_message (tq_chat q) (tq_content q) meta (te_now env) s;
               s2 = (if tq_artifacts q = [] then s1 else bind_artifacts (tq_artifacts q) m s1);
               s3 = snd (attach_user_message turn m s2)
           in ([OutStatus ''saving_user_message'', OutUserMessage m], Some m, s3)
      else ([], None, s))"

text \<open>
  \<open>llm_messages\<close> is the list \<open>context\<close> itself: appending the message of the user to the one appends it
  to the other.
\<close>

definition turn_context :: "turn_request \<Rightarrow> chat_session \<Rightarrow> (string \<times> string) list" where
  "turn_context q s =
     (if tq_preloaded q = [] then load_chat_context (tq_chat q) 12 s else tq_preloaded q) @ [(''user'', tq_content q)]"

definition default_name :: "turn_env \<Rightarrow> string option \<Rightarrow> bool" where
  "default_name env n \<longleftrightarrow> n \<in> {None, Some [], Some ''New Chat'', Some (te_default_ru env)}"

definition title_chat ::
    "turn_env \<Rightarrow> turn_request \<Rightarrow> chat_row \<Rightarrow> (string \<times> string) list \<Rightarrow> chat_session \<Rightarrow> chat_out list \<times> chat_session" where
  "title_chat env q chat context s =
     (let user_messages_count = length (filter (\<lambda>m. fst m = ''user'') context);
          is_first_message = (user_messages_count = 0)
      in if is_first_message \<and> default_name env (ch_name chat)
         then case generate_chat_title env (tq_chat q) (tq_content q) s of
                (Some t, s1) \<Rightarrow> ([OutTitle t], s1) | (None, s1) \<Rightarrow> ([], s1)
         else ([], s))"

definition execute_turn ::
    "turn_env \<Rightarrow> turn_request \<Rightarrow> chat_row \<Rightarrow> chat_session \<Rightarrow> chat_out list \<times> turn_state \<times> chat_session" where
  "execute_turn env q chat s =
     (let (run, turn, s1) = begin_turn env q s;
          (o1, user_msg, s2) = save_user_message env q turn s1;
          t2 = turn_transition PhContextLoaded (turn_transition PhUserPersisted turn_init);
          context = turn_context q s2;
          (o3, s3) = title_chat env q chat context s2;
          t3 = turn_transition PhExecutionStarted t2;
          (events, raised) = te_run env run context;
          s4 = (if te_router_commits env then cs_commit s3 else s3);
          v = run_events env events (run_view_init t3);
          o4 = map OutForward (filter forwarded events);
          (o5, v5, s5) =
            (case raised of
               None \<Rightarrow> ([], v, s4)
             | Some message \<Rightarrow>
                 let err = normalize_runtime_error (te_user_text env) ''unknown_runtime_error'' message
                 in ([OutError (er_user err) (Some (er_code err))],
                     v\<lparr>rw_error := Some err, rw_state := force_error (rw_state v)\<rparr>,
                     snd (fail_turn turn (er_operator err) (te_now env) s4)));
          (o6, t6, s6) = finish_turn env q turn user_msg v5 s5
      in (o1 @ [OutStatus ''loading_context''] @ o3 @ [OutStatus ''agent_running''] @ o4 @ o5 @ o6, t6, s6))"

section \<open>The stream and the resume\<close>

text \<open>
  A request opens a session, streams its events and closes the session, which discards what was not
  committed.
\<close>

definition check_idempotency ::
    "turn_env \<Rightarrow> turn_request \<Rightarrow> string \<Rightarrow> chat_session \<Rightarrow> chat_out list option" where
  "check_idempotency env q key s =
     (case check_turn_idempotency (te_digest env) key (tq_chat q) (tq_user q) (tq_content q) (tq_artifacts q) s of
        Some IdemConflict \<Rightarrow> Some [OutError ''Idempotency key was already used with different request payload'' (Some ''idempotency_conflict'')]
      | Some IdemProcessing \<Rightarrow> Some [OutError ''Request with this idempotency key is already in progress'' (Some ''idempotency_processing'')]
      | Some (IdemCompleted u a) \<Rightarrow> Some [OutCached u a]
      | None \<Rightarrow> (case get_cached_result key (te_now env) s of Some (u, a) \<Rightarrow> Some [OutCached u a] | None \<Rightarrow> None))"

definition send_message_stream :: "turn_env \<Rightarrow> turn_request \<Rightarrow> chat_session \<Rightarrow> chat_out list \<times> chat_session" where
  "send_message_stream env q s =
     (case (if opt_truthy (tq_key q) then check_idempotency env q (the (tq_key q)) s else None) of
        Some outs \<Rightarrow> (outs, cs_close s)
      | None \<Rightarrow>
          case find (\<lambda>c. ch_id c = tq_chat q \<and> ch_owner c = tq_user q) (cb_chats (cs_view s)) of
            None \<Rightarrow> ([OutError ''Chat not found'' (Some ''chat_not_found'')], cs_close s)
          | Some chat \<Rightarrow>
              let context = load_chat_context (tq_chat q) 12 s in
              case (if tq_artifacts q = [] then Some [] else te_attachments env (tq_artifacts q)) of
                None \<Rightarrow> ([OutError ''Attachment not found or access denied'' (Some ''attachment_not_found'')], cs_close s)
              | Some meta \<Rightarrow>
                  let (outs, _, s1) = execute_turn env (q\<lparr>tq_attachment_meta := meta, tq_preloaded := context\<rparr>) chat s
                  in (outs, cs_close s1))"

datatype resume_result = ResumeHttp nat | ResumeDone | ResumeStream "chat_out list"

definition resume_run ::
    "turn_env \<Rightarrow> string \<Rightarrow> (uuid \<Rightarrow> string option) \<Rightarrow> uuid \<Rightarrow> uuid \<Rightarrow> bool \<Rightarrow> RuntimeResumeAction \<Rightarrow> string option \<Rightarrow> chat_session
     \<Rightarrow> resume_result \<times> chat_session" where
  "resume_run env confirmation goal_of run user has_tenant action input s =
     (case filter (\<lambda>t. tn_run t = Some run \<and> tn_status t = ''paused'') (cb_turns (cs_view s)) of
        [] \<Rightarrow> (ResumeHttp 404, cs_close s)
      | t # t' # _ \<Rightarrow> (ResumeHttp 500, cs_close s)
      | [t] \<Rightarrow>
          if tn_user t \<noteq> user then (ResumeHttp 404, cs_close s)
          else if \<not> has_tenant then (ResumeHttp 403, cs_close s)
          else case validate_action (case tn_pause t of None \<Rightarrow> [] | Some p \<Rightarrow> p) action input of
                 Inl _ \<Rightarrow> (ResumeHttp 409, cs_close s)
               | Inr text \<Rightarrow>
                   if action = ResumeCancel
                   then (ResumeDone, cs_close (cs_commit (snd (cancel_turn (tn_id t) ''Cancelled by user'' (te_now env) s))))
                   else case goal_of run of
                          None \<Rightarrow> (ResumeHttp 409, cs_close s)
                        | Some _ \<Rightarrow>
                            let s1 = cs_commit (snd (resume_turn (tn_id t) s));
                                q = \<lparr>tq_chat = tn_chat t, tq_user = user,
                                     tq_content = build_resume_content confirmation (resume_action_value action) text,
                                     tq_artifacts = [], tq_attachment_meta = [], tq_key = None, tq_continued = Some run,
                                     tq_resumed_turn = Some (tn_id t), tq_persist = False, tq_preloaded = []\<rparr>;
                                (outs, s2) = send_message_stream env q s1
                            in (ResumeStream outs, s2))"

end
