(* ===== verification/Chat_Facts.thy ===== *)
theory Chat_Facts
  imports Chat_Orchestrator
begin

text \<open>
  Lemmas about chat turns: what the operations of the turn service do to the row of a turn, the view
  the event loop collects, and the row, the messages and the frames each way to finish leaves.
\<close>

section \<open>Tables\<close>

definition turn_in :: "uuid \<Rightarrow> chat_tables \<Rightarrow> chat_turn option" where
  "turn_in i b = find (\<lambda>t. tn_id t = i) (cb_turns b)"

lemma get_turn_in: "get_turn i s = turn_in i (cs_view s)"
  by (simp add: get_turn_def turn_in_def)

lemma find_turn_map:
  "(\<And>x. tn_id (f x) = tn_id x) \<Longrightarrow> find (\<lambda>t. tn_id t = j) (map (\<lambda>x. if tn_id x = i then f x else x) ts)
     = (if j = i then map_option f (find (\<lambda>t. tn_id t = i) ts) else find (\<lambda>t. tn_id t = j) ts)"
  by (induction ts) auto

lemma turn_in_change:
  assumes "\<And>x. tn_id (f x) = tn_id x"
  shows "turn_in j (cs_view (snd (change_turn i f s))) = (if j = i then map_option f (turn_in i (cs_view s)) else turn_in j (cs_view s))"
  using find_turn_map [of f j i "cb_turns (cs_view s)"] assms
  by (auto simp: change_turn_def get_turn_in turn_in_def split: option.splits)

lemma change_turn_frame [simp]:
  "cs_saved (snd (change_turn i f s)) = cs_saved s" "cs_redis (snd (change_turn i f s)) = cs_redis s"
  "cs_next (snd (change_turn i f s)) = cs_next s" "cb_messages (cs_view (snd (change_turn i f s))) = cb_messages (cs_view s)"
  "cb_chats (cs_view (snd (change_turn i f s))) = cb_chats (cs_view s)"
  by (auto simp: change_turn_def split: option.splits)

lemma turn_service_view [simp]:
  "turn_in j (cs_view (snd (attach_user_message i m s))) = (if j = i then map_option (\<lambda>t. t\<lparr>tn_user_msg := Some m\<rparr>) (turn_in i (cs_view s)) else turn_in j (cs_view s))"
  "turn_in j (cs_view (snd (attach_assistant_message i m s))) = (if j = i then map_option (\<lambda>t. t\<lparr>tn_asst_msg := Some m\<rparr>) (turn_in i (cs_view s)) else turn_in j (cs_view s))"
  "turn_in j (cs_view (snd (complete_turn i (Some m) now s))) = (if j = i then map_option (\<lambda>t. t\<lparr>tn_asst_msg := Some m, tn_status := ''completed'',
      tn_pause := None, tn_action := None, tn_context := None, tn_paused_at := None, tn_completed := Some now\<rparr>) (turn_in i (cs_view s)) else turn_in j (cs_view s))"
  "turn_in j (cs_view (snd (fail_turn i msg now s))) = (if j = i then map_option (\<lambda>t. t\<lparr>tn_status := ''failed'', tn_pause := None, tn_action := None,
      tn_context := None, tn_paused_at := None, tn_error := Some msg, tn_completed := Some now\<rparr>) (turn_in i (cs_view s)) else turn_in j (cs_view s))"
  "turn_in j (cs_view (snd (resume_turn i s))) = (if j = i then map_option (\<lambda>t. t\<lparr>tn_status := ''resumed'', tn_pause := None, tn_action := None,
      tn_context := None, tn_paused_at := None\<rparr>) (turn_in i (cs_view s)) else turn_in j (cs_view s))"
  unfolding attach_user_message_def attach_assistant_message_def complete_turn_def fail_turn_def resume_turn_def
  by (simp_all add: turn_in_change)

lemma pause_turn_view [simp]:
  "turn_in j (cs_view (snd (pause_turn i reason run action context now s))) = (if j = i then map_option (\<lambda>t.
     t\<lparr>tn_run := (case run of None \<Rightarrow> tn_run t | Some r \<Rightarrow> Some r), tn_status := ''paused'', tn_pause := Some reason,
        tn_action := action, tn_context := context, tn_paused_at := Some now\<rparr>) (turn_in i (cs_view s)) else turn_in j (cs_view s))"
  unfolding pause_turn_def by (subst turn_in_change) (auto split: option.splits intro!: arg_cong2 [where f = map_option])

lemma turn_service_frame [simp]:
  "cs_saved (snd (attach_user_message i m s)) = cs_saved s" "cs_saved (snd (attach_assistant_message i m s)) = cs_saved s"
  "cs_saved (snd (complete_turn i m' now s)) = cs_saved s" "cs_saved (snd (fail_turn i msg now s)) = cs_saved s"
  "cs_saved (snd (resume_turn i s)) = cs_saved s" "cs_saved (snd (pause_turn i reason run action context now s)) = cs_saved s"
  "cs_redis (snd (attach_user_message i m s)) = cs_redis s" "cs_redis (snd (attach_assistant_message i m s)) = cs_redis s"
  "cs_redis (snd (complete_turn i m' now s)) = cs_redis s" "cs_redis (snd (fail_turn i msg now s)) = cs_redis s"
  "cs_redis (snd (pause_turn i reason run action context now s)) = cs_redis s"
  "cb_chats (cs_view (snd (attach_user_message i m s))) = cb_chats (cs_view s)"
  by (simp_all add: attach_user_message_def attach_assistant_message_def complete_turn_def fail_turn_def resume_turn_def pause_turn_def)

lemma commit_simps [simp]:
  "cs_view (cs_commit s) = cs_view s" "cs_saved (cs_commit s) = cs_view s" "cs_redis (cs_commit s) = cs_redis s"
  "cs_view (cs_close s) = cs_saved s" "cs_saved (cs_close s) = cs_saved s" "cs_redis (cs_close s) = cs_redis s"
  "cs_next (cs_commit s) = cs_next s" "cs_next (cs_close s) = cs_next s"
  by (simp_all add: cs_commit_def cs_close_def)

lemma create_message_frame:
  assumes "create_message chat role txt meta now s = (m, s')"
  shows "turn_in j (cs_view s') = turn_in j (cs_view s)" "cb_turns (cs_view s') = cb_turns (cs_view s)" "cs_saved s' = cs_saved s"
    "cs_redis s' = cs_redis s" "cb_chats (cs_view s') = cb_chats (cs_view s)" "m = cs_next s"
    "\<exists>x. cb_messages (cs_view s') = cb_messages (cs_view s) @ [x] \<and> cm_id x = m \<and> cm_role x = role \<and> cm_text x = txt \<and> cm_chat x = chat"
  using assms by (auto simp: create_message_def chat_fresh_def turn_in_def Let_def)

section \<open>The event loop\<close>

lemma run_events_Nil [simp]: "run_events env [] v = v"
  by (simp add: run_events_def)

lemma run_events_Cons [simp]: "run_events env (e # es) v = run_events env es (on_router_event env e v)"
  by (simp add: run_events_def)

lemma on_router_event_error:
  "rv_type e \<noteq> ''error'' \<Longrightarrow> rw_error (on_router_event env e v) = rw_error v \<and> rw_terminal (on_router_event env e v) = rw_terminal v"
  by (auto simp: on_router_event_def Let_def)

lemma run_events_no_error:
  "\<forall>e\<in>set es. rv_type e \<noteq> ''error'' \<Longrightarrow> rw_error (run_events env es v) = rw_error v \<and> rw_terminal (run_events env es v) = rw_terminal v"
  by (induction es arbitrary: v) (simp_all add: on_router_event_error)

lemma on_router_event_paused:
  "rv_type e \<noteq> ''run_paused'' \<Longrightarrow> rw_paused (on_router_event env e v) = rw_paused v"
  by (auto simp: on_router_event_def Let_def)

lemma run_events_paused:
  "rw_paused (run_events env es v) \<longleftrightarrow> rw_paused v \<or> (\<exists>e\<in>set es. rv_type e = ''run_paused'')"
proof (induction es arbitrary: v)
  case (Cons e es)
  then show ?case by (cases "rv_type e = ''run_paused''") (simp_all add: on_router_event_paused, simp add: on_router_event_def Let_def)
qed simp

text \<open>Without a pause the phases of the loop are those of streaming.\<close>

definition streaming :: "turn_state \<Rightarrow> bool" where
  "streaming t \<longleftrightarrow> ts_valid t \<and> turn_phase t \<in> {PhExecutionStarted, PhDeltaStreaming}"

lemma on_router_event_streaming:
  "rv_type e \<noteq> ''run_paused'' \<Longrightarrow> streaming (rw_state v) \<Longrightarrow> streaming (rw_state (on_router_event env e v))"
  by (auto simp: on_router_event_def Let_def streaming_def turn_transition_def turn_phase_def)

lemma run_events_streaming:
  "\<forall>e\<in>set es. rv_type e \<noteq> ''run_paused'' \<Longrightarrow> streaming (rw_state v) \<Longrightarrow> streaming (rw_state (run_events env es v))"
  by (induction es arbitrary: v) (simp_all add: on_router_event_streaming)


text \<open>An error event is forwarded, and remembered as terminal.\<close>

lemma run_events_error_terminal:
  "(rw_error v \<noteq> None \<longrightarrow> rw_terminal v) \<Longrightarrow> rw_error (run_events env es v) \<noteq> None \<longrightarrow> rw_terminal (run_events env es v)"
proof (induction es arbitrary: v)
  case (Cons e es)
  have "rw_error (on_router_event env e v) \<noteq> None \<longrightarrow> rw_terminal (on_router_event env e v)"
    using Cons.prems by (auto simp: on_router_event_def Let_def)
  then show ?case using Cons.IH by simp
qed simp

section \<open>How a turn ends\<close>

definition started_state :: turn_state where
  "started_state = turn_transition PhExecutionStarted (turn_transition PhContextLoaded (turn_transition PhUserPersisted turn_init))"

definition run_result :: "turn_env \<Rightarrow> router_event list \<Rightarrow> run_view" where
  "run_result env events = run_events env events (run_view_init started_state)"

lemma run_result_streams:
  "\<forall>e\<in>set events. rv_type e \<noteq> ''run_paused'' \<Longrightarrow> streaming (rw_state (run_result env events)) \<and> \<not> rw_paused (run_result env events)"
  unfolding run_result_def
  by (intro conjI run_events_streaming)
    (auto simp: run_events_paused run_view_init_def streaming_def started_state_def turn_transition_def turn_phase_def turn_init_def)

lemma run_result_terminal: "rw_error (run_result env events) \<noteq> None \<longrightarrow> rw_terminal (run_result env events)"
  unfolding run_result_def by (rule run_events_error_terminal) (simp add: run_view_init_def)

text \<open>The context always ends with the message just sent, so the chat is never found to be new.\<close>

lemma title_chat_never [simp]: "title_chat env q chat (turn_context q s') s = ([], s)"
  by (simp add: title_chat_def turn_context_def)

definition before_run :: "turn_env \<Rightarrow> turn_request \<Rightarrow> chat_session \<Rightarrow> chat_out list \<times> uuid \<times> uuid \<times> uuid option \<times> chat_session" where
  "before_run env q s =
     (let (run, turn, s1) = begin_turn env q s; (o1, m, s2) = save_user_message env q turn s1
      in (o1, run, turn, m, if te_router_commits env then cs_commit s2 else s2))"

lemma execute_turn_returns:
  assumes "before_run env q s = (o1, run, turn, m, s1)" and "\<And>run ctx. te_run env run ctx = (events, None)"
    and "finish_turn env q turn m (run_result env events) s1 = (o2, t, s2)"
  shows "execute_turn env q chat s
     = (o1 @ [OutStatus ''loading_context'', OutStatus ''agent_running''] @ map OutForward (filter forwarded events) @ o2, t, s2)"
  using assms
  by (auto simp: execute_turn_def before_run_def run_result_def started_state_def Let_def split: prod.splits)

lemma execute_turn_raises:
  assumes "before_run env q s = (o1, run, turn, m, s1)" and "\<And>run ctx. te_run env run ctx = (events, Some msg)"
    and err: "err = normalize_runtime_error (te_user_text env) ''unknown_runtime_error'' msg"
    and v: "v = (run_result env events)\<lparr>rw_error := Some err, rw_state := force_error (rw_state (run_result env events))\<rparr>"
    and "finish_turn env q turn m v (snd (fail_turn turn (er_operator err) (te_now env) s1)) = (o2, t, s2)"
  shows "execute_turn env q chat s
     = (o1 @ [OutStatus ''loading_context'', OutStatus ''agent_running''] @ map OutForward (filter forwarded events)
        @ [OutError (er_user err) (Some (er_code err))] @ o2, t, s2)"
  using assms
  by (auto simp: execute_turn_def before_run_def run_result_def started_state_def Let_def split: prod.splits)

text \<open>The row of the turn, before the run.\<close>

definition chat_wf :: "chat_session \<Rightarrow> bool" where
  "chat_wf s \<longleftrightarrow> (\<forall>t\<in>set (cb_turns (cs_view s)). tn_id t < cs_next s)"

definition turn_exists :: "turn_request \<Rightarrow> chat_session \<Rightarrow> bool" where
  "turn_exists q s \<longleftrightarrow> (case tq_resumed_turn q of None \<Rightarrow> True | Some i \<Rightarrow> turn_in i (cs_view s) \<noteq> None)"

lemma begin_turn_row:
  assumes b: "begin_turn env q s = (run, turn, s1)" and wf: "chat_wf s" "turn_exists q s"
  shows "\<exists>t. turn_in turn (cs_view s1) = Some t \<and> (tq_resumed_turn q = Some turn \<and> turn_in turn (cs_view s) = Some t
      \<or> tq_resumed_turn q = None \<and> tn_status t = ''started'' \<and> tn_run t = Some run \<and> tn_key t = tq_key q \<and> tn_chat t = tq_chat q
        \<and> tn_user t = tq_user q \<and> tn_asst_msg t = None \<and> tn_started t = te_now env
        \<and> tn_hash t = Some (te_digest env (hash_payload (tq_content q) (tq_artifacts q)))
        \<and> cb_turns (cs_view s1) = cb_turns (cs_view s) @ [t])"
    and "cs_saved s1 = cs_saved s" "cs_redis s1 = cs_redis s" "cb_messages (cs_view s1) = cb_messages (cs_view s)"
    and "cb_chats (cs_view s1) = cb_chats (cs_view s)"
proof -
  obtain s0 where s0: "cs_view s0 = cs_view s" "cs_saved s0 = cs_saved s" "cs_redis s0 = cs_redis s" "cs_next s \<le> cs_next s0"
    and b0: "(case tq_resumed_turn q of Some i \<Rightarrow> (run, turn, s1) = (run, i, s0) | None \<Rightarrow>
      (run, turn, s1) = (run, tn_id (fst (start_turn (tq_chat q) (tq_user q) (tq_key q) (Some (te_digest env (hash_payload (tq_content q) (tq_artifacts q)))) (Some run) (te_now env) s0)),
         snd (start_turn (tq_chat q) (tq_user q) (tq_key q) (Some (te_digest env (hash_payload (tq_content q) (tq_artifacts q)))) (Some run) (te_now env) s0)))"
  proof (cases "tq_continued q")
    case None
    show ?thesis
      by (rule that [of "snd (chat_fresh s)"])
        (use b None in \<open>auto simp: begin_turn_def chat_fresh_def Let_def split: option.splits prod.splits\<close>)
  next
    case (Some r)
    show ?thesis
      by (rule that [of s]) (use b Some in \<open>auto simp: begin_turn_def Let_def split: option.splits prod.splits\<close>)
  qed
  show "cs_saved s1 = cs_saved s" "cs_redis s1 = cs_redis s" "cb_messages (cs_view s1) = cb_messages (cs_view s)"
    "cb_chats (cs_view s1) = cb_chats (cs_view s)"
    using b0 s0 by (auto simp: start_turn_def add_turn_def chat_fresh_def Let_def split: option.splits)
  show "\<exists>t. turn_in turn (cs_view s1) = Some t \<and> (tq_resumed_turn q = Some turn \<and> turn_in turn (cs_view s) = Some t
      \<or> tq_resumed_turn q = None \<and> tn_status t = ''started'' \<and> tn_run t = Some run \<and> tn_key t = tq_key q \<and> tn_chat t = tq_chat q
        \<and> tn_user t = tq_user q \<and> tn_asst_msg t = None \<and> tn_started t = te_now env
        \<and> tn_hash t = Some (te_digest env (hash_payload (tq_content q) (tq_artifacts q)))
        \<and> cb_turns (cs_view s1) = cb_turns (cs_view s) @ [t])"
  proof (cases "tq_resumed_turn q")
    case None
    have "find (\<lambda>t. tn_id t = cs_next s0) (cb_turns (cs_view s0)) = None"
      using wf(1) s0 by (fastforce simp: chat_wf_def find_None_iff)
    then show ?thesis
      using b0 None s0 by (simp add: start_turn_def add_turn_def chat_fresh_def Let_def turn_in_def find_snoc)
  next
    case (Some i)
    then show ?thesis using b0 s0 wf(2) by (auto simp: turn_exists_def)
  qed
qed


lemma bind_artifacts_frame [simp]:
  "turn_in j (cs_view (bind_artifacts ids m s)) = turn_in j (cs_view s)" "cb_turns (cs_view (bind_artifacts ids m s)) = cb_turns (cs_view s)"
  "cs_saved (bind_artifacts ids m s) = cs_saved s" "cs_redis (bind_artifacts ids m s) = cs_redis s"
  "cb_messages (cs_view (bind_artifacts ids m s)) = cb_messages (cs_view s)" "cb_chats (cs_view (bind_artifacts ids m s)) = cb_chats (cs_view s)"
  by (simp_all add: bind_artifacts_def turn_in_def)

fun own_frame :: "chat_out \<Rightarrow> bool" where
  "own_frame (OutFinal _ _ _) = True"
| "own_frame (OutStop _ _ _ _ _ _) = True"
| "own_frame (OutError _ _) = True"
| "own_frame _ = False"

lemma own_frame_forwarded [simp]: "filter own_frame (map OutForward es) = []"
  by (induction es) simp_all

lemma save_user_message_view:
  assumes "save_user_message env q turn s = (o1, m, s')"
  shows "turn_in j (cs_view s') = (case m of None \<Rightarrow> turn_in j (cs_view s)
       | Some k \<Rightarrow> if j = turn then map_option (\<lambda>t. t\<lparr>tn_user_msg := Some k\<rparr>) (turn_in j (cs_view s)) else turn_in j (cs_view s))"
    and "filter own_frame o1 = []" and "m \<noteq> None \<longleftrightarrow> tq_persist q"
    and "cs_redis s' = cs_redis s" and "cb_chats (cs_view s') = cb_chats (cs_view s)"
    and "m \<noteq> None \<Longrightarrow> turn_in j (cs_saved s') = turn_in j (cs_view s)" and "m = None \<Longrightarrow> cs_saved s' = cs_saved s"
    and "\<exists>new. cb_messages (cs_view s') = cb_messages (cs_view s) @ new"
proof -
  have all: "turn_in j (cs_view s') = (case m of None \<Rightarrow> turn_in j (cs_view s)
       | Some k \<Rightarrow> if j = turn then map_option (\<lambda>t. t\<lparr>tn_user_msg := Some k\<rparr>) (turn_in j (cs_view s)) else turn_in j (cs_view s))
    \<and> filter own_frame o1 = [] \<and> (m \<noteq> None \<longleftrightarrow> tq_persist q) \<and> cs_redis s' = cs_redis s \<and> cb_chats (cs_view s') = cb_chats (cs_view s)
    \<and> (m \<noteq> None \<longrightarrow> turn_in j (cs_saved s') = turn_in j (cs_view s)) \<and> (m = None \<longrightarrow> cs_saved s' = cs_saved s)
    \<and> (\<exists>new. cb_messages (cs_view s') = cb_messages (cs_view s) @ new)"
  proof (cases "tq_persist q")
    case False
    then show ?thesis using assms by (simp add: save_user_message_def)
  next
    case True
    let ?meta = "if tq_attachment_meta q = [] then [] else [(''attachments'', JArr (tq_attachment_meta q))]"
    obtain k s1 where k: "create_message (tq_chat q) ''user'' (tq_content q) ?meta (te_now env) s = (k, s1)" by fastforce
    let ?s2 = "if tq_artifacts q = [] then cs_commit s1 else bind_artifacts (tq_artifacts q) k (cs_commit s1)"
    have r: "o1 = [OutStatus ''saving_user_message'', OutUserMessage k]" "m = Some k" "s' = snd (attach_user_message turn k ?s2)"
      using assms True k by (auto simp: save_user_message_def create_user_message_def Let_def)
    have "cb_messages (cs_view s') = cb_messages (cs_view s1)" by (simp add: r(3) attach_user_message_def)
    then show ?thesis using True create_message_frame [OF k] by (auto simp: r)
  qed
  then show "turn_in j (cs_view s') = (case m of None \<Rightarrow> turn_in j (cs_view s)
       | Some k \<Rightarrow> if j = turn then map_option (\<lambda>t. t\<lparr>tn_user_msg := Some k\<rparr>) (turn_in j (cs_view s)) else turn_in j (cs_view s))"
    and "filter own_frame o1 = []" and "m \<noteq> None \<longleftrightarrow> tq_persist q"
    and "cs_redis s' = cs_redis s" and "cb_chats (cs_view s') = cb_chats (cs_view s)"
    and "m \<noteq> None \<Longrightarrow> turn_in j (cs_saved s') = turn_in j (cs_view s)" and "m = None \<Longrightarrow> cs_saved s' = cs_saved s"
    and "\<exists>new. cb_messages (cs_view s') = cb_messages (cs_view s) @ new" by simp_all
qed

lemma before_run_row:
  assumes "before_run env q s = (o1, run, turn, m, s1)" "chat_wf s" "turn_exists q s"
  shows "turn_in turn (cs_view s1) \<noteq> None" and "filter own_frame o1 = []"
    and "cb_chats (cs_view s1) = cb_chats (cs_view s)" and "cs_redis s1 = cs_redis s"
proof -
  obtain s0 s2 where b: "begin_turn env q s = (run, turn, s0)" and u: "save_user_message env q turn s0 = (o1, m, s2)"
    and s1: "s1 = (if te_router_commits env then cs_commit s2 else s2)"
    using assms(1) by (auto simp: before_run_def split: prod.splits)
  show "turn_in turn (cs_view s1) \<noteq> None" "filter own_frame o1 = []"
    "cb_chats (cs_view s1) = cb_chats (cs_view s)" "cs_redis s1 = cs_redis s"
    using begin_turn_row [OF b assms(2,3)] save_user_message_view [OF u] by (auto simp: s1 split: option.splits)
qed

lemma store_idempotency_frame [simp]:
  "cs_view (store_idempotency key u a now s) = cs_view s" "cs_saved (store_idempotency key u a now s) = cs_saved s"
  "cs_redis (store_idempotency key u a now s) = AList.update (redis_key key) (now + IDEMPOTENCY_TTL, u, a) (cs_redis s)"
  by (simp_all add: store_idempotency_def)

text \<open>The three ways to finish, seen from the row of the turn.\<close>

lemma finish_completed_view:
  assumes "finish_completed env q turn um v s = (o2, t, s')" "turn_in turn (cs_view s) = Some row"
  shows "\<exists>m row'. o2 = [OutFinal m (rw_sources v) (rw_attachments v), OutStatus ''completed'']
      \<and> turn_in turn (cs_view s') = Some row' \<and> tn_status row' = ''completed'' \<and> tn_asst_msg row' = Some m
      \<and> (\<exists>x\<in>set (cb_messages (cs_view s')). cm_id x = m \<and> cm_role x = ''assistant'' \<and> cm_text x = rw_content v \<and> cm_chat x = tq_chat q)
      \<and> turn_in turn (cs_saved s') = Some row \<and> cb_turns (cs_saved s') = cb_turns (cs_view s)
      \<and> t = turn_transition PhCompleted (turn_transition PhFinalPersisted (rw_state v))
      \<and> cs_redis s' = (if opt_truthy (tq_key q) \<and> um \<noteq> None
          then AList.update (redis_key (the (tq_key q))) (te_now env + IDEMPOTENCY_TTL, the um, m) (cs_redis s) else cs_redis s)
      \<and> cb_chats (cs_saved s') = cb_chats (cs_view s)"
proof -
  let ?meta = "answer_meta (te_structured env) (rw_content v) (rw_sources v) (rw_attachments v) (run_meta env v)"
  obtain m s1 where c: "create_message (tq_chat q) ''assistant'' (rw_content v) ?meta (te_now env) s = (m, s1)" by fastforce
  let ?s2 = "if opt_truthy (tq_key q) \<and> um \<noteq> None then store_idempotency (the (tq_key q)) (the um) m (te_now env) (cs_commit s1) else cs_commit s1"
  have r: "o2 = [OutFinal m (rw_sources v) (rw_attachments v), OutStatus ''completed'']"
    "t = turn_transition PhCompleted (turn_transition PhFinalPersisted (rw_state v))" "s' = snd (complete_turn turn (Some m) (te_now env) ?s2)"
    using assms(1) c by (auto simp: finish_completed_def create_assistant_message_def Let_def)
  have s2: "cs_view ?s2 = cs_view s1" "cs_saved ?s2 = cs_view s1"
    "cs_redis ?s2 = (if opt_truthy (tq_key q) \<and> um \<noteq> None
          then AList.update (redis_key (the (tq_key q))) (te_now env + IDEMPOTENCY_TTL, the um, m) (cs_redis s1) else cs_redis s1)"
    by auto
  have msgs: "cb_messages (cs_view s') = cb_messages (cs_view s1)" using s2(1) by (simp only: r(3) complete_turn_def change_turn_frame)
  obtain x where x: "cb_messages (cs_view s1) = cb_messages (cs_view s) @ [x]" "cm_id x = m" "cm_role x = ''assistant''"
    "cm_text x = rw_content v" "cm_chat x = tq_chat q" using create_message_frame(7) [OF c] by auto
  show ?thesis
    unfolding r(1,2) msgs x(1)
    using assms(2) x(2-5) create_message_frame(1,2,4,5) [OF c] by (auto simp: r(3) s2)
qed

lemma finish_paused_view:
  assumes "finish_paused env turn v s = (o2, t, s')" "turn_in turn (cs_view s) = Some row"
  shows "\<exists>row' question message. o2 = [OutStop (the (tn_pause row')) question message (rw_paused_run v)
        (case rw_action v of None \<Rightarrow> [] | Some a \<Rightarrow> a) (case rw_context v of None \<Rightarrow> [] | Some c \<Rightarrow> c)]
      \<and> turn_in turn (cs_view s') = Some row' \<and> cs_saved s' = cs_view s' \<and> tn_status row' = ''paused''
      \<and> tn_pause row' = Some (if opt_truthy (rw_reason v) then the (rw_reason v) else ''paused'')
      \<and> tn_action row' = rw_action v \<and> tn_context row' = rw_context v
      \<and> tn_run row' = (case rw_paused_run v of None \<Rightarrow> tn_run row | Some r \<Rightarrow> Some r) \<and> t = rw_state v"
  using assms by (auto simp: finish_paused_def Let_def)

lemma finish_empty_view:
  assumes "finish_empty env turn v s = (o2, t, s')" "turn_in turn (cs_view s) = Some row"
  shows "\<exists>row'. o2 = [OutError ''Empty response from agent'' None] \<and> turn_in turn (cs_view s') = Some row' \<and> tn_status row' = ''failed''
      \<and> t = force_error (rw_state v) \<and> cs_saved s' = cs_saved s"
  using assms by (auto simp: finish_empty_def)

lemma finish_failed_view:
  assumes "finish_failed env q turn err v s = (o2, t, s')" "turn_in turn (cs_view s) = Some row"
  shows "\<exists>row' m. filter own_frame o2 = (if rw_terminal v then [] else [OutError (er_user err) (Some (er_code err))])
      \<and> turn_in turn (cs_view s') = Some row' \<and> tn_status row' = ''failed'' \<and> tn_error row' = Some (er_operator err)
      \<and> tn_asst_msg row' = Some m \<and> t = force_error (rw_state v)
      \<and> (\<exists>x\<in>set (cb_messages (cs_saved s')). cm_id x = m \<and> cm_text x = (if strip (rw_content v) \<noteq> [] then strip (rw_content v) else er_user err))
      \<and> (\<exists>row''. turn_in turn (cs_saved s') = Some row'' \<and> tn_status row'' = ''failed'')"
proof -
  let ?s1 = "snd (fail_turn turn (er_operator err) (te_now env) s)"
  let ?txt = "if strip (rw_content v) \<noteq> [] then strip (rw_content v) else er_user err"
  obtain meta m s2 where c: "create_message (tq_chat q) ''assistant'' ?txt meta (te_now env) ?s1 = (m, s2)"
    and r: "o2 = (if rw_terminal v then [] else [OutError (er_user err) (Some (er_code err))])" "t = force_error (rw_state v)"
      "s' = snd (attach_assistant_message turn m (cs_commit s2))"
    using assms(1) by (fastforce simp: finish_failed_def create_assistant_message_def Let_def split: prod.splits if_splits)
  obtain x where x: "cb_messages (cs_view s2) = cb_messages (cs_view ?s1) @ [x]" "cm_id x = m" "cm_text x = ?txt"
    using create_message_frame(7) [OF c] by auto
  show ?thesis
    using assms(2) x create_message_frame(1) [OF c] by (auto simp: r)
qed

end
