(* ===== verification/Chat_Rows.thy ===== *)
theory Chat_Rows
  imports Chat_Facts
begin

text \<open>
  What holds of every row of the turn table. A locale states the laws a predicate on rows must obey
  under the operations of the turn service; every request then keeps it, both for the rows a
  transaction sees and for the committed ones. The interpretations are the well-formed rows and the
  rows of a run that is not waiting.
\<close>

section \<open>Predicates on rows\<close>

text \<open>
  The predicate may speak of the identifiers issued so far. \<open>pauses\<close> says whether pausing keeps it.
\<close>

locale turn_rows =
  fixes P :: "uuid \<Rightarrow> chat_turn \<Rightarrow> bool" and pauses :: bool
  assumes later: "P n t \<Longrightarrow> n \<le> n' \<Longrightarrow> P n' t"
    and starts: "tn_id t = n \<Longrightarrow> tn_status t = ''started'' \<Longrightarrow> tn_pause t = None \<Longrightarrow> tn_paused_at t = None
      \<Longrightarrow> tn_completed t = None \<Longrightarrow> tn_error t = None \<Longrightarrow> P (Suc n) t"
    and gets_user_message: "P n t \<Longrightarrow> P n (t\<lparr>tn_user_msg := Some m\<rparr>)"
    and gets_assistant_message: "P n t \<Longrightarrow> P n (t\<lparr>tn_asst_msg := Some m\<rparr>)"
    and completes: "P n t \<Longrightarrow> P n (t\<lparr>tn_status := ''completed'', tn_pause := None, tn_action := None, tn_context := None,
      tn_paused_at := None, tn_completed := Some now\<rparr>)"
    and fails: "P n t \<Longrightarrow> P n (t\<lparr>tn_status := ''failed'', tn_pause := None, tn_action := None, tn_context := None,
      tn_paused_at := None, tn_error := Some msg, tn_completed := Some now\<rparr>)"
    and resumes: "P n t \<Longrightarrow> P n (t\<lparr>tn_status := ''resumed'', tn_pause := None, tn_action := None, tn_context := None,
      tn_paused_at := None\<rparr>)"
    and cancels: "P n t \<Longrightarrow> P n (t\<lparr>tn_status := ''cancelled'', tn_error := Some msg, tn_completed := Some now\<rparr>)"
    and runs: "pauses \<Longrightarrow> P n t \<Longrightarrow> P n (t\<lparr>tn_run := Some r\<rparr>)"
    and waits: "pauses \<Longrightarrow> P n t \<Longrightarrow> P n (t\<lparr>tn_status := ''paused'', tn_pause := Some reason, tn_action := action,
      tn_context := context, tn_paused_at := Some now\<rparr>)"
begin

definition rows :: "chat_session \<Rightarrow> bool" where
  "rows s \<longleftrightarrow> (\<forall>t\<in>set (cb_turns (cs_view s)) \<union> set (cb_turns (cs_saved s)). P (cs_next s) t)"

lemma rows_commit: "rows s \<Longrightarrow> rows (cs_commit s)"
  by (auto simp: rows_def)

lemma rows_close: "rows s \<Longrightarrow> rows (cs_close s)"
  by (auto simp: rows_def)

lemma rows_change:
  "(\<And>t. P (cs_next s) t \<Longrightarrow> P (cs_next s) (f t)) \<Longrightarrow> rows s \<Longrightarrow> rows (snd (change_turn i f s))"
  by (auto simp: rows_def change_turn_def split: option.splits)

lemma rows_attach_user: "rows s \<Longrightarrow> rows (snd (attach_user_message i m s))"
  unfolding attach_user_message_def by (rule rows_change) (auto intro: gets_user_message)

lemma rows_attach_assistant: "rows s \<Longrightarrow> rows (snd (attach_assistant_message i m s))"
  unfolding attach_assistant_message_def by (rule rows_change) (auto intro: gets_assistant_message)

lemma rows_complete: "rows s \<Longrightarrow> rows (snd (complete_turn i m now s))"
  unfolding complete_turn_def
  by (rule rows_change) (auto intro: completes completes [OF gets_assistant_message] split: option.splits)

lemma rows_fail: "rows s \<Longrightarrow> rows (snd (fail_turn i msg now s))"
  unfolding fail_turn_def by (rule rows_change) (auto intro: fails)

lemma rows_resume: "rows s \<Longrightarrow> rows (snd (resume_turn i s))"
  unfolding resume_turn_def by (rule rows_change) (auto intro: resumes)

lemma rows_cancel: "rows s \<Longrightarrow> rows (snd (cancel_turn i msg now s))"
  unfolding cancel_turn_def by (rule rows_change) (auto intro: cancels)

lemma rows_pause: "pauses \<Longrightarrow> rows s \<Longrightarrow> rows (snd (pause_turn i reason run action context now s))"
  unfolding pause_turn_def by (rule rows_change) (auto intro: waits waits [OF _ runs] split: option.splits)

lemma rows_frame:
  "rows s \<Longrightarrow> cb_turns (cs_view s') = cb_turns (cs_view s) \<Longrightarrow> cs_saved s' = cs_saved s \<Longrightarrow> cs_next s \<le> cs_next s' \<Longrightarrow> rows s'"
  unfolding rows_def by (auto intro: later)

lemma rows_message: "rows s \<Longrightarrow> rows (snd (create_message chat role txt meta now s))"
  by (erule rows_frame) (simp_all add: create_message_def chat_fresh_def Let_def)

lemma rows_fresh: "rows s \<Longrightarrow> rows (snd (chat_fresh s))"
  by (erule rows_frame) (simp_all add: chat_fresh_def)

lemma rows_bind: "rows s \<Longrightarrow> rows (bind_artifacts ids m s)"
  by (erule rows_frame) (simp_all add: bind_artifacts_def)

lemma rows_store: "rows s \<Longrightarrow> rows (store_idempotency key u a now s)"
  by (erule rows_frame) (simp_all add: store_idempotency_def)

lemma rows_start: "rows s \<Longrightarrow> rows (snd (start_turn chat user key hash run now s))"
  unfolding rows_def start_turn_def add_turn_def chat_fresh_def Let_def
  by (auto intro: starts later)

lemmas rows_steps = rows_commit rows_close rows_attach_user rows_attach_assistant rows_complete rows_fail
  rows_resume rows_cancel rows_message rows_bind rows_store rows_start

lemma rows_begin: "rows s \<Longrightarrow> rows (snd (snd (begin_turn env q s)))"
proof -
  assume s: "rows s"
  obtain run s1 where r: "(case tq_continued q of Some r \<Rightarrow> (r, s) | None \<Rightarrow> chat_fresh s) = (run, s1)" by fastforce
  then have "rows s1" using s rows_fresh [OF s] by (cases "tq_continued q") auto
  then show ?thesis
    using rows_start [of s1 "tq_chat q" "tq_user q" "tq_key q" _ "Some run" "te_now env"]
    by (auto simp: begin_turn_def r Let_def split: option.splits prod.splits) (metis snd_conv)
qed

lemma rows_save: "rows s \<Longrightarrow> rows (snd (snd (save_user_message env q turn s)))"
  by (auto simp: save_user_message_def create_user_message_def Let_def split: prod.splits)
    (metis rows_attach_user rows_bind rows_commit rows_message snd_conv)+

lemma rows_create_assistant: "rows s \<Longrightarrow> rows (snd (create_assistant_message f chat txt sources att extra now s))"
  by (auto simp: create_assistant_message_def split: prod.splits) (metis rows_commit rows_message snd_conv)

lemma rows_finish:
  assumes s: "rows s" and p: "rw_paused v \<longrightarrow> pauses"
  shows "rows (snd (snd (finish_turn env q turn um v s)))"
proof -
  have completed: "rows (snd (snd (finish_completed env q turn um v s)))"
    using s by (auto simp: finish_completed_def Let_def split: prod.splits)
      (metis rows_complete rows_create_assistant rows_store snd_conv)+
  have failed: "rows (snd (snd (finish_failed env q turn err v s)))" for err
    using rows_fail [OF s, of turn "er_operator err" "te_now env"]
    by (auto simp: finish_failed_def Let_def split: prod.splits)
      (metis rows_attach_assistant rows_create_assistant snd_conv)+
  have empty: "rows (snd (snd (finish_empty env turn v s)))"
    by (simp add: finish_empty_def rows_fail s)
  have paused: "rw_paused v \<Longrightarrow> rows (snd (snd (finish_paused env turn v s)))"
    using p by (simp add: finish_paused_def Let_def rows_commit rows_pause s)
  show ?thesis
    using completed failed empty paused by (simp add: finish_turn_def split: option.splits)
qed

text \<open>A turn, however its run ends, and the requests around it.\<close>

lemma rows_execute:
  assumes s: "rows s" and p: "\<And>run ctx. pauses \<or> (\<forall>e\<in>set (fst (te_run env run ctx)). rv_type e \<noteq> ''run_paused'')"
  shows "rows (snd (snd (execute_turn env q chat s)))"
proof -
  obtain run turn s1 where b: "begin_turn env q s = (run, turn, s1)" by (metis prod_cases3)
  obtain o1 um s2 where u: "save_user_message env q turn s1 = (o1, um, s2)" by (metis prod_cases3)
  have s2: "rows s2" using rows_begin [OF s, of env q] rows_save [of s1 env q turn] by (simp add: b u)
  obtain events raised where r: "te_run env run (turn_context q s2) = (events, raised)" by fastforce
  let ?s4 = "if te_router_commits env then cs_commit s2 else s2"
  have s4: "rows ?s4" using s2 by (simp add: rows_commit)
  have p': "rw_paused (run_result env events) \<longrightarrow> pauses"
    using p [of run "turn_context q s2"] by (auto simp: r run_result_def run_events_paused run_view_init_def)
  show ?thesis
  proof (cases raised)
    case None
    have "snd (snd (execute_turn env q chat s)) = snd (snd (finish_turn env q turn um (run_result env events) ?s4))"
      by (simp add: execute_turn_def b u r None run_result_def started_state_def Let_def split: prod.splits)
    then show ?thesis using rows_finish [OF s4 p'] by simp
  next
    case (Some msg)
    let ?err = "normalize_runtime_error (te_user_text env) ''unknown_runtime_error'' msg"
    let ?v = "(run_result env events)\<lparr>rw_error := Some ?err, rw_state := force_error (rw_state (run_result env events))\<rparr>"
    have "snd (snd (execute_turn env q chat s))
        = snd (snd (finish_turn env q turn um ?v (snd (fail_turn turn (er_operator ?err) (te_now env) ?s4))))"
      by (simp add: execute_turn_def b u r Some run_result_def started_state_def Let_def split: prod.splits)
    then show ?thesis using rows_finish [OF rows_fail [OF s4], of ?v] p' by simp
  qed
qed

lemma rows_send:
  assumes s: "rows s" and p: "\<And>run ctx. pauses \<or> (\<forall>e\<in>set (fst (te_run env run ctx)). rv_type e \<noteq> ''run_paused'')"
  shows "rows (snd (send_message_stream env q s))"
proof -
  have "rows (snd (let (outs, _, s1) = execute_turn env q' chat s in (outs, cs_close s1)))" for q' chat
    using rows_close [OF rows_execute [OF s p, of q' chat]] by (auto split: prod.splits)
  then show ?thesis using rows_close [OF s] by (auto simp: send_message_stream_def Let_def split: option.splits)
qed

lemma rows_resume_run:
  assumes s: "rows s" and p: "\<And>run ctx. pauses \<or> (\<forall>e\<in>set (fst (te_run env run ctx)). rv_type e \<noteq> ''run_paused'')"
  shows "rows (snd (resume_run env confirmation goal_of run user tenant action input s))"
proof -
  have "rows (snd (let (outs, s2) = send_message_stream env q (cs_commit (snd (resume_turn i s))) in (ResumeStream outs, s2)))" for q i
    using rows_send [OF rows_commit [OF rows_resume [OF s]] p, of q i] by (auto split: prod.splits)
  then show ?thesis
    using rows_close [OF s] rows_close [OF rows_commit [OF rows_cancel [OF s]]]
    by (auto simp: resume_run_def Let_def split: list.splits option.splits sum.splits)
qed

end

section \<open>Well-formed rows\<close>

definition turn_statuses :: "string list" where
  "turn_statuses = [''started'', ''paused'', ''resumed'', ''completed'', ''failed'', ''cancelled'']"

text \<open>
  The identifier was issued; the status is known; a waiting row says why and since when; a finished row
  says when, and a failed or cancelled one carries a message.
\<close>

definition turn_ok :: "uuid \<Rightarrow> chat_turn \<Rightarrow> bool" where
  "turn_ok n t \<longleftrightarrow> tn_id t < n \<and> tn_status t \<in> set turn_statuses
     \<and> (tn_status t = ''paused'' \<longrightarrow> tn_pause t \<noteq> None \<and> tn_paused_at t \<noteq> None)
     \<and> (tn_status t \<in> {''completed'', ''failed'', ''cancelled''} \<longrightarrow> tn_completed t \<noteq> None)
     \<and> (tn_status t \<in> {''failed'', ''cancelled''} \<longrightarrow> tn_error t \<noteq> None)
     \<and> (tn_status t \<in> {''started'', ''resumed'', ''completed'', ''failed''} \<longrightarrow> tn_pause t = None \<and> tn_paused_at t = None)"

interpretation wf_rows: turn_rows turn_ok True
  by unfold_locales (auto simp: turn_ok_def turn_statuses_def)

section \<open>Waiting runs\<close>

definition waits_for :: "uuid \<Rightarrow> chat_turn \<Rightarrow> bool" where
  "waits_for run t \<longleftrightarrow> tn_run t = Some run \<and> tn_status t = ''paused''"

text \<open>No row waits for the run; this lasts as long as nothing pauses.\<close>

interpretation idle_rows: turn_rows "\<lambda>n t. \<not> waits_for run t" False for run
  by unfold_locales (auto simp: waits_for_def)

end
