(* ===== verification/Chat_Theorems.thy ===== *)
theory Chat_Theorems
  imports Chat_Rows
begin

text \<open>
  The properties of chat turns: how a turn ends, what of it is committed, how a pause is resumed, and
  what an idempotency key protects.
\<close>


section \<open>A concrete chat\<close>

definition plain_event :: "string \<Rightarrow> router_event" where
  "plain_event ty = \<lparr>rv_type = ty, rv_run = None, rv_content = None, rv_sources = [], rv_attachments = [], rv_stop = None,
     rv_reason = None, rv_action = None, rv_context = None, rv_code = None, rv_error = None\<rparr>"

definition answer_events :: "router_event list" where
  "answer_events = [(plain_event ''delta'')\<lparr>rv_content := Some ''Hi''\<rparr>]"

definition pause_events :: "router_event list" where
  "pause_events = [(plain_event ''run_paused'')\<lparr>rv_run := Some 5, rv_reason := Some ''waiting_input''\<rparr>]"

definition demo_env :: "router_event list \<Rightarrow> turn_env" where
  "demo_env events = \<lparr>te_digest = (\<lambda>x. x), te_render = (\<lambda>_. []), te_uuid = (\<lambda>_. ''u''), te_user_text = (\<lambda>x. x),
     te_structured = (\<lambda>_ _ _. []), te_title_answer = (\<lambda>_. None), te_default_ru = [], te_default_ru_lower = [],
     te_run = (\<lambda>_ _. (events, None)), te_router_commits = False, te_attachments = (\<lambda>_. None), te_now = 10\<rparr>"

definition demo_tables :: "chat_turn list \<Rightarrow> chat_tables" where
  "demo_tables ts = \<lparr>cb_chats = [\<lparr>ch_id = 1, ch_owner = 2, ch_name = None\<rparr>], cb_turns = ts, cb_messages = [], cb_bound = []\<rparr>"

definition demo_session :: "chat_turn list \<Rightarrow> chat_session" where
  "demo_session ts = \<lparr>cs_view = demo_tables ts, cs_saved = demo_tables ts, cs_redis = [], cs_next = 10\<rparr>"

definition demo_request :: turn_request where
  "demo_request = \<lparr>tq_chat = 1, tq_user = 2, tq_content = ''hi'', tq_artifacts = [], tq_attachment_meta = [], tq_key = Some ''k'',
     tq_continued = None, tq_resumed_turn = None, tq_persist = True, tq_preloaded = []\<rparr>"

definition demo_waiting :: chat_turn where
  "demo_waiting = \<lparr>tn_id = 3, tn_chat = 1, tn_user = 2, tn_run = Some 5, tn_user_msg = None, tn_asst_msg = None, tn_key = None,
     tn_hash = None, tn_status = ''paused'', tn_pause = Some ''waiting_input'', tn_action = None, tn_context = None,
     tn_error = None, tn_started = 1, tn_paused_at = Some 2, tn_completed = None\<rparr>"

lemma demo_chat_run [simp]: "te_run (demo_env events) run ctx = (events, None)" "te_now (demo_env events) = 10"
  by (simp_all add: demo_env_def)

lemma demo_answer:
  "rw_error (run_result env answer_events) = None" "rw_content (run_result env answer_events) = ''Hi''"
  "rw_paused (run_result env answer_events) = False"
  by (simp_all add: run_result_def answer_events_def plain_event_def on_router_event_def run_view_init_def Let_def)

lemma demo_pause:
  "rw_paused (run_result env pause_events)" "rw_content (run_result env pause_events) = []"
  by (simp_all add: run_result_def pause_events_def plain_event_def on_router_event_def run_view_init_def Let_def)

lemma demo_wf [simp]: "chat_wf (demo_session [])" "turn_exists demo_request s" "tq_resumed_turn demo_request = None"
  "tq_persist demo_request" "tq_key demo_request = Some ''k''" "cb_turns (cs_view (demo_session ts)) = ts"
  by (simp_all add: chat_wf_def demo_session_def demo_tables_def turn_exists_def demo_request_def)

definition demo_chat :: chat_row where
  "demo_chat = \<lparr>ch_id = 1, ch_owner = 2, ch_name = None\<rparr>"


section \<open>Rows\<close>

definition session_ok :: "chat_session \<Rightarrow> bool" where
  "session_ok s \<longleftrightarrow> (\<forall>t\<in>set (cb_turns (cs_view s)) \<union> set (cb_turns (cs_saved s)). turn_ok (cs_next s) t)"

lemma session_ok_rows: "session_ok s = wf_rows.rows s"
  by (simp add: session_ok_def wf_rows.rows_def)

text \<open>
  C21. A message sent and a run resumed leave the turn table well-formed, whatever the run does: seen or
  committed, every row has a known status, a waiting row a reason and a time, a finished row a time, a
  failed or cancelled row a message, and only waiting and cancelled rows keep the traces of a pause.
\<close>

theorem requests_keep_rows_well_formed:
  assumes "session_ok s"
  shows "session_ok (snd (send_message_stream env q s))
    \<and> session_ok (snd (resume_run env confirmation goal_of run user tenant action input s))"
  using assms unfolding session_ok_rows by (simp add: wf_rows.rows_send wf_rows.rows_resume_run)

theorem requests_keep_rows_well_formed_witness:
  "session_ok (snd (send_message_stream (demo_env pause_events) demo_request (demo_session [demo_waiting])))
    \<and> session_ok (snd (resume_run (demo_env answer_events) [] (\<lambda>_. Some []) 5 2 True ResumeCancel None (demo_session [demo_waiting])))"
proof -
  have "session_ok (demo_session [demo_waiting])"
    by (simp add: session_ok_def demo_session_def demo_tables_def demo_waiting_def turn_ok_def turn_statuses_def)
  from requests_keep_rows_well_formed [OF this] show ?thesis by blast
qed

section \<open>Pauses\<close>

lemma idle_resume_refused:
  assumes "idle_rows.rows run s"
  shows "resume_run env confirmation goal_of run user tenant action input s = (ResumeHttp 404, cs_close s)"
proof -
  have "filter (\<lambda>t. tn_run t = Some run \<and> tn_status t = ''paused'') (cb_turns (cs_view s)) = []"
    using assms unfolding idle_rows.rows_def by (auto simp: filter_empty_conv waits_for_def)
  then show ?thesis by (simp add: resume_run_def)
qed

lemma only_waiting_row_left:
  assumes only: "filter (\<lambda>t. tn_run t = Some run \<and> tn_status t = ''paused'') (cb_turns (cs_view s)) = [t]"
    and f: "\<And>x. tn_status (f x) \<noteq> ''paused''"
  shows "idle_rows.rows run (cs_commit (snd (change_turn (tn_id t) f s)))"
proof -
  have mem: "x = t" if "x \<in> set (cb_turns (cs_view s))" "waits_for run x" for x
  proof -
    have "x \<in> set (filter (\<lambda>t. tn_run t = Some run \<and> tn_status t = ''paused'') (cb_turns (cs_view s)))"
      using that by (simp add: waits_for_def)
    then show ?thesis unfolding only by simp
  qed
  have t: "t \<in> set (cb_turns (cs_view s))"
    using arg_cong [OF only, of set] by auto
  then have g: "get_turn (tn_id t) s \<noteq> None" by (auto simp: get_turn_def find_None_iff)
  show ?thesis
    using mem f g unfolding idle_rows.rows_def change_turn_def
    by (auto simp: waits_for_def split: option.splits)
qed

text \<open>
  C19. A paused run is resumed once: when exactly one committed row waits for it and its owner sends an
  action its pause admits, the request is served, and if the run does not pause again, every later
  resume of it, by anyone and with any action, finds nothing (404).
\<close>

theorem paused_run_resumes_once:
  assumes only: "filter (\<lambda>t. tn_run t = Some run \<and> tn_status t = ''paused'') (cb_turns (cs_view s)) = [t]"
    and "validate_action (case tn_pause t of None \<Rightarrow> [] | Some p \<Rightarrow> p) action input = Inr txt" and "goal_of run \<noteq> None"
    and quiet: "\<And>r ctx. \<forall>e\<in>set (fst (te_run env r ctx)). rv_type e \<noteq> ''run_paused''"
    and res: "resume_run env confirmation goal_of run (tn_user t) True action input s = (res, s')"
  shows "(if action = ResumeCancel then res = ResumeDone else \<exists>outs. res = ResumeStream outs)
    \<and> fst (resume_run env' confirmation' goal_of' run user' tenant' action' input' s') = ResumeHttp 404"
proof -
  have idle: "idle_rows.rows run s'"
  proof (cases "action = ResumeCancel")
    case True
    have "s' = cs_close (cs_commit (snd (cancel_turn (tn_id t) ''Cancelled by user'' (te_now env) s)))"
      using res assms(1-3) True by (simp add: resume_run_def)
    then show ?thesis
      unfolding cancel_turn_def by (auto intro!: idle_rows.rows_close only_waiting_row_left [OF only])
  next
    case False
    let ?s1 = "cs_commit (snd (resume_turn (tn_id t) s))"
    obtain q outs where q: "send_message_stream env q ?s1 = (outs, s')"
      using res assms(1-3) False by (auto simp: resume_run_def Let_def split: prod.splits)
    have "idle_rows.rows run ?s1"
      unfolding resume_turn_def by (auto intro!: only_waiting_row_left [OF only])
    then have "idle_rows.rows run (snd (send_message_stream env q ?s1))"
      by (rule idle_rows.rows_send) (simp add: quiet)
    then show ?thesis by (simp add: q)
  qed
  have "if action = ResumeCancel then res = ResumeDone else \<exists>outs. res = ResumeStream outs"
    using res assms(1-3) by (auto simp: resume_run_def Let_def split: prod.splits)
  then show ?thesis using idle_resume_refused [OF idle] by simp
qed

theorem paused_run_resumes_once_witness:
  "\<exists>outs s'. resume_run (demo_env answer_events) [] (\<lambda>_. Some []) 5 2 True ResumeInput (Some ''yes'') (demo_session [demo_waiting])
      = (ResumeStream outs, s')
    \<and> fst (resume_run (demo_env answer_events) [] (\<lambda>_. Some []) 5 2 True ResumeInput (Some ''yes'') s') = ResumeHttp 404"
proof -
  have only: "filter (\<lambda>t. tn_run t = Some 5 \<and> tn_status t = ''paused'') (cb_turns (cs_view (demo_session [demo_waiting]))) = [demo_waiting]"
    by (simp add: demo_waiting_def)
  have input: "validate_action (case tn_pause demo_waiting of None \<Rightarrow> [] | Some p \<Rightarrow> p) ResumeInput (Some ''yes'') = Inr ''yes''"
    by code_simp
  have quiet: "\<forall>e\<in>set (fst (te_run (demo_env answer_events) r ctx)). rv_type e \<noteq> ''run_paused''" for r ctx
    by (simp add: answer_events_def plain_event_def)
  obtain res s' where r: "resume_run (demo_env answer_events) [] (\<lambda>_. Some []) 5 (tn_user demo_waiting) True ResumeInput (Some ''yes'')
      (demo_session [demo_waiting]) = (res, s')" by fastforce
  from paused_run_resumes_once [OF only input _ quiet r] r show ?thesis by (auto simp: demo_waiting_def)
qed

section \<open>Phases\<close>

lemma execute_turn_finishes:
  obtains run turn um s1 s2 events raised v where "te_run env run (turn_context q s1) = (events, raised)"
    and "snd (execute_turn env q chat s) = snd (finish_turn env q turn um v s2)"
    and "raised = None \<and> v = run_result env events
      \<or> (\<exists>err. v = (run_result env events)\<lparr>rw_error := Some err, rw_state := force_error (rw_state (run_result env events))\<rparr>)"
proof -
  obtain run turn s1 where b: "begin_turn env q s = (run, turn, s1)" by (metis prod_cases3)
  obtain o1 um s2 where u: "save_user_message env q turn s1 = (o1, um, s2)" by (metis prod_cases3)
  obtain events raised where r: "te_run env run (turn_context q s2) = (events, raised)" by fastforce
  let ?s4 = "if te_router_commits env then cs_commit s2 else s2"
  show ?thesis
  proof (cases raised)
    case None
    have "snd (execute_turn env q chat s) = snd (finish_turn env q turn um (run_result env events) ?s4)"
      by (simp add: execute_turn_def b u r None run_result_def started_state_def Let_def split: prod.splits)
    from that [OF r this] show ?thesis using None by blast
  next
    case (Some msg)
    let ?err = "normalize_runtime_error (te_user_text env) ''unknown_runtime_error'' msg"
    let ?v = "(run_result env events)\<lparr>rw_error := Some ?err, rw_state := force_error (rw_state (run_result env events))\<rparr>"
    have "snd (execute_turn env q chat s)
        = snd (finish_turn env q turn um ?v (snd (fail_turn turn (er_operator ?err) (te_now env) ?s4)))"
      by (simp add: execute_turn_def b u r Some run_result_def started_state_def Let_def split: prod.splits)
    from that [OF r this] show ?thesis by blast
  qed
qed

lemma finish_turn_phases:
  assumes "streaming (rw_state v) \<and> rw_error v = None \<or> ts_valid (rw_state v) \<and> rw_error v \<noteq> None" and "\<not> rw_paused v"
  shows "ts_valid (fst (snd (finish_turn env q turn um v s))) \<and> phase_terminal (turn_phase (fst (snd (finish_turn env q turn um v s))))"
  using assms
  by (auto simp: finish_turn_def finish_completed_def finish_empty_def finish_failed_def Let_def streaming_def
      turn_transition_def turn_phase_def force_error_def phase_terminal_def split: option.splits prod.splits)

text \<open>
  C29. A turn whose run does not pause goes through valid phases only and ends in a terminal one,
  whatever the run yields and whether it returns or raises.
\<close>

theorem unpaused_turn_phases:
  assumes quiet: "\<And>r ctx. \<forall>e\<in>set (fst (te_run env r ctx)). rv_type e \<noteq> ''run_paused''"
    and ex: "execute_turn env q chat s = (outs, t, s')"
  shows "ts_valid t \<and> phase_terminal (turn_phase t)"
proof (rule execute_turn_finishes [of env q chat s])
  fix run turn um s1 s2 events raised v
  assume r: "te_run env run (turn_context q s1) = (events, raised)"
    and f: "snd (execute_turn env q chat s) = snd (finish_turn env q turn um v s2)"
    and v: "raised = None \<and> v = run_result env events
      \<or> (\<exists>err. v = (run_result env events)\<lparr>rw_error := Some err, rw_state := force_error (rw_state (run_result env events))\<rparr>)"
  have st: "streaming (rw_state (run_result env events)) \<and> \<not> rw_paused (run_result env events)"
    using run_result_streams quiet [of run "turn_context q s1"] by (simp add: r)
  have "streaming (rw_state v) \<and> rw_error v = None \<or> ts_valid (rw_state v) \<and> rw_error v \<noteq> None" "\<not> rw_paused v"
    using v st by (auto simp: streaming_def force_error_def)
  from finish_turn_phases [OF this, of env q turn um s2] show ?thesis
    by (simp add: f [symmetric] ex)
qed

theorem unpaused_turn_phases_witness:
  "\<exists>outs t s'. execute_turn (demo_env answer_events) demo_request demo_chat (demo_session []) = (outs, t, s')
     \<and> ts_valid t \<and> phase_terminal (turn_phase t)"
proof -
  have quiet: "\<forall>e\<in>set (fst (te_run (demo_env answer_events) r ctx)). rv_type e \<noteq> ''run_paused''" for r ctx
    by (simp add: answer_events_def plain_event_def)
  obtain outs t s' where e: "execute_turn (demo_env answer_events) demo_request demo_chat (demo_session []) = (outs, t, s')"
    by (metis prod_cases3)
  from unpaused_turn_phases [OF quiet e] e show ?thesis by blast
qed

section \<open>Requests\<close>

text \<open>A request that gets as far as its turn, without artifacts.\<close>

definition served :: "turn_env \<Rightarrow> turn_request \<Rightarrow> chat_session \<Rightarrow> bool" where
  "served env q s \<longleftrightarrow> (opt_truthy (tq_key q) \<longrightarrow> check_idempotency env q (the (tq_key q)) s = None)
     \<and> find (\<lambda>c. ch_id c = tq_chat q \<and> ch_owner c = tq_user q) (cb_chats (cs_view s)) \<noteq> None \<and> tq_artifacts q = []"

lemma demo_served: "served (demo_env events) demo_request (demo_session [])"
  by (simp add: served_def check_idempotency_def check_turn_idempotency_def has_payload_mismatch_def get_latest_by_idempotency_key_def
      latest_turn_def get_cached_result_def demo_session_def demo_tables_def demo_request_def)

lemma served_stream:
  assumes "served env q s"
  obtains q' chat where "send_message_stream env q s = (let (outs, _, s1) = execute_turn env q' chat s in (outs, cs_close s1))"
    and "q' = q\<lparr>tq_attachment_meta := [], tq_preloaded := load_chat_context (tq_chat q) 12 s\<rparr>"
  using assms by (auto simp: served_def send_message_stream_def Let_def)

lemma map_absent:
  "(\<forall>x\<in>set xs. tn_id x \<noteq> i) \<Longrightarrow> map (\<lambda>x. if tn_id x = i then f x else x) xs = xs"
  by (induction xs) auto

lemma fresh_row_before_run:
  assumes b: "before_run env q s = (o1, run, turn, um, s1)" and wf: "chat_wf s" and new: "tq_resumed_turn q = None"
  shows "\<exists>row. turn_in turn (cs_view s1) = Some row \<and> tn_status row = ''started'' \<and> tn_run row = Some run \<and> tn_key row = tq_key q
      \<and> tn_chat row = tq_chat q \<and> tn_user row = tq_user q \<and> tn_asst_msg row = None \<and> tn_started row = te_now env
      \<and> tn_hash row = Some (te_digest env (hash_payload (tq_content q) (tq_artifacts q)))
      \<and> cb_turns (cs_view s1) = cb_turns (cs_view s) @ [row]"
    and "cs_redis s1 = cs_redis s" and "um \<noteq> None \<longleftrightarrow> tq_persist q" and "filter own_frame o1 = []"
    and "um \<noteq> None \<Longrightarrow> OutUserMessage (the um) \<in> set o1" and "cb_chats (cs_view s1) = cb_chats (cs_view s)"
proof -
  obtain s0 s2 where bt: "begin_turn env q s = (run, turn, s0)" and u: "save_user_message env q turn s0 = (o1, um, s2)"
    and s1: "s1 = (if te_router_commits env then cs_commit s2 else s2)"
    using b by (auto simp: before_run_def split: prod.splits)
  have ex: "turn_exists q s" using new by (simp add: turn_exists_def)
  note row0 = begin_turn_row [OF bt wf ex] and sv = save_user_message_view [OF u]
  obtain t where t: "turn_in turn (cs_view s0) = Some t" "tn_status t = ''started''" "tn_run t = Some run" "tn_key t = tq_key q"
    "tn_chat t = tq_chat q" "tn_user t = tq_user q" "tn_asst_msg t = None" "tn_started t = te_now env"
    "tn_hash t = Some (te_digest env (hash_payload (tq_content q) (tq_artifacts q)))"
    "cb_turns (cs_view s0) = cb_turns (cs_view s) @ [t]"
    using row0(1) new by auto
  have id: "tn_id t = turn" using t(1) by (auto simp: turn_in_def find_Some_iff)
  have old: "\<forall>x\<in>set (cb_turns (cs_view s)). tn_id x \<noteq> turn"
  proof -
    have "turn = tn_id t \<and> cs_next s \<le> turn"
      using bt new by (auto simp: begin_turn_def start_turn_def chat_fresh_def Let_def id split: option.splits)
    then show ?thesis using wf by (fastforce simp: chat_wf_def)
  qed
  show "cs_redis s1 = cs_redis s" "um \<noteq> None \<longleftrightarrow> tq_persist q" "filter own_frame o1 = []" "cb_chats (cs_view s1) = cb_chats (cs_view s)"
    using sv(2-5) row0(3,5) by (simp_all add: s1)
  show "OutUserMessage (the um) \<in> set o1" if "um \<noteq> None"
    using u that by (auto simp: save_user_message_def Let_def split: if_splits prod.splits)
  show "\<exists>row. turn_in turn (cs_view s1) = Some row \<and> tn_status row = ''started'' \<and> tn_run row = Some run \<and> tn_key row = tq_key q
      \<and> tn_chat row = tq_chat q \<and> tn_user row = tq_user q \<and> tn_asst_msg row = None \<and> tn_started row = te_now env
      \<and> tn_hash row = Some (te_digest env (hash_payload (tq_content q) (tq_artifacts q)))
      \<and> cb_turns (cs_view s1) = cb_turns (cs_view s) @ [row]"
  proof (cases um)
    case None
    then have "s2 = s0" using u by (auto simp: save_user_message_def Let_def split: if_splits prod.splits)
    then show ?thesis using t by (auto simp: s1)
  next
    case (Some k)
    have "\<exists>s3. s2 = snd (attach_user_message turn k s3) \<and> cb_turns (cs_view s3) = cb_turns (cs_view s0)"
      using u Some by (auto simp: save_user_message_def create_user_message_def create_message_def chat_fresh_def Let_def
          bind_artifacts_def split: if_splits prod.splits)
    then obtain s3 where s3: "s2 = snd (attach_user_message turn k s3)" "cb_turns (cs_view s3) = cb_turns (cs_view s0)" by blast
    have "get_turn turn s3 = Some t" using t(1) s3(2) by (simp add: get_turn_def turn_in_def)
    then have "cb_turns (cs_view s2) = cb_turns (cs_view s) @ [t\<lparr>tn_user_msg := Some k\<rparr>]"
      using s3(2) t(10) id by (simp add: s3(1) attach_user_message_def change_turn_def map_absent [OF old])
    moreover have "turn_in turn (cs_view s2) = Some (t\<lparr>tn_user_msg := Some k\<rparr>)"
      using sv(1) [of turn] t(1) Some by simp
    ultimately show ?thesis using t(2-9) by (simp add: s1)
  qed
qed

text \<open>What a completed request leaves.\<close>

lemma completed_request:
  assumes run: "\<And>run ctx. te_run env run ctx = (events, None)"
    and answered: "rw_error (run_result env events) = None" "rw_content (run_result env events) \<noteq> []"
    and wf: "chat_wf s" and new: "tq_resumed_turn q = None" "tq_persist q" and key: "tq_key q = Some key" "key \<noteq> []"
    and sv: "served env q s" and send: "send_message_stream env q s = (outs, s')"
  shows "\<exists>row u a. cb_turns (cs_view s') = cb_turns (cs_view s) @ [row] \<and> cs_saved s' = cs_view s'
      \<and> tn_status row = ''started'' \<and> tn_key row = Some key \<and> tn_chat row = tq_chat q \<and> tn_user row = tq_user q
      \<and> tn_asst_msg row = None \<and> tn_started row = te_now env
      \<and> tn_hash row = Some (te_digest env (hash_payload (tq_content q) (tq_artifacts q)))
      \<and> cs_redis s' = AList.update (redis_key key) (te_now env + IDEMPOTENCY_TTL, u, a) (cs_redis s)
      \<and> OutUserMessage u \<in> set outs \<and> OutFinal a (rw_sources (run_result env events)) (rw_attachments (run_result env events)) \<in> set outs"
proof (rule served_stream [OF sv])
  fix q' chat
  assume snd: "send_message_stream env q s = (let (outs, _, s1) = execute_turn env q' chat s in (outs, cs_close s1))"
    and q': "q' = q\<lparr>tq_attachment_meta := [], tq_preloaded := load_chat_context (tq_chat q) 12 s\<rparr>"
  let ?v = "run_result env events"
  obtain o1 r turn um s1 where b: "before_run env q' s = (o1, r, turn, um, s1)" by (metis prod_cases5)
  obtain o2 t2 s2 where f: "finish_turn env q' turn um ?v s1 = (o2, t2, s2)" by (metis prod_cases3)
  have f': "finish_completed env q' turn um ?v s1 = (o2, t2, s2)" using f answered by (simp add: finish_turn_def)
  have e: "outs = o1 @ [OutStatus ''loading_context'', OutStatus ''agent_running''] @ map OutForward (filter forwarded events) @ o2"
    "s' = cs_close s2" using execute_turn_returns [OF b run f] snd send by (auto simp: Let_def)
  have new': "tq_resumed_turn q' = None" "tq_persist q'" using new by (simp_all add: q')
  note row = fresh_row_before_run [OF b wf new'(1)]
  obtain rw where rw: "turn_in turn (cs_view s1) = Some rw" "tn_status rw = ''started''" "tn_key rw = tq_key q'"
      "tn_chat rw = tq_chat q'" "tn_user rw = tq_user q'" "tn_asst_msg rw = None" "tn_started rw = te_now env"
      "tn_hash rw = Some (te_digest env (hash_payload (tq_content q') (tq_artifacts q')))"
      "cb_turns (cs_view s1) = cb_turns (cs_view s) @ [rw]" using row(1) by blast
  obtain u where u: "um = Some u" using row(3) new'(2) by auto
  obtain m where m: "o2 = [OutFinal m (rw_sources ?v) (rw_attachments ?v), OutStatus ''completed'']"
    "cb_turns (cs_saved s2) = cb_turns (cs_view s1)"
    "cs_redis s2 = AList.update (redis_key key) (te_now env + IDEMPOTENCY_TTL, u, m) (cs_redis s1)"
    using finish_completed_view [OF f' rw(1)] key u by (auto simp: q')
  show ?thesis
    apply (rule exI [of _ rw]; rule exI [of _ u]; rule exI [of _ m])
    using rw(2-9) m(2,3) row(2,5) key u by (simp add: e m(1) q')
qed

section \<open>Idempotency\<close>

lemma latest_turn_newest:
  assumes "r \<in> set ts" "\<And>x. x \<in> set ts \<Longrightarrow> x = r \<or> tn_started x < tn_started r"
  shows "latest_turn ts = Some r"
proof -
  let ?ys = "sort_key (\<lambda>t. - tn_started t) ts"
  obtain y ys where y: "?ys = y # ys" using assms(1) by (metis list.exhaust set_empty set_sort empty_iff)
  have y': "y \<in> set ts" using y by (metis list.set_intros(1) set_sort)
  have "sorted (map (\<lambda>t. - tn_started t) ?ys)" by (rule sorted_sort_key)
  moreover have "r \<in> set ?ys" using assms(1) by simp
  ultimately have "- tn_started y \<le> - tn_started r" by (auto simp: y)
  with assms(2) [OF y'] have "y = r" by auto
  then show ?thesis by (simp add: latest_turn_def y)
qed

lemma latest_turn_none: "latest_turn [] = None"
  by (simp add: latest_turn_def)

text \<open>
  C39. A request with an idempotency key that was answered blocks its key: the stream ends with the
  final frame of the answer, but the completion of the row is never committed, and the same request
  repeated is told that it is still in progress, at any later time.
\<close>

theorem completed_request_blocks_its_key:
  assumes run: "\<And>run ctx. te_run env run ctx = (events, None)"
    and answered: "rw_error (run_result env events) = None" "rw_content (run_result env events) \<noteq> []"
    and wf: "chat_wf s" "\<And>t. t \<in> set (cb_turns (cs_view s)) \<Longrightarrow> tn_started t < te_now env"
    and new: "tq_resumed_turn q = None" "tq_persist q" and key: "tq_key q = Some key" "key \<noteq> []"
    and sv: "served env q s" and send: "send_message_stream env q s = (outs, s')"
  shows "(\<exists>a. OutFinal a (rw_sources (run_result env events)) (rw_attachments (run_result env events)) \<in> set outs)
    \<and> send_message_stream (env\<lparr>te_now := later\<rparr>) q s'
      = ([OutError ''Request with this idempotency key is already in progress'' (Some ''idempotency_processing'')], s')"
proof -
  obtain row u a where r: "cb_turns (cs_view s') = cb_turns (cs_view s) @ [row]" "cs_saved s' = cs_view s'"
      "tn_status row = ''started''" "tn_key row = Some key" "tn_chat row = tq_chat q" "tn_user row = tq_user q"
      "tn_started row = te_now env" "tn_hash row = Some (te_digest env (hash_payload (tq_content q) (tq_artifacts q)))"
    and out: "OutFinal a (rw_sources (run_result env events)) (rw_attachments (run_result env events)) \<in> set outs"
    using completed_request [OF run answered wf(1) new key sv send] by blast
  have "latest_turn (filter (\<lambda>t. tn_chat t = tq_chat q \<and> tn_user t = tq_user q \<and> tn_key t = Some key) (cb_turns (cs_view s'))) = Some row"
    by (rule latest_turn_newest) (use r wf(2) in auto)
  then have "check_idempotency (env\<lparr>te_now := later\<rparr>) q key s'
      = Some [OutError ''Request with this idempotency key is already in progress'' (Some ''idempotency_processing'')]"
    by (simp add: check_idempotency_def check_turn_idempotency_def has_payload_mismatch_def get_latest_by_idempotency_key_def r)
  moreover have "cs_close s' = s'" by (simp add: cs_close_def r(2))
  ultimately show ?thesis using out key by (auto simp: send_message_stream_def)
qed

theorem completed_request_blocks_its_key_witness:
  "\<exists>outs s'. send_message_stream (demo_env answer_events) demo_request (demo_session []) = (outs, s')
    \<and> fst (send_message_stream ((demo_env answer_events)\<lparr>te_now := 20\<rparr>) demo_request s')
      = [OutError ''Request with this idempotency key is already in progress'' (Some ''idempotency_processing'')]"
proof -
  obtain outs s' where e: "send_message_stream (demo_env answer_events) demo_request (demo_session []) = (outs, s')" by fastforce
  have "send_message_stream ((demo_env answer_events)\<lparr>te_now := 20\<rparr>) demo_request s'
      = ([OutError ''Request with this idempotency key is already in progress'' (Some ''idempotency_processing'')], s')"
    by (rule conjunct2, rule completed_request_blocks_its_key [where events = answer_events and key = "''k''", OF _ _ _ _ _ _ _ _ _ demo_served e])
      (simp_all add: demo_answer)
  then show ?thesis using e by simp
qed

text \<open>
  The cached result of a key is not bound to the chat or the user that produced it: while it is
  fresh, a request of any other user to any other chat under the same key gets the messages of the first
  chat and is not run.
\<close>

theorem cached_answer_reaches_another_chat:
  assumes run: "\<And>run ctx. te_run env run ctx = (events, None)"
    and answered: "rw_error (run_result env events) = None" "rw_content (run_result env events) \<noteq> []"
    and wf: "chat_wf s" and new: "tq_resumed_turn q = None" "tq_persist q" and key: "tq_key q = Some key" "key \<noteq> []"
    and sv: "served env q s" and send: "send_message_stream env q s = (outs, s')"
    and other: "tq_key q2 = Some key" "(tq_chat q2, tq_user q2) \<noteq> (tq_chat q, tq_user q)"
      "\<And>t. t \<in> set (cb_turns (cs_view s)) \<Longrightarrow> tn_key t \<noteq> Some key"
    and fresh: "te_now env2 < te_now env + IDEMPOTENCY_TTL"
  shows "\<exists>u a. OutUserMessage u \<in> set outs \<and> OutFinal a (rw_sources (run_result env events)) (rw_attachments (run_result env events)) \<in> set outs
    \<and> send_message_stream env2 q2 s' = ([OutCached u a], s')"
proof -
  obtain row u a where r: "cb_turns (cs_view s') = cb_turns (cs_view s) @ [row]" "cs_saved s' = cs_view s'"
      "tn_chat row = tq_chat q" "tn_user row = tq_user q"
      "cs_redis s' = AList.update (redis_key key) (te_now env + IDEMPOTENCY_TTL, u, a) (cs_redis s)"
    and out: "OutUserMessage u \<in> set outs"
      "OutFinal a (rw_sources (run_result env events)) (rw_attachments (run_result env events)) \<in> set outs"
    using completed_request [OF run answered wf new key sv send] by blast
  have "filter (\<lambda>t. tn_chat t = tq_chat q2 \<and> tn_user t = tq_user q2 \<and> tn_key t = Some key) (cb_turns (cs_view s')) = []"
    using r other by (auto simp: filter_empty_conv)
  then have "get_latest_by_idempotency_key (tq_chat q2) (tq_user q2) key s' = None"
    by (simp add: get_latest_by_idempotency_key_def latest_turn_none)
  then have "check_idempotency env2 q2 key s' = Some [OutCached u a]"
    using fresh by (simp add: check_idempotency_def check_turn_idempotency_def has_payload_mismatch_def get_cached_result_def r(5) update_conv)
  moreover have "cs_close s' = s'" by (simp add: cs_close_def r(2))
  ultimately show ?thesis using out other(1) key by (auto simp: send_message_stream_def)
qed

theorem cached_answer_reaches_another_chat_witness:
  "\<exists>outs s' u a. send_message_stream (demo_env answer_events) demo_request (demo_session []) = (outs, s')
    \<and> send_message_stream (demo_env answer_events) (demo_request\<lparr>tq_chat := 7, tq_user := 8\<rparr>) s' = ([OutCached u a], s')"
proof -
  obtain outs s' where e: "send_message_stream (demo_env answer_events) demo_request (demo_session []) = (outs, s')" by fastforce
  have "\<exists>u a. OutUserMessage u \<in> set outs
      \<and> OutFinal a (rw_sources (run_result (demo_env answer_events) answer_events)) (rw_attachments (run_result (demo_env answer_events) answer_events)) \<in> set outs
      \<and> send_message_stream (demo_env answer_events) (demo_request\<lparr>tq_chat := 7, tq_user := 8\<rparr>) s' = ([OutCached u a], s')"
    by (rule cached_answer_reaches_another_chat [where key = "''k''", OF _ _ _ _ _ _ _ _ demo_served e])
      (simp_all add: demo_answer demo_request_def IDEMPOTENCY_TTL_def)
  then show ?thesis using e by blast
qed

text \<open>
  C22. A pause that is told is stored: when the stop frame of a run reaches the client, the row of its
  turn is committed as waiting, with the reason, the action and the context of the pause, and the session
  that the request closes keeps it.
\<close>

theorem told_pause_is_stored:
  assumes run: "\<And>run ctx. te_run env run ctx = (events, None)"
    and paused: "rw_paused (run_result env events)" "rw_content (run_result env events) = [] \<or> rw_error (run_result env events) \<noteq> None"
    and wf: "chat_wf s" and new: "tq_resumed_turn q = None" and sv: "served env q s"
    and send: "send_message_stream env q s = (outs, s')"
  shows "\<exists>row question message action context. cb_turns (cs_view s') \<noteq> [] \<and> row = last (cb_turns (cs_view s')) \<and> cs_saved s' = cs_view s'
    \<and> filter own_frame outs = [OutStop (the (tn_pause row)) question message (rw_paused_run (run_result env events)) action context]
    \<and> tn_status row = ''paused'' \<and> tn_user row = tq_user q \<and> tn_chat row = tq_chat q
    \<and> tn_action row = rw_action (run_result env events) \<and> tn_context row = rw_context (run_result env events)
    \<and> (rw_paused_run (run_result env events) \<noteq> None \<longrightarrow> tn_run row = rw_paused_run (run_result env events))"
proof (rule served_stream [OF sv])
  fix q' chat
  assume snd: "send_message_stream env q s = (let (outs, _, s1) = execute_turn env q' chat s in (outs, cs_close s1))"
    and q': "q' = q\<lparr>tq_attachment_meta := [], tq_preloaded := load_chat_context (tq_chat q) 12 s\<rparr>"
  let ?v = "run_result env events"
  obtain o1 r turn um s1 where b: "before_run env q' s = (o1, r, turn, um, s1)" by (metis prod_cases5)
  obtain o2 t2 s2 where f: "finish_turn env q' turn um ?v s1 = (o2, t2, s2)" by (metis prod_cases3)
  have f': "finish_paused env turn ?v s1 = (o2, t2, s2)" using f paused by (auto simp: finish_turn_def split: option.splits)
  have e: "outs = o1 @ [OutStatus ''loading_context'', OutStatus ''agent_running''] @ map OutForward (filter forwarded events) @ o2"
    "s' = cs_close s2" using execute_turn_returns [OF b run f] snd send by (auto simp: Let_def)
  have new': "tq_resumed_turn q' = None" using new by (simp add: q')
  note row = fresh_row_before_run [OF b wf new']
  obtain rw where rw: "turn_in turn (cs_view s1) = Some rw" "tn_chat rw = tq_chat q'" "tn_user rw = tq_user q'"
      "cb_turns (cs_view s1) = cb_turns (cs_view s) @ [rw]" using row(1) by blast
  let ?run = "case rw_paused_run ?v of None \<Rightarrow> rw | Some r \<Rightarrow> rw\<lparr>tn_run := Some r\<rparr>"
  let ?rw = "?run\<lparr>tn_status := ''paused'', tn_pause := Some (if opt_truthy (rw_reason ?v) then the (rw_reason ?v) else ''paused''),
      tn_action := rw_action ?v, tn_context := rw_context ?v, tn_paused_at := Some (te_now env)\<rparr>"
  have "get_turn turn s1 = Some rw" "tn_id rw = turn" using rw(1) by (auto simp: get_turn_in turn_in_def find_Some_iff)
  then have "last (cb_turns (cs_view s2)) = ?rw" "cb_turns (cs_view s2) \<noteq> []" "cs_saved s2 = cs_view s2"
    using f' rw(4) by (auto simp: finish_paused_def pause_turn_def change_turn_def Let_def)
  moreover have "\<exists>question message action context. o2 = [OutStop (the (tn_pause ?rw)) question message (rw_paused_run ?v) action context]"
    using f' by (auto simp: finish_paused_def Let_def)
  ultimately show ?thesis
    using row(4) rw(2,3) by (fastforce simp: e q' split: option.splits)
qed

theorem told_pause_is_stored_witness:
  "\<exists>outs s' row. send_message_stream (demo_env pause_events) demo_request (demo_session []) = (outs, s')
    \<and> row = last (cb_turns (cs_view s')) \<and> tn_status row = ''paused'' \<and> tn_run row = Some 5"
proof -
  obtain outs s' where e: "send_message_stream (demo_env pause_events) demo_request (demo_session []) = (outs, s')" by fastforce
  have "rw_paused_run (run_result (demo_env pause_events) pause_events) = Some 5"
    by (simp add: run_result_def pause_events_def plain_event_def on_router_event_def run_view_init_def Let_def)
  then show ?thesis
    using told_pause_is_stored [where events = pause_events, OF _ _ _ _ _ demo_served e] e by (auto simp: demo_pause)
qed

section \<open>What the run is given\<close>

lemma run_irrelevant [simp]:
  "begin_turn (env\<lparr>te_run := f\<rparr>) q s = begin_turn env q s"
  "save_user_message (env\<lparr>te_run := f\<rparr>) q turn s = save_user_message env q turn s"
  "on_router_event (env\<lparr>te_run := f\<rparr>) e v = on_router_event env e v"
  "run_events (env\<lparr>te_run := f\<rparr>) es v = run_events env es v"
  "finish_turn (env\<lparr>te_run := f\<rparr>) q turn um v s = finish_turn env q turn um v s"
proof -
  show e: "on_router_event (env\<lparr>te_run := f\<rparr>) e v = on_router_event env e v" for e v
    by (simp add: on_router_event_def)
  show "begin_turn (env\<lparr>te_run := f\<rparr>) q s = begin_turn env q s"
    by (auto simp: begin_turn_def split: option.splits prod.splits)
  show "save_user_message (env\<lparr>te_run := f\<rparr>) q turn s = save_user_message env q turn s"
    by (simp add: save_user_message_def)
  show "run_events (env\<lparr>te_run := f\<rparr>) es v = run_events env es v"
    by (metis e ext run_events_def)
  show "finish_turn (env\<lparr>te_run := f\<rparr>) q turn um v s = finish_turn env q turn um v s"
    by (simp add: finish_turn_def finish_completed_def finish_empty_def finish_paused_def finish_failed_def run_meta_def pause_text_def
        cong: option.case_cong if_cong)
qed

lemma title_chat_run_irrelevant [simp]: "title_chat (env\<lparr>te_run := f\<rparr>) q chat (turn_context q s') s = ([], s)"
  by simp

text \<open>
  The first message of a chat reaches the run twice: the stream finds no history, so the turn loads it
  again after the message was saved, and then appends the message once more.
\<close>

theorem first_message_is_doubled:
  assumes "\<And>m. m \<in> set (cb_messages (cs_view s)) \<Longrightarrow> cm_chat m \<noteq> tq_chat q" and "tq_preloaded q = []" and "tq_persist q"
  shows "execute_turn env q chat s
    = execute_turn (env\<lparr>te_run := \<lambda>run _. te_run env run [(''user'', tq_content q), (''user'', tq_content q)]\<rparr>) q chat s"
proof -
  obtain run turn s1 where b: "begin_turn env q s = (run, turn, s1)" by (metis prod_cases3)
  obtain o1 um s2 where u: "save_user_message env q turn s1 = (o1, um, s2)" by (metis prod_cases3)
  have m1: "cb_messages (cs_view s1) = cb_messages (cs_view s)"
    using b by (auto simp: begin_turn_def start_turn_def add_turn_def chat_fresh_def Let_def split: option.splits)
  have "\<exists>x. cb_messages (cs_view s2) = cb_messages (cs_view s1) @ [x] \<and> cm_role x = ''user'' \<and> cm_text x = tq_content q \<and> cm_chat x = tq_chat q"
    using u assms(3) by (auto simp: save_user_message_def create_user_message_def create_message_def chat_fresh_def Let_def
        bind_artifacts_def attach_user_message_def split: if_splits prod.splits)
  then obtain x where x: "cb_messages (cs_view s2) = cb_messages (cs_view s1) @ [x]" "cm_role x = ''user''" "cm_text x = tq_content q"
    "cm_chat x = tq_chat q" by blast
  have "filter (\<lambda>m. cm_chat m = tq_chat q) (cb_messages (cs_view s2)) = [x]"
    using assms(1) x by (auto simp: m1 filter_empty_conv)
  then have "turn_context q s2 = [(''user'', tq_content q), (''user'', tq_content q)]"
    using assms(2) x by (simp add: turn_context_def load_chat_context_def)
  then show ?thesis
    unfolding execute_turn_def by (simp add: b u Let_def split: option.splits prod.splits)
qed

theorem first_message_is_doubled_witness:
  "execute_turn (demo_env answer_events) demo_request demo_chat (demo_session [])
    = execute_turn ((demo_env answer_events)\<lparr>te_run := \<lambda>run _. te_run (demo_env answer_events) run
        [(''user'', tq_content demo_request), (''user'', tq_content demo_request)]\<rparr>) demo_request demo_chat (demo_session [])"
  by (rule first_message_is_doubled) (simp_all add: demo_session_def demo_tables_def demo_request_def)

section \<open>Divergences\<close>

text \<open>No turn gives its chat a title, not even the first.\<close>

fun is_title :: "chat_out \<Rightarrow> bool" where
  "is_title (OutTitle _) = True"
| "is_title _ = False"

lemma finish_turn_no_title: "\<not> list_ex is_title (fst (finish_turn env q turn um v s))"
  by (auto simp: finish_turn_def finish_completed_def finish_empty_def finish_paused_def finish_failed_def Let_def
      split: option.splits prod.splits)

lemma save_user_message_no_title: "\<not> list_ex is_title (fst (save_user_message env q turn s))"
  by (auto simp: save_user_message_def Let_def split: prod.splits)

lemma chat_title_never_generated: "\<not> list_ex is_title (fst (execute_turn env q chat s))"
proof -
  have f: "\<not> list_ex is_title (map OutForward es)" for es by (induction es) simp_all
  note t = finish_turn_no_title save_user_message_no_title
  show ?thesis
    unfolding execute_turn_def Let_def
    by (auto split: prod.splits option.splits simp: f) (metis fst_conv t)+
qed

text \<open>A run that raises is reported twice to the client, before the turn finishes and after it.\<close>

lemma exception_is_reported_twice:
  assumes run: "\<And>run ctx. te_run env run ctx = (events, Some msg)" and wf: "chat_wf s" "turn_exists q s"
    and quiet: "\<not> rw_paused (run_result env events)" "\<not> rw_terminal (run_result env events)"
    and err: "err = normalize_runtime_error (te_user_text env) ''unknown_runtime_error'' msg"
    and ex: "execute_turn env q chat s = (outs, t, s')"
  shows "filter own_frame outs = [OutError (er_user err) (Some (er_code err)), OutError (er_user err) (Some (er_code err))]"
proof -
  obtain o1 run turn m s1 where b: "before_run env q s = (o1, run, turn, m, s1)" by (metis prod_cases5)
  let ?v = "(run_result env events)\<lparr>rw_error := Some err, rw_state := force_error (rw_state (run_result env events))\<rparr>"
  let ?s2 = "snd (fail_turn turn (er_operator err) (te_now env) s1)"
  obtain o2 t2 s2 where f: "finish_turn env q turn m ?v ?s2 = (o2, t2, s2)" by (metis prod_cases3)
  have f': "finish_failed env q turn err ?v ?s2 = (o2, t2, s2)" using f quiet(1) by (simp add: finish_turn_def)
  obtain row where row: "turn_in turn (cs_view s1) = Some row" using before_run_row(1) [OF b wf] by blast
  then have "\<exists>row. turn_in turn (cs_view ?s2) = Some row" by simp
  then show ?thesis
    using execute_turn_raises [OF b run err refl f] before_run_row(2) [OF b wf] finish_failed_view [OF f'] ex quiet(2) by auto
qed

text \<open>
  A run that pauses after it streamed text is not stored as waiting: the text is stored as the answer,
  the turn as completed in its transaction, and the phases take the move from paused to final that they
  do not allow. No stop frame reaches the client.
\<close>

lemma pause_after_text_is_lost:
  assumes run: "\<And>run ctx. te_run env run ctx = (events, None)" and wf: "chat_wf s" "turn_exists q s"
    and "rw_paused (run_result env events)" "rw_content (run_result env events) \<noteq> []" "rw_error (run_result env events) = None"
    and ex: "execute_turn env q chat s = (outs, t, s')"
  shows "\<exists>turn row m. filter own_frame outs = [OutFinal m (rw_sources (run_result env events)) (rw_attachments (run_result env events))]
    \<and> turn_in turn (cs_view s') = Some row \<and> tn_status row = ''completed'' \<and> tn_pause row = None"
proof -
  obtain o1 run turn m s1 where b: "before_run env q s = (o1, run, turn, m, s1)" by (metis prod_cases5)
  obtain o2 t2 s2 where f: "finish_turn env q turn m (run_result env events) s1 = (o2, t2, s2)" by (metis prod_cases3)
  have f': "finish_completed env q turn m (run_result env events) s1 = (o2, t2, s2)" using f assms(4-6) by (simp add: finish_turn_def)
  obtain row where row: "turn_in turn (cs_view s1) = Some row" using before_run_row(1) [OF b wf] by blast
  have pause: "turn_in turn (cs_view s2) \<noteq> None \<and> tn_pause (the (turn_in turn (cs_view s2))) = None"
    using f' row create_message_frame(1) by (fastforce simp: finish_completed_def create_assistant_message_def Let_def split: prod.splits if_splits)
  obtain m' row' where m': "o2 = [OutFinal m' (rw_sources (run_result env events)) (rw_attachments (run_result env events)), OutStatus ''completed'']"
    "turn_in turn (cs_view s2) = Some row'" "tn_status row' = ''completed''"
    using finish_completed_view [OF f' row] by blast
  have e: "outs = o1 @ [OutStatus ''loading_context'', OutStatus ''agent_running''] @ map OutForward (filter forwarded events) @ o2" "s' = s2"
    using execute_turn_returns [OF b run f] ex by simp_all
  have "filter own_frame outs = [OutFinal m' (rw_sources (run_result env events)) (rw_attachments (run_result env events))]"
    using before_run_row(2) [OF b wf] by (simp add: e(1) m'(1))
  moreover have "tn_pause row' = None" using pause m'(2) by simp
  ultimately show ?thesis using m'(2,3) e(2) by blast
qed

text \<open>Cancelling a waiting turn leaves the traces of its pause in the row.\<close>

lemma cancel_keeps_pause:
  "get_turn i s = Some t \<Longrightarrow> fst (cancel_turn i msg now s) = Some t' \<Longrightarrow> tn_status t' = ''cancelled''
    \<and> tn_pause t' = tn_pause t \<and> tn_action t' = tn_action t \<and> tn_context t' = tn_context t \<and> tn_paused_at t' = tn_paused_at t"
  by (auto simp: cancel_turn_def change_turn_def)

end
