(* ===== verification/Tool_Schema.thy ===== *)
theory Tool_Schema
  imports Json_Text
begin

text \<open>
  The arguments of an operation call (\<open>agents/runtime/tools.py\<close>,
  \<open>agents/runtime/prompt_contract.py\<close>, \<open>runtime/operation_errors.py\<close>): the published input
  schema, normalisation, coercion for validation, and the validator that is used when the package
  \<open>jsonschema\<close> is absent.

  Of a schema, \<open>required\<close> is taken to be a list where the code iterates over it. \<open>render\<close> is
  \<open>str()\<close> on arrays, objects and floats.
\<close>

section \<open>Errors\<close>

datatype RuntimeErrorCode = OpUnavailable | OpAmbiguous | OpInvalidArgs | OpTimeout | OpExecutionFailed
  | OpConfirmationRequired | CollectionInfoRequired | CollectionOperationNotActivated | AgentWallTimeExceeded
  | AgentRequiredOperationCallMissing | AgentMaxToolCallsExceeded | AgentNonRetryableOperationFailure
  | AgentNoSuccessfulOperationResult | AgentRuntimeException | AgentPrecheckFailed | AgentUnavailable
  | AgentNoOperations | LlmInputLimitExceeded | LlmOutputLimitExceeded | LlmContextWindowExceeded

fun error_code_value :: "RuntimeErrorCode \<Rightarrow> string" where
  "error_code_value OpUnavailable = ''operation_unavailable''"
| "error_code_value OpAmbiguous = ''operation_ambiguous''"
| "error_code_value OpInvalidArgs = ''operation_invalid_args''"
| "error_code_value OpTimeout = ''operation_timeout''"
| "error_code_value OpExecutionFailed = ''operation_execution_failed''"
| "error_code_value OpConfirmationRequired = ''operation_confirmation_required''"
| "error_code_value CollectionInfoRequired = ''collection_info_required''"
| "error_code_value CollectionOperationNotActivated = ''collection_operation_not_activated''"
| "error_code_value AgentWallTimeExceeded = ''agent_wall_time_exceeded''"
| "error_code_value AgentRequiredOperationCallMissing = ''agent_required_operation_call_missing''"
| "error_code_value AgentMaxToolCallsExceeded = ''agent_max_tool_calls_exceeded''"
| "error_code_value AgentNonRetryableOperationFailure = ''agent_non_retryable_operation_failure''"
| "error_code_value AgentNoSuccessfulOperationResult = ''agent_no_successful_operation_result''"
| "error_code_value AgentRuntimeException = ''agent_runtime_exception''"
| "error_code_value AgentPrecheckFailed = ''agent_precheck_failed''"
| "error_code_value AgentUnavailable = ''agent_unavailable''"
| "error_code_value AgentNoOperations = ''agent_no_operations''"
| "error_code_value LlmInputLimitExceeded = ''llm_input_limit_exceeded''"
| "error_code_value LlmOutputLimitExceeded = ''llm_output_limit_exceeded''"
| "error_code_value LlmContextWindowExceeded = ''llm_context_window_exceeded''"

record OperationValidationError =
  oe_code :: RuntimeErrorCode
  oe_message :: string
  oe_field :: "string option"
  oe_retryable :: bool

definition oe_metadata :: "OperationValidationError \<Rightarrow> jobject" where
  "oe_metadata e = [(''error_code'', JStr (error_code_value (oe_code e))), (''retryable'', JBool (oe_retryable e))]
     @ (if opt_truthy (oe_field e) then [(''field_path'', JStr (the (oe_field e)))] else [])"

definition oe_user_message :: "OperationValidationError \<Rightarrow> string" where
  "oe_user_message e = (if opt_truthy (oe_field e) then oe_message e @ '' (field: '' @ the (oe_field e) @ '')'' else oe_message e)"

section \<open>Operations\<close>

datatype OperationScope = SystemScope | CollectionScope

record ResolvedOperation =
  ro_slug :: string
  ro_operation :: string
  ro_scope :: OperationScope
  ro_description :: "string option"
  ro_schema :: jobject
  ro_collection :: "string option"
  ro_risk :: string
  ro_side_effects :: bool
  ro_requires_confirmation :: bool

text \<open>The names under \<open>required\<close>, stripped, without blanks.\<close>

definition required_names :: "(json \<Rightarrow> string) \<Rightarrow> jobject \<Rightarrow> string list" where
  "required_names render schema =
     filter (\<lambda>s. s \<noteq> []) (map (\<lambda>j. strip (py_str render j))
       (case map_of schema ''required'' of Some (JArr xs) \<Rightarrow> xs | _ \<Rightarrow> []))"

definition setdefault :: "string \<Rightarrow> json \<Rightarrow> jobject \<Rightarrow> jobject" where
  "setdefault k v d = (if map_of d k = None then d @ [(k, v)] else d)"

definition build_prompt_input_schema :: "(json \<Rightarrow> string) \<Rightarrow> ResolvedOperation \<Rightarrow> jobject" where
  "build_prompt_input_schema render op =
     (let s = setdefault ''properties'' (JObj []) (setdefault ''type'' (JStr ''object'') (ro_schema op));
          props = (case map_of s ''properties'' of Some (JObj p) \<Rightarrow> p | _ \<Rightarrow> [])
      in if ro_scope op = CollectionScope
         then let p1 = AList.update ''collection_slug'' (JObj [(''type'', JStr ''string''), (''minLength'', JInt 1)]) props;
                  required = sort (remdups (''collection_slug'' # required_names render s))
              in AList.update ''required'' (JArr (map JStr (filter (\<lambda>x. x \<noteq> ''collection_id'') required)))
                   (AList.update ''properties'' (JObj (AList.delete ''collection_id'' p1)) s)
         else AList.update ''properties'' (JObj props) s)"

section \<open>Normalisation\<close>

text \<open>
  The values of a template are put back under \<open>values\<close>; \<open>parse\<close> reads a JSON text or, failing that,
  a Python literal.
\<close>

definition reserved_keys :: "string list" where
  "reserved_keys = [''row_id'', ''filename'', ''collection_id'', ''collection_slug'']"

definition normalize_template_fill_args :: "(string \<Rightarrow> json option) \<Rightarrow> ResolvedOperation \<Rightarrow> jobject \<Rightarrow> jobject" where
  "normalize_template_fill_args parse op args =
     (if ro_operation op \<noteq> ''collection.template.fill'' then args
      else case map_of args ''values'' of
             Some (JStr s) \<Rightarrow> (case parse s of Some (JObj v) \<Rightarrow> AList.update ''values'' (JObj v) args | _ \<Rightarrow> args)
           | Some _ \<Rightarrow> args
           | None \<Rightarrow>
               let flattened = filter (\<lambda>(k, v). k \<notin> set reserved_keys) args in
               if flattened = [] then args
               else filter (\<lambda>(k, v). k \<in> set reserved_keys) args @ [(''values'', JObj flattened)])"

text \<open>Optional arguments given as null are dropped, also in nested objects with a schema.\<close>

fun strip_value :: "(json \<Rightarrow> string) \<Rightarrow> json \<Rightarrow> json \<Rightarrow> json"
  and strip_entries :: "(json \<Rightarrow> string) \<Rightarrow> jobject \<Rightarrow> jobject \<Rightarrow> string list \<Rightarrow> jobject" where
  "strip_value render (JObj d) schema =
     (case schema of
        JObj sch \<Rightarrow> (case map_of sch ''properties'' of
            Some (JObj props) \<Rightarrow> JObj (strip_entries render d props (required_names render sch)) | _ \<Rightarrow> JObj d)
      | _ \<Rightarrow> JObj d)"
| "strip_value render v schema = v"
| "strip_entries render [] props required = []"
| "strip_entries render ((k, v) # d) props required =
     (if v = JNull \<and> k \<notin> set required then strip_entries render d props required
      else (k, strip_value render v (case map_of props k of Some c \<Rightarrow> c | None \<Rightarrow> JNull)) # strip_entries render d props required)"

definition strip_optional_nulls :: "(json \<Rightarrow> string) \<Rightarrow> jobject \<Rightarrow> jobject \<Rightarrow> jobject" where
  "strip_optional_nulls render args schema =
     (case map_of schema ''properties'' of
        Some (JObj props) \<Rightarrow> strip_entries render args props (required_names render schema) | _ \<Rightarrow> args)"

definition normalize_args :: "(json \<Rightarrow> string) \<Rightarrow> (string \<Rightarrow> json option) \<Rightarrow> ResolvedOperation \<Rightarrow> jobject \<Rightarrow> jobject" where
  "normalize_args render parse op args =
     strip_optional_nulls render (normalize_template_fill_args parse op args) (build_prompt_input_schema render op)"

section \<open>Coercion\<close>

text \<open>\<open>int(s)\<close> on ASCII digits: blanks around, a sign, single underscores between digits.\<close>

definition is_digit :: "char \<Rightarrow> bool" where
  "is_digit c \<longleftrightarrow> 48 \<le> (of_char c :: nat) \<and> of_char c \<le> (57 :: nat)"

fun digit_groups :: "string \<Rightarrow> bool" where
  "digit_groups [] = False"
| "digit_groups [c] = is_digit c"
| "digit_groups (c # d # s) = (is_digit c \<and> (if d = CHR ''_'' then digit_groups s else digit_groups (d # s)))"

definition digits_value :: "string \<Rightarrow> int" where
  "digits_value s = foldl (\<lambda>n c. 10 * n + (of_char c - 48)) 0 (filter is_digit s)"

definition python_int :: "string \<Rightarrow> int option" where
  "python_int s =
     (let t = strip s in
      case t of
        [] \<Rightarrow> None
      | c # r \<Rightarrow> if c = CHR ''-'' then (if digit_groups r then Some (- digits_value r) else None)
                else if c = CHR ''+'' then (if digit_groups r then Some (digits_value r) else None)
                else (if digit_groups t then Some (digits_value t) else None))"

definition coerce_value :: "(string \<Rightarrow> rat option) \<Rightarrow> json \<Rightarrow> json \<Rightarrow> json" where
  "coerce_value parse_float expected v =
     (if expected = JStr ''integer''
      then (case v of
              JStr s \<Rightarrow> (case python_int s of Some n \<Rightarrow> JInt n | None \<Rightarrow> v)
            | JFloat r \<Rightarrow> JInt (if r \<ge> 0 then floor r else ceiling r)
            | _ \<Rightarrow> v)
      else if expected = JStr ''number''
      then (case v of JStr s \<Rightarrow> (case parse_float s of Some r \<Rightarrow> JFloat r | None \<Rightarrow> v) | _ \<Rightarrow> v)
      else if expected = JStr ''boolean''
      then (case v of
              JStr s \<Rightarrow> if lower s \<in> {''true'', ''1'', ''yes'', ''on''} then JBool True
                        else if lower s \<in> {''false'', ''0'', ''no'', ''off''} then JBool False else v
            | _ \<Rightarrow> v)
      else v)"

definition coerce_args :: "(string \<Rightarrow> rat option) \<Rightarrow> jobject \<Rightarrow> jobject \<Rightarrow> jobject" where
  "coerce_args parse_float args schema =
     (case dget_or (JObj []) schema ''properties'' of
        JObj props \<Rightarrow> map (\<lambda>(k, v). (k, case dget_or (JObj []) props k of
            JObj p \<Rightarrow> coerce_value parse_float (dget_or JNull p ''type'') v | _ \<Rightarrow> v)) args
      | _ \<Rightarrow> args)"

section \<open>Validation\<close>

text \<open>
  The result of a check is the first error, if any; \<open>Inl ()\<close> is the \<open>TypeError\<close> of comparing
  a number with a bound that is none, or of looking up a name that is a list or an object.
\<close>

type_synonym check = "unit + OperationValidationError option"

definition invalid_args :: "string \<Rightarrow> string \<Rightarrow> check" where
  "invalid_args msg path = Inr (Some \<lparr>oe_code = OpInvalidArgs, oe_message = msg, oe_field = Some path, oe_retryable = True\<rparr>)"

definition type_ok :: "json \<Rightarrow> string \<Rightarrow> bool" where
  "type_ok v expected =
     (if expected = ''object'' then (case v of JObj _ \<Rightarrow> True | _ \<Rightarrow> False)
      else if expected = ''array'' then (case v of JArr _ \<Rightarrow> True | _ \<Rightarrow> False)
      else if expected = ''string'' then (case v of JStr _ \<Rightarrow> True | _ \<Rightarrow> False)
      else if expected = ''integer'' then (case v of JInt _ \<Rightarrow> True | _ \<Rightarrow> False)
      else if expected = ''number'' then (case v of JInt _ \<Rightarrow> True | JFloat _ \<Rightarrow> True | _ \<Rightarrow> False)
      else if expected = ''boolean'' then (case v of JBool _ \<Rightarrow> True | _ \<Rightarrow> False)
      else if expected = ''null'' then v = JNull
      else True)"

definition type_check :: "json \<Rightarrow> jobject \<Rightarrow> string \<Rightarrow> check" where
  "type_check v node path =
     (case map_of node ''type'' of
        Some (JStr t) \<Rightarrow> if type_ok v t then Inr None else invalid_args (path @ '' must be '' @ t) path
      | _ \<Rightarrow> Inr None)"

definition enum_check :: "(json \<Rightarrow> string) \<Rightarrow> json \<Rightarrow> jobject \<Rightarrow> string \<Rightarrow> check" where
  "enum_check render v node path =
     (case map_of node ''enum'' of
        Some (JArr xs) \<Rightarrow> if list_ex (py_eq v) xs then Inr None
          else invalid_args (path @ '' must be one of: '' @ join '', '' (map (py_str render) xs)) path
      | _ \<Rightarrow> Inr None)"

definition minimum_check :: "(json \<Rightarrow> string) \<Rightarrow> json \<Rightarrow> jobject \<Rightarrow> string \<Rightarrow> check" where
  "minimum_check render v node path =
     (case (if type_ok v ''number'' then json_num v else None, dget_or JNull node ''minimum'') of
        (Some r, m) \<Rightarrow> if m = JNull then Inr None
          else (case json_num m of
                  None \<Rightarrow> Inl ()
                | Some b \<Rightarrow> if r < b then invalid_args (path @ '' must be >= '' @ py_str render m) path else Inr None)
      | _ \<Rightarrow> Inr None)"

fun required_check :: "(json \<Rightarrow> string) \<Rightarrow> jobject \<Rightarrow> json list \<Rightarrow> string \<Rightarrow> check" where
  "required_check render d [] path = Inr None"
| "required_check render d (f # fs) path =
     (case f of
        JArr _ \<Rightarrow> Inl ()
      | JObj _ \<Rightarrow> Inl ()
      | _ \<Rightarrow> if (case f of JStr s \<Rightarrow> map_of d s \<noteq> None | _ \<Rightarrow> False) then required_check render d fs path
            else invalid_args (''Missing required field: '' @ py_str render f) (path @ ''.'' @ py_str render f))"

definition additional_check :: "jobject \<Rightarrow> jobject \<Rightarrow> string \<Rightarrow> check" where
  "additional_check d node path =
     (case dget_or (JObj []) node ''properties'' of
        JObj props \<Rightarrow> if map_of node ''additionalProperties'' = Some (JBool False)
          then (case find (\<lambda>k. map_of props k = None) (dkeys d) of
                  Some k \<Rightarrow> invalid_args (''Unexpected field(s): '' @ k) path | None \<Rightarrow> Inr None)
          else Inr None
      | _ \<Rightarrow> Inr None)"

definition and_then :: "check \<Rightarrow> check \<Rightarrow> check" where
  "and_then a b = (case a of Inr None \<Rightarrow> b | _ \<Rightarrow> a)"

definition value_checks :: "(json \<Rightarrow> string) \<Rightarrow> json \<Rightarrow> jobject \<Rightarrow> string \<Rightarrow> check" where
  "value_checks render v node path =
     and_then (type_check v node path) (and_then (enum_check render v node path) (minimum_check render v node path))"

definition object_checks :: "(json \<Rightarrow> string) \<Rightarrow> jobject \<Rightarrow> jobject \<Rightarrow> string \<Rightarrow> check" where
  "object_checks render d node path =
     and_then (case dget_or (JArr []) node ''required'' of JArr fs \<Rightarrow> required_check render d fs path | _ \<Rightarrow> Inr None)
       (additional_check d node path)"

lemma map_of_size: "map_of d k = Some v \<Longrightarrow> size v < size_list (size_prod (\<lambda>_. 0) size) d"
proof (induction d)
  case (Cons a d)
  then show ?case by (cases a) (auto split: if_splits)
qed simp

function validate :: "(json \<Rightarrow> string) \<Rightarrow> json \<Rightarrow> jobject \<Rightarrow> string \<Rightarrow> check"
  and validate_props :: "(json \<Rightarrow> string) \<Rightarrow> jobject \<Rightarrow> jobject \<Rightarrow> string \<Rightarrow> check"
  and validate_items :: "(json \<Rightarrow> string) \<Rightarrow> json list \<Rightarrow> jobject \<Rightarrow> string \<Rightarrow> nat \<Rightarrow> check" where
  "validate render v node path =
     and_then (value_checks render v node path)
       (case v of
          JObj d \<Rightarrow> and_then (object_checks render d node path)
            (case dget_or (JObj []) node ''properties'' of JObj props \<Rightarrow> validate_props render d props path | _ \<Rightarrow> Inr None)
        | JArr xs \<Rightarrow> (case map_of node ''items'' of Some (JObj it) \<Rightarrow> validate_items render xs it path 0 | _ \<Rightarrow> Inr None)
        | _ \<Rightarrow> Inr None)"
| "validate_props render d [] path = Inr None"
| "validate_props render d ((k, child) # ps) path =
     and_then (case child of
                 JObj c \<Rightarrow> (case map_of d k of Some v \<Rightarrow> validate render v c (path @ ''.'' @ k) | None \<Rightarrow> Inr None)
               | _ \<Rightarrow> Inr None)
       (validate_props render d ps path)"
| "validate_items render [] it path i = Inr None"
| "validate_items render (x # xs) it path i =
     and_then (validate render x it (path @ ''['' @ nat_str i @ '']'')) (validate_items render xs it path (Suc i))"
  by pat_completeness auto

termination
proof (relation "measures [\<lambda>p. case p of Inl (_, v, _, _) \<Rightarrow> size v
      | Inr (Inl (_, d, _, _)) \<Rightarrow> size_list (size_prod (\<lambda>_. 0) size) d | Inr (Inr (_, xs, _, _, _)) \<Rightarrow> size_list size xs,
    \<lambda>p. case p of Inl _ \<Rightarrow> 0 | Inr (Inl (_, _, ps, _)) \<Rightarrow> length ps | Inr (Inr (_, xs, _, _, _)) \<Rightarrow> length xs]", goal_cases)
qed (auto dest: map_of_size)

end
