(* ===== verification/Tool_Ledger.thy ===== *)
theory Tool_Ledger
  imports Json_Text
begin

text \<open>
  The ledger of operation calls of a turn (\<open>runtime/memory/tool_ledger.py\<close>): a bounded journal of
  calls and results in which a repeated call finds the result of an earlier one.

  Times are integers in microseconds. The environment holds SHA-256 as hexadecimal text and the text of
  floats.
\<close>

record ledger_env =
  ld_sha :: "string \<Rightarrow> string"
  ld_float :: "rat \<Rightarrow> string"

record ledger_entry =
  le_call :: string
  le_operation :: string
  le_args_fp :: string
  le_args_preview :: string
  le_iteration :: int
  le_agent :: "string option"
  le_phase :: "string option"
  le_duplicate_of :: "string option"
  le_status :: string
  le_success :: "bool option"
  le_result_fp :: "string option"
  le_result_preview :: "string option"
  le_result :: json
  le_called :: int
  le_finished :: "int option"

type_synonym ledger = "ledger_entry list"

definition MAX_TOOL_LEDGER_ENTRIES :: nat where "MAX_TOOL_LEDGER_ENTRIES = 120"
definition REUSE_MAX_AGE :: int where "REUSE_MAX_AGE = 300 * 1000000"
definition MAX_TOOL_PREVIEW_CHARS :: nat where "MAX_TOOL_PREVIEW_CHARS = 220"
definition MAX_RESULT_CACHE_CHARS :: nat where "MAX_RESULT_CACHE_CHARS = 24000"

text \<open>\<open>xs[-n:]\<close>, which is all of \<open>xs\<close> for 0.\<close>

definition last_n :: "nat \<Rightarrow> 'a list \<Rightarrow> 'a list" where
  "last_n n xs = (if n = 0 then xs else drop (length xs - n) xs)"

section \<open>Fingerprints\<close>

definition stable_json :: "ledger_env \<Rightarrow> json \<Rightarrow> string" where
  "stable_json env j = json_text (ld_float env) j"

definition fingerprint_and_preview :: "ledger_env \<Rightarrow> json \<Rightarrow> string \<times> string" where
  "fingerprint_and_preview env j =
     (let t = stable_json env j in (take 16 (ld_sha env t), take MAX_TOOL_PREVIEW_CHARS t))"

definition cacheable_result :: "ledger_env \<Rightarrow> json \<Rightarrow> json" where
  "cacheable_result env j = (if length (stable_json env j) > MAX_RESULT_CACHE_CHARS then JNull else j)"

definition call_signature :: "string \<Rightarrow> string \<Rightarrow> string" where
  "call_signature operation fp = operation @ '':'' @ fp"

definition le_signature :: "ledger_entry \<Rightarrow> string" where
  "le_signature e = call_signature (le_operation e) (le_args_fp e)"

section \<open>Operations\<close>

definition find_completed_duplicate :: "string \<Rightarrow> ledger \<Rightarrow> string option" where
  "find_completed_duplicate sig l =
     map_option le_call (find (\<lambda>e. le_signature e = sig \<and> le_status e \<in> {''succeeded'', ''failed''}) (rev l))"

definition register_call ::
    "ledger_env \<Rightarrow> string \<Rightarrow> string \<Rightarrow> jobject \<Rightarrow> int \<Rightarrow> string option \<Rightarrow> string option \<Rightarrow> int \<Rightarrow> ledger \<Rightarrow> ledger" where
  "register_call env operation call args iteration agent phase now l =
     (let (fp, preview) = fingerprint_and_preview env (JObj args);
          e = \<lparr>le_call = call, le_operation = operation, le_args_fp = fp, le_args_preview = preview,
               le_iteration = iteration, le_agent = agent, le_phase = phase,
               le_duplicate_of = find_completed_duplicate (call_signature operation fp) l,
               le_status = ''called'', le_success = None, le_result_fp = None, le_result_preview = None,
               le_result = JNull, le_called = now, le_finished = None\<rparr>
      in last_n MAX_TOOL_LEDGER_ENTRIES (l @ [e]))"

text \<open>The latest entry of a call, changed in place.\<close>

fun change_first :: "('a \<Rightarrow> bool) \<Rightarrow> ('a \<Rightarrow> 'a) \<Rightarrow> 'a list \<Rightarrow> 'a list" where
  "change_first P f [] = []"
| "change_first P f (x # xs) = (if P x then f x # xs else x # change_first P f xs)"

definition register_result :: "ledger_env \<Rightarrow> string \<Rightarrow> bool \<Rightarrow> json \<Rightarrow> int \<Rightarrow> ledger \<Rightarrow> ledger" where
  "register_result env call success data now l =
     (let (fp, preview) = fingerprint_and_preview env data in
      rev (change_first (\<lambda>e. le_call e = call)
        (\<lambda>e. e\<lparr>le_success := Some success, le_status := (if success then ''succeeded'' else ''failed''),
               le_result_fp := Some fp, le_result_preview := Some preview,
               le_result := (if success then cacheable_result env data else JNull), le_finished := Some now\<rparr>)
        (rev l)))"

definition find_successful_result ::
    "ledger_env \<Rightarrow> string \<Rightarrow> jobject \<Rightarrow> int \<Rightarrow> int \<Rightarrow> ledger \<Rightarrow> ledger_entry option" where
  "find_successful_result env operation args max_age now l =
     (let sig = call_signature operation (fst (fingerprint_and_preview env (JObj args))) in
      find (\<lambda>e. le_signature e = sig \<and> le_status e = ''succeeded'' \<and> le_result e \<noteq> JNull
                \<and> now - (case le_finished e of Some t \<Rightarrow> t | None \<Rightarrow> le_called e) \<le> max_age) (rev l))"

definition opt_json :: "string option \<Rightarrow> json" where
  "opt_json x = (case x of None \<Rightarrow> JNull | Some s \<Rightarrow> JStr s)"

definition ledger_view :: "nat \<Rightarrow> ledger \<Rightarrow> jobject list" where
  "ledger_view max_items l = map (\<lambda>e.
     [(''operation'', JStr (le_operation e)), (''call_id'', JStr (le_call e)), (''status'', JStr (le_status e)),
      (''success'', (case le_success e of None \<Rightarrow> JNull | Some b \<Rightarrow> JBool b)),
      (''duplicate_of_call_id'', opt_json (le_duplicate_of e)), (''args_preview'', JStr (le_args_preview e)),
      (''result_preview'', opt_json (le_result_preview e))]) (last_n max_items l)"

end
