(* ===== verification/Tool_Confirmation.thy ===== *)
theory Tool_Confirmation
  imports Json_Text
begin

text \<open>
  Confirmation of operations (\<open>agents/runtime/confirmation.py\<close>): the fingerprint of a call, the
  signed token a user's consent yields, and the store of spent nonces, in Redis or, when Redis is not
  configured or fails, in the process.

  The environment holds SHA-256, the text of floats, and PyJWT under the service's secret: \<open>encode\<close>
  signs a payload, \<open>decode\<close> at a time returns the payload of a token, or nothing when it raises. Times
  are in seconds.
\<close>

record token_payload =
  tp_fp :: string
  tp_user :: uuid
  tp_chat :: uuid
  tp_issued :: int
  tp_expires :: int
  tp_nonce :: string

record confirm_env =
  ce_sha :: "string \<Rightarrow> string"
  ce_float :: "rat \<Rightarrow> string"
  ce_encode :: "token_payload \<Rightarrow> string"
  ce_decode :: "int \<Rightarrow> string \<Rightarrow> token_payload option"
  ce_redis :: bool
  ce_ttl :: int

text \<open>Spent nonces with the time their entry disappears.\<close>

record nonce_store =
  ns_redis :: "(string, int) dict"
  ns_local :: "(string, int) dict"

section \<open>Fingerprints and tokens\<close>

definition build_operation_fingerprint :: "confirm_env \<Rightarrow> string \<Rightarrow> string \<Rightarrow> jobject \<Rightarrow> string" where
  "build_operation_fingerprint env slug operation args =
     ce_sha env (slug @ ''|'' @ operation @ ''|'' @ json_text (ce_float env) (JObj args))"

definition issue_token :: "confirm_env \<Rightarrow> uuid \<Rightarrow> uuid \<Rightarrow> string \<Rightarrow> string \<Rightarrow> int \<Rightarrow> string \<times> int" where
  "issue_token env user chat fp nonce now =
     (ce_encode env \<lparr>tp_fp = fp, tp_user = user, tp_chat = chat, tp_issued = now, tp_expires = now + ce_ttl env, tp_nonce = nonce\<rparr>,
      now + ce_ttl env)"

section \<open>Nonces\<close>

definition MAX_FALLBACK_NONCE_STORE_SIZE :: nat where "MAX_FALLBACK_NONCE_STORE_SIZE = 2000"

definition nonce_key :: "string \<Rightarrow> string" where
  "nonce_key nonce = ''runtime:confirmation:nonce:'' @ nonce"

text \<open>\<open>SET key 1 EX ttl NX\<close>\<close>

definition redis_set_nx :: "string \<Rightarrow> int \<Rightarrow> int \<Rightarrow> nonce_store \<Rightarrow> bool \<times> nonce_store" where
  "redis_set_nx key ttl now s =
     (case map_of (ns_redis s) key of
        Some t \<Rightarrow> if now < t then (False, s) else (True, s\<lparr>ns_redis := AList.update key (now + ttl) (ns_redis s)\<rparr>)
      | None \<Rightarrow> (True, s\<lparr>ns_redis := AList.update key (now + ttl) (ns_redis s)\<rparr>))"

text \<open>
  The store of the process: expired entries go, then the entries that expire first, so that the new one
  fits; only then is the key looked up.
\<close>

definition evict :: "int \<Rightarrow> (string, int) dict \<Rightarrow> (string, int) dict" where
  "evict now d =
     (let live = filter (\<lambda>(k, t). now < t) d;
          overflow = length live + 1 - MAX_FALLBACK_NONCE_STORE_SIZE;
          oldest = take overflow (map fst (sort_key snd live))
      in filter (\<lambda>(k, t). k \<notin> set oldest) live)"

definition local_set :: "string \<Rightarrow> int \<Rightarrow> int \<Rightarrow> nonce_store \<Rightarrow> bool \<times> nonce_store" where
  "local_set key ttl now s =
     (let d = evict now (ns_local s) in
      if map_of d key \<noteq> None then (False, s\<lparr>ns_local := d\<rparr>)
      else (True, s\<lparr>ns_local := AList.update key (now + ttl) d\<rparr>))"

definition consume_nonce :: "confirm_env \<Rightarrow> bool \<Rightarrow> int \<Rightarrow> token_payload \<Rightarrow> nonce_store \<Rightarrow> bool \<times> nonce_store" where
  "consume_nonce env up now p s =
     (let nonce = strip (tp_nonce p) in
      if nonce = [] then (False, s)
      else let ttl = max 1 (tp_expires p - now) in
           if ce_redis env \<and> up then redis_set_nx (nonce_key nonce) ttl now s
           else local_set (nonce_key nonce) ttl now s)"

definition verify_token ::
    "confirm_env \<Rightarrow> bool \<Rightarrow> int \<Rightarrow> string \<Rightarrow> uuid \<Rightarrow> uuid \<Rightarrow> string \<Rightarrow> bool \<Rightarrow> nonce_store \<Rightarrow> bool \<times> nonce_store" where
  "verify_token env up now token user chat fp consume s =
     (case ce_decode env now token of
        None \<Rightarrow> (False, s)
      | Some p \<Rightarrow>
          if tp_user p = user \<and> tp_chat p = chat \<and> tp_fp p = fp
          then (if consume then consume_nonce env up now p s else (True, s))
          else (False, s))"

end
