(* ===== verification/Tool_Facade.thy ===== *)
theory Tool_Facade
  imports Tool_Schema Tool_Ledger Tool_Confirmation
begin

text \<open>
  The execution of one operation call, \<open>OperationExecutionFacade.execute\<close>
  (\<open>agents/runtime/tools.py\<close>) with the reuse policy (\<open>agents/runtime/tool_reuse_policy.py\<close>): the
  operation is found, the collection gate, the validation and the confirmation gate are passed, an earlier
  result is reused or the executor runs.

  The environment holds what the code calls outside of these files: the executor (which may depend on the
  calls executed before), the package \<open>jsonschema\<close> when it is installed, the parsers of JSON and Python
  literals and of floats, and \<open>str()\<close> on arrays, objects and floats. Calls handed to the executor are
  recorded in the state. The identifiers of the active call, which the context holds while the executor runs, are left
  out.
\<close>

section \<open>Calls, results and state\<close>

record ToolCall =
  tc_id :: string
  tc_name :: string
  tc_args :: jobject

record ToolResult =
  tl_success :: bool
  tl_data :: json
  tl_error :: "string option"
  tl_meta :: jobject

definition tool_ok :: "json \<Rightarrow> jobject \<Rightarrow> ToolResult" where
  "tool_ok data meta = \<lparr>tl_success = True, tl_data = data, tl_error = None, tl_meta = meta\<rparr>"

definition tool_fail :: "string \<Rightarrow> jobject \<Rightarrow> ToolResult" where
  "tool_fail err meta = \<lparr>tl_success = False, tl_data = JNull, tl_error = Some err, tl_meta = meta\<rparr>"

text \<open>What the executor does: it returns, times out, or raises; then the debug payload is given too.\<close>

datatype executor_outcome = ExecReturns ToolResult | ExecTimeout | ExecRaises string jobject

record tool_env =
  tv_ledger :: ledger_env
  tv_confirm :: confirm_env
  tv_render :: "json \<Rightarrow> string"
  tv_parse :: "string \<Rightarrow> json option"
  tv_parse_float :: "string \<Rightarrow> rat option"
  tv_jsonschema :: "(jobject \<Rightarrow> jobject \<Rightarrow> OperationValidationError option) option"
  tv_executor :: "(ToolCall list \<Rightarrow> ToolCall \<Rightarrow> executor_outcome) option"
  tv_operations :: "ResolvedOperation list"
  tv_timeout :: "nat option"

record tool_ctx =
  cx_user :: uuid
  cx_chat :: "uuid option"
  cx_tokens :: "string list"
  cx_approved :: "string list"
  cx_reuse :: bool
  cx_has_ledger :: bool
  cx_gate :: bool

text \<open>
  The spent nonces, the ledger of the turn, the collections opened in the agent's loop with the
  operations they activate, and the calls executed so far, the last one first.
\<close>

record tool_state =
  tx_nonces :: nonce_store
  tx_ledger :: ledger
  tx_active :: "string list"
  tx_opened :: "string list"
  tx_executed :: "ToolCall list"

text \<open>The moment of a call and of its result in microseconds, and whether Redis answers then.\<close>

record call_moment =
  mo_now :: int
  mo_done :: int
  mo_redis :: bool

definition mo_seconds :: "call_moment \<Rightarrow> int" where
  "mo_seconds m = mo_now m div 1000000"

section \<open>Finding the operation\<close>

definition apostrophe :: string where "apostrophe = [char_of (39 :: nat)]"

definition find_operation ::
    "(json \<Rightarrow> string) \<Rightarrow> string \<Rightarrow> jobject \<Rightarrow> ResolvedOperation list \<Rightarrow> ResolvedOperation option \<times> string option" where
  "find_operation render slug args ops =
     (case find (\<lambda>op. ro_slug op = slug) ops of
        Some op \<Rightarrow> (Some op, None)
      | None \<Rightarrow>
          let shorthand = filter (\<lambda>op. ro_operation op = slug) ops;
              collection = strip (text_of render args ''collection_slug'');
              scoped = filter (\<lambda>op. strip (case ro_collection op of None \<Rightarrow> [] | Some c \<Rightarrow> c) = collection) shorthand;
              bindings = (\<lambda>xs. join '', '' (map ro_slug (take 10 xs)))
          in if length shorthand = 1 then (Some (hd shorthand), None)
             else if length shorthand > 1
             then (if collection \<noteq> [] \<and> length scoped = 1 then (Some (hd scoped), None)
                   else (None, Some (''Tool '' @ apostrophe @ slug @ apostrophe @ '' is ambiguous. ''
                          @ ''Provide collection_slug for the intended collection. Matching bindings: '' @ bindings shorthand)))
             else if bindings ops \<noteq> []
             then (None, Some (''Tool '' @ apostrophe @ slug @ apostrophe @ '' is unavailable. ''
                     @ ''Use a published canonical tool name. Available bindings: '' @ bindings ops))
             else (None, None))"

definition not_found :: "string \<Rightarrow> string option \<Rightarrow> ToolResult" where
  "not_found slug msg =
     (let text = (if opt_truthy msg then the msg else ''Tool '' @ apostrophe @ slug @ apostrophe @ '' not found'');
          code = (if opt_truthy msg \<and> contains ''ambiguous'' (lower (the msg)) then OpAmbiguous else OpUnavailable)
      in tool_fail text [(''error_code'', JStr (error_code_value code)), (''retryable'', JBool False)])"

section \<open>Gates\<close>

definition validate_collection_interaction ::
    "tool_ctx \<Rightarrow> tool_state \<Rightarrow> ResolvedOperation \<Rightarrow> OperationValidationError option" where
  "validate_collection_interaction cx s op =
     (if \<not> cx_gate cx then None
      else if ro_scope op \<noteq> CollectionScope \<or> ro_operation op = ''collection.info'' then None
      else if ro_slug op \<in> set (tx_active s) then None
      else let c = strip (case ro_collection op of None \<Rightarrow> [] | Some c \<Rightarrow> c) in
           Some \<lparr>oe_code = (if tx_opened s \<noteq> [] then CollectionOperationNotActivated else CollectionInfoRequired),
                 oe_message = (if c \<noteq> [] then ''Call collection.info for collection '' @ apostrophe @ c @ apostrophe @ '' before using this operation.''
                               else ''Call collection.info before using this collection operation.''),
                 oe_field = None, oe_retryable = True\<rparr>)"

definition gate_failure :: "OperationValidationError \<Rightarrow> ToolResult" where
  "gate_failure e = tool_fail (oe_message e) (oe_metadata e @ [(''user_message'', JStr (oe_message e)),
     (''operator_message'', JStr (oe_message e)), (''source'', JStr ''runtime'')])"

definition validate_args :: "tool_env \<Rightarrow> ResolvedOperation \<Rightarrow> jobject \<Rightarrow> check" where
  "validate_args env op args =
     (let schema = build_prompt_input_schema (tv_render env) op;
          coerced = coerce_args (tv_parse_float env) args schema
      in case tv_jsonschema env of
           Some f \<Rightarrow> Inr (f coerced schema)
         | None \<Rightarrow> validate (tv_render env) (JObj coerced) schema ''$'')"

definition args_failure :: "OperationValidationError \<Rightarrow> ToolResult" where
  "args_failure e = tool_fail (oe_user_message e) (oe_metadata e @ [(''user_message'', JStr (oe_user_message e)),
     (''operator_message'', JStr (oe_message e)), (''source'', JStr ''tool''),
     (''debug'', (if opt_truthy (oe_field e) then JObj [(''context'', JObj [(''field_path'', JStr (the (oe_field e)))])] else JNull))])"

text \<open>The tokens of the request are tried in order; the first that verifies is spent.\<close>

fun try_tokens ::
    "confirm_env \<Rightarrow> call_moment \<Rightarrow> uuid \<Rightarrow> uuid \<Rightarrow> string \<Rightarrow> string list \<Rightarrow> nonce_store \<Rightarrow> bool \<times> nonce_store" where
  "try_tokens env m user chat fp [] s = (False, s)"
| "try_tokens env m user chat fp (t # ts) s =
     (if strip t = [] then try_tokens env m user chat fp ts s
      else case verify_token env (mo_redis m) (mo_seconds m) t user chat fp True s of
             (True, s1) \<Rightarrow> (True, s1)
           | (False, s1) \<Rightarrow> try_tokens env m user chat fp ts s1)"

definition confirmation_payload :: "tool_env \<Rightarrow> ResolvedOperation \<Rightarrow> ToolCall \<Rightarrow> string \<Rightarrow> jobject" where
  "confirmation_payload env op call fp =
     [(''operation_fingerprint'', JStr fp), (''tool_slug'', JStr (ro_slug op)), (''operation'', JStr (ro_operation op)),
      (''risk_level'', JStr (ro_risk op)), (''args_preview'', JStr (take 600 (json_dumps (ce_float (tv_confirm env)) (JObj (tc_args call))))),
      (''summary'', JStr (if opt_truthy (ro_description op) then the (ro_description op) else ''Operation requires explicit confirmation''))]"

definition ensure_confirmation ::
    "tool_env \<Rightarrow> tool_ctx \<Rightarrow> call_moment \<Rightarrow> ResolvedOperation \<Rightarrow> ToolCall \<Rightarrow> nonce_store \<Rightarrow> (jobject + unit) \<times> nonce_store" where
  "ensure_confirmation env cx m op call s =
     (if \<not> ro_requires_confirmation op then (Inr (), s)
      else let fp = build_operation_fingerprint (tv_confirm env) (ro_slug op) (ro_operation op) (tc_args call) in
           case cx_chat cx of
             None \<Rightarrow> (if fp \<in> set (cx_approved cx) then Inr () else Inl (confirmation_payload env op call fp), s)
           | Some chat \<Rightarrow>
               case try_tokens (tv_confirm env) m (cx_user cx) chat fp (cx_tokens cx) s of
                 (True, s1) \<Rightarrow> (Inr (), s1)
               | (False, s1) \<Rightarrow> (Inl (confirmation_payload env op call fp), s1))"

section \<open>Reuse and execution\<close>

definition maybe_reuse :: "tool_env \<Rightarrow> tool_ctx \<Rightarrow> call_moment \<Rightarrow> ToolCall \<Rightarrow> ledger \<Rightarrow> ToolResult option" where
  "maybe_reuse env cx m call l =
     (if \<not> cx_reuse cx \<or> \<not> cx_has_ledger cx then None
      else case find_successful_result (tv_ledger env) (tc_name call) (tc_args call) REUSE_MAX_AGE (mo_now m) l of
             None \<Rightarrow> None
           | Some e \<Rightarrow> Some (tool_ok (le_result e) [(''reused'', JBool True), (''reused_from_call_id'', JStr (le_call e))]))"

definition build_error_metadata ::
    "RuntimeErrorCode \<Rightarrow> bool \<Rightarrow> string \<Rightarrow> string \<Rightarrow> string \<Rightarrow> jobject \<Rightarrow> jobject" where
  "build_error_metadata code retryable user_message operator_message source debug =
     [(''error_code'', JStr (error_code_value code)), (''retryable'', JBool retryable), (''user_message'', JStr user_message),
      (''operator_message'', JStr (str_or operator_message user_message))]
     @ (if source = [] then [] else [(''source'', JStr source)])
     @ (if debug = [] then [] else [(''debug'', JObj debug)])"

definition executor_failure :: "RuntimeErrorCode \<Rightarrow> bool \<Rightarrow> string \<Rightarrow> jobject \<Rightarrow> ToolResult" where
  "executor_failure code retryable msg debug = tool_fail msg (build_error_metadata code retryable msg msg ''tool'' debug)"

definition run_executor :: "tool_env \<Rightarrow> ToolCall \<Rightarrow> tool_state \<Rightarrow> (ToolResult \<times> json list) \<times> tool_state" where
  "run_executor env call s =
     (case tv_executor env of
        None \<Rightarrow> ((executor_failure OpExecutionFailed False ''Operation executor is not configured''
                    [(''context'', JObj [(''tool'', JStr (tc_name call)), (''reason'', JStr ''executor_missing'')])], []), s)
      | Some f \<Rightarrow>
          let s1 = s\<lparr>tx_executed := call # tx_executed s\<rparr> in
          case f (tx_executed s) call of
            ExecReturns r \<Rightarrow>
              ((r, if tl_success r then (case dget_or JNull (tl_meta r) ''sources'' of JArr xs \<Rightarrow> xs | _ \<Rightarrow> []) else []), s1)
          | ExecTimeout \<Rightarrow>
              let t = (case tv_timeout env of None \<Rightarrow> ''None'' | Some n \<Rightarrow> nat_str n);
                  tj = (case tv_timeout env of None \<Rightarrow> JNull | Some n \<Rightarrow> JInt (int n))
              in ((executor_failure OpTimeout True (''Execution timed out after '' @ t @ '' seconds'')
                     [(''context'', JObj [(''tool'', JStr (tc_name call)), (''timeout_seconds'', tj)])], []), s1)
          | ExecRaises msg debug \<Rightarrow>
              ((executor_failure OpExecutionFailed True msg
                  (debug @ [(''context'', JObj [(''tool'', JStr (tc_name call))])]), []), s1))"

text \<open>The call returns a result with sources, asks for confirmation, or raises a \<open>TypeError\<close>.\<close>

datatype facade_result = FacadeReturns ToolResult "json list" | FacadeConfirm jobject | FacadeRaises

text \<open>The call under the operation's own name with normalised arguments, and what happens to it.\<close>

definition resolved_call :: "tool_env \<Rightarrow> ResolvedOperation \<Rightarrow> ToolCall \<Rightarrow> ToolCall" where
  "resolved_call env op c = c\<lparr>tc_name := ro_slug op, tc_args := normalize_args (tv_render env) (tv_parse env) op (tc_args c)\<rparr>"

definition execute_resolved ::
    "tool_env \<Rightarrow> tool_ctx \<Rightarrow> call_moment \<Rightarrow> ResolvedOperation \<Rightarrow> ToolCall \<Rightarrow> tool_state \<Rightarrow> facade_result \<times> tool_state" where
  "execute_resolved env cx m op call s =
     (case validate_args env op (tc_args call) of
        Inl _ \<Rightarrow> (FacadeRaises, s)
      | Inr (Some e) \<Rightarrow> (FacadeReturns (args_failure e) [], s)
      | Inr None \<Rightarrow>
          case ensure_confirmation env cx m op call (tx_nonces s) of
            (Inl payload, n) \<Rightarrow> (FacadeConfirm payload, s\<lparr>tx_nonces := n\<rparr>)
          | (Inr _, n) \<Rightarrow>
              case maybe_reuse env cx m call (tx_ledger s) of
                Some r \<Rightarrow> (FacadeReturns r [], s\<lparr>tx_nonces := n\<rparr>)
              | None \<Rightarrow> (case run_executor env call (s\<lparr>tx_nonces := n\<rparr>) of ((r, sources), s1) \<Rightarrow> (FacadeReturns r sources, s1)))"

definition facade_execute ::
    "tool_env \<Rightarrow> tool_ctx \<Rightarrow> call_moment \<Rightarrow> ToolCall \<Rightarrow> tool_state \<Rightarrow> facade_result \<times> tool_state" where
  "facade_execute env cx m call s =
     (case find_operation (tv_render env) (tc_name call) (tc_args call) (tv_operations env) of
        (None, msg) \<Rightarrow> (FacadeReturns (not_found (tc_name call) msg) [], s)
      | (Some op, _) \<Rightarrow>
          case validate_collection_interaction cx s op of
            Some e \<Rightarrow> (FacadeReturns (gate_failure e) [], s)
          | None \<Rightarrow> execute_resolved env cx m op (resolved_call env op call) s)"

end
