(* ===== verification/Tool_Agent.thy ===== *)
theory Tool_Agent
  imports Tool_Facade
begin

text \<open>
  The operation loop of an agent (\<open>agents/runtime/agent.py\<close>): each step asks the model, parses its
  answer (\<open>agents/protocol.py\<close>), executes the operation calls, and records calls and results in the
  state of the turn as the executor of the run does (\<open>runtime/turn_state.py\<close>,
  \<open>runtime/agent_executor.py\<close>).

  The answer of the model at a step is an argument that may depend on everything the loop has done; so are
  the parser of textual answers (regular expressions over the answer), the identifiers drawn for calls, the
  wall clock and the moments of the calls. Messages to the model, trace records with the token counters that only
  they show, and the texts of exceptions are left out. \<open>al_finish\<close> lists the statuses with which the session of the run is finished.
\<close>

section \<open>State and environment\<close>

record tool_output =
  to_tool :: string
  to_success :: bool
  to_data :: json
  to_error :: "string option"
  to_code :: json
  to_retryable :: json

datatype agent_event =
    EvToolCall string string jobject
  | EvToolResult string string bool json bool
  | EvConfirmationRequired jobject
  | EvAgentError string bool string
  | EvProtocolRetry string
  | EvAnswer

datatype agent_end = EndCompleted | EndFailed | EndWaiting | EndCancelled

record agent_loop =
  al_tools :: tool_state
  al_outputs :: "tool_output list"
  al_sources :: "json list"
  al_calls :: nat
  al_no_success :: nat
  al_retries :: nat
  al_force :: bool
  al_native :: bool
  al_seen :: "(string \<times> string) list"
  al_used :: int
  al_drawn :: nat
  al_events :: "agent_event list"
  al_finish :: "string list"

text \<open>
  What the model answers: a raw response with its text, a text, an unsupported native call, a request
  that is too large (with its code), another failure (retryable or not, with its code), or the cancellation
  of the run.
\<close>

datatype llm_answer = LlmRaw json string | LlmText string | LlmUnsupported | LlmTooLarge string string
  | LlmFailed string string bool | LlmCancelled

record agent_env =
  ag_tools :: tool_env
  ag_ctx :: tool_ctx
  ag_llm :: "nat \<Rightarrow> agent_loop \<Rightarrow> llm_answer"
  ag_parse :: "bool \<Rightarrow> string \<Rightarrow> (string \<times> jobject) list"
  ag_json :: "string \<Rightarrow> json option"
  ag_draw :: "nat \<Rightarrow> string"
  ag_elapsed :: "nat \<Rightarrow> int"
  ag_moment :: "nat \<Rightarrow> nat \<Rightarrow> call_moment"
  ag_max_llm_calls :: nat
  ag_max_tool_calls :: nat
  ag_max_wall_time :: int
  ag_max_retries :: nat
  ag_max_without_success :: nat
  ag_fail_fast :: bool
  ag_strict :: bool
  ag_slug :: string
  ag_task :: string
  ag_iteration :: int

definition emit :: "agent_event \<Rightarrow> agent_loop \<Rightarrow> agent_loop" where
  "emit e l = l\<lparr>al_events := al_events l @ [e]\<rparr>"

definition emit_error :: "RuntimeErrorCode \<Rightarrow> bool \<Rightarrow> string \<Rightarrow> agent_loop \<Rightarrow> agent_loop" where
  "emit_error code retryable msg = emit (EvAgentError (error_code_value code) retryable msg)"

definition finish_run :: "string \<Rightarrow> agent_loop \<Rightarrow> agent_loop" where
  "finish_run status l = l\<lparr>al_finish := al_finish l @ [status]\<rparr>"

text \<open>An error event after which the run is finished as failed, and the loop is left.\<close>

definition fail_run :: "string \<Rightarrow> bool \<Rightarrow> string \<Rightarrow> agent_loop \<Rightarrow> agent_end option \<times> agent_loop" where
  "fail_run code retryable msg l = (Some EndFailed, finish_run ''failed'' (emit (EvAgentError code retryable msg) l))"

section \<open>Parsing native calls\<close>

text \<open>
  Calls that were seen in an earlier step of the loop are dropped. The key of a call is its name and the
  sorted text of its arguments, of which only equality matters. \<open>Inl ()\<close> is the exception of a
  response of another shape.
\<close>

definition native_args :: "agent_env \<Rightarrow> json \<Rightarrow> jobject" where
  "native_args env raw =
     (case (if truthy raw then raw else JObj []) of
        JStr s \<Rightarrow> (case ag_json env s of Some (JObj d) \<Rightarrow> d | _ \<Rightarrow> [])
      | JObj d \<Rightarrow> d
      | _ \<Rightarrow> [])"

fun native_items ::
    "agent_env \<Rightarrow> json list \<Rightarrow> (string \<times> string) list \<Rightarrow> unit + (string \<times> jobject) list \<times> (string \<times> string) list" where
  "native_items env [] seen = Inr ([], seen)"
| "native_items env (item # items) seen =
     (case (case item of JObj d \<Rightarrow> (let f = dget_or JNull d ''function'' in if truthy f then f else JObj []) | _ \<Rightarrow> JObj []) of
        JObj f \<Rightarrow>
          (let name = strip (text_of (tv_render (ag_tools env)) f ''name'');
               args = native_args env (dget_or JNull f ''arguments'');
               key = (name, json_text (ld_float (tv_ledger (ag_tools env))) (JObj args))
           in if name = [] \<or> key \<in> set seen then native_items env items seen
              else case native_items env items (key # seen) of
                     Inl u \<Rightarrow> Inl u
                   | Inr (calls, seen') \<Rightarrow> Inr ((name, args) # calls, seen'))
      | _ \<Rightarrow> Inl ())"

definition parse_native_tool_calls ::
    "agent_env \<Rightarrow> json \<Rightarrow> (string \<times> string) list \<Rightarrow> unit + (string \<times> jobject) list \<times> (string \<times> string) list" where
  "parse_native_tool_calls env response seen =
     (case response of
        JObj r \<Rightarrow>
          (let choices = dget_or JNull r ''choices'' in
           if \<not> truthy choices then Inr ([], seen)
           else case choices of
                  JArr (JObj c # _) \<Rightarrow>
                    (let m = dget_or JNull c ''message'' in
                     case (if truthy m then m else JObj []) of
                       JObj msg \<Rightarrow>
                         (let raw = dget_or JNull msg ''tool_calls'' in
                          if \<not> truthy raw then Inr ([], seen)
                          else case raw of
                                 JArr items \<Rightarrow> native_items env items seen
                               | JObj _ \<Rightarrow> Inr ([], seen)
                               | JStr _ \<Rightarrow> Inr ([], seen)
                               | _ \<Rightarrow> Inl ())
                     | _ \<Rightarrow> Inl ())
                | _ \<Rightarrow> Inl ())
      | _ \<Rightarrow> Inr ([], seen))"

text \<open>\<open>build_tool_result_messages\<close>: the identifier under which the model gets each result.\<close>

definition native_ids :: "(json \<Rightarrow> string) \<Rightarrow> json list \<Rightarrow> (string, string) dict" where
  "native_ids render raw =
     fold (\<lambda>item m. case item of
        JObj d \<Rightarrow> (case dget_or JNull d ''function'' of
            JObj f \<Rightarrow> (let name = (case dget_or JNull f ''name'' of JStr s \<Rightarrow> s | _ \<Rightarrow> []); i = text_of render d ''id'' in
                       if name \<noteq> [] \<and> i \<noteq> [] then AList.update name i m else m)
          | _ \<Rightarrow> m)
      | _ \<Rightarrow> m) raw []"

definition build_tool_result_messages ::
    "(json \<Rightarrow> string) \<Rightarrow> (ToolCall \<times> string) list \<Rightarrow> json list \<Rightarrow> (string \<times> string) list" where
  "build_tool_result_messages render results raw =
     map (\<lambda>(c, txt). (str_or (case map_of (native_ids render raw) (tc_name c) of None \<Rightarrow> [] | Some i \<Rightarrow> i) (tc_id c), txt)) results"

section \<open>Recording calls and results\<close>

definition record_tool_call :: "agent_env \<Rightarrow> call_moment \<Rightarrow> ToolCall \<Rightarrow> agent_loop \<Rightarrow> agent_loop" where
  "record_tool_call env m c l =
     l\<lparr>al_tools := (al_tools l)\<lparr>tx_ledger := register_call (tv_ledger (ag_tools env)) (tc_name c) (tc_id c) (tc_args c)
          (ag_iteration env) (Some (ag_slug env)) (Some (ag_task env)) (mo_now m) (tx_ledger (al_tools l))\<rparr>,
       al_used := al_used l + 1\<rparr>"

definition record_tool_result :: "agent_env \<Rightarrow> call_moment \<Rightarrow> ToolCall \<Rightarrow> bool \<Rightarrow> json \<Rightarrow> bool \<Rightarrow> agent_loop \<Rightarrow> agent_loop" where
  "record_tool_result env m c success data reused l =
     l\<lparr>al_tools := (al_tools l)\<lparr>tx_ledger := register_result (tv_ledger (ag_tools env)) (tc_id c) success data (mo_done m)
          (tx_ledger (al_tools l))\<rparr>,
       al_used := (if reused then max 0 (al_used l - 1) else al_used l)\<rparr>"

definition MAX_OPERATION_RESULT_PREVIEW_CHARS :: nat where "MAX_OPERATION_RESULT_PREVIEW_CHARS = 4096"

text \<open>The data of the result event: an object whose text is too long is replaced by the start of its text.\<close>

definition result_preview :: "agent_env \<Rightarrow> ToolResult \<Rightarrow> json" where
  "result_preview env r =
     (if tl_success r
      then (case tl_data r of
              JObj d \<Rightarrow> (let t = json_dumps (ld_float (tv_ledger (ag_tools env))) (JObj d) in
                         if length t > MAX_OPERATION_RESULT_PREVIEW_CHARS
                         then JStr (take MAX_OPERATION_RESULT_PREVIEW_CHARS t) else JObj d)
            | j \<Rightarrow> j)
      else (case tl_error r of None \<Rightarrow> JNull | Some e \<Rightarrow> JStr e))"

definition activate_collection_tools :: "agent_env \<Rightarrow> ToolCall \<Rightarrow> ToolResult \<Rightarrow> tool_state \<Rightarrow> tool_state" where
  "activate_collection_tools env c r s =
     (if \<not> tl_success r then s
      else case fst (find_operation (tv_render (ag_tools env)) (tc_name c) (tc_args c) (tv_operations (ag_tools env))) of
             None \<Rightarrow> s
           | Some op \<Rightarrow>
               if ro_operation op \<noteq> ''collection.info'' then s
               else
                 let render = tv_render (ag_tools env);
                     payload = (case tl_data r of JObj d \<Rightarrow> d | _ \<Rightarrow> []);
                     collection = (case map_of payload ''collection'' of Some (JObj d) \<Rightarrow> d | _ \<Rightarrow> []);
                     bound = (case ro_collection op of None \<Rightarrow> [] | Some x \<Rightarrow> x);
                     slug = strip (str_or (text_of render collection ''slug'') bound)
                 in if slug = [] \<or> slug \<noteq> strip bound then s
                    else let tools = (case map_of payload ''tools'' of Some (JArr xs) \<Rightarrow> xs | _ \<Rightarrow> []);
                             returned = filter (\<lambda>x. x \<noteq> []) (map (\<lambda>j. case j of JObj d \<Rightarrow> strip (text_of render d ''invoke_as'') | _ \<Rightarrow> []) tools);
                             active = map ro_slug (filter (\<lambda>o1. strip (case ro_collection o1 of None \<Rightarrow> [] | Some x \<Rightarrow> x) = slug
                                        \<and> strip (ro_operation o1) \<in> set returned \<and> ro_operation o1 \<noteq> ''collection.info'')
                                        (tv_operations (ag_tools env)))
                         in s\<lparr>tx_opened := List.insert slug (tx_opened s), tx_active := List.union active (tx_active s)\<rparr>)"

section \<open>One call\<close>

text \<open>
  The loop returns on the event of the refusal by the cap and on the event that asks for confirmation; the
  generator of the call is then not resumed and does not reach its own \<open>run_session.finish\<close>.
\<close>

definition is_reused :: "ToolResult \<Rightarrow> bool" where
  "is_reused r = truthy (dget_or JNull (tl_meta r) ''reused'')"

definition execute_single_operation_call ::
    "agent_env \<Rightarrow> call_moment \<Rightarrow> ToolCall \<Rightarrow> agent_loop \<Rightarrow> agent_end option \<times> agent_loop" where
  "execute_single_operation_call env m c l =
     (if al_calls l \<ge> ag_max_tool_calls env
      then (Some EndFailed, emit_error AgentMaxToolCallsExceeded False
              (''Maximum operation calls ('' @ nat_str (ag_max_tool_calls env) @ '') reached'') l)
      else
        let l1 = record_tool_call env m c (emit (EvToolCall (tc_name c) (tc_id c) (tc_args c)) l) in
        case facade_execute (ag_tools env) (ag_ctx env) m c (al_tools l1) of
          (FacadeConfirm payload, s) \<Rightarrow> (Some EndWaiting, emit (EvConfirmationRequired payload) (l1\<lparr>al_tools := s\<rparr>))
        | (FacadeRaises, s) \<Rightarrow> fail_run (error_code_value AgentRuntimeException) False [] (l1\<lparr>al_tools := s\<rparr>)
        | (FacadeReturns r sources, s) \<Rightarrow>
            let l2 = l1\<lparr>al_tools := s, al_calls := (if is_reused r then al_calls l1 else Suc (al_calls l1))\<rparr>;
                data = result_preview env r;
                l3 = record_tool_result env m c (tl_success r) data (is_reused r)
                       (emit (EvToolResult (tc_name c) (tc_id c) (tl_success r) data (is_reused r)) l2)
            in (None, l3\<lparr>al_tools := activate_collection_tools env c r (al_tools l3),
                 al_outputs := al_outputs l3 @ [\<lparr>to_tool = tc_name c, to_success = tl_success r,
                   to_data = (if truthy (tl_data r) then tl_data r else JObj []), to_error = tl_error r,
                   to_code = dget_or JNull (tl_meta r) ''error_code'', to_retryable = dget_or JNull (tl_meta r) ''retryable''\<rparr>],
                 al_sources := al_sources l3 @ sources\<rparr>))"

text \<open>The calls of one answer, in order, until one ends the loop.\<close>

fun run_calls :: "agent_env \<Rightarrow> nat \<Rightarrow> nat \<Rightarrow> ToolCall list \<Rightarrow> agent_loop \<Rightarrow> agent_end option \<times> agent_loop" where
  "run_calls env step i [] l = (None, l)"
| "run_calls env step i (c # cs) l =
     (case execute_single_operation_call env (ag_moment env step i) c l of
        (Some e, l1) \<Rightarrow> (Some e, l1)
      | (None, l1) \<Rightarrow> run_calls env step (Suc i) cs l1)"

section \<open>One step\<close>

definition is_allowed_operation_call :: "agent_env \<Rightarrow> string \<times> jobject \<Rightarrow> bool" where
  "is_allowed_operation_call env c =
     (fst (find_operation (tv_render (ag_tools env)) (fst c) (snd c) (tv_operations (ag_tools env))) \<noteq> None)"

text \<open>Each parsed call gets an identifier of its own.\<close>

definition draw_calls :: "agent_env \<Rightarrow> (string \<times> jobject) list \<Rightarrow> agent_loop \<Rightarrow> ToolCall list \<times> agent_loop" where
  "draw_calls env cs l =
     (map (\<lambda>(i, name, args). \<lparr>tc_id = ag_draw env i, tc_name = name, tc_args = args\<rparr>)
        (zip [al_drawn l..<al_drawn l + length cs] cs),
      l\<lparr>al_drawn := al_drawn l + length cs\<rparr>)"

definition blocking_failure :: "tool_output \<Rightarrow> bool" where
  "blocking_failure t \<longleftrightarrow> \<not> to_success t \<and> to_retryable t = JBool False
     \<and> to_code t \<in> {JStr ''operation_unavailable'', JStr ''operation_ambiguous'', JStr ''operation_execution_failed''}"

definition code_text :: "json \<Rightarrow> string" where
  "code_text j = (case j of JStr s \<Rightarrow> s | _ \<Rightarrow> [])"

definition no_calls_step :: "agent_env \<Rightarrow> nat \<Rightarrow> agent_loop \<Rightarrow> agent_end option \<times> agent_loop" where
  "no_calls_step env step l =
     (if tv_operations (ag_tools env) \<noteq> [] \<and> al_outputs l = []
      then let l1 = l\<lparr>al_no_success := Suc (al_no_success l)\<rparr> in
           if al_no_success l1 \<ge> ag_max_without_success env
           then fail_run (error_code_value AgentRequiredOperationCallMissing) False ''Agent repeatedly skipped required operation calls'' l1
           else if Suc step \<ge> ag_max_llm_calls env
           then fail_run (error_code_value AgentRequiredOperationCallMissing) False
                  ''Agent failed to call required operations before answering'' l1
           else (None, emit (EvProtocolRetry ''no_tool_call_before_answer'')
                  (l1\<lparr>al_force := (if al_native l1 then True else al_force l1), al_retries := Suc (al_retries l1)\<rparr>))
      else (Some EndCompleted, finish_run ''completed'' (emit EvAnswer l)))"

definition calls_step :: "agent_env \<Rightarrow> nat \<Rightarrow> (string \<times> jobject) list \<Rightarrow> agent_loop \<Rightarrow> agent_end option \<times> agent_loop" where
  "calls_step env step parsed l0 =
     (let (calls, l) = draw_calls env parsed l0 in
      if ag_fail_fast env \<and> \<not> list_all (is_allowed_operation_call env) parsed
      then (None, emit (EvProtocolRetry ''invalid_operation_slug'')
              (l\<lparr>al_retries := Suc (al_retries l), al_force := (if al_native l then True else al_force l)\<rparr>))
      else case run_calls env step 0 calls l of
             (Some e, l1) \<Rightarrow> (Some e, l1)
           | (None, l1) \<Rightarrow>
               let new = drop (length (al_outputs l)) (al_outputs l1);
                   blocking = filter blocking_failure new;
                   l2 = l1\<lparr>al_no_success := (if list_ex to_success new then 0 else Suc (al_no_success l1))\<rparr>
               in if ag_fail_fast env \<and> blocking \<noteq> [] \<and> \<not> list_ex to_success new
                  then fail_run (code_text (to_code (hd blocking))) False
                         (''Agent operation execution failed with non-retryable errors: ''
                          @ join ''; '' (map (\<lambda>t. to_tool t @ ''['' @ code_text (to_code t) @ '']'') (take 3 blocking))) l2
                  else if al_no_success l2 \<ge> ag_max_without_success env
                  then fail_run (error_code_value AgentNoSuccessfulOperationResult) False
                         ''No successful operation results within the allowed retry budget'' l2
                  else (None, l2))"

definition text_step :: "agent_env \<Rightarrow> nat \<Rightarrow> string \<Rightarrow> agent_loop \<Rightarrow> agent_end option \<times> agent_loop" where
  "text_step env step txt l =
     (case ag_parse env (ag_strict env) txt of
        [] \<Rightarrow> no_calls_step env step l
      | cs \<Rightarrow> calls_step env step cs l)"

definition unsupported_step :: "agent_loop \<Rightarrow> agent_end option \<times> agent_loop" where
  "unsupported_step l =
     (if al_native l
      then (None, emit (EvProtocolRetry ''native_tool_calling_unsupported'') (l\<lparr>al_native := False, al_force := False\<rparr>))
      else fail_run (error_code_value AgentRuntimeException) False [] l)"

definition llm_failed_step :: "agent_env \<Rightarrow> string \<Rightarrow> string \<Rightarrow> bool \<Rightarrow> agent_loop \<Rightarrow> agent_end option \<times> agent_loop" where
  "llm_failed_step env code msg retryable l =
     (if retryable \<and> al_retries l < ag_max_retries env
      then (None, emit (EvProtocolRetry ''transport_error'') (l\<lparr>al_retries := Suc (al_retries l)\<rparr>))
      else fail_run code retryable msg l)"

text \<open>The answer of the model is parsed for native calls first, then as text.\<close>

definition parsed_step :: "agent_env \<Rightarrow> nat \<Rightarrow> json \<Rightarrow> string \<Rightarrow> agent_loop \<Rightarrow> agent_end option \<times> agent_loop" where
  "parsed_step env step response txt l =
     (case parse_native_tool_calls env response (al_seen l) of
        Inl _ \<Rightarrow> fail_run (error_code_value AgentRuntimeException) False [] l
      | Inr (c # cs, seen) \<Rightarrow> calls_step env step (c # cs) (l\<lparr>al_seen := seen\<rparr>)
      | Inr ([], seen) \<Rightarrow> text_step env step txt (l\<lparr>al_seen := seen\<rparr>))"

definition agent_step :: "agent_env \<Rightarrow> nat \<Rightarrow> agent_loop \<Rightarrow> agent_end option \<times> agent_loop" where
  "agent_step env step l =
     (if ag_elapsed env step \<ge> ag_max_wall_time env
      then fail_run (error_code_value AgentWallTimeExceeded) False ''Wall time limit exceeded'' l
      else case ag_llm env step l of
             LlmCancelled \<Rightarrow> (Some EndCancelled, l)
           | LlmUnsupported \<Rightarrow> unsupported_step l
           | LlmTooLarge code msg \<Rightarrow> fail_run code False msg l
           | LlmFailed code msg retryable \<Rightarrow> llm_failed_step env code msg retryable l
           | LlmText txt \<Rightarrow> text_step env step txt l
           | LlmRaw response txt \<Rightarrow>
               (if \<not> al_native l then text_step env step txt l
                else parsed_step env step response txt (l\<lparr>al_force := False\<rparr>)))"

section \<open>The loop\<close>

fun agent_steps :: "agent_env \<Rightarrow> nat \<Rightarrow> nat \<Rightarrow> agent_loop \<Rightarrow> agent_end \<times> agent_loop" where
  "agent_steps env step 0 l =
     (if al_outputs l \<noteq> [] then (EndCompleted, finish_run ''completed'' (emit EvAnswer l))
      else (EndFailed, finish_run ''failed'' (emit_error AgentNoSuccessfulOperationResult True
              (''Maximum agent LLM calls ('' @ nat_str (ag_max_llm_calls env) @ '') reached without result'') l)))"
| "agent_steps env step (Suc n) l =
     (case agent_step env step l of
        (Some e, l1) \<Rightarrow> (e, l1)
      | (None, l1) \<Rightarrow> agent_steps env (Suc step) n l1)"

text \<open>The loop starts with no collection opened; the ledger and the spent nonces outlive it.\<close>

definition start_loop :: "bool \<Rightarrow> int \<Rightarrow> nonce_store \<Rightarrow> ledger \<Rightarrow> agent_loop" where
  "start_loop native used nonces ledger = \<lparr>al_tools = \<lparr>tx_nonces = nonces, tx_ledger = ledger, tx_active = [], tx_opened = [], tx_executed = []\<rparr>,
     al_outputs = [], al_sources = [], al_calls = 0, al_no_success = 0, al_retries = 0, al_force = False, al_native = native,
     al_seen = [], al_used = used, al_drawn = 0, al_events = [], al_finish = []\<rparr>"

definition run_agent :: "agent_env \<Rightarrow> bool \<Rightarrow> int \<Rightarrow> nonce_store \<Rightarrow> ledger \<Rightarrow> agent_end \<times> agent_loop" where
  "run_agent env native used nonces ledger = agent_steps env 0 (ag_max_llm_calls env) (start_loop (native \<and> tv_operations (ag_tools env) \<noteq> []) used nonces ledger)"

definition retry_delay_ms :: "nat \<Rightarrow> int option \<Rightarrow> int" where
  "retry_delay_ms retry_count retry_after =
     (case retry_after of
        Some r \<Rightarrow> if r > 0 then min 30000 r else min 30000 (500 * 2 ^ retry_count)
      | None \<Rightarrow> min 30000 (500 * 2 ^ retry_count))"

end
