(* ===== verification/Tool_Tokens.thy ===== *)
theory Tool_Tokens
  imports Tool_Agent
begin

text \<open>
  Confirmation tokens: with Redis answering, a verified token is spent, and stays spent as long as it
  decodes. \<open>spent_in\<close> relates a set of spent tokens to the store; the gate of a guarded operation
  lets a call pass only by adding a token to that set.
\<close>

section \<open>The store of nonces\<close>

definition token_key :: "token_payload \<Rightarrow> string" where
  "token_key p = nonce_key (strip (tp_nonce p))"

text \<open>PyJWT refuses expired tokens, and what a token says does not change.\<close>

definition decodes_honestly :: "confirm_env \<Rightarrow> bool" where
  "decodes_honestly env \<longleftrightarrow>
     (\<forall>now t p. ce_decode env now t = Some p \<longrightarrow> now < tp_expires p)
     \<and> (\<forall>now now' t p p'. ce_decode env now t = Some p \<longrightarrow> ce_decode env now' t = Some p' \<longrightarrow> p' = p)"

definition spent_token :: "confirm_env \<Rightarrow> string \<Rightarrow> nonce_store \<Rightarrow> bool" where
  "spent_token env t s \<longleftrightarrow>
     (\<forall>now p. ce_decode env now t = Some p \<longrightarrow> (\<exists>e. map_of (ns_redis s) (token_key p) = Some e \<and> tp_expires p \<le> e))"

definition spent_in :: "confirm_env \<Rightarrow> string set \<Rightarrow> nonce_store \<Rightarrow> bool" where
  "spent_in env S s \<longleftrightarrow> finite S \<and> (\<forall>t \<in> S. spent_token env t s)"

text \<open>Entries of Redis are only ever prolonged.\<close>

definition prolonged :: "nonce_store \<Rightarrow> nonce_store \<Rightarrow> bool" where
  "prolonged s s' \<longleftrightarrow>
     (\<forall>k e. map_of (ns_redis s) k = Some e \<longrightarrow> (\<exists>e'. map_of (ns_redis s') k = Some e' \<and> e \<le> e'))"

lemma prolonged_refl [simp]: "prolonged s s"
  by (auto simp: prolonged_def)

lemma prolonged_trans: "prolonged s s1 \<Longrightarrow> prolonged s1 s2 \<Longrightarrow> prolonged s s2"
  unfolding prolonged_def by (meson order_trans)

lemma spent_token_prolonged: "spent_token env t s \<Longrightarrow> prolonged s s' \<Longrightarrow> spent_token env t s'"
  unfolding spent_token_def prolonged_def by (meson order_trans)

lemma spent_in_prolonged: "spent_in env S s \<Longrightarrow> prolonged s s' \<Longrightarrow> spent_in env S s'"
  by (auto simp: spent_in_def intro: spent_token_prolonged)

lemma redis_set_nx_prolongs:
  assumes "0 < ttl"
  shows "prolonged s (snd (redis_set_nx key ttl now s))"
  using assms by (auto simp: prolonged_def redis_set_nx_def update_conv' split: option.splits)

lemma consume_nonce_redis:
  assumes "ce_redis env"
  shows "prolonged s (snd (consume_nonce env True now p s))"
    and "fst (consume_nonce env True now p s) \<Longrightarrow>
      (\<exists>e. map_of (ns_redis (snd (consume_nonce env True now p s))) (token_key p) = Some e \<and> tp_expires p \<le> e)
      \<and> (\<forall>e. map_of (ns_redis s) (token_key p) = Some e \<longrightarrow> e \<le> now)"
  using assms
  by (auto simp: consume_nonce_def redis_set_nx_prolongs Let_def)
     (auto simp: redis_set_nx_def token_key_def update_conv' Let_def split: option.splits if_splits)

text \<open>
  The store of the process makes room before it looks a nonce up: when it is full, the nonce that expires first is
  forgotten by the very call that presents it again, and is accepted.
\<close>

lemma full_store_accepts_again:
  assumes full: "length live \<ge> MAX_FALLBACK_NONCE_STORE_SIZE" and live: "live = filter (\<lambda>(k, t). now < t) (ns_local s)"
    and first: "fst (hd (sort_key snd live)) = key"
  shows "fst (local_set key ttl now s)"
proof -
  let ?ks = "map fst (sort_key snd live)" and ?n = "length live + 1 - MAX_FALLBACK_NONCE_STORE_SIZE"
  have ne: "sort_key snd live \<noteq> []" "?n \<noteq> 0"
    using full length_sort [of snd live] by (auto simp: MAX_FALLBACK_NONCE_STORE_SIZE_def simp del: length_sort)
  then have "hd ?ks \<in> set (take ?n ?ks)" by (metis hd_in_set hd_take map_is_Nil_conv neq0_conv take_eq_Nil)
  then have "key \<in> set (take ?n ?ks)" using first ne(1) by (simp add: hd_map)
  moreover have "evict now (ns_local s) = filter (\<lambda>(k, t). k \<notin> set (take ?n ?ks)) live"
    by (simp add: evict_def Let_def flip: live)
  ultimately have "map_of (evict now (ns_local s)) key = None" by (auto simp: map_of_eq_None_iff)
  then show ?thesis by (simp add: local_set_def Let_def)
qed

section \<open>Verification\<close>

text \<open>The fields of a decoded token that decide.\<close>

definition token_for :: "confirm_env \<Rightarrow> int \<Rightarrow> uuid \<Rightarrow> uuid \<Rightarrow> string \<Rightarrow> string \<Rightarrow> bool" where
  "token_for env now user chat fp t \<longleftrightarrow>
     (\<exists>p. ce_decode env now t = Some p \<and> tp_user p = user \<and> tp_chat p = chat \<and> tp_fp p = fp)"

lemma verify_token_redis:
  assumes env: "ce_redis env" "decodes_honestly env"
  shows "prolonged s (snd (verify_token env True now t user chat fp True s))"
    and "fst (verify_token env True now t user chat fp True s) \<Longrightarrow>
      token_for env now user chat fp t \<and> \<not> spent_token env t s
      \<and> spent_token env t (snd (verify_token env True now t user chat fp True s))"
proof -
  show "prolonged s (snd (verify_token env True now t user chat fp True s))"
    using env by (auto simp: verify_token_def consume_nonce_redis split: option.split)
next
  assume ok: "fst (verify_token env True now t user chat fp True s)"
  then obtain p where p: "ce_decode env now t = Some p" "tp_user p = user" "tp_chat p = chat" "tp_fp p = fp"
      and v: "verify_token env True now t user chat fp True s = consume_nonce env True now p s"
    by (auto simp: verify_token_def split: option.splits if_splits)
  have used: "fst (consume_nonce env True now p s)" using ok v by simp
  have same: "\<And>now' p'. ce_decode env now' t = Some p' \<Longrightarrow> p' = p" and live: "now < tp_expires p"
    using env(2) p(1) unfolding decodes_honestly_def by blast+
  have "\<not> spent_token env t s"
    using consume_nonce_redis(2) [OF env(1) used] p(1) live unfolding spent_token_def by fastforce
  moreover have "spent_token env t (snd (consume_nonce env True now p s))"
    using consume_nonce_redis(2) [OF env(1) used] same unfolding spent_token_def by blast
  ultimately show "token_for env now user chat fp t \<and> \<not> spent_token env t s
      \<and> spent_token env t (snd (verify_token env True now t user chat fp True s))"
    using p v by (auto simp: token_for_def)
qed

lemma try_tokens_Cons:
  "try_tokens env m user chat fp (t # ts) s =
     (let v = verify_token env (mo_redis m) (mo_seconds m) t user chat fp True s in
      if strip t = [] then try_tokens env m user chat fp ts s
      else if fst v then (True, snd v) else try_tokens env m user chat fp ts (snd v))"
  by (simp add: Let_def split: prod.split bool.split)

declare try_tokens.simps(2) [simp del]

lemma try_tokens_prolongs:
  assumes env: "ce_redis env" "decodes_honestly env" and up: "mo_redis m"
  shows "prolonged s (snd (try_tokens env m user chat fp ts s))"
proof (induction ts arbitrary: s)
  case (Cons t ts)
  have "prolonged s (snd (verify_token env True (mo_seconds m) t user chat fp True s))"
    by (rule verify_token_redis(1) [OF env])
  with Cons.IH up show ?case by (auto simp: try_tokens_Cons Let_def intro: prolonged_trans)
qed simp

lemma try_tokens_spends:
  assumes env: "ce_redis env" "decodes_honestly env" and up: "mo_redis m"
    and ok: "fst (try_tokens env m user chat fp ts s)"
  shows "\<exists>t \<in> set ts. token_for env (mo_seconds m) user chat fp t \<and> \<not> spent_token env t s
    \<and> spent_token env t (snd (try_tokens env m user chat fp ts s))"
  using ok
proof (induction ts arbitrary: s)
  case (Cons t ts)
  let ?v = "verify_token env True (mo_seconds m) t user chat fp True s"
  have v: "prolonged s (snd ?v)" by (rule verify_token_redis(1) [OF env])
  show ?case
  proof (cases "strip t = [] \<or> \<not> fst ?v")
    case True
    define s1 where "s1 = (if strip t = [] then s else snd ?v)"
    have eq: "try_tokens env m user chat fp (t # ts) s = try_tokens env m user chat fp ts s1"
      using True up by (auto simp: try_tokens_Cons Let_def s1_def)
    then obtain u where "u \<in> set ts" "token_for env (mo_seconds m) user chat fp u" "\<not> spent_token env u s1"
        "spent_token env u (snd (try_tokens env m user chat fp ts s1))"
      using Cons.IH [of s1] Cons.prems by auto
    moreover have "prolonged s s1" using v by (simp add: s1_def)
    ultimately show ?thesis unfolding eq by (meson list.set_intros(2) spent_token_prolonged)
  next
    case False
    then have eq: "try_tokens env m user chat fp (t # ts) s = (True, snd ?v)"
      using up by (auto simp: try_tokens_Cons Let_def)
    show ?thesis using verify_token_redis(2) [OF env, of "mo_seconds m" t user chat fp s] False unfolding eq by auto
  qed
qed simp

section \<open>The gate\<close>

lemma ensure_confirmation_redis:
  assumes env: "ce_redis (tv_confirm env)" "decodes_honestly (tv_confirm env)" and up: "mo_redis m"
  shows "prolonged s (snd (ensure_confirmation env cx m op c s))"
    and "ro_requires_confirmation op \<Longrightarrow> cx_chat cx = Some chat \<Longrightarrow> fst (ensure_confirmation env cx m op c s) = Inr () \<Longrightarrow>
      \<exists>t \<in> set (cx_tokens cx).
        token_for (tv_confirm env) (mo_seconds m) (cx_user cx) chat
          (build_operation_fingerprint (tv_confirm env) (ro_slug op) (ro_operation op) (tc_args c)) t
        \<and> \<not> spent_token (tv_confirm env) t s \<and> spent_token (tv_confirm env) t (snd (ensure_confirmation env cx m op c s))"
proof -
  let ?fp = "build_operation_fingerprint (tv_confirm env) (ro_slug op) (ro_operation op) (tc_args c)"
  have ec: "ensure_confirmation env cx m op c s =
      (if \<not> ro_requires_confirmation op then (Inr (), s)
       else case cx_chat cx of
              None \<Rightarrow> (if ?fp \<in> set (cx_approved cx) then Inr () else Inl (confirmation_payload env op c ?fp), s)
            | Some chat \<Rightarrow> (if fst (try_tokens (tv_confirm env) m (cx_user cx) chat ?fp (cx_tokens cx) s) then Inr ()
                              else Inl (confirmation_payload env op c ?fp),
                            snd (try_tokens (tv_confirm env) m (cx_user cx) chat ?fp (cx_tokens cx) s)))"
    by (simp add: ensure_confirmation_def Let_def split: option.split prod.split bool.split)
  show "prolonged s (snd (ensure_confirmation env cx m op c s))"
    unfolding ec by (simp add: try_tokens_prolongs [OF env up] split: option.split)
  show "\<exists>t \<in> set (cx_tokens cx). token_for (tv_confirm env) (mo_seconds m) (cx_user cx) chat ?fp t
        \<and> \<not> spent_token (tv_confirm env) t s \<and> spent_token (tv_confirm env) t (snd (ensure_confirmation env cx m op c s))"
    if "ro_requires_confirmation op" "cx_chat cx = Some chat" "fst (ensure_confirmation env cx m op c s) = Inr ()"
    using that try_tokens_spends [OF env up, of "cx_user cx" chat ?fp "cx_tokens cx" s] unfolding ec by (simp split: if_splits)
qed

end
