(* ===== verification/Tool_Loop.thy ===== *)
theory Tool_Loop
  imports Tool_Tokens
begin

text \<open>
  How an agent's loop changes its state: what one execution of a call does to the state of the tools, and
  the induction over the loop, stated once as the locale \<open>agent_invariant\<close>.
\<close>

section \<open>One execution\<close>

lemma find_operation_in: "find_operation render slug args ops = (Some op, e) \<Longrightarrow> op \<in> set ops"
proof -
  have hd_in: "length (filter P ops) = 1 \<Longrightarrow> hd (filter P ops) \<in> set ops" for P
    by (metis filter_is_subset hd_in_set length_0_conv subsetD zero_neq_one)
  have two: "length (filter Q (filter P ops)) = 1 \<Longrightarrow> hd (filter Q (filter P ops)) \<in> set ops" for P Q
    using hd_in [of "\<lambda>x. P x \<and> Q x"] by (simp add: conj_commute)
  show "find_operation render slug args ops = (Some op, e) \<Longrightarrow> op \<in> set ops"
    using hd_in two unfolding find_operation_def
    by (auto simp: Let_def find_Some_iff split: option.splits if_splits)
qed

text \<open>What a call has passed when it reaches the ledger or the executor.\<close>

definition passes_gates :: "tool_env \<Rightarrow> tool_ctx \<Rightarrow> call_moment \<Rightarrow> tool_state \<Rightarrow> ResolvedOperation \<Rightarrow> ToolCall \<Rightarrow> bool" where
  "passes_gates env cx m s op c \<longleftrightarrow>
     fst (find_operation (tv_render env) (tc_name c) (tc_args c) (tv_operations env)) = Some op
     \<and> validate_collection_interaction cx s op = None
     \<and> validate_args env op (tc_args (resolved_call env op c)) = Inr None
     \<and> fst (ensure_confirmation env cx m op (resolved_call env op c) (tx_nonces s)) = Inr ()"

definition gate_nonces :: "tool_env \<Rightarrow> tool_ctx \<Rightarrow> call_moment \<Rightarrow> tool_state \<Rightarrow> ResolvedOperation \<Rightarrow> ToolCall \<Rightarrow> nonce_store" where
  "gate_nonces env cx m s op c = snd (ensure_confirmation env cx m op (resolved_call env op c) (tx_nonces s))"

lemma passes_gates_in: "passes_gates env cx m s op c \<Longrightarrow> op \<in> set (tv_operations env)"
  by (metis find_operation_in passes_gates_def prod.collapse)

text \<open>The four things an execution can do to the state.\<close>

lemma facade_execute_cases:
  assumes "facade_execute env cx m c s = (r, s')"
  obtains
    (refused) x where "s' = s" "r = FacadeReturns x []" "\<not> tl_success x" "\<not> is_reused x"
  | (stopped) "s' = s" "r = FacadeRaises"
  | (unconfirmed) op p where "s' = s\<lparr>tx_nonces := gate_nonces env cx m s op c\<rparr>" "r = FacadeConfirm p"
  | (reused) op x where "passes_gates env cx m s op c" "s' = s\<lparr>tx_nonces := gate_nonces env cx m s op c\<rparr>"
      "maybe_reuse env cx m (resolved_call env op c) (tx_ledger s) = Some x" "r = FacadeReturns x []"
  | (executed) op x src where "passes_gates env cx m s op c"
      "maybe_reuse env cx m (resolved_call env op c) (tx_ledger s) = None"
      "run_executor env (resolved_call env op c) (s\<lparr>tx_nonces := gate_nonces env cx m s op c\<rparr>) = ((x, src), s')"
      "r = FacadeReturns x src"
proof -
  obtain found msg where f: "find_operation (tv_render env) (tc_name c) (tc_args c) (tv_operations env) = (found, msg)"
    by (cases "find_operation (tv_render env) (tc_name c) (tc_args c) (tv_operations env)")
  show thesis
  proof (cases found)
    case None
    with assms f show thesis
      by (intro refused [of "not_found (tc_name c) msg"])
        (auto simp: facade_execute_def not_found_def tool_fail_def is_reused_def Let_def dget_or_def)
  next
    case (Some op)
    let ?c1 = "resolved_call env op c"
    show thesis
    proof (cases "validate_collection_interaction cx s op")
      case (Some e)
      with assms f \<open>found = Some op\<close> show thesis
        by (intro refused [of "gate_failure e"])
          (auto simp: facade_execute_def gate_failure_def oe_metadata_def tool_fail_def is_reused_def dget_or_def split: if_splits)
    next
      case gate: None
      note known = f \<open>found = Some op\<close> gate
      have e: "execute_resolved env cx m op ?c1 s = (r, s')" using known assms by (simp add: facade_execute_def)
      consider (a) u where "validate_args env op (tc_args ?c1) = Inl u"
        | (b) x where "validate_args env op (tc_args ?c1) = Inr (Some x)"
        | (c) p n where "validate_args env op (tc_args ?c1) = Inr None" "ensure_confirmation env cx m op ?c1 (tx_nonces s) = (Inl p, n)"
        | (d) n where "validate_args env op (tc_args ?c1) = Inr None" "ensure_confirmation env cx m op ?c1 (tx_nonces s) = (Inr (), n)"
        by (cases "validate_args env op (tc_args ?c1)"; cases "ensure_confirmation env cx m op ?c1 (tx_nonces s)")
          (auto, metis (full_types) old.unit.exhaust option.exhaust sum.exhaust)
      then show thesis
      proof cases
        case a then show thesis using e by (intro stopped) (auto simp: execute_resolved_def)
      next
        case (b x)
        then show thesis using e
          by (intro refused [of "args_failure x"])
            (auto simp: execute_resolved_def args_failure_def oe_metadata_def tool_fail_def is_reused_def dget_or_def split: if_splits)
      next
        case (c p n)
        then show thesis using e by (intro unconfirmed [of op p]) (auto simp: execute_resolved_def gate_nonces_def)
      next
        case (d n)
        then have p: "passes_gates env cx m s op c" and n: "gate_nonces env cx m s op c = n"
          using known by (auto simp: passes_gates_def gate_nonces_def)
        show thesis
        proof (cases "maybe_reuse env cx m ?c1 (tx_ledger s)")
          case None
          obtain x src s2 where "run_executor env ?c1 (s\<lparr>tx_nonces := n\<rparr>) = ((x, src), s2)"
            by (metis prod.exhaust)
          then show thesis using e d None p n by (intro executed [of op x src]) (auto simp: execute_resolved_def)
        next
          case (Some x)
          then show thesis using e d p n by (intro reused [of op x]) (auto simp: execute_resolved_def)
        qed
      qed
    qed
  qed
qed

section \<open>The induction over the loop\<close>

fun is_tool_event :: "agent_event \<Rightarrow> bool" where
  "is_tool_event (EvToolCall _ _ _) = True"
| "is_tool_event (EvToolResult _ _ _ _ _) = True"
| "is_tool_event _ = False"

definition tool_events :: "agent_loop \<Rightarrow> agent_event list" where
  "tool_events l = filter is_tool_event (al_events l)"

text \<open>Outside of the calls the loop changes only counters, flags and other events.\<close>

definition same_tools :: "agent_loop \<Rightarrow> agent_loop \<Rightarrow> bool" where
  "same_tools l l' \<longleftrightarrow> al_tools l' = al_tools l \<and> al_calls l' = al_calls l \<and> al_outputs l' = al_outputs l
     \<and> al_used l' = al_used l \<and> tool_events l' = tool_events l"

lemma same_tools_trans: "same_tools l l1 \<Longrightarrow> same_tools l1 l2 \<Longrightarrow> same_tools l l2"
  by (simp add: same_tools_def)

lemma tool_events_emit [simp]: "tool_events (emit e l) = tool_events l @ (if is_tool_event e then [e] else [])"
  by (simp add: tool_events_def emit_def)

lemma emit_frame [simp]:
  "al_tools (emit e l) = al_tools l" "al_calls (emit e l) = al_calls l" "al_outputs (emit e l) = al_outputs l"
  "al_used (emit e l) = al_used l" "al_drawn (emit e l) = al_drawn l" "al_finish (emit e l) = al_finish l"
  by (simp_all add: emit_def)

lemma finish_frame [simp]:
  "al_tools (finish_run st l) = al_tools l" "al_calls (finish_run st l) = al_calls l" "al_outputs (finish_run st l) = al_outputs l"
  "al_used (finish_run st l) = al_used l" "tool_events (finish_run st l) = tool_events l"
  by (simp_all add: finish_run_def tool_events_def)

lemma same_tools_emit: "\<not> is_tool_event e \<Longrightarrow> same_tools l (emit e l)"
  by (simp add: same_tools_def)

lemma fail_run_frame [simp]: "same_tools l (snd (fail_run code retryable msg l))"
  by (simp add: fail_run_def same_tools_def)

lemma no_calls_frame: "same_tools l (snd (no_calls_step env step l))"
  by (simp add: no_calls_step_def Let_def same_tools_def fail_run_def tool_events_def emit_def finish_run_def)

lemma draw_calls_frame: "same_tools l (snd (draw_calls env cs l))"
  by (simp add: draw_calls_def same_tools_def tool_events_def)

locale agent_invariant =
  fixes env :: agent_env and Keeps :: "agent_loop \<Rightarrow> bool"
  assumes frame: "same_tools l l' \<Longrightarrow> Keeps l \<Longrightarrow> Keeps l'"
    and call: "Keeps l \<Longrightarrow> Keeps (snd (execute_single_operation_call env (ag_moment env step i) c l))"
begin

lemma run_calls_keeps: "Keeps l \<Longrightarrow> Keeps (snd (run_calls env step i cs l))"
proof (induction cs arbitrary: i l)
  case (Cons c cs)
  obtain e l1 where "execute_single_operation_call env (ag_moment env step i) c l = (e, l1)"
    by (cases "execute_single_operation_call env (ag_moment env step i) c l")
  with Cons.prems Cons.IH [of l1 "Suc i"] call [of l step i c] show ?case by (cases e) simp_all
qed simp

lemma calls_step_keeps: "Keeps l \<Longrightarrow> Keeps (snd (calls_step env step cs l))"
proof -
  assume l: "Keeps l"
  obtain calls l1 where d: "draw_calls env cs l = (calls, l1)" by (cases "draw_calls env cs l")
  have l1: "Keeps l1" using frame [OF draw_calls_frame l] d by (metis snd_conv)
  obtain e l2 where r: "run_calls env step 0 calls l1 = (e, l2)" by (cases "run_calls env step 0 calls l1")
  have l2: "Keeps l2" using run_calls_keeps [OF l1, of step 0 calls] r by simp
  have st: "same_tools x (x\<lparr>al_retries := a, al_force := b\<rparr>)" "same_tools x (x\<lparr>al_no_success := n\<rparr>)" for x a b n
    by (simp_all add: same_tools_def tool_events_def)
  show "Keeps (snd (calls_step env step cs l))"
    using l1 l2 unfolding calls_step_def d r Let_def prod.case
    by (auto simp: frame [OF same_tools_emit] frame [OF st(1)] frame [OF fail_run_frame] frame [OF st(2)] split: option.split)
qed

lemma text_step_keeps: "Keeps l \<Longrightarrow> Keeps (snd (text_step env step txt l))"
  by (auto simp: text_step_def calls_step_keeps frame [OF no_calls_frame] split: list.split)

lemma parsed_step_keeps: "Keeps l \<Longrightarrow> Keeps (snd (parsed_step env step response txt l))"
proof -
  assume l: "Keeps l"
  have st: "same_tools l (l\<lparr>al_seen := s\<rparr>)" for s by (simp add: same_tools_def tool_events_def)
  show "Keeps (snd (parsed_step env step response txt l))"
    unfolding parsed_step_def
    by (auto simp: l frame [OF st l] text_step_keeps calls_step_keeps frame [OF fail_run_frame] split: sum.split prod.split list.split)
qed

lemma agent_step_keeps: "Keeps l \<Longrightarrow> Keeps (snd (agent_step env step l))"
proof -
  assume l: "Keeps l"
  have st: "same_tools l (l\<lparr>al_force := a\<rparr>)" "same_tools l (l\<lparr>al_retries := n\<rparr>)" "same_tools l (l\<lparr>al_native := b, al_force := a\<rparr>)" for a b n
    by (simp_all add: same_tools_def tool_events_def)
  show "Keeps (snd (agent_step env step l))"
    unfolding agent_step_def unsupported_step_def llm_failed_step_def
    by (auto simp: l frame [OF st(1) l] frame [OF st(2) l] frame [OF st(3) l] text_step_keeps parsed_step_keeps
      frame [OF same_tools_emit] frame [OF fail_run_frame] split: llm_answer.split)
qed

lemma agent_steps_keeps: "Keeps l \<Longrightarrow> Keeps (snd (agent_steps env step n l))"
proof (induction n arbitrary: step l)
  case 0
  have "Keeps (finish_run st (emit e l))" if "\<not> is_tool_event e" for st e
    using that by (intro frame [OF _ 0]) (simp add: same_tools_def)
  then show ?case by (simp add: emit_error_def)
next
  case (Suc n)
  obtain e l1 where "agent_step env step l = (e, l1)" by (cases "agent_step env step l")
  with Suc.prems Suc.IH [of l1 "Suc step"] agent_step_keeps [of l step] show ?case by (cases e) simp_all
qed

lemma run_agent_keeps:
  assumes "Keeps (start_loop (native \<and> tv_operations (ag_tools env) \<noteq> []) used nonces ledger)"
  shows "Keeps (snd (run_agent env native used nonces ledger))"
  using agent_steps_keeps [OF assms] by (simp add: run_agent_def)

end

section \<open>One call of the loop\<close>

lemma record_frames [simp]:
  "al_calls (record_tool_call env m c l) = al_calls l" "al_outputs (record_tool_call env m c l) = al_outputs l"
  "al_used (record_tool_call env m c l) = al_used l + 1" "tool_events (record_tool_call env m c l) = tool_events l"
  "al_calls (record_tool_result env m c ok j b l) = al_calls l" "al_outputs (record_tool_result env m c ok j b l) = al_outputs l"
  "tool_events (record_tool_result env m c ok j b l) = tool_events l"
  by (simp_all add: record_tool_call_def record_tool_result_def tool_events_def)

lemma activate_keeps [simp]:
  "tx_nonces (activate_collection_tools env c r s) = tx_nonces s" "tx_ledger (activate_collection_tools env c r s) = tx_ledger s"
  "tx_executed (activate_collection_tools env c r s) = tx_executed s"
  by (simp_all add: activate_collection_tools_def Let_def split: option.split)

text \<open>The state of the tools when the call is handed to the facade, and after its result.\<close>

definition called_tools :: "agent_env \<Rightarrow> call_moment \<Rightarrow> ToolCall \<Rightarrow> tool_state \<Rightarrow> tool_state" where
  "called_tools env m c s = s\<lparr>tx_ledger := register_call (tv_ledger (ag_tools env)) (tc_name c) (tc_id c) (tc_args c)
     (ag_iteration env) (Some (ag_slug env)) (Some (ag_task env)) (mo_now m) (tx_ledger s)\<rparr>"

definition settled_tools :: "agent_env \<Rightarrow> call_moment \<Rightarrow> ToolCall \<Rightarrow> ToolResult \<Rightarrow> tool_state \<Rightarrow> tool_state" where
  "settled_tools env m c r s = activate_collection_tools env c r
     (s\<lparr>tx_ledger := register_result (tv_ledger (ag_tools env)) (tc_id c) (tl_success r) (result_preview env r) (mo_done m) (tx_ledger s)\<rparr>)"

lemma execute_call_cases:
  assumes "execute_single_operation_call env m c l = (e, l')"
  obtains
    (capped) "al_calls l \<ge> ag_max_tool_calls env" "e = Some EndFailed" "same_tools l l'"
  | (ended) r s' where "al_calls l < ag_max_tool_calls env"
      "facade_execute (ag_tools env) (ag_ctx env) m c (called_tools env m c (al_tools l)) = (r, s')" "\<nexists>x src. r = FacadeReturns x src"
      "al_tools l' = s'" "al_calls l' = al_calls l" "al_outputs l' = al_outputs l" "al_used l' = al_used l + 1"
      "tool_events l' = tool_events l @ [EvToolCall (tc_name c) (tc_id c) (tc_args c)]"
  | (returned) x src s' where "al_calls l < ag_max_tool_calls env"
      "facade_execute (ag_tools env) (ag_ctx env) m c (called_tools env m c (al_tools l)) = (FacadeReturns x src, s')" "e = None"
      "al_tools l' = settled_tools env m c x s'" "al_calls l' = (if is_reused x then al_calls l else Suc (al_calls l))"
      "al_outputs l' = al_outputs l @ [\<lparr>to_tool = tc_name c, to_success = tl_success x,
         to_data = (if truthy (tl_data x) then tl_data x else JObj []), to_error = tl_error x,
         to_code = dget_or JNull (tl_meta x) ''error_code'', to_retryable = dget_or JNull (tl_meta x) ''retryable''\<rparr>]"
      "al_used l' = (if is_reused x then max 0 (al_used l) else al_used l + 1)"
      "tool_events l' = tool_events l @ [EvToolCall (tc_name c) (tc_id c) (tc_args c),
         EvToolResult (tc_name c) (tc_id c) (tl_success x) (result_preview env x) (is_reused x)]"
proof (cases "al_calls l \<ge> ag_max_tool_calls env")
  case True
  then show thesis using assms by (intro capped) (auto simp: execute_single_operation_call_def emit_error_def same_tools_emit)
next
  case False
  let ?l1 = "record_tool_call env m c (emit (EvToolCall (tc_name c) (tc_id c) (tc_args c)) l)"
  have t1: "al_tools ?l1 = called_tools env m c (al_tools l)" by (simp add: record_tool_call_def called_tools_def)
  obtain r s' where f: "facade_execute (ag_tools env) (ag_ctx env) m c (called_tools env m c (al_tools l)) = (r, s')"
    by (cases "facade_execute (ag_tools env) (ag_ctx env) m c (called_tools env m c (al_tools l))")
  have other: "al_tools (l0\<lparr>al_tools := s\<rparr>) = s" "al_calls (l0\<lparr>al_tools := s\<rparr>) = al_calls l0" "al_outputs (l0\<lparr>al_tools := s\<rparr>) = al_outputs l0"
      "al_used (l0\<lparr>al_tools := s\<rparr>) = al_used l0" "tool_events (l0\<lparr>al_tools := s\<rparr>) = tool_events l0" for l0 s
    by (simp_all add: tool_events_def)
  show thesis
  proof (cases r)
    case (FacadeReturns x src)
    then show thesis using assms False f t1
      by (intro returned [of x src s'])
        (auto simp: execute_single_operation_call_def Let_def settled_tools_def record_tool_result_def tool_events_def emit_def
           record_tool_call_def)
  next
    case (FacadeConfirm p)
    then show thesis using assms False f t1 other
      by (intro ended [of r s']) (auto simp: execute_single_operation_call_def Let_def)
  next
    case FacadeRaises
    then show thesis using assms False f t1 other
      by (intro ended [of r s']) (auto simp: execute_single_operation_call_def Let_def fail_run_def)
  qed
qed

end
