(* ===== verification/Tool_Reach.thy ===== *)
theory Tool_Reach
  imports Tool_Loop
begin

text \<open>
  The states of an agent's loop as an inductive relation: a state changes by executing a call, or keeps its
  tools. Every run ends in such a state (by interpretation of \<open>agent_invariant\<close>), so that properties
  of the calls are proved by rule induction.
\<close>

inductive loop_state :: "agent_env \<Rightarrow> int \<Rightarrow> nonce_store \<Rightarrow> ledger \<Rightarrow> agent_loop \<Rightarrow> bool"
  for env used nonces ledger where
  started: "loop_state env used nonces ledger (start_loop native used nonces ledger)"
| quiet: "loop_state env used nonces ledger l \<Longrightarrow> same_tools l l' \<Longrightarrow> loop_state env used nonces ledger l'"
| called: "loop_state env used nonces ledger l \<Longrightarrow>
    loop_state env used nonces ledger (snd (execute_single_operation_call env (ag_moment env step i) c l))"

interpretation loop: agent_invariant env "loop_state env used nonces ledger" for env used nonces ledger
  by unfold_locales (auto intro: quiet called)

lemma run_agent_reaches: "run_agent env native used nonces ledger = (e, l) \<Longrightarrow> loop_state env used nonces ledger l"
  using loop.run_agent_keeps [OF started] by (metis snd_conv)

lemma start_loop_simps [simp]:
  "al_tools (start_loop native used nonces ledger) = \<lparr>tx_nonces = nonces, tx_ledger = ledger, tx_active = [], tx_opened = [], tx_executed = []\<rparr>"
  "al_calls (start_loop native used nonces ledger) = 0" "al_outputs (start_loop native used nonces ledger) = []"
  "al_used (start_loop native used nonces ledger) = used" "tool_events (start_loop native used nonces ledger) = []"
  by (simp_all add: start_loop_def tool_events_def)

lemma called_tools_simps [simp]:
  "tx_nonces (called_tools env m c s) = tx_nonces s" "tx_active (called_tools env m c s) = tx_active s"
  "tx_opened (called_tools env m c s) = tx_opened s" "tx_executed (called_tools env m c s) = tx_executed s"
  by (simp_all add: called_tools_def)

lemma settled_tools_simps [simp]:
  "tx_nonces (settled_tools env m c r s) = tx_nonces s" "tx_executed (settled_tools env m c r s) = tx_executed s"
  "tx_ledger (settled_tools env m c r s) =
     register_result (tv_ledger (ag_tools env)) (tc_id c) (tl_success r) (result_preview env r) (mo_done m) (tx_ledger s)"
  by (simp_all add: settled_tools_def)

lemma run_executor_frame:
  assumes "run_executor env c s = (x, s')"
  shows "tx_nonces s' = tx_nonces s" "tx_ledger s' = tx_ledger s" "tx_active s' = tx_active s" "tx_opened s' = tx_opened s"
    and "tx_executed s' = (if tv_executor env = None then tx_executed s else c # tx_executed s)"
  using assms by (auto simp: run_executor_def Let_def split: option.splits executor_outcome.splits)

lemma facade_frame:
  assumes "facade_execute env cx m c s = (r, s')"
  shows "tx_ledger s' = tx_ledger s" "tx_active s' = tx_active s" "tx_opened s' = tx_opened s"
  using assms by (auto elim!: facade_execute_cases simp: run_executor_frame)

text \<open>The calls handed to the executor while a call is executed: none, or the resolved call.\<close>

lemma facade_executed:
  assumes f: "facade_execute env cx m c s = (r, s')" and new: "tx_executed s' \<noteq> tx_executed s"
  obtains op x src where "passes_gates env cx m s op c" "tx_executed s' = resolved_call env op c # tx_executed s"
    "tx_nonces s' = gate_nonces env cx m s op c" "r = FacadeReturns x src"
    "run_executor env (resolved_call env op c) (s\<lparr>tx_nonces := gate_nonces env cx m s op c\<rparr>) = ((x, src), s')"
  using f
proof (cases rule: facade_execute_cases)
  case (executed op x src)
  then show thesis using that [of op x src] new run_executor_frame [OF executed(3)] by (auto split: if_splits)
qed (use new in auto)

section \<open>The ledger\<close>

lemma length_register_call: "length (register_call env n i a it ag ph now l) \<le> MAX_TOOL_LEDGER_ENTRIES"
  by (simp add: register_call_def fingerprint_and_preview_def Let_def last_n_def MAX_TOOL_LEDGER_ENTRIES_def)

lemma length_change_first [simp]: "length (change_first P f xs) = length xs"
  by (induction xs) auto

lemma length_register_result [simp]: "length (register_result env i ok j now l) = length l"
  by (simp add: register_result_def fingerprint_and_preview_def Let_def)

lemma set_change_first: "x \<in> set (change_first P f xs) \<Longrightarrow> x \<in> set xs \<or> (\<exists>y \<in> set xs. P y \<and> x = f y)"
  by (induction xs) (auto split: if_splits)

lemma register_call_entries:
  assumes "e \<in> set (register_call env n i a it ag ph now l)"
  shows "e \<in> set l \<or> le_operation e = n \<and> le_call e = i \<and> le_args_fp e = fst (fingerprint_and_preview env (JObj a))
    \<and> le_status e = ''called''"
  using assms
  by (auto simp: register_call_def fingerprint_and_preview_def Let_def last_n_def dest!: in_set_dropD split: if_splits)

lemma register_result_entries:
  assumes "e \<in> set (register_result env i ok j now l)"
  shows "e \<in> set l \<or> (\<exists>e0 \<in> set l. le_call e0 = i \<and> le_call e = i \<and> le_operation e = le_operation e0 \<and> le_args_fp e = le_args_fp e0
    \<and> (le_status e = ''succeeded'' \<longrightarrow> ok \<and> (le_result e \<noteq> JNull \<longrightarrow> le_result e = j)))"
proof -
  let ?f = "\<lambda>e. e\<lparr>le_success := Some ok, le_status := (if ok then ''succeeded'' else ''failed''),
     le_result_fp := Some (fst (fingerprint_and_preview env j)), le_result_preview := Some (snd (fingerprint_and_preview env j)),
     le_result := (if ok then cacheable_result env j else JNull), le_finished := Some now\<rparr>"
  have "e \<in> set (change_first (\<lambda>e. le_call e = i) ?f (rev l))"
    using assms by (simp add: register_result_def Let_def split_beta)
  then show ?thesis by (auto dest!: set_change_first simp: cacheable_result_def split: if_splits)
qed

text \<open>Every entry stands for a call of the turn, and every result it keeps for a successful result.\<close>

definition backed :: "ledger_env \<Rightarrow> agent_event list \<Rightarrow> ledger \<Rightarrow> bool" where
  "backed env evs l \<longleftrightarrow> (\<forall>e \<in> set l.
     (\<exists>args. EvToolCall (le_operation e) (le_call e) args \<in> set evs \<and> le_args_fp e = fst (fingerprint_and_preview env (JObj args)))
     \<and> (le_status e = ''succeeded'' \<longrightarrow> le_result e \<noteq> JNull \<longrightarrow>
          (\<exists>n b. EvToolResult n (le_call e) True (le_result e) b \<in> set evs)))"

lemma backed_mono: "backed env evs l \<Longrightarrow> set evs \<subseteq> set evs' \<Longrightarrow> backed env evs' l"
  unfolding backed_def by (meson subsetD)

lemma backed_call:
  assumes "backed env evs l"
  shows "backed env (evs @ [EvToolCall n i a]) (register_call env n i a it ag ph now l)"
  using assms unfolding backed_def by (fastforce dest!: register_call_entries)

lemma backed_result:
  assumes "backed env evs l"
  shows "backed env (evs @ [EvToolResult n i ok j b]) (register_result env i ok j now l)"
  unfolding backed_def
proof
  fix e
  let ?evs = "set (evs @ [EvToolResult n i ok j b])"
  assume "e \<in> set (register_result env i ok j now l)"
  then consider "e \<in> set l" | e0 where "e0 \<in> set l" "le_call e0 = i" "le_call e = i" "le_operation e = le_operation e0"
      "le_args_fp e = le_args_fp e0" "le_status e = ''succeeded'' \<longrightarrow> ok \<and> (le_result e \<noteq> JNull \<longrightarrow> le_result e = j)"
    by (blast dest: register_result_entries)
  then show "(\<exists>args. EvToolCall (le_operation e) (le_call e) args \<in> ?evs \<and> le_args_fp e = fst (fingerprint_and_preview env (JObj args)))
     \<and> (le_status e = ''succeeded'' \<longrightarrow> le_result e \<noteq> JNull \<longrightarrow> (\<exists>n b. EvToolResult n (le_call e) True (le_result e) b \<in> ?evs))"
  proof cases
    case 1
    with assms show ?thesis unfolding backed_def by fastforce
  next
    case 2
    then obtain args where "EvToolCall (le_operation e) i args \<in> set evs"
        "le_args_fp e = fst (fingerprint_and_preview env (JObj args))"
      using assms unfolding backed_def by (metis (no_types, lifting))
    moreover have "EvToolResult n i True (le_result e) b \<in> ?evs" if "le_status e = ''succeeded''" "le_result e \<noteq> JNull"
      using that 2 by auto
    ultimately show ?thesis using 2(3) by auto
  qed
qed

lemma loop_state_backed:
  assumes "loop_state env used nonces ledger l" and "backed (tv_ledger (ag_tools env)) evs ledger"
  shows "backed (tv_ledger (ag_tools env)) (evs @ tool_events l) (tx_ledger (al_tools l))"
  using assms(1)
proof induction
  case (started native)
  then show ?case using assms(2) by simp
next
  case (quiet l l')
  then show ?case by (simp add: same_tools_def)
next
  case (called l step i c)
  let ?m = "ag_moment env step i"
  obtain e l' where e: "execute_single_operation_call env ?m c l = (e, l')" by (cases "execute_single_operation_call env ?m c l")
  have c: "backed (tv_ledger (ag_tools env)) (evs @ tool_events l @ [EvToolCall (tc_name c) (tc_id c) (tc_args c)])
      (tx_ledger (called_tools env ?m c (al_tools l)))"
    using backed_call [OF called.IH] by (simp add: called_tools_def)
  from e have "backed (tv_ledger (ag_tools env)) (evs @ tool_events l') (tx_ledger (al_tools l'))"
  proof (cases rule: execute_call_cases)
    case capped
    then show ?thesis using called.IH by (simp add: same_tools_def)
  next
    case (ended r s')
    then show ?thesis using c facade_frame(1) [OF ended(2)] by simp
  next
    case (returned x src s')
    have "backed (tv_ledger (ag_tools env)) (evs @ tool_events l @ [EvToolCall (tc_name c) (tc_id c) (tc_args c)]) (tx_ledger s')"
      using c facade_frame(1) [OF returned(2)] by simp
    from backed_result [OF this] show ?thesis using returned(4,8) by simp
  qed
  then show ?case using e by simp
qed

end
