(* ===== verification/Tool_Demo.thy ===== *)
theory Tool_Demo
  imports Tool_Reach
begin

text \<open>
  A small agent run for the concrete instances of the theorems: a collection whose \<open>collection.info\<close> lists
  an operation that requires confirmation, and a system operation, with an executor, a token and a model that
  calls them in turn.
\<close>

definition demo_operation :: "string \<Rightarrow> string \<Rightarrow> OperationScope \<Rightarrow> bool \<Rightarrow> ResolvedOperation" where
  "demo_operation slug operation sc guard = \<lparr>ro_slug = slug, ro_operation = operation, ro_scope = sc, ro_description = None,
     ro_schema = [], ro_collection = (if sc = CollectionScope then Some ''docs'' else None), ro_risk = ''high'', ro_side_effects = guard,
     ro_requires_confirmation = guard\<rparr>"

definition demo_info :: ResolvedOperation where
  "demo_info = demo_operation ''docs.info'' ''collection.info'' CollectionScope False"

definition demo_delete :: ResolvedOperation where
  "demo_delete = demo_operation ''docs.delete'' ''collection.delete'' CollectionScope True"

definition demo_now :: ResolvedOperation where
  "demo_now = demo_operation ''now'' ''now'' SystemScope False"

definition demo_args :: jobject where
  "demo_args = [(''collection_slug'', JStr ''docs'')]"

definition demo_confirm :: confirm_env where
  "demo_confirm = \<lparr>ce_sha = \<lambda>s. s, ce_float = \<lambda>r. [], ce_encode = \<lambda>p. tp_nonce p,
     ce_decode = \<lambda>now t. if now < 100 \<and> t = ''token'' then Some \<lparr>tp_fp = ''docs.delete|collection.delete|'' @ json_text (\<lambda>r. []) (JObj demo_args),
       tp_user = 1, tp_chat = 2, tp_issued = 0, tp_expires = 100, tp_nonce = ''nonce''\<rparr> else None,
     ce_redis = True, ce_ttl = 100\<rparr>"

definition demo_listing :: ToolResult where
  "demo_listing = tool_ok (JObj [(''collection'', JObj [(''slug'', JStr ''docs'')]),
     (''tools'', JArr [JObj [(''invoke_as'', JStr ''collection.delete'')]])]) []"

definition demo_executor :: "ToolCall list \<Rightarrow> ToolCall \<Rightarrow> executor_outcome" where
  "demo_executor prev c = ExecReturns (if tc_name c = ''docs.info'' then demo_listing else tool_ok (JInt 7) [])"

definition demo_env :: "bool \<Rightarrow> agent_env" where
  "demo_env reuse = \<lparr>ag_tools = \<lparr>tv_ledger = \<lparr>ld_sha = \<lambda>s. s @ replicate 16 CHR ''0'', ld_float = \<lambda>r. []\<rparr>, tv_confirm = demo_confirm,
       tv_render = \<lambda>j. [], tv_parse = \<lambda>s. None, tv_parse_float = \<lambda>s. None, tv_jsonschema = None, tv_executor = Some demo_executor,
       tv_operations = [demo_info, demo_delete, demo_now], tv_timeout = None\<rparr>,
     ag_ctx = \<lparr>cx_user = 1, cx_chat = Some 2, cx_tokens = [''token''], cx_approved = [], cx_reuse = reuse, cx_has_ledger = True, cx_gate = True\<rparr>,
     ag_llm = \<lambda>step l. LlmText (if step = 0 then ''docs.info'' else if step = 1 then ''docs.delete'' else []),
     ag_parse = \<lambda>strict s. if s = [] then [] else [(s, demo_args)], ag_json = \<lambda>s. None, ag_draw = \<lambda>n. replicate (Suc n) CHR ''i'',
     ag_elapsed = \<lambda>step. 0, ag_moment = \<lambda>step i. \<lparr>mo_now = int step, mo_done = int step, mo_redis = True\<rparr>,
     ag_max_llm_calls = 5, ag_max_tool_calls = 3, ag_max_wall_time = 1000, ag_max_retries = 2, ag_max_without_success = 3,
     ag_fail_fast = True, ag_strict = False, ag_slug = ''agent'', ag_task = ''task'', ag_iteration = 1\<rparr>"

definition no_nonces :: nonce_store where
  "no_nonces = \<lparr>ns_redis = [], ns_local = []\<rparr>"

definition demo_call :: "string \<Rightarrow> string \<Rightarrow> jobject \<Rightarrow> ToolCall" where
  "demo_call i name args = \<lparr>tc_id = i, tc_name = name, tc_args = args\<rparr>"

definition demo_start :: agent_loop where
  "demo_start = start_loop False 0 no_nonces []"

text \<open>The state after one call at a step.\<close>

definition demo_step :: "bool \<Rightarrow> nat \<Rightarrow> ToolCall \<Rightarrow> agent_loop \<Rightarrow> agent_loop" where
  "demo_step reuse step c l = snd (execute_single_operation_call (demo_env reuse) (ag_moment (demo_env reuse) step 0) c l)"

lemma demo_start_state: "loop_state (demo_env reuse) 0 no_nonces [] demo_start"
  unfolding demo_start_def by (rule loop_state.started)

lemma demo_step_state: "loop_state (demo_env reuse) 0 no_nonces [] l \<Longrightarrow> loop_state (demo_env reuse) 0 no_nonces [] (demo_step reuse step c l)"
  unfolding demo_step_def by (rule loop_state.called)

lemma demo_operations [simp]: "tv_operations (ag_tools (demo_env reuse)) = [demo_info, demo_delete, demo_now]"
  by (simp add: demo_env_def)

lemma demo_found:
  "find_operation (tv_render (ag_tools (demo_env reuse))) ''docs.info'' demo_args [demo_info, demo_delete, demo_now] = (Some demo_info, None)"
  "find_operation (tv_render (ag_tools (demo_env reuse))) ''collection.info'' demo_args [demo_info, demo_delete, demo_now] = (Some demo_info, None)"
  "find_operation (tv_render (ag_tools (demo_env reuse))) ''docs.delete'' demo_args [demo_info, demo_delete, demo_now] = (Some demo_delete, None)"
  "find_operation (tv_render (ag_tools (demo_env reuse))) ''now'' [] [demo_info, demo_delete, demo_now] = (Some demo_now, None)"
  by (simp_all add: find_operation_def demo_info_def demo_delete_def demo_now_def demo_operation_def)

lemma demo_resolved:
  "resolved_call (ag_tools (demo_env reuse)) demo_info (demo_call i n demo_args) = demo_call i ''docs.info'' demo_args"
  "resolved_call (ag_tools (demo_env reuse)) demo_delete (demo_call i n demo_args) = demo_call i ''docs.delete'' demo_args"
  "resolved_call (ag_tools (demo_env reuse)) demo_now (demo_call i n []) = demo_call i ''now'' []"
proof -
  have "normalize_args (\<lambda>j. []) (\<lambda>s. None) demo_info demo_args = demo_args" by code_simp
  moreover have "normalize_args (\<lambda>j. []) (\<lambda>s. None) demo_delete demo_args = demo_args" by code_simp
  moreover have "normalize_args (\<lambda>j. []) (\<lambda>s. None) demo_now [] = []" by code_simp
  ultimately show "resolved_call (ag_tools (demo_env reuse)) demo_info (demo_call i n demo_args) = demo_call i ''docs.info'' demo_args"
    "resolved_call (ag_tools (demo_env reuse)) demo_delete (demo_call i n demo_args) = demo_call i ''docs.delete'' demo_args"
    "resolved_call (ag_tools (demo_env reuse)) demo_now (demo_call i n []) = demo_call i ''now'' []"
    by (simp_all add: resolved_call_def demo_call_def demo_env_def) (simp_all add: demo_info_def demo_delete_def demo_now_def demo_operation_def)
qed

lemma demo_valid:
  "validate_args (ag_tools (demo_env reuse)) demo_info demo_args = Inr None"
  "validate_args (ag_tools (demo_env reuse)) demo_delete demo_args = Inr None"
  "validate_args (ag_tools (demo_env reuse)) demo_now [] = Inr None"
  by code_simp+

lemma demo_confirmation:
  "ensure_confirmation (ag_tools (demo_env reuse)) cx m demo_info c n = (Inr (), n)"
  "ensure_confirmation (ag_tools (demo_env reuse)) cx m demo_now c n = (Inr (), n)"
  by (simp_all add: ensure_confirmation_def demo_info_def demo_now_def demo_operation_def)

lemma demo_token_accepted:
  "fst (ensure_confirmation (ag_tools (demo_env False)) (ag_ctx (demo_env False)) (ag_moment (demo_env False) 1 0) demo_delete
     (demo_call i ''docs.delete'' demo_args) no_nonces) = Inr ()"
  by code_simp

lemma demo_caps [simp]: "ag_max_tool_calls (demo_env reuse) = 3" "tv_executor (ag_tools (demo_env reuse)) = Some demo_executor"
  by (simp_all add: demo_env_def)

lemma demo_gate:
  "validate_collection_interaction cx s demo_info = None" "validate_collection_interaction cx s demo_now = None"
  "''docs.delete'' \<in> set (tx_active s) \<Longrightarrow> validate_collection_interaction cx s demo_delete = None"
  by (simp_all add: validate_collection_interaction_def demo_info_def demo_now_def demo_delete_def demo_operation_def)

text \<open>Without reuse every call that passes its gates is executed.\<close>

lemma demo_executes:
  assumes "passes_gates (ag_tools (demo_env False)) (ag_ctx (demo_env False)) m s op c" "resolved_call (ag_tools (demo_env False)) op c = c1"
    and "demo_executor (tx_executed s) c1 = ExecReturns x" "tl_meta x = []"
  shows "facade_execute (ag_tools (demo_env False)) (ag_ctx (demo_env False)) m c s =
    (FacadeReturns x [], s\<lparr>tx_nonces := gate_nonces (ag_tools (demo_env False)) (ag_ctx (demo_env False)) m s op c, tx_executed := c1 # tx_executed s\<rparr>)"
proof -
  obtain r s' where f: "facade_execute (ag_tools (demo_env False)) (ag_ctx (demo_env False)) m c s = (r, s')"
    by (cases "facade_execute (ag_tools (demo_env False)) (ag_ctx (demo_env False)) m c s")
  have off: "maybe_reuse (ag_tools (demo_env False)) (ag_ctx (demo_env False)) m c1 l = None" for l
    by (simp add: maybe_reuse_def demo_env_def)
  obtain n where en: "ensure_confirmation (ag_tools (demo_env False)) (ag_ctx (demo_env False)) m op c1 (tx_nonces s) = (Inr (), n)"
    using assms(1,2) unfolding passes_gates_def by (metis prod.collapse)
  obtain msg where "find_operation (tv_render (ag_tools (demo_env False))) (tc_name c) (tc_args c) (tv_operations (ag_tools (demo_env False))) = (Some op, msg)"
    using assms(1) unfolding passes_gates_def by (metis prod.collapse)
  then show ?thesis using assms en off
    by (simp add: passes_gates_def facade_execute_def execute_resolved_def run_executor_def gate_nonces_def dget_or_def)
qed

lemma demo_info_step:
  fixes i n :: string and step :: nat and l :: agent_loop
  assumes "al_calls l < 3" "n = ''docs.info'' \<or> n = ''collection.info''"
  defines "l' \<equiv> demo_step False step (demo_call i n demo_args) l"
  shows "tx_executed (al_tools l') = demo_call i ''docs.info'' demo_args # tx_executed (al_tools l)"
    and "''docs.delete'' \<in> set (tx_active (al_tools l'))" and "tx_nonces (al_tools l') = tx_nonces (al_tools l)"
    and "al_calls l' = Suc (al_calls l)"
    and "tool_events l' = tool_events l @ [EvToolCall n i demo_args, EvToolResult n i True (result_preview (demo_env False) demo_listing) False]"
proof -
  let ?m = "ag_moment (demo_env False) step 0" and ?c = "demo_call i n demo_args"
  let ?s = "called_tools (demo_env False) ?m ?c (al_tools l)"
  have name [simp]: "tc_name ?c = n" "tc_id ?c = i" "tc_args ?c = demo_args" by (simp_all add: demo_call_def)
  have found: "find_operation (tv_render (ag_tools (demo_env False))) n demo_args [demo_info, demo_delete, demo_now] = (Some demo_info, None)"
    using assms(2) demo_found by auto
  have x: "demo_executor prev (demo_call i ''docs.info'' demo_args) = ExecReturns demo_listing" for prev
    by (simp add: demo_executor_def demo_call_def)
  have "passes_gates (ag_tools (demo_env False)) (ag_ctx (demo_env False)) ?m ?s demo_info ?c"
    by (simp add: passes_gates_def found demo_gate demo_resolved demo_confirmation) (simp add: demo_call_def demo_valid)
  from demo_executes [OF this demo_resolved(1) x] have f: "facade_execute (ag_tools (demo_env False)) (ag_ctx (demo_env False)) ?m ?c ?s =
      (FacadeReturns demo_listing [], ?s\<lparr>tx_executed := demo_call i ''docs.info'' demo_args # tx_executed ?s\<rparr>)"
    by (simp add: demo_listing_def tool_ok_def gate_nonces_def demo_confirmation)
  have listed: "''docs.delete'' \<in> set (tx_active (activate_collection_tools (demo_env False) ?c demo_listing s))" for s
  proof -
    have "strip ''docs'' = ''docs''" "strip ''collection.delete'' = ''collection.delete''" by code_simp+
    then show ?thesis
      by (simp add: activate_collection_tools_def found Let_def)
        (simp add: demo_info_def demo_delete_def demo_operation_def demo_listing_def tool_ok_def text_of_def py_str_def dget_or_def str_or_def)
  qed
  obtain e where e: "execute_single_operation_call (demo_env False) ?m ?c l = (e, l')"
    unfolding l'_def demo_step_def by (metis prod.collapse)
  have ok: "\<not> is_reused demo_listing" "tl_success demo_listing" by (simp_all add: demo_listing_def tool_ok_def is_reused_def dget_or_def)
  from e show "tx_executed (al_tools l') = demo_call i ''docs.info'' demo_args # tx_executed (al_tools l)"
    "''docs.delete'' \<in> set (tx_active (al_tools l'))" "tx_nonces (al_tools l') = tx_nonces (al_tools l)" "al_calls l' = Suc (al_calls l)"
    "tool_events l' = tool_events l @ [EvToolCall n i demo_args, EvToolResult n i True (result_preview (demo_env False) demo_listing) False]"
    using assms(1) f listed ok by (auto elim!: execute_call_cases simp: settled_tools_def)
qed

lemma demo_delete_step:
  assumes "al_calls l < 3" "''docs.delete'' \<in> set (tx_active (al_tools l))" "tx_nonces (al_tools l) = no_nonces"
  shows "tx_executed (al_tools (demo_step False 1 (demo_call i ''docs.delete'' demo_args) l)) =
    demo_call i ''docs.delete'' demo_args # tx_executed (al_tools l)"
proof -
  let ?m = "ag_moment (demo_env False) 1 0" and ?c = "demo_call i ''docs.delete'' demo_args"
  let ?s = "called_tools (demo_env False) ?m ?c (al_tools l)"
  have x: "demo_executor prev ?c = ExecReturns (tool_ok (JInt 7) [])" for prev by (simp add: demo_executor_def demo_call_def)
  have "passes_gates (ag_tools (demo_env False)) (ag_ctx (demo_env False)) ?m ?s demo_delete ?c"
    using assms demo_found(3) [of False] demo_token_accepted [of i] demo_valid(2)
    by (simp add: passes_gates_def demo_gate demo_resolved) (simp add: demo_call_def)
  from demo_executes [OF this demo_resolved(2) x] assms(1) show ?thesis
    unfolding demo_step_def
    by (cases "execute_single_operation_call (demo_env False) ?m ?c l") (auto elim!: execute_call_cases simp: tool_ok_def)
qed

definition demo_asked :: agent_loop where
  "demo_asked = demo_step True 0 (demo_call ''a'' ''now'' []) demo_start"

definition demo_asked_again :: agent_loop where
  "demo_asked_again = demo_step True 1 (demo_call ''b'' ''now'' []) demo_asked"

lemma demo_asked_events:
  "tool_events demo_asked = [EvToolCall ''now'' ''a'' [], EvToolResult ''now'' ''a'' True (JInt 7) False]"
  by code_simp

lemma demo_asked_again_events:
  "tool_events demo_asked_again = tool_events demo_asked @ [EvToolCall ''now'' ''b'' [], EvToolResult ''now'' ''b'' True (JInt 7) True]"
  by code_simp

end
