(* ===== verification/Tool_Theorems.thy ===== *)
theory Tool_Theorems
  imports Tool_Demo
begin

text \<open>
  What is proved of the operation calls of an agent: the caps of a run, the collection gate, the reuse of
  results, the confirmation tokens and the end of the run's session.
\<close>

section \<open>Caps\<close>

text \<open>Only the reuse policy marks results as reused.\<close>

definition executor_never_reuses :: "tool_env \<Rightarrow> bool" where
  "executor_never_reuses env \<longleftrightarrow>
     (\<forall>f. tv_executor env = Some f \<longrightarrow> (\<forall>prev c x. f prev c = ExecReturns x \<longrightarrow> \<not> is_reused x))"

lemma executor_failure_not_reused [simp]: "\<not> is_reused (executor_failure code retryable msg debug)"
  by (simp add: executor_failure_def tool_fail_def is_reused_def build_error_metadata_def dget_or_def)

lemma run_executor_not_reused:
  "executor_never_reuses env \<Longrightarrow> run_executor env c s = ((x, src), s') \<Longrightarrow> \<not> is_reused x"
  by (auto simp: run_executor_def executor_never_reuses_def Let_def split: option.splits executor_outcome.splits)

lemma maybe_reuse_reused: "maybe_reuse env cx m c l = Some x \<Longrightarrow> is_reused x \<and> tl_success x"
  by (auto simp: maybe_reuse_def tool_ok_def is_reused_def dget_or_def split: if_splits option.splits)

lemma facade_counts:
  assumes "facade_execute env cx m c s = (FacadeReturns x src, s')" "executor_never_reuses env"
  shows "length (tx_executed s') \<le> length (tx_executed s) + (if is_reused x then 0 else 1)"
  using assms(1)
proof (cases rule: facade_execute_cases)
  case (executed op x' src')
  then show ?thesis
    using run_executor_frame(5) [OF executed(3)] run_executor_not_reused [OF assms(2) executed(3)] by auto
qed auto

lemma facade_ends_unexecuted:
  assumes "facade_execute env cx m c s = (r, s')" "\<nexists>x src. r = FacadeReturns x src"
  shows "tx_executed s' = tx_executed s"
  using assms by (cases rule: facade_execute_cases) auto

definition reused_events :: "agent_event list \<Rightarrow> nat" where
  "reused_events evs = length (filter (\<lambda>e. case e of EvToolResult _ _ _ _ b \<Rightarrow> b | _ \<Rightarrow> False) evs)"

definition call_events :: "agent_event list \<Rightarrow> nat" where
  "call_events evs = length (filter (\<lambda>e. case e of EvToolCall _ _ _ \<Rightarrow> True | _ \<Rightarrow> False) evs)"

lemma event_counts [simp]:
  "reused_events (xs @ ys) = reused_events xs + reused_events ys" "call_events (xs @ ys) = call_events xs + call_events ys"
  "reused_events [] = 0" "call_events [] = 0"
  by (simp_all add: reused_events_def call_events_def)

lemma loop_state_caps:
  assumes "loop_state env used nonces ledger l"
    and "executor_never_reuses (ag_tools env)" "0 \<le> used" "length ledger \<le> MAX_TOOL_LEDGER_ENTRIES"
  shows "length (tx_executed (al_tools l)) \<le> al_calls l \<and> al_calls l \<le> ag_max_tool_calls env
    \<and> length (tx_ledger (al_tools l)) \<le> MAX_TOOL_LEDGER_ENTRIES
    \<and> al_used l = used + int (call_events (tool_events l)) - int (reused_events (tool_events l)) \<and> used \<le> al_used l"
  using assms(1)
proof induction
  case (started native)
  then show ?case using assms by simp
next
  case (quiet l l')
  then show ?case by (simp add: same_tools_def)
next
  case (called l step i c)
  let ?m = "ag_moment env step i"
  obtain e l' where e: "execute_single_operation_call env ?m c l = (e, l')" by (cases "execute_single_operation_call env ?m c l")
  have ev: "reused_events [EvToolCall n j a] = 0" "call_events [EvToolCall n j a] = 1"
      "reused_events [EvToolCall n j a, EvToolResult n j ok d b] = (if b then 1 else 0)"
      "call_events [EvToolCall n j a, EvToolResult n j ok d b] = 1" for n j a ok d b
    by (simp_all add: reused_events_def call_events_def)
  have led: "length (tx_ledger (called_tools env ?m c (al_tools l))) \<le> MAX_TOOL_LEDGER_ENTRIES"
    by (simp add: called_tools_def length_register_call)
  show ?case using e
  proof (cases rule: execute_call_cases)
    case capped
    then show ?thesis using called.IH e by (simp add: same_tools_def)
  next
    case (ended r s')
    then show ?thesis using called.IH e ev led facade_frame(1) [OF ended(2)] facade_ends_unexecuted [OF ended(2,3)] by simp
  next
    case (returned x src s')
    then show ?thesis
      using called.IH e ev led assms(3) facade_frame(1) [OF returned(2)] facade_counts [OF returned(2) assms(2)]
      by (auto split: if_splits)
  qed
qed

text \<open>
  C14. A run of an agent hands at most \<open>max_tool_calls_total\<close> calls to the executor, and counts at least
  as many as it hands over; the ledger of the turn stays within 120 entries; and the turn's counter of used
  calls grows by exactly the announced calls that were not answered from the ledger.
\<close>

theorem agent_run_within_caps:
  assumes "executor_never_reuses (ag_tools env)" "0 \<le> used" "length ledger \<le> MAX_TOOL_LEDGER_ENTRIES"
    and "run_agent env native used nonces ledger = (e, l)"
  shows "length (tx_executed (al_tools l)) \<le> al_calls l \<and> al_calls l \<le> ag_max_tool_calls env
    \<and> length (tx_ledger (al_tools l)) \<le> MAX_TOOL_LEDGER_ENTRIES
    \<and> al_used l = used + int (call_events (al_events l)) - int (reused_events (al_events l))"
proof -
  have "call_events (tool_events l) = call_events (al_events l)" "reused_events (tool_events l) = reused_events (al_events l)"
    unfolding call_events_def reused_events_def tool_events_def filter_filter
    by (rule arg_cong [of _ _ length], rule filter_cong, rule refl, simp split: agent_event.split)+
  then show ?thesis using loop_state_caps [OF run_agent_reaches [OF assms(4)] assms(1-3)] by simp
qed

lemma demo_never_reuses: "executor_never_reuses (ag_tools (demo_env reuse))"
  by (simp add: executor_never_reuses_def demo_executor_def demo_listing_def tool_ok_def is_reused_def dget_or_def)

theorem agent_run_within_caps_witness:
  "length (tx_executed (al_tools (snd (run_agent (demo_env True) False 0 no_nonces [])))) \<le> 3
   \<and> length (tx_ledger (al_tools (snd (run_agent (demo_env True) False 0 no_nonces [])))) \<le> MAX_TOOL_LEDGER_ENTRIES"
proof -
  obtain e l where l: "run_agent (demo_env True) False 0 no_nonces [] = (e, l)" by (cases "run_agent (demo_env True) False 0 no_nonces []")
  show ?thesis using agent_run_within_caps [OF demo_never_reuses _ _ l] unfolding l by simp
qed

section \<open>The collection gate\<close>

definition collection_of :: "ResolvedOperation \<Rightarrow> string" where
  "collection_of op = strip (case ro_collection op of None \<Rightarrow> [] | Some c \<Rightarrow> c)"

text \<open>A successful \<open>collection.info\<close> of the operation's collection that lists the operation.\<close>

definition lists_operation :: "agent_env \<Rightarrow> ResolvedOperation \<Rightarrow> tool_output \<Rightarrow> bool" where
  "lists_operation env op out \<longleftrightarrow> to_success out \<and>
     (\<exists>info \<in> set (tv_operations (ag_tools env)). ro_operation info = ''collection.info'' \<and> collection_of info = collection_of op)
     \<and> (\<exists>d xs t. to_data out = JObj d \<and> map_of d ''tools'' = Some (JArr xs) \<and> JObj t \<in> set xs
         \<and> strip (text_of (tv_render (ag_tools env)) t ''invoke_as'') = strip (ro_operation op))"

lemma activated_was_listed:
  assumes new: "slug \<in> set (tx_active (activate_collection_tools env c r s))" "slug \<notin> set (tx_active s)"
  obtains op where "op \<in> set (tv_operations (ag_tools env))" "ro_slug op = slug"
    "lists_operation env op \<lparr>to_tool = n, to_success = tl_success r, to_data = (if truthy (tl_data r) then tl_data r else JObj []),
       to_error = er, to_code = co, to_retryable = rt\<rparr>"
proof -
  obtain info msg where info: "find_operation (tv_render (ag_tools env)) (tc_name c) (tc_args c) (tv_operations (ag_tools env)) = (Some info, msg)"
      and ok: "tl_success r" and name: "ro_operation info = ''collection.info''"
    using new by (auto simp: activate_collection_tools_def split: option.splits if_splits prod.splits)
      (metis option.exhaust prod.collapse)+
  define d where "d = (case tl_data r of JObj d \<Rightarrow> d | _ \<Rightarrow> [])"
  define xs where "xs = (case map_of d ''tools'' of Some (JArr xs) \<Rightarrow> xs | _ \<Rightarrow> [])"
  obtain op where op: "op \<in> set (tv_operations (ag_tools env))" "ro_slug op = slug" "collection_of op = collection_of info"
      "strip (ro_operation op) \<noteq> []"
      "strip (ro_operation op) \<in> set (map (\<lambda>j. case j of JObj d \<Rightarrow> strip (text_of (tv_render (ag_tools env)) d ''invoke_as'') | _ \<Rightarrow> []) xs)"
    using new info ok name
    by (auto simp: activate_collection_tools_def Let_def collection_of_def d_def [symmetric] xs_def [symmetric] split: if_splits)
  obtain t where t: "JObj t \<in> set xs" "strip (text_of (tv_render (ag_tools env)) t ''invoke_as'') = strip (ro_operation op)"
    using op(4,5) by (auto split: json.splits)
  then have "xs \<noteq> []" by auto
  then have xs: "map_of d ''tools'' = Some (JArr xs)" unfolding xs_def by (auto split: option.splits json.splits)
  then have d: "tl_data r = JObj d" "d \<noteq> []" unfolding d_def by (auto split: json.splits)
  show thesis
    using that [OF op(1,2)] ok name op(3) find_operation_in [OF info] xs d t by (auto simp: lists_operation_def)
qed

lemma loop_state_active:
  assumes "loop_state env used nonces ledger l" "slug \<in> set (tx_active (al_tools l))"
  shows "\<exists>op \<in> set (tv_operations (ag_tools env)). ro_slug op = slug \<and> (\<exists>out \<in> set (al_outputs l). lists_operation env op out)"
  using assms
proof induction
  case (called l step i c)
  let ?m = "ag_moment env step i"
  obtain e l' where e: "execute_single_operation_call env ?m c l = (e, l')" by (cases "execute_single_operation_call env ?m c l")
  show ?case using e
  proof (cases rule: execute_call_cases)
    case capped
    then show ?thesis using called e by (simp add: same_tools_def)
  next
    case (ended r s')
    then show ?thesis using called e facade_frame(2) [OF ended(2)] by simp
  next
    case (returned x src s')
    note same = facade_frame(2) [OF returned(2)]
    show ?thesis
    proof (cases "slug \<in> set (tx_active (al_tools l))")
      case True
      then show ?thesis using called.IH e returned(6) by auto
    next
      case False
      then have "slug \<in> set (tx_active (settled_tools env ?m c x s'))" "slug \<notin> set (tx_active s')"
        using called.prems e returned(4) same by simp_all
      then show ?thesis unfolding settled_tools_def
        using e returned(6) by (elim activated_was_listed) (auto simp: called_tools_def)
    qed
  qed
qed (simp_all add: same_tools_def)

text \<open>
  C13. An operation of a collection reaches the executor only after a successful \<open>collection.info\<close> of
  the same collection in the same run whose answer lists the operation: such an answer is among the
  outputs in the state before the call.
\<close>

theorem collection_operation_follows_info:
  assumes l: "loop_state env used nonces ledger l"
    and slugs: "distinct (map ro_slug (tv_operations (ag_tools env)))" and on: "cx_gate (ag_ctx env)"
    and e: "execute_single_operation_call env (ag_moment env step i) c l = (e, l')"
    and new: "tx_executed (al_tools l') = c1 # tx_executed (al_tools l)"
    and op: "op \<in> set (tv_operations (ag_tools env))" "ro_slug op = tc_name c1" "ro_scope op = CollectionScope"
      "ro_operation op \<noteq> ''collection.info''"
  shows "\<exists>out \<in> set (al_outputs l). lists_operation env op out"
  using e
proof (cases rule: execute_call_cases)
  case (returned x src s')
  let ?s = "called_tools env (ag_moment env step i) c (al_tools l)"
  from returned(2) obtain op' where "passes_gates (ag_tools env) (ag_ctx env) (ag_moment env step i) ?s op' c"
      "tx_executed s' = resolved_call (ag_tools env) op' c # tx_executed ?s"
    by (rule facade_executed) (use new returned(4) in auto)
  moreover from this have "ro_slug op' = ro_slug op" using new returned(4) op(2) by (auto simp: resolved_call_def)
  with passes_gates_in [OF calculation(1)] op(1) slugs have "op' = op" by (simp add: distinct_map inj_on_def)
  ultimately have "ro_slug op \<in> set (tx_active (al_tools l))"
    using on op by (auto simp: passes_gates_def validate_collection_interaction_def Let_def split: if_splits)
  then show ?thesis using loop_state_active [OF l] op slugs by (metis distinct_map inj_onD)
qed (use new in \<open>auto simp: same_tools_def dest: facade_ends_unexecuted\<close>)

theorem collection_operation_follows_info_witness:
  "\<exists>out. out \<in> set (al_outputs (demo_step False 0 (demo_call ''a'' ''docs.info'' demo_args) demo_start))
     \<and> lists_operation (demo_env False) demo_delete out"
proof -
  let ?l = "demo_step False 0 (demo_call ''a'' ''docs.info'' demo_args) demo_start"
  have zero: "al_calls demo_start = 0" "tx_nonces (al_tools demo_start) = no_nonces" by (simp_all add: demo_start_def)
  note info = demo_info_step [of demo_start "''docs.info''" 0 "''a''"]
  have new: "tx_executed (al_tools (demo_step False 1 (demo_call ''b'' ''docs.delete'' demo_args) ?l)) =
      demo_call ''b'' ''docs.delete'' demo_args # tx_executed (al_tools ?l)"
    by (rule demo_delete_step) (use info zero in simp_all)
  have gate: "cx_gate (ag_ctx (demo_env False))" "distinct (map ro_slug (tv_operations (ag_tools (demo_env False))))"
    by (simp_all add: demo_env_def demo_info_def demo_delete_def demo_now_def demo_operation_def)
  obtain e where e: "execute_single_operation_call (demo_env False) (ag_moment (demo_env False) 1 0) (demo_call ''b'' ''docs.delete'' demo_args) ?l =
      (e, demo_step False 1 (demo_call ''b'' ''docs.delete'' demo_args) ?l)"
    unfolding demo_step_def [of _ 1] by (metis prod.collapse)
  have "demo_delete \<in> set (tv_operations (ag_tools (demo_env False)))" by simp
  from collection_operation_follows_info [OF demo_step_state [OF demo_start_state] gate(2,1) e new this] show ?thesis
    by (auto simp: demo_delete_def demo_operation_def demo_call_def)
qed

section \<open>Reuse\<close>

text \<open>A SHA-256 digest has 64 hexadecimal digits, of which 16 are kept.\<close>

definition long_digests :: "agent_env \<Rightarrow> bool" where
  "long_digests env \<longleftrightarrow> (\<forall>s. 16 \<le> length (ld_sha (tv_ledger (ag_tools env)) s))"

definition fingerprint_of :: "agent_env \<Rightarrow> jobject \<Rightarrow> string" where
  "fingerprint_of env args = fst (fingerprint_and_preview (tv_ledger (ag_tools env)) (JObj args))"

lemma fingerprint_length: "long_digests env \<Longrightarrow> length (fingerprint_of env args) = 16"
  by (simp add: long_digests_def fingerprint_of_def fingerprint_and_preview_def Let_def)

lemma signature_inj:
  assumes "call_signature o1 f1 = call_signature o2 f2" "length f1 = length f2"
  shows "o1 = o2 \<and> f1 = f2"
proof -
  have "f1 = f2" using assms append_eq_append_conv [of f1 f2 "o1 @ '':''" "o2 @ '':''"] by (simp add: call_signature_def)
  then show ?thesis using assms by (simp add: call_signature_def)
qed

text \<open>What the ledger offers for a call: an entry of the turn, which is older than the call itself.\<close>

lemma maybe_reuse_entry:
  assumes "maybe_reuse (ag_tools env) cx m c l = Some x"
  obtains en where "en \<in> set l" "le_signature en = call_signature (tc_name c) (fingerprint_of env (tc_args c))"
    "le_status en = ''succeeded''" "le_result en \<noteq> JNull"
    "mo_now m - (case le_finished en of Some t \<Rightarrow> t | None \<Rightarrow> le_called en) \<le> REUSE_MAX_AGE" "tl_data x = le_result en"
proof -
  obtain en where f: "find_successful_result (tv_ledger (ag_tools env)) (tc_name c) (tc_args c) REUSE_MAX_AGE (mo_now m) l = Some en"
      and x: "tl_data x = le_result en"
    using assms by (auto simp: maybe_reuse_def tool_ok_def split: if_splits option.splits)
  from find_SomeD [OF f [unfolded find_successful_result_def Let_def]] x show thesis
    by (intro that [of en]) (simp_all add: fingerprint_of_def)
qed

lemma called_entry:
  assumes "en \<in> set (tx_ledger (called_tools env m c s))" "le_status en = ''succeeded''"
  shows "en \<in> set (tx_ledger s)"
  using assms by (auto simp: called_tools_def dest: register_call_entries)

lemma backed_entry:
  assumes digests: "long_digests env" and b: "backed (tv_ledger (ag_tools env)) evs l"
    and en: "en \<in> set l" "le_signature en = call_signature name (fingerprint_of env a)" "le_status en = ''succeeded''" "le_result en \<noteq> JNull"
  obtains args n b where "EvToolCall name (le_call en) args \<in> set evs" "fingerprint_of env args = fingerprint_of env a"
    "EvToolResult n (le_call en) True (le_result en) b \<in> set evs"
proof -
  obtain args n b where ev: "EvToolCall (le_operation en) (le_call en) args \<in> set evs" "le_args_fp en = fingerprint_of env args"
      "EvToolResult n (le_call en) True (le_result en) b \<in> set evs"
    using b en(1,3,4) unfolding backed_def fingerprint_of_def by blast
  have "le_operation en = name \<and> fingerprint_of env args = fingerprint_of env a"
    using signature_inj [of "le_operation en" "le_args_fp en" name "fingerprint_of env a"] en(2) ev(2) fingerprint_length [OF digests]
    by (simp add: le_signature_def)
  then show thesis using that ev by metis
qed

text \<open>
  C28. A result that is announced as reused repeats, at most five minutes later, the data of a successful result
  of the turn for a call recorded under the operation's own name with the same arguments (by fingerprint); the
  executor is not called.
\<close>

theorem reused_result_was_given_before:
  assumes l: "loop_state env used nonces ledger l"
    and env: "long_digests env" "executor_never_reuses (ag_tools env)" and b: "backed (tv_ledger (ag_tools env)) evs ledger"
    and e: "execute_single_operation_call env m c l = (e, l')"
    and ev: "tool_events l' = tool_events l @ [EvToolCall (tc_name c) (tc_id c) (tc_args c), EvToolResult n j ok d True]"
  shows "ok \<and> tx_executed (al_tools l') = tx_executed (al_tools l) \<and>
    (\<exists>op \<in> set (tv_operations (ag_tools env)). \<exists>en \<in> set (tx_ledger (al_tools l)). \<exists>args n0 b0.
       EvToolCall (ro_slug op) (le_call en) args \<in> set (evs @ tool_events l)
       \<and> fingerprint_of env args = fingerprint_of env (tc_args (resolved_call (ag_tools env) op c))
       \<and> EvToolResult n0 (le_call en) True (le_result en) b0 \<in> set (evs @ tool_events l)
       \<and> mo_now m - (case le_finished en of Some t \<Rightarrow> t | None \<Rightarrow> le_called en) \<le> REUSE_MAX_AGE
       \<and> to_data (last (al_outputs l')) = (if truthy (le_result en) then le_result en else JObj []))"
  using e
proof (cases rule: execute_call_cases)
  case (returned x src s')
  then have x: "is_reused x" "ok = tl_success x" using ev by auto
  let ?s = "called_tools env m c (al_tools l)"
  have bl: "backed (tv_ledger (ag_tools env)) (evs @ tool_events l) (tx_ledger (al_tools l))"
    by (rule loop_state_backed [OF l b])
  from returned(2) show ?thesis
  proof (cases rule: facade_execute_cases)
    case (reused op y)
    let ?c = "resolved_call (ag_tools env) op c"
    from reused(3) obtain en where en: "en \<in> set (tx_ledger ?s)" "le_signature en = call_signature (tc_name ?c) (fingerprint_of env (tc_args ?c))"
        "le_status en = ''succeeded''" "le_result en \<noteq> JNull"
        "mo_now m - (case le_finished en of Some t \<Rightarrow> t | None \<Rightarrow> le_called en) \<le> REUSE_MAX_AGE" "tl_data y = le_result en"
      by (rule maybe_reuse_entry)
    note old = called_entry [OF en(1,3)]
    from backed_entry [OF env(1) bl old en(2,3,4)] obtain args n0 b0 where
        "EvToolCall (ro_slug op) (le_call en) args \<in> set (evs @ tool_events l)" "fingerprint_of env args = fingerprint_of env (tc_args ?c)"
        "EvToolResult n0 (le_call en) True (le_result en) b0 \<in> set (evs @ tool_events l)"
      by (auto simp: resolved_call_def)
    moreover have "y = x" "tl_success x" using reused(3,4) maybe_reuse_reused by auto
    ultimately show ?thesis using old en(5,6) passes_gates_in [OF reused(1)] x(2) returned(4,6) reused(2)
      by (intro conjI bexI [of _ op] bexI [of _ en] exI [of _ args] exI [of _ n0] exI [of _ b0]) simp_all
  next
    case (executed op y src')
    then show ?thesis using run_executor_not_reused [OF env(2) executed(3)] x by simp
  qed (use x in auto)
qed (use ev in \<open>auto simp: same_tools_def\<close>)

lemma demo_long_digests: "long_digests (demo_env reuse)"
  by (simp add: long_digests_def demo_env_def)

theorem reused_result_was_given_before_witness:
  "tx_executed (al_tools demo_asked_again) = tx_executed (al_tools demo_asked)
   \<and> (\<exists>en. en \<in> set (tx_ledger (al_tools demo_asked))
        \<and> to_data (last (al_outputs demo_asked_again)) = (if truthy (le_result en) then le_result en else JObj []))"
proof -
  have "backed (tv_ledger (ag_tools (demo_env True))) [] []" by (simp add: backed_def)
  moreover have "loop_state (demo_env True) 0 no_nonces [] demo_asked"
    unfolding demo_asked_def by (intro demo_step_state demo_start_state)
  moreover obtain e where "execute_single_operation_call (demo_env True) (ag_moment (demo_env True) 1 0) (demo_call ''b'' ''now'' []) demo_asked
      = (e, demo_asked_again)"
    unfolding demo_asked_again_def demo_step_def by (metis prod.collapse)
  moreover have "tool_events demo_asked_again = tool_events demo_asked @
      [EvToolCall (tc_name (demo_call ''b'' ''now'' [])) (tc_id (demo_call ''b'' ''now'' [])) (tc_args (demo_call ''b'' ''now'' [])),
       EvToolResult ''now'' ''b'' True (JInt 7) True]"
    using demo_asked_again_events by (simp add: demo_call_def)
  ultimately show ?thesis using reused_result_was_given_before [OF _ demo_long_digests demo_never_reuses] by blast
qed



section \<open>The end of the session\<close>

text \<open>
  How the session of a run is finished: once, as its end says, but not at all when the run waits for
  confirmation, is cancelled, or is stopped by the cap on operation calls.
\<close>

definition capped_event :: "agent_event \<Rightarrow> bool" where
  "capped_event ev \<longleftrightarrow> (\<exists>msg. ev = EvAgentError (error_code_value AgentMaxToolCallsExceeded) False msg)"

definition finished_as :: "agent_end \<Rightarrow> agent_loop \<Rightarrow> bool" where
  "finished_as e l \<longleftrightarrow> (case e of
     EndCompleted \<Rightarrow> al_finish l = [''completed'']
   | EndFailed \<Rightarrow> al_finish l = [''failed''] \<or> al_finish l = [] \<and> al_events l \<noteq> [] \<and> capped_event (last (al_events l))
   | _ \<Rightarrow> al_finish l = [])"

definition finish_kept :: "agent_end option \<times> agent_loop \<Rightarrow> bool" where
  "finish_kept r \<longleftrightarrow> (case fst r of None \<Rightarrow> al_finish (snd r) = [] | Some e \<Rightarrow> finished_as e (snd r))"

lemma finish_kept_simps [simp]:
  "al_finish l = [] \<Longrightarrow> finish_kept (fail_run code retryable msg l)"
  "finish_kept (None, l) = (al_finish l = [])" "finish_kept (Some e, l) = finished_as e l"
  by (simp_all add: finish_kept_def finished_as_def fail_run_def finish_run_def)

lemma execute_call_finish: "al_finish l = [] \<Longrightarrow> finish_kept (execute_single_operation_call env m c l)"
  by (auto simp: execute_single_operation_call_def Let_def record_tool_call_def record_tool_result_def emit_error_def
    finished_as_def capped_event_def emit_def split: facade_result.split prod.split)

lemma run_calls_finish: "al_finish l = [] \<Longrightarrow> finish_kept (run_calls env step i cs l)"
proof (induction cs arbitrary: i l)
  case (Cons c cs)
  obtain e l1 where "execute_single_operation_call env (ag_moment env step i) c l = (e, l1)"
    by (cases "execute_single_operation_call env (ag_moment env step i) c l")
  with execute_call_finish [OF Cons.prems, of env "ag_moment env step i" c] Cons.IH [of l1 "Suc i"] show ?case
    by (cases e) simp_all
qed simp

lemma calls_step_finish:
  assumes "al_finish l = []"
  shows "finish_kept (calls_step env step cs l)"
proof -
  obtain calls l1 where d: "draw_calls env cs l = (calls, l1)" by (cases "draw_calls env cs l")
  have l1: "al_finish l1 = []" using d assms by (auto simp: draw_calls_def)
  obtain e l2 where r: "run_calls env step 0 calls l1 = (e, l2)" by (cases "run_calls env step 0 calls l1")
  have "finish_kept (e, l2)" using run_calls_finish [OF l1, of env step 0 calls] r by simp
  then show ?thesis using l1 unfolding calls_step_def d r Let_def prod.case by (cases e) simp_all
qed

lemma no_calls_finish: "al_finish l = [] \<Longrightarrow> finish_kept (no_calls_step env step l)"
  by (simp add: no_calls_step_def Let_def finished_as_def finish_run_def)

lemma text_step_finish: "al_finish l = [] \<Longrightarrow> finish_kept (text_step env step txt l)"
  by (simp add: text_step_def calls_step_finish no_calls_finish split: list.split)

lemma agent_step_finish: "al_finish l = [] \<Longrightarrow> finish_kept (agent_step env step l)"
  by (auto simp: agent_step_def unsupported_step_def llm_failed_step_def parsed_step_def text_step_finish calls_step_finish finished_as_def
    split: llm_answer.split sum.split prod.split list.split)

lemma agent_steps_finish: "al_finish l = [] \<Longrightarrow> (case agent_steps env step n l of (e, l') \<Rightarrow> finished_as e l')"
proof (induction n arbitrary: step l)
  case 0
  then show ?case by (simp add: finished_as_def finish_run_def emit_error_def)
next
  case (Suc n)
  obtain e l1 where "agent_step env step l = (e, l1)" by (cases "agent_step env step l")
  with agent_step_finish [OF Suc.prems, of env step] Suc.IH [of l1 "Suc step"] show ?case by (cases e) simp_all
qed

text \<open>
  C27. A run that completes finishes its session once as completed; a run that fails finishes it once as failed,
  unless the cap on operation calls stopped it; a run that stops for confirmation, at that cap, or by
  cancellation never finishes its session.
\<close>

theorem session_finish_follows_end:
  "case run_agent env native used nonces ledger of (e, l) \<Rightarrow> finished_as e l"
  unfolding run_agent_def by (rule agent_steps_finish) (simp add: start_loop_def)

section \<open>Confirmation\<close>

definition guarded :: "tool_env \<Rightarrow> ToolCall \<Rightarrow> bool" where
  "guarded env c \<longleftrightarrow> list_ex (\<lambda>op. ro_slug op = tc_name c \<and> ro_requires_confirmation op) (tv_operations env)"

definition guarded_calls :: "agent_env \<Rightarrow> agent_loop \<Rightarrow> ToolCall list" where
  "guarded_calls env l = filter (guarded (ag_tools env)) (tx_executed (al_tools l))"

text \<open>The request holds a token of this user, chat, operation and arguments.\<close>

definition confirmed :: "agent_env \<Rightarrow> uuid \<Rightarrow> ToolCall \<Rightarrow> bool" where
  "confirmed env chat c \<longleftrightarrow> (\<exists>op \<in> set (tv_operations (ag_tools env)). ro_slug op = tc_name c \<and>
     (\<exists>t \<in> set (cx_tokens (ag_ctx env)). \<exists>now. token_for (tv_confirm (ag_tools env)) now (cx_user (ag_ctx env)) chat
        (build_operation_fingerprint (tv_confirm (ag_tools env)) (ro_slug op) (ro_operation op) (tc_args c)) t))"

text \<open>A run in a chat, with Redis answering, and operations under names of their own.\<close>

definition chat_run :: "confirm_env \<Rightarrow> agent_env \<Rightarrow> uuid \<Rightarrow> bool" where
  "chat_run conf env chat \<longleftrightarrow> tv_confirm (ag_tools env) = conf \<and> ce_redis conf \<and> decodes_honestly conf
     \<and> cx_chat (ag_ctx env) = Some chat \<and> distinct (map ro_slug (tv_operations (ag_tools env)))
     \<and> (\<forall>step i. mo_redis (ag_moment env step i))"

lemma facade_prolongs:
  assumes "ce_redis (tv_confirm env)" "decodes_honestly (tv_confirm env)" "mo_redis m" "facade_execute env cx m c s = (r, s')"
  shows "prolonged (tx_nonces s) (tx_nonces s')"
  using assms(4)
  by (cases rule: facade_execute_cases) (auto simp: gate_nonces_def ensure_confirmation_redis(1) [OF assms(1-3)] run_executor_frame)

text \<open>Executing a guarded call spends a token that was not spent before.\<close>

lemma facade_spends:
  assumes env: "ce_redis (tv_confirm env)" "decodes_honestly (tv_confirm env)" "mo_redis m"
    and slugs: "distinct (map ro_slug (tv_operations env))" and chat: "cx_chat cx = Some chat"
    and f: "facade_execute env cx m c s = (r, s')" and new: "tx_executed s' = c1 # tx_executed s" and g: "guarded env c1"
  shows "\<exists>op \<in> set (tv_operations env). ro_slug op = tc_name c1 \<and> (\<exists>t \<in> set (cx_tokens cx).
    token_for (tv_confirm env) (mo_seconds m) (cx_user cx) chat
      (build_operation_fingerprint (tv_confirm env) (ro_slug op) (ro_operation op) (tc_args c1)) t
    \<and> \<not> spent_token (tv_confirm env) t (tx_nonces s) \<and> spent_token (tv_confirm env) t (tx_nonces s'))"
proof -
  obtain op where p: "passes_gates env cx m s op c" and c1: "c1 = resolved_call env op c" and n: "tx_nonces s' = gate_nonces env cx m s op c"
    using f new by (elim facade_executed) auto
  have "ro_requires_confirmation op"
    using g c1 passes_gates_in [OF p] slugs by (auto simp: guarded_def list_ex_iff resolved_call_def distinct_map inj_on_def)
  moreover have "fst (ensure_confirmation env cx m op c1 (tx_nonces s)) = Inr ()" using p c1 by (simp add: passes_gates_def)
  ultimately show ?thesis
    using ensure_confirmation_redis(2) [OF env _ chat, of op c1 "tx_nonces s"] passes_gates_in [OF p] c1 n
    by (intro bexI [of _ op] conjI) (simp_all add: gate_nonces_def, simp add: resolved_call_def)
qed

definition spends :: "agent_env \<Rightarrow> uuid \<Rightarrow> string set \<Rightarrow> agent_loop \<Rightarrow> bool" where
  "spends env chat S0 l \<longleftrightarrow> (\<exists>S. spent_in (tv_confirm (ag_tools env)) S (tx_nonces (al_tools l)) \<and> S0 \<subseteq> S
     \<and> S \<subseteq> S0 \<union> set (cx_tokens (ag_ctx env)) \<and> card S0 + length (guarded_calls env l) \<le> card S)
   \<and> (\<forall>c \<in> set (guarded_calls env l). confirmed env chat c)"

lemma spends_step:
  assumes run: "chat_run conf env chat" and up: "mo_redis m" and l: "spends env chat S0 l"
    and f: "facade_execute (ag_tools env) (ag_ctx env) m c (called_tools env m c (al_tools l)) = (r, s')"
    and l': "tx_nonces (al_tools l') = tx_nonces s'" "tx_executed (al_tools l') = tx_executed s'"
  shows "spends env chat S0 l'"
proof -
  let ?conf = "tv_confirm (ag_tools env)"
  have env: "ce_redis ?conf" "decodes_honestly ?conf" "cx_chat (ag_ctx env) = Some chat" "distinct (map ro_slug (tv_operations (ag_tools env)))"
    using run by (auto simp: chat_run_def)
  obtain S where S: "spent_in ?conf S (tx_nonces (al_tools l))" "S0 \<subseteq> S" "S \<subseteq> S0 \<union> set (cx_tokens (ag_ctx env))"
      "card S0 + length (guarded_calls env l) \<le> card S" and conf: "\<forall>c \<in> set (guarded_calls env l). confirmed env chat c"
    using l unfolding spends_def by auto
  have S': "spent_in ?conf S (tx_nonces (al_tools l'))"
    using spent_in_prolonged [OF S(1)] facade_prolongs [OF env(1,2) up f] l'(1) by simp
  show ?thesis
  proof (cases "guarded_calls env l' = guarded_calls env l")
    case True
    then show ?thesis using S S' conf unfolding spends_def by auto
  next
    case False
    then obtain c1 where new: "tx_executed s' = c1 # tx_executed (called_tools env m c (al_tools l))" and g: "guarded (ag_tools env) c1"
      using f l'(2) by (cases "tx_executed s' = tx_executed (al_tools l)")
        (auto simp: guarded_calls_def elim!: facade_executed split: if_splits)
    from facade_spends [OF env(1,2) up env(4,3) f new g] obtain t where
        t: "t \<in> set (cx_tokens (ag_ctx env))" "\<not> spent_token ?conf t (tx_nonces (al_tools l))" "spent_token ?conf t (tx_nonces s')"
        and c1: "confirmed env chat c1"
      unfolding confirmed_def by fastforce
    have "t \<notin> S" "finite S" using S(1) t(2) by (auto simp: spent_in_def)
    then have "card S0 + length (guarded_calls env l') \<le> card (insert t S)"
      using S(4) new l'(2) g by (simp add: guarded_calls_def)
    moreover have "spent_in ?conf (insert t S) (tx_nonces (al_tools l'))" using S' t(3) l'(1) by (simp add: spent_in_def)
    moreover have "\<forall>c \<in> set (guarded_calls env l'). confirmed env chat c"
      using conf c1 new l'(2) g by (simp add: guarded_calls_def)
    ultimately show ?thesis using S(2,3) t(1) unfolding spends_def by (intro conjI exI [of _ "insert t S"]) auto
  qed
qed

lemma loop_state_spends:
  assumes "loop_state env used nonces ledger l" "chat_run conf env chat" "spent_in conf S0 nonces"
  shows "spends env chat S0 l"
  using assms(1)
proof induction
  case (started native)
  then show ?case using assms(2,3) by (auto simp: spends_def guarded_calls_def chat_run_def)
next
  case (quiet l l')
  then show ?case by (simp add: same_tools_def spends_def guarded_calls_def)
next
  case (called l step i c)
  let ?m = "ag_moment env step i"
  obtain e l' where e: "execute_single_operation_call env ?m c l = (e, l')" by (cases "execute_single_operation_call env ?m c l")
  have up: "mo_redis ?m" using assms(2) by (simp add: chat_run_def)
  from e have "spends env chat S0 l'"
  proof (cases rule: execute_call_cases)
    case capped
    then show ?thesis using called.IH by (simp add: same_tools_def spends_def guarded_calls_def)
  next
    case (ended r s')
    then show ?thesis by (intro spends_step [OF assms(2) up called.IH ended(2)]) simp_all
  next
    case (returned x src s')
    then show ?thesis by (intro spends_step [OF assms(2) up called.IH returned(2)]) simp_all
  qed
  then show ?case using e by simp
qed

text \<open>Runs of agents one after another, over one store of spent nonces.\<close>

fun run_agents :: "(agent_env \<times> bool \<times> int \<times> ledger) list \<Rightarrow> nonce_store \<Rightarrow> agent_loop list" where
  "run_agents [] nonces = []"
| "run_agents ((env, native, used, ledger) # rs) nonces =
     (let l = snd (run_agent env native used nonces ledger) in l # run_agents rs (tx_nonces (al_tools l)))"

definition all_tokens :: "(agent_env \<times> bool \<times> int \<times> ledger) list \<Rightarrow> string set" where
  "all_tokens runs = (\<Union>r \<in> set runs. set (cx_tokens (ag_ctx (fst r))))"

definition guarded_total :: "(agent_env \<times> bool \<times> int \<times> ledger) list \<Rightarrow> agent_loop list \<Rightarrow> nat" where
  "guarded_total runs ls = sum_list (map (\<lambda>(r, l). length (guarded_calls (fst r) l)) (zip runs ls))"

lemma run_agents_spend:
  assumes "\<forall>r \<in> set runs. \<exists>chat. chat_run conf (fst r) chat" "spent_in conf S nonces"
  shows "card S + guarded_total runs (run_agents runs nonces) \<le> card (S \<union> all_tokens runs)
    \<and> (\<forall>(r, l) \<in> set (zip runs (run_agents runs nonces)). \<forall>c \<in> set (guarded_calls (fst r) l). \<exists>chat. confirmed (fst r) chat c)"
  using assms
proof (induction runs arbitrary: nonces S)
  case (Cons r runs)
  obtain env native used ledger where r: "r = (env, native, used, ledger)" by (cases r)
  obtain e l where l: "run_agent env native used nonces ledger = (e, l)" by (cases "run_agent env native used nonces ledger")
  obtain chat where chat: "chat_run conf env chat" using Cons.prems(1) r by auto
  then have same: "tv_confirm (ag_tools env) = conf" by (simp add: chat_run_def)
  obtain S' where S': "spent_in conf S' (tx_nonces (al_tools l))" "S' \<subseteq> S \<union> set (cx_tokens (ag_ctx env))"
      "card S + length (guarded_calls env l) \<le> card S'" and now: "\<forall>c \<in> set (guarded_calls env l). confirmed env chat c"
    using loop_state_spends [OF run_agent_reaches [OF l] chat Cons.prems(2)] unfolding spends_def same by auto
  note ih = Cons.IH [OF _ S'(1)]
  have "finite (S \<union> all_tokens (r # runs))" using Cons.prems(2) by (simp add: all_tokens_def spent_in_def)
  then have "card (S' \<union> all_tokens runs) \<le> card (S \<union> all_tokens (r # runs))"
    using S'(2) r by (intro card_mono) (auto simp: all_tokens_def)
  then show ?case using ih S'(3) now Cons.prems(1) unfolding r by (auto simp: l guarded_total_def)
qed (simp add: guarded_total_def all_tokens_def)


lemma demo_is_chat_run: "chat_run demo_confirm (demo_env reuse) 2"
proof -
  have "decodes_honestly demo_confirm" by (auto simp: decodes_honestly_def demo_confirm_def split: if_splits)
  then show ?thesis
    by (simp add: chat_run_def demo_env_def demo_info_def demo_delete_def demo_now_def demo_operation_def) (simp add: demo_confirm_def)
qed


end
