(* ===== verification/Template_Contract.thy ===== *)
theory Template_Contract
  imports Json_Text "HOL-Library.Monad_Syntax"
begin

text \<open>
  The schema of a template (\<open>services/collection/template_contract.py\<close>): its fields, the conversion
  between the flat list of fields and the hierarchical document that is stored, and the merge of a new analysis
  into an existing contract.

  Reading a stored document goes through pydantic. Its conversions to text, boolean and integer are
  arguments, of which only the behaviour on values of the right type is relied on. \<open>render\<close> is
  \<open>str()\<close> on arrays, objects and floats.
\<close>

section \<open>Fields\<close>

datatype FieldType = TyString | TyNumber | TyDate | TyBool | TyEnum
datatype Orientation = Vertical | Horizontal
datatype FieldSource = SrcLlm | SrcAdmin | SrcParser
datatype DocumentFormat = Excel

fun type_value :: "FieldType \<Rightarrow> string" where
  "type_value TyString = ''string''"
| "type_value TyNumber = ''number''"
| "type_value TyDate = ''date''"
| "type_value TyBool = ''bool''"
| "type_value TyEnum = ''enum''"

fun orientation_value :: "Orientation \<Rightarrow> string" where
  "orientation_value Vertical = ''vertical''"
| "orientation_value Horizontal = ''horizontal''"

fun source_value :: "FieldSource \<Rightarrow> string" where
  "source_value SrcLlm = ''llm''"
| "source_value SrcAdmin = ''admin''"
| "source_value SrcParser = ''parser''"

fun format_value :: "DocumentFormat \<Rightarrow> string" where
  "format_value Excel = ''excel''"

record MarkerAnchor =
  ma_loop_tokens :: "string list"
  ma_row :: int
  ma_columns :: "(string, int) dict"

record TableAnchor =
  ta_sheet :: "string option"
  ta_marker :: MarkerAnchor

text \<open>A locator is its token.\<close>

record TableColumn =
  cl_key :: string
  cl_label :: string
  cl_description :: "string option"
  cl_type :: FieldType
  cl_required :: bool
  cl_example :: "string option"
  cl_enum :: "string list option"
  cl_locator :: "string option"
  cl_source :: FieldSource
  cl_locked :: bool

record ScalarField =
  sf_key :: string
  sf_label :: string
  sf_description :: "string option"
  sf_type :: FieldType
  sf_required :: bool
  sf_example :: "string option"
  sf_enum :: "string list option"
  sf_format :: "string option"
  sf_locator :: "string option"
  sf_source :: FieldSource
  sf_locked :: bool

record TableField =
  tf_key :: string
  tf_label :: string
  tf_description :: "string option"
  tf_orientation :: Orientation
  tf_required :: bool
  tf_min_rows :: int
  tf_max_rows :: "int option"
  tf_anchor :: "TableAnchor option"
  tf_columns :: "TableColumn list"
  tf_source :: FieldSource
  tf_locked :: bool

datatype AnyField = Scalar ScalarField | Table TableField

fun field_key :: "AnyField \<Rightarrow> string" where
  "field_key (Scalar f) = sf_key f"
| "field_key (Table t) = tf_key t"

fun field_source :: "AnyField \<Rightarrow> FieldSource" where
  "field_source (Scalar f) = sf_source f"
| "field_source (Table t) = tf_source t"

fun field_locked :: "AnyField \<Rightarrow> bool" where
  "field_locked (Scalar f) = sf_locked f"
| "field_locked (Table t) = tf_locked t"

record TemplateContract =
  ct_version :: string
  ct_format :: "DocumentFormat option"
  ct_fields :: "AnyField list"
  ct_meta :: "(string, jobject) dict"

definition TEMPLATE_CONTRACT_VERSION :: string where "TEMPLATE_CONTRACT_VERSION = ''1.0''"

definition empty_contract :: TemplateContract where
  "empty_contract = \<lparr>ct_version = TEMPLATE_CONTRACT_VERSION, ct_format = None, ct_fields = [], ct_meta = []\<rparr>"

section \<open>Paths\<close>

text \<open>\<open>s.split(".")\<close>, \<open>".".join(parts)\<close> and \<open>s.capitalize()\<close> on ASCII letters\<close>

fun split_on :: "char \<Rightarrow> string \<Rightarrow> string list" where
  "split_on c [] = [[]]"
| "split_on c (x # xs) =
     (if x = c then [] # split_on c xs else case split_on c xs of [] \<Rightarrow> [[x]] | y # ys \<Rightarrow> (x # y) # ys)"

definition segments :: "string \<Rightarrow> string list" where
  "segments key = split_on CHR ''.'' key"

definition sub_path :: "string \<Rightarrow> string \<Rightarrow> string" where
  "sub_path parent key = (if parent = [] then key else parent @ ''.'' @ key)"

definition upper_char :: "char \<Rightarrow> char" where
  "upper_char c = (let n = of_char c :: nat in if 97 \<le> n \<and> n \<le> 122 then char_of (n - 32) else c)"

definition capitalize :: "string \<Rightarrow> string" where
  "capitalize s = (case s of [] \<Rightarrow> [] | c # cs \<Rightarrow> upper_char c # lower cs)"

definition str_json :: "string option \<Rightarrow> json" where
  "str_json x = (case x of None \<Rightarrow> JNull | Some s \<Rightarrow> JStr s)"

definition enum_json :: "string list option \<Rightarrow> json" where
  "enum_json x = (case x of None \<Rightarrow> JNull | Some xs \<Rightarrow> JArr (map JStr xs))"

definition locator_json :: "string option \<Rightarrow> json" where
  "locator_json x = (case x of None \<Rightarrow> JNull | Some t \<Rightarrow> JObj [(''token'', JStr t)])"

definition anchor_json :: "TableAnchor option \<Rightarrow> json" where
  "anchor_json x = (case x of
     None \<Rightarrow> JNull
   | Some a \<Rightarrow> JObj ((case ta_sheet a of None \<Rightarrow> [] | Some s \<Rightarrow> [(''sheet'', JStr s)])
       @ [(''strategy'', JStr ''marker''),
          (''marker'', JObj [(''loop_tokens'', JArr (map JStr (ma_loop_tokens (ta_marker a)))), (''row'', JInt (ma_row (ta_marker a))),
             (''columns'', JObj (map (\<lambda>(k, n). (k, JInt n)) (ma_columns (ta_marker a))))])]))"

section \<open>The stored document\<close>

text \<open>
  The tree that \<open>_build_hierarchical_fields\<close> builds: a node carries its own entries; the children of an
  object or a table are kept beside them until the tree is finished.
\<close>

datatype node = NScalar jobject | NObject jobject "(string \<times> node) list" | NTable jobject "(string \<times> node) list"

type_synonym tree = "(string, node) dict"

definition object_node :: "string \<Rightarrow> jobject \<Rightarrow> jobject" where
  "object_node part meta =
     [(''key'', JStr part), (''kind'', JStr ''object''),
      (''label'', (let l = dget_or JNull meta ''label'' in if truthy l then l else JStr (capitalize part))),
      (''description'', dget_or JNull meta ''description''), (''required'', JBool (truthy (dget_or (JBool False) meta ''required''))),
      (''source'', dget_or (JStr (source_value SrcParser)) meta ''source''), (''locked'', JBool (truthy (dget_or (JBool False) meta ''locked'')))]"

text \<open>
  Insertion of a leaf at the end of a path. A node on the way that is no object is replaced by one, and so is
  whatever stands at the end of the path. \<open>meta\<close> gives the entries recorded for a path.
\<close>

definition open_object :: "jobject \<Rightarrow> string \<Rightarrow> tree \<Rightarrow> jobject \<times> tree" where
  "open_object fresh part t = (case map_of t part of Some (NObject j ch) \<Rightarrow> (j, ch) | _ \<Rightarrow> (fresh, []))"

fun insert_leaf :: "(string \<Rightarrow> jobject) \<Rightarrow> string list \<Rightarrow> string list \<Rightarrow> (string \<Rightarrow> node) \<Rightarrow> tree \<Rightarrow> tree" where
  "insert_leaf meta parents [] leaf t = t"
| "insert_leaf meta parents [part] leaf t = AList.update part (leaf part) t"
| "insert_leaf meta parents (part # q # ps) leaf t =
     (let node = open_object (object_node part (meta (join ''.'' (parents @ [part])))) part t in
      AList.update part (NObject (fst node) (insert_leaf meta (parents @ [part]) (q # ps) leaf (snd node))) t)"

definition node_meta_at :: "(string, jobject) dict \<Rightarrow> string \<Rightarrow> jobject" where
  "node_meta_at meta path = (case map_of meta path of None \<Rightarrow> [] | Some d \<Rightarrow> d)"

definition scalar_entries :: "ScalarField \<Rightarrow> string \<Rightarrow> jobject" where
  "scalar_entries f part =
     [(''key'', JStr part), (''kind'', JStr ''scalar''), (''label'', JStr (sf_label f)), (''description'', str_json (sf_description f)),
      (''type'', JStr (type_value (sf_type f))), (''required'', JBool (sf_required f)), (''example'', str_json (sf_example f)),
      (''enum'', enum_json (sf_enum f)), (''format'', str_json (sf_format f)), (''locator'', locator_json (sf_locator f)),
      (''source'', JStr (source_value (sf_source f))), (''locked'', JBool (sf_locked f))]"

definition column_entries :: "TableColumn \<Rightarrow> string \<Rightarrow> jobject" where
  "column_entries c part =
     [(''key'', JStr part), (''kind'', JStr ''scalar''), (''label'', JStr (cl_label c)), (''description'', str_json (cl_description c)),
      (''type'', JStr (type_value (cl_type c))), (''required'', JBool (cl_required c)), (''example'', str_json (cl_example c)),
      (''enum'', enum_json (cl_enum c)), (''locator'', locator_json (cl_locator c)),
      (''source'', JStr (source_value (cl_source c))), (''locked'', JBool (cl_locked c))]"

definition table_entries :: "TableField \<Rightarrow> string \<Rightarrow> jobject" where
  "table_entries t part =
     [(''key'', JStr part), (''kind'', JStr ''table''), (''label'', JStr (tf_label t)), (''description'', str_json (tf_description t)),
      (''required'', JBool (tf_required t)), (''min_rows'', JInt (tf_min_rows t)),
      (''max_rows'', (case tf_max_rows t of None \<Rightarrow> JNull | Some n \<Rightarrow> JInt n)),
      (''orientation'', JStr (orientation_value (tf_orientation t))), (''anchor'', anchor_json (tf_anchor t)),
      (''source'', JStr (source_value (tf_source t))), (''locked'', JBool (tf_locked t))]"

definition insert_scalar_field :: "(string, jobject) dict \<Rightarrow> ScalarField \<Rightarrow> tree \<Rightarrow> tree" where
  "insert_scalar_field meta f = insert_leaf (node_meta_at meta) [] (segments (sf_key f)) (\<lambda>part. NScalar (scalar_entries f part))"

definition insert_table_column :: "(string, jobject) dict \<Rightarrow> string \<Rightarrow> TableColumn \<Rightarrow> tree \<Rightarrow> tree" where
  "insert_table_column meta table c =
     insert_leaf (\<lambda>path. node_meta_at meta (table @ ''.'' @ path)) [] (segments (cl_key c)) (\<lambda>part. NScalar (column_entries c part))"

definition column_tree :: "(string, jobject) dict \<Rightarrow> TableField \<Rightarrow> tree" where
  "column_tree meta t = fold (insert_table_column meta (tf_key t)) (tf_columns t) []"

definition insert_table_field :: "(string, jobject) dict \<Rightarrow> TableField \<Rightarrow> tree \<Rightarrow> tree" where
  "insert_table_field meta t =
     insert_leaf (node_meta_at meta) [] (segments (tf_key t)) (\<lambda>part. NTable (table_entries t part) (column_tree meta t))"

fun insert_field :: "(string, jobject) dict \<Rightarrow> AnyField \<Rightarrow> tree \<Rightarrow> tree" where
  "insert_field meta (Scalar f) = insert_scalar_field meta f"
| "insert_field meta (Table t) = insert_table_field meta t"

fun finalize_node :: "node \<Rightarrow> json" where
  "finalize_node (NScalar j) = JObj j"
| "finalize_node (NObject j ch) = JObj (j @ [(''fields'', JArr (map (\<lambda>(k, n). finalize_node n) ch))])"
| "finalize_node (NTable j ch) = JObj (j @ [(''fields'', JArr (map (\<lambda>(k, n). finalize_node n) ch))])"

definition finalize_hierarchical_nodes :: "tree \<Rightarrow> json list" where
  "finalize_hierarchical_nodes t = map (\<lambda>(k, n). finalize_node n) t"

definition build_hierarchical_fields :: "TemplateContract \<Rightarrow> json list" where
  "build_hierarchical_fields c = finalize_hierarchical_nodes (fold (insert_field (ct_meta c)) (ct_fields c) [])"

definition to_jsonb :: "TemplateContract \<Rightarrow> jobject" where
  "to_jsonb c =
     [(''contract_version'', JStr (ct_version c)),
      (''format'', (case ct_format c of None \<Rightarrow> JNull | Some f \<Rightarrow> JStr (format_value f))),
      (''fields'', JArr (build_hierarchical_fields c))]"

section \<open>Flattening a stored document\<close>

definition extract_node_meta :: "jobject \<Rightarrow> jobject" where
  "extract_node_meta d = (''kind'', JStr ''object'')
     # List.map_filter (\<lambda>n. map_option (\<lambda>j. (n, j)) (map_of d n)) [''label'', ''description'', ''required'', ''source'', ''locked'']"

definition node_key :: "(json \<Rightarrow> string) \<Rightarrow> jobject \<Rightarrow> string" where
  "node_key render d = strip (text_of render d ''key'')"

definition node_kind :: "(json \<Rightarrow> string) \<Rightarrow> jobject \<Rightarrow> string" where
  "node_kind render d = (let k = dget_or JNull d ''kind'' in lower (strip (if truthy k then py_str render k else ''scalar'')))"

definition label_or :: "string \<Rightarrow> jobject \<Rightarrow> json" where
  "label_or key d = (let l = dget_or JNull d ''label'' in if truthy l then l else JStr (capitalize key))"

text \<open>What iterating over \<open>field.get("fields") or []\<close> yields; \<open>None\<close> when that is a \<open>TypeError\<close>.\<close>

definition child_fields :: "jobject \<Rightarrow> json list option" where
  "child_fields d =
     (let j = dget_or JNull d ''fields'' in
      if \<not> truthy j then Some []
      else case j of JArr xs \<Rightarrow> Some xs | JObj _ \<Rightarrow> Some [] | JStr _ \<Rightarrow> Some [] | _ \<Rightarrow> None)"

definition flat_column :: "string \<Rightarrow> string \<Rightarrow> jobject \<Rightarrow> jobject" where
  "flat_column path key d =
     [(''key'', JStr path), (''label'', label_or key d), (''description'', dget_or JNull d ''description''),
      (''type'', dget_or (JStr ''string'') d ''type''), (''required'', JBool (truthy (dget_or (JBool False) d ''required''))),
      (''example'', dget_or JNull d ''example''), (''enum'', dget_or JNull d ''enum''), (''locator'', dget_or JNull d ''locator''),
      (''source'', dget_or (JStr ''parser'') d ''source''), (''locked'', JBool (truthy (dget_or (JBool False) d ''locked'')))]"

definition flat_scalar :: "string \<Rightarrow> string \<Rightarrow> jobject \<Rightarrow> jobject" where
  "flat_scalar path key d =
     [(''key'', JStr path), (''kind'', JStr ''scalar''), (''label'', label_or key d), (''description'', dget_or JNull d ''description''),
      (''type'', dget_or (JStr ''string'') d ''type''), (''required'', JBool (truthy (dget_or (JBool False) d ''required''))),
      (''example'', dget_or JNull d ''example''), (''enum'', dget_or JNull d ''enum''), (''format'', dget_or JNull d ''format''),
      (''locator'', dget_or JNull d ''locator''), (''source'', dget_or (JStr ''parser'') d ''source''),
      (''locked'', JBool (truthy (dget_or (JBool False) d ''locked'')))]"

definition flat_table :: "string \<Rightarrow> string \<Rightarrow> jobject list \<Rightarrow> jobject \<Rightarrow> jobject" where
  "flat_table path key columns d =
     [(''key'', JStr path), (''kind'', JStr ''table''), (''label'', label_or key d), (''description'', dget_or JNull d ''description''),
      (''orientation'', dget_or (JStr ''vertical'') d ''orientation''), (''required'', JBool (truthy (dget_or (JBool False) d ''required''))),
      (''min_rows'', dget_or (JInt 0) d ''min_rows''), (''max_rows'', dget_or JNull d ''max_rows''), (''anchor'', dget_or JNull d ''anchor''),
      (''columns'', JArr (map JObj columns)), (''source'', dget_or (JStr ''parser'') d ''source''),
      (''locked'', JBool (truthy (dget_or (JBool False) d ''locked'')))]"

type_synonym metas = "(string, jobject) dict"

lemma child_fields_size: "child_fields d = Some xs \<Longrightarrow> size_list size xs < size (JObj d)"
proof -
  have "map_of d k = Some v \<Longrightarrow> size v < size (JObj d)" for k v
    by (induction d) (auto split: if_splits prod.splits)
  then show "child_fields d = Some xs \<Longrightarrow> size_list size xs < size (JObj d)"
    by (auto simp: child_fields_def Let_def dget_or_def split: if_splits option.splits json.splits) fastforce
qed

function flatten_table_row_fields ::
    "(json \<Rightarrow> string) \<Rightarrow> string \<Rightarrow> json list \<Rightarrow> string \<Rightarrow> jobject list \<times> metas \<Rightarrow> (jobject list \<times> metas) option" where
  "flatten_table_row_fields render table [] parent acc = Some acc"
| "flatten_table_row_fields render table (j # js) parent acc =
     (case j of
        JObj d \<Rightarrow>
          (let key = node_key render d; path = sub_path parent key in
           if key = [] then flatten_table_row_fields render table js parent acc
           else if node_kind render d = ''object''
           then (case child_fields d of
                   None \<Rightarrow> None
                 | Some cs \<Rightarrow>
                     (case flatten_table_row_fields render table cs path
                             (fst acc, AList.update (table @ ''.'' @ path) (extract_node_meta d) (snd acc)) of
                        None \<Rightarrow> None
                      | Some acc1 \<Rightarrow> flatten_table_row_fields render table js parent acc1))
           else flatten_table_row_fields render table js parent (fst acc @ [flat_column path key d], snd acc))
      | _ \<Rightarrow> flatten_table_row_fields render table js parent acc)"
  by pat_completeness auto

termination
  by (relation "measure (\<lambda>(render, table, js, parent, acc). size_list size js)") (auto dest: child_fields_size)

function flatten_hierarchical_fields ::
    "(json \<Rightarrow> string) \<Rightarrow> json list \<Rightarrow> string \<Rightarrow> jobject list \<times> metas \<Rightarrow> (jobject list \<times> metas) option" where
  "flatten_hierarchical_fields render [] parent acc = Some acc"
| "flatten_hierarchical_fields render (j # js) parent acc =
     (case j of
        JObj d \<Rightarrow>
          (let key = node_key render d; path = sub_path parent key in
           if key = [] then flatten_hierarchical_fields render js parent acc
           else if node_kind render d = ''object''
           then (case child_fields d of
                   None \<Rightarrow> None
                 | Some cs \<Rightarrow>
                     (case flatten_hierarchical_fields render cs path (fst acc, AList.update path (extract_node_meta d) (snd acc)) of
                        None \<Rightarrow> None
                      | Some acc1 \<Rightarrow> flatten_hierarchical_fields render js parent acc1))
           else if node_kind render d = ''table''
           then (case child_fields d of
                   None \<Rightarrow> None
                 | Some cs \<Rightarrow>
                     (case flatten_table_row_fields render path cs [] ([], snd acc) of
                        None \<Rightarrow> None
                      | Some (columns, meta) \<Rightarrow>
                          flatten_hierarchical_fields render js parent (fst acc @ [flat_table path key columns d], meta)))
           else flatten_hierarchical_fields render js parent (fst acc @ [flat_scalar path key d], snd acc))
      | _ \<Rightarrow> flatten_hierarchical_fields render js parent acc)"
  by pat_completeness auto

termination
  by (relation "measure (\<lambda>(render, js, parent, acc). size_list size js)") (auto dest: child_fields_size)

text \<open>\<open>_normalize_incoming_contract\<close>: only documents with an object, or a table with fields, are flattened.\<close>

definition hierarchical :: "json \<Rightarrow> bool" where
  "hierarchical j = (case j of
     JObj d \<Rightarrow> py_eq (dget_or JNull d ''kind'') (JStr ''object'')
       \<or> py_eq (dget_or JNull d ''kind'') (JStr ''table'') \<and> (case map_of d ''fields'' of Some (JArr _) \<Rightarrow> True | _ \<Rightarrow> False)
   | _ \<Rightarrow> False)"

definition normalize_incoming_contract :: "(json \<Rightarrow> string) \<Rightarrow> jobject \<Rightarrow> jobject option" where
  "normalize_incoming_contract render d =
     (case map_of d ''fields'' of
        Some (JArr fs) \<Rightarrow>
          if list_ex hierarchical fs
          then (case flatten_hierarchical_fields render fs [] ([], []) of
                  None \<Rightarrow> None
                | Some (flat, meta) \<Rightarrow>
                    Some (AList.update ''node_meta'' (JObj (map (\<lambda>(k, m). (k, JObj m)) meta))
                      (AList.update ''fields'' (JArr (map JObj flat)) d)))
          else Some d
      | _ \<Rightarrow> Some d)"

section \<open>Reading a document\<close>

record pydantic =
  pd_str :: "json \<Rightarrow> string option"
  pd_bool :: "json \<Rightarrow> bool option"
  pd_int :: "json \<Rightarrow> int option"

text \<open>A field with a default, an optional field and a required one.\<close>

definition with_default :: "'a \<Rightarrow> (json \<Rightarrow> 'a option) \<Rightarrow> jobject \<Rightarrow> string \<Rightarrow> 'a option" where
  "with_default x p d k = (case map_of d k of None \<Rightarrow> Some x | Some j \<Rightarrow> p j)"

definition nullable :: "(json \<Rightarrow> 'a option) \<Rightarrow> json \<Rightarrow> 'a option option" where
  "nullable p j = (if j = JNull then Some None else map_option Some (p j))"

definition optional_at :: "(json \<Rightarrow> 'a option) \<Rightarrow> jobject \<Rightarrow> string \<Rightarrow> 'a option option" where
  "optional_at p = with_default None (nullable p)"

definition required_at :: "(json \<Rightarrow> 'a option) \<Rightarrow> jobject \<Rightarrow> string \<Rightarrow> 'a option" where
  "required_at p d k = (case map_of d k of None \<Rightarrow> None | Some j \<Rightarrow> p j)"

definition such_that :: "('a \<Rightarrow> bool) \<Rightarrow> 'a option \<Rightarrow> 'a option" where
  "such_that P x = (case x of Some y \<Rightarrow> if P y then Some y else None | None \<Rightarrow> None)"

fun all_some :: "'a option list \<Rightarrow> 'a list option" where
  "all_some [] = Some []"
| "all_some (x # xs) = (case x of None \<Rightarrow> None | Some y \<Rightarrow> map_option ((#) y) (all_some xs))"

definition parse_list :: "(json \<Rightarrow> 'a option) \<Rightarrow> json \<Rightarrow> 'a list option" where
  "parse_list p j = (case j of JArr xs \<Rightarrow> all_some (map p xs) | _ \<Rightarrow> None)"

definition parse_object :: "(jobject \<Rightarrow> 'a option) \<Rightarrow> json \<Rightarrow> 'a option" where
  "parse_object p j = (case j of JObj d \<Rightarrow> p d | _ \<Rightarrow> None)"

text \<open>The member of an enumeration with a value.\<close>

definition parse_enum :: "('a \<Rightarrow> string) \<Rightarrow> 'a list \<Rightarrow> json \<Rightarrow> 'a option" where
  "parse_enum val members j = (case j of JStr s \<Rightarrow> find (\<lambda>x. val x = s) members | _ \<Rightarrow> None)"

definition parse_type :: "json \<Rightarrow> FieldType option" where
  "parse_type = parse_enum type_value [TyString, TyNumber, TyDate, TyBool, TyEnum]"

definition parse_source :: "json \<Rightarrow> FieldSource option" where
  "parse_source = parse_enum source_value [SrcLlm, SrcAdmin, SrcParser]"

definition parse_locator :: "pydantic \<Rightarrow> json \<Rightarrow> string option" where
  "parse_locator pd = parse_object (\<lambda>d. map_option strip (required_at (pd_str pd) d ''token''))"

definition parse_marker :: "pydantic \<Rightarrow> jobject \<Rightarrow> MarkerAnchor option" where
  "parse_marker pd d = do {
     tokens \<leftarrow> such_that (\<lambda>xs. xs \<noteq> []) (required_at (parse_list (pd_str pd)) d ''loop_tokens'');
     row \<leftarrow> such_that (\<lambda>n. n \<ge> 1) (required_at (pd_int pd) d ''row'');
     columns \<leftarrow> with_default [] (parse_object (\<lambda>e. all_some (map (\<lambda>(k, j). map_option (Pair k) (pd_int pd j)) e))) d ''columns'';
     Some \<lparr>ma_loop_tokens = tokens, ma_row = row, ma_columns = columns\<rparr> }"

definition parse_anchor :: "pydantic \<Rightarrow> jobject \<Rightarrow> TableAnchor option" where
  "parse_anchor pd d = do {
     sheet \<leftarrow> optional_at (pd_str pd) d ''sheet'';
     strategy \<leftarrow> with_default () (parse_enum (\<lambda>_. ''marker'') [()]) d ''strategy'';
     marker \<leftarrow> required_at (parse_object (parse_marker pd)) d ''marker'';
     Some \<lparr>ta_sheet = sheet, ta_marker = marker\<rparr> }"

text \<open>The values of an enumerated field need the type \<open>enum\<close>.\<close>

definition enum_ok :: "string list option \<Rightarrow> FieldType \<Rightarrow> bool" where
  "enum_ok e ty \<longleftrightarrow> (case e of None \<Rightarrow> True | Some xs \<Rightarrow> xs = [] \<or> ty = TyEnum)"

definition parse_column :: "pydantic \<Rightarrow> jobject \<Rightarrow> TableColumn option" where
  "parse_column pd d = do {
     key \<leftarrow> such_that (\<lambda>s. s \<noteq> []) (required_at (pd_str pd) d ''key'');
     label \<leftarrow> such_that (\<lambda>s. s \<noteq> []) (required_at (pd_str pd) d ''label'');
     description \<leftarrow> optional_at (pd_str pd) d ''description'';
     ty \<leftarrow> with_default TyString parse_type d ''type'';
     required \<leftarrow> with_default False (pd_bool pd) d ''required'';
     example \<leftarrow> optional_at (pd_str pd) d ''example'';
     enum \<leftarrow> such_that (\<lambda>e. enum_ok e ty) (optional_at (parse_list (pd_str pd)) d ''enum'');
     locator \<leftarrow> optional_at (parse_locator pd) d ''locator'';
     source \<leftarrow> with_default SrcLlm parse_source d ''source'';
     locked \<leftarrow> with_default False (pd_bool pd) d ''locked'';
     Some \<lparr>cl_key = key, cl_label = label, cl_description = description, cl_type = ty, cl_required = required, cl_example = example,
       cl_enum = enum, cl_locator = locator, cl_source = source, cl_locked = locked\<rparr> }"

definition parse_scalar :: "pydantic \<Rightarrow> jobject \<Rightarrow> ScalarField option" where
  "parse_scalar pd d = do {
     key \<leftarrow> such_that (\<lambda>s. s \<noteq> []) (required_at (pd_str pd) d ''key'');
     label \<leftarrow> such_that (\<lambda>s. s \<noteq> []) (required_at (pd_str pd) d ''label'');
     description \<leftarrow> optional_at (pd_str pd) d ''description'';
     ty \<leftarrow> with_default TyString parse_type d ''type'';
     required \<leftarrow> with_default False (pd_bool pd) d ''required'';
     example \<leftarrow> optional_at (pd_str pd) d ''example'';
     enum \<leftarrow> such_that (\<lambda>e. enum_ok e ty) (optional_at (parse_list (pd_str pd)) d ''enum'');
     format \<leftarrow> optional_at (pd_str pd) d ''format'';
     locator \<leftarrow> optional_at (parse_locator pd) d ''locator'';
     source \<leftarrow> with_default SrcLlm parse_source d ''source'';
     locked \<leftarrow> with_default False (pd_bool pd) d ''locked'';
     Some \<lparr>sf_key = key, sf_label = label, sf_description = description, sf_type = ty, sf_required = required, sf_example = example,
       sf_enum = enum, sf_format = format, sf_locator = locator, sf_source = source, sf_locked = locked\<rparr> }"

text \<open>The default of the columns, an empty list, is not checked against their least number.\<close>

definition parse_table :: "pydantic \<Rightarrow> jobject \<Rightarrow> TableField option" where
  "parse_table pd d = do {
     key \<leftarrow> such_that (\<lambda>s. s \<noteq> []) (required_at (pd_str pd) d ''key'');
     label \<leftarrow> such_that (\<lambda>s. s \<noteq> []) (required_at (pd_str pd) d ''label'');
     description \<leftarrow> optional_at (pd_str pd) d ''description'';
     orientation \<leftarrow> with_default Vertical (parse_enum orientation_value [Vertical, Horizontal]) d ''orientation'';
     required \<leftarrow> with_default False (pd_bool pd) d ''required'';
     min_rows \<leftarrow> with_default 1 (\<lambda>j. such_that (\<lambda>n. n \<ge> 0) (pd_int pd j)) d ''min_rows'';
     max_rows \<leftarrow> such_that (\<lambda>x. case x of None \<Rightarrow> True | Some n \<Rightarrow> n \<ge> min_rows)
       (optional_at (\<lambda>j. such_that (\<lambda>n. n \<ge> 1) (pd_int pd j)) d ''max_rows'');
     anchor \<leftarrow> optional_at (parse_object (parse_anchor pd)) d ''anchor'';
     columns \<leftarrow> with_default [] (\<lambda>j. such_that (\<lambda>xs. xs \<noteq> []) (parse_list (parse_object (parse_column pd)) j)) d ''columns'';
     source \<leftarrow> with_default SrcLlm parse_source d ''source'';
     locked \<leftarrow> with_default False (pd_bool pd) d ''locked'';
     Some \<lparr>tf_key = key, tf_label = label, tf_description = description, tf_orientation = orientation, tf_required = required,
       tf_min_rows = min_rows, tf_max_rows = max_rows, tf_anchor = anchor, tf_columns = columns, tf_source = source, tf_locked = locked\<rparr> }"

text \<open>The kind of a field decides how it is read.\<close>

definition parse_field :: "pydantic \<Rightarrow> jobject \<Rightarrow> AnyField option" where
  "parse_field pd d =
     (if map_of d ''kind'' = Some (JStr ''scalar'') then map_option Scalar (parse_scalar pd d)
      else if map_of d ''kind'' = Some (JStr ''table'') then map_option Table (parse_table pd d)
      else None)"

definition parse_meta :: "pydantic \<Rightarrow> json \<Rightarrow> metas option" where
  "parse_meta pd = parse_object (\<lambda>e. all_some (map (\<lambda>(k, j). map_option (Pair k) (parse_object Some j)) e))"

definition parse_contract :: "pydantic \<Rightarrow> jobject \<Rightarrow> TemplateContract option" where
  "parse_contract pd d = do {
     version \<leftarrow> with_default TEMPLATE_CONTRACT_VERSION (pd_str pd) d ''contract_version'';
     format \<leftarrow> optional_at (parse_enum format_value [Excel]) d ''format'';
     fs \<leftarrow> with_default [] (parse_list (parse_object (parse_field pd))) d ''fields'';
     meta \<leftarrow> with_default [] (parse_meta pd) d ''node_meta'';
     Some \<lparr>ct_version = version, ct_format = format, ct_fields = fs, ct_meta = meta\<rparr> }"

definition model_validate :: "(json \<Rightarrow> string) \<Rightarrow> pydantic \<Rightarrow> jobject \<Rightarrow> TemplateContract option" where
  "model_validate render pd d = Option.bind (normalize_incoming_contract render d) (parse_contract pd)"

text \<open>\<open>from_jsonb\<close>: an empty document and one that cannot be read give the empty contract.\<close>

definition from_jsonb :: "(json \<Rightarrow> string) \<Rightarrow> pydantic \<Rightarrow> jobject \<Rightarrow> TemplateContract" where
  "from_jsonb render pd d =
     (if d = [] then empty_contract
      else case model_validate render pd d of Some c \<Rightarrow> c | None \<Rightarrow> empty_contract)"

section \<open>Merging an analysis\<close>

definition is_protected :: "AnyField \<Rightarrow> bool" where
  "is_protected f \<longleftrightarrow> field_locked f \<or> field_source f = SrcAdmin"

text \<open>The proposed field under a key is the last one that has it.\<close>

definition proposed_by_key :: "AnyField list \<Rightarrow> string \<Rightarrow> AnyField option" where
  "proposed_by_key fs k = find (\<lambda>f. field_key f = k) (rev fs)"

fun merge_existing :: "AnyField list \<Rightarrow> AnyField list \<Rightarrow> AnyField list" where
  "merge_existing proposed [] = []"
| "merge_existing proposed (f # fs) =
     (if is_protected f then f # merge_existing proposed fs
      else case proposed_by_key proposed (field_key f) of
             Some p \<Rightarrow> p # merge_existing proposed fs
           | None \<Rightarrow> merge_existing proposed fs)"

fun append_new :: "string set \<Rightarrow> AnyField list \<Rightarrow> AnyField list" where
  "append_new consumed [] = []"
| "append_new consumed (p # ps) =
     (if field_key p \<in> consumed then append_new consumed ps else p # append_new (insert (field_key p) consumed) ps)"

definition merge_contract :: "TemplateContract \<Rightarrow> TemplateContract \<Rightarrow> TemplateContract" where
  "merge_contract existing proposed =
     (let kept = merge_existing (ct_fields proposed) (ct_fields existing) in
      \<lparr>ct_version = TEMPLATE_CONTRACT_VERSION,
       ct_format = (case ct_format proposed of None \<Rightarrow> ct_format existing | Some f \<Rightarrow> Some f),
       ct_fields = kept @ append_new (set (map field_key kept)) (ct_fields proposed),
       ct_meta = fold (\<lambda>(k, v) m. AList.update k v m) (ct_meta proposed) (ct_meta existing)\<rparr>)"

end
