(* ===== verification/Template_Tree.thy ===== *)
theory Template_Tree
  imports Template_Contract "HOL-Library.Sublist" "HOL-Library.Multiset"
begin

text \<open>
  The tree between the flat fields of a contract and its stored document. Inserting fields at parallel paths
  (none a prefix of another) loses none of them; flattening the finished tree lists its leaves.
\<close>

section \<open>Paths\<close>

lemma split_on_nonempty [simp]: "split_on c s \<noteq> []"
  by (induction s) (auto split: list.split)

lemma segments_nonempty [simp]: "segments key \<noteq> []"
  by (simp add: segments_def)

lemma join_Cons: "join sep (x # xs) = (if xs = [] then x else x @ sep @ join sep xs)"
  by (cases xs) simp_all

lemma join_split_on: "join [c] (split_on c s) = s"
proof (induction s)
  case (Cons x s)
  then show ?case by (cases "split_on c s") (auto simp: join_Cons split: if_splits)
qed simp

lemma join_segments [simp]: "join ''.'' (segments key) = key"
  by (simp add: segments_def join_split_on)

definition good_segment :: "string \<Rightarrow> bool" where
  "good_segment s \<longleftrightarrow> s \<noteq> [] \<and> strip s = s"

lemma join_nonempty: "ps \<noteq> [] \<Longrightarrow> list_all good_segment ps \<Longrightarrow> join sep ps \<noteq> []"
  by (cases ps) (auto simp: join_Cons good_segment_def)

lemma join_snoc: "ps \<noteq> [] \<Longrightarrow> join sep (ps @ [k]) = join sep ps @ sep @ k"
  by (induction ps) (auto simp: join_Cons)

lemma sub_path_join: "list_all good_segment ps \<Longrightarrow> sub_path (join ''.'' ps) k = join ''.'' (ps @ [k])"
  using join_nonempty [of ps "''.''"] by (cases "ps = []") (auto simp: sub_path_def join_snoc)

section \<open>Leaves\<close>

fun node_leaves :: "node \<Rightarrow> (string list \<times> node) list" where
  "node_leaves (NScalar j) = [([], NScalar j)]"
| "node_leaves (NTable j ch) = [([], NTable j ch)]"
| "node_leaves (NObject j ch) = concat (map (\<lambda>(k, n). map (\<lambda>(p, l). (k # p, l)) (node_leaves n)) ch)"

definition below :: "string \<Rightarrow> node \<Rightarrow> (string list \<times> node) list" where
  "below k n = map (\<lambda>(p, l). (k # p, l)) (node_leaves n)"

definition leaves :: "tree \<Rightarrow> (string list \<times> node) list" where
  "leaves t = concat (map (\<lambda>(k, n). below k n) t)"

lemma leaves_simps [simp]: "leaves [] = []" "leaves ((k, n) # t) = below k n @ leaves t" "node_leaves (NObject j ch) = leaves ch"
  by (simp_all add: leaves_def below_def)

declare node_leaves.simps(3) [simp del]

lemma leaves_update:
  assumes "distinct (dkeys t)"
  shows "mset (leaves (AList.update k n t)) + (case map_of t k of None \<Rightarrow> {#} | Some m \<Rightarrow> mset (below k m))
    = mset (leaves t) + mset (below k n)"
  using assms
proof (induction t)
  case (Cons x t)
  obtain a m where x: "x = (a, m)" by (cases x)
  show ?case
  proof (cases "a = k")
    case True
    then have "map_of t k = None" using Cons.prems x by (simp add: map_of_eq_None_iff)
    then show ?thesis using True x by simp
  next
    case False
    then show ?thesis using Cons x by (simp add: ac_simps)
  qed
qed simp

lemma leaves_of_entry: "map_of t k = Some n \<Longrightarrow> (p, l) \<in> set (node_leaves n) \<Longrightarrow> (k # p, l) \<in> set (leaves t)"
  by (induction t) (auto simp: below_def split: if_splits)

text \<open>
  The keys of a tree are distinct and good segments at every level, and a predicate holds of every leaf and its
  key. Objects carry the entries of \<open>object_node\<close>.
\<close>

fun node_fits :: "(string \<Rightarrow> node \<Rightarrow> bool) \<Rightarrow> string \<Rightarrow> node \<Rightarrow> bool" where
  "node_fits P k (NObject j ch) \<longleftrightarrow> (\<exists>m. j = object_node k m) \<and> distinct (dkeys ch)
     \<and> (\<forall>x \<in> set ch. good_segment (fst x) \<and> node_fits P (fst x) (snd x))"
| "node_fits P k n \<longleftrightarrow> P k n"

definition tree_fits :: "(string \<Rightarrow> node \<Rightarrow> bool) \<Rightarrow> tree \<Rightarrow> bool" where
  "tree_fits P t \<longleftrightarrow> distinct (dkeys t) \<and> (\<forall>x \<in> set t. good_segment (fst x) \<and> node_fits P (fst x) (snd x))"

lemma tree_fits_simps [simp]:
  "tree_fits P []"
  "tree_fits P ((k, n) # t) \<longleftrightarrow> k \<notin> fst ` set t \<and> good_segment k \<and> node_fits P k n \<and> tree_fits P t"
  "node_fits P k (NObject j ch) \<longleftrightarrow> (\<exists>m. j = object_node k m) \<and> tree_fits P ch"
  by (auto simp: tree_fits_def)

declare node_fits.simps(1) [simp del]

lemma tree_fits_update:
  assumes "tree_fits P t" "good_segment k" "node_fits P k n"
  shows "tree_fits P (AList.update k n t)"
proof -
  have "x \<in> set (AList.update k n t) \<Longrightarrow> x = (k, n) \<or> x \<in> set t" for x by (induction t) (auto split: if_splits)
  then show ?thesis using assms distinct_update unfolding tree_fits_def by fastforce
qed

lemma tree_fits_entry: "tree_fits P t \<Longrightarrow> map_of t k = Some n \<Longrightarrow> node_fits P k n"
  unfolding tree_fits_def by (fastforce dest: map_of_SomeD)

definition is_leaf :: "node \<Rightarrow> bool" where
  "is_leaf n \<longleftrightarrow> (case n of NObject _ _ \<Rightarrow> False | _ \<Rightarrow> True)"

lemma leaf_fits: "is_leaf n \<Longrightarrow> P k n \<Longrightarrow> node_fits P k n" and leaf_leaves: "is_leaf n \<Longrightarrow> node_leaves n = [([], n)]"
  by (cases n; simp add: is_leaf_def)+

lemma open_object_fits:
  assumes "tree_fits P t"
  shows "tree_fits P (snd (open_object (object_node k m) k t))" "\<exists>m'. fst (open_object (object_node k m) k t) = object_node k m'"
  using tree_fits_entry [OF assms, of k] by (auto simp: open_object_def split: option.split node.split)

lemma insert_leaf_fits:
  assumes "tree_fits P t" "list_all good_segment ps" "ps \<noteq> []" "is_leaf (leaf (last ps))" "P (last ps) (leaf (last ps))"
  shows "tree_fits P (insert_leaf meta parents ps leaf t)"
  using assms
proof (induction meta parents ps leaf t rule: insert_leaf.induct)
  case (3 meta parents part q ps leaf t)
  note op = open_object_fits [OF "3.prems"(1), of part "meta (join ''.'' (parents @ [part]))"]
  show ?case using "3.IH" [OF refl op(1)] "3.prems" op(2) by (auto intro!: tree_fits_update simp: Let_def)
qed (auto intro!: tree_fits_update leaf_fits)

section \<open>Inserting loses nothing\<close>

definition free_at :: "string list \<Rightarrow> tree \<Rightarrow> bool" where
  "free_at ps t \<longleftrightarrow> (\<forall>x \<in> set (leaves t). fst x \<parallel> ps)"

text \<open>Whatever stands where a leaf or an object is put holds no other leaves.\<close>

lemma free_at_entry:
  assumes free: "free_at (part # ps) t" and e: "map_of t part = Some n" and l: "(p, l) \<in> set (node_leaves n)"
  shows "p \<parallel> ps"
  using free leaves_of_entry [OF e l] unfolding free_at_def by fastforce

lemma free_at_open:
  assumes "free_at (part # q # ps) t"
  shows "free_at (q # ps) (snd (open_object fresh part t))"
    and "(case map_of t part of None \<Rightarrow> {#} | Some m \<Rightarrow> mset (below part m)) = mset (below part (NObject j (snd (open_object fresh part t))))"
proof -
  have leaf: False if "map_of t part = Some n" "is_leaf n" for n
    using free_at_entry [OF assms that(1), of "[]" n] that(2) by (auto simp: leaf_leaves)
  show "free_at (q # ps) (snd (open_object fresh part t))"
    using free_at_entry [OF assms] unfolding free_at_def
    by (auto simp: open_object_def split: option.split node.split)
  show "(case map_of t part of None \<Rightarrow> {#} | Some m \<Rightarrow> mset (below part m)) = mset (below part (NObject j (snd (open_object fresh part t))))"
    using leaf by (auto simp: open_object_def below_def is_leaf_def split: option.split node.split)
qed

lemma insert_leaf_leaves:
  assumes "tree_fits P t" "free_at ps t" "ps \<noteq> []" "is_leaf (leaf (last ps))"
  shows "mset (leaves (insert_leaf meta parents ps leaf t)) = add_mset (ps, leaf (last ps)) (mset (leaves t))"
  using assms
proof (induction meta parents ps leaf t rule: insert_leaf.induct)
  case (2 meta parents part leaf t)
  have "node_leaves n = []" if "map_of t part = Some n" for n
    using free_at_entry [OF "2.prems"(2) that] by (cases "node_leaves n") auto
  then have "(case map_of t part of None \<Rightarrow> {#} | Some m \<Rightarrow> mset (below part m)) = {#}"
    by (auto simp: below_def split: option.split)
  then show ?case using leaves_update [of t part "leaf part"] "2.prems" by (simp add: tree_fits_def below_def leaf_leaves)
next
  case (3 meta parents part q ps leaf t)
  define node where "node = open_object (object_node part (meta (join ''.'' (parents @ [part])))) part t"
  note op = open_object_fits [OF "3.prems"(1), of part "meta (join ''.'' (parents @ [part]))", folded node_def]
  note free = free_at_open [OF "3.prems"(2), where fresh = "object_node part (meta (join ''.'' (parents @ [part])))", folded node_def]
  let ?new = "insert_leaf meta (parents @ [part]) (q # ps) leaf (snd node)"
  have "mset (leaves ?new) = add_mset (q # ps, leaf (last (q # ps))) (mset (leaves (snd node)))"
    using "3.IH" [OF node_def op(1) free(1)] "3.prems" by simp
  then have "mset (below part (NObject (fst node) ?new)) =
      add_mset (part # q # ps, leaf (last (q # ps))) (mset (below part (NObject (fst node) (snd node))))"
    by (simp add: below_def)
  then have "mset (leaves (AList.update part (NObject (fst node) ?new) t)) + mset (below part (NObject (fst node) (snd node))) =
      add_mset (part # q # ps, leaf (last (q # ps))) (mset (leaves t)) + mset (below part (NObject (fst node) (snd node)))"
    using leaves_update [of t part "NObject (fst node) ?new"] "3.prems"(1) free(2) [of "fst node"] by (simp add: tree_fits_def)
  then show ?case by (simp add: node_def Let_def)
qed simp

text \<open>Inserting items one after another, at pairwise parallel paths.\<close>

lemma fold_insert_leaves:
  assumes "pairwise parallel (set (map path xs))" "distinct (map path xs)"
    and "\<And>x. x \<in> set xs \<Longrightarrow> path x \<noteq> [] \<and> list_all good_segment (path x) \<and> is_leaf (leaf x (last (path x))) \<and> P (last (path x)) (leaf x (last (path x)))"
    and "tree_fits P t" "\<And>x. x \<in> set xs \<Longrightarrow> free_at (path x) t"
  shows "tree_fits P (fold (\<lambda>x. insert_leaf meta [] (path x) (leaf x)) xs t)
    \<and> mset (leaves (fold (\<lambda>x. insert_leaf meta [] (path x) (leaf x)) xs t)) =
      mset (leaves t) + mset (map (\<lambda>x. (path x, leaf x (last (path x)))) xs)"
  using assms
proof (induction xs arbitrary: t)
  case (Cons x xs)
  let ?t = "insert_leaf meta [] (path x) (leaf x) t"
  have x: "path x \<noteq> []" "list_all good_segment (path x)" "is_leaf (leaf x (last (path x)))" "P (last (path x)) (leaf x (last (path x)))"
    using Cons.prems(3) by auto
  have fits: "tree_fits P ?t" by (rule insert_leaf_fits [where leaf = "leaf x", OF Cons.prems(4) x(2,1,3,4)])
  have lv: "mset (leaves ?t) = add_mset (path x, leaf x (last (path x))) (mset (leaves t))"
    using insert_leaf_leaves [where leaf = "leaf x", OF Cons.prems(4) _ x(1,3)] Cons.prems(5) by simp
  have "free_at (path y) ?t" if "y \<in> set xs" for y
  proof -
    have "set (leaves ?t) = insert (path x, leaf x (last (path x))) (set (leaves t))"
      using lv by (metis set_mset_add_mset_insert set_mset_mset)
    moreover have "path x \<parallel> path y"
      using Cons.prems(1,2) that by (auto simp: pairwise_def)
    ultimately show ?thesis using Cons.prems(5) [of y] that by (auto simp: free_at_def)
  qed
  then show ?case using Cons.IH [of ?t] Cons.prems fits lv by (auto simp: pairwise_insert)
qed simp

section \<open>Flattening lists the leaves\<close>

definition tree_size :: "tree \<Rightarrow> nat" where
  "tree_size t = size_list (size_prod (\<lambda>_. 0) size) t"

lemma tree_size_Cons: "tree_size t < tree_size (x # t)" "tree_size ch < tree_size ((k, NObject j ch) # t)"
  by (simp_all add: tree_size_def)

lemma child_fields_append:
  "map_of j ''fields'' = None \<Longrightarrow> child_fields (j @ [(''fields'', JArr xs)]) = Some xs"
  by (simp add: child_fields_def dget_or_def Let_def map_add_def)

lemma map_of_other: "k \<noteq> ''fields'' \<Longrightarrow> map_of (j @ [(''fields'', x)]) k = map_of j k"
  by (simp add: map_add_def split: option.split)

lemma dget_or_other: "k \<noteq> ''fields'' \<Longrightarrow> dget_or v (j @ [(''fields'', x)]) k = dget_or v j k"
  unfolding dget_or_def by (subst map_of_other) simp_all

text \<open>The key and the kind of a finished node.\<close>

lemma node_key_JStr: "map_of d ''key'' = Some (JStr k) \<Longrightarrow> good_segment k \<Longrightarrow> node_key render d = k"
  by (simp add: node_key_def text_of_def dget_or_def py_str_def good_segment_def)

lemma lower_kinds: "lower (strip ''object'') = ''object''" "lower (strip ''table'') = ''table''" "lower (strip ''scalar'') = ''scalar''"
  by code_simp+

lemma node_kind_JStr: "map_of d ''kind'' = Some (JStr k) \<Longrightarrow> k \<noteq> [] \<Longrightarrow> node_kind render d = lower (strip k)"
  by (simp add: node_kind_def dget_or_def py_str_def Let_def)

lemma object_node_shape:
  assumes "good_segment k"
  shows "node_key render (object_node k m @ [(''fields'', JArr xs)]) = k" "node_kind render (object_node k m @ [(''fields'', JArr xs)]) = ''object''"
    "child_fields (object_node k m @ [(''fields'', JArr xs)]) = Some xs"
proof -
  show "node_key render (object_node k m @ [(''fields'', JArr xs)]) = k"
    by (rule node_key_JStr [OF _ assms]) (simp add: object_node_def map_of_other)
  have "node_kind render (object_node k m @ [(''fields'', JArr xs)]) = lower (strip ''object'')"
    by (rule node_kind_JStr) (simp_all add: object_node_def map_of_other)
  then show "node_kind render (object_node k m @ [(''fields'', JArr xs)]) = ''object''" by (simp only: lower_kinds)
  show "child_fields (object_node k m @ [(''fields'', JArr xs)]) = Some xs"
    by (rule child_fields_append) (simp add: object_node_def)
qed

lemma scalar_shape:
  assumes "good_segment k"
  shows "node_key render (scalar_entries f k) = k" "node_kind render (scalar_entries f k) = ''scalar''"
    "node_key render (column_entries c k) = k" "node_kind render (column_entries c k) = ''scalar''"
proof -
  show "node_key render (scalar_entries f k) = k" "node_key render (column_entries c k) = k"
    by (rule node_key_JStr [OF _ assms], simp add: scalar_entries_def column_entries_def)+
  have "node_kind render (scalar_entries f k) = lower (strip ''scalar'')" "node_kind render (column_entries c k) = lower (strip ''scalar'')"
    by (rule node_kind_JStr, simp_all add: scalar_entries_def column_entries_def)+
  then show "node_kind render (scalar_entries f k) = ''scalar''" "node_kind render (column_entries c k) = ''scalar''"
    by (simp_all only: lower_kinds)
qed

lemma table_shape:
  assumes "good_segment k"
  shows "node_key render (table_entries f k @ [(''fields'', JArr xs)]) = k" "node_kind render (table_entries f k @ [(''fields'', JArr xs)]) = ''table''"
    "child_fields (table_entries f k @ [(''fields'', JArr xs)]) = Some xs"
proof -
  show "node_key render (table_entries f k @ [(''fields'', JArr xs)]) = k"
    by (rule node_key_JStr [OF _ assms]) (simp add: table_entries_def map_of_other)
  have "node_kind render (table_entries f k @ [(''fields'', JArr xs)]) = lower (strip ''table'')"
    by (rule node_kind_JStr) (simp_all add: table_entries_def map_of_other)
  then show "node_kind render (table_entries f k @ [(''fields'', JArr xs)]) = ''table''" by (simp only: lower_kinds)
  show "child_fields (table_entries f k @ [(''fields'', JArr xs)]) = Some xs"
    by (rule child_fields_append) (simp add: table_entries_def)
qed

lemma finalize_simps [simp]:
  "finalize_hierarchical_nodes [] = []" "finalize_hierarchical_nodes ((k, n) # t) = finalize_node n # finalize_hierarchical_nodes t"
  "finalize_node (NObject j ch) = JObj (j @ [(''fields'', JArr (finalize_hierarchical_nodes ch))])"
  "finalize_node (NTable j ch) = JObj (j @ [(''fields'', JArr (finalize_hierarchical_nodes ch))])"
  by (simp_all add: finalize_hierarchical_nodes_def)

declare finalize_node.simps(2,3) [simp del]

definition is_column :: "string \<Rightarrow> node \<Rightarrow> bool" where
  "is_column k n \<longleftrightarrow> (\<exists>c. n = NScalar (column_entries c k))"

fun column_of :: "string list \<Rightarrow> node \<Rightarrow> jobject" where
  "column_of p (NScalar j) = flat_column (join ''.'' p) (last p) j"
| "column_of p n = []"

definition columns_of :: "string list \<Rightarrow> tree \<Rightarrow> jobject list" where
  "columns_of ps t = map (\<lambda>(p, n). column_of (ps @ p) n) (leaves t)"

lemma columns_of_simps [simp]:
  "columns_of ps [] = []" "columns_of ps ((k, NScalar j) # t) = column_of (ps @ [k]) (NScalar j) # columns_of ps t"
  "columns_of ps ((k, NObject j ch) # t) = columns_of (ps @ [k]) ch @ columns_of ps t"
  by (simp_all add: columns_of_def below_def split_beta comp_def)

lemma flatten_rows_lists_leaves:
  assumes "tree_fits is_column t" "list_all good_segment ps"
  shows "\<exists>meta'. flatten_table_row_fields render table (finalize_hierarchical_nodes t) (join ''.'' ps) (acc, meta) =
    Some (acc @ columns_of ps t, meta')"
  using assms
proof (induction "tree_size t" arbitrary: t ps acc meta rule: less_induct)
  case less
  show ?case
  proof (cases t)
    case (Cons x t')
    obtain k n where x: "x = (k, n)" by (cases x)
    have k: "good_segment k" "k \<noteq> []" and t': "tree_fits is_column t'" and n: "node_fits is_column k n"
      using less.prems(1) Cons x by (auto simp: good_segment_def)
    have path: "sub_path (join ''.'' ps) k = join ''.'' (ps @ [k])" using less.prems(2) by (rule sub_path_join)
    show ?thesis
    proof (cases n)
      case (NObject j ch)
      obtain m where j: "j = object_node k m" and ch: "tree_fits is_column ch" using n NObject by auto
      let ?meta = "AList.update (table @ ''.'' @ join ''.'' (ps @ [k])) (extract_node_meta (object_node k m @ [(''fields'', JArr (finalize_hierarchical_nodes ch))])) meta"
      obtain meta1 where one: "flatten_table_row_fields render table (finalize_hierarchical_nodes ch) (join ''.'' (ps @ [k])) (acc, ?meta) =
          Some (acc @ columns_of (ps @ [k]) ch, meta1)"
        using less.hyps [of ch "ps @ [k]" acc ?meta] ch less.prems(2) k tree_size_Cons(2) [of ch k j t'] Cons x NObject by auto
      obtain meta2 where "flatten_table_row_fields render table (finalize_hierarchical_nodes t') (join ''.'' ps) (acc @ columns_of (ps @ [k]) ch, meta1) =
          Some ((acc @ columns_of (ps @ [k]) ch) @ columns_of ps t', meta2)"
        using less.hyps [of t' ps] t' less.prems(2) tree_size_Cons(1) [of t' x] Cons by fastforce
      then show ?thesis using one k path by (auto simp: Cons x NObject j object_node_shape Let_def)
    next
      case (NScalar j)
      obtain c where j: "j = column_entries c k" using n NScalar by (auto simp: is_column_def)
      obtain meta2 where "flatten_table_row_fields render table (finalize_hierarchical_nodes t') (join ''.'' ps)
          (acc @ [flat_column (join ''.'' (ps @ [k])) k j], meta) = Some ((acc @ [flat_column (join ''.'' (ps @ [k])) k j]) @ columns_of ps t', meta2)"
        using less.hyps [of t' ps] t' less.prems(2) tree_size_Cons(1) [of t' x] Cons by fastforce
      then show ?thesis using k path by (auto simp: Cons x NScalar j scalar_shape Let_def)
    next
      case (NTable j ch)
      then show ?thesis using n by (simp add: is_column_def)
    qed
  qed simp
qed

end
