(* ===== verification/Template_Roundtrip.thy ===== *)
theory Template_Roundtrip
  imports Template_Tree
begin

text \<open>
  Storing a contract and reading it again: what is read has the same fields, in the order of the stored
  document, and every table the same columns.
\<close>

section \<open>The fields of a finished tree\<close>

definition is_field :: "string \<Rightarrow> node \<Rightarrow> bool" where
  "is_field k n \<longleftrightarrow> (\<exists>f. n = NScalar (scalar_entries f k))
     \<or> (\<exists>t ch. n = NTable (table_entries t k) ch \<and> tree_fits is_column ch)"

fun field_of :: "string list \<Rightarrow> node \<Rightarrow> jobject" where
  "field_of p (NScalar j) = flat_scalar (join ''.'' p) (last p) j"
| "field_of p (NTable j ch) = flat_table (join ''.'' p) (last p) (columns_of [] ch) (j @ [(''fields'', JArr (finalize_hierarchical_nodes ch))])"
| "field_of p (NObject j ch) = []"

definition fields_of :: "string list \<Rightarrow> tree \<Rightarrow> jobject list" where
  "fields_of ps t = map (\<lambda>(p, n). field_of (ps @ p) n) (leaves t)"

lemma fields_of_simps [simp]:
  "fields_of ps [] = []" "fields_of ps ((k, NScalar j) # t) = field_of (ps @ [k]) (NScalar j) # fields_of ps t"
  "fields_of ps ((k, NTable j ch) # t) = field_of (ps @ [k]) (NTable j ch) # fields_of ps t"
  "fields_of ps ((k, NObject j ch) # t) = fields_of (ps @ [k]) ch @ fields_of ps t"
  by (simp_all add: fields_of_def below_def split_beta comp_def)

lemma flatten_lists_leaves:
  assumes "tree_fits is_field t" "list_all good_segment ps"
  shows "\<exists>meta'. flatten_hierarchical_fields render (finalize_hierarchical_nodes t) (join ''.'' ps) (acc, meta) =
    Some (acc @ fields_of ps t, meta')"
  using assms
proof (induction "tree_size t" arbitrary: t ps acc meta rule: less_induct)
  case less
  show ?case
  proof (cases t)
    case (Cons x t')
    obtain k n where x: "x = (k, n)" by (cases x)
    have k: "good_segment k" "k \<noteq> []" and t': "tree_fits is_field t'" and n: "node_fits is_field k n"
      using less.prems(1) Cons x by (auto simp: good_segment_def)
    have path: "sub_path (join ''.'' ps) k = join ''.'' (ps @ [k])" using less.prems(2) by (rule sub_path_join)
    have rest: "\<exists>meta'. flatten_hierarchical_fields render (finalize_hierarchical_nodes t') (join ''.'' ps) (acc', m') =
        Some (acc' @ fields_of ps t', meta')" for acc' m'
      using less.hyps [of t' ps] t' less.prems(2) tree_size_Cons(1) [of t' x] Cons by blast
    show ?thesis
    proof (cases n)
      case (NObject j ch)
      obtain m where j: "j = object_node k m" and ch: "tree_fits is_field ch" using n NObject by auto
      let ?meta = "AList.update (join ''.'' (ps @ [k])) (extract_node_meta (object_node k m @ [(''fields'', JArr (finalize_hierarchical_nodes ch))])) meta"
      obtain meta1 where one: "flatten_hierarchical_fields render (finalize_hierarchical_nodes ch) (join ''.'' (ps @ [k])) (acc, ?meta) =
          Some (acc @ fields_of (ps @ [k]) ch, meta1)"
        using less.hyps [of ch "ps @ [k]" acc ?meta] ch less.prems(2) k tree_size_Cons(2) [of ch k j t'] Cons x NObject by auto
      then show ?thesis using rest [of "acc @ fields_of (ps @ [k]) ch" meta1] k path by (auto simp: Cons x NObject j object_node_shape Let_def)
    next
      case (NScalar j)
      obtain f where j: "j = scalar_entries f k" using n NScalar by (auto simp: is_field_def)
      then show ?thesis using rest [of "acc @ [flat_scalar (join ''.'' (ps @ [k])) k j]" meta] k path
        by (auto simp: Cons x NScalar scalar_shape Let_def)
    next
      case (NTable j ch)
      obtain f where j: "j = table_entries f k" and ch: "tree_fits is_column ch" using n NTable by (auto simp: is_field_def)
      obtain meta1 where "flatten_table_row_fields render (join ''.'' (ps @ [k])) (finalize_hierarchical_nodes ch) [] ([], meta) =
          Some (columns_of [] ch, meta1)"
        using flatten_rows_lists_leaves [OF ch, of "[]" render "join ''.'' (ps @ [k])" "[]" meta] by auto
      then show ?thesis
        using rest [of "acc @ [flat_table (join ''.'' (ps @ [k])) k (columns_of [] ch) (j @ [(''fields'', JArr (finalize_hierarchical_nodes ch))])]" meta1] k path
        by (auto simp: Cons x NTable j table_shape Let_def)
    qed
  qed simp
qed

section \<open>Reading fields back\<close>

definition reads_exactly :: "pydantic \<Rightarrow> bool" where
  "reads_exactly pd \<longleftrightarrow> (\<forall>s. pd_str pd (JStr s) = Some s) \<and> (\<forall>b. pd_bool pd (JBool b) = Some b) \<and> (\<forall>n. pd_int pd (JInt n) = Some n)"

lemma reads_simps:
  assumes "reads_exactly pd"
  shows "pd_str pd (JStr s) = Some s" "pd_bool pd (JBool b) = Some b" "pd_int pd (JInt n) = Some n"
  using assms by (auto simp: reads_exactly_def)

lemma all_some_map: "(\<And>x. x \<in> set xs \<Longrightarrow> f x = Some (g x)) \<Longrightarrow> all_some (map f xs) = Some (map g xs)"
  by (induction xs) auto

lemma parse_values [simp]: "parse_type (JStr (type_value ty)) = Some ty" "parse_source (JStr (source_value src)) = Some src"
  "parse_enum orientation_value [Vertical, Horizontal] (JStr (orientation_value orient)) = Some orient"
  "parse_enum format_value [Excel] (JStr (format_value fmt)) = Some fmt"
  by (cases ty; cases src; cases orient; cases fmt; simp add: parse_type_def parse_source_def parse_enum_def)+

lemma nullable_str: "reads_exactly pd \<Longrightarrow> nullable (pd_str pd) (str_json x) = Some x"
  by (simp add: nullable_def str_json_def reads_simps split: option.split)

lemma nullable_enum: "reads_exactly pd \<Longrightarrow> nullable (parse_list (pd_str pd)) (enum_json x) = Some x"
  by (auto simp: nullable_def enum_json_def parse_list_def reads_simps comp_def all_some_map [where g = id] split: option.split)

definition locator_ok :: "string option \<Rightarrow> bool" where
  "locator_ok x \<longleftrightarrow> (case x of None \<Rightarrow> True | Some s \<Rightarrow> strip s = s)"

lemma nullable_locator: "reads_exactly pd \<Longrightarrow> locator_ok x \<Longrightarrow> nullable (parse_locator pd) (locator_json x) = Some x"
  by (simp add: nullable_def locator_json_def locator_ok_def parse_locator_def parse_object_def required_at_def reads_simps split: option.splits)

definition anchor_ok :: "TableAnchor option \<Rightarrow> bool" where
  "anchor_ok x \<longleftrightarrow> (case x of None \<Rightarrow> True | Some a \<Rightarrow> ma_loop_tokens (ta_marker a) \<noteq> [] \<and> 1 \<le> ma_row (ta_marker a))"

lemma parse_marker_entries:
  assumes "reads_exactly pd" "ma_loop_tokens m \<noteq> []" "1 \<le> ma_row m"
  shows "parse_marker pd [(''loop_tokens'', JArr (map JStr (ma_loop_tokens m))), (''row'', JInt (ma_row m)),
    (''columns'', JObj (map (\<lambda>(k, n). (k, JInt n)) (ma_columns m)))] = Some m"
proof -
  have "all_some (map (\<lambda>(k, j). map_option (Pair k) (pd_int pd j)) (map (\<lambda>(k, n). (k, JInt n)) (ma_columns m))) = Some (ma_columns m)"
    using assms(1) by (auto simp: reads_simps comp_def split_beta all_some_map [where g = id])
  moreover have "all_some (map (pd_str pd) (map JStr (ma_loop_tokens m))) = Some (ma_loop_tokens m)"
    using assms(1) by (simp add: comp_def reads_simps all_some_map [where g = id])
  ultimately show ?thesis using assms
    by (simp add: parse_marker_def required_at_def with_default_def parse_list_def parse_object_def such_that_def reads_simps)
qed

lemma nullable_anchor: "reads_exactly pd \<Longrightarrow> anchor_ok x \<Longrightarrow> nullable (parse_object (parse_anchor pd)) (anchor_json x) = Some x"
proof (cases x)
  case (Some a)
  assume pd: "reads_exactly pd" and "anchor_ok x"
  then have "parse_marker pd [(''loop_tokens'', JArr (map JStr (ma_loop_tokens (ta_marker a)))), (''row'', JInt (ma_row (ta_marker a))),
    (''columns'', JObj (map (\<lambda>(k, n). (k, JInt n)) (ma_columns (ta_marker a))))] = Some (ta_marker a)"
    using Some by (intro parse_marker_entries) (auto simp: anchor_ok_def)
  then show ?thesis using pd Some
    by (cases "ta_sheet a") (simp_all add: anchor_json_def nullable_def parse_object_def parse_anchor_def optional_at_def with_default_def
      required_at_def parse_enum_def reads_simps)
qed (simp add: nullable_def anchor_json_def)

definition column_ok :: "TableColumn \<Rightarrow> bool" where
  "column_ok c \<longleftrightarrow> cl_key c \<noteq> [] \<and> cl_label c \<noteq> [] \<and> enum_ok (cl_enum c) (cl_type c) \<and> locator_ok (cl_locator c)"

definition scalar_ok :: "ScalarField \<Rightarrow> bool" where
  "scalar_ok f \<longleftrightarrow> sf_key f \<noteq> [] \<and> sf_label f \<noteq> [] \<and> enum_ok (sf_enum f) (sf_type f) \<and> locator_ok (sf_locator f)"

definition table_ok :: "TableField \<Rightarrow> bool" where
  "table_ok t \<longleftrightarrow> tf_key t \<noteq> [] \<and> tf_label t \<noteq> [] \<and> 0 \<le> tf_min_rows t
     \<and> (case tf_max_rows t of None \<Rightarrow> True | Some n \<Rightarrow> 1 \<le> n \<and> tf_min_rows t \<le> n) \<and> anchor_ok (tf_anchor t)
     \<and> tf_columns t \<noteq> [] \<and> list_all column_ok (tf_columns t)"

lemma parse_column_flat:
  assumes "reads_exactly pd" "column_ok c"
  shows "parse_column pd (flat_column (cl_key c) k (column_entries c k)) = Some c"
  using assms
  by (simp add: parse_column_def flat_column_def column_entries_def label_or_def dget_or_def required_at_def with_default_def optional_at_def
    such_that_def reads_simps column_ok_def nullable_str nullable_enum nullable_locator)

lemma parse_scalar_flat:
  assumes "reads_exactly pd" "scalar_ok f"
  shows "parse_scalar pd (flat_scalar (sf_key f) k (scalar_entries f k)) = Some f" "parse_scalar pd (scalar_entries f (sf_key f)) = Some f"
  using assms
  by (simp_all add: parse_scalar_def flat_scalar_def scalar_entries_def label_or_def dget_or_def required_at_def with_default_def optional_at_def
    such_that_def reads_simps scalar_ok_def nullable_str nullable_enum nullable_locator)

lemma parse_table_flat:
  assumes "reads_exactly pd" "table_ok t" "parse_list (parse_object (parse_column pd)) (JArr (map JObj cols)) = Some cs" "cs \<noteq> []"
  shows "parse_table pd (flat_table (tf_key t) k cols (table_entries t k @ [(''fields'', x)])) = Some (t\<lparr>tf_columns := cs\<rparr>)"
  using assms
  by (cases "tf_max_rows t")
    (simp_all add: parse_table_def flat_table_def table_entries_def label_or_def dget_or_def required_at_def with_default_def optional_at_def
      such_that_def reads_simps table_ok_def nullable_str nullable_anchor, simp_all add: nullable_def reads_simps such_that_def)

section \<open>The round trip\<close>

lemma mset_map_rearranged:
  assumes "mset ys = mset (map h xs)"
  shows "\<exists>zs. mset zs = mset xs \<and> ys = map h zs"
  using assms
proof (induction ys arbitrary: xs)
  case (Cons y ys)
  then have "y \<in> set (map h xs)" by (metis list.set_intros(1) mset_eq_setD)
  then obtain x where x: "x \<in> set xs" "y = h x" by auto
  then obtain as bs where xs: "xs = as @ x # bs" by (meson split_list)
  have "mset ys = mset (map h (as @ bs))" using Cons.prems xs x by simp
  from Cons.IH [OF this] obtain zs where "mset zs = mset (as @ bs)" "ys = map h zs" by blast
  then show ?case using xs x by (intro exI [of _ "x # zs"]) simp
qed simp

text \<open>Keys whose paths are made of good segments, none a prefix of another.\<close>

definition parallel_keys :: "string list \<Rightarrow> bool" where
  "parallel_keys ks \<longleftrightarrow> distinct (map segments ks) \<and> pairwise parallel (set (map segments ks))
     \<and> list_all (\<lambda>k. list_all good_segment (segments k)) ks"

text \<open>The leaf that a column or field leaves in the tree.\<close>

definition column_leaf :: "TableColumn \<Rightarrow> string \<Rightarrow> node" where
  "column_leaf c part = NScalar (column_entries c part)"

fun field_leaf :: "metas \<Rightarrow> AnyField \<Rightarrow> string \<Rightarrow> node" where
  "field_leaf meta (Scalar f) part = NScalar (scalar_entries f part)"
| "field_leaf meta (Table t) part = NTable (table_entries t part) (column_tree meta t)"

lemma insert_field_leaf: "insert_field meta f = insert_leaf (node_meta_at meta) [] (segments (field_key f)) (field_leaf meta f)"
proof (cases f)
  case (Scalar x)
  have "field_leaf meta f = (\<lambda>part. NScalar (scalar_entries x part))" by (simp add: Scalar fun_eq_iff)
  then show ?thesis by (simp add: Scalar insert_scalar_field_def)
next
  case (Table x)
  have "field_leaf meta f = (\<lambda>part. NTable (table_entries x part) (column_tree meta x))" by (simp add: Table fun_eq_iff)
  then show ?thesis by (simp add: Table insert_table_field_def)
qed

lemma parallel_keysD:
  assumes "parallel_keys (map f xs)"
  shows "pairwise parallel (set (map (\<lambda>x. segments (f x)) xs))" "distinct (map (\<lambda>x. segments (f x)) xs)"
    "\<And>x. x \<in> set xs \<Longrightarrow> list_all good_segment (segments (f x))"
  using assms by (auto simp: parallel_keys_def comp_def list_all_iff image_image)

lemma column_tree_leaves:
  assumes "parallel_keys (map cl_key (tf_columns t))"
  shows "tree_fits is_column (column_tree meta t)"
    and "\<exists>cs. mset cs = mset (tf_columns t) \<and> leaves (column_tree meta t) = map (\<lambda>c. (segments (cl_key c), column_leaf c (last (segments (cl_key c))))) cs"
proof -
  have ct: "column_tree meta t = fold (\<lambda>c. insert_leaf (\<lambda>path. node_meta_at meta (tf_key t @ ''.'' @ path)) [] (segments (cl_key c)) (column_leaf c))
      (tf_columns t) []"
    by (simp add: column_tree_def insert_table_column_def [abs_def] column_leaf_def [abs_def])
  have "tree_fits is_column (column_tree meta t) \<and> mset (leaves (column_tree meta t)) =
      mset (leaves []) + mset (map (\<lambda>c. (segments (cl_key c), column_leaf c (last (segments (cl_key c))))) (tf_columns t))"
    unfolding ct
    by (rule fold_insert_leaves)
      (use parallel_keysD [OF assms] in \<open>auto simp: is_column_def column_leaf_def is_leaf_def free_at_def\<close>)
  then show "tree_fits is_column (column_tree meta t)"
    "\<exists>cs. mset cs = mset (tf_columns t) \<and> leaves (column_tree meta t) = map (\<lambda>c. (segments (cl_key c), column_leaf c (last (segments (cl_key c))))) cs"
    using mset_map_rearranged [of "leaves (column_tree meta t)"] by auto
qed

fun field_ok :: "AnyField \<Rightarrow> bool" where
  "field_ok (Scalar f) \<longleftrightarrow> scalar_ok f"
| "field_ok (Table t) \<longleftrightarrow> table_ok t \<and> parallel_keys (map cl_key (tf_columns t))"

definition contract_ok :: "TemplateContract \<Rightarrow> bool" where
  "contract_ok c \<longleftrightarrow> parallel_keys (map field_key (ct_fields c)) \<and> list_all field_ok (ct_fields c)"

text \<open>The same field up to the order of the columns of a table.\<close>

fun same_field :: "AnyField \<Rightarrow> AnyField \<Rightarrow> bool" where
  "same_field (Scalar f) g \<longleftrightarrow> g = Scalar f"
| "same_field (Table t) g \<longleftrightarrow> (\<exists>cs. g = Table (t\<lparr>tf_columns := cs\<rparr>) \<and> mset cs = mset (tf_columns t))"

lemma field_tree_leaves:
  assumes "contract_ok c"
  defines "tr \<equiv> fold (insert_field (ct_meta c)) (ct_fields c) []"
  shows "tree_fits is_field tr"
    and "\<exists>fs. mset fs = mset (ct_fields c) \<and> leaves tr = map (\<lambda>f. (segments (field_key f), field_leaf (ct_meta c) f (last (segments (field_key f))))) fs"
proof -
  have keys: "parallel_keys (map field_key (ct_fields c))" and ok: "\<And>f. f \<in> set (ct_fields c) \<Longrightarrow> field_ok f"
    using assms(1) by (auto simp: contract_ok_def list_all_iff)
  have leaf: "is_leaf (field_leaf (ct_meta c) f part) \<and> is_field part (field_leaf (ct_meta c) f part)" if "field_ok f" for f part
    using that column_tree_leaves(1) by (cases f) (auto simp: is_leaf_def is_field_def)
  have "tree_fits is_field tr \<and> mset (leaves tr) =
      mset (leaves []) + mset (map (\<lambda>f. (segments (field_key f), field_leaf (ct_meta c) f (last (segments (field_key f))))) (ct_fields c))"
    unfolding tr_def insert_field_leaf [abs_def]
    by (rule fold_insert_leaves) (use parallel_keysD [OF keys] ok leaf in \<open>auto simp: free_at_def\<close>)
  then show "tree_fits is_field tr"
    "\<exists>fs. mset fs = mset (ct_fields c) \<and> leaves tr = map (\<lambda>f. (segments (field_key f), field_leaf (ct_meta c) f (last (segments (field_key f))))) fs"
    using mset_map_rearranged [of "leaves tr"] by auto
qed

text \<open>What a field is read back as.\<close>

lemma parse_field_flat:
  assumes pd: "reads_exactly pd" and f: "field_ok f"
  shows "\<exists>g. parse_field pd (field_of (segments (field_key f)) (field_leaf meta f (last (segments (field_key f))))) = Some g \<and> same_field f g"
proof (cases f)
  case (Scalar sf)
  let ?k = "last (segments (sf_key sf))"
  have "parse_scalar pd (flat_scalar (sf_key sf) ?k (scalar_entries sf ?k)) = Some sf"
    using parse_scalar_flat(1) [OF pd] f Scalar by simp
  moreover have "map_of (flat_scalar (sf_key sf) ?k (scalar_entries sf ?k)) ''kind'' = Some (JStr ''scalar'')" by (simp add: flat_scalar_def)
  ultimately show ?thesis using Scalar by (simp add: parse_field_def)
next
  case (Table t)
  let ?k = "last (segments (tf_key t))"
  obtain cs where cs: "mset cs = mset (tf_columns t)"
      "leaves (column_tree meta t) = map (\<lambda>c. (segments (cl_key c), column_leaf c (last (segments (cl_key c))))) cs"
    using column_tree_leaves(2) f Table by auto
  have ok: "\<And>c. c \<in> set cs \<Longrightarrow> column_ok c" "cs \<noteq> []"
    using f Table mset_eq_setD [OF cs(1)] cs(1) by (auto simp: table_ok_def list_all_iff)
  have "columns_of [] (column_tree meta t) =
      map (\<lambda>c. flat_column (cl_key c) (last (segments (cl_key c))) (column_entries c (last (segments (cl_key c))))) cs"
    by (simp add: columns_of_def cs(2) column_leaf_def)
  then have "parse_list (parse_object (parse_column pd)) (JArr (map JObj (columns_of [] (column_tree meta t)))) = Some cs"
    using parse_column_flat [OF pd] ok(1) by (simp add: parse_list_def parse_object_def comp_def all_some_map [where g = id])
  from parse_table_flat [OF pd _ this ok(2)] f Table cs(1) show ?thesis
    by (auto simp: parse_field_def flat_table_def)
qed

lemma all_some_related:
  assumes "\<And>x. x \<in> set xs \<Longrightarrow> \<exists>y. f x = Some y \<and> R x y"
  shows "\<exists>ys. all_some (map f xs) = Some ys \<and> list_all2 R xs ys"
  using assms
proof (induction xs)
  case (Cons x xs)
  obtain y where "f x = Some y" "R x y" using Cons.prems by auto
  moreover obtain ys where "all_some (map f xs) = Some ys" "list_all2 R xs ys" using Cons.IH Cons.prems by auto
  ultimately show ?case by (intro exI [of _ "y # ys"]) simp
qed simp

lemma hierarchical_nodes: "is_field k n \<or> \<not> is_leaf n \<Longrightarrow> node_fits is_field k n \<Longrightarrow> hierarchical (finalize_node n) \<longleftrightarrow> (\<nexists>j. n = NScalar j)"
proof (cases n)
  case (NScalar j)
  assume "node_fits is_field k n"
  then obtain f where "j = scalar_entries f k" using NScalar by (auto simp: is_field_def)
  then show ?thesis using NScalar by (simp add: hierarchical_def scalar_entries_def dget_or_def)
next
  case (NObject j ch)
  assume "node_fits is_field k n"
  then obtain m where "j = object_node k m" using NObject by auto
  then show ?thesis using NObject by (simp add: hierarchical_def object_node_def dget_or_def)
next
  case (NTable j ch)
  assume "node_fits is_field k n"
  then obtain t where "j = table_entries t k" using NTable by (auto simp: is_field_def)
  then show ?thesis using NTable by (simp add: hierarchical_def table_entries_def dget_or_def)
qed

text \<open>A document without objects and tables holds its fields as they are.\<close>

lemma flat_tree_fields:
  assumes "tree_fits is_field tr" "\<not> list_ex hierarchical (finalize_hierarchical_nodes tr)"
  shows "finalize_hierarchical_nodes tr = map (\<lambda>(p, n). finalize_node n) (leaves tr) \<and> (\<forall>x \<in> set (leaves tr). \<exists>k j. x = ([k], NScalar j))"
  using assms
proof (induction tr)
  case (Cons x tr)
  obtain k n where x: "x = (k, n)" by (cases x)
  have n: "node_fits is_field k n" "\<not> hierarchical (finalize_node n)" using Cons.prems x by auto
  then obtain j where "n = NScalar j" using hierarchical_nodes [of k n] by (cases n) (auto simp: is_leaf_def)
  then show ?case using Cons x by (auto simp: below_def)
qed simp

lemma document_fields_read:
  assumes pd: "reads_exactly pd" and c: "contract_ok c"
  defines "doc \<equiv> build_hierarchical_fields c"
  shows "\<exists>fs gs meta. mset fs = mset (ct_fields c) \<and> list_all2 same_field fs gs
    \<and> (if list_ex hierarchical doc
       then (\<exists>flat. flatten_hierarchical_fields render doc [] ([], []) = Some (flat, meta)
              \<and> all_some (map (parse_field pd) flat) = Some gs)
       else all_some (map (parse_object (parse_field pd)) doc) = Some gs)"
proof -
  define tr where "tr = fold (insert_field (ct_meta c)) (ct_fields c) []"
  have doc: "doc = finalize_hierarchical_nodes tr" by (simp add: doc_def build_hierarchical_fields_def tr_def)
  note fits = field_tree_leaves(1) [OF c, folded tr_def]
  obtain fs where fs: "mset fs = mset (ct_fields c)"
      "leaves tr = map (\<lambda>f. (segments (field_key f), field_leaf (ct_meta c) f (last (segments (field_key f))))) fs"
    using field_tree_leaves(2) [OF c, folded tr_def] by blast
  have ok: "\<And>f. f \<in> set fs \<Longrightarrow> field_ok f" using c mset_eq_setD [OF fs(1)] by (auto simp: contract_ok_def list_all_iff)
  show ?thesis
  proof (cases "list_ex hierarchical doc")
    case True
    obtain meta where fl: "flatten_hierarchical_fields render doc [] ([], []) = Some (fields_of [] tr, meta)"
      using flatten_lists_leaves [OF fits, of "[]" render "[]" "[]"] by (auto simp: doc)
    have flat: "fields_of [] tr = map (\<lambda>f. field_of (segments (field_key f)) (field_leaf (ct_meta c) f (last (segments (field_key f))))) fs"
      by (simp add: fields_of_def fs(2))
    obtain gs where "all_some (map (parse_field pd) (fields_of [] tr)) = Some gs" "list_all2 same_field fs gs"
      using all_some_related [of fs "\<lambda>f. parse_field pd (field_of (segments (field_key f)) (field_leaf (ct_meta c) f (last (segments (field_key f)))))" same_field]
        parse_field_flat [OF pd ok] by (auto simp: flat comp_def)
    then show ?thesis using True fs(1) fl by auto
  next
    case False
    have flat: "finalize_hierarchical_nodes tr = map (\<lambda>(p, n). finalize_node n) (leaves tr)"
        and one: "\<And>x. x \<in> set (leaves tr) \<Longrightarrow> \<exists>k j. x = ([k], NScalar j)"
      using flat_tree_fields [OF fits] False doc by blast+
    have "parse_object (parse_field pd) (finalize_node (field_leaf (ct_meta c) f (last (segments (field_key f))))) = Some f" if f: "f \<in> set fs" for f
    proof -
      obtain k j where kj: "segments (field_key f) = [k]" "field_leaf (ct_meta c) f k = NScalar j"
        using one [of "(segments (field_key f), field_leaf (ct_meta c) f (last (segments (field_key f))))"] f fs(2) by auto
      then obtain sf where sf: "f = Scalar sf" by (cases f) auto
      have key: "k = sf_key sf" using kj(1) join_segments [of "sf_key sf"] sf by simp
      have "parse_scalar pd (scalar_entries sf (sf_key sf)) = Some sf" using parse_scalar_flat(2) [OF pd] ok [OF f] sf by simp
      moreover have "map_of (scalar_entries sf (sf_key sf)) ''kind'' = Some (JStr ''scalar'')" by (simp add: scalar_entries_def)
      ultimately show ?thesis using kj(1) key sf by (simp add: parse_object_def parse_field_def)
    qed
    then have "all_some (map (parse_object (parse_field pd)) doc) = Some fs"
      by (simp add: doc flat fs(2) comp_def all_some_map [where g = id])
    moreover have "list_all2 same_field fs fs"
    proof -
      have "same_field f f" for f
      proof (cases f)
        case (Table t)
        then show ?thesis by (auto intro!: exI [of _ "tf_columns t"])
      qed simp
      then show ?thesis by (simp add: list_all2_same)
    qed
    ultimately show ?thesis using False fs(1) by auto
  qed
qed

end
