(* ===== verification/Template_Values.thy ===== *)
theory Template_Values
  imports Template_Contract
begin

text \<open>
  What a contract says of the values to be filled in (\<open>services/collection/template_contract.py\<close>): the
  two schemas derived from it, the shape of the generated pydantic model, and the validation of values.

  Pydantic's validation of a value against the generated model is an argument, as are \<open>float()\<close> on a text
  and \<open>str()\<close> on arrays, objects and floats. The names of generated models are left out, and so is pydantic's
  refusal of property names with a leading underscore.
\<close>

section \<open>The fill schema\<close>

definition set_default :: "string \<Rightarrow> json \<Rightarrow> jobject \<Rightarrow> jobject" where
  "set_default k v d = (if map_of d k = None then d @ [(k, v)] else d)"

definition object_at :: "jobject \<Rightarrow> string \<Rightarrow> jobject" where
  "object_at d k = (case map_of d k of Some (JObj x) \<Rightarrow> x | _ \<Rightarrow> [])"

definition array_at :: "jobject \<Rightarrow> string \<Rightarrow> json list" where
  "array_at d k = (case map_of d k of Some (JArr x) \<Rightarrow> x | _ \<Rightarrow> [])"

text \<open>Adds a name to the list under a key, once.\<close>

definition add_name :: "string \<Rightarrow> string \<Rightarrow> jobject \<Rightarrow> jobject" where
  "add_name k name d =
     (let d1 = set_default k (JArr []) d in
      if JStr name \<in> set (array_at d1 k) then d1 else AList.update k (JArr (array_at d1 k @ [JStr name])) d1)"

definition set_property :: "string \<Rightarrow> json \<Rightarrow> jobject \<Rightarrow> jobject" where
  "set_property name v d =
     (let d1 = set_default ''properties'' (JObj []) (set_default ''type'' (JStr ''object'') d) in
      AList.update ''properties'' (JObj (AList.update name v (object_at d1 ''properties''))) d1)"

text \<open>The child on the way to a property: the object that is there, or a new one in its place.\<close>

definition child_object :: "jobject \<Rightarrow> string \<Rightarrow> jobject \<Rightarrow> jobject" where
  "child_object fresh name d =
     (case map_of (object_at d ''properties'') name of
        Some (JObj c) \<Rightarrow> if map_of c ''type'' = Some (JStr ''object'') then c else fresh
      | _ \<Rightarrow> fresh)"

fun assign_nested_schema_property :: "string list \<Rightarrow> json \<Rightarrow> bool \<Rightarrow> jobject \<Rightarrow> jobject" where
  "assign_nested_schema_property [] prop required d = d"
| "assign_nested_schema_property [name] prop required d =
     (let d1 = set_property name prop d in if required then add_name ''required'' name d1 else d1)"
| "assign_nested_schema_property (name # n2 # ns) prop required d =
     (let child = child_object [(''type'', JStr ''object''), (''properties'', JObj [])] name d;
          d1 = set_property name (JObj (assign_nested_schema_property (n2 # ns) prop required child)) d
      in if required then add_name ''required'' name d1 else d1)"

definition opt_entry :: "string \<Rightarrow> string option \<Rightarrow> jobject" where
  "opt_entry k x = (if opt_truthy x then [(k, JStr (the x))] else [])"

definition enum_entry :: "string list option \<Rightarrow> jobject" where
  "enum_entry e = (case e of Some (x # xs) \<Rightarrow> [(''enum'', JArr (map JStr (x # xs)))] | _ \<Rightarrow> [])"

definition example_entry :: "string option \<Rightarrow> jobject" where
  "example_entry x = (case x of None \<Rightarrow> [] | Some s \<Rightarrow> [(''example'', JStr s)])"

definition rows_entries :: "TableField \<Rightarrow> jobject" where
  "rows_entries t = opt_entry ''description'' (tf_description t)
     @ (if tf_min_rows t \<noteq> 0 then [(''minItems'', JInt (tf_min_rows t))] else [])
     @ (case tf_max_rows t of None \<Rightarrow> [] | Some n \<Rightarrow> [(''maxItems'', JInt n)])"

definition empty_schema :: jobject where
  "empty_schema = [(''type'', JStr ''object''), (''properties'', JObj [])]"

definition scalar_property :: "ScalarField \<Rightarrow> json" where
  "scalar_property f = JObj ([(''type'', JStr (type_value (sf_type f)))] @ opt_entry ''description'' (sf_description f)
     @ example_entry (sf_example f) @ enum_entry (sf_enum f) @ opt_entry ''format'' (sf_format f))"

definition column_property :: "TableColumn \<Rightarrow> json" where
  "column_property c = JObj ([(''type'', JStr (type_value (cl_type c)))] @ opt_entry ''description'' (cl_description c)
     @ example_entry (cl_example c) @ enum_entry (cl_enum c))"

definition item_schema :: "TableField \<Rightarrow> jobject" where
  "item_schema t =
     fold (\<lambda>c. assign_nested_schema_property (segments (cl_key c)) (column_property c) (cl_required c)) (tf_columns t) empty_schema"

definition table_property :: "TableField \<Rightarrow> json" where
  "table_property t = JObj ([(''type'', JStr ''array''), (''items'', JObj (item_schema t))] @ rows_entries t)"

fun field_property :: "AnyField \<Rightarrow> json" where
  "field_property (Scalar f) = scalar_property f"
| "field_property (Table t) = table_property t"

fun field_required :: "AnyField \<Rightarrow> bool" where
  "field_required (Scalar f) = sf_required f"
| "field_required (Table t) = tf_required t"

definition to_fill_input_schema :: "TemplateContract \<Rightarrow> jobject" where
  "to_fill_input_schema c =
     fold (\<lambda>f. assign_nested_schema_property (segments (field_key f)) (field_property f) (field_required f)) (ct_fields c) empty_schema"

section \<open>The runtime schema\<close>

fun assign_nested_runtime_property :: "string list \<Rightarrow> json \<Rightarrow> bool \<Rightarrow> jobject \<Rightarrow> jobject" where
  "assign_nested_runtime_property [] prop required d = d"
| "assign_nested_runtime_property [name] prop required d =
     (let d1 = set_default ''required_fields'' (JArr []) (set_property name prop d) in
      if required then add_name ''required_fields'' name d1 else d1)"
| "assign_nested_runtime_property (name # n2 # ns) prop required d =
     (let child = child_object [(''type'', JStr ''object''), (''properties'', JObj []), (''required'', JBool False)] name d;
          d1 = set_default ''required_fields'' (JArr [])
                 (set_property name (JObj (assign_nested_runtime_property (n2 # ns) prop required child)) d)
      in if required then add_name ''required_fields'' name d1 else d1)"

definition field_runtime_node :: "ScalarField \<Rightarrow> json" where
  "field_runtime_node f = JObj ([(''type'', JStr (type_value (sf_type f))), (''label'', JStr (sf_label f)), (''required'', JBool (sf_required f))]
     @ opt_entry ''description'' (sf_description f) @ enum_entry (sf_enum f) @ opt_entry ''format'' (sf_format f))"

definition column_runtime_node :: "TableColumn \<Rightarrow> json" where
  "column_runtime_node c = JObj ([(''type'', JStr (type_value (cl_type c))), (''label'', JStr (cl_label c)), (''required'', JBool (cl_required c))]
     @ opt_entry ''description'' (cl_description c) @ enum_entry (cl_enum c))"

definition item_runtime_schema :: "TableField \<Rightarrow> jobject" where
  "item_runtime_schema t =
     fold (\<lambda>c. assign_nested_runtime_property (segments (cl_key c)) (column_runtime_node c) (cl_required c)) (tf_columns t) empty_schema"

definition table_runtime_node :: "TableField \<Rightarrow> json" where
  "table_runtime_node t = JObj ([(''type'', JStr ''array''), (''label'', JStr (tf_label t)), (''required'', JBool (tf_required t)),
     (''items'', JObj (item_runtime_schema t))] @ rows_entries t
     @ (case tf_anchor t of None \<Rightarrow> [] | Some a \<Rightarrow> [(''anchor'', anchor_json (Some a))]))"

fun runtime_node :: "AnyField \<Rightarrow> json" where
  "runtime_node (Scalar f) = field_runtime_node f"
| "runtime_node (Table t) = table_runtime_node t"

definition to_runtime_schema :: "TemplateContract \<Rightarrow> jobject" where
  "to_runtime_schema c =
     fold (\<lambda>f. assign_nested_runtime_property (segments (field_key f)) (runtime_node f) (field_required f)) (ct_fields c) empty_schema"

section \<open>The generated model\<close>

datatype default = Required | DefaultNone | DefaultEmpty

datatype annotation = AnStr | AnFloat | AnBool | AnDicts | AnList annotation | AnOptional annotation
  | AnModel "(string \<times> annotation \<times> default) list"

definition build_scalar_annotation :: "string \<Rightarrow> jobject \<Rightarrow> annotation \<times> default" where
  "build_scalar_annotation ty d =
     (let a = (case map_of d ''enum'' of
                 Some (JArr (x # xs)) \<Rightarrow> AnStr
               | _ \<Rightarrow> if ty = ''number'' then AnFloat else if ty = ''bool'' then AnBool else AnStr)
      in if truthy (dget_or JNull d ''required'') then (a, Required) else (AnOptional a, DefaultNone))"

definition node_type :: "(json \<Rightarrow> string) \<Rightarrow> string \<Rightarrow> jobject \<Rightarrow> string" where
  "node_type render dflt d = (let k = dget_or JNull d ''type'' in lower (strip (if truthy k then py_str render k else dflt)))"

lemma map_of_json_size: "map_of d k = Some v \<Longrightarrow> size v < size (JObj d)"
  by (induction d) (auto split: if_splits prod.splits)

lemma object_at_size:
  assumes "x \<in> set (object_at d k)"
  shows "size (snd x) < size (JObj d)"
proof -
  obtain e where e: "map_of d k = Some (JObj e)" "x \<in> set e"
    using assms by (cases "map_of d k") (auto simp: object_at_def split: json.splits)
  have "size (snd x) < size (JObj e)" using e(2) by (induction e) auto
  also have "\<dots> < size (JObj d)" by (rule map_of_json_size [OF e(1)])
  finally show ?thesis .
qed

text \<open>
  The annotation of a node with its default, and the model of an object; \<open>None\<close> stands for a node that is no
  object where the sources expect one, and for which they raise.
\<close>

function annotation_from_runtime_node :: "(json \<Rightarrow> string) \<Rightarrow> json \<Rightarrow> (annotation \<times> default) option" where
  "annotation_from_runtime_node render node =
     (case node of
        JObj d \<Rightarrow>
          if node_type render ''string'' d = ''object''
          then (case all_some (map (\<lambda>(k, j). map_option (Pair k) (annotation_from_runtime_node render j)) (object_at d ''properties'')) of
                  None \<Rightarrow> None
                | Some ps \<Rightarrow>
                    let m = AnModel (map (\<lambda>(k, a, df). (k, a, if JStr k \<in> set (array_at d ''required_fields'') then Required else df)) ps)
                    in Some (if truthy (dget_or JNull d ''required'') then (m, Required) else (AnOptional m, DefaultNone)))
          else if node_type render ''string'' d = ''array''
          then (case map_of d ''items'' of
                  Some (JObj e) \<Rightarrow>
                    (case annotation_from_runtime_node render (JObj e) of
                       None \<Rightarrow> None
                     | Some (a, _) \<Rightarrow> Some (if truthy (dget_or JNull d ''required'') then (AnList a, Required) else (AnOptional (AnList a), DefaultNone)))
                | _ \<Rightarrow> Some (AnDicts, DefaultEmpty))
          else Some (build_scalar_annotation (node_type render ''string'' d) d)
      | _ \<Rightarrow> None)"
  by pat_completeness auto

termination
proof (relation "measure (\<lambda>(render, node). size node)", goal_cases)
  case (2 render node d z x y)
  then show ?case using object_at_size [of "(x, y)" d "''properties''"] by auto
next
  case (3 render node d x2 e)
  then show ?case using map_of_json_size [of d "''items''" "JObj e"] by auto
qed simp

definition build_values_model :: "(json \<Rightarrow> string) \<Rightarrow> TemplateContract \<Rightarrow> annotation option" where
  "build_values_model render c =
     (case annotation_from_runtime_node render (JObj (to_runtime_schema c)) of
        Some (AnOptional m, _) \<Rightarrow> Some m
      | Some (m, _) \<Rightarrow> Some m
      | None \<Rightarrow> None)"

section \<open>Values\<close>

record ValidationIssue =
  vi_path :: string
  vi_message :: string
  vi_expected :: "string option"
  vi_actual :: "string option"
  vi_rule :: "string option"

text \<open>The texts of a report are the messages of its details.\<close>

record ValidationReport =
  vr_errors :: "string list"
  vr_warnings :: "string list"
  vr_error_details :: "ValidationIssue list"
  vr_warning_details :: "ValidationIssue list"

definition report_of :: "ValidationIssue list \<Rightarrow> ValidationIssue list \<Rightarrow> ValidationReport" where
  "report_of errs warns = \<lparr>vr_errors = map vi_message errs, vr_warnings = map vi_message warns,
     vr_error_details = errs, vr_warning_details = warns\<rparr>"

definition report_ok :: "ValidationReport \<Rightarrow> bool" where
  "report_ok r \<longleftrightarrow> length (vr_errors r) = 0"

definition raise_if_invalid :: "ValidationReport \<Rightarrow> string + unit" where
  "raise_if_invalid r =
     (if report_ok r then Inr () else Inl (''Contract validation failed: '' @ join ''; '' (vr_errors r)))"

definition issue :: "string \<Rightarrow> string \<Rightarrow> string \<Rightarrow> string \<Rightarrow> string \<Rightarrow> ValidationIssue" where
  "issue path msg expected actual rule =
     \<lparr>vi_path = path, vi_message = msg, vi_expected = Some expected, vi_actual = Some actual, vi_rule = Some rule\<rparr>"

text \<open>\<open>type(value).__name__\<close>\<close>

fun type_name :: "json \<Rightarrow> string" where
  "type_name JNull = ''NoneType''"
| "type_name (JBool _) = ''bool''"
| "type_name (JInt _) = ''int''"
| "type_name (JFloat _) = ''float''"
| "type_name (JStr _) = ''str''"
| "type_name (JArr _) = ''list''"
| "type_name (JObj _) = ''dict''"

fun lookup_segments :: "json \<Rightarrow> string list \<Rightarrow> json" where
  "lookup_segments j [] = j"
| "lookup_segments j (x # xs) =
     (case j of JObj d \<Rightarrow> (case map_of d x of None \<Rightarrow> JNull | Some v \<Rightarrow> lookup_segments v xs) | _ \<Rightarrow> JNull)"

definition lookup_nested_value :: "jobject \<Rightarrow> string \<Rightarrow> json" where
  "lookup_nested_value d key = (case map_of d key of Some v \<Rightarrow> v | None \<Rightarrow> lookup_segments (JObj d) (segments key))"

definition normalize_values :: "TemplateContract \<Rightarrow> jobject \<Rightarrow> jobject" where
  "normalize_values c d = fold (\<lambda>f. AList.update (field_key f) (lookup_nested_value d (field_key f))) (ct_fields c) []"

text \<open>Nested objects as one dictionary under paths, and the paths of an input.\<close>

fun flatten_nested_value :: "string \<Rightarrow> jobject \<Rightarrow> jobject" where
  "flatten_nested_value prefix [] = []"
| "flatten_nested_value prefix ((k, v) # d) =
     fold (\<lambda>(k, v) m. AList.update k v m)
       (flatten_nested_value prefix d)
       (case v of JObj e \<Rightarrow> flatten_nested_value (sub_path prefix k) e | _ \<Rightarrow> [(sub_path prefix k, v)])"

fun collect_input_paths :: "string \<Rightarrow> jobject \<Rightarrow> string list" where
  "collect_input_paths prefix [] = []"
| "collect_input_paths prefix ((k, v) # d) =
     (case v of JObj e \<Rightarrow> collect_input_paths (sub_path prefix k) e | _ \<Rightarrow> [sub_path prefix k]) @ collect_input_paths prefix d"

record value_env =
  ve_render :: "json \<Rightarrow> string"
  ve_float :: "string \<Rightarrow> rat option"

definition apos :: string where "apos = [char_of (39 :: nat)]"

definition em_dash :: string where "em_dash = map char_of [226, 128, 148 :: nat]"

definition check_scalar_type :: "value_env \<Rightarrow> string \<Rightarrow> json \<Rightarrow> FieldType \<Rightarrow> string option" where
  "check_scalar_type env key v expected =
     (let txt = py_str (ve_render env) v in
      case expected of
        TyNumber \<Rightarrow>
          (case v of
             JBool _ \<Rightarrow> Some (''Scalar '' @ apos @ key @ apos @ '' expected number, got bool'')
           | JInt _ \<Rightarrow> None
           | JFloat _ \<Rightarrow> None
           | _ \<Rightarrow> if ve_float env txt = None
                 then Some (''Scalar '' @ apos @ key @ apos @ '' expected number, got '' @ apos @ txt @ apos) else None)
      | TyBool \<Rightarrow>
          (case v of
             JBool _ \<Rightarrow> None
           | _ \<Rightarrow> if lower txt \<in> {''true'', ''false'', ''1'', ''0''} then None
                 else Some (''Scalar '' @ apos @ key @ apos @ '' expected bool, got '' @ apos @ txt @ apos))
      | _ \<Rightarrow> None)"

definition blank_value :: "json \<Rightarrow> bool" where
  "blank_value v \<longleftrightarrow> (case v of JNull \<Rightarrow> True | JStr s \<Rightarrow> strip s = [] | _ \<Rightarrow> False)"

definition check_scalar :: "value_env \<Rightarrow> bool \<Rightarrow> ScalarField \<Rightarrow> json \<Rightarrow> ValidationIssue list" where
  "check_scalar env enforce f v =
     (if enforce \<and> sf_required f \<and> blank_value v
      then [issue (sf_key f) (''Required scalar '' @ apos @ sf_key f @ apos @ '' is missing or empty'')
              (''Required '' @ type_value (sf_type f) @ '' value'') (if v = JNull then ''missing'' else ''empty'') ''required'']
      else if v = JNull then []
      else case check_scalar_type env (sf_key f) v (sf_type f) of
             None \<Rightarrow> []
           | Some err \<Rightarrow> if err = [] then [] else [issue (sf_key f) err (type_value (sf_type f)) (type_name v) ''type''])"

text \<open>One row of a table: its errors and its warnings. Required columns are visited in their order.\<close>

definition check_row :: "bool \<Rightarrow> TableField \<Rightarrow> nat \<Rightarrow> json \<Rightarrow> ValidationIssue list \<times> ValidationIssue list" where
  "check_row enforce t i row =
     (let place = tf_key t @ ''['' @ nat_str i @ '']'';
          here = ''Table '' @ apos @ tf_key t @ apos @ '' row['' @ nat_str i @ '']'' in
      case row of
        JObj d \<Rightarrow>
          (let flat = flatten_nested_value [] d;
               missing = (if enforce then filter (\<lambda>k. blank_value (dget_or JNull flat k)) (remdups (map cl_key (filter cl_required (tf_columns t)))) else [])
           in (map (\<lambda>k. issue (place @ ''.'' @ k) (here @ '' missing required column '' @ apos @ k @ apos) ''Required value''
                     (if dget_or JNull flat k = JNull then ''missing'' else ''empty'') ''required'') missing,
               map (\<lambda>k. issue (place @ ''.'' @ k) (here @ '' has unknown column '' @ apos @ k @ apos) ''Known table column'' ''Unknown column'' ''unknown_key'')
                 (filter (\<lambda>k. k \<notin> set (map cl_key (tf_columns t))) (dkeys flat))))
      | _ \<Rightarrow> ([issue place (here @ '' must be an object'') ''object'' (type_name row) ''type''], []))"

definition check_rows :: "bool \<Rightarrow> TableField \<Rightarrow> json list \<Rightarrow> ValidationIssue list \<times> ValidationIssue list" where
  "check_rows enforce t rows =
     (let rs = map (\<lambda>(i, row). check_row enforce t i row) (enumerate 0 rows) in (concat (map fst rs), concat (map snd rs)))"

definition check_table :: "bool \<Rightarrow> TableField \<Rightarrow> json \<Rightarrow> ValidationIssue list \<times> ValidationIssue list" where
  "check_table enforce t v =
     (let here = ''Table '' @ apos @ tf_key t @ apos in
      if enforce \<and> tf_required t \<and> (v = JNull \<or> v = JArr [])
      then ([issue (tf_key t) (''Required table '' @ apos @ tf_key t @ apos @ '' is missing or empty'') ''Non-empty array''
              (if v = JNull then ''missing'' else ''empty array'') ''required''], [])
      else case v of
             JNull \<Rightarrow> ([], [])
           | JArr rows \<Rightarrow>
               (let n = int (length rows); (errs, warns) = check_rows enforce t rows in
                ((if n < tf_min_rows t
                  then [issue (tf_key t) (here @ '' has '' @ int_str n @ '' row(s), but min_rows='' @ int_str (tf_min_rows t))
                          (''at least '' @ int_str (tf_min_rows t) @ '' row(s)'') (int_str n @ '' row(s)'') ''min_rows''] else [])
                 @ (case tf_max_rows t of
                      Some k \<Rightarrow> if n > k
                        then [issue (tf_key t) (here @ '' has '' @ int_str n @ '' row(s), but max_rows='' @ int_str k)
                                (''at most '' @ int_str k @ '' row(s)'') (int_str n @ '' row(s)'') ''max_rows''] else []
                    | None \<Rightarrow> [])
                 @ errs, warns))
           | _ \<Rightarrow> ([issue (tf_key t) (here @ '' must be an array, got '' @ type_name v) ''array'' (type_name v) ''type''], []))"

definition check_field :: "value_env \<Rightarrow> bool \<Rightarrow> AnyField \<Rightarrow> json \<Rightarrow> ValidationIssue list \<times> ValidationIssue list" where
  "check_field env enforce f v = (case f of Scalar s \<Rightarrow> (check_scalar env enforce s v, []) | Table t \<Rightarrow> check_table enforce t v)"

definition unknown_keys :: "TemplateContract \<Rightarrow> jobject \<Rightarrow> ValidationIssue list" where
  "unknown_keys c d =
     map (\<lambda>p. issue p (''Unknown key '' @ apos @ p @ apos @ '' '' @ em_dash @ '' not in contract'') ''Known contract field'' ''Unknown key'' ''unknown_key'')
       (filter (\<lambda>p. p \<notin> set (map field_key (ct_fields c))) (collect_input_paths [] d))"

definition validate_values :: "value_env \<Rightarrow> TemplateContract \<Rightarrow> jobject \<Rightarrow> bool \<Rightarrow> ValidationReport" where
  "validate_values env c d enforce =
     (let normalized = normalize_values c d;
          rs = map (\<lambda>f. check_field env enforce f (dget_or JNull normalized (field_key f))) (ct_fields c)
      in report_of (concat (map fst rs)) (unknown_keys c d @ concat (map snd rs)))"

section \<open>Generated values\<close>

datatype loc = LocInt int | LocStr string

record pydantic_issue =
  pi_loc :: "loc list"
  pi_message :: string
  pi_type :: string
  pi_input :: json

fun format_parts :: "string list \<Rightarrow> loc list \<Rightarrow> string list" where
  "format_parts parts [] = parts"
| "format_parts parts (LocInt n # ls) =
     (let ix = ''['' @ int_str n @ '']'' in
      format_parts (if parts = [] then [ix] else butlast parts @ [last parts @ ix]) ls)"
| "format_parts parts (LocStr s # ls) = format_parts (parts @ [s]) ls"

definition format_validation_path :: "loc list \<Rightarrow> string" where
  "format_validation_path ls = join ''.'' (format_parts [] ls)"

text \<open>\<open>re.sub(r"\\[\\d+\\]", "", path)\<close> on ASCII digits\<close>

definition index_rest :: "string \<Rightarrow> string option" where
  "index_rest s = (let ds = takeWhile (\<lambda>c. c \<in> set ''0123456789'') s; r = drop (length ds) s in
     if ds \<noteq> [] \<and> r \<noteq> [] \<and> hd r = CHR '']'' then Some (tl r) else None)"

lemma index_rest_length: "index_rest s = Some r \<Longrightarrow> length r < length s"
  by (auto simp: index_rest_def Let_def split: if_splits)

function drop_indexes :: "string \<Rightarrow> string" where
  "drop_indexes [] = []"
| "drop_indexes (c # s) =
     (if c = CHR ''['' then (case index_rest s of Some r \<Rightarrow> drop_indexes r | None \<Rightarrow> c # drop_indexes s) else c # drop_indexes s)"
  by pat_completeness auto

termination
  by (relation "measure length") (auto dest: index_rest_length)

definition get_field :: "TemplateContract \<Rightarrow> string \<Rightarrow> AnyField option" where
  "get_field c key = find (\<lambda>f. field_key f = key) (ct_fields c)"

definition scalar_fields :: "TemplateContract \<Rightarrow> ScalarField list" where
  "scalar_fields c = List.map_filter (\<lambda>f. case f of Scalar s \<Rightarrow> Some s | _ \<Rightarrow> None) (ct_fields c)"

definition table_fields :: "TemplateContract \<Rightarrow> TableField list" where
  "table_fields c = List.map_filter (\<lambda>f. case f of Table t \<Rightarrow> Some t | _ \<Rightarrow> None) (ct_fields c)"

definition expected_text :: "value_env \<Rightarrow> FieldType \<Rightarrow> string list option \<Rightarrow> string" where
  "expected_text env ty e = (case e of
     Some (x # xs) \<Rightarrow> ''one of '' @ ve_render env (JArr (map JStr (x # xs)))
   | _ \<Rightarrow> type_value ty)"

definition describe_pydantic_validation_issue ::
    "value_env \<Rightarrow> TemplateContract \<Rightarrow> string \<Rightarrow> pydantic_issue \<Rightarrow> string option \<times> string option \<times> string option" where
  "describe_pydantic_validation_issue env c path p =
     (let plain = drop_indexes path;
          table_path = takeWhile (\<lambda>x. x \<noteq> CHR ''.'') plain;
          column_path = drop (Suc (length table_path)) plain;
          expected = (case get_field c plain of
              Some (Scalar f) \<Rightarrow> Some (expected_text env (sf_type f) (sf_enum f))
            | Some (Table t) \<Rightarrow> None
            | None \<Rightarrow>
                (case get_field c table_path of
                   Some (Table t) \<Rightarrow>
                     if column_path = [] then None
                     else map_option (\<lambda>k. expected_text env (cl_type k) (cl_enum k)) (find (\<lambda>k. cl_key k = column_path) (tf_columns t))
                 | _ \<Rightarrow> None))
      in (expected, if pi_input p = JNull then None else Some (type_name (pi_input p)), Some (str_or (pi_type p) ''validation'')))"

text \<open>\<open>pd_model\<close> validates values against the generated model and returns what it dumps.\<close>

definition validate_generated_values ::
    "value_env \<Rightarrow> (annotation \<Rightarrow> jobject \<Rightarrow> pydantic_issue list + jobject) \<Rightarrow> TemplateContract \<Rightarrow> jobject \<Rightarrow> ValidationReport option" where
  "validate_generated_values env pd_model c d =
     (case build_values_model (ve_render env) c of
        None \<Rightarrow> None
      | Some m \<Rightarrow>
          (case pd_model m d of
             Inl issues \<Rightarrow>
               Some (let details = map (\<lambda>p.
                         let path = format_validation_path (pi_loc p);
                             msg = str_or (pi_message p) ''Validation error'';
                             (expected, actual, rule) = describe_pydantic_validation_issue env c path p
                         in \<lparr>vi_path = path, vi_message = msg, vi_expected = expected, vi_actual = actual, vi_rule = rule\<rparr>) issues
                     in \<lparr>vr_errors = map (\<lambda>i. if vi_path i = [] then vi_message i else vi_path i @ '': '' @ vi_message i) details,
                         vr_warnings = [], vr_error_details = details, vr_warning_details = []\<rparr>)
           | Inr normalized \<Rightarrow> Some (validate_values env c normalized True)))"

end
