(* ===== verification/Template_Schema.thy ===== *)
theory Template_Schema
  imports Template_Roundtrip Template_Values
begin

text \<open>
  The two schemas that a contract gives, the one for filling and the one for the runtime, are built by the same
  steps with different names for the list of required properties. The locale states what both share and shows
  that a property stands where it was put, whatever is put beside it later.
\<close>

section \<open>Reading a schema\<close>

definition object_schema :: "jobject \<Rightarrow> bool" where
  "object_schema d \<longleftrightarrow> map_of d ''type'' = Some (JStr ''object'')"

definition property_of :: "json \<Rightarrow> string \<Rightarrow> json option" where
  "property_of j x = (case j of JObj d \<Rightarrow> if object_schema d then map_of (object_at d ''properties'') x else None | _ \<Rightarrow> None)"

definition names_of :: "string \<Rightarrow> json \<Rightarrow> string set" where
  "names_of k j = (case j of JObj d \<Rightarrow> if object_schema d then {x. JStr x \<in> set (array_at d k)} else {} | _ \<Rightarrow> {})"

fun property_at :: "string list \<Rightarrow> json \<Rightarrow> json option" where
  "property_at [] j = Some j"
| "property_at (x # xs) j = Option.bind (property_of j x) (property_at xs)"

text \<open>Every property on the path is listed as required under \<open>k\<close>; the last one is.\<close>

fun required_along :: "string \<Rightarrow> string list \<Rightarrow> json \<Rightarrow> bool" where
  "required_along k [] j \<longleftrightarrow> True"
| "required_along k (x # xs) j \<longleftrightarrow> x \<in> names_of k j \<and> (case property_of j x of None \<Rightarrow> False | Some v \<Rightarrow> required_along k xs v)"

fun required_last :: "string \<Rightarrow> string list \<Rightarrow> json \<Rightarrow> bool" where
  "required_last k [] j \<longleftrightarrow> False"
| "required_last k [x] j \<longleftrightarrow> x \<in> names_of k j"
| "required_last k (x # y # ys) j \<longleftrightarrow> (case property_of j x of None \<Rightarrow> False | Some v \<Rightarrow> required_last k (y # ys) v)"

lemma required_last_Cons:
  "required_last k (x # xs) j \<longleftrightarrow>
    (if xs = [] then x \<in> names_of k j else case property_of j x of None \<Rightarrow> False | Some v \<Rightarrow> required_last k xs v)"
  by (cases xs) (simp_all split: option.split)

lemma map_of_set_default: "map_of (set_default k v d) x = (if x = k \<and> map_of d k = None then Some v else map_of d x)"
  by (auto simp: set_default_def map_add_def split: option.split)

lemma set_property_schema:
  assumes "object_schema d"
  shows "object_schema (set_property x v d)"
    and "object_at (set_property x v d) ''properties'' = AList.update x v (object_at d ''properties'')"
    and "k \<noteq> ''properties'' \<Longrightarrow> array_at (set_property x v d) k = array_at d k"
  using assms
  by (auto simp: set_property_def Let_def object_schema_def object_at_def array_at_def update_conv map_of_set_default split: option.splits json.splits)

lemma add_name_schema:
  assumes "k \<noteq> ''type''" "k \<noteq> ''properties''"
  shows "object_schema (add_name k x d) = object_schema d" "object_at (add_name k x d) ''properties'' = object_at d ''properties''"
    "set (array_at (add_name k x d) k) = insert (JStr x) (set (array_at d k))"
  using assms by (auto simp: add_name_def Let_def object_schema_def object_at_def array_at_def update_conv map_of_set_default split: option.splits json.splits)

section \<open>Putting properties into a schema\<close>

locale nested_schema =
  fixes put :: "string list \<Rightarrow> json \<Rightarrow> bool \<Rightarrow> jobject \<Rightarrow> jobject"
    and mark :: "bool \<Rightarrow> string \<Rightarrow> jobject \<Rightarrow> jobject"
    and key :: string
    and fresh :: jobject
  assumes put_one: "put [x] v r d = mark r x (set_property x v d)"
    and put_more: "put (x # y # ys) v r d = mark r x (set_property x (JObj (put (y # ys) v r (child_object fresh x d))) d)"
    and mark_schema: "object_schema (mark r x d) = object_schema d"
    and mark_properties: "object_at (mark r x d) ''properties'' = object_at d ''properties''"
    and mark_names: "{y. JStr y \<in> set (array_at (mark r x d) key)} = {y. JStr y \<in> set (array_at d key)} \<union> (if r then {x} else {})"
    and key_properties: "key \<noteq> ''properties''"
    and fresh_schema: "object_schema fresh" "object_at fresh ''properties'' = []" "array_at fresh key = []"
begin

lemma marked_property:
  assumes "object_schema d"
  shows "property_of (JObj (mark r x (set_property x v d))) y = (if y = x then Some v else property_of (JObj d) y)"
    and "names_of key (JObj (mark r x (set_property x v d))) = names_of key (JObj d) \<union> (if r then {x} else {})"
  using assms by (simp_all add: property_of_def names_of_def mark_schema mark_properties mark_names set_property_schema key_properties update_conv)

lemma put_schema: "object_schema d \<Longrightarrow> xs \<noteq> [] \<Longrightarrow> object_schema (put xs v r d)"
  by (cases xs rule: remdups_adj.cases) (auto simp: put_one put_more mark_schema set_property_schema)

lemma put_steps:
  assumes "object_schema d"
  shows "property_of (JObj (put (x # xs) v r d)) y =
      (if y = x then Some (if xs = [] then v else JObj (put xs v r (child_object fresh x d))) else property_of (JObj d) y)"
    and "names_of key (JObj (put (x # xs) v r d)) = names_of key (JObj d) \<union> (if r then {x} else {})"
  using assms by (cases xs; simp add: put_one put_more marked_property)+

lemma child_schema: "object_schema (child_object fresh x d)"
  by (auto simp: child_object_def fresh_schema object_schema_def [symmetric] split: option.split json.split)

lemma fresh_empty: "property_of (JObj fresh) x = None" "names_of key (JObj fresh) = {}"
  by (simp_all add: property_of_def names_of_def fresh_schema)

text \<open>The child that is put in place of another has at least what can be read of that one.\<close>

lemma child_reads:
  assumes "object_schema d" "property_of (JObj d) x = Some j"
  shows "property_of (JObj (child_object fresh x d)) y = property_of j y" "names_of key (JObj (child_object fresh x d)) = names_of key j"
  using assms fresh_empty
  by (auto simp: property_of_def names_of_def child_object_def object_schema_def split: json.splits if_splits)

lemma child_new:
  assumes "object_schema d" "property_of (JObj d) x = None"
  shows "child_object fresh x d = fresh"
  using assms by (simp add: property_of_def child_object_def)

lemma property_at_child: "object_schema d \<Longrightarrow> ys \<noteq> [] \<Longrightarrow> property_at ys (JObj (child_object fresh x d)) = Option.bind (property_of (JObj d) x) (property_at ys)"
  by (cases "property_of (JObj d) x"; cases ys) (simp_all add: child_new fresh_empty child_reads)

lemma required_along_child:
  "object_schema d \<Longrightarrow> property_of (JObj d) x = Some j \<Longrightarrow> required_along key ys j \<Longrightarrow> required_along key ys (JObj (child_object fresh x d))"
  by (cases ys) (simp_all add: child_reads)

lemma required_last_child:
  "object_schema d \<Longrightarrow> required_last key ys (JObj (child_object fresh x d)) =
    (case property_of (JObj d) x of None \<Rightarrow> False | Some j \<Rightarrow> required_last key ys j)"
  by (cases "property_of (JObj d) x"; cases ys rule: remdups_adj.cases) (simp_all add: child_new fresh_empty child_reads)

lemma put_reads_back:
  "object_schema d \<Longrightarrow> xs \<noteq> [] \<Longrightarrow> property_at xs (JObj (put xs v r d)) = Some v
    \<and> (r \<longrightarrow> required_along key xs (JObj (put xs v r d)))
    \<and> (required_last key xs (JObj (put xs v r d)) \<longleftrightarrow> r \<or> required_last key xs (JObj d))"
proof (induction xs arbitrary: d)
  case (Cons x xs)
  then show ?case using Cons.IH [OF child_schema [of x d]] Cons.prems
    by (auto simp: required_last_Cons put_steps required_last_child split: option.split)
qed simp

lemma put_beside:
  "object_schema d \<Longrightarrow> parallel xs ys \<Longrightarrow> property_at ys (JObj (put xs v r d)) = property_at ys (JObj d)
    \<and> (required_along key ys (JObj d) \<longrightarrow> required_along key ys (JObj (put xs v r d)))
    \<and> (required_last key ys (JObj (put xs v r d)) \<longleftrightarrow> required_last key ys (JObj d))"
proof (induction xs arbitrary: ys d)
  case (Cons x xs)
  obtain y zs where ys: "ys = y # zs" using Cons.prems(2) by (cases ys) auto
  show ?case
  proof (cases "y = x")
    case True
    then have deep: "xs \<noteq> []" "zs \<noteq> []" "parallel xs zs" using Cons.prems(2) by (auto simp: ys parallel_def)
    note child = Cons.IH [OF child_schema [of x d] deep(3)]
    have "required_along key zs (JObj (put xs v r (child_object fresh x d)))"
      if "required_along key (y # zs) (JObj d)"
      using that child required_along_child [OF Cons.prems(1), of x _ zs] True by (auto split: option.splits)
    then show ?thesis using child deep Cons.prems(1) True
      by (auto simp: ys required_last_Cons put_steps required_last_child property_at_child)
  qed (use Cons.prems(1) in \<open>auto simp: ys put_steps required_last_Cons\<close>)
qed (simp add: parallel_def)

text \<open>After all properties are put, each stands at its path, and exactly the required ones are listed there.\<close>

lemma fold_put:
  assumes "object_schema d" "distinct (map path xs)" "pairwise parallel (set (map path xs))"
    and "\<And>x. x \<in> set xs \<Longrightarrow> path x \<noteq> []" "\<And>x. x \<in> set xs \<Longrightarrow> \<not> required_last key (path x) (JObj d)" "x \<in> set xs"
  shows "property_at (path x) (JObj (fold (\<lambda>x. put (path x) (prop x) (req x)) xs d)) = Some (prop x)
    \<and> (req x \<longrightarrow> required_along key (path x) (JObj (fold (\<lambda>x. put (path x) (prop x) (req x)) xs d)))
    \<and> (required_last key (path x) (JObj (fold (\<lambda>x. put (path x) (prop x) (req x)) xs d)) \<longleftrightarrow> req x)"
proof -
  have keep: "property_at p (JObj (fold (\<lambda>x. put (path x) (prop x) (req x)) zs e)) = property_at p (JObj e)
      \<and> (required_along key p (JObj e) \<longrightarrow> required_along key p (JObj (fold (\<lambda>x. put (path x) (prop x) (req x)) zs e)))
      \<and> (required_last key p (JObj (fold (\<lambda>x. put (path x) (prop x) (req x)) zs e)) = required_last key p (JObj e))"
    if "object_schema e" "\<forall>z \<in> set zs. path z \<noteq> [] \<and> parallel (path z) p" for p zs e
    using that
  proof (induction zs arbitrary: e)
    case (Cons z zs)
    then show ?case using put_beside [of e "path z" p "prop z" "req z"] put_schema [of e "path z" "prop z" "req z"] by auto
  qed simp
  have schema: "object_schema (fold (\<lambda>x. put (path x) (prop x) (req x)) zs e)" if "object_schema e" "\<forall>z \<in> set zs. path z \<noteq> []" for zs e
    using that by (induction zs arbitrary: e) (auto simp: put_schema)
  obtain as bs where xs: "xs = as @ x # bs" using assms(6) by (auto simp: in_set_conv_decomp)
  have other: "path z \<noteq> [] \<and> parallel (path z) (path x)" if "z \<in> set as \<union> set bs" for z
    using assms(2-4) that by (auto simp: xs pairwise_def) (metis UnI1 UnI2 imageI)+
  let ?d = "fold (\<lambda>x. put (path x) (prop x) (req x)) as d"
  have one: "object_schema ?d" "\<not> required_last key (path x) (JObj ?d)" "path x \<noteq> []"
    using schema [of d as] keep [of d as "path x"] other assms(1,4,5,6) by auto
  then show ?thesis
    using put_reads_back [OF one(1,3), of "prop x" "req x"] keep [OF put_schema [OF one(1,3), of "prop x" "req x"], of bs "path x"] other
    by (auto simp: xs)
qed

end

section \<open>The schemas of a contract\<close>

definition fill_mark :: "bool \<Rightarrow> string \<Rightarrow> jobject \<Rightarrow> jobject" where
  "fill_mark r x d = (if r then add_name ''required'' x d else d)"

definition runtime_mark :: "bool \<Rightarrow> string \<Rightarrow> jobject \<Rightarrow> jobject" where
  "runtime_mark r x d = (let d1 = set_default ''required_fields'' (JArr []) d in if r then add_name ''required_fields'' x d1 else d1)"

lemma set_default_names:
  assumes "k \<noteq> ''type''" "k \<noteq> ''properties''"
  shows "object_schema (set_default k (JArr []) d) = object_schema d"
    "object_at (set_default k (JArr []) d) ''properties'' = object_at d ''properties''" "array_at (set_default k (JArr []) d) k = array_at d k"
  using assms by (auto simp: object_schema_def object_at_def array_at_def map_of_set_default split: option.split)

definition runtime_object :: jobject where
  "runtime_object = [(''type'', JStr ''object''), (''properties'', JObj []), (''required'', JBool False)]"

lemma empty_schema_reads:
  "object_schema empty_schema" "object_at empty_schema ''properties'' = []" "array_at empty_schema ''required'' = []"
  "object_schema runtime_object" "object_at runtime_object ''properties'' = []" "array_at runtime_object ''required_fields'' = []"
  by (simp_all add: empty_schema_def runtime_object_def object_schema_def object_at_def array_at_def)

interpretation fill_schema: nested_schema assign_nested_schema_property fill_mark "''required''" empty_schema
  by unfold_locales (auto simp: fill_mark_def add_name_schema Let_def empty_schema_reads simp flip: empty_schema_def)

interpretation runtime_schema: nested_schema assign_nested_runtime_property runtime_mark "''required_fields''" runtime_object
  by unfold_locales (auto simp: runtime_mark_def add_name_schema set_default_names Let_def empty_schema_reads simp flip: runtime_object_def)

text \<open>A schema lists a property: it stands at its path, it is required exactly when it should be, and then so is every object above it.\<close>

definition lists_property :: "string \<Rightarrow> string \<Rightarrow> json \<Rightarrow> bool \<Rightarrow> jobject \<Rightarrow> bool" where
  "lists_property k path prop req d \<longleftrightarrow> property_at (segments path) (JObj d) = Some prop
     \<and> (required_last k (segments path) (JObj d) \<longleftrightarrow> req) \<and> (req \<longrightarrow> required_along k (segments path) (JObj d))"

lemma empty_schema_names: "\<not> required_last k xs (JObj empty_schema)"
  by (cases xs rule: remdups_adj.cases) (auto simp: property_of_def names_of_def empty_schema_def object_schema_def object_at_def array_at_def)

lemma schema_lists:
  assumes keys: "parallel_keys (map path xs)" and x: "x \<in> set xs"
  shows "lists_property ''required'' (path x) (prop x) (req x)
      (fold (\<lambda>x. assign_nested_schema_property (segments (path x)) (prop x) (req x)) xs empty_schema)"
    and "lists_property ''required_fields'' (path x) (prop x) (req x)
      (fold (\<lambda>x. assign_nested_runtime_property (segments (path x)) (prop x) (req x)) xs empty_schema)"
proof -
  have ne: "segments k \<noteq> []" for k by (induction k) (auto simp: segments_def split: list.split)
  show "lists_property ''required'' (path x) (prop x) (req x)
      (fold (\<lambda>x. assign_nested_schema_property (segments (path x)) (prop x) (req x)) xs empty_schema)"
    using fill_schema.fold_put [where path = "\<lambda>x. segments (path x)", OF empty_schema_reads(1) parallel_keysD(2) [OF keys]
      parallel_keysD(1) [OF keys] ne empty_schema_names x, of "prop" req]
    by (simp add: lists_property_def)
  show "lists_property ''required_fields'' (path x) (prop x) (req x)
      (fold (\<lambda>x. assign_nested_runtime_property (segments (path x)) (prop x) (req x)) xs empty_schema)"
    using runtime_schema.fold_put [where path = "\<lambda>x. segments (path x)", OF empty_schema_reads(1) parallel_keysD(2) [OF keys]
      parallel_keysD(1) [OF keys] ne empty_schema_names x, of "prop" req]
    by (simp add: lists_property_def)
qed

text \<open>What the two schemas say of a field, and of the columns of a table.\<close>

definition field_listed :: "TemplateContract \<Rightarrow> AnyField \<Rightarrow> bool" where
  "field_listed c f \<longleftrightarrow> lists_property ''required'' (field_key f) (field_property f) (field_required f) (to_fill_input_schema c)
     \<and> lists_property ''required_fields'' (field_key f) (runtime_node f) (field_required f) (to_runtime_schema c)"

definition columns_listed :: "TableField \<Rightarrow> bool" where
  "columns_listed t \<longleftrightarrow> list_all (\<lambda>c. lists_property ''required'' (cl_key c) (column_property c) (cl_required c) (item_schema t)
     \<and> lists_property ''required_fields'' (cl_key c) (column_runtime_node c) (cl_required c) (item_runtime_schema t)) (tf_columns t)"

lemma fields_listed: "parallel_keys (map field_key (ct_fields c)) \<Longrightarrow> f \<in> set (ct_fields c) \<Longrightarrow> field_listed c f"
  using schema_lists [of field_key "ct_fields c" f] by (simp add: field_listed_def to_fill_input_schema_def to_runtime_schema_def)

lemma table_columns_listed: "parallel_keys (map cl_key (tf_columns t)) \<Longrightarrow> columns_listed t"
  using schema_lists [of cl_key "tf_columns t"] by (simp add: columns_listed_def list_all_iff item_schema_def item_runtime_schema_def)

end
