(* ===== verification/Template_Theorems.thy ===== *)
theory Template_Theorems
  imports Template_Schema
begin

text \<open>
  The properties of template contracts: what a merge keeps and takes over, when values are accepted, and where the
  schemas list a field.
\<close>

section \<open>A contract\<close>

definition demo_scalar :: "string \<Rightarrow> FieldType \<Rightarrow> bool \<Rightarrow> FieldSource \<Rightarrow> AnyField" where
  "demo_scalar key ty required source = Scalar \<lparr>sf_key = key, sf_label = ''Label'', sf_description = None, sf_type = ty,
     sf_required = required, sf_example = Some ''x'', sf_enum = None, sf_format = None, sf_locator = Some ''{{x}}'',
     sf_source = source, sf_locked = False\<rparr>"

definition demo_column :: "string \<Rightarrow> FieldType \<Rightarrow> TableColumn" where
  "demo_column key ty = \<lparr>cl_key = key, cl_label = ''Column'', cl_description = None, cl_type = ty, cl_required = True, cl_example = None,
     cl_enum = (if ty = TyEnum then Some [''kg'', ''m''] else None), cl_locator = None, cl_source = SrcParser, cl_locked = False\<rparr>"

definition demo_table :: AnyField where
  "demo_table = Table \<lparr>tf_key = ''order.items'', tf_label = ''Items'', tf_description = Some ''Rows'', tf_orientation = Vertical,
     tf_required = True, tf_min_rows = 1, tf_max_rows = Some 9,
     tf_anchor = Some \<lparr>ta_sheet = Some ''Sheet'', ta_marker = \<lparr>ma_loop_tokens = [''{{n}}''], ma_row = 4, ma_columns = [(''{{n}}'', 2)]\<rparr>\<rparr>,
     tf_columns = [demo_column ''name'' TyString, demo_column ''price.net'' TyNumber, demo_column ''unit'' TyEnum, demo_column ''price.vat'' TyNumber],
     tf_source = SrcParser, tf_locked = False\<rparr>"

definition demo_template :: TemplateContract where
  "demo_template = \<lparr>ct_version = TEMPLATE_CONTRACT_VERSION, ct_format = Some Excel,
     ct_fields = [demo_scalar ''client.name'' TyString True SrcAdmin, demo_scalar ''date'' TyDate False SrcLlm, demo_table,
       demo_scalar ''client.phone'' TyString False SrcParser], ct_meta = []\<rparr>"

definition demo_analysis :: TemplateContract where
  "demo_analysis = \<lparr>ct_version = TEMPLATE_CONTRACT_VERSION, ct_format = None,
     ct_fields = [demo_scalar ''total'' TyNumber True SrcLlm, demo_scalar ''client.name'' TyNumber False SrcLlm,
       demo_scalar ''date'' TyString True SrcLlm], ct_meta = []\<rparr>"

definition demo_pydantic :: pydantic where
  "demo_pydantic = \<lparr>pd_str = (\<lambda>j. case j of JStr s \<Rightarrow> Some s | _ \<Rightarrow> None), pd_bool = (\<lambda>j. case j of JBool b \<Rightarrow> Some b | _ \<Rightarrow> None),
     pd_int = (\<lambda>j. case j of JInt n \<Rightarrow> Some n | _ \<Rightarrow> None)\<rparr>"

lemmas demo_fields = demo_template_def demo_analysis_def demo_scalar_def demo_column_def demo_table_def

lemma demo_template_ok: "contract_ok demo_template"
  by (simp add: contract_ok_def demo_fields parallel_keys_def segments_def pairwise_def parallel_def good_segment_def strip_def is_space_def
    scalar_ok_def table_ok_def column_ok_def enum_ok_def locator_ok_def anchor_ok_def)

lemma demo_pydantic_reads: "reads_exactly demo_pydantic"
  by (simp add: reads_exactly_def demo_pydantic_def)

section \<open>Storing a contract\<close>

text \<open>
  C23. A stored contract is read back with its version, its format and all its fields, each with its columns;
  only the order follows the document. The keys must be dotted paths of stripped non-empty segments, none a
  prefix of another.
\<close>

theorem stored_contract_reads_back:
  assumes pd: "reads_exactly pd" and c: "contract_ok c"
  shows "\<exists>fs. mset fs = mset (ct_fields c) \<and> list_all2 same_field fs (ct_fields (from_jsonb render pd (to_jsonb c)))
    \<and> ct_version (from_jsonb render pd (to_jsonb c)) = ct_version c \<and> ct_format (from_jsonb render pd (to_jsonb c)) = ct_format c"
proof -
  obtain fs gs meta where fs: "mset fs = mset (ct_fields c)" "list_all2 same_field fs gs"
      and doc: "if list_ex hierarchical (build_hierarchical_fields c)
       then (\<exists>flat. flatten_hierarchical_fields render (build_hierarchical_fields c) [] ([], []) = Some (flat, meta)
              \<and> all_some (map (parse_field pd) flat) = Some gs)
       else all_some (map (parse_object (parse_field pd)) (build_hierarchical_fields c)) = Some gs"
    using document_fields_read [OF pd c, of render] by metis
  have meta: "parse_meta pd (JObj (map (\<lambda>(k, m). (k, JObj m)) meta)) = Some meta"
    by (simp add: parse_meta_def parse_object_def comp_def split_beta all_some_map [where g = id])
  have fmt: "nullable (parse_enum format_value [Excel]) (case ct_format c of None \<Rightarrow> JNull | Some f \<Rightarrow> JStr (format_value f)) = Some (ct_format c)"
    by (simp add: nullable_def split: option.split)
  have "\<exists>m. model_validate render pd (to_jsonb c) = Some \<lparr>ct_version = ct_version c, ct_format = ct_format c, ct_fields = gs, ct_meta = m\<rparr>"
    using doc meta fmt pd
    by (auto simp: model_validate_def normalize_incoming_contract_def to_jsonb_def parse_contract_def with_default_def optional_at_def
      parse_list_def reads_simps comp_def parse_object_def split: if_splits)
  then show ?thesis using fs by (intro exI [of _ fs]) (auto simp: from_jsonb_def to_jsonb_def)
qed

theorem stored_contract_reads_back_witness:
  "(\<exists>fs. mset fs = mset (ct_fields demo_template)
      \<and> list_all2 same_field fs (ct_fields (from_jsonb (\<lambda>_. []) demo_pydantic (to_jsonb demo_template))))
   \<and> ct_format (from_jsonb (\<lambda>_. []) demo_pydantic (to_jsonb demo_template)) = Some Excel
   \<and> map field_key (ct_fields (from_jsonb (\<lambda>_. []) demo_pydantic (to_jsonb demo_template))) =
      [''client.name'', ''client.phone'', ''date'', ''order.items'']"
proof -
  have "ct_format demo_template = Some Excel" by (simp add: demo_template_def)
  moreover have "map field_key (ct_fields (from_jsonb (\<lambda>_. []) demo_pydantic (to_jsonb demo_template))) =
      [''client.name'', ''client.phone'', ''date'', ''order.items'']"
    by code_simp
  ultimately show ?thesis
    using stored_contract_reads_back [OF demo_pydantic_reads demo_template_ok, of "\<lambda>_. []"] by auto
qed

text \<open>
  Outside of these contracts fields are lost: a key that is the beginning of another is overwritten by an object,
  and a table without columns, which its default allows, makes the whole document unreadable.
\<close>

lemma overlapping_keys_lose_a_field:
  "map field_key (ct_fields (from_jsonb (\<lambda>_. []) demo_pydantic (to_jsonb
     (demo_template\<lparr>ct_fields := [demo_scalar ''client'' TyString True SrcAdmin, demo_scalar ''client.name'' TyString False SrcLlm]\<rparr>)))) = [''client.name'']"
  by code_simp

lemma empty_table_loses_the_contract:
  "map_option (\<lambda>t. ct_fields (from_jsonb (\<lambda>_. []) demo_pydantic (to_jsonb
       (demo_template\<lparr>ct_fields := [demo_scalar ''date'' TyDate True SrcAdmin, Table t]\<rparr>))))
     (parse_table demo_pydantic [(''key'', JStr ''items''), (''label'', JStr ''Items'')]) = Some []"
  by code_simp

section \<open>Schemas\<close>



section \<open>Merging\<close>

definition distinct_keys :: "AnyField list \<Rightarrow> bool" where
  "distinct_keys fs \<longleftrightarrow> distinct (map field_key fs)"

lemma proposed_by_key_Some: "proposed_by_key fs k = Some p \<Longrightarrow> p \<in> set fs \<and> field_key p = k"
  unfolding proposed_by_key_def by (auto dest: find_SomeD)

lemma proposed_by_key_None: "proposed_by_key fs k = None \<longleftrightarrow> k \<notin> field_key ` set fs"
  by (auto simp: proposed_by_key_def find_None_iff)

lemma proposed_by_key_unique: "distinct_keys fs \<Longrightarrow> p \<in> set fs \<Longrightarrow> proposed_by_key fs (field_key p) = Some p"
proof -
  assume fs: "distinct_keys fs" "p \<in> set fs"
  then obtain q where q: "proposed_by_key fs (field_key p) = Some q" using proposed_by_key_None by fastforce
  then show ?thesis using proposed_by_key_Some [OF q] fs by (auto simp: distinct_keys_def distinct_map inj_on_def)
qed

text \<open>Which keys of the existing contract stay.\<close>

definition stays :: "AnyField list \<Rightarrow> AnyField \<Rightarrow> bool" where
  "stays proposed f \<longleftrightarrow> is_protected f \<or> field_key f \<in> field_key ` set proposed"

definition replacement :: "AnyField list \<Rightarrow> AnyField \<Rightarrow> AnyField" where
  "replacement proposed f = (if is_protected f then f else the (proposed_by_key proposed (field_key f)))"

lemma merge_existing_eq: "merge_existing proposed fs = map (replacement proposed) (filter (stays proposed) fs)"
proof (induction fs)
  case (Cons f fs)
  then show ?case
    using proposed_by_key_None [of proposed "field_key f"]
    by (cases "proposed_by_key proposed (field_key f)") (auto simp: stays_def replacement_def)
qed simp

lemma replacement_key: "stays proposed f \<Longrightarrow> field_key (replacement proposed f) = field_key f"
proof (cases "is_protected f")
  case False
  assume "stays proposed f"
  then obtain p where "proposed_by_key proposed (field_key f) = Some p"
    using False proposed_by_key_None [of proposed "field_key f"] by (auto simp: stays_def)
  then show ?thesis using False proposed_by_key_Some by (auto simp: replacement_def)
qed (simp add: replacement_def)

lemma merge_existing_keys: "map field_key (merge_existing proposed fs) = map field_key (filter (stays proposed) fs)"
  by (simp add: merge_existing_eq replacement_key)

lemma append_new_eq: "distinct_keys ps \<Longrightarrow> append_new consumed ps = filter (\<lambda>p. field_key p \<notin> consumed) ps"
proof (induction ps arbitrary: consumed)
  case (Cons p ps)
  have "filter (\<lambda>q. field_key q \<notin> insert (field_key p) consumed) ps = filter (\<lambda>q. field_key q \<notin> consumed) ps"
    using Cons.prems by (intro filter_cong) (force simp: distinct_keys_def image_iff)+
  then show ?case using Cons by (simp add: distinct_keys_def)
qed simp

lemma merge_fields:
  assumes "distinct_keys (ct_fields p)"
  shows "ct_fields (merge_contract e p) = map (replacement (ct_fields p)) (filter (stays (ct_fields p)) (ct_fields e))
    @ filter (\<lambda>q. field_key q \<notin> field_key ` set (filter (stays (ct_fields p)) (ct_fields e))) (ct_fields p)"
proof -
  have "field_key ` set (merge_existing (ct_fields p) (ct_fields e)) = field_key ` set (filter (stays (ct_fields p)) (ct_fields e))"
    by (metis merge_existing_keys list.set_map)
  then show ?thesis using assms by (simp add: merge_contract_def Let_def append_new_eq) (simp add: merge_existing_eq)
qed

definition guarded_fields :: "TemplateContract \<Rightarrow> AnyField list" where
  "guarded_fields c = filter is_protected (ct_fields c)"

lemma merge_set:
  assumes e: "distinct_keys (ct_fields e)" and p: "distinct_keys (ct_fields p)"
  shows "set (ct_fields (merge_contract e p)) =
    set (guarded_fields e) \<union> {f \<in> set (ct_fields p). field_key f \<notin> field_key ` set (guarded_fields e)}" (is "?m = ?g \<union> ?n")
proof -
  have key: "f = g" if "f \<in> set (ct_fields e)" "g \<in> set (ct_fields e)" "field_key f = field_key g" for f g
    using that e by (auto simp: distinct_keys_def distinct_map inj_on_def)
  have old: "replacement (ct_fields p) f \<in> ?n" if f: "f \<in> set (ct_fields e)" "\<not> is_protected f" "stays (ct_fields p) f" for f
  proof -
    obtain q where q: "q \<in> set (ct_fields p)" "field_key q = field_key f" using f by (auto simp: stays_def)
    then have "replacement (ct_fields p) f = q" using proposed_by_key_unique [OF p q(1)] f(2) by (simp add: replacement_def)
    then show ?thesis using q f key by (auto simp: guarded_fields_def)
  qed
  have new: "q \<in> ?m" if q: "q \<in> ?n" for q
  proof (cases "field_key q \<in> field_key ` set (filter (stays (ct_fields p)) (ct_fields e))")
    case True
    then obtain f where f: "f \<in> set (ct_fields e)" "stays (ct_fields p) f" "field_key f = field_key q" by auto
    have "\<not> is_protected f"
    proof
      assume "is_protected f"
      then have "f \<in> ?g" using f(1) by (simp add: guarded_fields_def)
      then have "field_key q \<in> field_key ` ?g" using f(3) by (metis imageI)
      then show False using q by simp
    qed
    then have "replacement (ct_fields p) f = q" using proposed_by_key_unique [OF p, of q] q f(3) by (simp add: replacement_def)
    then show ?thesis using f by (auto simp: merge_fields [OF p])
  next
    case False
    then show ?thesis using q by (auto simp: merge_fields [OF p])
  qed
  have "?g \<subseteq> ?m" by (force simp: merge_fields [OF p] guarded_fields_def stays_def replacement_def)
  moreover have "?m \<subseteq> ?g \<union> ?n"
  proof
    fix x assume "x \<in> ?m"
    then consider f where "f \<in> set (ct_fields e)" "stays (ct_fields p) f" "x = replacement (ct_fields p) f"
      | "x \<in> set (ct_fields p)" "field_key x \<notin> field_key ` set (filter (stays (ct_fields p)) (ct_fields e))"
      by (auto simp: merge_fields [OF p])
    then show "x \<in> ?g \<union> ?n"
    proof cases
      case 1
      then show ?thesis using old by (cases "is_protected f") (auto simp: replacement_def guarded_fields_def)
    next
      case 2
      then show ?thesis by (auto simp: guarded_fields_def stays_def)
    qed
  qed
  ultimately show ?thesis using new by blast
qed

lemma merge_keys:
  assumes "distinct_keys (ct_fields p)"
  shows "map field_key (ct_fields (merge_contract e p)) = map field_key (filter (stays (ct_fields p)) (ct_fields e))
    @ map field_key (filter (\<lambda>q. field_key q \<notin> field_key ` set (ct_fields e)) (ct_fields p))"
proof -
  have "filter (\<lambda>q. field_key q \<notin> field_key ` set (filter (stays (ct_fields p)) (ct_fields e))) (ct_fields p)
      = filter (\<lambda>q. field_key q \<notin> field_key ` set (ct_fields e)) (ct_fields p)"
  proof (rule filter_cong [OF refl])
    fix q assume q: "q \<in> set (ct_fields p)"
    have "stays (ct_fields p) f" if "field_key q = field_key f" for f
      using that q by (metis image_eqI stays_def)
    then show "(field_key q \<notin> field_key ` set (filter (stays (ct_fields p)) (ct_fields e))) = (field_key q \<notin> field_key ` set (ct_fields e))"
      by (auto simp: image_iff)
  qed
  then show ?thesis by (simp add: merge_fields [OF assms] replacement_key)
qed

lemma merge_distinct:
  assumes "distinct_keys (ct_fields e)" "distinct_keys (ct_fields p)"
  shows "distinct_keys (ct_fields (merge_contract e p))"
  using assms unfolding distinct_keys_def merge_keys [OF assms(2)] by (auto simp: distinct_map_filter) (metis image_eqI)

lemma merge_again:
  assumes e: "distinct_keys (ct_fields e)" and p: "distinct_keys (ct_fields p)"
  shows "ct_fields (merge_contract (merge_contract e p) p) = ct_fields (merge_contract e p)"
proof -
  let ?m = "ct_fields (merge_contract e p)"
  note m = merge_set [OF e p]
  have stay: "stays (ct_fields p) f \<and> replacement (ct_fields p) f = f" if "f \<in> set ?m" for f
    using that proposed_by_key_unique [OF p, of f] unfolding m by (auto simp: guarded_fields_def stays_def replacement_def)
  then have "filter (stays (ct_fields p)) ?m = ?m" "map (replacement (ct_fields p)) ?m = ?m"
    by (auto intro: map_idI)
  moreover have "field_key q \<in> field_key ` set ?m" if "q \<in> set (ct_fields p)" for q
    using that unfolding m by auto
  ultimately show ?thesis by (simp add: merge_fields [OF p, of "merge_contract e p"])
qed

text \<open>
  C24. Merging an analysis into a contract keeps every locked or administered field as it is, takes every other field
  of the analysis over unchanged and drops the rest; what was there comes first and in its order, no key
  appears twice, and merging the same analysis again changes no field.
\<close>

theorem merge_protects_and_updates:
  assumes "distinct_keys (ct_fields e)" and "distinct_keys (ct_fields p)"
  shows "set (ct_fields (merge_contract e p)) =
      set (guarded_fields e) \<union> {f \<in> set (ct_fields p). field_key f \<notin> field_key ` set (guarded_fields e)}
    \<and> map field_key (ct_fields (merge_contract e p)) = map field_key (filter (stays (ct_fields p)) (ct_fields e))
      @ map field_key (filter (\<lambda>q. field_key q \<notin> field_key ` set (ct_fields e)) (ct_fields p))
    \<and> distinct_keys (ct_fields (merge_contract e p))
    \<and> ct_fields (merge_contract (merge_contract e p) p) = ct_fields (merge_contract e p)"
  by (intro conjI merge_set merge_keys merge_distinct merge_again assms)

theorem merge_protects_and_updates_witness:
  "map field_key (ct_fields (merge_contract demo_template demo_analysis)) = [''client.name'', ''date'', ''total'']
   \<and> set (guarded_fields demo_template) \<subseteq> set (ct_fields (merge_contract demo_template demo_analysis))
   \<and> ct_fields (merge_contract (merge_contract demo_template demo_analysis) demo_analysis) = ct_fields (merge_contract demo_template demo_analysis)"
proof -
  have keys: "distinct_keys (ct_fields demo_template)" "distinct_keys (ct_fields demo_analysis)"
    by (simp_all add: distinct_keys_def demo_fields)
  have "map field_key (filter (stays (ct_fields demo_analysis)) (ct_fields demo_template)) = [''client.name'', ''date'']"
    by (simp add: stays_def is_protected_def demo_fields)
  moreover have "map field_key (filter (\<lambda>q. field_key q \<notin> field_key ` set (ct_fields demo_template)) (ct_fields demo_analysis)) = [''total'']"
    by (simp add: demo_fields)
  ultimately show ?thesis using merge_protects_and_updates [OF keys] by simp
qed

section \<open>Validation\<close>

text \<open>When a value fits a field, without regard to messages.\<close>

definition type_fits :: "value_env \<Rightarrow> FieldType \<Rightarrow> json \<Rightarrow> bool" where
  "type_fits env ty v \<longleftrightarrow> (case ty of
     TyNumber \<Rightarrow> (case v of JBool _ \<Rightarrow> False | JInt _ \<Rightarrow> True | JFloat _ \<Rightarrow> True | _ \<Rightarrow> ve_float env (py_str (ve_render env) v) \<noteq> None)
   | TyBool \<Rightarrow> (case v of JBool _ \<Rightarrow> True | _ \<Rightarrow> lower (py_str (ve_render env) v) \<in> {''true'', ''false'', ''1'', ''0''})
   | _ \<Rightarrow> True)"

definition row_fits :: "bool \<Rightarrow> TableField \<Rightarrow> json \<Rightarrow> bool" where
  "row_fits enforce t row \<longleftrightarrow> (\<exists>d. row = JObj d
     \<and> (enforce \<longrightarrow> (\<forall>c \<in> set (tf_columns t). cl_required c \<longrightarrow> \<not> blank_value (dget_or JNull (flatten_nested_value [] d) (cl_key c)))))"

definition value_fits :: "value_env \<Rightarrow> bool \<Rightarrow> AnyField \<Rightarrow> json \<Rightarrow> bool" where
  "value_fits env enforce f v \<longleftrightarrow> (case f of
     Scalar s \<Rightarrow> (enforce \<and> sf_required s \<longrightarrow> \<not> blank_value v) \<and> (v \<noteq> JNull \<longrightarrow> type_fits env (sf_type s) v)
   | Table t \<Rightarrow> (enforce \<and> tf_required t \<longrightarrow> v \<noteq> JNull \<and> v \<noteq> JArr [])
       \<and> (v \<noteq> JNull \<longrightarrow> (\<exists>rows. v = JArr rows \<and> tf_min_rows t \<le> int (length rows)
            \<and> (case tf_max_rows t of None \<Rightarrow> True | Some n \<Rightarrow> int (length rows) \<le> n) \<and> list_all (row_fits enforce t) rows)))"

lemma check_type_fits: "check_scalar_type env key v ty = None \<longleftrightarrow> type_fits env ty v"
  by (auto simp: check_scalar_type_def type_fits_def Let_def split: FieldType.split json.split)

lemma check_type_message: "check_scalar_type env key v ty \<noteq> Some []"
  by (auto simp: check_scalar_type_def Let_def split: FieldType.split json.split)

lemma check_scalar_fits: "check_scalar env enforce s v = [] \<longleftrightarrow> value_fits env enforce (Scalar s) v"
  using check_type_fits [of env "sf_key s" v "sf_type s"] check_type_message [of env "sf_key s" v "sf_type s"]
  by (cases "check_scalar_type env (sf_key s) v (sf_type s)") (auto simp: check_scalar_def value_fits_def blank_value_def)

lemma check_row_fits: "fst (check_row enforce t i row) = [] \<longleftrightarrow> row_fits enforce t row"
  by (cases row) (auto simp: check_row_def row_fits_def Let_def filter_empty_conv)

lemma check_rows_fits: "fst (check_rows enforce t rows) = [] \<longleftrightarrow> list_all (row_fits enforce t) rows"
proof -
  have "fst (check_rows enforce t rows) = [] \<longleftrightarrow> (\<forall>x \<in> set (enumerate 0 rows). row_fits enforce t (snd x))"
    by (auto simp: check_rows_def Let_def split_beta check_row_fits)
  also have "\<dots> \<longleftrightarrow> (\<forall>r \<in> set rows. row_fits enforce t r)"
    by (metis (no_types, lifting) image_iff list.set_map map_snd_enumerate)
  finally show ?thesis by (simp add: list_all_iff)
qed

lemma check_table_fits: "fst (check_table enforce t v) = [] \<longleftrightarrow> value_fits env enforce (Table t) v"
proof (cases v)
  case (JArr rows)
  then show ?thesis using check_rows_fits [of enforce t rows]
    by (cases "check_rows enforce t rows") (auto simp: check_table_def value_fits_def Let_def split: option.split)
qed (auto simp: check_table_def value_fits_def Let_def)

lemma check_field_fits: "fst (check_field env enforce f v) = [] \<longleftrightarrow> value_fits env enforce f v"
  by (cases f) (simp_all add: check_field_def check_scalar_fits check_table_fits)

lemma normalize_values_get:
  assumes "f \<in> set (ct_fields c)"
  shows "dget_or JNull (normalize_values c d) (field_key f) = lookup_nested_value d (field_key f)"
proof -
  have "dget_or JNull (fold (\<lambda>f. AList.update (field_key f) (lookup_nested_value d (field_key f))) fs m) k =
      (if k \<in> field_key ` set fs then lookup_nested_value d k else dget_or JNull m k)" for fs m k
    by (induction fs arbitrary: m) auto
  then show ?thesis using assms by (simp add: normalize_values_def)
qed


end
