(* ===== verification/Spec2Isabelle.thy ===== *)
theory Spec2Isabelle
  imports Plan_Sql_Theorems Plan_Memory_Props Budget_Theorems Runtime_Limits Orchestrator_Theorems Rag_Theorems Rbac_Theorems Memory_Theorems Chat_Theorems Tool_Theorems
    Template_Theorems
begin

text \<open>
  This library verifies the core of the ML Portal backend (\<open>apps/api/src/app\<close>): the runtime that
  turns a user goal into a plan of tasks and runs it, the operation calls of its agents, the budgets and
  limits that bound it, the memory it learns from, the chat turns that carry it to the user, the status machine
  of document ingestion, and role-based access control.

  \<^bold>\<open>The parts and how they interact.\<close> A planner (an LLM call) answers with a patch of a plan. The plan
  store (\<open>runtime/plan_store.py\<close>) validates the patch against the dependency graph and the revision of
  the plan, and keeps tasks, dependencies, needs, attempts and revisions, in memory or in six database
  tables. \<open>GraphOrchestrator.run\<close> (\<open>runtime/orchestrator.py\<close>) loops: it reads a snapshot, claims a ready
  task, has it executed, records the result or failure, asks the planner for a revision when one is
  due, and reports each step in a journal of yielded events and sink observations. Planner calls and task
  attempts are charged against persisted budgets (\<open>services/runtime_budget_service.py\<close>); inside an
  execution, in-memory ledgers (\<open>runtime/budgets\<close>) do the same. The limits come from
  \<open>services/runtime_limits_service.py\<close>.

  A task is executed by an agent: \<open>agents/runtime/agent.py\<close> asks the model in a loop and hands each operation
  call to the facade of \<open>agents/runtime/tools.py\<close>, which resolves it, checks its collection, its arguments
  and its confirmation token (\<open>agents/runtime/confirmation.py\<close>), and answers it from the turn's ledger
  (\<open>runtime/memory/tool_ledger.py\<close>) or by the executor. A message in a chat starts a turn
  (\<open>services/chat_stream_service.py\<close>, \<open>services/chat_turn_orchestrator.py\<close>) in which a run is streamed
  to the client and stored as answer, pause or failure; a paused run is resumed by a later request. What a
  turn teaches is reconciled with the facts and terms of the memory (\<open>runtime/memory\<close>), from which later
  prompts are supplied.

  A spreadsheet with placeholders is a template: its contract (\<open>services/collection/template_contract.py\<close>)
  lists the fields and tables to be filled, is stored as a hierarchical document, merged with every new
  analysis, and validates the values that an agent supplies.

  Independently of runs, documents pass through the stages that
  \<open>services/rag_status_manager.py\<close> guards. Which agents, instances and collections a user reaches is decided
  by the rules of \<open>models/rbac.py\<close>.

  \<^bold>\<open>Theories and sources.\<close>
  \<^item> \<open>Prelude\<close>: JSON values, Python dictionaries as association lists with distinct keys (insertion order
    kept), results that are an exception or a value, string helpers, shared list lemmas.
  \<^item> \<open>Contracts\<close>: the enumerations and validated models of \<open>runtime/orchestrator_contracts.py\<close>; the
    pydantic constraints are predicates ending in \<open>_ok\<close> or a validation function.
  \<^item> \<open>Task_Graph\<close>: \<open>validate_task_graph\<close>, \<open>task_is_ready\<close> and the output contract. The depth-first
    search keeps the recursion of the code; its termination is proved by the number of tasks not on the
    current path.
  \<^item> \<open>Plan_Lifecycle\<close>: the contract of a plan store towards its scheduler, as a locale. Both stores
    interpret it.
  \<^item> \<open>Plan_Sql\<close>: \<open>SqlPlanStore\<close>, one definition per method over the record \<open>db\<close>, whose fields are the
    tables of \<open>models/runtime_plan.py\<close>. A savepoint that fails leaves the database as it was, so a failing
    operation returns the error alone. \<open>Plan_Sql_Inv\<close>, \<open>Plan_Sql_Ops\<close>, \<open>Plan_Sql_Patch\<close>,
    \<open>Plan_Sql_Props\<close> and \<open>Plan_Sql_Reach\<close> hold the effect of each operation, the invariants and the
    inductive set of reachable databases; \<open>Plan_Sql_Theorems\<close> the properties.
  \<^item> \<open>Plan_Memory\<close>, \<open>Plan_Memory_Props\<close>: \<open>InMemoryPlanStore\<close> and the same contract for it.
  \<^item> \<open>Meter\<close>: the contract of a metered resource, as a locale; \<open>Budgets\<close>: \<open>EntityLedger\<close>,
    \<open>RunBudgetRegistry\<close> and \<open>RuntimeBudgetService\<close>; \<open>Budget_Theorems\<close>: ledgers and counters interpret the
    contract, and the properties.
  \<^item> \<open>Runtime_Limits\<close>: \<open>RuntimeLimitsService\<close> with its code defaults and the budget resolver.
  \<^item> \<open>Entity_Ids\<close>: the names under \<open>uuid5\<close> of \<open>runtime/entity_ids.py\<close>.
  \<^item> \<open>Orchestrator\<close>: \<open>GraphOrchestrator.run\<close> branch by branch. The generator's events and the sink's
    observations are one journal in program order, so their interleaving is part of the model. The state
    record \<open>orch\<close> holds the store, the budget tables, the planner invocations, the journal and the local
    variables of the generator that survive a step. \<open>Orchestrator_Props\<close> and \<open>Orchestrator_Journal\<close> prove
    that a run is a sequence of store steps, that its scopes nest, and what it spends;
    \<open>Orchestrator_Theorems\<close> states the properties.
  \<^item> \<open>Rag_Policy\<close> (stage table, aggregate and effective status), \<open>Rag_Status\<close> (node repository and target
    models), \<open>Rag_Manager\<close> (every operation of \<open>RAGStatusManager\<close>), \<open>Rag_Props\<close>, \<open>Rag_Theorems\<close>.
  \<^item> \<open>Rbac\<close> (rule table, repository, rule service, resolution of effective permissions, runtime facade)
    and \<open>Rbac_Theorems\<close>.
  \<^item> \<open>Memory_Facts\<close> (tables, fact store, memory service and selection), \<open>Memory_Reconcile\<close> (fact and
    glossary reconcilers, compactor and the write path of a turn over the record \<open>memory\<close>),
    \<open>Memory_Evidence\<close> (the contract \<open>evidence_base\<close> of knowledge that rests on counted sources, as a
    locale), \<open>Memory_Learning\<close> (its interpretations for facts and terms), \<open>Memory_Settled\<close>,
    \<open>Memory_Selection\<close> and \<open>Memory_Theorems\<close>.
  \<^item> \<open>Chat_Turns\<close> (phases and rows of a turn, messages, idempotency cache; a session holds the tables as it
    sees them and as they are committed), \<open>Chat_Protocol\<close> (terminal statuses, pause payloads, resume
    validation), \<open>Chat_Orchestrator\<close> (\<open>execute_turn\<close>, sending and resuming), \<open>Chat_Facts\<close>, \<open>Chat_Rows\<close>
    (the locale \<open>turn_rows\<close> of predicates on rows that every request keeps, with two interpretations) and
    \<open>Chat_Theorems\<close>.
  \<^item> \<open>Json_Text\<close>: \<open>str()\<close> and \<open>json.dumps\<close> on JSON values. \<open>Tool_Ledger\<close>, \<open>Tool_Confirmation\<close>,
    \<open>Tool_Schema\<close> (arguments, schema and validator) and \<open>Tool_Facade\<close> (one call through its gates);
    \<open>Tool_Agent\<close>: the loop of an agent, whose state \<open>agent_loop\<close> is the code's \<open>AgentLoopState\<close> with the
    ledger, the spent nonces, the executed calls and the yielded events. \<open>Tool_Tokens\<close> proves that a token stays
    spent, \<open>Tool_Loop\<close> the effect of a call and the induction over the loop (the locale
    \<open>agent_invariant\<close>), \<open>Tool_Reach\<close> interprets it by the inductive relation \<open>loop_state\<close> of the states
    of a run; \<open>Tool_Demo\<close> is the run of the concrete instances, \<open>Tool_Theorems\<close> holds the properties.
  \<^item> \<open>Template_Contract\<close> (fields, stored document, reading, merge) and \<open>Template_Values\<close> (schemas, generated
    model, validation); \<open>Template_Tree\<close> and \<open>Template_Roundtrip\<close> (the leaves of the stored tree and how they are
    read), \<open>Template_Schema\<close> (the locale \<open>nested_schema\<close>, interpreted for both schemas), \<open>Template_Theorems\<close>.

  \<^bold>\<open>What the theorems show.\<close> For plans: the stored graph is closed and acyclic and a started task has
  completed dependencies in every reachable state of both stores, and after every run of the orchestrator
  on the persisted store; graph validation accepts exactly the acyclic closed graphs; claiming, results,
  failures, patches and the revision journal do what their callers rely on. For runs: every run ends,
  with a well-nested journal, within its step limit. For budgets: persisted usage stays within the
  cap and the entries account for it. For ingestion: stages move only along the table, starting,
  stopping and retrying reach the promised states, and offered actions succeed. For access control: the
  runtime resolution refines the access check. For operation calls: a guarded operation is executed at most
  once per confirmation token and only for the token's user, chat and arguments, a collection operation
  only after its collection was opened, within the caps of the run, and a reused result is a recent one of the
  same call. For memory: what is confirmed rests on distinct counted sources, reconciling again changes
  nothing, compaction loses no candidate, and the selection hides no disputed value. For chats: every turn
  ends in one way that its row and its frames agree on, a paused run is resumed once, and rows stay
  well-formed. For templates: a stored contract is read back, a merge keeps what an administrator decided,
  the schemas list every field, and values pass exactly when they fit.

  The remaining properties record where the code falls short of what it means to do, among them a claim
  that is not atomic, charges recorded although refused, task ids that are not cleared, a unique constraint
  that never fires, facts that are never replaced, answered turns that block their key, calls that are never
  reused, sessions that are not finished and fields that are lost on storing.

  \<^bold>\<open>Bounds.\<close> The loop of a run recurses over \<open>max_steps\<close>, the bound of the source's own \<open>for\<close> loop, so no
  fuel is added; the loop of an agent recurses over \<open>max_llm_calls\<close> in the same way. Python integers are \<open>int\<close>. The graph search is total, and the validator of arguments recurses over the size of the value. All other loops are
  structural recursion over lists.

  \<^bold>\<open>Parameters.\<close> The planner, the executor, the clock, \<open>uuid5\<close>, the texts of exceptions and the memory
  lookup of a run are functions of its environment; every theorem holds for all of them, except that the
  planner is assumed to return validated patches, which the type of its answer ensures in the code. A
  \<open>uuid4\<close> is a fresh number from a supply. Celery jobs, published events and collection refreshes of the
  ingestion manager are recorded calls. The answers of the model, the executor of operations, SHA-256, PyJWT,
  \<open>jsonschema\<close>, the parser of textual calls, the ranker of facts, the text of floats and, for a chat turn, the
  run of the agents are parameters too. Where a property relies on one of them, the assumption is a named
  predicate: a decoded token has not expired and says the same at all times (\<open>decodes_honestly\<close>), digests
  have at least 16 characters (\<open>long_digests\<close>), the executor does not mark results as reused
  (\<open>executor_never_reuses\<close>), and pydantic reads texts, booleans and integers as they are
  (\<open>reads_exactly\<close>).

  \<^bold>\<open>Not modelled.\<close> Transactions of different sessions are not interleaved, except between the two halves of
  a claim. Display texts, log lines and trace records are left out. Prompts and the reading of free-text model
  answers, HTTP endpoints and their schemas, operation routing and the built-in tools, storage and vector
  adapters, document extraction, the reading and writing of spreadsheets, workers, the web client, the embedding and
  rerank services and the migrations are outside the library: they call third-party code whose behaviour
  the repository does not state, or shape data for display. The administration services are left out as plain
  reads and writes of configuration tables, the sandbox as overrides for test runs.
\<close>

end
